(* ===== verification/Prelude.thy ===== *)
theory Prelude
  imports Main "HOL-Library.Word" "HOL-Library.List_Lexorder"
begin

text \<open>
  Shared ground of the development: the machine integers and byte strings of the Rust
  code, the two fixed-size byte arrays it uses as keys (\<open>Uuid\<close>, sixteen bytes, and
  \<open>GroupMasterKeyBytes\<close>, thirty-two bytes), the \<open>Result\<close> type with the \<open>?\<close> operator,
  and the state-passing form of the \<open>async\<close> methods (each takes the state of the world
  and returns a result together with the new state).
\<close>

unbundle bit_operations_syntax

named_theorems res_simps \<open>unfolding of the Result combinators\<close>
named_theorems io_simps \<open>unfolding of the state-passing combinators\<close>

section \<open>Machine integers and bytes\<close>

type_synonym byte = "8 word"
type_synonym u8 = "8 word"
type_synonym u32 = "32 word"
type_synonym u64 = "64 word"
type_synonym bytes = "byte list"

text \<open>A \<open>char\<close> of a model string is one byte of the UTF-8 text.\<close>

definition byte_char :: "byte \<Rightarrow> char" where "byte_char b = char_of (unat b)"
definition char_byte :: "char \<Rightarrow> byte" where "char_byte c = of_nat (of_char c)"

lemma byte_char_inv [simp]: "char_byte (byte_char b) = b"
proof -
  have "unat b < 2 ^ LENGTH(8)" by (rule unsigned_less)
  then show ?thesis by (simp add: byte_char_def char_byte_def)
qed

lemma char_byte_inv [simp]: "byte_char (char_byte c) = c"
proof -
  have "(of_char c :: nat) < 2 ^ 8" by (simp add: of_char_def)
  then show ?thesis by (simp add: byte_char_def char_byte_def unat_of_nat)
qed

section \<open>Fixed-size byte arrays\<close>

text \<open>\<open>Uuid\<close>: sixteen raw bytes. Its order is the derived one, byte by byte.\<close>

typedef uuid = "{bs :: bytes. length bs = 16}"
  morphisms uuid_bytes Abs_uuid
  by (rule exI [of _ "replicate 16 0"]) simp

lemma length_uuid_bytes [simp]: "length (uuid_bytes u) = 16"
  using uuid_bytes [of u] by simp

definition uuid_from_slice :: "bytes \<Rightarrow> uuid option" where
  "uuid_from_slice bs = (if length bs = 16 then Some (Abs_uuid bs) else None)"

lemma uuid_from_slice_bytes [simp]: "uuid_from_slice (uuid_bytes u) = Some u"
  by (simp add: uuid_from_slice_def uuid_bytes_inverse)

lemma uuid_from_slice_SomeD: "uuid_from_slice bs = Some u \<Longrightarrow> uuid_bytes u = bs"
  by (auto simp: uuid_from_slice_def Abs_uuid_inverse split: if_splits)

lemma uuid_from_slice_None_iff: "uuid_from_slice bs = None \<longleftrightarrow> length bs \<noteq> 16"
  by (simp add: uuid_from_slice_def)

instantiation uuid :: linorder
begin

definition less_eq_uuid :: "uuid \<Rightarrow> uuid \<Rightarrow> bool" where
  "less_eq_uuid a b \<longleftrightarrow> uuid_bytes a \<le> uuid_bytes b"

definition less_uuid :: "uuid \<Rightarrow> uuid \<Rightarrow> bool" where
  "less_uuid a b \<longleftrightarrow> uuid_bytes a < uuid_bytes b"

instance
proof
  fix x y z :: uuid
  show "x < y \<longleftrightarrow> x \<le> y \<and> \<not> y \<le> x"
    unfolding less_eq_uuid_def less_uuid_def by (rule less_le_not_le)
qed (auto simp: less_eq_uuid_def uuid_bytes_inject)

end

instantiation uuid :: equal
begin

definition equal_uuid :: "uuid \<Rightarrow> uuid \<Rightarrow> bool" where
  "equal_uuid a b \<longleftrightarrow> uuid_bytes a = uuid_bytes b"

instance
  by standard (simp add: equal_uuid_def uuid_bytes_inject)

end

text \<open>\<open>GroupMasterKeyBytes\<close> and the other \<open>[u8; 32]\<close> values.\<close>

typedef key32 = "{bs :: bytes. length bs = 32}"
  morphisms key32_bytes Abs_key32
  by (rule exI [of _ "replicate 32 0"]) simp

lemma length_key32_bytes [simp]: "length (key32_bytes k) = 32"
  using key32_bytes [of k] by simp

definition key32_from_slice :: "bytes \<Rightarrow> key32 option" where
  "key32_from_slice bs = (if length bs = 32 then Some (Abs_key32 bs) else None)"

lemma key32_from_slice_bytes [simp]: "key32_from_slice (key32_bytes k) = Some k"
  by (simp add: key32_from_slice_def key32_bytes_inverse)

lemma key32_from_slice_SomeD: "key32_from_slice bs = Some k \<Longrightarrow> key32_bytes k = bs"
  by (auto simp: key32_from_slice_def Abs_key32_inverse split: if_splits)

instantiation key32 :: equal
begin

definition equal_key32 :: "key32 \<Rightarrow> key32 \<Rightarrow> bool" where
  "equal_key32 a b \<longleftrightarrow> key32_bytes a = key32_bytes b"

instance
  by standard (simp add: equal_key32_def key32_bytes_inject)

end

section \<open>Service ids and threads\<close>

text \<open>
  \<open>ServiceId\<close> as the code builds and matches it: an account identity or a phone-number
  identity, each around a \<open>Uuid\<close>. Its string and binary forms belong to libsignal and
  are parameters wherever they are used.
\<close>

datatype service_id = Aci uuid | Pni uuid

fun raw_uuid :: "service_id \<Rightarrow> uuid" where
  "raw_uuid (Aci u) = u"
| "raw_uuid (Pni u) = u"

fun sid_aci :: "service_id \<Rightarrow> uuid option" where
  "sid_aci (Aci u) = Some u"
| "sid_aci (Pni u) = None"

datatype thread = ContactThread service_id | GroupThread key32

section \<open>Result\<close>

definition res_bind :: "'e + 'a \<Rightarrow> ('a \<Rightarrow> 'e + 'b) \<Rightarrow> 'e + 'b" where
  [res_simps]: "res_bind r f = (case r of Inl e \<Rightarrow> Inl e | Inr x \<Rightarrow> f x)"

definition res_map :: "('a \<Rightarrow> 'b) \<Rightarrow> 'e + 'a \<Rightarrow> 'e + 'b" where
  [res_simps]: "res_map f r = (case r of Inl e \<Rightarrow> Inl e | Inr x \<Rightarrow> Inr (f x))"

definition ok_or :: "'e \<Rightarrow> 'a option \<Rightarrow> 'e + 'a" where
  [res_simps]: "ok_or e x = (case x of None \<Rightarrow> Inl e | Some y \<Rightarrow> Inr y)"

definition res_ok :: "'e + 'a \<Rightarrow> 'a option" where
  [res_simps]: "res_ok r = (case r of Inl e \<Rightarrow> None | Inr x \<Rightarrow> Some x)"

definition unwrap_or :: "'a \<Rightarrow> 'e + 'a \<Rightarrow> 'a" where
  [res_simps]: "unwrap_or d r = (case r of Inl e \<Rightarrow> d | Inr x \<Rightarrow> x)"

definition opt_or :: "'a \<Rightarrow> 'a option \<Rightarrow> 'a" where
  [res_simps]: "opt_or d x = (case x of None \<Rightarrow> d | Some y \<Rightarrow> y)"

lemma res_bind_simps [simp]:
  "res_bind (Inl e) f = Inl e" "res_bind (Inr x) f = f x"
  by (simp_all add: res_simps)

lemma res_map_simps [simp]:
  "res_map g (Inl e) = Inl e" "res_map g (Inr x) = Inr (g x)"
  by (simp_all add: res_simps)

lemma ok_or_simps [simp]: "ok_or e None = Inl e" "ok_or e (Some x) = Inr x"
  by (simp_all add: res_simps)

lemma res_ok_simps [simp]: "res_ok (Inl e) = None" "res_ok (Inr x) = Some x"
  by (simp_all add: res_simps)

lemma unwrap_or_simps [simp]: "unwrap_or d (Inl e) = d" "unwrap_or d (Inr x) = x"
  by (simp_all add: res_simps)

lemma opt_or_simps [simp]: "opt_or d None = d" "opt_or d (Some x) = x"
  by (simp_all add: res_simps)

lemma res_bind_InrD: "res_bind r f = Inr y \<Longrightarrow> \<exists>x. r = Inr x \<and> f x = Inr y"
  by (cases r) auto

lemma res_bind_InrE:
  assumes "res_bind r f = Inr y"
  obtains x where "r = Inr x" "f x = Inr y"
  using res_bind_InrD [OF assms] by blast

lemma res_map_Inr_iff: "res_map f r = Inr y \<longleftrightarrow> (\<exists>x. r = Inr x \<and> y = f x)"
  by (cases r) auto

text \<open>\<open>iter.map(f).collect::<Result<Vec<_>, _>>()\<close>: the first error stops the collection.\<close>

fun res_collect :: "('e + 'a) list \<Rightarrow> 'e + 'a list" where
  "res_collect [] = Inr []"
| "res_collect (r # rs) = res_bind r (\<lambda>x. res_map (\<lambda>xs. x # xs) (res_collect rs))"

lemma res_collect_Inr [simp]: "res_collect (map (\<lambda>x. Inr (f x)) xs) = Inr (map f xs)"
  by (induction xs) auto

section \<open>State-passing computations\<close>

text \<open>
  An \<open>async\<close> method of the manager or of the store: it runs in a world \<open>'s\<close> (the local
  store, the storage server and whatever other devices do meanwhile) and returns a
  \<open>Result\<close> and the world it leaves behind. \<open>attempt\<close> is a \<open>match\<close> on the awaited
  result, \<open>bindE\<close> is \<open>?\<close> followed by the rest of the body, \<open>ignore\<close> is a best-effort call
  whose error is logged and dropped.
\<close>

type_synonym ('s, 'e, 'a) io = "'s \<Rightarrow> ('e + 'a) \<times> 's"

definition ok :: "'a \<Rightarrow> ('s, 'e, 'a) io" where
  [io_simps]: "ok x s = (Inr x, s)"

definition err :: "'e \<Rightarrow> ('s, 'e, 'a) io" where
  [io_simps]: "err e s = (Inl e, s)"

definition attempt :: "('s, 'e, 'a) io \<Rightarrow> ('e + 'a \<Rightarrow> ('s, 'f, 'b) io) \<Rightarrow> ('s, 'f, 'b) io" where
  [io_simps]: "attempt m f s = (case m s of (r, s') \<Rightarrow> f r s')"

definition bindE :: "('s, 'e, 'a) io \<Rightarrow> ('a \<Rightarrow> ('s, 'e, 'b) io) \<Rightarrow> ('s, 'e, 'b) io" where
  [io_simps]: "bindE m f s =
     (case m s of (Inl e, s') \<Rightarrow> (Inl e, s') | (Inr x, s') \<Rightarrow> f x s')"

definition thenE :: "('s, 'e, unit) io \<Rightarrow> ('s, 'e, 'b) io \<Rightarrow> ('s, 'e, 'b) io" where
  [io_simps]: "thenE m k = bindE m (\<lambda>_. k)"

definition ignore :: "('s, 'e, 'a) io \<Rightarrow> ('s, 'f, 'b) io \<Rightarrow> ('s, 'f, 'b) io" where
  [io_simps]: "ignore m k = attempt m (\<lambda>_. k)"

definition map_err :: "('e \<Rightarrow> 'f) \<Rightarrow> ('s, 'e, 'a) io \<Rightarrow> ('s, 'f, 'a) io" where
  [io_simps]: "map_err g m s =
     (case m s of (Inl e, s') \<Rightarrow> (Inl (g e), s') | (Inr x, s') \<Rightarrow> (Inr x, s'))"

definition lift_res :: "'e + 'a \<Rightarrow> ('s, 'e, 'a) io" where
  [io_simps]: "lift_res r s = (r, s)"

text \<open>\<open>for x in xs { body }\<close> with \<open>?\<close> inside the body, and its best-effort form.\<close>

fun for_each :: "'a list \<Rightarrow> ('a \<Rightarrow> ('s, 'e, unit) io) \<Rightarrow> ('s, 'e, unit) io" where
  "for_each [] f = ok ()"
| "for_each (x # xs) f = thenE (f x) (for_each xs f)"

fun for_each_ignore :: "'a list \<Rightarrow> ('a \<Rightarrow> ('s, 'e, unit) io) \<Rightarrow> 's \<Rightarrow> 's" where
  "for_each_ignore [] f s = s"
| "for_each_ignore (x # xs) f s = for_each_ignore xs f (snd (f x s))"

lemma bindE_Inr: "m s = (Inr x, s') \<Longrightarrow> bindE m f s = f x s'"
  by (simp add: io_simps)

lemma bindE_Inl: "m s = (Inl e, s') \<Longrightarrow> bindE m f s = (Inl e, s')"
  by (simp add: io_simps)

lemma bindE_InrE:
  assumes "bindE m f s = (Inr y, t)"
  obtains x s' where "m s = (Inr x, s')" "f x s' = (Inr y, t)"
  using assms by (auto simp: io_simps split: prod.splits sum.splits)

lemma thenE_InrE:
  assumes "thenE m k s = (Inr y, t)"
  obtains s' where "m s = (Inr (), s')" "k s' = (Inr y, t)"
  using assms by (auto simp: thenE_def elim!: bindE_InrE)

text \<open>
  The rule for frame conditions and invariants of a computation: what \<open>m\<close> keeps and
  its continuation keeps is kept by the sequence, whichever way either ends.
\<close>

definition keeps :: "('s \<Rightarrow> bool) \<Rightarrow> ('s, 'e, 'a) io \<Rightarrow> bool" where
  "keeps P m \<longleftrightarrow> (\<forall>s. P s \<longrightarrow> P (snd (m s)))"

lemma keepsD: "keeps P m \<Longrightarrow> P s \<Longrightarrow> P (snd (m s))"
  by (simp add: keeps_def)

lemma keeps_ok [intro!, simp]: "keeps P (ok x)"
  by (simp add: keeps_def io_simps)

lemma keeps_err [intro!, simp]: "keeps P (err e)"
  by (simp add: keeps_def io_simps)

lemma keeps_lift_res [intro!, simp]: "keeps P (lift_res r)"
  by (simp add: keeps_def io_simps)

lemma keeps_attempt [intro]:
  "keeps P m \<Longrightarrow> (\<And>r. keeps P (f r)) \<Longrightarrow> keeps P (attempt m f)"
  by (fastforce simp: keeps_def io_simps split: prod.splits)

lemma keeps_bindE [intro]:
  "keeps P m \<Longrightarrow> (\<And>x. keeps P (f x)) \<Longrightarrow> keeps P (bindE m f)"
  unfolding keeps_def bindE_def
  by (fastforce split: prod.splits sum.splits)

lemma keeps_thenE [intro]: "keeps P m \<Longrightarrow> keeps P k \<Longrightarrow> keeps P (thenE m k)"
  unfolding thenE_def by blast

lemma keeps_ignore [intro]: "keeps P m \<Longrightarrow> keeps P k \<Longrightarrow> keeps P (ignore m k)"
  unfolding ignore_def by blast

lemma keeps_map_err [intro]: "keeps P m \<Longrightarrow> keeps P (map_err g m)"
  unfolding keeps_def map_err_def
  by (fastforce split: prod.splits sum.splits)

lemma keeps_for_each [intro]: "(\<And>x. x \<in> set xs \<Longrightarrow> keeps P (f x)) \<Longrightarrow> keeps P (for_each xs f)"
  by (induction xs) auto

lemma for_each_ignore_keeps:
  "(\<And>x. x \<in> set xs \<Longrightarrow> keeps P (f x)) \<Longrightarrow> P s \<Longrightarrow> P (for_each_ignore xs f s)"
  by (induction xs arbitrary: s) (auto dest: keepsD)

section \<open>Slices in chunks\<close>

text \<open>\<open>slice.chunks(n)\<close>, with the fuel of one step per element.\<close>

fun chunks_fuel :: "nat \<Rightarrow> nat \<Rightarrow> 'a list \<Rightarrow> 'a list list" where
  "chunks_fuel 0 n xs = []"
| "chunks_fuel (Suc k) n xs = (if xs = [] then [] else take n xs # chunks_fuel k n (drop n xs))"

definition chunks :: "nat \<Rightarrow> 'a list \<Rightarrow> 'a list list" where
  "chunks n xs = chunks_fuel (length xs) n xs"

lemma concat_chunks: "0 < n \<Longrightarrow> concat (chunks n xs) = xs"
proof -
  assume n: "0 < n"
  have "length xs \<le> k \<Longrightarrow> concat (chunks_fuel k n xs) = xs" for k
  proof (induction k arbitrary: xs)
    case (Suc k)
    show ?case
    proof (cases "xs = []")
      case False
      then have "length (drop n xs) \<le> k" using n Suc.prems by (cases xs) auto
      from Suc.IH [OF this] False show ?thesis by simp
    qed simp
  qed simp
  then show ?thesis by (simp add: chunks_def)
qed

lemma chunks_bounds: "0 < n \<Longrightarrow> c \<in> set (chunks n xs) \<Longrightarrow> 0 < length c \<and> length c \<le> n"
proof -
  assume n: "0 < n"
  have "c \<in> set (chunks_fuel k n xs) \<Longrightarrow> 0 < length c \<and> length c \<le> n" for k
    by (induction k arbitrary: xs) (use n in \<open>auto split: if_splits\<close>)
  then show "c \<in> set (chunks n xs) \<Longrightarrow> 0 < length c \<and> length c \<le> n" by (auto simp: chunks_def)
qed

text \<open>\<open>join_all\<close> over futures that share nothing but the store: each runs to its end, and every result is kept.\<close>

fun run_all :: "('s, 'e, 'a) io list \<Rightarrow> 's \<Rightarrow> ('e + 'a) list \<times> 's" where
  "run_all [] s = ([], s)"
| "run_all (m # ms) s = (let (r, s1) = m s; (rs, s2) = run_all ms s1 in (r # rs, s2))"

end
