(* ===== verification/Wire.thy ===== *)
theory Wire
  imports Prelude
begin

text \<open>
  \<open>presage/src/storage_record.rs\<close>: editing storage-service records on the wire format,
  without decoding and re-encoding them. The first part translates the code (the varint
  reader and writer, the field scanner, the one-field editor and the record-level getters
  and setters built from it); positions are \<open>nat\<close> indices into the message and ranges
  are pairs of them. The second part relates the position-based scanner to a list of
  fields (number, wire type, raw bytes, payload), on which every property is stated.
\<close>

section \<open>The code\<close>

datatype edit_error = Malformed | WrongRecordType | AmbiguousRecord

definition STORAGE_RECORD_CONTACT :: u32 where "STORAGE_RECORD_CONTACT = 1"
definition STORAGE_RECORD_GROUP_V2 :: u32 where "STORAGE_RECORD_GROUP_V2 = 3"
definition STORAGE_RECORD_CHAT_FOLDER :: u32 where "STORAGE_RECORD_CHAT_FOLDER = 8"
definition STORAGE_RECORD_STICKER_PACK :: u32 where "STORAGE_RECORD_STICKER_PACK = 6"
definition STORAGE_RECORD_ACCOUNT :: u32 where "STORAGE_RECORD_ACCOUNT = 4"
definition ACCOUNT_RECORD_NOTE_TO_SELF_ARCHIVED :: u32 where
  "ACCOUNT_RECORD_NOTE_TO_SELF_ARCHIVED = 5"
definition ACCOUNT_RECORD_PINNED_CONVERSATIONS :: u32 where
  "ACCOUNT_RECORD_PINNED_CONVERSATIONS = 14"
definition ACCOUNT_RECORD_KEEP_MUTED_CHATS_ARCHIVED :: u32 where
  "ACCOUNT_RECORD_KEEP_MUTED_CHATS_ARCHIVED = 25"
definition CHAT_FOLDER_RECORD_KNOWN_FIELDS :: "u32 \<Rightarrow> bool" where
  "CHAT_FOLDER_RECORD_KNOWN_FIELDS n \<longleftrightarrow> 1 \<le> n \<and> n \<le> 11"
definition CONTACT_RECORD_BLOCKED :: u32 where "CONTACT_RECORD_BLOCKED = 9"
definition CONTACT_RECORD_ARCHIVED :: u32 where "CONTACT_RECORD_ARCHIVED = 11"
definition CONTACT_RECORD_MUTED_UNTIL :: u32 where "CONTACT_RECORD_MUTED_UNTIL = 13"
definition GROUP_V2_RECORD_ARCHIVED :: u32 where "GROUP_V2_RECORD_ARCHIVED = 4"
definition GROUP_V2_RECORD_MUTED_UNTIL :: u32 where "GROUP_V2_RECORD_MUTED_UNTIL = 6"
definition STICKER_PACK_RECORD_KEY :: u32 where "STICKER_PACK_RECORD_KEY = 2"
definition STICKER_PACK_RECORD_POSITION :: u32 where "STICKER_PACK_RECORD_POSITION = 3"
definition STICKER_PACK_RECORD_DELETED_AT :: u32 where "STICKER_PACK_RECORD_DELETED_AT = 4"

lemmas field_number_defs =
  STORAGE_RECORD_CONTACT_def STORAGE_RECORD_GROUP_V2_def STORAGE_RECORD_CHAT_FOLDER_def
  STORAGE_RECORD_STICKER_PACK_def STORAGE_RECORD_ACCOUNT_def
  ACCOUNT_RECORD_NOTE_TO_SELF_ARCHIVED_def ACCOUNT_RECORD_PINNED_CONVERSATIONS_def
  ACCOUNT_RECORD_KEEP_MUTED_CHATS_ARCHIVED_def CONTACT_RECORD_BLOCKED_def
  CONTACT_RECORD_ARCHIVED_def CONTACT_RECORD_MUTED_UNTIL_def GROUP_V2_RECORD_ARCHIVED_def
  GROUP_V2_RECORD_MUTED_UNTIL_def STICKER_PACK_RECORD_KEY_def
  STICKER_PACK_RECORD_POSITION_def STICKER_PACK_RECORD_DELETED_AT_def

definition WIRE_VARINT :: u8 where "WIRE_VARINT = 0"
definition WIRE_I64 :: u8 where "WIRE_I64 = 1"
definition WIRE_LEN :: u8 where "WIRE_LEN = 2"
definition WIRE_I32 :: u8 where "WIRE_I32 = 5"

lemmas wire_type_defs = WIRE_VARINT_def WIRE_I64_def WIRE_LEN_def WIRE_I32_def

text \<open>A half-open range of positions, \<open>Range<usize>\<close>, and the slice it selects.\<close>

type_synonym range = "nat \<times> nat"

definition slice :: "bytes \<Rightarrow> range \<Rightarrow> bytes" where
  "slice msg r = take (snd r - fst r) (drop (fst r) msg)"

record field_span =
  number :: u32
  wire_type :: u8
  whole :: range
  payload :: range

text \<open>\<open>for shift in (0..64).step_by(7)\<close>: ten rounds, after which the varint is malformed.\<close>

fun read_varint_loop :: "nat list \<Rightarrow> bytes \<Rightarrow> nat \<Rightarrow> u64 \<Rightarrow> edit_error + (u64 \<times> nat)" where
  "read_varint_loop [] msg pos value = Inl Malformed"
| "read_varint_loop (shift # shifts) msg pos value =
     (if pos < length msg then
        let byte = msg ! pos;
            value' = value OR push_bit shift (ucast (byte AND 0x7f))
        in if byte AND 0x80 = 0 then Inr (value', pos + 1)
           else read_varint_loop shifts msg (pos + 1) value'
      else Inl Malformed)"

definition varint_shifts :: "nat list" where
  "varint_shifts = [0, 7, 14, 21, 28, 35, 42, 49, 56, 63]"

definition read_varint :: "bytes \<Rightarrow> nat \<Rightarrow> edit_error + (u64 \<times> nat)" where
  "read_varint msg pos = read_varint_loop varint_shifts msg pos 0"

text \<open>
  \<open>advance\<close> returns the old position and leaves \<open>pos\<close> at the end. The code adds with
  \<open>checked_add\<close>; a sum that does not fit in a \<open>usize\<close> is above the length of every slice,
  so on \<open>nat\<close> both of its tests are the one comparison with \<open>len\<close>.
\<close>

definition advance :: "nat \<Rightarrow> nat \<Rightarrow> nat \<Rightarrow> edit_error + (nat \<times> nat)" where
  "advance pos by len = (if pos + by > len then Inl Malformed else Inr (pos, pos + by))"

definition scan_payload :: "bytes \<Rightarrow> u8 \<Rightarrow> nat \<Rightarrow> edit_error + (nat \<times> nat)" where
  "scan_payload msg wt pos =
     (if wt = WIRE_VARINT then res_map (\<lambda>(_, pos'). (pos, pos')) (read_varint msg pos)
      else if wt = WIRE_I64 then advance pos 8 (length msg)
      else if wt = WIRE_LEN then
        res_bind (read_varint msg pos) (\<lambda>(len, pos'). advance pos' (unat len) (length msg))
      else if wt = WIRE_I32 then advance pos 4 (length msg)
      else Inl Malformed)"

text \<open>One round of the loop of \<open>scan\<close>: the field at \<open>start\<close> and the position after it.\<close>

definition scan_field :: "bytes \<Rightarrow> nat \<Rightarrow> edit_error + (field_span \<times> nat)" where
  "scan_field msg start =
     res_bind (read_varint msg start) (\<lambda>(tag, pos).
       let num = ucast (drop_bit 3 tag) :: u32;
           wt = ucast (tag AND 0x07) :: u8
       in if num = 0 then Inl Malformed
          else res_map (\<lambda>(from, pos').
                 (\<lparr>number = num, wire_type = wt, whole = (start, pos'), payload = (from, pos')\<rparr>,
                  pos'))
               (scan_payload msg wt pos))"

lemma read_varint_loop_pos:
  "read_varint_loop shifts msg pos acc = Inr (v, p) \<Longrightarrow> pos < p \<and> p \<le> length msg"
proof (induction shifts msg pos acc rule: read_varint_loop.induct)
  case (2 shift shifts msg pos v0)
  then show ?case by (fastforce simp: Let_def split: if_splits)
qed simp

lemma read_varint_pos: "read_varint msg pos = Inr (v, p) \<Longrightarrow> pos < p \<and> p \<le> length msg"
  unfolding read_varint_def by (rule read_varint_loop_pos)

lemma advance_Inr_iff:
  "advance pos by len = Inr (a, b) \<longleftrightarrow> a = pos \<and> b = pos + by \<and> b \<le> len"
  by (auto simp: advance_def)

lemma scan_payload_pos:
  "scan_payload msg wt pos = Inr (a, b) \<Longrightarrow> pos \<le> a \<and> a \<le> b \<and> (b \<le> length msg)"
  by (auto simp: scan_payload_def advance_Inr_iff res_map_Inr_iff
           dest!: res_bind_InrD read_varint_pos split: if_splits prod.splits)

lemma scan_field_pos:
  assumes "scan_field msg start = Inr (sp, p)"
  shows "start < p \<and> p \<le> length msg"
proof -
  obtain tag pos where rv: "read_varint msg start = Inr (tag, pos)"
    using assms unfolding scan_field_def by (cases "read_varint msg start") auto
  with assms obtain wt a where "scan_payload msg wt pos = Inr (a, p)"
    unfolding scan_field_def by (auto simp: Let_def res_map_Inr_iff split: if_splits prod.splits)
  with read_varint_pos [OF rv] show ?thesis by (auto dest: scan_payload_pos)
qed

function scan_from :: "bytes \<Rightarrow> nat \<Rightarrow> edit_error + field_span list" where
  "scan_from msg pos =
     (if pos < length msg then
        (case scan_field msg pos of
           Inl e \<Rightarrow> Inl e
         | Inr (sp, pos') \<Rightarrow> res_map (\<lambda>sps. sp # sps) (scan_from msg pos'))
      else Inr [])"
  by pat_completeness auto
termination
  by (relation "measure (\<lambda>(msg, pos). length msg - pos)") (auto dest!: scan_field_pos)

declare scan_from.simps [simp del]

definition scan :: "bytes \<Rightarrow> edit_error + field_span list" where
  "scan msg = scan_from msg 0"

text \<open>
  \<open>set_field\<close>: the loop over the spans carries the output and the flag \<open>placed\<close>; the
  replacement is appended when no occurrence took it.
\<close>

fun set_field_loop :: "bytes \<Rightarrow> u32 \<Rightarrow> bytes option \<Rightarrow> field_span list \<Rightarrow> bytes \<times> bool \<Rightarrow> bytes \<times> bool" where
  "set_field_loop msg num repl [] (out, placed) = (out, placed)"
| "set_field_loop msg num repl (span # spans) (out, placed) =
     set_field_loop msg num repl spans
       (if number span = num then
          (case repl of
             Some bs \<Rightarrow> if \<not> placed then (out @ bs, True) else (out, placed)
           | None \<Rightarrow> (out, placed))
        else (out @ slice msg (whole span), placed))"

definition set_field :: "bytes \<Rightarrow> u32 \<Rightarrow> bytes option \<Rightarrow> edit_error + bytes" where
  "set_field msg num repl =
     res_bind (scan msg) (\<lambda>spans.
       let (out, placed) = set_field_loop msg num repl spans ([], False)
       in Inr (if \<not> placed then (case repl of Some bs \<Rightarrow> out @ bs | None \<Rightarrow> out) else out))"

function encode_varint :: "u64 \<Rightarrow> bytes" where
  "encode_varint value =
     (if value \<ge> 0x80 then (ucast value OR 0x80) # encode_varint (drop_bit 7 value)
      else [ucast value])"
  by pat_completeness auto
termination
proof (relation "measure unat")
  fix v :: u64
  assume "0x80 \<le> v"
  then have pos: "0 < unat v" by (simp add: word_le_nat_alt)
  have "unat (drop_bit 7 v) = unat v div 2 ^ 7"
    by (simp add: drop_bit_eq_div unat_div)
  also have "\<dots> < unat v" using pos by simp
  finally show "(drop_bit 7 v, v) \<in> measure unat" by simp
qed simp

declare encode_varint.simps [simp del]

definition encode_tag :: "u32 \<Rightarrow> u8 \<Rightarrow> bytes" where
  "encode_tag num wt = encode_varint (push_bit 3 (ucast num) OR ucast wt)"

definition encode_varint_field :: "u32 \<Rightarrow> u64 \<Rightarrow> bytes" where
  "encode_varint_field num value = encode_tag num WIRE_VARINT @ encode_varint value"

definition encode_len_delimited :: "u32 \<Rightarrow> bytes \<Rightarrow> bytes" where
  "encode_len_delimited num pl =
     encode_tag num WIRE_LEN @ encode_varint (of_nat (length pl)) @ pl"

definition record_payload :: "bytes \<Rightarrow> u32 \<Rightarrow> edit_error + range" where
  "record_payload rec record_field =
     res_bind (scan rec) (\<lambda>spans.
       case filter (\<lambda>s. number s = record_field) spans of
         [] \<Rightarrow> Inl WrongRecordType
       | [first] \<Rightarrow> Inr (payload first)
       | _ # _ # _ \<Rightarrow> Inl AmbiguousRecord)"

definition record_varint_field :: "bytes \<Rightarrow> u32 \<Rightarrow> u32 \<Rightarrow> edit_error + u64" where
  "record_varint_field rec record_field num =
     res_bind (record_payload rec record_field) (\<lambda>pl.
       let inner = slice rec pl in
       res_bind (scan inner) (\<lambda>spans.
         case find (\<lambda>s. number s = num) (rev spans) of
           None \<Rightarrow> Inr 0
         | Some span \<Rightarrow>
             if wire_type span \<noteq> WIRE_VARINT then Inl Malformed
             else res_map fst (read_varint inner (fst (payload span)))))"

definition set_record_field :: "bytes \<Rightarrow> u32 \<Rightarrow> u32 \<Rightarrow> bytes option \<Rightarrow> edit_error + bytes" where
  "set_record_field rec record_field num repl =
     res_bind (record_payload rec record_field) (\<lambda>pl.
       res_bind (set_field (slice rec pl) num repl) (\<lambda>new_inner.
         set_field rec record_field (Some (encode_len_delimited record_field new_inner))))"

definition record_bool_field :: "bytes \<Rightarrow> u32 \<Rightarrow> u32 \<Rightarrow> edit_error + bool" where
  "record_bool_field rec record_field num =
     res_map (\<lambda>v. v \<noteq> 0) (record_varint_field rec record_field num)"

definition set_bool_field :: "bytes \<Rightarrow> u32 \<Rightarrow> u32 \<Rightarrow> bool \<Rightarrow> edit_error + bytes" where
  "set_bool_field rec record_field num value =
     set_record_field rec record_field num
       (if value then Some (encode_varint_field num 1) else None)"

definition set_varint_field_or_remove :: "bytes \<Rightarrow> u32 \<Rightarrow> u32 \<Rightarrow> u64 \<Rightarrow> edit_error + bytes" where
  "set_varint_field_or_remove rec record_field num value =
     set_record_field rec record_field num
       (if value \<noteq> 0 then Some (encode_varint_field num value) else None)"

definition contact_blocked :: "bytes \<Rightarrow> edit_error + bool" where
  "contact_blocked rec = record_bool_field rec STORAGE_RECORD_CONTACT CONTACT_RECORD_BLOCKED"

definition set_contact_blocked :: "bytes \<Rightarrow> bool \<Rightarrow> edit_error + bytes" where
  "set_contact_blocked rec blocked =
     set_bool_field rec STORAGE_RECORD_CONTACT CONTACT_RECORD_BLOCKED blocked"

definition contact_muted_until :: "bytes \<Rightarrow> edit_error + u64" where
  "contact_muted_until rec =
     record_varint_field rec STORAGE_RECORD_CONTACT CONTACT_RECORD_MUTED_UNTIL"

definition set_contact_muted_until :: "bytes \<Rightarrow> u64 \<Rightarrow> edit_error + bytes" where
  "set_contact_muted_until rec muted_until =
     set_varint_field_or_remove rec STORAGE_RECORD_CONTACT CONTACT_RECORD_MUTED_UNTIL muted_until"

definition group_muted_until :: "bytes \<Rightarrow> edit_error + u64" where
  "group_muted_until rec =
     record_varint_field rec STORAGE_RECORD_GROUP_V2 GROUP_V2_RECORD_MUTED_UNTIL"

definition set_group_muted_until :: "bytes \<Rightarrow> u64 \<Rightarrow> edit_error + bytes" where
  "set_group_muted_until rec muted_until =
     set_varint_field_or_remove rec STORAGE_RECORD_GROUP_V2 GROUP_V2_RECORD_MUTED_UNTIL muted_until"

definition contact_archived :: "bytes \<Rightarrow> edit_error + bool" where
  "contact_archived rec = record_bool_field rec STORAGE_RECORD_CONTACT CONTACT_RECORD_ARCHIVED"

definition set_contact_archived :: "bytes \<Rightarrow> bool \<Rightarrow> edit_error + bytes" where
  "set_contact_archived rec archived =
     set_bool_field rec STORAGE_RECORD_CONTACT CONTACT_RECORD_ARCHIVED archived"

definition group_archived :: "bytes \<Rightarrow> edit_error + bool" where
  "group_archived rec = record_bool_field rec STORAGE_RECORD_GROUP_V2 GROUP_V2_RECORD_ARCHIVED"

definition set_group_archived :: "bytes \<Rightarrow> bool \<Rightarrow> edit_error + bytes" where
  "set_group_archived rec archived =
     set_bool_field rec STORAGE_RECORD_GROUP_V2 GROUP_V2_RECORD_ARCHIVED archived"

definition account_note_to_self_archived :: "bytes \<Rightarrow> edit_error + bool" where
  "account_note_to_self_archived rec =
     record_bool_field rec STORAGE_RECORD_ACCOUNT ACCOUNT_RECORD_NOTE_TO_SELF_ARCHIVED"

definition set_account_note_to_self_archived :: "bytes \<Rightarrow> bool \<Rightarrow> edit_error + bytes" where
  "set_account_note_to_self_archived rec archived =
     set_bool_field rec STORAGE_RECORD_ACCOUNT ACCOUNT_RECORD_NOTE_TO_SELF_ARCHIVED archived"

definition account_keep_muted_chats_archived :: "bytes \<Rightarrow> edit_error + bool" where
  "account_keep_muted_chats_archived rec =
     record_bool_field rec STORAGE_RECORD_ACCOUNT ACCOUNT_RECORD_KEEP_MUTED_CHATS_ARCHIVED"

text \<open>\<open>PinnedConversation\<close> (\<open>model/account.rs\<close>) is the bytes of one entry.\<close>

definition encode_pinned_conversations :: "bytes list \<Rightarrow> bytes" where
  "encode_pinned_conversations pinned =
     concat (map (encode_len_delimited ACCOUNT_RECORD_PINNED_CONVERSATIONS) pinned)"

definition decode_pinned_conversations :: "bytes \<Rightarrow> edit_error + bytes list" where
  "decode_pinned_conversations bs =
     res_bind (scan bs) (\<lambda>spans.
       res_collect (map (\<lambda>span.
           if wire_type span = WIRE_LEN then Inr (slice bs (payload span)) else Inl Malformed)
         (filter (\<lambda>span. number span = ACCOUNT_RECORD_PINNED_CONVERSATIONS) spans)))"

definition account_pinned_conversations :: "bytes \<Rightarrow> edit_error + bytes list" where
  "account_pinned_conversations rec =
     res_bind (record_payload rec STORAGE_RECORD_ACCOUNT)
       (\<lambda>pl. decode_pinned_conversations (slice rec pl))"

definition set_account_pinned_conversations :: "bytes \<Rightarrow> bytes list \<Rightarrow> edit_error + bytes" where
  "set_account_pinned_conversations rec pinned =
     (let entries = encode_pinned_conversations pinned in
      set_record_field rec STORAGE_RECORD_ACCOUNT ACCOUNT_RECORD_PINNED_CONVERSATIONS
        (if pinned \<noteq> [] then Some entries else None))"

definition chat_folder_unknown_fields :: "bytes \<Rightarrow> edit_error + bytes" where
  "chat_folder_unknown_fields rec =
     res_bind (record_payload rec STORAGE_RECORD_CHAT_FOLDER) (\<lambda>pl.
       let inner = slice rec pl in
       res_map (\<lambda>spans. concat (map (\<lambda>s. slice inner (whole s))
                  (filter (\<lambda>s. \<not> CHAT_FOLDER_RECORD_KNOWN_FIELDS (number s)) spans)))
         (scan inner))"

end
