(* ===== verification/Wire_Fields.thy ===== *)
theory Wire_Fields
  imports Wire
begin

text \<open>
  The scanner of \<open>Wire\<close> seen as a parser into a list of fields. The central fact is
  \<open>fields_iff\<close>: a message scans into \<open>fs\<close> exactly when it is the concatenation of the raw
  bytes of \<open>fs\<close> and each of them is one well-formed field. Editing a message then is
  editing the list.
\<close>

section \<open>What a read depends on\<close>

lemma take_length_le: "take p ys = take p xs \<Longrightarrow> p \<le> length xs \<Longrightarrow> p \<le> length ys"
  by (metis length_take min.absorb_iff2 min.cobounded1 min_def)

lemma read_varint_loop_local:
  "read_varint_loop shifts msg pos acc = Inr (v, p) \<Longrightarrow> take p msg' = take p msg \<Longrightarrow>
   read_varint_loop shifts msg' pos acc = Inr (v, p)"
proof (induction shifts msg pos acc rule: read_varint_loop.induct)
  case (2 shift shifts msg pos v0)
  from read_varint_loop_pos [OF 2(2)] have "pos < p" "p \<le> length msg" by auto
  with 2(3) have "pos < length msg'" "msg' ! pos = msg ! pos"
    by (auto dest: take_length_le) (metis nth_take)
  with 2 show ?case by (auto simp: Let_def split: if_splits)
qed simp

lemma read_varint_local:
  "read_varint msg pos = Inr (v, p) \<Longrightarrow> take p msg' = take p msg \<Longrightarrow> read_varint msg' pos = Inr (v, p)"
  unfolding read_varint_def by (rule read_varint_loop_local)

lemma take_mono_eq: "take p ys = take p xs \<Longrightarrow> q \<le> p \<Longrightarrow> take q ys = take q xs"
  by (metis min.absorb1 take_take)

lemma scan_payload_local:
  assumes "scan_payload msg wt pos = Inr (a, b)" "take b msg' = take b msg"
  shows "scan_payload msg' wt pos = Inr (a, b)"
proof -
  have b: "b \<le> length msg'"
    using scan_payload_pos [OF assms(1)] take_length_le [OF assms(2)] by simp
  show ?thesis
  proof (cases "wt = WIRE_LEN")
    case True
    with assms(1) obtain l q where "read_varint msg pos = Inr (l, q)" "q = a" "b = q + unat l"
      by (auto simp: scan_payload_def wire_type_defs advance_Inr_iff dest!: res_bind_InrD)
    moreover from this have "take q msg' = take q msg"
      using take_mono_eq [OF assms(2), of q] by simp
    ultimately show ?thesis
      using True b by (auto simp: scan_payload_def wire_type_defs advance_def dest: read_varint_local)
  next
    case False
    with assms b show ?thesis
      by (auto simp: scan_payload_def advance_def res_map_Inr_iff dest: read_varint_local split: if_splits)
  qed
qed

lemma scan_field_local:
  assumes "scan_field msg start = Inr (sp, p)" "take p msg' = take p msg"
  shows "scan_field msg' start = Inr (sp, p)"
proof -
  obtain tag pos where rv: "read_varint msg start = Inr (tag, pos)"
    using assms(1) unfolding scan_field_def by (cases "read_varint msg start") auto
  with assms(1) obtain a where n: "(ucast (drop_bit 3 tag) :: u32) \<noteq> 0"
    and sp: "scan_payload msg (ucast (tag AND 0x07)) pos = Inr (a, p)"
    unfolding scan_field_def by (auto simp: Let_def res_map_Inr_iff split: if_splits)
  from scan_payload_pos [OF sp] have "pos \<le> p" by simp
  with assms(2) have "take pos msg' = take pos msg" by (rule take_mono_eq)
  from read_varint_local [OF rv this] scan_payload_local [OF sp assms(2)] n assms(1) rv sp
  show ?thesis unfolding scan_field_def by (simp add: Let_def)
qed

section \<open>Moving a message behind a prefix\<close>

definition shift_range :: "nat \<Rightarrow> range \<Rightarrow> range" where
  "shift_range n r = (n + fst r, n + snd r)"

definition shift_span :: "nat \<Rightarrow> field_span \<Rightarrow> field_span" where
  "shift_span n sp = sp\<lparr>whole := shift_range n (whole sp), payload := shift_range n (payload sp)\<rparr>"

lemma slice_shift [simp]: "slice (pre @ msg) (shift_range (length pre) r) = slice msg r"
  by (simp add: slice_def shift_range_def)

lemma read_varint_loop_shift:
  "read_varint_loop shifts (pre @ msg) (length pre + pos) acc =
   res_map (\<lambda>(v, p). (v, length pre + p)) (read_varint_loop shifts msg pos acc)"
  by (induction shifts msg pos acc rule: read_varint_loop.induct) (auto simp: Let_def)

lemma read_varint_shift:
  "read_varint (pre @ msg) (length pre + pos) =
   res_map (\<lambda>(v, p). (v, length pre + p)) (read_varint msg pos)"
  unfolding read_varint_def by (rule read_varint_loop_shift)

lemma scan_payload_shift:
  "scan_payload (pre @ msg) wt (length pre + pos) = res_map (shift_range (length pre)) (scan_payload msg wt pos)"
  by (cases "read_varint msg pos")
     (auto simp: scan_payload_def advance_def shift_range_def read_varint_shift)

lemma scan_field_shift:
  "scan_field (pre @ msg) (length pre + pos) =
   res_map (\<lambda>(sp, p). (shift_span (length pre) sp, length pre + p)) (scan_field msg pos)"
proof (cases "read_varint msg pos")
  case (Inr r)
  obtain tag p where r: "r = (tag, p)" by (cases r)
  show ?thesis
    by (cases "scan_payload msg (ucast (tag AND 7)) p")
       (auto simp: scan_field_def read_varint_shift Inr r scan_payload_shift Let_def
          shift_span_def shift_range_def)
qed (simp add: scan_field_def read_varint_shift)

lemma scan_from_shift:
  "scan_from (pre @ msg) (length pre + pos) =
   res_map (map (shift_span (length pre))) (scan_from msg pos)"
proof (induction msg pos rule: scan_from.induct)
  case (1 msg pos)
  show ?case
  proof (cases "pos < length msg")
    case True
    show ?thesis
    proof (cases "scan_field msg pos")
      case (Inl e)
      then show ?thesis
        by (simp add: scan_from.simps [of msg pos] scan_from.simps [of "pre @ msg"] scan_field_shift)
    next
      case (Inr r)
      obtain sp p where r: "r = (sp, p)" by (cases r)
      show ?thesis
        using True 1 [OF True Inr r [symmetric]]
        by (cases "scan_from msg p")
           (simp_all add: scan_from.simps [of msg pos] scan_from.simps [of "pre @ msg" "length pre + pos"]
              scan_field_shift Inr r)
    qed
  qed (simp add: scan_from.simps)
qed

section \<open>Messages as lists of fields\<close>

record wire_field =
  f_num :: u32
  f_wt :: u8
  f_raw :: bytes
  f_pl :: bytes

definition field_of :: "bytes \<Rightarrow> field_span \<Rightarrow> wire_field" where
  "field_of msg sp =
     \<lparr>f_num = number sp, f_wt = wire_type sp, f_raw = slice msg (whole sp), f_pl = slice msg (payload sp)\<rparr>"

definition wire_fields :: "bytes \<Rightarrow> edit_error + wire_field list" where
  "wire_fields msg = res_map (map (field_of msg)) (scan msg)"

text \<open>\<open>f\<close> is one field on its own: its raw bytes scan as exactly it.\<close>

definition wf_field :: "wire_field \<Rightarrow> bool" where
  "wf_field f \<longleftrightarrow> (\<exists>sp. scan_field (f_raw f) 0 = Inr (sp, length (f_raw f)) \<and> field_of (f_raw f) sp = f)"

lemma field_of_shift [simp]: "field_of (pre @ msg) (shift_span (length pre) sp) = field_of msg sp"
  by (simp add: field_of_def shift_span_def)

lemma fields_Nil [simp]: "wire_fields [] = Inr []"
  by (simp add: wire_fields_def scan_def scan_from.simps)

lemma slice_append1: "snd r \<le> length xs \<Longrightarrow> slice (xs @ ys) r = slice xs r"
  by (cases "fst r \<le> length xs") (auto simp: slice_def)

lemma scan_field_ranges:
  assumes "scan_field msg start = Inr (sp, p)"
  shows "whole sp = (start, p)" "snd (payload sp) = p" "number sp \<noteq> 0" "start \<le> fst (payload sp)"
    "fst (payload sp) \<le> p"
proof -
  obtain tag pos where rv: "read_varint msg start = Inr (tag, pos)"
    using assms unfolding scan_field_def by (cases "read_varint msg start") auto
  with assms obtain a where *: "scan_payload msg (ucast (tag AND 0x07)) pos = Inr (a, p)"
    "sp = \<lparr>number = ucast (drop_bit 3 tag), wire_type = ucast (tag AND 7),
           whole = (start, p), payload = (a, p)\<rparr>" "(ucast (drop_bit 3 tag) :: u32) \<noteq> 0"
    unfolding scan_field_def by (auto simp: Let_def res_map_Inr_iff split: if_splits)
  with read_varint_pos [OF rv] scan_payload_pos [OF *(1)]
  show "whole sp = (start, p)" "snd (payload sp) = p" "number sp \<noteq> 0" "start \<le> fst (payload sp)"
    "fst (payload sp) \<le> p"
    by auto
qed

lemma field_of_append:
  "scan_field msg start = Inr (sp, p) \<Longrightarrow> p \<le> length msg \<Longrightarrow> field_of (msg @ suf) sp = field_of msg sp"
  by (simp add: field_of_def slice_append1 scan_field_ranges)

lemma fields_Cons:
  assumes "wf_field f"
  shows "wire_fields (f_raw f @ rest) = res_map ((#) f) (wire_fields rest)"
proof -
  from assms obtain sp where sp: "scan_field (f_raw f) 0 = Inr (sp, length (f_raw f))"
    and f: "field_of (f_raw f) sp = f" by (auto simp: wf_field_def)
  from scan_field_pos [OF sp] have ne: "0 < length (f_raw f)" by simp
  have loc: "scan_field (f_raw f @ rest) 0 = Inr (sp, length (f_raw f))"
    by (rule scan_field_local [OF sp]) simp
  have "scan (f_raw f @ rest) = res_map (\<lambda>sps. sp # map (shift_span (length (f_raw f))) sps) (scan rest)"
    using ne scan_from_shift [of "f_raw f" rest 0]
    by (cases "scan_from rest 0") (simp_all add: scan_def scan_from.simps [of "f_raw f @ rest" 0] loc)
  then show ?thesis
    using field_of_append [OF sp] f
    by (cases "scan rest") (simp_all add: wire_fields_def)
qed

lemma fields_cases:
  assumes "wire_fields msg = Inr fs" "msg \<noteq> []"
  obtains f gs rest where "wf_field f" "msg = f_raw f @ rest" "f_raw f \<noteq> []" "wire_fields rest = Inr gs" "fs = f # gs"
proof -
  from assms obtain sp p where sf: "scan_field msg 0 = Inr (sp, p)"
    by (cases "scan_field msg 0") (auto simp: wire_fields_def scan_def scan_from.simps [of msg 0])
  from scan_field_pos [OF sf] have p: "0 < p" "p \<le> length msg" by auto
  define raw rest where "raw = take p msg" and "rest = drop p msg"
  have msg: "msg = raw @ rest" by (simp add: raw_def rest_def)
  have len: "length raw = p" using p by (simp add: raw_def)
  have sf': "scan_field raw 0 = Inr (sp, length raw)"
    unfolding len by (rule scan_field_local [OF sf]) (simp add: raw_def)
  define f where "f = field_of raw sp"
  have raw: "f_raw f = raw"
    using scan_field_ranges(1) [OF sf'] by (simp add: f_def field_of_def slice_def)
  have wf: "wf_field f" using sf' raw by (auto simp: wf_field_def f_def)
  have "wire_fields msg = res_map ((#) f) (wire_fields rest)"
    using fields_Cons [OF wf, of rest] raw msg by simp
  with assms(1) obtain gs where "wire_fields rest = Inr gs" "fs = f # gs"
    by (cases "wire_fields rest") auto
  with wf raw msg p len that show thesis by auto
qed

theorem fields_iff:
  "wire_fields msg = Inr fs \<longleftrightarrow> msg = concat (map f_raw fs) \<and> list_all wf_field fs"
proof (intro iffI conjI)
  show "wire_fields msg = Inr fs" if "msg = concat (map f_raw fs) \<and> list_all wf_field fs"
    using that by (induction fs arbitrary: msg) (auto simp: fields_Cons)
next
  assume "wire_fields msg = Inr fs"
  then have "msg = concat (map f_raw fs) \<and> list_all wf_field fs"
  proof (induction msg arbitrary: fs rule: length_induct)
    case (1 msg)
    show ?case
    proof (cases "msg = []")
      case True with 1 show ?thesis by simp
    next
      case False
      with 1(2) obtain f gs rest where f: "wf_field f" "msg = f_raw f @ rest" "f_raw f \<noteq> []"
        "wire_fields rest = Inr gs" "fs = f # gs" by (rule fields_cases)
      then have "length rest < length msg" by simp
      with 1(1) f(4) have "rest = concat (map f_raw gs) \<and> list_all wf_field gs" by blast
      with f show ?thesis by simp
    qed
  qed
  then show "msg = concat (map f_raw fs)" "list_all wf_field fs" by auto
qed

lemma scan_Inr_fields: "scan msg = Inr sps \<Longrightarrow> wire_fields msg = Inr (map (field_of msg) sps)"
  by (simp add: wire_fields_def)

lemma scan_Inl_iff: "scan msg = Inl e \<longleftrightarrow> wire_fields msg = Inl e"
  by (cases "scan msg") (simp_all add: wire_fields_def)

end
