(* ===== verification/Wire_Edit.thy ===== *)
theory Wire_Edit
  imports Wire_Fields
begin

text \<open>
  Properties of the wire editor: the varint writer and reader are inverse on every 64-bit
  value, the field encoders produce one well-formed field each, and \<open>set_field\<close> edits
  the list of fields in one place and keeps every other byte.
\<close>

section \<open>Varints\<close>

lemma byte_cont_and_mask: "((ucast v OR 0x80) AND 0x7f :: byte) = ucast (v AND 0x7f)" for v :: u64
proof (rule bit_word_eqI)
  fix n assume "n < LENGTH(8)"
  then have "n < 8" by simp
  then show "bit ((ucast v OR 0x80) AND 0x7f :: byte) n = bit (ucast (v AND 0x7f) :: byte) n"
    by (auto simp: bit_simps less_Suc_eq numeral_eq_Suc bit_1_iff)
qed

lemma low_bits_ucast: "ucast ((ucast (v AND 0x7f)) :: byte) = v AND 0x7f" for v :: u64
  by (rule bit_word_eqI) (auto simp: bit_simps less_Suc_eq numeral_eq_Suc)

lemma seven_bit_split:
  "push_bit n (v AND 0x7f) OR push_bit (n + 7) (drop_bit 7 v) = push_bit n v" for v :: u64
proof -
  have m: "(0x7f :: u64) = mask 7" by (simp add: mask_eq_exp_minus_1)
  show ?thesis unfolding m
  proof (rule bit_word_eqI)
    fix i assume i: "i < LENGTH(64)"
    show "bit (push_bit n (v AND mask 7) OR push_bit (n + 7) (drop_bit 7 v)) i = bit (push_bit n v) i"
    proof (cases "n \<le> i")
      case True
      then obtain d where d: "i = n + d" using le_Suc_ex by blast
      show ?thesis
      proof (cases "d < 7")
        case False
        then obtain e where "d = 7 + e" using le_Suc_ex not_less by blast
        with i d show ?thesis by (simp add: bit_simps add.assoc)
      qed (use i d in \<open>simp add: bit_simps\<close>)
    qed (use i in \<open>simp add: bit_simps\<close>)
  qed
qed

lemma small_and_mask: "v < 0x80 \<Longrightarrow> v AND 0x7f = v" for v :: u64
  using less_mask_eq [of v 7] by (simp add: mask_eq_exp_minus_1)

lemma ucast_small_no_cont: "v < 0x80 \<Longrightarrow> (ucast v AND 0x80 :: byte) = 0" for v :: u64
proof -
  assume "v < 0x80"
  then have "\<not> bit (v AND 0x7f) 7 \<Longrightarrow> \<not> bit v 7" by (simp add: small_and_mask)
  moreover have "\<not> bit (v AND 0x7f) 7" by (simp add: bit_and_iff numeral_eq_Suc)
  ultimately have "\<not> bit v 7" by blast
  moreover have "(0x80 :: byte) = 2 ^ 7" by simp
  ultimately show ?thesis
    by (simp only: and_exp_eq_0_iff_not_bit) (simp add: bit_simps)
qed

lemma ucast_small_and_mask: "v < 0x80 \<Longrightarrow> ((ucast v :: byte) AND 0x7f) = ucast (v AND 0x7f)" for v :: u64
  by (rule bit_word_eqI) (auto simp: bit_simps)

lemma cont_bit_set: "((ucast v OR 0x80) AND 0x80 :: byte) \<noteq> 0" for v :: u64
proof -
  have "bit ((ucast v OR 0x80) AND 0x80 :: byte) 7" by (simp add: bit_simps numeral_eq_Suc)
  then show ?thesis by force
qed

text \<open>
  The reader on an encoded value, started in round \<open>k\<close> with accumulator \<open>acc\<close>: ten rounds
  of seven bits are enough for sixty-four.
\<close>

lemma unat_drop7_less: "unat v < 2 ^ (n + 7) \<Longrightarrow> unat (drop_bit 7 v) < 2 ^ n" for v :: u64
  by (simp add: drop_bit_eq_div unat_div less_mult_imp_div_less power_add)

lemma read_varint_loop_cont:
  "b AND 0x80 \<noteq> 0 \<Longrightarrow>
   read_varint_loop (s # ss) (pre @ b # xs) (length pre) acc =
   read_varint_loop ss (pre @ b # xs) (Suc (length pre)) (acc OR push_bit s (ucast (b AND 0x7f)))"
  by (simp only: read_varint_loop.simps Let_def nth_append_length if_False) simp

lemma read_varint_loop_last:
  "b AND 0x80 = 0 \<Longrightarrow>
   read_varint_loop (s # ss) (pre @ b # xs) (length pre) acc =
   Inr (acc OR push_bit s (ucast (b AND 0x7f)), Suc (length pre))"
  by (simp only: read_varint_loop.simps Let_def nth_append_length if_True) simp

lemma read_encode_loop:
  assumes "k < 10" "unat v < 2 ^ (64 - 7 * k)"
  shows "read_varint_loop (map ((*) 7) [k..<10]) (pre @ encode_varint v @ rest) (length pre) acc =
         Inr (acc OR push_bit (7 * k) v, length pre + length (encode_varint v))"
  using assms
proof (induction v arbitrary: k pre acc rule: encode_varint.induct)
  case (1 v)
  have up: "map ((*) 7) [k..<10] = 7 * k # map ((*) 7) [Suc k..<10]"
    using 1(2) by (simp add: upt_conv_Cons)
  show ?case
  proof (cases "v \<ge> 0x80")
    case True
    then have big: "128 \<le> unat v" by (simp add: word_le_nat_alt)
    have k: "Suc k < 10"
    proof (rule ccontr)
      assume "\<not> Suc k < 10"
      with 1(2) have "k = 9" by simp
      with 1(3) big show False by simp
    qed
    have fit: "unat (drop_bit 7 v) < 2 ^ (64 - 7 * Suc k)"
      by (rule unat_drop7_less) (use 1(3) k in \<open>simp add: algebra_simps\<close>)
    have enc: "encode_varint v = (ucast v OR 0x80) # encode_varint (drop_bit 7 v)"
      using True by (simp add: encode_varint.simps [of v])
    have glue: "push_bit (7 * k) (v AND 0x7f) OR push_bit (7 * Suc k) (drop_bit 7 v) = push_bit (7 * k) v"
      using seven_bit_split [of "7 * k" v] by (simp add: add.commute)
    have "read_varint_loop (map ((*) 7) [Suc k..<10]) ((pre @ [ucast v OR 0x80]) @ encode_varint (drop_bit 7 v) @ rest)
            (length (pre @ [ucast v OR (0x80 :: byte)])) (acc OR push_bit (7 * k) (v AND 0x7f)) =
          Inr ((acc OR push_bit (7 * k) (v AND 0x7f)) OR push_bit (7 * Suc k) (drop_bit 7 v),
            length (pre @ [ucast v OR (0x80 :: byte)]) + length (encode_varint (drop_bit 7 v)))"
      by (rule 1(1) [OF True k fit])
    then have ih: "read_varint_loop (map ((*) 7) [Suc k..<10])
            (pre @ (ucast v OR 0x80) # encode_varint (drop_bit 7 v) @ rest)
            (Suc (length pre)) (acc OR push_bit (7 * k) (v AND 0x7f)) =
          Inr (acc OR push_bit (7 * k) v, Suc (length pre) + length (encode_varint (drop_bit 7 v)))"
      unfolding or.assoc glue by (simp only: append_assoc append_Cons append_Nil length_append list.size) simp
    show ?thesis
      unfolding up enc append_Cons
      by (subst read_varint_loop_cont) (simp_all only: cont_bit_set byte_cont_and_mask low_bits_ucast ih, simp_all)
  next
    case False
    then have small: "v < 0x80" by simp
    then have enc: "encode_varint v = [ucast v]" by (simp add: encode_varint.simps [of v] not_le [symmetric])
    have "ucast ((ucast v :: byte) AND 0x7f) = v"
      using small_and_mask [OF small] low_bits_ucast [of v] ucast_small_and_mask [OF small] by simp
    then show ?thesis
      unfolding up enc append_Cons append_Nil
      by (subst read_varint_loop_last) (simp_all only: ucast_small_no_cont [OF small], simp_all)
  qed
qed

lemma varint_shifts_alt: "varint_shifts = map ((*) 7) [0..<10]"
  by (simp add: varint_shifts_def upt_rec numeral_eq_Suc)

lemma read_encode_varint_at:
  "read_varint (pre @ encode_varint v @ rest) (length pre) = Inr (v, length pre + length (encode_varint v))"
  using read_encode_loop [of 0 v pre rest 0] unsigned_less [of v]
  by (simp add: read_varint_def varint_shifts_alt del: upt_Suc)

lemma read_encode_varint [simp]:
  "read_varint (encode_varint v @ rest) 0 = Inr (v, length (encode_varint v))"
  using read_encode_varint_at [of "[]"] by simp

lemma read_encode_varint0 [simp]:
  "read_varint (encode_varint v) 0 = Inr (v, length (encode_varint v))"
  using read_encode_varint [of v "[]"] by simp

lemma encode_varint_ne [simp]: "encode_varint v \<noteq> []"
  by (simp add: encode_varint.simps [of v])

lemma read_varint_loop_length:
  "read_varint_loop shifts msg pos acc = Inr (v, p) \<Longrightarrow> p \<le> pos + length shifts"
  by (induction shifts msg pos acc rule: read_varint_loop.induct) (fastforce simp: Let_def split: if_splits)+

lemma length_encode_varint_le: "length (encode_varint v) \<le> 10"
  using read_encode_varint0 [of v] read_varint_loop_length [of varint_shifts "encode_varint v" 0 0]
  by (simp add: read_varint_def varint_shifts_def)

section \<open>The fields the encoders write\<close>

lemma tag_number: "ucast (drop_bit 3 (push_bit 3 (ucast num) OR ucast wt :: u64)) = num"
  if "wt AND 7 = wt" for num :: u32 and wt :: u8
proof (rule bit_word_eqI)
  fix n assume n: "n < LENGTH(32)"
  have m: "(7 :: u8) = mask 3" by (simp add: mask_eq_exp_minus_1)
  have "\<not> bit (wt AND 7) (n + 3)" unfolding m by (simp add: bit_simps)
  with that n show "bit (ucast (drop_bit 3 (push_bit 3 (ucast num) OR ucast wt :: u64)) :: u32) n = bit num n"
    by (auto simp: bit_simps add.commute)
qed

lemma tag_wire_type: "ucast ((push_bit 3 (ucast num) OR ucast wt :: u64) AND 0x07) = wt"
  if "wt AND 7 = wt" for num :: u32 and wt :: u8
proof (rule bit_word_eqI)
  fix n assume n: "n < LENGTH(8)"
  have m: "(7 :: u8) = mask 3" "(7 :: u64) = mask 3" by (simp_all add: mask_eq_exp_minus_1)
  have "bit (wt AND 7) n = bit wt n" using that by simp
  then have "bit wt n \<Longrightarrow> n < 3" unfolding m by (simp add: bit_simps)
  with n show "bit (ucast ((push_bit 3 (ucast num) OR ucast wt :: u64) AND 0x07) :: u8) n = bit wt n"
    unfolding m by (auto simp: bit_simps)
qed

lemma scan_field_tag:
  assumes "num \<noteq> 0" "wt AND 7 = wt"
    "scan_payload (encode_tag num wt @ body) wt (length (encode_tag num wt)) = Inr (a, p)"
  shows "scan_field (encode_tag num wt @ body) 0 =
         Inr (\<lparr>number = num, wire_type = wt, whole = (0, p), payload = (a, p)\<rparr>, p)"
  using assms tag_number [OF assms(2), of num] tag_wire_type [OF assms(2), of num]
  unfolding scan_field_def encode_tag_def by (simp add: Let_def)

definition varint_field :: "u32 \<Rightarrow> u64 \<Rightarrow> wire_field" where
  "varint_field num v =
     \<lparr>f_num = num, f_wt = WIRE_VARINT, f_raw = encode_varint_field num v, f_pl = encode_varint v\<rparr>"

definition len_field :: "u32 \<Rightarrow> bytes \<Rightarrow> wire_field" where
  "len_field num pl =
     \<lparr>f_num = num, f_wt = WIRE_LEN, f_raw = encode_len_delimited num pl, f_pl = pl\<rparr>"

lemma varint_field_sel [simp]:
  "f_num (varint_field num v) = num" "f_wt (varint_field num v) = WIRE_VARINT"
  "f_raw (varint_field num v) = encode_varint_field num v" "f_pl (varint_field num v) = encode_varint v"
  by (simp_all add: varint_field_def)

lemma len_field_sel [simp]:
  "f_num (len_field num pl) = num" "f_wt (len_field num pl) = WIRE_LEN"
  "f_raw (len_field num pl) = encode_len_delimited num pl" "f_pl (len_field num pl) = pl"
  by (simp_all add: len_field_def)

lemma wf_varint_field: "num \<noteq> 0 \<Longrightarrow> wf_field (varint_field num v)"
proof -
  assume num: "num \<noteq> 0"
  let ?t = "encode_tag num WIRE_VARINT"
  have "scan_payload (?t @ encode_varint v) WIRE_VARINT (length ?t) =
        Inr (length ?t, length ?t + length (encode_varint v))"
    using read_encode_varint_at [of ?t v "[]"] by (simp add: scan_payload_def)
  from scan_field_tag [OF num _ this] show ?thesis
    unfolding wf_field_def
    by (auto simp: encode_varint_field_def field_of_def slice_def wire_type_defs)
qed

lemma wf_len_field: "num \<noteq> 0 \<Longrightarrow> length pl < 2 ^ 64 \<Longrightarrow> wf_field (len_field num pl)"
proof -
  assume num: "num \<noteq> 0" and len: "length pl < 2 ^ 64"
  let ?t = "encode_tag num WIRE_LEN" and ?l = "encode_varint (of_nat (length pl))"
  have u: "unat (of_nat (length pl) :: u64) = length pl"
    using len by (simp add: unat_of_nat)
  have "scan_payload (?t @ ?l @ pl) WIRE_LEN (length ?t) =
        Inr (length ?t + length ?l, length ?t + length ?l + length pl)"
    using read_encode_varint_at [of ?t "of_nat (length pl)" pl] u
    by (simp add: scan_payload_def wire_type_defs advance_def)
  from scan_field_tag [OF num _ this] show ?thesis
    unfolding wf_field_def
    by (auto simp: encode_len_delimited_def field_of_def slice_def wire_type_defs)
qed

lemma length_encode_tag_le: "length (encode_tag num wt) \<le> 10"
  unfolding encode_tag_def by (rule length_encode_varint_le)

lemma length_encode_varint_field_le: "length (encode_varint_field num v) \<le> 20"
  using length_encode_tag_le [of num WIRE_VARINT] length_encode_varint_le [of v]
  by (simp add: encode_varint_field_def)

lemma length_encode_len_delimited_le: "length (encode_len_delimited num pl) \<le> 20 + length pl"
  using length_encode_tag_le [of num WIRE_LEN] length_encode_varint_le [of "of_nat (length pl)"]
  by (simp add: encode_len_delimited_def)

section \<open>Editing one field\<close>

text \<open>
  The abstract editor: the field list with every occurrence of \<open>num\<close> removed and \<open>rs\<close> in
  place of the first, or at the end when there is none.
\<close>

definition edited :: "u32 \<Rightarrow> wire_field list \<Rightarrow> wire_field list \<Rightarrow> wire_field list" where
  "edited num rs fs =
     takeWhile (\<lambda>f. f_num f \<noteq> num) fs @ rs @ filter (\<lambda>f. f_num f \<noteq> num) (dropWhile (\<lambda>f. f_num f \<noteq> num) fs)"

lemma set_field_loop_placed:
  "set_field_loop msg num repl sps (out, True) =
   (out @ concat (map f_raw (filter (\<lambda>f. f_num f \<noteq> num) (map (field_of msg) sps))), True)"
  by (induction sps arbitrary: out) (auto simp: field_of_def split: option.splits)

lemma set_field_loop_None:
  "set_field_loop msg num None sps (out, b) =
   (out @ concat (map f_raw (filter (\<lambda>f. f_num f \<noteq> num) (map (field_of msg) sps))), b)"
  by (induction sps arbitrary: out) (auto simp: field_of_def)

lemma set_field_loop_Some:
  "set_field_loop msg num (Some bs) sps (out, False) =
   (let fs = map (field_of msg) sps in
     if \<exists>f\<in>set fs. f_num f = num
     then (out @ concat (map f_raw (takeWhile (\<lambda>f. f_num f \<noteq> num) fs)) @ bs @
           concat (map f_raw (filter (\<lambda>f. f_num f \<noteq> num) (dropWhile (\<lambda>f. f_num f \<noteq> num) fs))), True)
     else (out @ concat (map f_raw fs), False))"
  by (induction sps arbitrary: out) (auto simp: field_of_def set_field_loop_placed Let_def)

lemma filter_ne_id: "\<forall>f\<in>set fs. f_num f \<noteq> num \<Longrightarrow>
  takeWhile (\<lambda>f. f_num f \<noteq> num) fs = fs \<and> dropWhile (\<lambda>f. f_num f \<noteq> num) fs = []"
  by (induction fs) auto

lemma edited_None: "edited num [] fs = filter (\<lambda>f. f_num f \<noteq> num) fs"
  by (induction fs) (auto simp: edited_def)

lemma set_field_fields:
  assumes "wire_fields msg = Inr fs"
  shows "set_field msg num (Some bs) =
         Inr (concat (map f_raw (takeWhile (\<lambda>f. f_num f \<noteq> num) fs)) @ bs @
              concat (map f_raw (filter (\<lambda>f. f_num f \<noteq> num) (dropWhile (\<lambda>f. f_num f \<noteq> num) fs))))"
    and "set_field msg num None = Inr (concat (map f_raw (edited num [] fs)))"
proof -
  from assms obtain sps where s: "scan msg = Inr sps" "fs = map (field_of msg) sps"
    by (auto simp: wire_fields_def res_map_Inr_iff)
  show "set_field msg num (Some bs) =
         Inr (concat (map f_raw (takeWhile (\<lambda>f. f_num f \<noteq> num) fs)) @ bs @
              concat (map f_raw (filter (\<lambda>f. f_num f \<noteq> num) (dropWhile (\<lambda>f. f_num f \<noteq> num) fs))))"
    using set_field_loop_Some [of msg num bs sps "[]"]
    unfolding Let_def s(2) [symmetric] set_field_def s(1)
    by (cases "\<exists>f\<in>set fs. f_num f = num") (auto simp: filter_ne_id)
  show "set_field msg num None = Inr (concat (map f_raw (edited num [] fs)))"
    using s by (simp add: set_field_def set_field_loop_None edited_None)
qed

lemma set_field_error: "wire_fields msg = Inl e \<Longrightarrow> set_field msg num repl = Inl e"
  by (simp add: set_field_def scan_Inl_iff [symmetric])

lemma set_takeWhile_filter: "set (edited num rs fs) = set rs \<union> {f \<in> set fs. f_num f \<noteq> num}"
proof -
  have "set fs = set (takeWhile (\<lambda>f. f_num f \<noteq> num) fs) \<union> set (dropWhile (\<lambda>f. f_num f \<noteq> num) fs)"
    by (metis set_append takeWhile_dropWhile_id)
  then show ?thesis by (auto simp: edited_def dest: set_takeWhileD)
qed

lemma filter_edited: "\<forall>f\<in>set rs. f_num f = num \<Longrightarrow>
  filter (\<lambda>f. f_num f = num) (edited num rs fs) = rs"
  by (auto simp: edited_def filter_empty_conv dest: set_takeWhileD)

lemma filter_edited_ne: "\<forall>f\<in>set rs. f_num f = num \<Longrightarrow>
  filter (\<lambda>f. f_num f \<noteq> num) (edited num rs fs) = filter (\<lambda>f. f_num f \<noteq> num) fs"
proof -
  assume rs: "\<forall>f\<in>set rs. f_num f = num"
  have "filter (\<lambda>f. f_num f \<noteq> num) fs =
        filter (\<lambda>f. f_num f \<noteq> num) (takeWhile (\<lambda>f. f_num f \<noteq> num) fs) @
        filter (\<lambda>f. f_num f \<noteq> num) (dropWhile (\<lambda>f. f_num f \<noteq> num) fs)"
    by (metis filter_append takeWhile_dropWhile_id)
  with rs show ?thesis by (simp add: edited_def filter_empty_conv)
qed

theorem set_field_edited:
  assumes "wire_fields msg = Inr fs" "list_all wf_field rs"
  shows "\<exists>msg'. (rs = [] \<longrightarrow> set_field msg num None = Inr msg') \<and>
           (rs \<noteq> [] \<longrightarrow> set_field msg num (Some (concat (map f_raw rs))) = Inr msg') \<and>
           wire_fields msg' = Inr (edited num rs fs)"
proof -
  have wf: "list_all wf_field (edited num rs fs)"
    using assms by (auto simp: list_all_iff set_takeWhile_filter fields_iff)
  define msg' where "msg' = concat (map f_raw (edited num rs fs))"
  have "wire_fields msg' = Inr (edited num rs fs)" using wf by (simp add: fields_iff msg'_def)
  moreover have "rs = [] \<longrightarrow> set_field msg num None = Inr msg'"
    using set_field_fields(2) [OF assms(1)] by (simp add: msg'_def)
  moreover have "set_field msg num (Some (concat (map f_raw rs))) = Inr msg'"
    using set_field_fields(1) [OF assms(1)] by (simp add: msg'_def edited_def)
  ultimately show ?thesis by blast
qed

end
