(* ===== verification/Wire_Record.thy ===== *)
theory Wire_Record
  imports Wire_Edit
begin

text \<open>
  The record-level accessors of \<open>storage_record.rs\<close> over lists of fields: what
  \<open>record_varint_field\<close> reads and what \<open>set_record_field\<close> writes, in terms of the fields
  of the one record message inside a \<open>StorageRecord\<close>. The lemmas say which bytes an edit
  can touch; the properties at the end are stated on the code's own functions.
\<close>

section \<open>The record inside a storage record\<close>

definition record_inner :: "bytes \<Rightarrow> u32 \<Rightarrow> edit_error + bytes" where
  "record_inner rec rf = res_map (slice rec) (record_payload rec rf)"

definition inner_fields :: "bytes \<Rightarrow> u32 \<Rightarrow> edit_error + wire_field list" where
  "inner_fields rec rf = res_bind (record_inner rec rf) wire_fields"

definition only_field :: "u32 \<Rightarrow> wire_field list \<Rightarrow> edit_error + wire_field" where
  "only_field n fs =
     (case filter (\<lambda>f. f_num f = n) fs of
        [] \<Rightarrow> Inl WrongRecordType | [f] \<Rightarrow> Inr f | _ # _ # _ \<Rightarrow> Inl AmbiguousRecord)"

definition last_varint :: "u32 \<Rightarrow> wire_field list \<Rightarrow> edit_error + u64" where
  "last_varint n fs =
     (case find (\<lambda>f. f_num f = n) (rev fs) of
        None \<Rightarrow> Inr 0
      | Some f \<Rightarrow> if f_wt f \<noteq> WIRE_VARINT then Inl Malformed else res_map fst (read_varint (f_pl f) 0))"

lemma filter_field_of:
  "filter (\<lambda>f. f_num f = n) (map (field_of msg) sps) =
   map (field_of msg) (filter (\<lambda>s. number s = n) sps)"
  by (simp add: filter_map o_def field_of_def)

lemma record_inner_fields:
  "record_inner rec rf = res_bind (wire_fields rec) (\<lambda>fs. res_map f_pl (only_field rf fs))"
proof (cases "scan rec")
  case (Inl e)
  then show ?thesis by (simp add: record_inner_def record_payload_def wire_fields_def)
next
  case (Inr sps)
  then show ?thesis
    by (simp add: record_inner_def record_payload_def wire_fields_def only_field_def filter_field_of)
       (simp add: field_of_def split: list.splits)
qed

lemma scanned_from:
  "scan_from msg pos = Inr sps \<Longrightarrow> sp \<in> set sps \<Longrightarrow> \<exists>start p. scan_field msg start = Inr (sp, p)"
proof (induction msg pos arbitrary: sps rule: scan_from.induct)
  case (1 msg pos)
  show ?case
  proof (cases "pos < length msg")
    case True
    with 1(2) obtain s0 p0 where f: "scan_field msg pos = Inr (s0, p0)"
      by (cases "scan_field msg pos") (auto simp: scan_from.simps [of msg pos])
    with 1(2) True obtain rest where r: "scan_from msg p0 = Inr rest" "sps = s0 # rest"
      by (auto simp: scan_from.simps [of msg pos] res_map_Inr_iff)
    show ?thesis
    proof (cases "sp = s0")
      case False
      with 1(3) r have "sp \<in> set rest" by simp
      from 1(1) [OF True f refl r(1) this] show ?thesis .
    qed (use f in blast)
  next
    case False
    with 1(2,3) show ?thesis by (simp add: scan_from.simps [of msg pos])
  qed
qed

text \<open>A varint span is read again at its payload: the value is that of its payload bytes.\<close>

lemma read_varint_payload:
  assumes "scan_field msg start = Inr (sp, p)" "wire_type sp = WIRE_VARINT"
  shows "res_map fst (read_varint msg (fst (payload sp))) =
         res_map fst (read_varint (slice msg (payload sp)) 0)"
proof -
  obtain tag pos where rv: "read_varint msg start = Inr (tag, pos)"
    using assms unfolding scan_field_def by (cases "read_varint msg start") auto
  with assms obtain a where *: "scan_payload msg WIRE_VARINT pos = Inr (a, p)"
    "payload sp = (a, p)"
    unfolding scan_field_def by (auto simp: Let_def res_map_Inr_iff split: if_splits)
  then obtain v where v: "read_varint msg a = Inr (v, p)"
    by (auto simp: scan_payload_def res_map_Inr_iff)
  from read_varint_pos [OF v] have a: "a \<le> p" "p \<le> length msg" by auto
  let ?m = "take p msg"
  have "read_varint ?m a = Inr (v, p)" by (rule read_varint_local [OF v]) simp
  moreover have "?m = take a msg @ slice msg (a, p)"
    using a by (simp add: slice_def) (metis le_add_diff_inverse take_add)
  moreover have "length (take a msg) = a" using a by simp
  ultimately have "read_varint (slice msg (a, p)) 0 = Inr (v, p - a)"
    using read_varint_shift [of "take a msg" "slice msg (a, p)" 0]
    by (cases "read_varint (slice msg (a, p)) 0") auto
  with v *(2) show ?thesis by simp
qed

lemma find_rev_map:
  "find (\<lambda>f. f_num f = n) (rev (map (field_of msg) sps)) =
   map_option (field_of msg) (find (\<lambda>s. number s = n) (rev sps))"
proof -
  have "find (\<lambda>f. f_num f = n) (map (field_of msg) xs) =
        map_option (field_of msg) (find (\<lambda>s. number s = n) xs)" for xs
    by (induction xs) (auto simp: field_of_def)
  then show ?thesis by (simp add: rev_map)
qed

lemma find_SomeD: "find P xs = Some x \<Longrightarrow> x \<in> set xs \<and> P x"
  by (induction xs) (auto split: if_splits)

lemma record_varint_field_fields:
  "record_varint_field rec rf n = res_bind (inner_fields rec rf) (last_varint n)"
proof (cases "record_payload rec rf")
  case (Inl e)
  then show ?thesis by (simp add: record_varint_field_def inner_fields_def record_inner_def)
next
  case (Inr pl)
  let ?i = "slice rec pl"
  show ?thesis
  proof (cases "scan ?i")
    case (Inl e)
    with Inr show ?thesis
      by (simp add: record_varint_field_def inner_fields_def record_inner_def wire_fields_def)
  next
    case sps: (Inr sps)
    show ?thesis
    proof (cases "find (\<lambda>s. number s = n) (rev sps)")
      case None
      with Inr sps show ?thesis
        by (simp add: record_varint_field_def inner_fields_def record_inner_def wire_fields_def
              last_varint_def find_rev_map)
    next
      case (Some sp)
      then have "sp \<in> set sps" by (auto dest: find_SomeD)
      with sps obtain start p where "scan_field ?i start = Inr (sp, p)"
        by (auto simp: scan_def dest: scanned_from)
      from read_varint_payload [OF this] Inr sps Some show ?thesis
        by (simp add: record_varint_field_def inner_fields_def record_inner_def wire_fields_def
              last_varint_def find_rev_map field_of_def)
    qed
  qed
qed

section \<open>Writing a field of the record\<close>

definition repl_of :: "wire_field list \<Rightarrow> bytes option" where
  "repl_of rs = (if rs = [] then None else Some (concat (map f_raw rs)))"

lemma set_field_repl_of:
  assumes "wire_fields msg = Inr fs"
  shows "set_field msg n (repl_of rs) = Inr (concat (map f_raw (edited n rs fs)))"
  using set_field_fields [OF assms, of n] by (simp add: repl_of_def edited_def)

lemma only_field_Inr_iff: "only_field n fs = Inr g \<longleftrightarrow> filter (\<lambda>f. f_num f = n) fs = [g]"
  by (auto simp: only_field_def split: list.splits)

lemma set_record_field_form:
  "set_record_field rec rf n (repl_of rs) =
   res_bind (wire_fields rec) (\<lambda>fs. res_bind (only_field rf fs) (\<lambda>g. res_bind (wire_fields (f_pl g)) (\<lambda>gs.
     let inner = concat (map f_raw (edited n rs gs)) in
     Inr (concat (map f_raw (edited rf [len_field rf inner] fs))))))"
proof (cases "record_payload rec rf")
  case (Inl e)
  then have "record_inner rec rf = Inl e" by (simp add: record_inner_def)
  with Inl show ?thesis
    by (cases "wire_fields rec") (auto simp: set_record_field_def record_inner_fields res_map_def split: sum.splits)
next
  case (Inr pl)
  then have "record_inner rec rf = Inr (slice rec pl)" by (simp add: record_inner_def)
  then obtain fs g where fg: "wire_fields rec = Inr fs" "only_field rf fs = Inr g" "f_pl g = slice rec pl"
    by (auto simp: record_inner_fields res_map_Inr_iff dest!: res_bind_InrD)
  show ?thesis
  proof (cases "wire_fields (f_pl g)")
    case (Inl e)
    with Inr fg show ?thesis by (simp add: set_record_field_def set_field_error)
  next
    case gs: (Inr gs)
    have "repl_of [len_field rf i] = Some (encode_len_delimited rf i)" for i by (simp add: repl_of_def)
    with gs Inr fg set_field_repl_of [OF gs, of n rs] set_field_repl_of [OF fg(1), of rf "[len_field rf _]"]
    show ?thesis by (simp add: set_record_field_def Let_def)
  qed
qed

lemma set_record_field_InlE:
  "set_record_field rec rf n (repl_of rs) = Inl e \<longleftrightarrow> inner_fields rec rf = Inl e"
  unfolding set_record_field_form inner_fields_def record_inner_fields
  by (cases "wire_fields rec"; simp) (auto simp: Let_def split: sum.splits simp: res_bind_def res_map_def)

lemma length_concat_edited_le:
  "length (concat (map f_raw (edited n rs fs))) \<le>
   length (concat (map f_raw fs)) + length (concat (map f_raw rs))"
proof -
  have f: "length (concat (map f_raw (filter P xs))) \<le> length (concat (map f_raw xs))" for P xs
    by (induction xs) auto
  have "concat (map f_raw fs) = concat (map f_raw (takeWhile (\<lambda>f. f_num f \<noteq> n) fs)) @
          concat (map f_raw (dropWhile (\<lambda>f. f_num f \<noteq> n) fs))"
    by (metis concat_append map_append takeWhile_dropWhile_id)
  with f [of "\<lambda>f. f_num f \<noteq> n" "dropWhile (\<lambda>f. f_num f \<noteq> n) fs"]
  show ?thesis by (simp add: edited_def)
qed

lemma length_slice_le: "length (slice msg r) \<le> length msg"
  by (simp add: slice_def)

lemma length_inner_le: "record_inner rec rf = Inr inner \<Longrightarrow> length inner \<le> length rec"
  by (auto simp: record_inner_def res_map_Inr_iff length_slice_le)

lemma inner_fieldsE:
  assumes "inner_fields rec rf = Inr gs"
  obtains fs g where "wire_fields rec = Inr fs" "only_field rf fs = Inr g" "wire_fields (f_pl g) = Inr gs"
    "length (f_pl g) \<le> length rec"
proof -
  from assms obtain inner where i: "record_inner rec rf = Inr inner" "wire_fields inner = Inr gs"
    unfolding inner_fields_def by (rule res_bind_InrE)
  from i(1) obtain fs g where "wire_fields rec = Inr fs" "only_field rf fs = Inr g" "f_pl g = inner"
    by (auto simp: record_inner_fields res_map_Inr_iff elim!: res_bind_InrE)
  with i(2) length_inner_le [OF i(1)] that show thesis by simp
qed

lemma set_record_field_written:
  assumes set: "set_record_field rec rf n (repl_of rs) = Inr rec'"
    and wf: "list_all wf_field rs" and rf: "rf \<noteq> 0"
    and len: "length rec + length (concat (map f_raw rs)) < 2 ^ 64"
  obtains fs gs inner' where "wire_fields rec = Inr fs" "inner_fields rec rf = Inr gs"
    "\<exists>g. only_field rf fs = Inr g"
    "inner' = concat (map f_raw (edited n rs gs))" "wire_fields inner' = Inr (edited n rs gs)"
    "wire_fields rec' = Inr (edited rf [len_field rf inner'] fs)"
    "rec' = concat (map f_raw (edited rf [len_field rf inner'] fs))"
proof -
  from set obtain gs where gs: "inner_fields rec rf = Inr gs"
    by (cases "inner_fields rec rf") (auto simp: set_record_field_InlE [THEN iffD2])
  then obtain fs g where fg: "wire_fields rec = Inr fs" "only_field rf fs = Inr g"
    "wire_fields (f_pl g) = Inr gs" "length (f_pl g) \<le> length rec"
    by (rule inner_fieldsE)
  define inner' where "inner' = concat (map f_raw (edited n rs gs))"
  have rec': "rec' = concat (map f_raw (edited rf [len_field rf inner'] fs))"
    using set fg by (simp add: set_record_field_form inner'_def Let_def)
  have "f_pl g = concat (map f_raw gs)" using fg(3) by (simp add: fields_iff)
  with length_concat_edited_le [of n rs gs] fg(4) len
  have "length inner' < 2 ^ 64" by (simp add: inner'_def)
  then have wl: "wf_field (len_field rf inner')" by (rule wf_len_field [OF rf])
  from fg(1) wl have "list_all wf_field (edited rf [len_field rf inner'] fs)"
    by (auto simp: list_all_iff set_takeWhile_filter fields_iff)
  with rec' have frec': "wire_fields rec' = Inr (edited rf [len_field rf inner'] fs)" by (simp add: fields_iff)
  from fg(3) wf have "list_all wf_field (edited n rs gs)"
    by (auto simp: list_all_iff set_takeWhile_filter fields_iff)
  then have "wire_fields inner' = Inr (edited n rs gs)" by (simp add: fields_iff inner'_def)
  with that [OF fg(1) gs _ inner'_def _ frec' rec'] fg(2) show thesis by blast
qed

lemma only_field_edited_same: "only_field rf (edited rf [len_field rf i] fs) = Inr (len_field rf i)"
  by (simp add: only_field_Inr_iff filter_edited)

lemma filter_cong_ne: "n' \<noteq> n \<Longrightarrow> filter (\<lambda>f. f_num f = n') fs =
   filter (\<lambda>f. f_num f = n') (filter (\<lambda>f. f_num f \<noteq> n) fs)"
  by (auto intro: filter_cong simp: filter_filter)

lemma filter_edited_other:
  assumes "\<forall>f\<in>set rs. f_num f = n" "n' \<noteq> n"
  shows "filter (\<lambda>f. f_num f = n') (edited n rs fs) = filter (\<lambda>f. f_num f = n') fs"
  using filter_edited_ne [OF assms(1), of fs] filter_cong_ne [OF assms(2)] by metis

lemma inner_fields_same:
  assumes "wire_fields rec' = Inr (edited rf [len_field rf inner'] fs)" "wire_fields inner' = Inr hs"
  shows "inner_fields rec' rf = Inr hs"
  using assms by (simp add: inner_fields_def record_inner_fields only_field_edited_same)

lemma record_inner_other:
  assumes "wire_fields rec = Inr fs" "wire_fields rec' = Inr (edited rf [len_field rf inner'] fs)" "rf' \<noteq> rf"
  shows "record_inner rec' rf' = record_inner rec rf'"
  using assms by (simp add: record_inner_fields only_field_def filter_edited_other)

lemma find_rev_filter: "find P (rev fs) = (if filter P fs = [] then None else Some (last (filter P fs)))"
proof (induction fs rule: rev_induct)
  case (snoc x xs)
  then show ?case by simp
qed simp

lemma last_varint_edited_other:
  "\<forall>f\<in>set rs. f_num f = n \<Longrightarrow> n' \<noteq> n \<Longrightarrow> last_varint n' (edited n rs fs) = last_varint n' fs"
  by (simp add: last_varint_def find_rev_filter filter_edited_other)

lemma last_varint_edited_same: "last_varint n (edited n [varint_field n v] fs) = Inr v"
  by (simp add: last_varint_def find_rev_filter filter_edited)

lemma last_varint_edited_None: "last_varint n (edited n [] fs) = Inr 0"
  by (simp add: last_varint_def find_rev_filter filter_edited)

lemma edited_twice:
  assumes "\<forall>f\<in>set rs. f_num f = n" "\<forall>f\<in>set ss. f_num f = n" "ss = [] \<or> rs \<noteq> []"
  shows "edited n ss (edited n rs fs) = edited n ss fs"
proof (cases "rs = []")
  case True
  with assms show ?thesis by (simp add: edited_None)
next
  case False
  then obtain r rs' where rs: "rs = r # rs'" "f_num r = n" using assms(1) by (cases rs) auto
  let ?p = "takeWhile (\<lambda>f. f_num f \<noteq> n) fs"
  let ?t = "filter (\<lambda>f. f_num f \<noteq> n) (dropWhile (\<lambda>f. f_num f \<noteq> n) fs)"
  have p: "\<And>f. f \<in> set ?p \<Longrightarrow> f_num f \<noteq> n" by (auto dest: set_takeWhileD)
  have e: "edited n rs fs = ?p @ r # rs' @ ?t" by (simp add: edited_def rs(1))
  have tw: "takeWhile (\<lambda>f. f_num f \<noteq> n) (edited n rs fs) = ?p"
    unfolding e by (subst takeWhile_append2) (use p rs(2) in simp_all)
  have dw: "dropWhile (\<lambda>f. f_num f \<noteq> n) (edited n rs fs) = rs @ ?t"
    unfolding e by (subst dropWhile_append2) (use p rs in simp_all)
  show ?thesis
    unfolding edited_def [of n ss "edited n rs fs"] tw dw
    using assms(1) by (simp add: edited_def filter_empty_conv)
qed

end
