(* ===== verification/Wire_Access.thy ===== *)
theory Wire_Access
  imports Wire_Record
begin

text \<open>
  The named getters and setters of \<open>storage_record.rs\<close>. The contract a getter and its
  setter share is the locale \<open>record_accessor\<close>, what two of them promise each other is
  \<open>record_accessor_pair\<close>; both are interpreted on every pair the code defines. The
  properties state the round trips, the frame conditions and the errors on the code's
  functions.
\<close>

section \<open>What a setter writes\<close>

lemma length_concat_edited:
  "length (concat (map f_raw (edited n rs fs))) + length (concat (map f_raw (filter (\<lambda>f. f_num f = n) fs))) =
   length (concat (map f_raw fs)) + length (concat (map f_raw rs))"
proof -
  have f: "length (concat (map f_raw (filter (\<lambda>f. f_num f \<noteq> n) xs))) +
           length (concat (map f_raw (filter (\<lambda>f. f_num f = n) xs))) = length (concat (map f_raw xs))" for xs
    by (induction xs) auto
  have t: "filter (\<lambda>f. f_num f = n) fs = filter (\<lambda>f. f_num f = n) (dropWhile (\<lambda>f. f_num f \<noteq> n) fs)"
    by (induction fs) auto
  have "concat (map f_raw fs) = concat (map f_raw (takeWhile (\<lambda>f. f_num f \<noteq> n) fs)) @
          concat (map f_raw (dropWhile (\<lambda>f. f_num f \<noteq> n) fs))"
    by (metis concat_append map_append takeWhile_dropWhile_id)
  with f [of "dropWhile (\<lambda>f. f_num f \<noteq> n) fs"] t show ?thesis by (simp add: edited_def)
qed

lemma length_payload_le: "wf_field f \<Longrightarrow> length (f_pl f) \<le> length (f_raw f)"
proof -
  assume "wf_field f"
  then obtain sp where sp: "scan_field (f_raw f) 0 = Inr (sp, length (f_raw f))" "field_of (f_raw f) sp = f"
    by (auto simp: wf_field_def)
  then have "f_pl f = slice (f_raw f) (payload sp)" by (metis field_of_def wire_field.select_convs(4))
  then show ?thesis by (simp add: length_slice_le)
qed

lemma set_record_field_length:
  assumes "set_record_field rec rf n (repl_of rs) = Inr rec'" "list_all wf_field rs" "rf \<noteq> 0"
    "length rec + length (concat (map f_raw rs)) < 2 ^ 64"
  shows "length rec' \<le> length rec + 20 + length (concat (map f_raw rs))"
proof -
  from assms obtain fs gs inner' g where w: "wire_fields rec = Inr fs" "inner_fields rec rf = Inr gs"
    "only_field rf fs = Inr g" "inner' = concat (map f_raw (edited n rs gs))"
    "rec' = concat (map f_raw (edited rf [len_field rf inner'] fs))"
    by (rule set_record_field_written) blast
  from w(2) obtain fs' g' where "wire_fields rec = Inr fs'" "only_field rf fs' = Inr g'" "wire_fields (f_pl g') = Inr gs"
    by (rule inner_fieldsE)
  with w have g: "wire_fields (f_pl g) = Inr gs" by simp
  have fg: "filter (\<lambda>f. f_num f = rf) fs = [g]" using w(3) by (simp add: only_field_Inr_iff)
  then have "g \<in> set fs" by (metis (mono_tags, lifting) filter_eq_Cons_iff in_set_conv_decomp)
  with w(1) have "length (f_pl g) \<le> length (f_raw g)"
    by (auto simp: fields_iff list_all_iff intro: length_payload_le)
  moreover have "length inner' \<le> length (f_pl g) + length (concat (map f_raw rs))"
    using length_concat_edited_le [of n rs gs] g by (simp add: w(4) fields_iff)
  moreover have "length rec' + length (f_raw g) = length rec + length (encode_len_delimited rf inner')"
    using length_concat_edited [of rf "[len_field rf inner']" fs] w(1) by (simp add: w(5) fg fields_iff)
  ultimately show ?thesis using length_encode_len_delimited_le [of rf inner'] by linarith
qed

lemma set_record_field_same:
  assumes "set_record_field rec rf n (repl_of rs) = Inr rec'" "list_all wf_field rs" "rf \<noteq> 0"
    "length rec + length (concat (map f_raw rs)) < 2 ^ 64"
  shows "\<exists>gs. inner_fields rec rf = Inr gs \<and> inner_fields rec' rf = Inr (edited n rs gs)"
  using assms by (rule set_record_field_written) (blast intro: inner_fields_same)

lemma set_record_field_other:
  assumes "set_record_field rec rf n (repl_of rs) = Inr rec'" "list_all wf_field rs" "rf \<noteq> 0"
    "length rec + length (concat (map f_raw rs)) < 2 ^ 64" "rf' \<noteq> rf"
  shows "inner_fields rec' rf' = inner_fields rec rf'"
proof -
  from assms(1-4) obtain fs inner' where "wire_fields rec = Inr fs"
    "wire_fields rec' = Inr (edited rf [len_field rf inner'] fs)"
    by (rule set_record_field_written)
  with assms(5) show ?thesis unfolding inner_fields_def by (simp add: record_inner_other)
qed

lemma set_record_field_again:
  assumes "set_record_field rec rf n (repl_of rs) = Inr rec'" "list_all wf_field rs" "rf \<noteq> 0"
    "length rec + length (concat (map f_raw rs)) < 2 ^ 64"
    "\<forall>f\<in>set rs. f_num f = n" "\<forall>f\<in>set ss. f_num f = n" "ss = [] \<or> rs \<noteq> []"
  shows "set_record_field rec' rf n (repl_of ss) = set_record_field rec rf n (repl_of ss)"
proof -
  from assms(1-4) obtain fs gs inner' g where w: "wire_fields rec = Inr fs" "inner_fields rec rf = Inr gs"
    "only_field rf fs = Inr g" "wire_fields inner' = Inr (edited n rs gs)"
    "wire_fields rec' = Inr (edited rf [len_field rf inner'] fs)"
    by (rule set_record_field_written) blast
  from w(2) obtain fs' g' where "wire_fields rec = Inr fs'" "only_field rf fs' = Inr g'" "wire_fields (f_pl g') = Inr gs"
    by (rule inner_fieldsE)
  with w have "wire_fields (f_pl g) = Inr gs" by simp
  with w assms(5-7) show ?thesis
    by (simp add: set_record_field_form only_field_edited_same edited_twice Let_def)
qed

section \<open>Varint and boolean fields\<close>

definition varint_repl :: "u32 \<Rightarrow> u64 \<Rightarrow> wire_field list" where
  "varint_repl n v = (if v \<noteq> 0 then [varint_field n v] else [])"

lemma set_varint_alt: "set_varint_field_or_remove rec rf n v = set_record_field rec rf n (repl_of (varint_repl n v))"
  by (simp add: set_varint_field_or_remove_def varint_repl_def repl_of_def)

lemma set_bool_alt: "set_bool_field rec rf n b = set_varint_field_or_remove rec rf n (if b then 1 else 0)"
  by (simp add: set_bool_field_def set_varint_field_or_remove_def)

lemma varint_repl_num: "\<forall>f\<in>set (varint_repl n v). f_num f = n"
  by (simp add: varint_repl_def)

lemma wf_varint_repl: "n \<noteq> 0 \<Longrightarrow> list_all wf_field (varint_repl n v)"
  by (simp add: varint_repl_def wf_varint_field)

lemma length_varint_repl: "length (concat (map f_raw (varint_repl n v))) \<le> 20"
  by (simp add: varint_repl_def length_encode_varint_field_le)

lemma last_varint_repl: "last_varint n (edited n (varint_repl n v) fs) = Inr v"
  by (simp add: varint_repl_def last_varint_edited_same last_varint_edited_None)

lemma varint_written:
  assumes "set_varint_field_or_remove rec rf n v = Inr rec'" "rf \<noteq> 0" "n \<noteq> 0" "length rec + 40 < 2 ^ 64"
  shows "set_record_field rec rf n (repl_of (varint_repl n v)) = Inr rec'"
    "list_all wf_field (varint_repl n v)" "rf \<noteq> 0"
    "length rec + length (concat (map f_raw (varint_repl n v))) < 2 ^ 64"
  using assms length_varint_repl [of n v] by (auto simp: set_varint_alt wf_varint_repl)

lemma varint_get_put:
  assumes "set_varint_field_or_remove rec rf n v = Inr rec'" "rf \<noteq> 0" "n \<noteq> 0" "length rec + 40 < 2 ^ 64"
  shows "record_varint_field rec' rf n = Inr v"
  using set_record_field_same [OF varint_written [OF assms]]
  by (auto simp: record_varint_field_fields last_varint_repl)

lemma varint_inner_frame:
  assumes "set_varint_field_or_remove rec rf n v = Inr rec'" "rf \<noteq> 0" "n \<noteq> 0" "length rec + 40 < 2 ^ 64"
    "rf' \<noteq> rf"
  shows "inner_fields rec' rf' = inner_fields rec rf'"
  using set_record_field_other [OF varint_written [OF assms(1-4)] assms(5)] .

lemma varint_frame:
  assumes "set_varint_field_or_remove rec rf n v = Inr rec'" "rf \<noteq> 0" "n \<noteq> 0" "length rec + 40 < 2 ^ 64"
    "(rf', n') \<noteq> (rf, n)"
  shows "record_varint_field rec' rf' n' = record_varint_field rec rf' n'"
proof (cases "rf' = rf")
  case True
  with assms(5) have "n' \<noteq> n" by simp
  with True set_record_field_same [OF varint_written [OF assms(1-4)]] show ?thesis
    by (auto simp: record_varint_field_fields last_varint_edited_other [OF varint_repl_num])
next
  case False
  from varint_inner_frame [OF assms(1-4) False] show ?thesis
    by (simp add: record_varint_field_fields)
qed

lemma varint_put_put:
  assumes "set_varint_field_or_remove rec rf n v = Inr rec'" "rf \<noteq> 0" "n \<noteq> 0" "length rec + 40 < 2 ^ 64"
  shows "set_varint_field_or_remove rec' rf n v = Inr rec'"
  using set_record_field_again [OF varint_written [OF assms] varint_repl_num varint_repl_num, of v]
    varint_written(1) [OF assms]
  by (auto simp: set_varint_alt)

lemma varint_length:
  assumes "set_varint_field_or_remove rec rf n v = Inr rec'" "rf \<noteq> 0" "n \<noteq> 0" "length rec + 40 < 2 ^ 64"
  shows "length rec' \<le> length rec + 40"
  using set_record_field_length [OF varint_written [OF assms]] length_varint_repl [of n v] by linarith

lemma varint_put_error: "set_varint_field_or_remove rec rf n v = Inl e \<longleftrightarrow> inner_fields rec rf = Inl e"
  by (simp add: set_varint_alt set_record_field_InlE)

lemma varint_put_total:
  assumes "record_varint_field rec rf n = Inr u"
  shows "\<exists>rec'. set_varint_field_or_remove rec rf n v = Inr rec'"
proof (cases "set_varint_field_or_remove rec rf n v")
  case (Inl e)
  then have "inner_fields rec rf = Inl e" by (simp add: varint_put_error)
  with assms show ?thesis by (simp add: record_varint_field_fields)
qed simp

section \<open>The contract of a getter and its setter\<close>

text \<open>
  \<open>cost v\<close> bounds how many bytes writing \<open>v\<close> can add, the length prefix of the record
  included: a message that leaves that much room below \<open>2\<^sup>6\<^sup>4\<close> has a length its varint holds.
\<close>

definition put_if :: "(bytes \<Rightarrow> 'v \<Rightarrow> edit_error + bytes) \<Rightarrow> bool \<Rightarrow> bytes \<Rightarrow> 'v \<Rightarrow> edit_error + bytes" where
  "put_if put c rec v = (if c then put rec v else Inr rec)"

locale record_accessor =
  fixes get :: "bytes \<Rightarrow> edit_error + 'v"
    and put :: "bytes \<Rightarrow> 'v \<Rightarrow> edit_error + bytes"
    and cost :: "'v \<Rightarrow> nat"
  assumes get_put: "put rec v = Inr rec' \<Longrightarrow> length rec + cost v < 2 ^ 64 \<Longrightarrow> get rec' = Inr v"
    and put_put: "put rec v = Inr rec' \<Longrightarrow> length rec + cost v < 2 ^ 64 \<Longrightarrow> put rec' v = Inr rec'"
    and put_total: "get rec = Inr u \<Longrightarrow> \<exists>rec'. put rec v = Inr rec'"
    and put_length: "put rec v = Inr rec' \<Longrightarrow> length rec + cost v < 2 ^ 64 \<Longrightarrow> length rec' \<le> length rec + cost v"
begin

lemma put_if_get:
  "put_if put c rec v = Inr rec' \<Longrightarrow> length rec + cost v < 2 ^ 64 \<Longrightarrow> c \<or> get rec = Inr v \<Longrightarrow> get rec' = Inr v"
  by (auto simp: put_if_def intro: get_put split: if_splits)

lemma put_if_total: "get rec = Inr u \<Longrightarrow> \<exists>rec'. put_if put c rec v = Inr rec'"
  using put_total by (auto simp: put_if_def)

lemma put_if_length:
  "put_if put c rec v = Inr rec' \<Longrightarrow> length rec + cost v < 2 ^ 64 \<Longrightarrow> length rec' \<le> length rec + cost v"
  by (auto simp: put_if_def dest: put_length split: if_splits)

lemma put_restores:
  assumes "put rec v = Inr rec'" "put rec' w = Inr rec''" "length rec + cost v + cost w < 2 ^ 64"
  shows "get rec'' = Inr w"
proof -
  have "length rec' \<le> length rec + cost v" using assms by (intro put_length) auto
  with assms show ?thesis by (intro get_put) auto
qed

end

text \<open>Two accessors of one record that leave each other's field alone.\<close>

locale record_accessor_pair =
  a: record_accessor geta puta costa + b: record_accessor getb putb costb
  for geta :: "bytes \<Rightarrow> edit_error + 'v" and puta costa
    and getb :: "bytes \<Rightarrow> edit_error + 'w" and putb costb +
  assumes frame_b: "puta rec v = Inr rec' \<Longrightarrow> length rec + costa v < 2 ^ 64 \<Longrightarrow> getb rec' = getb rec"
    and frame_a: "putb rec w = Inr rec' \<Longrightarrow> length rec + costb w < 2 ^ 64 \<Longrightarrow> geta rec' = geta rec"
begin

lemma put_if_frame_b:
  "put_if puta c rec v = Inr rec' \<Longrightarrow> length rec + costa v < 2 ^ 64 \<Longrightarrow> getb rec' = getb rec"
  by (auto simp: put_if_def dest: frame_b split: if_splits)

lemma put_if_frame_a:
  "put_if putb c rec w = Inr rec' \<Longrightarrow> length rec + costb w < 2 ^ 64 \<Longrightarrow> geta rec' = geta rec"
  by (auto simp: put_if_def dest: frame_a split: if_splits)

lemma both_written:
  assumes "puta rec v = Inr rec1" "putb rec1 w = Inr rec2" "length rec + costa v + costb w < 2 ^ 64"
  shows "geta rec2 = Inr v \<and> getb rec2 = Inr w"
proof -
  have l: "length rec1 \<le> length rec + costa v" using assms by (intro a.put_length) auto
  then have "geta rec2 = geta rec1" using assms by (intro frame_a) auto
  moreover have "geta rec1 = Inr v" using assms by (intro a.get_put) auto
  moreover have "getb rec2 = Inr w" using assms l by (intro b.get_put) auto
  ultimately show ?thesis by simp
qed

end

section \<open>The pinned conversations\<close>

definition pin_entry :: "wire_field \<Rightarrow> edit_error + bytes" where
  "pin_entry f = (if f_wt f = WIRE_LEN then Inr (f_pl f) else Inl Malformed)"

definition pinned_of :: "wire_field list \<Rightarrow> edit_error + bytes list" where
  "pinned_of fs =
     res_collect (map pin_entry (filter (\<lambda>f. f_num f = ACCOUNT_RECORD_PINNED_CONVERSATIONS) fs))"

abbreviation "pin_fields \<equiv> map (len_field ACCOUNT_RECORD_PINNED_CONVERSATIONS)"

lemma encode_pins_fields: "encode_pinned_conversations pins = concat (map f_raw (pin_fields pins))"
  by (simp add: encode_pinned_conversations_def o_def)

lemma decode_pins_fields: "decode_pinned_conversations bs = res_bind (wire_fields bs) pinned_of"
proof (cases "scan bs")
  case (Inr sps)
  have "pin_entry \<circ> field_of bs =
        (\<lambda>sp. if wire_type sp = WIRE_LEN then Inr (slice bs (payload sp)) else Inl Malformed)"
    by (auto simp: pin_entry_def field_of_def)
  with Inr show ?thesis
    by (simp add: decode_pinned_conversations_def wire_fields_def pinned_of_def filter_field_of)
qed (simp add: decode_pinned_conversations_def wire_fields_def)

lemma pins_inner_fields:
  "account_pinned_conversations rec = res_bind (inner_fields rec STORAGE_RECORD_ACCOUNT) pinned_of"
  by (cases "record_payload rec STORAGE_RECORD_ACCOUNT")
     (simp_all add: account_pinned_conversations_def inner_fields_def record_inner_def decode_pins_fields)

lemma set_pins_alt:
  "set_account_pinned_conversations rec pins =
   set_record_field rec STORAGE_RECORD_ACCOUNT ACCOUNT_RECORD_PINNED_CONVERSATIONS (repl_of (pin_fields pins))"
  by (simp add: set_account_pinned_conversations_def encode_pins_fields repl_of_def)

lemma pinned_of_pin_fields: "pinned_of (pin_fields pins) = Inr pins"
  unfolding pinned_of_def by (induction pins) (simp_all add: pin_entry_def wire_type_defs)

lemma pinned_of_edited: "pinned_of (edited ACCOUNT_RECORD_PINNED_CONVERSATIONS (pin_fields pins) fs) = Inr pins"
  using pinned_of_pin_fields [of pins] by (simp add: pinned_of_def filter_edited)

definition pins_cost :: "bytes list \<Rightarrow> nat" where
  "pins_cost pins = 20 + sum_list (map (\<lambda>p. 20 + length p) pins)"

lemma length_pin_fields: "length (concat (map f_raw (pin_fields pins))) + 20 \<le> pins_cost pins"
proof (induction pins)
  case (Cons p pins)
  then show ?case
    using length_encode_len_delimited_le [of ACCOUNT_RECORD_PINNED_CONVERSATIONS p]
    by (simp add: pins_cost_def)
qed (simp add: pins_cost_def)

lemma wf_pin_fields: "pins_cost pins < 2 ^ 64 \<Longrightarrow> list_all wf_field (pin_fields pins)"
proof (induction pins)
  case (Cons p pins)
  then show ?case
    by (auto simp: pins_cost_def field_number_defs intro!: wf_len_field)
qed simp

lemma pins_written:
  assumes "set_account_pinned_conversations rec pins = Inr rec'" "length rec + pins_cost pins < 2 ^ 64"
  shows "set_record_field rec STORAGE_RECORD_ACCOUNT ACCOUNT_RECORD_PINNED_CONVERSATIONS
           (repl_of (pin_fields pins)) = Inr rec'"
    "list_all wf_field (pin_fields pins)" "STORAGE_RECORD_ACCOUNT \<noteq> 0"
    "length rec + length (concat (map f_raw (pin_fields pins))) < 2 ^ 64"
  using assms length_pin_fields [of pins] wf_pin_fields [of pins]
  by (auto simp: set_pins_alt field_number_defs)

lemma pins_put_error:
  "set_account_pinned_conversations rec pins = Inl e \<longleftrightarrow> inner_fields rec STORAGE_RECORD_ACCOUNT = Inl e"
  by (simp add: set_pins_alt set_record_field_InlE)

section \<open>The accessors of the code keep the contract\<close>

lemma varint_accessor:
  assumes "rf \<noteq> 0" "n \<noteq> 0"
  shows "record_accessor (\<lambda>rec. record_varint_field rec rf n)
           (\<lambda>rec. set_varint_field_or_remove rec rf n) (\<lambda>_. 40)"
  by unfold_locales
     (use assms in \<open>auto intro: varint_get_put varint_put_put varint_put_total varint_length\<close>)

lemma bool_accessor:
  assumes "rf \<noteq> 0" "n \<noteq> 0"
  shows "record_accessor (\<lambda>rec. record_bool_field rec rf n) (\<lambda>rec. set_bool_field rec rf n) (\<lambda>_. 40)"
proof -
  note v = record_accessor.get_put [OF varint_accessor [OF assms]]
    record_accessor.put_put [OF varint_accessor [OF assms]]
    record_accessor.put_length [OF varint_accessor [OF assms]]
    record_accessor.put_total [OF varint_accessor [OF assms]]
  show ?thesis
    by unfold_locales (auto simp: record_bool_field_def set_bool_alt res_map_Inr_iff dest: v)
qed

interpretation contact_blocked: record_accessor contact_blocked set_contact_blocked "\<lambda>_. 40"
  unfolding contact_blocked_def [abs_def] set_contact_blocked_def [abs_def]
  by (rule bool_accessor) (simp_all add: field_number_defs)

interpretation contact_muted: record_accessor contact_muted_until set_contact_muted_until "\<lambda>_. 40"
  unfolding contact_muted_until_def [abs_def] set_contact_muted_until_def [abs_def]
  by (rule varint_accessor) (simp_all add: field_number_defs)

interpretation contact_archived: record_accessor contact_archived set_contact_archived "\<lambda>_. 40"
  unfolding contact_archived_def [abs_def] set_contact_archived_def [abs_def]
  by (rule bool_accessor) (simp_all add: field_number_defs)

interpretation group_muted: record_accessor group_muted_until set_group_muted_until "\<lambda>_. 40"
  unfolding group_muted_until_def [abs_def] set_group_muted_until_def [abs_def]
  by (rule varint_accessor) (simp_all add: field_number_defs)

interpretation group_archived: record_accessor group_archived set_group_archived "\<lambda>_. 40"
  unfolding group_archived_def [abs_def] set_group_archived_def [abs_def]
  by (rule bool_accessor) (simp_all add: field_number_defs)

interpretation note_to_self: record_accessor account_note_to_self_archived
  set_account_note_to_self_archived "\<lambda>_. 40"
  unfolding account_note_to_self_archived_def [abs_def] set_account_note_to_self_archived_def [abs_def]
  by (rule bool_accessor) (simp_all add: field_number_defs)

lemma pins_length:
  assumes "set_account_pinned_conversations rec pins = Inr rec'" "length rec + pins_cost pins < 2 ^ 64"
  shows "length rec' \<le> length rec + pins_cost pins"
  using set_record_field_length [OF pins_written [OF assms]] length_pin_fields [of pins] by linarith

lemma pins_put_total:
  assumes "account_pinned_conversations rec = Inr u"
  shows "\<exists>rec'. set_account_pinned_conversations rec pins = Inr rec'"
proof (cases "set_account_pinned_conversations rec pins")
  case (Inl e)
  with assms show ?thesis by (simp add: pins_inner_fields pins_put_error)
qed simp

interpretation account_pins: record_accessor account_pinned_conversations
  set_account_pinned_conversations pins_cost
proof unfold_locales
  fix rec rec' and v :: "bytes list"
  assume w: "set_account_pinned_conversations rec v = Inr rec'" "length rec + pins_cost v < 2 ^ 64"
  show "account_pinned_conversations rec' = Inr v"
    using set_record_field_same [OF pins_written [OF w]]
    by (auto simp: pins_inner_fields pinned_of_edited)
  show "set_account_pinned_conversations rec' v = Inr rec'"
    using set_record_field_again [OF pins_written [OF w], of "pin_fields v"] pins_written(1) [OF w]
    by (auto simp: set_pins_alt)
  show "length rec' \<le> length rec + pins_cost v" by (rule pins_length [OF w])
qed (rule pins_put_total)

lemma bool_varint_frames:
  assumes "rf \<noteq> 0" "n \<noteq> 0" "length rec + 40 < 2 ^ 64" "(rf', n') \<noteq> (rf, n)"
  shows "set_varint_field_or_remove rec rf n v = Inr rec' \<Longrightarrow> record_bool_field rec' rf' n' = record_bool_field rec rf' n'"
    and "set_bool_field rec rf n b = Inr rec' \<Longrightarrow> record_bool_field rec' rf' n' = record_bool_field rec rf' n'"
    and "set_bool_field rec rf n b = Inr rec' \<Longrightarrow> record_varint_field rec' rf' n' = record_varint_field rec rf' n'"
  using varint_frame [OF _ assms(1,2,3,4)] by (auto simp: record_bool_field_def set_bool_alt)

lemmas accessor_defs =
  contact_blocked_def set_contact_blocked_def contact_muted_until_def set_contact_muted_until_def
  contact_archived_def set_contact_archived_def group_muted_until_def set_group_muted_until_def
  group_archived_def set_group_archived_def account_note_to_self_archived_def
  set_account_note_to_self_archived_def account_keep_muted_chats_archived_def

interpretation blocked_muted: record_accessor_pair contact_blocked set_contact_blocked "\<lambda>_. 40"
  contact_muted_until set_contact_muted_until "\<lambda>_. 40"
  by unfold_locales
     (auto simp: accessor_defs field_number_defs intro: bool_varint_frames [rotated 4])

interpretation blocked_archived: record_accessor_pair contact_blocked set_contact_blocked "\<lambda>_. 40"
  contact_archived set_contact_archived "\<lambda>_. 40"
  by unfold_locales
     (auto simp: accessor_defs field_number_defs intro: bool_varint_frames [rotated 4])

interpretation muted_archived: record_accessor_pair contact_muted_until set_contact_muted_until "\<lambda>_. 40"
  contact_archived set_contact_archived "\<lambda>_. 40"
  by unfold_locales
     (auto simp: accessor_defs field_number_defs intro: bool_varint_frames [rotated 4])

interpretation group_muted_archived: record_accessor_pair group_muted_until set_group_muted_until "\<lambda>_. 40"
  group_archived set_group_archived "\<lambda>_. 40"
  by unfold_locales
     (auto simp: accessor_defs field_number_defs intro: bool_varint_frames [rotated 4])

lemma pins_frame_varint:
  assumes "set_account_pinned_conversations rec pins = Inr rec'" "length rec + pins_cost pins < 2 ^ 64"
    "(rf, n) \<noteq> (STORAGE_RECORD_ACCOUNT, ACCOUNT_RECORD_PINNED_CONVERSATIONS)"
  shows "record_varint_field rec' rf n = record_varint_field rec rf n"
proof (cases "rf = STORAGE_RECORD_ACCOUNT")
  case True
  with assms(3) set_record_field_same [OF pins_written [OF assms(1,2)]] show ?thesis
    by (auto simp: record_varint_field_fields last_varint_edited_other)
next
  case False
  from set_record_field_other [OF pins_written [OF assms(1,2)] False] show ?thesis
    by (simp add: record_varint_field_fields)
qed

lemma varint_frame_pins:
  assumes "set_varint_field_or_remove rec rf n v = Inr rec'" "rf \<noteq> 0" "n \<noteq> 0" "length rec + 40 < 2 ^ 64"
    "(rf, n) \<noteq> (STORAGE_RECORD_ACCOUNT, ACCOUNT_RECORD_PINNED_CONVERSATIONS)"
  shows "account_pinned_conversations rec' = account_pinned_conversations rec"
proof (cases "rf = STORAGE_RECORD_ACCOUNT")
  case True
  with assms(5) set_record_field_same [OF varint_written [OF assms(1-4)]] show ?thesis
    by (auto simp: pins_inner_fields pinned_of_def filter_edited_other varint_repl_num)
next
  case False
  with varint_inner_frame [OF assms(1-4), of STORAGE_RECORD_ACCOUNT] show ?thesis
    by (simp add: pins_inner_fields)
qed

interpretation note_to_self_pins: record_accessor_pair account_note_to_self_archived
  set_account_note_to_self_archived "\<lambda>_. 40"
  account_pinned_conversations set_account_pinned_conversations pins_cost
proof unfold_locales
  fix rec rec' :: bytes and b :: bool
  assume "set_account_note_to_self_archived rec b = Inr rec'" "length rec + 40 < 2 ^ 64"
  note w = this [unfolded set_account_note_to_self_archived_def set_bool_alt]
  show "account_pinned_conversations rec' = account_pinned_conversations rec"
    by (rule varint_frame_pins [OF w(1) _ _ w(2)]) (simp_all add: field_number_defs)
next
  fix rec rec' and pins :: "bytes list"
  assume "set_account_pinned_conversations rec pins = Inr rec'" "length rec + pins_cost pins < 2 ^ 64"
  from pins_frame_varint [OF this, of STORAGE_RECORD_ACCOUNT ACCOUNT_RECORD_NOTE_TO_SELF_ARCHIVED]
  show "account_note_to_self_archived rec' = account_note_to_self_archived rec"
    unfolding account_note_to_self_archived_def record_bool_field_def
    by (simp add: ACCOUNT_RECORD_NOTE_TO_SELF_ARCHIVED_def ACCOUNT_RECORD_PINNED_CONVERSATIONS_def)
qed

section \<open>Properties\<close>

text \<open>\<open>scan\<close> loses nothing: the spans it returns cover the message from its first byte
  to its last, in order and without gaps, so a message rebuilt from the raw bytes of its
  fields is the message.\<close>

theorem scan_lossless:
  "scan msg = Inr spans \<Longrightarrow> concat (map (\<lambda>s. slice msg (whole s)) spans) = msg"
proof -
  assume "scan msg = Inr spans"
  then have "wire_fields msg = Inr (map (field_of msg) spans)" by (rule scan_Inr_fields)
  then have "msg = concat (map f_raw (map (field_of msg) spans))" by (simp only: fields_iff)
  then show ?thesis by (simp add: o_def field_of_def)
qed

lemma scan_lossless_witness:
  "\<exists>spans. scan [8, 150, 1, 18, 2, 7, 9] = Inr spans \<and> length spans = 2 \<and>
     concat (map (\<lambda>s. slice [8, 150, 1, 18, 2, 7, 9] (whole s)) spans) = [8, 150, 1, 18, 2, 7, 9]"
proof -
  have s: "scan [8, 150, 1, 18, 2, 7, 9] =
        Inr [\<lparr>number = 1, wire_type = 0, whole = (0, 3), payload = (1, 3)\<rparr>,
             \<lparr>number = 2, wire_type = 2, whole = (3, 7), payload = (5, 7)\<rparr>]"
    by code_simp
  from s scan_lossless [OF s] show ?thesis by simp
qed

text \<open>The varint writer and reader are inverse on all sixty-four bits, whatever
  follows the value: the reader returns it together with the position right after it.\<close>

theorem varint_roundtrip:
  "read_varint (encode_varint v @ rest) 0 = Inr (v, length (encode_varint v)) \<and>
   length (encode_varint v) \<le> 10"
  by (simp add: length_encode_varint_le)

text \<open>C3. A one-field edit touches one field: after \<open>set_varint_field_or_remove\<close> the field
  reads back as written (zero as absent), every other field of every record in the message
  keeps its raw bytes and its order, and writing the same value again changes nothing.\<close>

theorem record_edit_is_local:
  assumes "set_varint_field_or_remove rec rf n v = Inr rec'" "rf \<noteq> 0" "n \<noteq> 0" "length rec + 40 < 2 ^ 64"
  shows "record_varint_field rec' rf n = Inr v \<and>
    set_varint_field_or_remove rec' rf n v = Inr rec' \<and>
    (\<exists>fs fs' gs gs'. wire_fields rec = Inr fs \<and> wire_fields rec' = Inr fs' \<and>
       inner_fields rec rf = Inr gs \<and> inner_fields rec' rf = Inr gs' \<and>
       filter (\<lambda>f. f_num f \<noteq> rf) fs' = filter (\<lambda>f. f_num f \<noteq> rf) fs \<and>
       filter (\<lambda>f. f_num f \<noteq> n) gs' = filter (\<lambda>f. f_num f \<noteq> n) gs)"
proof -
  note w = varint_written [OF assms]
  from w obtain fs gs inner' where "wire_fields rec = Inr fs" "inner_fields rec rf = Inr gs"
    "wire_fields inner' = Inr (edited n (varint_repl n v) gs)"
    "wire_fields rec' = Inr (edited rf [len_field rf inner'] fs)"
    by (rule set_record_field_written)
  moreover from this(3,4) have "inner_fields rec' rf = Inr (edited n (varint_repl n v) gs)"
    by (rule inner_fields_same [rotated])
  ultimately have "\<exists>fs fs' gs gs'. wire_fields rec = Inr fs \<and> wire_fields rec' = Inr fs' \<and>
       inner_fields rec rf = Inr gs \<and> inner_fields rec' rf = Inr gs' \<and>
       filter (\<lambda>f. f_num f \<noteq> rf) fs' = filter (\<lambda>f. f_num f \<noteq> rf) fs \<and>
       filter (\<lambda>f. f_num f \<noteq> n) gs' = filter (\<lambda>f. f_num f \<noteq> n) gs"
    by (simp add: filter_edited_ne varint_repl_num)
  with varint_get_put [OF assms] varint_put_put [OF assms] show ?thesis by blast
qed

lemma record_edit_is_local_witness:
  "set_varint_field_or_remove [82, 1, 7, 10, 3, 80, 1, 9, 0] 1 13 300 = Inl Malformed \<and>
   set_varint_field_or_remove [82, 1, 7, 10, 2, 80, 1] 1 13 300 = Inr [82, 1, 7, 10, 5, 80, 1, 104, 172, 2] \<and>
   record_varint_field [82, 1, 7, 10, 5, 80, 1, 104, 172, 2] 1 13 = Inr 300"
proof -
  have e: "set_varint_field_or_remove [82, 1, 7, 10, 2, 80, 1] 1 13 300 = Inr [82, 1, 7, 10, 5, 80, 1, 104, 172, 2]"
    by code_simp
  have m: "set_varint_field_or_remove [82, 1, 7, 10, 3, 80, 1, 9, 0] 1 13 300 = Inl Malformed"
    by code_simp
  from e m record_edit_is_local [OF e] show ?thesis by simp
qed

text \<open>Pinning: a record told to pin a list pins exactly that list, in order and byte for
  byte, whatever the entries are; the Note-to-Self and keep-muted-archived flags next to it
  read as before; and the list form a store keeps decodes to the same list.\<close>

theorem set_pins_roundtrip:
  assumes "set_account_pinned_conversations rec pins = Inr rec'" "length rec + pins_cost pins < 2 ^ 64"
  shows "account_pinned_conversations rec' = Inr pins \<and>
    account_note_to_self_archived rec' = account_note_to_self_archived rec \<and>
    account_keep_muted_chats_archived rec' = account_keep_muted_chats_archived rec \<and>
    decode_pinned_conversations (encode_pinned_conversations pins) = Inr pins"
proof -
  have "pins_cost pins < 2 ^ 64" using assms(2) by simp
  then have "wire_fields (encode_pinned_conversations pins) = Inr (pin_fields pins)"
    by (simp only: encode_pins_fields fields_iff wf_pin_fields simp_thms)
  then have "decode_pinned_conversations (encode_pinned_conversations pins) = Inr pins"
    by (simp add: decode_pins_fields pinned_of_pin_fields)
  moreover have "account_keep_muted_chats_archived rec' = account_keep_muted_chats_archived rec"
    using pins_frame_varint [OF assms, of STORAGE_RECORD_ACCOUNT ACCOUNT_RECORD_KEEP_MUTED_CHATS_ARCHIVED]
    by (simp add: account_keep_muted_chats_archived_def record_bool_field_def
          ACCOUNT_RECORD_KEEP_MUTED_CHATS_ARCHIVED_def ACCOUNT_RECORD_PINNED_CONVERSATIONS_def)
  ultimately show ?thesis
    using account_pins.get_put [OF assms] note_to_self_pins.frame_a [OF assms] by simp
qed

lemma set_pins_roundtrip_witness:
  "account_pinned_conversations [34, 9, 40, 1, 114, 1, 7, 114, 2, 9, 9] = Inr [[7], [9, 9]]"
proof -
  have "set_account_pinned_conversations [34, 2, 40, 1] [[7], [9, 9]] =
        Inr [34, 9, 40, 1, 114, 1, 7, 114, 2, 9, 9]" by code_simp
  from set_pins_roundtrip [OF this] show ?thesis by (simp add: pins_cost_def)
qed

lemma read_varint_error: "read_varint msg pos = Inl e \<Longrightarrow> e = Malformed"
proof -
  have "read_varint_loop shifts msg pos acc = Inl e \<Longrightarrow> e = Malformed" for shifts acc
    by (induction shifts msg pos acc rule: read_varint_loop.induct) (auto simp: Let_def split: if_splits)
  then show "read_varint msg pos = Inl e \<Longrightarrow> e = Malformed" by (simp add: read_varint_def)
qed

lemma scan_payload_error: "scan_payload msg wt pos = Inl e \<Longrightarrow> e = Malformed"
  by (auto simp: scan_payload_def advance_def res_map_def res_bind_def
      split: if_splits sum.splits prod.splits dest: read_varint_error)

lemma scan_field_error: "scan_field msg start = Inl e \<Longrightarrow> e = Malformed"
  by (auto simp: scan_field_def Let_def res_map_def res_bind_def
      split: if_splits sum.splits prod.splits dest: read_varint_error scan_payload_error)

lemma fields_error: "wire_fields msg = Inl e \<Longrightarrow> e = Malformed"
proof -
  have "scan_from msg pos = Inl e \<Longrightarrow> e = Malformed" for pos
  proof (induction msg pos rule: scan_from.induct)
    case (1 msg pos)
    from 1(2) show ?case
      by (auto simp: scan_from.simps [of msg pos] res_map_def
          split: if_splits sum.splits prod.splits dest: scan_field_error intro: 1(1))
  qed
  then show "wire_fields msg = Inl e \<Longrightarrow> e = Malformed"
    by (cases "scan msg") (auto simp: wire_fields_def scan_def)
qed

text \<open>Errors of an edit: every setter built on \<open>set_record_field\<close> fails exactly when the
  record cannot be read. A message that does not scan, or whose record does not, is
  \<open>Malformed\<close>; one with no such record is \<open>WrongRecordType\<close>; one with two of them is
  \<open>AmbiguousRecord\<close>. On any other message the edit succeeds.\<close>

theorem record_edit_errors:
  "case set_varint_field_or_remove rec rf n v of
      Inl Malformed \<Rightarrow> wire_fields rec = Inl Malformed \<or>
        (\<exists>fs f. wire_fields rec = Inr fs \<and> filter (\<lambda>f. f_num f = rf) fs = [f] \<and> wire_fields (f_pl f) = Inl Malformed)
    | Inl WrongRecordType \<Rightarrow> \<exists>fs. wire_fields rec = Inr fs \<and> filter (\<lambda>f. f_num f = rf) fs = []
    | Inl AmbiguousRecord \<Rightarrow> \<exists>fs. wire_fields rec = Inr fs \<and> 2 \<le> length (filter (\<lambda>f. f_num f = rf) fs)
    | Inr rec' \<Rightarrow> \<exists>fs f gs. wire_fields rec = Inr fs \<and> filter (\<lambda>f. f_num f = rf) fs = [f] \<and> wire_fields (f_pl f) = Inr gs"
proof (cases "wire_fields rec")
  case (Inl e)
  with fields_error [OF Inl] show ?thesis by (simp add: set_varint_alt set_record_field_form)
next
  case (Inr fs)
  show ?thesis
  proof (cases "only_field rf fs")
    case e: (Inl e)
    with Inr show ?thesis
      by (auto simp: set_varint_alt set_record_field_form only_field_def split: list.splits)
  next
    case g: (Inr g)
    then have "filter (\<lambda>f. f_num f = rf) fs = [g]" by (simp add: only_field_Inr_iff)
    then show ?thesis
      using Inr fields_error [of "f_pl g"]
      by (cases "wire_fields (f_pl g)")
         (auto simp: set_varint_alt set_record_field_form Let_def only_field_def)
  qed
qed

end
