(* ===== verification/Account.thy ===== *)
theory Account
  imports Wire_Access
begin

text \<open>
  \<open>presage/src/model/account.rs\<close>: the chat-list part of the account record. The protobuf
  codec (prost) and the forms of a service id (libsignal) are parameters, gathered in the
  record \<open>codec\<close>; \<open>codec_ok\<close> states what their documentation promises: parsing undoes
  writing, and the empty value is no service id.
\<close>

section \<open>External codecs\<close>

text \<open>\<open>pinned_conversation::Identifier\<close>, generated from the protocol definition.\<close>

record pin_contact =
  pc_service_id :: string
  pc_e164 :: string
  pc_service_id_binary :: bytes

datatype pin_identifier =
    PinContact pin_contact
  | PinLegacyGroupId bytes
  | PinGroupMasterKey bytes
  | PinReleaseNotes

record codec =
  service_id_string :: "service_id \<Rightarrow> string"
  service_id_binary :: "service_id \<Rightarrow> bytes"
  parse_from_service_id_string :: "string \<Rightarrow> service_id option"
  parse_from_service_id_binary :: "bytes \<Rightarrow> service_id option"
  encode_pin :: "pin_identifier option \<Rightarrow> bytes"
  decode_pin :: "bytes \<Rightarrow> pin_identifier option option"

definition codec_ok :: "codec \<Rightarrow> bool" where
  "codec_ok C \<longleftrightarrow>
     (\<forall>s. parse_from_service_id_string C (service_id_string C s) = Some s) \<and>
     (\<forall>s. parse_from_service_id_binary C (service_id_binary C s) = Some s) \<and>
     parse_from_service_id_string C [] = None \<and>
     parse_from_service_id_binary C [] = None \<and>
     (\<forall>i. decode_pin C (encode_pin C i) = Some i)"

lemma codec_okD [simp]:
  assumes "codec_ok C"
  shows "parse_from_service_id_string C (service_id_string C s) = Some s"
    "parse_from_service_id_binary C (service_id_binary C s) = Some s"
    "parse_from_service_id_string C [] = None"
    "parse_from_service_id_binary C [] = None"
    "decode_pin C (encode_pin C i) = Some i"
  using assms by (auto simp: codec_ok_def)

definition opt_else :: "'a option \<Rightarrow> 'a option \<Rightarrow> 'a option" where
  [simp]: "opt_else a b = (case a of Some x \<Rightarrow> Some x | None \<Rightarrow> b)"

section \<open>The code\<close>

type_synonym pinned_conversation = bytes

fun for_thread :: "codec \<Rightarrow> thread \<Rightarrow> pinned_conversation" where
  "for_thread C (ContactThread sid) =
     encode_pin C (Some (PinContact
       \<lparr>pc_service_id = service_id_string C sid, pc_e164 = [],
        pc_service_id_binary = service_id_binary C sid\<rparr>))"
| "for_thread C (GroupThread mk) = encode_pin C (Some (PinGroupMasterKey (key32_bytes mk)))"

definition pin_thread :: "codec \<Rightarrow> pinned_conversation \<Rightarrow> thread option" where
  "pin_thread C pin =
     (case decode_pin C pin of
        None \<Rightarrow> None
      | Some None \<Rightarrow> None
      | Some (Some (PinContact c)) \<Rightarrow>
          map_option ContactThread
            (opt_else (parse_from_service_id_binary C (pc_service_id_binary c))
                      (parse_from_service_id_string C (pc_service_id c)))
      | Some (Some (PinGroupMasterKey k)) \<Rightarrow> map_option GroupThread (key32_from_slice k)
      | Some (Some (PinLegacyGroupId _)) \<Rightarrow> None
      | Some (Some PinReleaseNotes) \<Rightarrow> None)"

record account_chat_state =
  note_to_self_archived :: bool
  keep_muted_chats_archived :: bool
  pinned :: "pinned_conversation list"

definition account_chat_state_default :: account_chat_state where
  "account_chat_state_default =
     \<lparr>note_to_self_archived = False, keep_muted_chats_archived = False, pinned = []\<rparr>"

definition account_from_record :: "bytes \<Rightarrow> edit_error + account_chat_state" where
  "account_from_record rec =
     res_bind (account_note_to_self_archived rec) (\<lambda>nts.
     res_bind (account_keep_muted_chats_archived rec) (\<lambda>keep.
     res_bind (account_pinned_conversations rec) (\<lambda>pins.
       Inr \<lparr>note_to_self_archived = nts, keep_muted_chats_archived = keep, pinned = pins\<rparr>)))"

definition pinned_threads :: "codec \<Rightarrow> account_chat_state \<Rightarrow> thread list" where
  "pinned_threads C st = List.map_filter (pin_thread C) (pinned st)"

definition is_pinned :: "codec \<Rightarrow> account_chat_state \<Rightarrow> thread \<Rightarrow> bool" where
  "is_pinned C st t = list_ex (\<lambda>p. p = t) (pinned_threads C st)"

definition pin :: "codec \<Rightarrow> thread \<Rightarrow> account_chat_state \<Rightarrow> account_chat_state" where
  "pin C t st = (if \<not> is_pinned C st t then st\<lparr>pinned := pinned st @ [for_thread C t]\<rparr> else st)"

definition unpin :: "codec \<Rightarrow> thread \<Rightarrow> account_chat_state \<Rightarrow> account_chat_state" where
  "unpin C t st = st\<lparr>pinned := filter (\<lambda>e. pin_thread C e \<noteq> Some t) (pinned st)\<rparr>"

section \<open>Lemmas\<close>

lemma pin_thread_for_thread [simp]: "codec_ok C \<Longrightarrow> pin_thread C (for_thread C t) = Some t"
  by (cases t) (simp_all add: pin_thread_def)

lemma map_filter_simps' [simp]:
  "List.map_filter f [] = []"
  "List.map_filter f (x # xs) = (case f x of None \<Rightarrow> List.map_filter f xs | Some y \<Rightarrow> y # List.map_filter f xs)"
  "List.map_filter f (xs @ ys) = List.map_filter f xs @ List.map_filter f ys"
  by (simp_all add: List.map_filter_def split: option.splits)

lemma is_pinned_iff: "is_pinned C st t \<longleftrightarrow> t \<in> set (pinned_threads C st)"
  by (auto simp: is_pinned_def list_ex_iff)

lemma pinned_threads_pin:
  "codec_ok C \<Longrightarrow> pinned_threads C (pin C t st) =
     (if t \<in> set (pinned_threads C st) then pinned_threads C st else pinned_threads C st @ [t])"
  by (auto simp: pin_def is_pinned_iff) (simp_all add: pinned_threads_def)

lemma map_filter_filter_ne:
  "List.map_filter f (filter (\<lambda>e. f e \<noteq> Some t) xs) = filter (\<lambda>s. s \<noteq> t) (List.map_filter f xs)"
  by (induction xs) (auto split: option.splits)

lemma pinned_threads_unpin:
  "pinned_threads C (unpin C t st) = filter (\<lambda>s. s \<noteq> t) (pinned_threads C st)"
  by (simp add: pinned_threads_def unpin_def map_filter_filter_ne)

lemma pin_other_fields [simp]:
  "note_to_self_archived (pin C t st) = note_to_self_archived st"
  "keep_muted_chats_archived (pin C t st) = keep_muted_chats_archived st"
  "note_to_self_archived (unpin C t st) = note_to_self_archived st"
  "keep_muted_chats_archived (unpin C t st) = keep_muted_chats_archived st"
  by (simp_all add: pin_def unpin_def)

section \<open>Properties\<close>

text \<open>Pinning a chat puts it after the chats already pinned and only once; unpinning
  removes exactly that chat. The entries presage cannot read, and those of every other chat,
  stay in the list byte for byte and in order.\<close>

theorem pin_unpin_spec:
  assumes "codec_ok C"
  shows "is_pinned C (pin C t st) t \<and>
    (distinct (pinned_threads C st) \<longrightarrow> distinct (pinned_threads C (pin C t st))) \<and>
    (\<exists>new. pinned (pin C t st) = pinned st @ new \<and> length new \<le> 1) \<and>
    \<not> is_pinned C (unpin C t st) t \<and>
    (\<forall>u. u \<noteq> t \<longrightarrow> is_pinned C (pin C t st) u = is_pinned C st u \<and>
                    is_pinned C (unpin C t st) u = is_pinned C st u) \<and>
    filter (\<lambda>e. pin_thread C e \<noteq> Some t) (pinned (pin C t st)) =
      filter (\<lambda>e. pin_thread C e \<noteq> Some t) (pinned st) \<and>
    (\<not> is_pinned C st t \<longrightarrow> unpin C t (pin C t st) = st)"
proof -
  have p: "\<exists>new. pinned (pin C t st) = pinned st @ new \<and> length new \<le> 1"
    by (simp add: pin_def)
  have f: "filter (\<lambda>e. pin_thread C e \<noteq> Some t) (pinned (pin C t st)) =
      filter (\<lambda>e. pin_thread C e \<noteq> Some t) (pinned st)"
    using assms by (simp add: pin_def)
  have u: "\<not> is_pinned C st t \<Longrightarrow> filter (\<lambda>e. pin_thread C e \<noteq> Some t) (pinned st) = pinned st"
    by (force simp: is_pinned_iff pinned_threads_def List.map_filter_def filter_id_conv image_iff)
  have r: "\<not> is_pinned C st t \<longrightarrow> unpin C t (pin C t st) = st"
    using u assms by (auto simp: unpin_def pin_def)
  from p f r show ?thesis
    using assms by (auto simp: is_pinned_iff pinned_threads_pin pinned_threads_unpin)
qed

end
