(* ===== verification/Sample_Codec.thy ===== *)
theory Sample_Codec
  imports Account
begin

text \<open>
  A concrete \<open>codec\<close> that keeps the laws of \<open>codec_ok\<close>, used by the witnesses. Its binary
  service ids are libsignal's (sixteen bytes for an ACI, a leading one for a PNI); its other
  forms are plain length-free encodings, chosen so that parsing is a short recursion.
\<close>

fun stuff :: "bytes \<Rightarrow> bytes" where
  "stuff [] = [0]"
| "stuff (b # bs) = 1 # b # stuff bs"

fun unstuff :: "bytes \<Rightarrow> (bytes \<times> bytes) option" where
  "unstuff (x # xs) =
     (if x = 0 then Some ([], xs)
      else case xs of [] \<Rightarrow> None | b # rest \<Rightarrow> map_option (\<lambda>(bs, r). (b # bs, r)) (unstuff rest))"
| "unstuff [] = None"

lemma unstuff_stuff [simp]: "unstuff (stuff bs @ rest) = Some (bs, rest)"
  by (induction bs) auto

fun sample_binary :: "service_id \<Rightarrow> bytes" where
  "sample_binary (Aci u) = uuid_bytes u"
| "sample_binary (Pni u) = 1 # uuid_bytes u"

definition sample_parse_binary :: "bytes \<Rightarrow> service_id option" where
  "sample_parse_binary bs =
     (if length bs = 16 then map_option Aci (uuid_from_slice bs)
      else case bs of [] \<Rightarrow> None | b # r \<Rightarrow> if b = 1 then map_option Pni (uuid_from_slice r) else None)"

fun sample_encode_pin :: "pin_identifier option \<Rightarrow> bytes" where
  "sample_encode_pin None = []"
| "sample_encode_pin (Some (PinContact c)) =
     1 # stuff (map char_byte (pc_service_id c)) @ stuff (map char_byte (pc_e164 c)) @
     pc_service_id_binary c"
| "sample_encode_pin (Some (PinLegacyGroupId k)) = 2 # k"
| "sample_encode_pin (Some (PinGroupMasterKey k)) = 3 # k"
| "sample_encode_pin (Some PinReleaseNotes) = [4]"

definition sample_decode_pin :: "bytes \<Rightarrow> pin_identifier option option" where
  "sample_decode_pin bs =
     (case bs of
        [] \<Rightarrow> Some None
      | t # r \<Rightarrow>
          if t = 1 then
            (case unstuff r of None \<Rightarrow> None | Some (s, r') \<Rightarrow>
               (case unstuff r' of None \<Rightarrow> None | Some (e, b) \<Rightarrow>
                  Some (Some (PinContact \<lparr>pc_service_id = map byte_char s, pc_e164 = map byte_char e,
                    pc_service_id_binary = b\<rparr>))))
          else if t = 2 then Some (Some (PinLegacyGroupId r))
          else if t = 3 then Some (Some (PinGroupMasterKey r))
          else if t = 4 then Some (Some PinReleaseNotes)
          else None)"

definition sample_codec :: codec where
  "sample_codec =
     \<lparr>service_id_string = (\<lambda>s. map byte_char (sample_binary s)),
      service_id_binary = sample_binary,
      parse_from_service_id_string = (\<lambda>s. sample_parse_binary (map char_byte s)),
      parse_from_service_id_binary = sample_parse_binary,
      encode_pin = sample_encode_pin,
      decode_pin = sample_decode_pin\<rparr>"

lemma sample_binary_inv [simp]: "sample_parse_binary (sample_binary s) = Some s"
  by (cases s) (simp_all add: sample_parse_binary_def)

lemma map_char_inv [simp]: "map byte_char (map char_byte xs) = xs" "map char_byte (map byte_char ys) = ys"
  by (simp_all add: o_def)

lemma sample_pin_inv [simp]: "sample_decode_pin (sample_encode_pin i) = Some i"
proof (cases i rule: sample_encode_pin.cases)
  case (2 c)
  have "unstuff (stuff (map char_byte (pc_service_id c)) @ stuff (map char_byte (pc_e164 c)) @ pc_service_id_binary c) =
        Some (map char_byte (pc_service_id c), stuff (map char_byte (pc_e164 c)) @ pc_service_id_binary c)"
    by (rule unstuff_stuff)
  with 2 show ?thesis by (simp add: sample_decode_pin_def del: map_map)
qed (simp_all add: sample_decode_pin_def)

lemma sample_codec_ok: "codec_ok sample_codec"
proof -
  have s: "sample_parse_binary (map char_byte (map byte_char (sample_binary s))) = Some s" for s
    by (simp del: map_map)
  have e: "sample_parse_binary [] = None" by (simp add: sample_parse_binary_def)
  show ?thesis using s e by (simp add: codec_ok_def sample_codec_def del: map_map)
qed

definition sample_uuid :: "byte \<Rightarrow> uuid" where
  "sample_uuid b = Abs_uuid (replicate 16 b)"

lemma sample_uuid_bytes [simp]: "uuid_bytes (sample_uuid b) = replicate 16 b"
  by (simp add: sample_uuid_def Abs_uuid_inverse)

lemma sample_uuid_inject [simp]: "sample_uuid a = sample_uuid b \<longleftrightarrow> a = b"
  by (metis sample_uuid_bytes replicate_eq_replicate zero_neq_numeral)

definition sample_key32 :: "byte \<Rightarrow> key32" where
  "sample_key32 b = Abs_key32 (replicate 32 b)"

lemma sample_key32_bytes [simp]: "key32_bytes (sample_key32 b) = replicate 32 b"
  by (simp add: sample_key32_def Abs_key32_inverse)

lemma pin_unpin_spec_witness:
  "is_pinned sample_codec (pin sample_codec (ContactThread (Aci (sample_uuid 1))) account_chat_state_default)
     (ContactThread (Aci (sample_uuid 1))) \<and>
   unpin sample_codec (ContactThread (Aci (sample_uuid 1)))
     (pin sample_codec (ContactThread (Aci (sample_uuid 1))) account_chat_state_default) =
     account_chat_state_default"
  using pin_unpin_spec [OF sample_codec_ok, of "ContactThread (Aci (sample_uuid 1))" account_chat_state_default]
  by (simp add: is_pinned_iff pinned_threads_def account_chat_state_default_def)

end
