(* ===== verification/Contacts.thy ===== *)
theory Contacts
  imports Sample_Codec
begin

text \<open>
  \<open>presage/src/model/contacts.rs\<close>: the contact model and its three sources (a minimal
  record, a contact-sync message, a storage-service \<open>ContactRecord\<close>), and the record built
  for a contact the storage service has never seen. Parsing and printing of UUIDs, phone
  numbers and profile names belong to other crates and are parameters (\<open>contact_codec\<close>);
  a phone number is its E.164 form.
\<close>

section \<open>The code\<close>

datatype phone_number = Phone string

record contact_codec =
  parse_uuid :: "string \<Rightarrow> uuid option"
  phone_from_e164 :: "string \<Rightarrow> phone_number option"
  phone_to_e164 :: "phone_number \<Rightarrow> string"
  profile_name_to_string :: "string \<Rightarrow> string option \<Rightarrow> string"

text \<open>The protocol's \<open>Verified\<close> message and libsignal's \<open>Attachment\<close>.\<close>

record verified =
  v_destination_aci :: "string option"
  v_destination_aci_binary :: "bytes option"
  v_identity_key :: "bytes option"
  v_state :: "int option"
  v_null_message :: "bytes option"

definition verified_default :: verified where
  "verified_default =
     \<lparr>v_destination_aci = None, v_destination_aci_binary = None, v_identity_key = None,
      v_state = None, v_null_message = None\<rparr>"

record attachment =
  at_content_type :: string
  at_reader :: bytes

definition default_expire_timer_version :: u32 where "default_expire_timer_version = 2"

record contact =
  c_uuid :: uuid
  c_phone_number :: "phone_number option"
  c_name :: string
  c_verified :: verified
  c_profile_key :: bytes
  c_expire_timer :: u32
  c_expire_timer_version :: u32
  c_inbox_position :: u32
  c_avatar :: "attachment option"
  c_pni :: "uuid option"
  c_username :: "string option"
  c_blocked :: bool
  c_whitelisted :: bool
  c_archived :: bool
  c_marked_unread :: bool
  c_muted_until :: u64
  c_hide_story :: bool
  c_hidden :: bool
  c_unregistered_at :: u64
  c_pni_signature_verified :: bool
  c_system_given_name :: string
  c_system_family_name :: string
  c_system_nickname :: string
  c_nickname_given_name :: string
  c_nickname_family_name :: string
  c_note :: string

text \<open>\<open>libsignal_service::models::Contact\<close>, the contact of a contact-sync message.\<close>

record synced_contact =
  sc_uuid :: uuid
  sc_phone_number :: "phone_number option"
  sc_name :: string
  sc_expire_timer :: u32
  sc_expire_timer_version :: u32
  sc_inbox_position :: u32
  sc_avatar :: "attachment option"

definition contact_from_synced :: "synced_contact \<Rightarrow> contact" where
  "contact_from_synced c =
     \<lparr>c_uuid = sc_uuid c, c_phone_number = sc_phone_number c, c_name = sc_name c, c_verified = verified_default,
      c_profile_key = [], c_expire_timer = sc_expire_timer c,
      c_expire_timer_version = sc_expire_timer_version c, c_inbox_position = sc_inbox_position c,
      c_avatar = sc_avatar c, c_pni = None, c_username = None, c_blocked = False,
      c_whitelisted = False, c_archived = False, c_marked_unread = False, c_muted_until = 0,
      c_hide_story = False, c_hidden = False, c_unregistered_at = 0,
      c_pni_signature_verified = False, c_system_given_name = [], c_system_family_name = [],
      c_system_nickname = [], c_nickname_given_name = [], c_nickname_family_name = [], c_note = []\<rparr>"

definition contact_minimal :: "uuid \<Rightarrow> contact" where
  "contact_minimal u =
     contact_from_synced
       \<lparr>sc_uuid = u, sc_phone_number = None, sc_name = [], sc_expire_timer = 0,
        sc_expire_timer_version = default_expire_timer_version, sc_inbox_position = 0,
        sc_avatar = None\<rparr>"

text \<open>\<open>proto::ContactRecord\<close>, the fields this file reads or writes.\<close>

record contact_record =
  cr_aci :: string
  cr_aci_binary :: bytes
  cr_pni :: string
  cr_pni_binary :: bytes
  cr_e164 :: string
  cr_profile_key :: bytes
  cr_given_name :: string
  cr_family_name :: string
  cr_username :: string
  cr_blocked :: bool
  cr_whitelisted :: bool
  cr_archived :: bool
  cr_marked_unread :: bool
  cr_muted_until :: u64
  cr_hide_story :: bool
  cr_hidden :: bool
  cr_unregistered_at :: u64
  cr_pni_signature_verified :: bool
  cr_system_given_name :: string
  cr_system_family_name :: string
  cr_system_nickname :: string
  cr_nickname :: "(string \<times> string) option"
  cr_note :: string

datatype contact_record_error = MissingOrInvalidAci

definition contact_try_from ::
  "contact_codec \<Rightarrow> contact_record \<Rightarrow> contact_record_error + contact" where
  "contact_try_from P r =
     res_bind (ok_or MissingOrInvalidAci
         (if cr_aci_binary r \<noteq> [] then uuid_from_slice (cr_aci_binary r)
          else parse_uuid P (cr_aci r))) (\<lambda>u.
       let pni = (if cr_pni_binary r \<noteq> [] then uuid_from_slice (cr_pni_binary r)
                  else if cr_pni r \<noteq> [] then parse_uuid P (cr_pni r)
                  else None);
           phone = phone_from_e164 P (cr_e164 r);
           name = profile_name_to_string P (cr_given_name r)
                    (if cr_family_name r = [] then None else Some (cr_family_name r));
           username = (if cr_username r = [] then None else Some (cr_username r))
       in Inr
         \<lparr>c_uuid = u, c_phone_number = phone, c_name = name, c_verified = verified_default,
          c_profile_key = cr_profile_key r, c_expire_timer = 0,
          c_expire_timer_version = default_expire_timer_version, c_inbox_position = 0,
          c_avatar = None, c_pni = pni, c_username = username, c_blocked = cr_blocked r,
          c_whitelisted = cr_whitelisted r, c_archived = cr_archived r,
          c_marked_unread = cr_marked_unread r, c_muted_until = cr_muted_until r,
          c_hide_story = cr_hide_story r, c_hidden = cr_hidden r,
          c_unregistered_at = cr_unregistered_at r,
          c_pni_signature_verified = cr_pni_signature_verified r,
          c_system_given_name = cr_system_given_name r,
          c_system_family_name = cr_system_family_name r,
          c_system_nickname = cr_system_nickname r,
          c_nickname_given_name = opt_or [] (map_option fst (cr_nickname r)),
          c_nickname_family_name = opt_or [] (map_option snd (cr_nickname r)),
          c_note = cr_note r\<rparr>)"

definition contact_to_new_storage_record :: "contact_codec \<Rightarrow> contact \<Rightarrow> contact_record" where
  "contact_to_new_storage_record P c =
     \<lparr>cr_aci = [], cr_aci_binary = uuid_bytes (c_uuid c), cr_pni = [],
      cr_pni_binary = opt_or [] (map_option uuid_bytes (c_pni c)),
      cr_e164 = opt_or [] (map_option (phone_to_e164 P) (c_phone_number c)),
      cr_profile_key = c_profile_key c, cr_given_name = c_name c, cr_family_name = [],
      cr_username = opt_or [] (c_username c), cr_blocked = c_blocked c,
      cr_whitelisted = c_whitelisted c, cr_archived = c_archived c,
      cr_marked_unread = c_marked_unread c, cr_muted_until = c_muted_until c,
      cr_hide_story = c_hide_story c, cr_hidden = c_hidden c,
      cr_unregistered_at = c_unregistered_at c,
      cr_pni_signature_verified = c_pni_signature_verified c,
      cr_system_given_name = c_system_given_name c,
      cr_system_family_name = c_system_family_name c, cr_system_nickname = c_system_nickname c,
      cr_nickname = None, cr_note = c_note c\<rparr>"

text \<open>\<open>contact_profile_key\<close> of \<open>manager/storage.rs\<close>: anything but 32 bytes is no key.\<close>

definition contact_profile_key :: "contact \<Rightarrow> key32 option" where
  "contact_profile_key c = key32_from_slice (c_profile_key c)"

text \<open>\<open>libsignal_service::Profile\<close>, as a profile fetch returns it.\<close>

record profile_name =
  pn_given_name :: string
  pn_family_name :: "string option"

record profile =
  pf_name :: "profile_name option"
  pf_about :: "string option"
  pf_about_emoji :: "string option"
  pf_avatar :: "string option"
  pf_unrestricted_unidentified_access :: bool

section \<open>Properties\<close>

text \<open>The documented behaviour of the parsers and printers: parsing a printed phone number
  gives it back, nothing parses as the empty number, and a one-part profile name prints as
  itself.\<close>

definition contact_codec_ok :: "contact_codec \<Rightarrow> bool" where
  "contact_codec_ok P \<longleftrightarrow>
     (\<forall>n. phone_from_e164 P (phone_to_e164 P n) = Some n) \<and>
     phone_from_e164 P [] = None \<and>
     (\<forall>g. profile_name_to_string P g None = g)"

text \<open>What a storage record does not carry, plus the nickname the code leaves out.\<close>

definition published_part :: "contact \<Rightarrow> contact" where
  "published_part c =
     c\<lparr>c_verified := verified_default, c_expire_timer := 0, c_expire_timer_version := default_expire_timer_version,
       c_inbox_position := 0, c_avatar := None, c_nickname_given_name := [],
       c_nickname_family_name := []\<rparr>"

lemma uuid_bytes_ne [simp]: "uuid_bytes u \<noteq> []"
  using length_uuid_bytes [of u] by (metis list.size(3) zero_neq_numeral)

text \<open>The record built for a contact the account has none for reads back as that
  contact: every field a record can carry survives (block, archive, mute, username, PNI,
  phone number and names among them), the local-only fields take their defaults, and of the
  rest only the nickname is lost.\<close>

theorem contact_new_record_roundtrip:
  assumes "contact_codec_ok P" "c_username c \<noteq> Some []"
  shows "contact_try_from P (contact_to_new_storage_record P c) = Inr (published_part c)"
proof -
  have ph: "phone_from_e164 P (opt_or [] (map_option (phone_to_e164 P) n)) = n" for n
    using assms(1) by (cases n) (auto simp: contact_codec_ok_def)
  have nm: "profile_name_to_string P g None = g" for g
    using assms(1) by (simp add: contact_codec_ok_def)
  show ?thesis
    by (cases c; cases "c_pni c"; cases "c_username c")
       (use assms(2) in \<open>auto simp: contact_try_from_def contact_to_new_storage_record_def
          published_part_def Let_def ph nm\<close>)
qed

definition sample_contact_codec :: contact_codec where
  "sample_contact_codec =
     \<lparr>parse_uuid = (\<lambda>s. uuid_from_slice (map char_byte s)),
      phone_from_e164 = (\<lambda>s. case s of [] \<Rightarrow> None | c # r \<Rightarrow> if c = CHR ''+'' then Some (Phone r) else None),
      phone_to_e164 = (\<lambda>n. case n of Phone r \<Rightarrow> CHR ''+'' # r),
      profile_name_to_string = (\<lambda>g f. case f of None \<Rightarrow> g | Some fam \<Rightarrow> g @ '' '' @ fam)\<rparr>"

lemma sample_contact_codec_ok: "contact_codec_ok sample_contact_codec"
  by (auto simp: contact_codec_ok_def sample_contact_codec_def split: phone_number.splits)

lemma contact_new_record_roundtrip_witness:
  "contact_try_from sample_contact_codec (contact_to_new_storage_record sample_contact_codec
     ((contact_minimal (sample_uuid 1))\<lparr>c_blocked := True, c_nickname_given_name := ''Bo''\<rparr>)) =
   Inr ((contact_minimal (sample_uuid 1))\<lparr>c_blocked := True\<rparr>)"
proof -
  let ?c = "(contact_minimal (sample_uuid 1))\<lparr>c_blocked := True, c_nickname_given_name := ''Bo''\<rparr>"
  have u: "c_username ?c \<noteq> Some []" by (simp add: contact_minimal_def contact_from_synced_def)
  from contact_new_record_roundtrip [OF sample_contact_codec_ok u] show ?thesis
    by (simp add: published_part_def contact_minimal_def contact_from_synced_def)
qed

end
