(* ===== verification/Group_Model.thy ===== *)
theory Group_Model
  imports Sample_Codec
begin

text \<open>
  \<open>presage/src/model/groups.rs\<close> and the parts of \<open>manager/registered.rs\<close> that change a
  group: the stored group, what leaving or being refused makes of it, the merge of a
  server copy with the flags only this device knows, and the building of group changes.
  The encrypted actions of a change are built by zkgroup code and are values of a type
  parameter, produced by the operations in \<open>group_ops\<close>.
\<close>

section \<open>The model\<close>

datatype role = Role_Unknown | Role_Default | Role_Administrator

datatype access_required =
    Access_Unknown | Access_Any | Access_Member | Access_Administrator | Access_Unsatisfiable

record access_control =
  ac_attributes :: access_required
  ac_members :: access_required
  ac_add_from_invite_link :: access_required
  ac_member_label :: access_required

definition default_access_required :: access_required where
  "default_access_required = Access_Member"

datatype group_access = Members | Administrators

fun access_required_from :: "group_access \<Rightarrow> access_required" where
  "access_required_from Members = Access_Member"
| "access_required_from Administrators = Access_Administrator"

record group_update =
  gu_title :: "string option"
  gu_description :: "string option"
  gu_expire_timer_seconds :: "u32 option"
  gu_attributes_access :: "group_access option"
  gu_members_access :: "group_access option"
  gu_member_label_access :: "group_access option"
  gu_announcements_only :: "bool option"

definition group_update_default :: group_update where
  "group_update_default =
     \<lparr>gu_title = None, gu_description = None, gu_expire_timer_seconds = None,
      gu_attributes_access = None, gu_members_access = None, gu_member_label_access = None,
      gu_announcements_only = None\<rparr>"

definition group_update_is_empty :: "group_update \<Rightarrow> bool" where
  "group_update_is_empty u \<longleftrightarrow> u = group_update_default"

record group_members_update =
  gm_add :: "service_id list"
  gm_remove :: "uuid list"
  gm_remove_pending :: "service_id list"
  gm_promote :: "uuid list"
  gm_demote :: "uuid list"

definition group_members_update_default :: group_members_update where
  "group_members_update_default =
     \<lparr>gm_add = [], gm_remove = [], gm_remove_pending = [], gm_promote = [], gm_demote = []\<rparr>"

definition group_members_update_is_empty :: "group_members_update \<Rightarrow> bool" where
  "group_members_update_is_empty u \<longleftrightarrow> u = group_members_update_default"

datatype service_id_type = AccountIdentity | PhoneNumberIdentity

datatype service_id_kind = Kind_Aci | Kind_Pni

fun service_id_type_from :: "service_id_kind \<Rightarrow> service_id_type" where
  "service_id_type_from Kind_Aci = AccountIdentity"
| "service_id_type_from Kind_Pni = PhoneNumberIdentity"

fun kind_of :: "service_id \<Rightarrow> service_id_kind" where
  "kind_of (Aci _) = Kind_Aci"
| "kind_of (Pni _) = Kind_Pni"

record member =
  m_aci :: uuid
  m_role :: role
  m_profile_key :: key32
  m_joined_at_revision :: u32
  m_label :: "string option"
  m_label_emoji :: "string option"

record pending_member =
  p_uuid :: uuid
  p_service_id_type :: service_id_type
  p_role :: role
  p_added_by :: uuid
  p_timestamp :: u64

definition pending_service_id :: "pending_member \<Rightarrow> service_id" where
  "pending_service_id p =
     (case p_service_id_type p of
        AccountIdentity \<Rightarrow> Aci (p_uuid p)
      | PhoneNumberIdentity \<Rightarrow> Pni (p_uuid p))"

record requesting_member =
  r_aci :: uuid
  r_profile_key :: key32
  r_timestamp :: u64

record group =
  g_title :: "string option"
  g_avatar :: "string option"
  g_timer :: "u32 option"
  g_access_control :: "access_control option"
  g_revision :: u32
  g_members :: "member list"
  g_pending_members :: "pending_member list"
  g_requesting_members :: "requesting_member list"
  g_invite_link_password :: bytes
  g_description :: "string option"
  g_announcements_only :: bool
  g_needs_hydration :: bool
  g_blocked :: bool
  g_whitelisted :: bool
  g_archived :: bool
  g_marked_unread :: bool
  g_muted_until :: u64
  g_dont_notify_for_mentions_if_muted :: bool
  g_hide_story :: bool
  g_story_send_mode :: int

definition is_member :: "group \<Rightarrow> uuid \<Rightarrow> bool" where
  "is_member g a = list_ex (\<lambda>m. m_aci m = a) (g_members g)"

definition is_pending :: "group \<Rightarrow> service_id \<Rightarrow> bool" where
  "is_pending g s = list_ex (\<lambda>p. pending_service_id p = s) (g_pending_members g)"

definition is_active :: "group \<Rightarrow> uuid \<Rightarrow> bool" where
  "is_active g self_aci \<longleftrightarrow> is_member g self_aci \<or> is_pending g (Aci self_aci)"

definition members_losing_labels :: "group \<Rightarrow> group_access \<Rightarrow> uuid list" where
  "members_losing_labels g new_access =
     (let already_restricted =
        (case g_access_control g of
           None \<Rightarrow> False | Some ac \<Rightarrow> ac_member_label ac = Access_Administrator)
      in if new_access \<noteq> Administrators \<or> already_restricted then []
         else map m_aci
           (filter (\<lambda>m. m_label m \<noteq> None \<or> m_label_emoji m \<noteq> None)
             (filter (\<lambda>m. m_role m \<noteq> Role_Administrator) (g_members g))))"

definition mark_left :: "uuid \<Rightarrow> uuid list \<Rightarrow> u32 option \<Rightarrow> group \<Rightarrow> group" where
  "mark_left self_aci promoted revision g =
     (let g1 = g\<lparr>g_members := filter (\<lambda>m. m_aci m \<noteq> self_aci) (g_members g)\<rparr>;
          g2 = g1\<lparr>g_pending_members :=
                  filter (\<lambda>p. pending_service_id p \<noteq> Aci self_aci) (g_pending_members g1)\<rparr>;
          g3 = g2\<lparr>g_members :=
                  map (\<lambda>m. if m_aci m \<in> set promoted then m\<lparr>m_role := Role_Administrator\<rparr> else m)
                    (g_members g2)\<rparr>
      in case revision of Some r \<Rightarrow> g3\<lparr>g_revision := r\<rparr> | None \<Rightarrow> g3)"

definition mark_denied :: "uuid \<Rightarrow> group \<Rightarrow> group" where
  "mark_denied self_aci g = (mark_left self_aci [] None g)\<lparr>g_needs_hydration := False\<rparr>"

text \<open>\<open>libsignal_service::groups_v2\<close>: the group as the server describes it.\<close>

record server_member =
  sm_aci :: uuid
  sm_role :: role
  sm_profile_key :: key32
  sm_joined_at_version :: u32
  sm_label :: "string option"
  sm_label_emoji :: "string option"

record server_pending =
  sp_address :: service_id
  sp_role :: role
  sp_added_by :: uuid
  sp_timestamp :: u64

record server_requesting =
  sr_aci :: uuid
  sr_profile_key :: key32
  sr_timestamp :: u64

record server_group =
  sg_title :: string
  sg_avatar :: string
  sg_timer :: "u32 option"
  sg_access_control :: "access_control option"
  sg_version :: u32
  sg_members :: "server_member list"
  sg_pending :: "server_pending list"
  sg_requesting :: "server_requesting list"
  sg_invite_link_password :: bytes
  sg_description :: "string option"
  sg_announcements_only :: bool

definition member_from :: "server_member \<Rightarrow> member" where
  "member_from v =
     \<lparr>m_aci = sm_aci v, m_role = sm_role v, m_profile_key = sm_profile_key v,
      m_joined_at_revision = sm_joined_at_version v, m_label = sm_label v,
      m_label_emoji = sm_label_emoji v\<rparr>"

definition pending_member_from :: "server_pending \<Rightarrow> pending_member" where
  "pending_member_from v =
     \<lparr>p_uuid = raw_uuid (sp_address v),
      p_service_id_type = service_id_type_from (kind_of (sp_address v)),
      p_role = sp_role v, p_added_by = sp_added_by v, p_timestamp = sp_timestamp v\<rparr>"

definition requesting_member_from :: "server_requesting \<Rightarrow> requesting_member" where
  "requesting_member_from v =
     \<lparr>r_aci = sr_aci v, r_profile_key = sr_profile_key v, r_timestamp = sr_timestamp v\<rparr>"

definition access_control_from :: "access_control \<Rightarrow> access_control" where
  "access_control_from v =
     \<lparr>ac_attributes = ac_attributes v, ac_members = ac_members v,
      ac_add_from_invite_link = ac_add_from_invite_link v, ac_member_label = ac_member_label v\<rparr>"

definition group_from :: "server_group \<Rightarrow> group" where
  "group_from v =
     \<lparr>g_title = Some (sg_title v),
      g_avatar = (if sg_avatar v = [] then None else Some (sg_avatar v)),
      g_timer = sg_timer v,
      g_access_control = map_option access_control_from (sg_access_control v),
      g_revision = sg_version v,
      g_members = map member_from (sg_members v),
      g_pending_members = map pending_member_from (sg_pending v),
      g_requesting_members = map requesting_member_from (sg_requesting v),
      g_invite_link_password = sg_invite_link_password v,
      g_description = sg_description v,
      g_announcements_only = sg_announcements_only v,
      g_needs_hydration = False,
      g_blocked = False, g_whitelisted = False, g_archived = False, g_marked_unread = False,
      g_muted_until = 0, g_dont_notify_for_mentions_if_muted = False, g_hide_story = False,
      g_story_send_mode = 0\<rparr>"

definition from_server :: "server_group \<Rightarrow> group option \<Rightarrow> group" where
  "from_server server local =
     (let g = group_from server in
      case local of
        None \<Rightarrow> g
      | Some l \<Rightarrow>
          g\<lparr>g_blocked := g_blocked l, g_whitelisted := g_whitelisted l, g_archived := g_archived l,
            g_marked_unread := g_marked_unread l, g_muted_until := g_muted_until l,
            g_dont_notify_for_mentions_if_muted := g_dont_notify_for_mentions_if_muted l,
            g_hide_story := g_hide_story l, g_story_send_mode := g_story_send_mode l\<rparr>)"

text \<open>\<open>proto::GroupV2Record\<close>, the fields presage writes or merges.\<close>

record group_record =
  gr_master_key :: bytes
  gr_blocked :: bool
  gr_whitelisted :: bool
  gr_archived :: bool
  gr_marked_unread :: bool
  gr_muted_until :: u64
  gr_dont_notify_for_mentions_if_muted :: bool
  gr_hide_story :: bool
  gr_story_send_mode :: "32 word"

text \<open>\<open>story_send_mode\<close> is an \<open>i64\<close> in the model and an \<open>i32\<close> in the record: \<open>as i32\<close> keeps the
  low thirty-two bits, \<open>into()\<close> sign-extends.\<close>

definition group_to_new_storage_record :: "group \<Rightarrow> key32 \<Rightarrow> group_record" where
  "group_to_new_storage_record g mk =
     \<lparr>gr_master_key = key32_bytes mk, gr_blocked = g_blocked g, gr_whitelisted = g_whitelisted g,
      gr_archived = g_archived g, gr_marked_unread = g_marked_unread g,
      gr_muted_until = g_muted_until g,
      gr_dont_notify_for_mentions_if_muted = g_dont_notify_for_mentions_if_muted g,
      gr_hide_story = g_hide_story g, gr_story_send_mode = word_of_int (g_story_send_mode g)\<rparr>"

section \<open>Group changes\<close>

text \<open>\<open>group_change::Actions\<close>, the fields this code sets; \<open>'a\<close> is one encrypted action.\<close>

record 'a actions =
  act_version :: u32
  add_members :: "'a list"
  add_members_pending_profile_key :: "'a list"
  delete_members :: "'a list"
  delete_members_pending_profile_key :: "'a list"
  modify_member_roles :: "'a list"
  modify_title :: "'a option"
  modify_description :: "'a option"
  modify_disappearing_message_timer :: "'a option"
  modify_attributes_access :: "'a option"
  modify_member_access :: "'a option"
  modify_member_label_access :: "'a option"
  modify_member_labels :: "'a list"
  modify_announcements_only :: "'a option"

definition actions_default :: "u32 \<Rightarrow> 'a actions" where
  "actions_default v =
     \<lparr>act_version = v, add_members = [], add_members_pending_profile_key = [], delete_members = [],
      delete_members_pending_profile_key = [], modify_member_roles = [], modify_title = None,
      modify_description = None, modify_disappearing_message_timer = None,
      modify_attributes_access = None, modify_member_access = None,
      modify_member_label_access = None, modify_member_labels = [],
      modify_announcements_only = None\<rparr>"

text \<open>The builders of \<open>GroupOperations\<close>; \<open>'c\<close> is a profile key credential, \<open>'e\<close> their error.\<close>

record ('a, 'c, 'e) group_ops =
  build_modify_title :: "string \<Rightarrow> 'a"
  build_modify_description :: "string \<Rightarrow> 'a"
  build_modify_timer :: "u32 \<Rightarrow> 'a"
  build_modify_attributes_access :: "access_required \<Rightarrow> 'a"
  build_modify_members_access :: "access_required \<Rightarrow> 'a"
  build_modify_member_label_access :: "access_required \<Rightarrow> 'a"
  build_modify_member_label :: "uuid \<Rightarrow> string option \<Rightarrow> string option \<Rightarrow> 'e + 'a"
  build_modify_announcements_only :: "bool \<Rightarrow> 'a"
  build_add_member_with_credential :: "'c \<Rightarrow> role \<Rightarrow> 'a"
  build_add_pending_member :: "service_id \<Rightarrow> uuid \<Rightarrow> role \<Rightarrow> 'e + 'a"
  build_remove_member :: "uuid \<Rightarrow> 'e + 'a"
  build_remove_pending_member :: "service_id \<Rightarrow> 'e + 'a"
  build_modify_member_role :: "uuid \<Rightarrow> role \<Rightarrow> 'e + 'a"

record 'c group_member_candidate =
  cand_service_id :: service_id
  cand_credential :: "'c option"

definition group_update_actions ::
  "('a, 'c, 'e) group_ops \<Rightarrow> uuid list \<Rightarrow> group_update \<Rightarrow> u32 \<Rightarrow> 'e + 'a actions" where
  "group_update_actions ops clearing_labels u v =
     res_bind (res_collect (map (\<lambda>a. build_modify_member_label ops a None None) clearing_labels))
       (\<lambda>labels. Inr ((actions_default v)
         \<lparr>modify_title := map_option (build_modify_title ops) (gu_title u),
          modify_description := map_option (build_modify_description ops) (gu_description u),
          modify_disappearing_message_timer :=
            map_option (build_modify_timer ops) (gu_expire_timer_seconds u),
          modify_attributes_access :=
            map_option (\<lambda>a. build_modify_attributes_access ops (access_required_from a))
              (gu_attributes_access u),
          modify_member_access :=
            map_option (\<lambda>a. build_modify_members_access ops (access_required_from a))
              (gu_members_access u),
          modify_member_label_access :=
            map_option (\<lambda>a. build_modify_member_label_access ops (access_required_from a))
              (gu_member_label_access u),
          modify_member_labels := labels,
          modify_announcements_only :=
            map_option (build_modify_announcements_only ops) (gu_announcements_only u)\<rparr>))"

text \<open>A \<open>for\<close> loop whose body builds one action with \<open>?\<close> and pushes it.\<close>

definition push_actions :: "('x \<Rightarrow> 'e + 'a) \<Rightarrow> 'x list \<Rightarrow> ('a list \<Rightarrow> 'e + 'r) \<Rightarrow> 'e + 'r" where
  [simp]: "push_actions build xs k = res_bind (res_collect (map build xs)) k"

fun push_candidates ::
  "('a, 'c, 'e) group_ops \<Rightarrow> uuid \<Rightarrow> 'c group_member_candidate list \<Rightarrow> 'a actions \<Rightarrow> 'e + 'a actions" where
  "push_candidates ops self_aci [] acts = Inr acts"
| "push_candidates ops self_aci (cand # cands) acts =
     (case cand_credential cand of
        Some credential \<Rightarrow>
          push_candidates ops self_aci cands
            (acts\<lparr>add_members :=
               add_members acts @ [build_add_member_with_credential ops credential Role_Default]\<rparr>)
      | None \<Rightarrow>
          res_bind (build_add_pending_member ops (cand_service_id cand) self_aci Role_Default)
            (\<lambda>a. push_candidates ops self_aci cands
              (acts\<lparr>add_members_pending_profile_key :=
                 add_members_pending_profile_key acts @ [a]\<rparr>)))"

definition group_members_actions ::
  "('a, 'c, 'e) group_ops \<Rightarrow> uuid \<Rightarrow> 'c group_member_candidate list \<Rightarrow> group_members_update \<Rightarrow>
   u32 \<Rightarrow> 'e + 'a actions" where
  "group_members_actions ops self_aci candidates u v =
     res_bind (push_candidates ops self_aci candidates (actions_default v)) (\<lambda>acts.
     push_actions (build_remove_member ops) (gm_remove u) (\<lambda>removed.
     push_actions (build_remove_pending_member ops) (gm_remove_pending u) (\<lambda>withdrawn.
     push_actions (\<lambda>a. build_modify_member_role ops a Role_Administrator) (gm_promote u) (\<lambda>promoted.
     push_actions (\<lambda>a. build_modify_member_role ops a Role_Default) (gm_demote u) (\<lambda>demoted.
       Inr (acts\<lparr>delete_members := removed, delete_members_pending_profile_key := withdrawn,
                 modify_member_roles := promoted @ demoted\<rparr>))))))"

definition leave_actions ::
  "('a, 'c, 'e) group_ops \<Rightarrow> uuid \<Rightarrow> bool \<Rightarrow> uuid list \<Rightarrow> u32 \<Rightarrow> 'e + 'a actions" where
  "leave_actions ops self_aci pending_self promote_to_admin v =
     (if pending_self then
        res_bind (build_remove_pending_member ops (Aci self_aci)) (\<lambda>a.
          Inr ((actions_default v)\<lparr>delete_members_pending_profile_key := [a]\<rparr>))
      else
        push_actions (\<lambda>a. build_modify_member_role ops a Role_Administrator) promote_to_admin (\<lambda>promoted.
        res_bind (build_remove_member ops self_aci) (\<lambda>removed.
          Inr ((actions_default v)\<lparr>modify_member_roles := promoted, delete_members := [removed]\<rparr>))))"

definition leave_orphans_the_group :: "group \<Rightarrow> uuid \<Rightarrow> uuid list \<Rightarrow> bool" where
  "leave_orphans_the_group g self_aci promote_to_admin =
     (let others = filter (\<lambda>m. m_aci m \<noteq> self_aci) (g_members g)
      in others \<noteq> [] \<and>
         \<not> list_ex (\<lambda>m. m_role m = Role_Administrator \<or> m_aci m \<in> set promote_to_admin) others)"

section \<open>Lemmas\<close>

lemma is_member_iff: "is_member g a \<longleftrightarrow> a \<in> m_aci ` set (g_members g)"
  by (auto simp: is_member_def list_ex_iff)

lemma is_pending_iff: "is_pending g s \<longleftrightarrow> s \<in> pending_service_id ` set (g_pending_members g)"
  by (auto simp: is_pending_def list_ex_iff)

lemma mark_left_members:
  "g_members (mark_left a ps r g) =
   map (\<lambda>m. if m_aci m \<in> set ps then m\<lparr>m_role := Role_Administrator\<rparr> else m)
     (filter (\<lambda>m. m_aci m \<noteq> a) (g_members g))"
  by (auto simp: mark_left_def Let_def split: option.splits)

lemma mark_left_pending:
  "g_pending_members (mark_left a ps r g) =
   filter (\<lambda>p. pending_service_id p \<noteq> Aci a) (g_pending_members g)"
  by (auto simp: mark_left_def Let_def split: option.splits)

lemma pending_from_address [simp]: "pending_service_id (pending_member_from p) = sp_address p"
  by (cases "sp_address p") (simp_all add: pending_service_id_def pending_member_from_def)

text \<open>Who administers a group.\<close>

definition administrators :: "group \<Rightarrow> uuid set" where
  "administrators g = {m_aci m | m. m \<in> set (g_members g) \<and> m_role m = Role_Administrator}"

lemma administrators_mark_left:
  "administrators (mark_left a ps r g) =
   {x \<in> m_aci ` set (g_members g). x \<noteq> a \<and> (x \<in> administrators g \<or> x \<in> set ps)}"
proof (rule set_eqI, rule iffI)
  fix x assume "x \<in> administrators (mark_left a ps r g)"
  then show "x \<in> {x \<in> m_aci ` set (g_members g). x \<noteq> a \<and> (x \<in> administrators g \<or> x \<in> set ps)}"
    by (auto simp: administrators_def mark_left_members split: if_splits)
next
  fix x assume x: "x \<in> {x \<in> m_aci ` set (g_members g). x \<noteq> a \<and> (x \<in> administrators g \<or> x \<in> set ps)}"
  show "x \<in> administrators (mark_left a ps r g)"
  proof (cases "x \<in> set ps")
    case True
    with x obtain m where "m \<in> set (g_members g)" "m_aci m = x" "x \<noteq> a" by auto
    with True show ?thesis
      by (auto simp: administrators_def mark_left_members
          intro!: exI [of _ "m\<lparr>m_role := Role_Administrator\<rparr>"] image_eqI [of _ _ m])
  next
    case False
    with x obtain m where "m \<in> set (g_members g)" "m_aci m = x" "x \<noteq> a" "m_role m = Role_Administrator"
      by (auto simp: administrators_def)
    with False show ?thesis
      by (auto simp: administrators_def mark_left_members intro!: exI [of _ m] image_eqI [of _ _ m])
  qed
qed

lemma mark_left_acis: "m_aci ` set (g_members (mark_left a ps r g)) = m_aci ` set (g_members g) - {a}"
proof -
  have "map m_aci (g_members (mark_left a ps r g)) = map m_aci (filter (\<lambda>m. m_aci m \<noteq> a) (g_members g))"
    by (simp add: mark_left_members)
  then have "m_aci ` set (g_members (mark_left a ps r g)) = m_aci ` set (filter (\<lambda>m. m_aci m \<noteq> a) (g_members g))"
    by (metis set_map)
  then show ?thesis by auto
qed

lemma leave_orphans_iff:
  "leave_orphans_the_group g a ps \<longleftrightarrow>
   g_members (mark_left a ps r g) \<noteq> [] \<and> administrators (mark_left a ps r g) = {}"
  unfolding administrators_mark_left
  by (auto simp: leave_orphans_the_group_def mark_left_members list_ex_iff administrators_def
      filter_empty_conv)

section \<open>Properties\<close>

text \<open>C14. What leaving makes of the stored group: this account is neither member nor invitee
  any more and the group is not active, everyone else stays a member or an invitee, exactly
  the promoted members gain the administrator role, and the guard for the last
  administrator is exact: it refuses just when members would be left with no administrator
  among them.\<close>

theorem leave_group_spec:
  fixes g self_aci promoted revision
  defines "left \<equiv> mark_left self_aci promoted revision g"
  shows "\<not> is_active left self_aci \<and>
    (\<forall>a. a \<noteq> self_aci \<longrightarrow> is_member left a = is_member g a) \<and>
    (\<forall>s. s \<noteq> Aci self_aci \<longrightarrow> is_pending left s = is_pending g s) \<and>
    administrators left =
      {a \<in> m_aci ` set (g_members left). a \<in> administrators g \<or> a \<in> set promoted} \<and>
    (leave_orphans_the_group g self_aci promoted \<longleftrightarrow>
       g_members left \<noteq> [] \<and> administrators left = {}) \<and>
    g_revision left = (case revision of None \<Rightarrow> g_revision g | Some r \<Rightarrow> r)"
proof (intro conjI)
  show "\<not> is_active left self_aci"
    by (auto simp: left_def is_active_def is_member_iff is_pending_iff mark_left_members mark_left_pending
        split: if_splits)
  show "\<forall>a. a \<noteq> self_aci \<longrightarrow> is_member left a = is_member g a"
    by (simp add: left_def is_member_iff mark_left_acis)
  show "\<forall>s. s \<noteq> Aci self_aci \<longrightarrow> is_pending left s = is_pending g s"
    by (auto simp: left_def is_pending_iff mark_left_pending)
  have "m_aci ` set (g_members left) = m_aci ` set (g_members g) - {self_aci}"
    by (simp add: left_def mark_left_acis)
  then show "administrators left =
      {a \<in> m_aci ` set (g_members left). a \<in> administrators g \<or> a \<in> set promoted}"
    by (auto simp: left_def administrators_mark_left)
  show "leave_orphans_the_group g self_aci promoted \<longleftrightarrow> g_members left \<noteq> [] \<and> administrators left = {}"
    unfolding left_def by (rule leave_orphans_iff)
  show "g_revision left = (case revision of None \<Rightarrow> g_revision g | Some r \<Rightarrow> r)"
    by (simp add: left_def mark_left_def Let_def split: option.splits)
qed

definition sample_admin :: "byte \<Rightarrow> role \<Rightarrow> member" where
  "sample_admin b r =
     \<lparr>m_aci = Abs_uuid (replicate 16 b), m_role = r, m_profile_key = Abs_key32 (replicate 32 b),
      m_joined_at_revision = 0, m_label = None, m_label_emoji = None\<rparr>"

definition sample_two_members :: group where
  "sample_two_members =
     \<lparr>g_title = None, g_avatar = None, g_timer = None, g_access_control = None, g_revision = 4,
      g_members = [sample_admin 1 Role_Administrator, sample_admin 2 Role_Default],
      g_pending_members = [], g_requesting_members = [], g_invite_link_password = [],
      g_description = None, g_announcements_only = False, g_needs_hydration = False,
      g_blocked = False, g_whitelisted = False, g_archived = False, g_marked_unread = False,
      g_muted_until = 0, g_dont_notify_for_mentions_if_muted = False, g_hide_story = False,
      g_story_send_mode = 0\<rparr>"

lemma leave_group_spec_witness:
  "\<not> is_active (mark_left (Abs_uuid (replicate 16 1)) [Abs_uuid (replicate 16 2)] (Some 5)
       sample_two_members) (Abs_uuid (replicate 16 1)) \<and>
   is_member (mark_left (Abs_uuid (replicate 16 1)) [Abs_uuid (replicate 16 2)] (Some 5)
       sample_two_members) (Abs_uuid (replicate 16 2))"
proof -
  have ne: "Abs_uuid (replicate 16 2) \<noteq> Abs_uuid (replicate 16 1)"
    by (simp add: Abs_uuid_inject)
  have "is_member sample_two_members (Abs_uuid (replicate 16 2))"
    by (simp add: is_member_def sample_two_members_def sample_admin_def)
  with ne leave_group_spec [of "Abs_uuid (replicate 16 1)" "[Abs_uuid (replicate 16 2)]" "Some 5"
      sample_two_members]
  show ?thesis by blast
qed

text \<open>C29. Saving the server's copy of a group never changes what only this device knows:
  mute, block, archive and the other storage-service flags are the stored ones, while
  title, members, invitations and revision are the server's.\<close>

theorem from_server_keeps_local_flags:
  "g_muted_until (from_server s (Some l)) = g_muted_until l \<and>
   g_blocked (from_server s (Some l)) = g_blocked l \<and>
   g_archived (from_server s (Some l)) = g_archived l \<and>
   g_whitelisted (from_server s (Some l)) = g_whitelisted l \<and>
   g_marked_unread (from_server s (Some l)) = g_marked_unread l \<and>
   g_hide_story (from_server s (Some l)) = g_hide_story l \<and>
   g_story_send_mode (from_server s (Some l)) = g_story_send_mode l \<and>
   g_dont_notify_for_mentions_if_muted (from_server s (Some l)) = g_dont_notify_for_mentions_if_muted l \<and>
   g_revision (from_server s (Some l)) = sg_version s \<and>
   (\<forall>a. is_member (from_server s (Some l)) a \<longleftrightarrow> a \<in> sm_aci ` set (sg_members s)) \<and>
   (\<forall>i. is_pending (from_server s (Some l)) i \<longleftrightarrow> i \<in> sp_address ` set (sg_pending s)) \<and>
   group_to_new_storage_record (from_server s (Some l)) mk = group_to_new_storage_record l mk"
  by (simp add: from_server_def group_from_def group_to_new_storage_record_def is_member_iff
      is_pending_iff image_image member_from_def)

end
