(* ===== verification/Chat_Folders.thy ===== *)
theory Chat_Folders
  imports Sample_Codec
begin

text \<open>
  \<open>presage/src/model/chat_folders.rs\<close> and the chat-folder half of \<open>storage_record.rs\<close>: the
  folder model, its translation from and to the \<open>ChatFolderRecord\<close> message, and the record
  bytes rebuilt with the fields a previous read preserved. The message's own encoding
  (prost) and the text functions (NFC, trimming, grapheme counting) are parameters.
\<close>

section \<open>The code\<close>

definition CHAT_FOLDER_DELETED_POSITION :: u32 where "CHAT_FOLDER_DELETED_POSITION = - 1"
definition CHAT_FOLDER_NAME_MAX_GRAPHEMES :: nat where "CHAT_FOLDER_NAME_MAX_GRAPHEMES = 32"

datatype chat_folder_type = UnknownFolder | AllFolder | CustomFolder

text \<open>\<open>chat_folder_record::FolderType\<close>, generated from the protocol definition.\<close>

datatype folder_type = FolderType_Unknown | FolderType_All | FolderType_Custom

fun chat_folder_type_from :: "folder_type \<Rightarrow> chat_folder_type" where
  "chat_folder_type_from FolderType_Unknown = UnknownFolder"
| "chat_folder_type_from FolderType_All = AllFolder"
| "chat_folder_type_from FolderType_Custom = CustomFolder"

fun folder_type_from :: "chat_folder_type \<Rightarrow> folder_type" where
  "folder_type_from UnknownFolder = FolderType_Unknown"
| "folder_type_from AllFolder = FolderType_All"
| "folder_type_from CustomFolder = FolderType_Custom"

datatype folder_recipient =
    RecipientContact "string option" "string option"
  | RecipientGroup key32
  | RecipientLegacyGroup bytes

definition recipient_contact :: "codec \<Rightarrow> service_id \<Rightarrow> folder_recipient" where
  "recipient_contact C s = RecipientContact (Some (service_id_string C s)) None"

fun recipient_service_id :: "codec \<Rightarrow> folder_recipient \<Rightarrow> service_id option" where
  "recipient_service_id C (RecipientContact sid _) =
     (case sid of None \<Rightarrow> None | Some s \<Rightarrow> parse_from_service_id_string C s)"
| "recipient_service_id C (RecipientGroup _) = None"
| "recipient_service_id C (RecipientLegacyGroup _) = None"

text \<open>\<open>proto::Recipient\<close>: an optional identifier.\<close>

datatype recipient_identifier =
    Identifier_Contact string string bytes
  | Identifier_LegacyGroupId bytes
  | Identifier_GroupMasterKey bytes

type_synonym recipient_proto = "recipient_identifier option"

definition recipient_from_proto :: "codec \<Rightarrow> recipient_proto \<Rightarrow> folder_recipient option" where
  "recipient_from_proto C r =
     (case r of
        None \<Rightarrow> None
      | Some (Identifier_Contact sid e164 sidb) \<Rightarrow>
          (let service_id =
             map_option (service_id_string C)
               (opt_else (parse_from_service_id_binary C sidb) (parse_from_service_id_string C sid));
             e = (if e164 \<noteq> [] then Some e164 else None)
           in Some (RecipientContact service_id e))
      | Some (Identifier_LegacyGroupId gid) \<Rightarrow> Some (RecipientLegacyGroup gid)
      | Some (Identifier_GroupMasterKey k) \<Rightarrow> map_option RecipientGroup (key32_from_slice k))"

fun recipient_to_proto :: "codec \<Rightarrow> folder_recipient \<Rightarrow> recipient_proto" where
  "recipient_to_proto C (RecipientContact sid e164) =
     (let parsed = recipient_service_id C (RecipientContact sid e164) in
      Some (Identifier_Contact
        (opt_or [] (map_option (service_id_string C) parsed))
        (opt_or [] e164)
        (opt_or [] (map_option (service_id_binary C) parsed))))"
| "recipient_to_proto C (RecipientLegacyGroup gid) = Some (Identifier_LegacyGroupId gid)"
| "recipient_to_proto C (RecipientGroup k) = Some (Identifier_GroupMasterKey (key32_bytes k))"

record chat_folder =
  cf_id :: uuid
  cf_type :: chat_folder_type
  cf_name :: string
  cf_position :: u32
  cf_show_only_unread :: bool
  cf_show_muted_chats :: bool
  cf_include_all_individual_chats :: bool
  cf_include_all_group_chats :: bool
  cf_included_recipients :: "folder_recipient list"
  cf_excluded_recipients :: "folder_recipient list"
  cf_deleted_at :: u64

datatype chat_folder_record_error = MissingIdentifier

definition is_live :: "chat_folder \<Rightarrow> bool" where
  "is_live f \<longleftrightarrow> cf_deleted_at f = 0"

definition all_chats :: "uuid \<Rightarrow> chat_folder" where
  "all_chats i =
     \<lparr>cf_id = i, cf_type = AllFolder, cf_name = [], cf_position = 0, cf_show_only_unread = False,
      cf_show_muted_chats = True, cf_include_all_individual_chats = True,
      cf_include_all_group_chats = True, cf_included_recipients = [], cf_excluded_recipients = [],
      cf_deleted_at = 0\<rparr>"

definition custom_folder :: "uuid \<Rightarrow> string \<Rightarrow> chat_folder" where
  "custom_folder i name =
     \<lparr>cf_id = i, cf_type = CustomFolder, cf_name = name, cf_position = 0, cf_show_only_unread = False,
      cf_show_muted_chats = True, cf_include_all_individual_chats = False,
      cf_include_all_group_chats = False, cf_included_recipients = [], cf_excluded_recipients = [],
      cf_deleted_at = 0\<rparr>"

definition tombstone :: "u64 \<Rightarrow> chat_folder \<Rightarrow> chat_folder" where
  "tombstone deleted_at_ms f =
     f\<lparr>cf_deleted_at := deleted_at_ms, cf_position := CHAT_FOLDER_DELETED_POSITION,
       cf_included_recipients := [], cf_excluded_recipients := []\<rparr>"

record text_ops =
  nfc :: "string \<Rightarrow> string"
  trim :: "string \<Rightarrow> string"
  graphemes_count :: "string \<Rightarrow> nat"

definition normalized_name :: "text_ops \<Rightarrow> string \<Rightarrow> string" where
  "normalized_name T name = trim T (nfc T name)"

definition is_valid_name :: "text_ops \<Rightarrow> string \<Rightarrow> bool" where
  "is_valid_name T name \<longleftrightarrow> name \<noteq> [] \<and> graphemes_count T name \<le> CHAT_FOLDER_NAME_MAX_GRAPHEMES"

record chat_folder_record =
  cfr_identifier :: bytes
  cfr_name :: string
  cfr_position :: u32
  cfr_show_only_unread :: bool
  cfr_show_muted_chats :: bool
  cfr_include_all_individual_chats :: bool
  cfr_include_all_group_chats :: bool
  cfr_folder_type :: folder_type
  cfr_included_recipients :: "recipient_proto list"
  cfr_excluded_recipients :: "recipient_proto list"
  cfr_deleted_at :: u64

definition chat_folder_to_record :: "codec \<Rightarrow> chat_folder \<Rightarrow> chat_folder_record" where
  "chat_folder_to_record C f =
     \<lparr>cfr_identifier = uuid_bytes (cf_id f), cfr_name = cf_name f, cfr_position = cf_position f,
      cfr_show_only_unread = cf_show_only_unread f, cfr_show_muted_chats = cf_show_muted_chats f,
      cfr_include_all_individual_chats = cf_include_all_individual_chats f,
      cfr_include_all_group_chats = cf_include_all_group_chats f,
      cfr_folder_type = folder_type_from (cf_type f),
      cfr_included_recipients = map (recipient_to_proto C) (cf_included_recipients f),
      cfr_excluded_recipients = map (recipient_to_proto C) (cf_excluded_recipients f),
      cfr_deleted_at = cf_deleted_at f\<rparr>"

definition chat_folder_try_from ::
  "codec \<Rightarrow> chat_folder_record \<Rightarrow> chat_folder_record_error + chat_folder" where
  "chat_folder_try_from C r =
     res_bind (ok_or MissingIdentifier (uuid_from_slice (cfr_identifier r))) (\<lambda>i.
       Inr \<lparr>cf_id = i, cf_type = chat_folder_type_from (cfr_folder_type r), cf_name = cfr_name r,
         cf_position = cfr_position r, cf_show_only_unread = cfr_show_only_unread r,
         cf_show_muted_chats = cfr_show_muted_chats r,
         cf_include_all_individual_chats = cfr_include_all_individual_chats r,
         cf_include_all_group_chats = cfr_include_all_group_chats r,
         cf_included_recipients = List.map_filter (recipient_from_proto C) (cfr_included_recipients r),
         cf_excluded_recipients = List.map_filter (recipient_from_proto C) (cfr_excluded_recipients r),
         cf_deleted_at = cfr_deleted_at r\<rparr>)"

text \<open>\<open>encode_to_vec\<close> of the message is the parameter \<open>enc\<close>.\<close>

definition encode_chat_folder_record ::
  "(chat_folder_record \<Rightarrow> bytes) \<Rightarrow> codec \<Rightarrow> chat_folder \<Rightarrow> bytes \<Rightarrow> bytes" where
  "encode_chat_folder_record enc C f unknown_fields =
     (let inner = enc (chat_folder_to_record C f) @ unknown_fields
      in encode_len_delimited STORAGE_RECORD_CHAT_FOLDER inner)"

section \<open>Recipients\<close>

lemma folder_type_inv [simp]:
  "chat_folder_type_from (folder_type_from t) = t" "folder_type_from (chat_folder_type_from u) = u"
  by (cases t; simp) (cases u; simp)

text \<open>A recipient as a read leaves it: a service id in canonical form, no empty number.\<close>

fun canonical_recipient :: "codec \<Rightarrow> folder_recipient \<Rightarrow> bool" where
  "canonical_recipient C (RecipientContact sid e164) \<longleftrightarrow>
     (\<forall>s. sid = Some s \<longrightarrow> (\<exists>i. s = service_id_string C i)) \<and> e164 \<noteq> Some []"
| "canonical_recipient C (RecipientGroup _) \<longleftrightarrow> True"
| "canonical_recipient C (RecipientLegacyGroup _) \<longleftrightarrow> True"

lemma from_proto_canonical: "recipient_from_proto C p = Some r \<Longrightarrow> canonical_recipient C r"
  by (auto simp: recipient_from_proto_def Let_def split: option.splits recipient_identifier.splits)

lemma from_to_proto:
  "codec_ok C \<Longrightarrow> canonical_recipient C r \<Longrightarrow> recipient_from_proto C (recipient_to_proto C r) = Some r"
  by (cases r) (auto simp: recipient_from_proto_def Let_def opt_or_def split: option.splits)

lemma canonical_map_filter:
  "list_all (canonical_recipient C) (List.map_filter (recipient_from_proto C) ps)"
  by (induction ps) (auto split: option.splits dest: from_proto_canonical)

lemma map_filter_to_proto:
  "codec_ok C \<Longrightarrow> list_all (canonical_recipient C) rs \<Longrightarrow>
   List.map_filter (recipient_from_proto C) (map (recipient_to_proto C) rs) = rs"
  by (induction rs) (auto simp: from_to_proto)

definition canonical_folder :: "codec \<Rightarrow> chat_folder \<Rightarrow> bool" where
  "canonical_folder C f \<longleftrightarrow> list_all (canonical_recipient C) (cf_included_recipients f) \<and>
     list_all (canonical_recipient C) (cf_excluded_recipients f)"

lemma try_from_canonical: "chat_folder_try_from C r = Inr f \<Longrightarrow> canonical_folder C f"
  by (auto simp: chat_folder_try_from_def canonical_folder_def canonical_map_filter dest!: res_bind_InrD)

lemma try_from_to_record:
  "codec_ok C \<Longrightarrow> canonical_folder C f \<Longrightarrow> chat_folder_try_from C (chat_folder_to_record C f) = Inr f"
  by (simp add: chat_folder_try_from_def chat_folder_to_record_def canonical_folder_def map_filter_to_proto)

section \<open>Record bytes\<close>

text \<open>What the wire format says of an encoded \<open>ChatFolderRecord\<close>: it is a sequence of
  fields numbered one to eleven.\<close>

definition encodes_known_fields :: "(chat_folder_record \<Rightarrow> bytes) \<Rightarrow> bool" where
  "encodes_known_fields enc \<longleftrightarrow>
     (\<forall>r. \<exists>fs. wire_fields (enc r) = Inr fs \<and> list_all (\<lambda>f. CHAT_FOLDER_RECORD_KNOWN_FIELDS (f_num f)) fs)"

definition unknown_of :: "wire_field list \<Rightarrow> bytes" where
  "unknown_of fs = concat (map f_raw (filter (\<lambda>f. \<not> CHAT_FOLDER_RECORD_KNOWN_FIELDS (f_num f)) fs))"

lemma unknown_fields_alt:
  "chat_folder_unknown_fields rec = res_map unknown_of (inner_fields rec STORAGE_RECORD_CHAT_FOLDER)"
proof (cases "record_payload rec STORAGE_RECORD_CHAT_FOLDER")
  case (Inr pl)
  then show ?thesis
    by (cases "scan (slice rec pl)")
       (simp_all add: chat_folder_unknown_fields_def inner_fields_def record_inner_def wire_fields_def
          unknown_of_def filter_map o_def field_of_def)
qed (simp add: chat_folder_unknown_fields_def inner_fields_def record_inner_def)

lemma inner_fields_len_delimited:
  assumes "n \<noteq> 0" "length inner < 2 ^ 64"
  shows "inner_fields (encode_len_delimited n inner) n = wire_fields inner"
proof -
  have "wire_fields (encode_len_delimited n inner) = Inr [len_field n inner]"
    by (simp add: fields_iff wf_len_field [OF assms])
  then show ?thesis by (simp add: inner_fields_def record_inner_fields only_field_def)
qed

lemma unknown_are_unknown:
  "chat_folder_unknown_fields rec = Inr unk \<Longrightarrow>
   \<exists>fs. wire_fields unk = Inr fs \<and> list_all (\<lambda>f. \<not> CHAT_FOLDER_RECORD_KNOWN_FIELDS (f_num f)) fs"
proof -
  assume "chat_folder_unknown_fields rec = Inr unk"
  then obtain gs where gs: "inner_fields rec STORAGE_RECORD_CHAT_FOLDER = Inr gs" "unk = unknown_of gs"
    by (auto simp: unknown_fields_alt res_map_Inr_iff)
  then have "list_all wf_field gs" by (auto simp: fields_iff elim: inner_fieldsE)
  then have "wire_fields unk = Inr (filter (\<lambda>f. \<not> CHAT_FOLDER_RECORD_KNOWN_FIELDS (f_num f)) gs)"
    by (auto simp: gs(2) unknown_of_def fields_iff list_all_iff)
  then show ?thesis by (auto simp: list_all_iff)
qed

lemma unknown_of_encoded:
  assumes "encodes_known_fields enc" "wire_fields unk = Inr us"
    "list_all (\<lambda>f. \<not> CHAT_FOLDER_RECORD_KNOWN_FIELDS (f_num f)) us"
    "length (enc (chat_folder_to_record C f)) + length unk < 2 ^ 64"
  shows "chat_folder_unknown_fields (encode_chat_folder_record enc C f unk) = Inr unk"
proof -
  let ?e = "enc (chat_folder_to_record C f)"
  from assms(1) obtain fs where fs: "wire_fields ?e = Inr fs"
    "list_all (\<lambda>f. CHAT_FOLDER_RECORD_KNOWN_FIELDS (f_num f)) fs"
    unfolding encodes_known_fields_def by blast
  have "wire_fields (?e @ unk) = Inr (fs @ us)"
    using fs(1) assms(2) by (simp add: fields_iff)
  moreover have "unknown_of (fs @ us) = unk"
  proof -
    have "filter (\<lambda>f. \<not> CHAT_FOLDER_RECORD_KNOWN_FIELDS (f_num f)) fs = []"
      using fs(2) by (induction fs) auto
    moreover have "filter (\<lambda>f. \<not> CHAT_FOLDER_RECORD_KNOWN_FIELDS (f_num f)) us = us"
      using assms(3) by (induction us) auto
    ultimately show ?thesis using assms(2) by (simp add: unknown_of_def fields_iff)
  qed
  ultimately show ?thesis
    using inner_fields_len_delimited [of STORAGE_RECORD_CHAT_FOLDER "?e @ unk"] assms(4)
    by (simp add: unknown_fields_alt encode_chat_folder_record_def Let_def field_number_defs)
qed

section \<open>Properties\<close>

text \<open>A folder read from the storage service round-trips: written back as a record and
  read again it is the same folder, recipients this device has never met included; and a
  record fails to read only when its identifier is not sixteen bytes.\<close>

theorem chat_folder_roundtrip:
  assumes "codec_ok C"
  shows "case chat_folder_try_from C r of
      Inl MissingIdentifier \<Rightarrow> length (cfr_identifier r) \<noteq> 16
    | Inr f \<Rightarrow> length (cfr_identifier r) = 16 \<and> uuid_bytes (cf_id f) = cfr_identifier r \<and>
        chat_folder_try_from C (chat_folder_to_record C f) = Inr f"
proof (cases "chat_folder_try_from C r")
  case (Inl e)
  then have "uuid_from_slice (cfr_identifier r) = None"
    by (cases "uuid_from_slice (cfr_identifier r)") (auto simp: chat_folder_try_from_def)
  with Inl show ?thesis by (cases e) (simp add: uuid_from_slice_None_iff)
next
  case (Inr f)
  then obtain i where i: "uuid_from_slice (cfr_identifier r) = Some i" "cf_id f = i"
    by (auto simp: chat_folder_try_from_def ok_or_def split: option.splits)
  with uuid_from_slice_SomeD [OF i(1)] try_from_to_record [OF assms try_from_canonical [OF Inr]] Inr
  show ?thesis using length_uuid_bytes [of i] by auto
qed

text \<open>Rebuilding a folder record keeps what the model cannot carry: the fields a read
  preserved as unknown are in the rebuilt record exactly as they were, so the next read
  preserves the same bytes.\<close>

theorem chat_folder_unknown_fields_survive:
  assumes "chat_folder_unknown_fields rec = Inr unk" "encodes_known_fields enc"
    "length (enc (chat_folder_to_record C f)) + length unk < 2 ^ 64"
  shows "chat_folder_unknown_fields (encode_chat_folder_record enc C f unk) = Inr unk"
  using unknown_are_unknown [OF assms(1)] unknown_of_encoded [OF assms(2) _ _ assms(3)] by blast

definition plain_codec :: codec where
  "plain_codec =
     \<lparr>service_id_string = (\<lambda>_. []), service_id_binary = (\<lambda>_. []),
      parse_from_service_id_string = (\<lambda>_. None), parse_from_service_id_binary = (\<lambda>_. None),
      encode_pin = (\<lambda>_. []), decode_pin = (\<lambda>_. None)\<rparr>"

lemma chat_folder_unknown_fields_survive_witness:
  "chat_folder_unknown_fields (encode_chat_folder_record (\<lambda>r. [24, 7]) plain_codec
     (all_chats (Abs_uuid (replicate 16 1))) [98, 1, 5]) = Inr [98, 1, 5]"
proof -
  have u: "chat_folder_unknown_fields [66, 5, 24, 1, 98, 1, 5] = Inr [98, 1, 5]" by code_simp
  have "wire_fields [24, 7] = Inr [varint_field 3 7]" by code_simp
  then have "encodes_known_fields (\<lambda>r. [24, 7])"
    by (simp add: encodes_known_fields_def CHAT_FOLDER_RECORD_KNOWN_FIELDS_def)
  from chat_folder_unknown_fields_survive [OF u this] show ?thesis by simp
qed

end
