(* ===== verification/Stickers.thy ===== *)
theory Stickers
  imports Wire_Access
begin

text \<open>
  Sticker packs on the storage service: \<open>StickerPackRecordState\<close> of \<open>store.rs\<close>, its reading and
  writing in \<open>storage_record.rs\<close>, and the filter of \<open>manager/storage.rs\<close> that decides which
  records a client can act on. The decoder of the message (prost) is a parameter;
  \<open>sticker_decoder_ok\<close> states the decoding rules of the protobuf format for its four fields.
\<close>

section \<open>Sticker packs\<close>

record sticker =
  sk_id :: u32
  sk_emoji :: "string option"
  sk_content_type :: "string option"
  sk_bytes :: "bytes option"

record sticker_pack_manifest =
  sk_title :: string
  sk_author :: string
  sk_cover :: "sticker option"
  sk_stickers :: "sticker list"

record sticker_pack =
  sk_pack_id :: bytes
  sk_pack_key :: bytes
  sk_manifest :: sticker_pack_manifest

text \<open>The protocol's \<open>Pack\<close> and \<open>Sticker\<close>, with their optional fields.\<close>

record proto_sticker =
  ps_id :: "u32 option"
  ps_emoji :: "string option"
  ps_content_type :: "string option"

record proto_pack =
  pp_title :: "string option"
  pp_author :: "string option"
  pp_cover :: "proto_sticker option"
  pp_stickers :: "proto_sticker list"

definition sticker_from :: "proto_sticker \<Rightarrow> sticker" where
  "sticker_from s =
     \<lparr>sk_id = opt_or 0 (ps_id s), sk_emoji = ps_emoji s, sk_content_type = ps_content_type s,
      sk_bytes = None\<rparr>"

definition sticker_pack_manifest_from :: "proto_pack \<Rightarrow> sticker_pack_manifest" where
  "sticker_pack_manifest_from p =
     \<lparr>sk_title = opt_or [] (pp_title p), sk_author = opt_or [] (pp_author p),
      sk_cover = map_option sticker_from (pp_cover p),
      sk_stickers = map sticker_from (pp_stickers p)\<rparr>"

section \<open>The code\<close>

record sticker_pack_record =
  spr_pack_id :: bytes
  spr_pack_key :: bytes
  spr_position :: u32
  spr_deleted_at :: u64

datatype sticker_pack_record_state =
    Installed bytes u32
  | Removed u64

fun published_as :: "sticker_pack_record_state \<Rightarrow> sticker_pack_record_state \<Rightarrow> bool" where
  "published_as (Removed _) (Removed _) = True"
| "published_as a b = (a = b)"

fun sticker_to_record :: "sticker_pack_record_state \<Rightarrow> bytes \<Rightarrow> sticker_pack_record" where
  "sticker_to_record (Installed key position) pid =
     \<lparr>spr_pack_id = pid, spr_pack_key = key, spr_position = position, spr_deleted_at = 0\<rparr>"
| "sticker_to_record (Removed deleted_at_ms) pid =
     \<lparr>spr_pack_id = pid, spr_pack_key = [], spr_position = 0, spr_deleted_at = deleted_at_ms\<rparr>"

definition sticker_state_from :: "sticker_pack_record \<Rightarrow> sticker_pack_record_state" where
  "sticker_state_from r =
     (if spr_deleted_at r \<noteq> 0 then Removed (spr_deleted_at r)
      else Installed (spr_pack_key r) (spr_position r))"

definition sticker_pack_state ::
  "(bytes \<Rightarrow> sticker_pack_record option) \<Rightarrow> bytes \<Rightarrow> edit_error + sticker_pack_record_state" where
  "sticker_pack_state decode rec =
     res_bind (record_payload rec STORAGE_RECORD_STICKER_PACK) (\<lambda>pl.
     res_bind (ok_or Malformed (decode (slice rec pl))) (\<lambda>pack. Inr (sticker_state_from pack)))"

definition set_sticker_pack_state :: "bytes \<Rightarrow> sticker_pack_record_state \<Rightarrow> edit_error + bytes" where
  "set_sticker_pack_state rec state =
     (let (key, position, deleted_at) =
        (case state of
           Installed key position \<Rightarrow>
             (Some (encode_len_delimited STICKER_PACK_RECORD_KEY key), ucast position :: u64, 0 :: u64)
         | Removed deleted_at_ms \<Rightarrow> (None, 0, deleted_at_ms))
      in
      res_bind (set_record_field rec STORAGE_RECORD_STICKER_PACK STICKER_PACK_RECORD_KEY key) (\<lambda>rec1.
      res_bind (set_varint_field_or_remove rec1 STORAGE_RECORD_STICKER_PACK STICKER_PACK_RECORD_POSITION
          position) (\<lambda>rec2.
      set_varint_field_or_remove rec2 STORAGE_RECORD_STICKER_PACK STICKER_PACK_RECORD_DELETED_AT
        deleted_at)))"

definition STICKER_PACK_ID_LEN :: nat where "STICKER_PACK_ID_LEN = 16"
definition STICKER_PACK_KEY_LEN :: nat where "STICKER_PACK_KEY_LEN = 32"

definition is_sticker_pack_pointer :: "bytes \<Rightarrow> bytes \<Rightarrow> bool" where
  "is_sticker_pack_pointer pid key \<longleftrightarrow>
     length pid = STICKER_PACK_ID_LEN \<and> length key = STICKER_PACK_KEY_LEN"

definition sticker_pack_change ::
  "sticker_pack_record \<Rightarrow> (bytes \<times> sticker_pack_record_state) option" where
  "sticker_pack_change r =
     (if length (spr_pack_id r) \<noteq> STICKER_PACK_ID_LEN then None
      else let pid = spr_pack_id r;
               state = sticker_state_from (r\<lparr>spr_pack_id := []\<rparr>)
           in case state of
                Installed key _ \<Rightarrow> if \<not> is_sticker_pack_pointer pid key then None else Some (pid, state)
              | Removed _ \<Rightarrow> Some (pid, state))"

section \<open>Decoding by fields\<close>

definition last_bytes :: "u32 \<Rightarrow> wire_field list \<Rightarrow> bytes" where
  "last_bytes n fs = (case find (\<lambda>f. f_num f = n) (rev fs) of None \<Rightarrow> [] | Some f \<Rightarrow> f_pl f)"

definition sticker_typed :: "wire_field list \<Rightarrow> bool" where
  "sticker_typed fs \<longleftrightarrow>
     list_all (\<lambda>f. (f_num f \<in> {1, STICKER_PACK_RECORD_KEY} \<longrightarrow> f_wt f = WIRE_LEN) \<and>
       (f_num f \<in> {STICKER_PACK_RECORD_POSITION, STICKER_PACK_RECORD_DELETED_AT} \<longrightarrow> f_wt f = WIRE_VARINT)) fs"

text \<open>Proto3 decoding: fields of the declared types, the last occurrence of a number wins, an
  absent one is its default, a \<open>uint32\<close> takes the low bits of its varint.\<close>

definition sticker_decoder_ok :: "(bytes \<Rightarrow> sticker_pack_record option) \<Rightarrow> bool" where
  "sticker_decoder_ok dec \<longleftrightarrow>
     (\<forall>bs fs pos del. wire_fields bs = Inr fs \<longrightarrow> sticker_typed fs \<longrightarrow>
        last_varint STICKER_PACK_RECORD_POSITION fs = Inr pos \<longrightarrow>
        last_varint STICKER_PACK_RECORD_DELETED_AT fs = Inr del \<longrightarrow>
        dec bs = Some \<lparr>spr_pack_id = last_bytes 1 fs, spr_pack_key = last_bytes STICKER_PACK_RECORD_KEY fs,
          spr_position = ucast pos, spr_deleted_at = del\<rparr>)"

lemma last_bytes_edited_other:
  "\<forall>f\<in>set rs. f_num f = n \<Longrightarrow> n' \<noteq> n \<Longrightarrow> last_bytes n' (edited n rs fs) = last_bytes n' fs"
  by (simp add: last_bytes_def find_rev_filter filter_edited_other)

lemma last_bytes_edited_same: "last_bytes n (edited n [len_field n pl] fs) = pl"
  by (simp add: last_bytes_def find_rev_filter filter_edited)

lemma last_bytes_edited_None: "last_bytes n (edited n [] fs) = []"
  by (simp add: last_bytes_def find_rev_filter filter_edited)

lemma typed_edited:
  "sticker_typed fs \<Longrightarrow> sticker_typed rs \<Longrightarrow> sticker_typed (edited n rs fs)"
  by (auto simp: sticker_typed_def list_all_iff set_takeWhile_filter)

lemma typed_varint_repl:
  "n \<notin> {1, STICKER_PACK_RECORD_KEY} \<Longrightarrow> sticker_typed (varint_repl n v)"
  by (auto simp: sticker_typed_def varint_repl_def)

definition key_repl :: "sticker_pack_record_state \<Rightarrow> wire_field list" where
  "key_repl st = (case st of Installed key _ \<Rightarrow> [len_field STICKER_PACK_RECORD_KEY key] | Removed _ \<Rightarrow> [])"

definition state_key :: "sticker_pack_record_state \<Rightarrow> bytes" where
  "state_key st = (case st of Installed key _ \<Rightarrow> key | Removed _ \<Rightarrow> [])"

definition state_position :: "sticker_pack_record_state \<Rightarrow> u64" where
  "state_position st = (case st of Installed _ p \<Rightarrow> ucast p | Removed _ \<Rightarrow> 0)"

definition state_deleted :: "sticker_pack_record_state \<Rightarrow> u64" where
  "state_deleted st = (case st of Installed _ _ \<Rightarrow> 0 | Removed d \<Rightarrow> d)"

lemma set_sticker_alt:
  "set_sticker_pack_state rec st =
     res_bind (set_record_field rec STORAGE_RECORD_STICKER_PACK STICKER_PACK_RECORD_KEY
       (repl_of (key_repl st))) (\<lambda>rec1.
     res_bind (set_varint_field_or_remove rec1 STORAGE_RECORD_STICKER_PACK STICKER_PACK_RECORD_POSITION
       (state_position st)) (\<lambda>rec2.
     set_varint_field_or_remove rec2 STORAGE_RECORD_STICKER_PACK STICKER_PACK_RECORD_DELETED_AT
       (state_deleted st)))"
  by (cases st)
     (simp_all add: set_sticker_pack_state_def key_repl_def state_position_def state_deleted_def repl_of_def)

definition sticker_edited :: "sticker_pack_record_state \<Rightarrow> wire_field list \<Rightarrow> wire_field list" where
  "sticker_edited st gs =
     edited STICKER_PACK_RECORD_DELETED_AT (varint_repl STICKER_PACK_RECORD_DELETED_AT (state_deleted st))
       (edited STICKER_PACK_RECORD_POSITION (varint_repl STICKER_PACK_RECORD_POSITION (state_position st))
         (edited STICKER_PACK_RECORD_KEY (key_repl st) gs))"

lemma key_repl_num: "\<forall>f\<in>set (key_repl st). f_num f = STICKER_PACK_RECORD_KEY"
  by (cases st) (simp_all add: key_repl_def)

lemma ucast_u32_u64 [simp]: "ucast (ucast x :: u64) = (x :: u32)"
  by (rule bit_word_eqI) (simp add: bit_simps)

lemma set_sticker_fields:
  assumes "set_sticker_pack_state rec st = Inr rec'"
    and len: "length rec + length (state_key st) + 200 < 2 ^ 64"
  obtains gs where "inner_fields rec STORAGE_RECORD_STICKER_PACK = Inr gs"
    "inner_fields rec' STORAGE_RECORD_STICKER_PACK = Inr (sticker_edited st gs)"
proof -
  from assms(1) obtain r1 r2 where
    s1: "set_record_field rec STORAGE_RECORD_STICKER_PACK STICKER_PACK_RECORD_KEY (repl_of (key_repl st)) = Inr r1"
    and s2: "set_varint_field_or_remove r1 STORAGE_RECORD_STICKER_PACK STICKER_PACK_RECORD_POSITION
       (state_position st) = Inr r2"
    and s3: "set_varint_field_or_remove r2 STORAGE_RECORD_STICKER_PACK STICKER_PACK_RECORD_DELETED_AT
       (state_deleted st) = Inr rec'"
    unfolding set_sticker_alt by (auto elim!: res_bind_InrE)
  have nz: "STORAGE_RECORD_STICKER_PACK \<noteq> 0" "STICKER_PACK_RECORD_POSITION \<noteq> 0"
    "STICKER_PACK_RECORD_DELETED_AT \<noteq> 0" by (simp_all add: field_number_defs)
  have kl: "length (concat (map f_raw (key_repl st))) \<le> 20 + length (state_key st)"
    using length_encode_len_delimited_le [of STICKER_PACK_RECORD_KEY "state_key st"]
    by (cases st) (simp_all add: key_repl_def state_key_def)
  have kw: "list_all wf_field (key_repl st)"
    using len wf_len_field [of STICKER_PACK_RECORD_KEY "state_key st"]
    by (cases st) (simp_all add: key_repl_def field_number_defs state_key_def)
  have l0: "length rec + length (concat (map f_raw (key_repl st))) < 2 ^ 64" using kl len by linarith
  have l1: "length r1 \<le> length rec + 40 + length (state_key st)"
    using set_record_field_length [OF s1 kw nz(1) l0] kl by linarith
  then have l1': "length r1 + 40 < 2 ^ 64" using len by linarith
  have "length r2 \<le> length r1 + 40" by (rule varint_length [OF s2 nz(1,2) l1'])
  then have l2': "length r2 + 40 < 2 ^ 64" using l1 len by linarith
  from set_record_field_same [OF s1 kw nz(1) l0] set_record_field_same [OF varint_written [OF s2 nz(1,2) l1']]
    set_record_field_same [OF varint_written [OF s3 nz(1,3) l2']] that
  show thesis by (auto simp: sticker_edited_def)
qed

lemma sticker_edited_read:
  assumes "sticker_typed gs"
  shows "sticker_typed (sticker_edited st gs)"
    "last_bytes 1 (sticker_edited st gs) = last_bytes 1 gs"
    "last_bytes STICKER_PACK_RECORD_KEY (sticker_edited st gs) =
       (case st of Installed key _ \<Rightarrow> key | Removed _ \<Rightarrow> [])"
    "last_varint STICKER_PACK_RECORD_POSITION (sticker_edited st gs) = Inr (state_position st)"
    "last_varint STICKER_PACK_RECORD_DELETED_AT (sticker_edited st gs) = Inr (state_deleted st)"
proof -
  have n: "STICKER_PACK_RECORD_KEY = 2" "STICKER_PACK_RECORD_POSITION = 3" "STICKER_PACK_RECORD_DELETED_AT = 4"
    by (simp_all add: field_number_defs)
  have "sticker_typed (key_repl st)"
    by (cases st) (simp_all add: sticker_typed_def key_repl_def field_number_defs)
  with assms show "sticker_typed (sticker_edited st gs)"
    unfolding sticker_edited_def by (intro typed_edited typed_varint_repl) (simp_all add: n)
  show "last_bytes 1 (sticker_edited st gs) = last_bytes 1 gs"
    using key_repl_num [of st]
    by (simp add: sticker_edited_def last_bytes_edited_other varint_repl_num n)
  show "last_bytes STICKER_PACK_RECORD_KEY (sticker_edited st gs) =
       (case st of Installed key _ \<Rightarrow> key | Removed _ \<Rightarrow> [])"
    by (cases st) (simp_all add: sticker_edited_def last_bytes_edited_other varint_repl_num n key_repl_def
        last_bytes_edited_same last_bytes_edited_None)
  show "last_varint STICKER_PACK_RECORD_POSITION (sticker_edited st gs) = Inr (state_position st)"
    by (simp add: sticker_edited_def last_varint_edited_other varint_repl_num n last_varint_repl)
  show "last_varint STICKER_PACK_RECORD_DELETED_AT (sticker_edited st gs) = Inr (state_deleted st)"
    by (simp add: sticker_edited_def n last_varint_repl)
qed

section \<open>Properties\<close>

text \<open>A sticker pack's record says what it was told to say: after an edit the record reads
  back as that state and still names the same pack, whichever state it was in before; an
  installed pack keeps no deletion time and a removed one neither key nor position.\<close>

theorem sticker_state_roundtrip:
  assumes "set_sticker_pack_state rec st = Inr rec'" "sticker_decoder_ok dec"
    "inner_fields rec STORAGE_RECORD_STICKER_PACK = Inr gs" "sticker_typed gs"
    "st \<noteq> Removed 0" "length rec + length (state_key st) + 200 < 2 ^ 64"
  shows "sticker_pack_state dec rec' = Inr st \<and>
    (\<exists>r. res_map dec (record_inner rec' STORAGE_RECORD_STICKER_PACK) = Inr (Some r) \<and>
         r = sticker_to_record st (last_bytes 1 gs))"
proof -
  obtain hs where hs: "inner_fields rec' STORAGE_RECORD_STICKER_PACK = Inr hs" "hs = sticker_edited st gs"
    using set_sticker_fields [OF assms(1,6)] assms(3) by (metis Inr_inject)
  then obtain inner where inner: "record_inner rec' STORAGE_RECORD_STICKER_PACK = Inr inner" "wire_fields inner = Inr hs"
    unfolding inner_fields_def by (auto elim: res_bind_InrE)
  have dec: "dec inner = Some (sticker_to_record st (last_bytes 1 gs))"
    using assms(2) inner(2) sticker_edited_read [OF assms(4), of st] hs(2)
    unfolding sticker_decoder_ok_def by (cases st) (auto simp: state_position_def state_deleted_def)
  have "sticker_state_from (sticker_to_record st (last_bytes 1 gs)) = st"
    using assms(5) by (cases st) (auto simp: sticker_state_from_def)
  with dec inner show ?thesis
    by (auto simp: sticker_pack_state_def record_inner_def res_map_Inr_iff)
qed

definition sample_sticker_decoder :: "bytes \<Rightarrow> sticker_pack_record option" where
  "sample_sticker_decoder bs =
     (case wire_fields bs of
        Inl _ \<Rightarrow> None
      | Inr fs \<Rightarrow>
          (case (last_varint STICKER_PACK_RECORD_POSITION fs, last_varint STICKER_PACK_RECORD_DELETED_AT fs) of
             (Inr pos, Inr del) \<Rightarrow>
               Some \<lparr>spr_pack_id = last_bytes 1 fs, spr_pack_key = last_bytes STICKER_PACK_RECORD_KEY fs,
                     spr_position = ucast pos, spr_deleted_at = del\<rparr>
           | _ \<Rightarrow> None))"

lemma sticker_state_roundtrip_witness:
  "sticker_pack_state sample_sticker_decoder [50, 7, 10, 1, 9, 32, 172, 2, 40] = Inl Malformed \<and>
   sticker_pack_state sample_sticker_decoder [50, 6, 10, 1, 9, 32, 172, 2] = Inr (Removed 300)"
proof -
  have s: "set_sticker_pack_state [50, 8, 10, 1, 9, 18, 1, 5, 24, 2] (Removed 300) =
    Inr [50, 6, 10, 1, 9, 32, 172, 2]" by code_simp
  have i: "inner_fields [50, 8, 10, 1, 9, 18, 1, 5, 24, 2] STORAGE_RECORD_STICKER_PACK =
    Inr [len_field 1 [9], len_field 2 [5], varint_field 3 2]" by code_simp
  have t: "sticker_typed [len_field 1 [9], len_field 2 [5], varint_field 3 2]" by code_simp
  have d: "sticker_decoder_ok sample_sticker_decoder"
    by (simp add: sticker_decoder_ok_def sample_sticker_decoder_def)
  have m: "sticker_pack_state sample_sticker_decoder [50, 7, 10, 1, 9, 32, 172, 2, 40] = Inl Malformed"
    by code_simp
  from sticker_state_roundtrip [OF s d i t] m show ?thesis by (simp add: state_key_def)
qed

text \<open>C0. Only records a client can act on are taken in: a pack named by sixteen bytes, with a
  32-byte key unless it is a removal. What is taken in is exactly what the record says, and
  publishing that state for that pack would be recognised as already published.\<close>

theorem sticker_pack_change_spec:
  "(sticker_pack_change r = Some (pid, st) \<longleftrightarrow>
     pid = spr_pack_id r \<and> length pid = 16 \<and> st = sticker_state_from r \<and>
     \<not> (spr_deleted_at r = 0 \<and> length (spr_pack_key r) \<noteq> 32)) \<and>
   published_as st st"
proof -
  have "published_as st st" by (cases st) auto
  then show ?thesis
    by (auto simp: sticker_pack_change_def Let_def sticker_state_from_def is_sticker_pack_pointer_def
        STICKER_PACK_ID_LEN_def STICKER_PACK_KEY_LEN_def)
qed

end
