(* ===== verification/Merge.thy ===== *)
theory Merge
  imports Contacts Group_Model Chat_Folders Stickers
begin

text \<open>
  The pure half of \<open>presage/src/manager/storage.rs\<close>: merging a remote snapshot into the local
  row, and the bitmap of locally edited fields (\<open>PendingPublish\<close> and its twins) that the merge
  protects and the publish writes. \<open>pending_publish\<close> is the contract the three bitmaps share:
  applying a diff leaves nothing pending, and only pending fields are written.
\<close>

section \<open>Contacts\<close>

record pending_publish =
  pp_blocked :: bool
  pp_muted :: bool
  pp_archived :: bool

definition pending_none :: pending_publish where
  "pending_none = \<lparr>pp_blocked = False, pp_muted = False, pp_archived = False\<rparr>"

definition pending_all :: pending_publish where
  "pending_all = \<lparr>pp_blocked = True, pp_muted = True, pp_archived = True\<rparr>"

definition pending_diff :: "bytes \<Rightarrow> contact \<Rightarrow> edit_error + pending_publish" where
  "pending_diff rec local =
     res_bind (contact_blocked rec) (\<lambda>b.
     res_bind (contact_muted_until rec) (\<lambda>m.
     res_bind (contact_archived rec) (\<lambda>a.
       Inr \<lparr>pp_blocked = (b \<noteq> c_blocked local), pp_muted = (m \<noteq> c_muted_until local),
            pp_archived = (a \<noteq> c_archived local)\<rparr>)))"

definition pending_between :: "contact \<Rightarrow> contact \<Rightarrow> pending_publish" where
  "pending_between a b =
     \<lparr>pp_blocked = (c_blocked a \<noteq> c_blocked b), pp_muted = (c_muted_until a \<noteq> c_muted_until b),
      pp_archived = (c_archived a \<noteq> c_archived b)\<rparr>"

definition pending_any :: "pending_publish \<Rightarrow> bool" where
  "pending_any p \<longleftrightarrow> p \<noteq> pending_none"

definition pending_apply :: "pending_publish \<Rightarrow> bytes \<Rightarrow> contact \<Rightarrow> edit_error + bytes" where
  "pending_apply p rec local =
     res_bind (put_if set_contact_blocked (pp_blocked p) rec (c_blocked local)) (\<lambda>edited1.
     res_bind (put_if set_contact_muted_until (pp_muted p) edited1 (c_muted_until local)) (\<lambda>edited2.
     put_if set_contact_archived (pp_archived p) edited2 (c_archived local)))"

text \<open>\<open>if cond { contact.field = existing.field; preserved.push("field"); }\<close>\<close>

definition restore ::
  "string \<Rightarrow> (contact \<Rightarrow> bool) \<Rightarrow> (contact \<Rightarrow> contact) \<Rightarrow> contact \<times> string list \<Rightarrow> contact \<times> string list" where
  "restore field cond upd cp =
     (case cp of (c, preserved) \<Rightarrow> if cond c then (upd c, preserved @ [field]) else (c, preserved))"

definition merge_contact_from_snapshot ::
  "contact \<Rightarrow> contact \<Rightarrow> pending_publish \<Rightarrow> contact \<times> string list" where
  "merge_contact_from_snapshot contact existing pending =
     (let local = contact\<lparr>c_expire_timer := c_expire_timer existing,
            c_expire_timer_version := c_expire_timer_version existing,
            c_inbox_position := c_inbox_position existing,
            c_avatar := c_avatar existing,
            c_verified := c_verified existing\<rparr>;
          s1 = restore ''name'' (\<lambda>c. c_name c = [] \<and> c_name existing \<noteq> [])
                 (\<lambda>c. c\<lparr>c_name := c_name existing\<rparr>) (local, []);
          s2 = restore ''profile_key'' (\<lambda>c. c_profile_key c = [] \<and> c_profile_key existing \<noteq> [])
                 (\<lambda>c. c\<lparr>c_profile_key := c_profile_key existing\<rparr>) s1;
          s3 = restore ''phone_number'' (\<lambda>c. c_phone_number c = None \<and> c_phone_number existing \<noteq> None)
                 (\<lambda>c. c\<lparr>c_phone_number := c_phone_number existing\<rparr>) s2;
          s4 = restore ''pni'' (\<lambda>c. c_pni c = None \<and> c_pni existing \<noteq> None)
                 (\<lambda>c. c\<lparr>c_pni := c_pni existing\<rparr>) s3;
          s5 = restore ''username'' (\<lambda>c. c_username c = None \<and> c_username existing \<noteq> None)
                 (\<lambda>c. c\<lparr>c_username := c_username existing\<rparr>) s4;
          s6 = restore ''blocked'' (\<lambda>c. pp_blocked pending \<and> c_blocked c \<noteq> c_blocked existing)
                 (\<lambda>c. c\<lparr>c_blocked := c_blocked existing\<rparr>) s5;
          s7 = restore ''muted_until_timestamp''
                 (\<lambda>c. pp_muted pending \<and> c_muted_until c \<noteq> c_muted_until existing)
                 (\<lambda>c. c\<lparr>c_muted_until := c_muted_until existing\<rparr>) s6
      in restore ''archived'' (\<lambda>c. pp_archived pending \<and> c_archived c \<noteq> c_archived existing)
           (\<lambda>c. c\<lparr>c_archived := c_archived existing\<rparr>) s7)"

section \<open>Groups\<close>

record group_pending_publish =
  gpp_muted :: bool
  gpp_archived :: bool

definition group_pending_none :: group_pending_publish where
  "group_pending_none = \<lparr>gpp_muted = False, gpp_archived = False\<rparr>"

definition group_pending_all :: group_pending_publish where
  "group_pending_all = \<lparr>gpp_muted = True, gpp_archived = True\<rparr>"

definition group_pending_diff :: "bytes \<Rightarrow> group \<Rightarrow> edit_error + group_pending_publish" where
  "group_pending_diff rec local =
     res_bind (group_muted_until rec) (\<lambda>m.
     res_bind (group_archived rec) (\<lambda>a.
       Inr \<lparr>gpp_muted = (m \<noteq> g_muted_until local), gpp_archived = (a \<noteq> g_archived local)\<rparr>))"

definition group_pending_between :: "group \<Rightarrow> group \<Rightarrow> group_pending_publish" where
  "group_pending_between a b =
     \<lparr>gpp_muted = (g_muted_until a \<noteq> g_muted_until b), gpp_archived = (g_archived a \<noteq> g_archived b)\<rparr>"

definition group_pending_any :: "group_pending_publish \<Rightarrow> bool" where
  "group_pending_any p \<longleftrightarrow> p \<noteq> group_pending_none"

definition group_pending_apply :: "group_pending_publish \<Rightarrow> bytes \<Rightarrow> group \<Rightarrow> edit_error + bytes" where
  "group_pending_apply p rec local =
     res_bind (put_if set_group_muted_until (gpp_muted p) rec (g_muted_until local)) (\<lambda>edited1.
     put_if set_group_archived (gpp_archived p) edited1 (g_archived local))"

definition merge_group_from_snapshot :: "group \<Rightarrow> group_record \<Rightarrow> group_pending_publish \<Rightarrow> group" where
  "merge_group_from_snapshot existing remote pending =
     existing\<lparr>g_blocked := gr_blocked remote,
       g_whitelisted := gr_whitelisted remote,
       g_archived := (if \<not> gpp_archived pending then gr_archived remote else g_archived existing),
       g_marked_unread := gr_marked_unread remote,
       g_muted_until := (if \<not> gpp_muted pending then gr_muted_until remote else g_muted_until existing),
       g_dont_notify_for_mentions_if_muted := gr_dont_notify_for_mentions_if_muted remote,
       g_hide_story := gr_hide_story remote,
       g_story_send_mode := sint (gr_story_send_mode remote)\<rparr>"

section \<open>The account\<close>

record account_pending_publish =
  app_note_to_self_archived :: bool
  app_pinned :: bool

definition account_pending_none :: account_pending_publish where
  "account_pending_none = \<lparr>app_note_to_self_archived = False, app_pinned = False\<rparr>"

definition account_pending_all :: account_pending_publish where
  "account_pending_all = \<lparr>app_note_to_self_archived = True, app_pinned = True\<rparr>"

definition account_pending_between ::
  "account_chat_state \<Rightarrow> account_chat_state \<Rightarrow> account_pending_publish" where
  "account_pending_between a b =
     \<lparr>app_note_to_self_archived = (note_to_self_archived a \<noteq> note_to_self_archived b),
      app_pinned = (pinned a \<noteq> pinned b)\<rparr>"

definition account_pending_diff :: "bytes \<Rightarrow> account_chat_state \<Rightarrow> edit_error + account_pending_publish" where
  "account_pending_diff rec local =
     res_bind (account_from_record rec) (\<lambda>st. Inr (account_pending_between st local))"

definition account_pending_any :: "account_pending_publish \<Rightarrow> bool" where
  "account_pending_any p \<longleftrightarrow> p \<noteq> account_pending_none"

definition account_pending_apply ::
  "account_pending_publish \<Rightarrow> bytes \<Rightarrow> account_chat_state \<Rightarrow> edit_error + bytes" where
  "account_pending_apply p rec local =
     res_bind (put_if set_account_note_to_self_archived (app_note_to_self_archived p) rec
       (note_to_self_archived local)) (\<lambda>edited1.
     put_if set_account_pinned_conversations (app_pinned p) edited1 (pinned local))"

definition merge_account_from_snapshot ::
  "account_chat_state \<Rightarrow> account_chat_state \<Rightarrow> account_pending_publish \<Rightarrow> account_chat_state" where
  "merge_account_from_snapshot local remote pending =
     \<lparr>note_to_self_archived =
        (if app_note_to_self_archived pending then note_to_self_archived local
         else note_to_self_archived remote),
      keep_muted_chats_archived = keep_muted_chats_archived remote,
      pinned = (if app_pinned pending then pinned local else pinned remote)\<rparr>"

definition adopt_first_account_record ::
  "codec \<Rightarrow> account_chat_state \<Rightarrow> account_chat_state \<Rightarrow> account_chat_state" where
  "adopt_first_account_record C local remote =
     fold (pin C) (pinned_threads C local) remote"

section \<open>Chat folders\<close>

text \<open>\<open>CHAT_FOLDER_TOMBSTONE_TTL\<close> is thirty days, in milliseconds.\<close>

definition CHAT_FOLDER_TOMBSTONE_TTL_MS :: u64 where
  "CHAT_FOLDER_TOMBSTONE_TTL_MS = 30 * 24 * 60 * 60 * 1000"

definition chat_folder_tombstone_expired :: "chat_folder \<Rightarrow> u64 \<Rightarrow> bool" where
  "chat_folder_tombstone_expired f now_ms \<longleftrightarrow>
     cf_deleted_at f \<noteq> 0 \<and> cf_deleted_at f + CHAT_FOLDER_TOMBSTONE_TTL_MS < now_ms"

definition earliest_deletion :: "u64 \<Rightarrow> u64 \<Rightarrow> u64" where
  "earliest_deletion a b =
     (case filter (\<lambda>t. t \<noteq> 0) [a, b] of [] \<Rightarrow> 0 | t # ts \<Rightarrow> fold min ts t)"

definition merge_chat_folder_from_snapshot ::
  "chat_folder option \<Rightarrow> chat_folder \<Rightarrow> bool \<Rightarrow> chat_folder option" where
  "merge_chat_folder_from_snapshot local remote local_pending =
     (if local_pending then None
      else if cf_type remote = AllFolder then
        (case local of
           Some l \<Rightarrow> if \<not> is_live l then None else Some (all_chats (cf_id remote))
         | None \<Rightarrow> Some (all_chats (cf_id remote)))
      else
        (case local of
           None \<Rightarrow> if cf_deleted_at remote \<noteq> 0 then None else Some remote
         | Some l \<Rightarrow>
             (let deleted_at = earliest_deletion (cf_deleted_at l) (cf_deleted_at remote)
              in Some (if deleted_at \<noteq> 0 then tombstone deleted_at remote else remote))))"

end
