(* ===== verification/Merge_Laws.thy ===== *)
theory Merge_Laws
  imports Merge
begin

text \<open>
  Laws of \<open>Merge\<close>: the contract of the pending-publish bitmaps with its three interpretations,
  what a merge keeps and takes, and the life of a chat-folder tombstone.
\<close>

section \<open>The pending-publish contract\<close>

locale pending_publish =
  fixes diff :: "bytes \<Rightarrow> 'l \<Rightarrow> edit_error + 'p"
    and appl :: "'p \<Rightarrow> bytes \<Rightarrow> 'l \<Rightarrow> edit_error + bytes"
    and none :: 'p
    and room :: "'l \<Rightarrow> nat"
  assumes apply_settles:
      "diff rec l = Inr d \<Longrightarrow> appl d rec l = Inr rec' \<Longrightarrow> length rec + room l < 2 ^ 64 \<Longrightarrow>
       diff rec' l = Inr none"
    and apply_total: "diff rec l = Inr d \<Longrightarrow> length rec + room l < 2 ^ 64 \<Longrightarrow> \<exists>rec'. appl d rec l = Inr rec'"
    and apply_none: "appl none rec l = Inr rec"
begin

definition publish :: "bytes \<Rightarrow> 'l \<Rightarrow> edit_error + bytes" where
  "publish rec l = res_bind (diff rec l) (\<lambda>d. appl d rec l)"

lemma publish_settles:
  "publish rec l = Inr rec' \<Longrightarrow> length rec + room l < 2 ^ 64 \<Longrightarrow> diff rec' l = Inr none"
  unfolding publish_def by (auto elim!: res_bind_InrE intro: apply_settles)

lemma publish_again:
  "publish rec l = Inr rec' \<Longrightarrow> length rec + room l < 2 ^ 64 \<Longrightarrow> publish rec' l = Inr rec'"
  using publish_settles [of rec l rec'] by (simp add: publish_def apply_none)

lemma publish_error_iff:
  "length rec + room l < 2 ^ 64 \<Longrightarrow> publish rec l = Inl e \<longleftrightarrow> diff rec l = Inl e"
  by (cases "diff rec l") (auto simp: publish_def dest: apply_total)

end

lemma pending_diff_InrE:
  assumes "pending_diff rec l = Inr d"
  obtains b m a where "contact_blocked rec = Inr b" "contact_muted_until rec = Inr m"
    "contact_archived rec = Inr a" "pp_blocked d = (b \<noteq> c_blocked l)"
    "pp_muted d = (m \<noteq> c_muted_until l)" "pp_archived d = (a \<noteq> c_archived l)"
  using assms unfolding pending_diff_def by (auto elim!: res_bind_InrE)

lemma contact_applied:
  assumes "pending_apply d rec l = Inr rec'" "length rec + 200 < 2 ^ 64"
    "pp_blocked d \<or> contact_blocked rec = Inr (c_blocked l)"
    "pp_muted d \<or> contact_muted_until rec = Inr (c_muted_until l)"
    "pp_archived d \<or> contact_archived rec = Inr (c_archived l)"
  shows "contact_blocked rec' = Inr (c_blocked l)" "contact_muted_until rec' = Inr (c_muted_until l)"
    "contact_archived rec' = Inr (c_archived l)"
proof -
  from assms(1) obtain e1 e2 where e:
    "put_if set_contact_blocked (pp_blocked d) rec (c_blocked l) = Inr e1"
    "put_if set_contact_muted_until (pp_muted d) e1 (c_muted_until l) = Inr e2"
    "put_if set_contact_archived (pp_archived d) e2 (c_archived l) = Inr rec'"
    unfolding pending_apply_def by (auto elim!: res_bind_InrE)
  have l0: "length rec + 40 < 2 ^ 64" using assms(2) by simp
  have l1: "length e1 + 40 < 2 ^ 64" using contact_blocked.put_if_length [OF e(1) l0] assms(2) by simp
  have l2: "length e2 + 40 < 2 ^ 64"
    using contact_muted.put_if_length [OF e(2) l1] contact_blocked.put_if_length [OF e(1) l0] assms(2) by simp
  have m1: "contact_muted_until e1 = contact_muted_until rec" "contact_archived e1 = contact_archived rec"
    using blocked_muted.put_if_frame_b [OF e(1) l0] blocked_archived.put_if_frame_b [OF e(1) l0] .
  have m2: "contact_blocked e2 = contact_blocked e1" "contact_archived e2 = contact_archived e1"
    using blocked_muted.put_if_frame_a [OF e(2) l1] muted_archived.put_if_frame_b [OF e(2) l1] .
  have m3: "contact_blocked rec' = contact_blocked e2" "contact_muted_until rec' = contact_muted_until e2"
    using blocked_archived.put_if_frame_a [OF e(3) l2] muted_archived.put_if_frame_a [OF e(3) l2] .
  show "contact_blocked rec' = Inr (c_blocked l)"
    using contact_blocked.put_if_get [OF e(1) l0 assms(3)] m2(1) m3(1) by simp
  show "contact_muted_until rec' = Inr (c_muted_until l)"
    using contact_muted.put_if_get [OF e(2) l1] assms(4) m1(1) m3(2) by simp
  show "contact_archived rec' = Inr (c_archived l)"
    using contact_archived.put_if_get [OF e(3) l2] assms(5) m1(2) m2(2) by simp
qed

lemma contact_apply_total:
  assumes "pending_diff rec l = Inr d" "length rec + 200 < 2 ^ 64"
  shows "\<exists>rec'. pending_apply d rec l = Inr rec'"
proof -
  from assms(1) obtain b m a where g: "contact_blocked rec = Inr b" "contact_muted_until rec = Inr m"
    "contact_archived rec = Inr a" by (rule pending_diff_InrE)
  from contact_blocked.put_if_total [OF g(1)] obtain e1 where e1:
    "put_if set_contact_blocked (pp_blocked d) rec (c_blocked l) = Inr e1" by blast
  have l0: "length rec + 40 < 2 ^ 64" using assms(2) by simp
  have l1: "length e1 + 40 < 2 ^ 64" using contact_blocked.put_if_length [OF e1 l0] assms(2) by simp
  have m1: "contact_muted_until e1 = Inr m" "contact_archived e1 = Inr a"
    using blocked_muted.put_if_frame_b [OF e1 l0] blocked_archived.put_if_frame_b [OF e1 l0] g by simp_all
  from contact_muted.put_if_total [OF m1(1)] obtain e2 where e2:
    "put_if set_contact_muted_until (pp_muted d) e1 (c_muted_until l) = Inr e2" by blast
  have "contact_archived e2 = Inr a" using muted_archived.put_if_frame_b [OF e2 l1] m1(2) by simp
  from contact_archived.put_if_total [OF this] e1 e2 show ?thesis
    by (simp add: pending_apply_def)
qed

interpretation contact_pending: pending_publish pending_diff pending_apply pending_none "\<lambda>_. 200"
proof unfold_locales
  fix rec rec' :: bytes and l d
  assume d: "pending_diff rec l = Inr d" and a: "pending_apply d rec l = Inr rec'" and n: "length rec + 200 < 2 ^ 64"
  from d obtain b m a where g: "contact_blocked rec = Inr b" "contact_muted_until rec = Inr m"
    "contact_archived rec = Inr a" "pp_blocked d = (b \<noteq> c_blocked l)"
    "pp_muted d = (m \<noteq> c_muted_until l)" "pp_archived d = (a \<noteq> c_archived l)"
    by (rule pending_diff_InrE)
  have "contact_blocked rec' = Inr (c_blocked l)" "contact_muted_until rec' = Inr (c_muted_until l)"
    "contact_archived rec' = Inr (c_archived l)"
    by (rule contact_applied [OF a n]; use g in auto)+
  then show "pending_diff rec' l = Inr pending_none" by (simp add: pending_diff_def pending_none_def)
qed ((rule contact_apply_total; assumption), simp add: pending_apply_def pending_none_def put_if_def)

lemma group_pending_diff_InrE:
  assumes "group_pending_diff rec l = Inr d"
  obtains m a where "group_muted_until rec = Inr m" "group_archived rec = Inr a"
    "gpp_muted d = (m \<noteq> g_muted_until l)" "gpp_archived d = (a \<noteq> g_archived l)"
  using assms unfolding group_pending_diff_def by (auto elim!: res_bind_InrE)

interpretation group_pending: pending_publish group_pending_diff group_pending_apply group_pending_none "\<lambda>_. 100"
proof unfold_locales
  fix rec rec' :: bytes and l d
  assume d: "group_pending_diff rec l = Inr d" and n: "length rec + 100 < 2 ^ 64"
  from d obtain m a where g: "group_muted_until rec = Inr m" "group_archived rec = Inr a"
    "gpp_muted d = (m \<noteq> g_muted_until l)" "gpp_archived d = (a \<noteq> g_archived l)"
    by (rule group_pending_diff_InrE)
  have l0: "length rec + 40 < 2 ^ 64" using n by simp
  from group_muted.put_if_total [OF g(1)] obtain f1 where f1:
    "put_if set_group_muted_until (gpp_muted d) rec (g_muted_until l) = Inr f1" by blast
  have l1: "length f1 + 40 < 2 ^ 64" using group_muted.put_if_length [OF f1 l0] n by simp
  have a1: "group_archived f1 = Inr a" using group_muted_archived.put_if_frame_b [OF f1 l0] g(2) by simp
  from group_archived.put_if_total [OF this] f1 show "\<exists>rec'. group_pending_apply d rec l = Inr rec'"
    by (simp add: group_pending_apply_def)
  assume "group_pending_apply d rec l = Inr rec'"
  with f1 have e2: "put_if set_group_archived (gpp_archived d) f1 (g_archived l) = Inr rec'"
    by (simp add: group_pending_apply_def)
  have "group_archived rec' = Inr (g_archived l)"
    using group_archived.put_if_get [OF e2 l1] a1 g(4) by auto
  moreover have "group_muted_until rec' = Inr (g_muted_until l)"
    using group_muted.put_if_get [OF f1 l0] group_muted_archived.put_if_frame_a [OF e2 l1] g by auto
  ultimately show "group_pending_diff rec' l = Inr group_pending_none"
    by (simp add: group_pending_diff_def group_pending_none_def)
qed (simp add: group_pending_apply_def group_pending_none_def put_if_def)

lemma set_nts_keeps_keep_muted:
  assumes "put_if set_account_note_to_self_archived c rec b = Inr rec'" "length rec + 40 < 2 ^ 64"
  shows "account_keep_muted_chats_archived rec' = account_keep_muted_chats_archived rec"
proof (cases c)
  case True
  have ne: "(STORAGE_RECORD_ACCOUNT, ACCOUNT_RECORD_KEEP_MUTED_CHATS_ARCHIVED) \<noteq>
      (STORAGE_RECORD_ACCOUNT, ACCOUNT_RECORD_NOTE_TO_SELF_ARCHIVED)"
    by (simp add: ACCOUNT_RECORD_KEEP_MUTED_CHATS_ARCHIVED_def ACCOUNT_RECORD_NOTE_TO_SELF_ARCHIVED_def)
  from True assms(1) bool_varint_frames(2) [OF _ _ assms(2) ne] show ?thesis
    by (simp add: put_if_def account_keep_muted_chats_archived_def set_account_note_to_self_archived_def
        STORAGE_RECORD_ACCOUNT_def ACCOUNT_RECORD_NOTE_TO_SELF_ARCHIVED_def)
qed (use assms in \<open>simp add: put_if_def\<close>)

lemma account_from_record_InrE:
  assumes "account_from_record rec = Inr st"
  obtains n k p where "account_note_to_self_archived rec = Inr n"
    "account_keep_muted_chats_archived rec = Inr k" "account_pinned_conversations rec = Inr p"
    "st = \<lparr>note_to_self_archived = n, keep_muted_chats_archived = k, pinned = p\<rparr>"
  using assms unfolding account_from_record_def by (auto elim!: res_bind_InrE)

interpretation account_pending: pending_publish account_pending_diff account_pending_apply
  account_pending_none "\<lambda>l. 100 + pins_cost (pinned l)"
proof unfold_locales
  fix rec rec' :: bytes and l d
  assume d: "account_pending_diff rec l = Inr d" and n: "length rec + (100 + pins_cost (pinned l)) < 2 ^ 64"
  from d obtain nts k p where g: "account_note_to_self_archived rec = Inr nts"
    "account_keep_muted_chats_archived rec = Inr k" "account_pinned_conversations rec = Inr p"
    "app_note_to_self_archived d = (nts \<noteq> note_to_self_archived l)" "app_pinned d = (p \<noteq> pinned l)"
    by (auto simp: account_pending_diff_def account_pending_between_def
        elim!: res_bind_InrE account_from_record_InrE)
  have l0: "length rec + 40 < 2 ^ 64" using n by simp
  from note_to_self.put_if_total [OF g(1)] obtain f1 where f1:
    "put_if set_account_note_to_self_archived (app_note_to_self_archived d) rec (note_to_self_archived l) = Inr f1"
    by blast
  have l1: "length f1 + pins_cost (pinned l) < 2 ^ 64" using note_to_self.put_if_length [OF f1 l0] n by simp
  have p1: "account_pinned_conversations f1 = Inr p"
    using note_to_self_pins.put_if_frame_b [OF f1 l0] g(3) by simp
  from account_pins.put_if_total [OF this] f1 show "\<exists>rec'. account_pending_apply d rec l = Inr rec'"
    by (simp add: account_pending_apply_def)
  assume "account_pending_apply d rec l = Inr rec'"
  with f1 have e2: "put_if set_account_pinned_conversations (app_pinned d) f1 (pinned l) = Inr rec'"
    by (simp add: account_pending_apply_def)
  have "account_pinned_conversations rec' = Inr (pinned l)"
    using account_pins.put_if_get [OF e2 l1] p1 g(5) by auto
  moreover have "account_note_to_self_archived rec' = Inr (note_to_self_archived l)"
    using note_to_self.put_if_get [OF f1 l0] note_to_self_pins.put_if_frame_a [OF e2 l1] g by auto
  moreover have "account_keep_muted_chats_archived rec' = Inr k"
  proof -
    have "account_keep_muted_chats_archived rec' = account_keep_muted_chats_archived f1"
    proof (cases "app_pinned d")
      case True
      with e2 have "set_account_pinned_conversations f1 (pinned l) = Inr rec'" by (simp add: put_if_def)
      from pins_frame_varint [OF this l1, of STORAGE_RECORD_ACCOUNT ACCOUNT_RECORD_KEEP_MUTED_CHATS_ARCHIVED]
      show ?thesis
        by (simp add: account_keep_muted_chats_archived_def record_bool_field_def
            ACCOUNT_RECORD_KEEP_MUTED_CHATS_ARCHIVED_def ACCOUNT_RECORD_PINNED_CONVERSATIONS_def)
    qed (use e2 in \<open>simp add: put_if_def\<close>)
    with set_nts_keeps_keep_muted [OF f1 l0] g(2) show ?thesis by simp
  qed
  ultimately show "account_pending_diff rec' l = Inr account_pending_none"
    by (simp add: account_pending_diff_def account_from_record_def account_pending_between_def
        account_pending_none_def)
qed (simp add: account_pending_apply_def account_pending_none_def put_if_def)

section \<open>Merging a contact\<close>

lemma fst_restore: "fst (restore field cond upd s) = (if cond (fst s) then upd (fst s) else fst s)"
  by (simp add: restore_def split: prod.split)

text \<open>A restored field as one unconditional update, so that selectors pass through the chain.\<close>

lemma restore_updates:
  "fst (restore n P (\<lambda>c. c\<lparr>c_name := x0\<rparr>) s) = (fst s)\<lparr>c_name := if P (fst s) then x0 else c_name (fst s)\<rparr>"
  "fst (restore n P (\<lambda>c. c\<lparr>c_profile_key := x1\<rparr>) s) = (fst s)\<lparr>c_profile_key := if P (fst s) then x1 else c_profile_key (fst s)\<rparr>"
  "fst (restore n P (\<lambda>c. c\<lparr>c_phone_number := x2\<rparr>) s) = (fst s)\<lparr>c_phone_number := if P (fst s) then x2 else c_phone_number (fst s)\<rparr>"
  "fst (restore n P (\<lambda>c. c\<lparr>c_pni := x3\<rparr>) s) = (fst s)\<lparr>c_pni := if P (fst s) then x3 else c_pni (fst s)\<rparr>"
  "fst (restore n P (\<lambda>c. c\<lparr>c_username := x4\<rparr>) s) = (fst s)\<lparr>c_username := if P (fst s) then x4 else c_username (fst s)\<rparr>"
  "fst (restore n P (\<lambda>c. c\<lparr>c_blocked := x5\<rparr>) s) = (fst s)\<lparr>c_blocked := if P (fst s) then x5 else c_blocked (fst s)\<rparr>"
  "fst (restore n P (\<lambda>c. c\<lparr>c_muted_until := x6\<rparr>) s) = (fst s)\<lparr>c_muted_until := if P (fst s) then x6 else c_muted_until (fst s)\<rparr>"
  "fst (restore n P (\<lambda>c. c\<lparr>c_archived := x7\<rparr>) s) = (fst s)\<lparr>c_archived := if P (fst s) then x7 else c_archived (fst s)\<rparr>"
  for s :: "contact \<times> string list"
  by (simp_all add: fst_restore)

lemma merge_contact_fields:
  fixes c e :: contact and p :: pending_publish
  defines "m \<equiv> fst (merge_contact_from_snapshot c e p)"
  shows "c_blocked m = (if pp_blocked p then c_blocked e else c_blocked c)"
    "c_muted_until m = (if pp_muted p then c_muted_until e else c_muted_until c)"
    "c_archived m = (if pp_archived p then c_archived e else c_archived c)"
    "c_name m = (if c_name c = [] then c_name e else c_name c)"
    "c_profile_key m = (if c_profile_key c = [] then c_profile_key e else c_profile_key c)"
    "c_phone_number m = (if c_phone_number c = None then c_phone_number e else c_phone_number c)"
    "c_pni m = (if c_pni c = None then c_pni e else c_pni c)"
    "c_username m = (if c_username c = None then c_username e else c_username c)"
    "c_expire_timer m = c_expire_timer e" "c_expire_timer_version m = c_expire_timer_version e"
    "c_inbox_position m = c_inbox_position e" "c_avatar m = c_avatar e" "c_verified m = c_verified e"
    "c_uuid m = c_uuid c" "c_whitelisted m = c_whitelisted c" "c_note m = c_note c"
  unfolding m_def merge_contact_from_snapshot_def Let_def restore_updates fst_conv by simp_all

section \<open>Properties\<close>

text \<open>C0. Publishing a contact settles it: the fields on which the row and the account's record
  disagree can always be written into the record when they can be read, afterwards nothing
  disagrees, and a second publish would write nothing.\<close>

theorem contact_publish_settles:
  assumes "pending_diff rec l = Inr d" "length rec + 200 < 2 ^ 64"
  shows "\<exists>rec'. pending_apply d rec l = Inr rec' \<and> pending_diff rec' l = Inr pending_none \<and>
    \<not> pending_any pending_none \<and> pending_apply pending_none rec' l = Inr rec'"
proof -
  from contact_pending.apply_total [OF assms] obtain rec' where r: "pending_apply d rec l = Inr rec'" by blast
  with contact_pending.apply_settles [OF assms(1) r assms(2)] contact_pending.apply_none show ?thesis
    by (simp add: pending_any_def)
qed

lemma contact_publish_settles_witness:
  "\<exists>rec'. pending_apply \<lparr>pp_blocked = True, pp_muted = True, pp_archived = False\<rparr> [10, 0]
     ((contact_minimal (sample_uuid 1))\<lparr>c_blocked := True, c_muted_until := 5\<rparr>) = Inr rec' \<and>
   pending_diff rec' ((contact_minimal (sample_uuid 1))\<lparr>c_blocked := True, c_muted_until := 5\<rparr>) = Inr pending_none"
proof -
  let ?l = "(contact_minimal (sample_uuid 1))\<lparr>c_blocked := True, c_muted_until := 5\<rparr>"
  have b: "contact_blocked [10, 0] = Inr False" "contact_muted_until [10, 0] = Inr 0" "contact_archived [10, 0] = Inr False"
    by code_simp+
  have "pending_diff [10, 0] ?l = Inr \<lparr>pp_blocked = True, pp_muted = True, pp_archived = False\<rparr>"
    by (simp add: pending_diff_def b contact_minimal_def contact_from_synced_def)
  from contact_publish_settles [OF this] show ?thesis by auto
qed

text \<open>C5. No lost update between two devices. A sync merges the account's record into the row
  under the bitmap of this device's unpublished edits, and the publish that follows writes
  the difference back. Whatever the three publishable fields were on either side, in the end
  the row and the record agree, and each field has this device's value if it was edited here
  and the other device's if it was not.\<close>

theorem contact_sync_then_publish:
  fixes rec :: bytes and remote local :: contact and pending :: pending_publish
  defines "row \<equiv> fst (merge_contact_from_snapshot remote local pending)"
  assumes "contact_blocked rec = Inr (c_blocked remote)"
    "contact_muted_until rec = Inr (c_muted_until remote)"
    "contact_archived rec = Inr (c_archived remote)" "length rec + 200 < 2 ^ 64"
  shows "\<exists>d rec'. pending_diff rec row = Inr d \<and> pending_apply d rec row = Inr rec' \<and>
    (pp_blocked d \<longrightarrow> pp_blocked pending) \<and> (pp_muted d \<longrightarrow> pp_muted pending) \<and>
    (pp_archived d \<longrightarrow> pp_archived pending) \<and>
    contact_blocked rec' = Inr (if pp_blocked pending then c_blocked local else c_blocked remote) \<and>
    contact_muted_until rec' = Inr (if pp_muted pending then c_muted_until local else c_muted_until remote) \<and>
    contact_archived rec' = Inr (if pp_archived pending then c_archived local else c_archived remote) \<and>
    c_blocked row = (if pp_blocked pending then c_blocked local else c_blocked remote) \<and>
    c_muted_until row = (if pp_muted pending then c_muted_until local else c_muted_until remote) \<and>
    c_archived row = (if pp_archived pending then c_archived local else c_archived remote)"
proof -
  note f = merge_contact_fields(1-3) [of remote local pending, folded row_def]
  define d where "d = \<lparr>pp_blocked = (c_blocked remote \<noteq> c_blocked row),
    pp_muted = (c_muted_until remote \<noteq> c_muted_until row), pp_archived = (c_archived remote \<noteq> c_archived row)\<rparr>"
  have d: "pending_diff rec row = Inr d" by (simp add: pending_diff_def assms(2-4) d_def)
  from contact_pending.apply_total [OF d assms(5)] obtain rec' where r: "pending_apply d rec row = Inr rec'" by blast
  have w: "contact_blocked rec' = Inr (c_blocked row)" "contact_muted_until rec' = Inr (c_muted_until row)"
    "contact_archived rec' = Inr (c_archived row)"
    by (rule contact_applied [OF r assms(5)]; use assms(2-4) d_def in auto)+
  show ?thesis by (rule exI [of _ d], rule exI [of _ rec']) (use d r w f in \<open>auto simp: d_def\<close>)
qed

lemma contact_sync_then_publish_witness:
  "\<exists>rec'. contact_blocked rec' = Inr True \<and> contact_muted_until rec' = Inr 9"
proof -
  let ?r = "(contact_minimal (sample_uuid 1))\<lparr>c_muted_until := 9\<rparr>"
  let ?l = "(contact_minimal (sample_uuid 1))\<lparr>c_blocked := True\<rparr>"
  have b: "contact_blocked [10, 2, 104, 9] = Inr False" "contact_muted_until [10, 2, 104, 9] = Inr 9"
    "contact_archived [10, 2, 104, 9] = Inr False"
    by code_simp+
  have m: "c_blocked ?r = False" "c_archived ?r = False" "c_muted_until ?r = 9" "c_blocked ?l = True"
    by (simp_all add: contact_minimal_def contact_from_synced_def)
  show ?thesis
    using contact_sync_then_publish [of "[10, 2, 104, 9]" ?r ?l "\<lparr>pp_blocked = True, pp_muted = False, pp_archived = False\<rparr>"]
    by (auto simp: b m)
qed

text \<open>A snapshot that knows nothing takes nothing: merging never replaces a known name,
  profile key, phone number, PNI or username by an empty one, a non-empty remote value wins,
  the fields no snapshot carries (timer and its version, position, avatar, verification)
  stay the local ones, and every other field is the snapshot's.\<close>

theorem merge_contact_keeps_known:
  fixes remote local :: contact and pending :: pending_publish
  defines "m \<equiv> fst (merge_contact_from_snapshot remote local pending)"
  shows "c_name m = (if c_name remote = [] then c_name local else c_name remote) \<and>
    c_profile_key m = (if c_profile_key remote = [] then c_profile_key local else c_profile_key remote) \<and>
    c_phone_number m = (if c_phone_number remote = None then c_phone_number local else c_phone_number remote) \<and>
    c_pni m = (if c_pni remote = None then c_pni local else c_pni remote) \<and>
    c_username m = (if c_username remote = None then c_username local else c_username remote) \<and>
    c_expire_timer m = c_expire_timer local \<and> c_expire_timer_version m = c_expire_timer_version local \<and>
    c_inbox_position m = c_inbox_position local \<and> c_avatar m = c_avatar local \<and>
    c_verified m = c_verified local \<and>
    c_uuid m = c_uuid remote \<and> c_whitelisted m = c_whitelisted remote \<and> c_note m = c_note remote"
  using merge_contact_fields [of remote local pending, folded m_def] by simp

text \<open>The same for a group: mute and archive survive while they are unpublished and are
  otherwise the record's, the flags the record owns are always the record's, nothing the
  record does not carry changes, and one publish makes record and row agree.\<close>

theorem group_sync_then_publish:
  fixes rec :: bytes and remote :: group_record and local :: group and pending :: group_pending_publish
  defines "row \<equiv> merge_group_from_snapshot local remote pending"
  assumes "group_muted_until rec = Inr (gr_muted_until remote)"
    "group_archived rec = Inr (gr_archived remote)" "length rec + 100 < 2 ^ 64"
  shows "\<exists>d rec'. group_pending_diff rec row = Inr d \<and> group_pending_apply d rec row = Inr rec' \<and>
    group_pending_diff rec' row = Inr group_pending_none \<and>
    (gpp_muted d \<longrightarrow> gpp_muted pending) \<and> (gpp_archived d \<longrightarrow> gpp_archived pending) \<and>
    g_muted_until row = (if gpp_muted pending then g_muted_until local else gr_muted_until remote) \<and>
    g_archived row = (if gpp_archived pending then g_archived local else gr_archived remote) \<and>
    g_blocked row = gr_blocked remote \<and> g_whitelisted row = gr_whitelisted remote \<and>
    g_title row = g_title local \<and> g_members row = g_members local \<and>
    g_revision row = g_revision local \<and> g_timer row = g_timer local"
proof -
  define d where "d = \<lparr>gpp_muted = (gr_muted_until remote \<noteq> g_muted_until row),
    gpp_archived = (gr_archived remote \<noteq> g_archived row)\<rparr>"
  have d: "group_pending_diff rec row = Inr d" by (simp add: group_pending_diff_def assms(2,3) d_def)
  from group_pending.apply_total [OF d assms(4)] obtain rec' where r: "group_pending_apply d rec row = Inr rec'"
    by blast
  with d group_pending.apply_settles [OF d r assms(4)] show ?thesis
    by (intro exI [of _ d] exI [of _ rec']) (simp add: d_def row_def merge_group_from_snapshot_def)
qed

definition sample_group :: group where
  "sample_group = (group_from \<lparr>sg_title = ''Team'', sg_avatar = [], sg_timer = None, sg_access_control = None,
     sg_version = 4, sg_members = [], sg_pending = [], sg_requesting = [], sg_invite_link_password = [],
     sg_description = None, sg_announcements_only = False\<rparr>)\<lparr>g_muted_until := 7\<rparr>"

definition sample_group_row :: group where
  "sample_group_row = merge_group_from_snapshot sample_group
     (group_to_new_storage_record (sample_group\<lparr>g_archived := True, g_muted_until := 0\<rparr>) (sample_key32 1))
     \<lparr>gpp_muted = True, gpp_archived = False\<rparr>"

lemma group_sync_then_publish_witness:
  "\<exists>d rec'. group_pending_apply d [26, 2, 32, 1] sample_group_row = Inr rec' \<and>
     group_pending_diff rec' sample_group_row = Inr group_pending_none \<and>
     g_muted_until sample_group_row = 7 \<and> g_archived sample_group_row"
proof -
  let ?r = "group_to_new_storage_record (sample_group\<lparr>g_archived := True, g_muted_until := 0\<rparr>) (sample_key32 1)"
  have b: "group_muted_until [26, 2, 32, 1] = Inr 0" "group_archived [26, 2, 32, 1] = Inr True" by code_simp+
  have r: "gr_muted_until ?r = 0" "gr_archived ?r = True" "g_muted_until sample_group = 7"
    by (simp_all add: group_to_new_storage_record_def sample_group_def)
  show ?thesis
    using group_sync_then_publish [of "[26, 2, 32, 1]" ?r sample_group "\<lparr>gpp_muted = True, gpp_archived = False\<rparr>"]
    unfolding sample_group_row_def [symmetric] by (auto simp: b r)
qed

text \<open>The account's chat state: a merge keeps an unpublished pin list or Note-to-Self
  archive and takes the rest from the record; keep-muted-archived is always the record's.
  The publish that follows settles the record and leaves keep-muted-archived in it alone.\<close>

theorem account_sync_then_publish:
  fixes rec :: bytes and remote local :: account_chat_state and pending :: account_pending_publish
  defines "row \<equiv> merge_account_from_snapshot local remote pending"
  assumes "account_from_record rec = Inr remote" "length rec + (100 + pins_cost (pinned row)) < 2 ^ 64"
  shows "\<exists>d rec'. account_pending_diff rec row = Inr d \<and> account_pending_apply d rec row = Inr rec' \<and>
    account_pending_diff rec' row = Inr account_pending_none \<and>
    (app_pinned d \<longrightarrow> app_pinned pending) \<and>
    (app_note_to_self_archived d \<longrightarrow> app_note_to_self_archived pending) \<and>
    pinned row = (if app_pinned pending then pinned local else pinned remote) \<and>
    note_to_self_archived row = (if app_note_to_self_archived pending
      then note_to_self_archived local else note_to_self_archived remote) \<and>
    keep_muted_chats_archived row = keep_muted_chats_archived remote"
proof -
  define d where "d = account_pending_between remote row"
  have d: "account_pending_diff rec row = Inr d" by (simp add: account_pending_diff_def assms(2) d_def)
  from account_pending.apply_total [OF d assms(3)] obtain rec' where
    r: "account_pending_apply d rec row = Inr rec'" by blast
  with d account_pending.apply_settles [OF d r assms(3)] show ?thesis
    by (intro exI [of _ d] exI [of _ rec'])
       (simp add: d_def row_def merge_account_from_snapshot_def account_pending_between_def)
qed

lemma account_sync_then_publish_witness:
  "\<exists>rec'. account_pending_diff rec'
     \<lparr>note_to_self_archived = True, keep_muted_chats_archived = False, pinned = [[7]]\<rparr> = Inr account_pending_none"
proof -
  let ?remote = "\<lparr>note_to_self_archived = True, keep_muted_chats_archived = False, pinned = []\<rparr>"
  let ?local = "account_chat_state_default\<lparr>pinned := [[7]]\<rparr>"
  have "account_from_record [34, 2, 40, 1] = Inr ?remote" by code_simp
  from account_sync_then_publish [OF this, of ?local "\<lparr>app_note_to_self_archived = False, app_pinned = True\<rparr>"]
  show ?thesis
    by (auto simp: merge_account_from_snapshot_def account_chat_state_default_def pins_cost_def)
qed

lemma pinned_threads_adopt:
  "codec_ok C \<Longrightarrow>
   set (pinned_threads C (fold (pin C) ts st)) = set (pinned_threads C st) \<union> set ts \<and>
   (\<exists>new. pinned (fold (pin C) ts st) = pinned st @ new) \<and>
   (distinct (pinned_threads C st) \<longrightarrow> distinct (pinned_threads C (fold (pin C) ts st))) \<and>
   note_to_self_archived (fold (pin C) ts st) = note_to_self_archived st \<and>
   keep_muted_chats_archived (fold (pin C) ts st) = keep_muted_chats_archived st"
proof (induction ts arbitrary: st)
  case (Cons t ts)
  have "\<exists>new. pinned (pin C t st) = pinned st @ new" by (simp add: pin_def)
  with Cons.IH [OF Cons.prems, of "pin C t st"] Cons.prems show ?case
    by (auto simp: pinned_threads_pin)
qed simp

text \<open>C31. The first account record a device reads is adopted: the account's own pins come first,
  byte for byte and in order, the chats pinned here before are pinned after them and only
  once, and nothing else of the local state survives.\<close>

theorem adopt_first_keeps_both:
  assumes "codec_ok C"
  shows "set (pinned_threads C (adopt_first_account_record C local remote)) =
      set (pinned_threads C remote) \<union> set (pinned_threads C local) \<and>
    (\<exists>new. pinned (adopt_first_account_record C local remote) = pinned remote @ new) \<and>
    (distinct (pinned_threads C remote) \<longrightarrow>
       distinct (pinned_threads C (adopt_first_account_record C local remote))) \<and>
    note_to_self_archived (adopt_first_account_record C local remote) = note_to_self_archived remote \<and>
    keep_muted_chats_archived (adopt_first_account_record C local remote) = keep_muted_chats_archived remote"
  using pinned_threads_adopt [OF assms, of "pinned_threads C local" remote]
  by (simp add: adopt_first_account_record_def)

lemma adopt_first_keeps_both_witness:
  "pinned_threads sample_codec (adopt_first_account_record sample_codec account_chat_state_default
     (pin sample_codec (GroupThread (sample_key32 2)) account_chat_state_default)) = [GroupThread (sample_key32 2)]"
proof -
  let ?r = "pin sample_codec (GroupThread (sample_key32 2)) account_chat_state_default"
  have "pinned_threads sample_codec ?r = [GroupThread (sample_key32 2)]"
    by (simp add: pinned_threads_pin [OF sample_codec_ok]) (simp add: pinned_threads_def account_chat_state_default_def)
  moreover have "pinned_threads sample_codec account_chat_state_default = []"
    by (simp add: pinned_threads_def account_chat_state_default_def)
  ultimately show ?thesis
    using adopt_first_keeps_both [OF sample_codec_ok, of account_chat_state_default ?r]
    by (auto simp: adopt_first_account_record_def)
qed

section \<open>Chat-folder tombstones\<close>

lemma earliest_deletion_cases:
  "earliest_deletion a b = (if a = 0 then b else if b = 0 then a else min a b)"
  by (simp add: earliest_deletion_def min.commute)

lemma tombstone_sel [simp]:
  "cf_deleted_at (tombstone t f) = t" "cf_id (tombstone t f) = cf_id f" "cf_type (tombstone t f) = cf_type f"
  "cf_name (tombstone t f) = cf_name f" "cf_position (tombstone t f) = CHAT_FOLDER_DELETED_POSITION"
  by (simp_all add: tombstone_def)

text \<open>C15. A folder's deletion is final: merging a record into a row this device has not edited
  can never bring a deleted custom folder back, on whichever side it was deleted, and the
  deletion time can only move earlier; the all-chats folder is never deleted by a record;
  an edited row is left as it is; and merging the same record again changes nothing.\<close>

theorem chat_folder_merge_spec:
  "merge_chat_folder_from_snapshot local remote True = None \<and>
   (cf_type remote = AllFolder \<longrightarrow>
      (\<forall>m. merge_chat_folder_from_snapshot local remote False = Some m \<longrightarrow> is_live m \<and> cf_id m = cf_id remote)) \<and>
   (cf_type remote \<noteq> AllFolder \<longrightarrow>
      merge_chat_folder_from_snapshot None remote False = (if is_live remote then Some remote else None) \<and>
      (\<forall>l. \<exists>m. merge_chat_folder_from_snapshot (Some l) remote False = Some m \<and>
        (is_live m \<longleftrightarrow> is_live l \<and> is_live remote) \<and>
        (\<not> is_live l \<longrightarrow> cf_deleted_at m \<le> cf_deleted_at l) \<and>
        (\<not> is_live remote \<longrightarrow> cf_deleted_at m \<le> cf_deleted_at remote) \<and>
        (is_live m \<longrightarrow> m = remote) \<and>
        merge_chat_folder_from_snapshot (Some m) remote False = Some m))"
proof (intro conjI impI allI)
  show "merge_chat_folder_from_snapshot local remote True = None"
    by (simp add: merge_chat_folder_from_snapshot_def)
next
  fix m assume "cf_type remote = AllFolder" "merge_chat_folder_from_snapshot local remote False = Some m"
  then show "is_live m" "cf_id m = cf_id remote"
    by (auto simp: merge_chat_folder_from_snapshot_def is_live_def all_chats_def split: option.splits if_splits)
next
  assume "cf_type remote \<noteq> AllFolder"
  then show "merge_chat_folder_from_snapshot None remote False = (if is_live remote then Some remote else None)"
    by (simp add: merge_chat_folder_from_snapshot_def is_live_def)
next
  fix l :: chat_folder assume t: "cf_type remote \<noteq> AllFolder"
  let ?d = "earliest_deletion (cf_deleted_at l) (cf_deleted_at remote)"
  let ?m = "if ?d \<noteq> 0 then tombstone ?d remote else remote"
  have m: "merge_chat_folder_from_snapshot (Some l) remote False = Some ?m"
    using t by (simp add: merge_chat_folder_from_snapshot_def Let_def)
  have zero: "?d = 0 \<longleftrightarrow> cf_deleted_at l = 0 \<and> cf_deleted_at remote = 0"
    by (auto simp: earliest_deletion_cases min_def)
  have le: "cf_deleted_at l \<noteq> 0 \<Longrightarrow> ?d \<le> cf_deleted_at l" "cf_deleted_at remote \<noteq> 0 \<Longrightarrow> ?d \<le> cf_deleted_at remote"
    by (auto simp: earliest_deletion_cases)
  have again: "earliest_deletion ?d (cf_deleted_at remote) = ?d"
    by (auto simp: earliest_deletion_cases min_def)
  have "merge_chat_folder_from_snapshot (Some ?m) remote False = Some ?m"
    using t zero again by (simp add: merge_chat_folder_from_snapshot_def Let_def earliest_deletion_cases)
  then show "\<exists>m. merge_chat_folder_from_snapshot (Some l) remote False = Some m \<and>
        (is_live m \<longleftrightarrow> is_live l \<and> is_live remote) \<and>
        (\<not> is_live l \<longrightarrow> cf_deleted_at m \<le> cf_deleted_at l) \<and>
        (\<not> is_live remote \<longrightarrow> cf_deleted_at m \<le> cf_deleted_at remote) \<and>
        (is_live m \<longrightarrow> m = remote) \<and>
        merge_chat_folder_from_snapshot (Some m) remote False = Some m"
    using m zero le by (intro exI [of _ ?m]; cases "?d = 0") (auto simp: is_live_def)
qed

lemma chat_folder_merge_spec_witness:
  "\<exists>m. merge_chat_folder_from_snapshot (Some (tombstone 5 (custom_folder (sample_uuid 1) ''a'')))
      (tombstone 9 (custom_folder (sample_uuid 1) ''a'')) False = Some m \<and> cf_deleted_at m \<le> 5 \<and> \<not> is_live m"
proof -
  let ?l = "tombstone 5 (custom_folder (sample_uuid 1) ''a'')" and ?r = "tombstone 9 (custom_folder (sample_uuid 1) ''a'')"
  have t: "cf_type ?r \<noteq> AllFolder" by (simp add: custom_folder_def)
  from chat_folder_merge_spec [of None ?r] t show ?thesis
    by (auto simp: is_live_def dest!: spec [of _ ?l])
qed

text \<open>C34. When a tombstone leaves the manifest: thirty days after the deletion and not before,
  for every deletion time whose sum with the thirty days fits in 64 bits; a live folder
  never expires, and the time the code gives a dropped duplicate is expired from the first
  month of 1970 on.\<close>

theorem tombstone_expiry:
  "(unat (cf_deleted_at f) + 2592000000 < 2 ^ 64 \<longrightarrow>
     chat_folder_tombstone_expired f now =
       (\<not> is_live f \<and> unat (cf_deleted_at f) + 2592000000 < unat now)) \<and>
   (is_live f \<longrightarrow> \<not> chat_folder_tombstone_expired f now) \<and>
   (2592000001 < now \<longrightarrow> chat_folder_tombstone_expired (tombstone 1 f) now)"
proof (intro conjI impI)
  assume "unat (cf_deleted_at f) + 2592000000 < 2 ^ 64"
  then have "unat (cf_deleted_at f + CHAT_FOLDER_TOMBSTONE_TTL_MS) = unat (cf_deleted_at f) + 2592000000"
    by (simp add: CHAT_FOLDER_TOMBSTONE_TTL_MS_def unat_word_ariths)
  then show "chat_folder_tombstone_expired f now =
       (\<not> is_live f \<and> unat (cf_deleted_at f) + 2592000000 < unat now)"
    by (simp add: chat_folder_tombstone_expired_def is_live_def word_less_nat_alt)
next
  assume "is_live f" then show "\<not> chat_folder_tombstone_expired f now"
    by (simp add: chat_folder_tombstone_expired_def is_live_def)
next
  assume "2592000001 < now" then show "chat_folder_tombstone_expired (tombstone 1 f) now"
    by (simp add: chat_folder_tombstone_expired_def CHAT_FOLDER_TOMBSTONE_TTL_MS_def)
qed

lemma tombstone_expiry_witness:
  "chat_folder_tombstone_expired (tombstone 1000 (all_chats (sample_uuid 1))) 2592001001 \<and>
   \<not> chat_folder_tombstone_expired (tombstone 1000 (all_chats (sample_uuid 1))) 2592001000"
  using tombstone_expiry [of "tombstone 1000 (all_chats (sample_uuid 1))" 2592001001]
    tombstone_expiry [of "tombstone 1000 (all_chats (sample_uuid 1))" 2592001000]
  by (simp add: is_live_def)

text \<open>Outside that bound the sum wraps, and a tombstone dated at the very end of time is
  expired already.\<close>

lemma tombstone_expiry_wraps:
  "chat_folder_tombstone_expired (tombstone (- 1) f) 2592000000"
  by (simp add: chat_folder_tombstone_expired_def CHAT_FOLDER_TOMBSTONE_TTL_MS_def)

lemma chat_folder_roundtrip_witness:
  "\<exists>f. chat_folder_try_from sample_codec
      (chat_folder_to_record sample_codec (all_chats (sample_uuid 1))) = Inr f \<and>
    chat_folder_try_from sample_codec (chat_folder_to_record sample_codec f) = Inr f"
proof -
  let ?r = "chat_folder_to_record sample_codec (all_chats (sample_uuid 1))"
  have i: "length (cfr_identifier ?r) = 16"
    by (simp add: chat_folder_to_record_def all_chats_def)
  from chat_folder_roundtrip [OF sample_codec_ok, of ?r] i show ?thesis
    by (cases "chat_folder_try_from sample_codec ?r")
      (auto split: chat_folder_record_error.splits)
qed

end
