(* ===== verification/Io_Rules.thy ===== *)
theory Io_Rules
  imports Prelude
begin

text \<open>
  Hoare rules for the computations of theory Prelude: \<open>triple P m Q E\<close> says that from a state of
  \<open>P\<close> the computation ends in \<open>Q x\<close> if it returns \<open>x\<close> and in \<open>E e\<close> if it fails with \<open>e\<close>. There
  is one rule per combinator, collected in \<open>io_rules\<close>; \<open>keeps\<close> is the special case of an
  invariant.
\<close>

named_theorems io_rules
named_theorems keeps_rules \<open>one introduction rule per combinator and per case\<close>

definition triple ::
  "('s \<Rightarrow> bool) \<Rightarrow> ('s, 'e, 'a) io \<Rightarrow> ('a \<Rightarrow> 's \<Rightarrow> bool) \<Rightarrow> ('e \<Rightarrow> 's \<Rightarrow> bool) \<Rightarrow> bool" where
  "triple P m Q E \<longleftrightarrow>
     (\<forall>s. P s \<longrightarrow> (case m s of (Inr x, s') \<Rightarrow> Q x s' | (Inl e, s') \<Rightarrow> E e s'))"

lemma tripleI:
  "(\<And>s x s'. P s \<Longrightarrow> m s = (Inr x, s') \<Longrightarrow> Q x s') \<Longrightarrow>
   (\<And>s e s'. P s \<Longrightarrow> m s = (Inl e, s') \<Longrightarrow> E e s') \<Longrightarrow> triple P m Q E"
  unfolding triple_def by (auto split: prod.split sum.split)

lemma triple_Inr: "triple P m Q E \<Longrightarrow> P s \<Longrightarrow> m s = (Inr x, s') \<Longrightarrow> Q x s'"
  unfolding triple_def by fastforce

lemma triple_Inl: "triple P m Q E \<Longrightarrow> P s \<Longrightarrow> m s = (Inl e, s') \<Longrightarrow> E e s'"
  unfolding triple_def by fastforce

lemma triple_weaken:
  assumes "triple P m Q E" "\<And>s. P' s \<Longrightarrow> P s" "\<And>x s. Q x s \<Longrightarrow> Q' x s" "\<And>e s. E e s \<Longrightarrow> E' e s"
  shows "triple P' m Q' E'"
  using assms triple_Inr [OF assms(1)] triple_Inl [OF assms(1)] by (intro tripleI) blast+

lemma triple_ok [io_rules]: "triple (Q x) (ok x) Q E"
  by (simp add: triple_def ok_def)

lemma triple_err [io_rules]: "triple (E e) (err e) Q E"
  by (simp add: triple_def err_def)

lemma triple_lift_res [io_rules]:
  "triple (\<lambda>s. case r of Inr x \<Rightarrow> Q x s | Inl e \<Rightarrow> E e s) (lift_res r) Q E"
  by (auto simp: triple_def lift_res_def split: sum.split)

lemma triple_bindE:
  "triple P m R E \<Longrightarrow> (\<And>x. triple (R x) (f x) Q E) \<Longrightarrow> triple P (bindE m f) Q E"
  unfolding triple_def bindE_def by (fastforce split: prod.splits sum.splits)

lemma triple_thenE:
  "triple P m (\<lambda>_. R) E \<Longrightarrow> triple R k Q E \<Longrightarrow> triple P (thenE m k) Q E"
  unfolding thenE_def by (rule triple_bindE)

lemma triple_attempt:
  "triple P m (\<lambda>x. R (Inr x)) (\<lambda>e. R (Inl e)) \<Longrightarrow> (\<And>r. triple (R r) (f r) Q E) \<Longrightarrow>
   triple P (attempt m f) Q E"
  unfolding triple_def attempt_def by (fastforce split: prod.splits sum.splits)

lemma triple_map_err:
  "triple P m Q (\<lambda>e. E (g e)) \<Longrightarrow> triple P (map_err g m) Q E"
  unfolding triple_def map_err_def by (fastforce split: prod.splits sum.splits)

lemma triple_False [simp]: "triple (\<lambda>_. False) m Q E"
  by (simp add: triple_def)

lemma triple_assume: "(C \<Longrightarrow> triple P m Q E) \<Longrightarrow> triple (\<lambda>s. C \<and> P s) m Q E"
  by (auto simp: triple_def)

lemma triple_disj: "triple P m Q E \<Longrightarrow> triple P' m Q E \<Longrightarrow> triple (\<lambda>s. P s \<or> P' s) m Q E"
  by (auto simp: triple_def)

lemma triple_ex: "(\<And>d. triple (A d) m Q E) \<Longrightarrow> triple (\<lambda>s. \<exists>d. A d s) m Q E"
  unfolding triple_def by meson

lemma keeps_triple: "keeps P m \<longleftrightarrow> triple P m (\<lambda>_. P) (\<lambda>_. P)"
  unfolding keeps_def triple_def by (fastforce split: prod.splits sum.splits)

lemma triple_keeps: "keeps P m \<Longrightarrow> triple P m (\<lambda>_. P) (\<lambda>_. P)"
  by (simp add: keeps_triple)

lemma keeps_conj: "keeps P m \<Longrightarrow> keeps Q m \<Longrightarrow> keeps (\<lambda>s. P s \<and> Q s) m"
  by (simp add: keeps_def)

lemma triple_and_keeps:
  "triple P m Q E \<Longrightarrow> keeps R m \<Longrightarrow>
   triple (\<lambda>s. P s \<and> R s) m (\<lambda>x s. Q x s \<and> R s) (\<lambda>e s. E e s \<and> R s)"
  unfolding triple_def keeps_def by (fastforce split: prod.splits sum.splits)

lemma triple_conj:
  "triple P m Q E \<Longrightarrow> triple P m Q' E' \<Longrightarrow>
   triple P m (\<lambda>x s. Q x s \<and> Q' x s) (\<lambda>e s. E e s \<and> E' e s)"
  unfolding triple_def by (fastforce split: prod.splits sum.splits)

lemma thenE_assoc: "thenE (thenE a b) c = thenE a (thenE b c)"
  by (rule ext) (simp add: io_simps split: prod.split sum.split)

text \<open>The syntax-directed rules for \<open>keeps\<close>.\<close>

lemma keeps_case_option:
  "(\<And>x. z = Some x \<Longrightarrow> keeps P (f x)) \<Longrightarrow> (z = None \<Longrightarrow> keeps P g) \<Longrightarrow>
   keeps P (case z of None \<Rightarrow> g | Some x \<Rightarrow> f x)"
  by (cases z) auto

lemma keeps_case_sum:
  "(\<And>x. z = Inl x \<Longrightarrow> keeps P (f x)) \<Longrightarrow> (\<And>x. z = Inr x \<Longrightarrow> keeps P (g x)) \<Longrightarrow>
   keeps P (case z of Inl x \<Rightarrow> f x | Inr x \<Rightarrow> g x)"
  by (cases z) auto

lemma keeps_case_prod: "(\<And>a b. z = (a, b) \<Longrightarrow> keeps P (f a b)) \<Longrightarrow> keeps P (case z of (a, b) \<Rightarrow> f a b)"
  by (cases z) auto

lemma case_unit_simp [simp]: "case_unit f u = f"
  by (simp split: unit.split)

lemma keeps_case_unit: "keeps P f \<Longrightarrow> keeps P (case_unit f u)"
  by (simp split: unit.split)

lemma keeps_if: "(b \<Longrightarrow> keeps P f) \<Longrightarrow> (\<not> b \<Longrightarrow> keeps P g) \<Longrightarrow> keeps P (if b then f else g)"
  by auto

lemmas [keeps_rules] = keeps_case_option keeps_case_sum keeps_case_prod keeps_case_unit keeps_if
  keeps_ok keeps_err keeps_lift_res keeps_attempt keeps_bindE keeps_thenE keeps_ignore keeps_map_err
  keeps_for_each

text \<open>\<open>for\<close> loops: the invariant of a loop that stops at the first error, and of one that does not.\<close>

lemma triple_for_each:
  "(\<And>x. x \<in> set xs \<Longrightarrow> triple P (f x) (\<lambda>_. P) E) \<Longrightarrow> triple P (for_each xs f) (\<lambda>_. P) E"
proof (induction xs)
  case Nil
  show ?case by (simp add: triple_def ok_def)
next
  case (Cons x xs)
  then show ?case by (auto intro: triple_thenE)
qed

lemma triple_for_each_ignore:
  assumes "\<And>x. x \<in> set xs \<Longrightarrow> triple P (f x) (\<lambda>_. P) (\<lambda>_. P)" "P s"
  shows "P (for_each_ignore xs f s)"
  using assms for_each_ignore_keeps [of xs P f s] by (simp add: keeps_triple)

end
