(* ===== verification/Messages.thy ===== *)
theory Messages
  imports Sample_Codec
begin

text \<open>
  The contents of a message as presage matches on them, and what is read straight off them:
  the thread a message belongs to (\<open>TryFrom<&Content> for Thread\<close>) and its original
  timestamp (\<open>ContentExt\<close>), both of \<open>store.rs\<close>, and \<open>ensure_data_message_timestamp\<close> of
  \<open>manager/registered.rs\<close>. The record types list the protobuf fields the code uses; what it
  never looks into is kept as opaque bytes.
\<close>

section \<open>Contents\<close>

record group_context =
  gc_master_key :: "bytes option"
  gc_revision :: "u32 option"
  gc_group_change :: "bytes option"

text \<open>The parts of a message. A range is a mention (by address or by its bytes) or a text style.\<close>

datatype associated_value = MentionAci string | MentionAciBinary bytes | RangeStyle int

record body_range =
  rg_start :: "u32 option"
  rg_length :: "u32 option"
  rg_associated_value :: "associated_value option"

datatype attachment_identifier = CdnId u64 | CdnKey string

record attachment_pointer =
  ap_attachment_identifier :: "attachment_identifier option"
  ap_cdn_number :: "u32 option"
  ap_content_type :: "string option"
  ap_key :: "bytes option"
  ap_size :: "u32 option"
  ap_digest :: "bytes option"
  ap_file_name :: "string option"
  ap_flags :: "u32 option"
  ap_width :: "u32 option"
  ap_height :: "u32 option"
  ap_caption :: "string option"
  ap_blur_hash :: "string option"
  ap_upload_timestamp :: "u64 option"
  ap_incremental_mac :: "bytes option"
  ap_chunk_size :: "u32 option"

datatype quote_type = Quote_Normal | Quote_GiftBadge | Quote_Poll

record message_quote =
  mq_id :: "u64 option"
  mq_author_aci :: "string option"
  mq_author_aci_binary :: "bytes option"
  mq_text :: "string option"
  mq_body_ranges :: "body_range list"
  mq_type :: "quote_type option"

record message_preview =
  mp_url :: "string option"
  mp_title :: "string option"
  mp_image :: "attachment_pointer option"
  mp_description :: "string option"
  mp_date :: "u64 option"

record message_sticker =
  ms_pack_id :: "bytes option"
  ms_pack_key :: "bytes option"
  ms_sticker_id :: "u32 option"
  ms_data :: "attachment_pointer option"
  ms_emoji :: "string option"

record message_reaction =
  mr_emoji :: "string option"
  mr_remove :: "bool option"
  mr_target_author_aci :: "string option"
  mr_target_author_aci_binary :: "bytes option"
  mr_target_sent_timestamp :: "u64 option"

record pin_message =
  pn_target_author_aci_binary :: "bytes option"
  pn_target_sent_timestamp :: "u64 option"
  pn_pin_duration_seconds :: "u32 option"

record data_message =
  dm_body :: "string option"
  dm_body_ranges :: "body_range list"
  dm_attachments :: "attachment_pointer list"
  dm_quote :: "message_quote option"
  dm_preview :: "message_preview list"
  dm_sticker :: "message_sticker option"
  dm_reaction :: "message_reaction option"
  dm_pin_message :: "pin_message option"
  dm_poll_terminate :: "u64 option option"
  dm_flags :: "u32 option"
  dm_group_v2 :: "group_context option"
  dm_profile_key :: "bytes option"
  dm_timestamp :: "u64 option"
  dm_expire_timer :: "u32 option"
  dm_expire_timer_version :: "u32 option"
  dm_delete :: "u64 option option"
  dm_required_protocol_version :: "u32 option"
  dm_rest :: bytes

definition data_message_default :: data_message where
  "data_message_default =
     \<lparr>dm_body = None, dm_body_ranges = [], dm_attachments = [], dm_quote = None, dm_preview = [],
      dm_sticker = None, dm_reaction = None, dm_pin_message = None, dm_poll_terminate = None,
      dm_flags = None, dm_group_v2 = None, dm_profile_key = None, dm_timestamp = None,
      dm_expire_timer = None, dm_expire_timer_version = None, dm_delete = None,
      dm_required_protocol_version = None, dm_rest = []\<rparr>"

lemma data_message_default_sel [simp]:
  "dm_body data_message_default = None"
  "dm_body_ranges data_message_default = []"
  "dm_attachments data_message_default = []"
  "dm_quote data_message_default = None"
  "dm_preview data_message_default = []"
  "dm_sticker data_message_default = None"
  "dm_reaction data_message_default = None"
  "dm_pin_message data_message_default = None"
  "dm_poll_terminate data_message_default = None"
  "dm_flags data_message_default = None"
  "dm_group_v2 data_message_default = None"
  "dm_profile_key data_message_default = None"
  "dm_timestamp data_message_default = None"
  "dm_expire_timer data_message_default = None"
  "dm_expire_timer_version data_message_default = None"
  "dm_delete data_message_default = None"
  "dm_required_protocol_version data_message_default = None"
  by (simp_all add: data_message_default_def)

record edit_message =
  em_target_sent_timestamp :: "u64 option"
  em_data_message :: "data_message option"

record sent =
  sent_destination_service_id :: "string option"
  sent_destination_service_id_binary :: "bytes option"
  sent_timestamp :: "u64 option"
  sent_message :: "data_message option"
  sent_edit_message :: "edit_message option"

record call_event =
  ce_type :: "int option"
  ce_direction :: "int option"
  ce_event :: "int option"
  ce_call_id :: "u64 option"
  ce_conversation_id :: "bytes option"
  ce_timestamp :: "u64 option"

text \<open>\<open>request.type()\<close> and the operations on sticker packs, whose type \<open>type()\<close> defaults to an install.\<close>

datatype request_type = RequestContacts | RequestKeys | RequestBlocked | RequestOther

datatype sticker_operation_type = StickerInstall | StickerRemove

record sticker_operation =
  so_pack_id :: "bytes option"
  so_pack_key :: "bytes option"
  so_type :: sticker_operation_type

datatype message_request_type = MRR_Accept | MRR_Block

record message_request_response =
  mrr_thread_aci_binary :: "bytes option"
  mrr_type :: "message_request_type option"

text \<open>\<open>SyncMessage\<close>: its one content and the sticker pack operations beside it.\<close>

datatype sync_content =
    SyncSent sent
  | SyncCallEvent call_event
  | SyncDeleteForMe
  | SyncVerified bytes
  | SyncRequest request_type
  | SyncContacts
  | SyncKeys "string option"
  | SyncBlocked "uuid list"
  | SyncMessageRequestResponse message_request_response
  | SyncOther bytes

datatype content_body =
    NullMessage
  | DataMessage data_message
  | SynchronizeMessage "sync_content option" "sticker_operation list"
  | CallMessage
  | ReceiptMessage "int option" "u64 list"
  | TypingMessage
  | DecryptionErrorMessage
  | StoryMessage "group_context option" bytes
  | EditMessage edit_message

record metadata =
  md_sender :: service_id
  md_destination :: service_id
  md_sender_device :: u8
  md_client_timestamp :: u64
  md_server_timestamp :: u64
  md_needs_receipt :: bool
  md_unidentified_sender :: bool
  md_server_guid :: "string option"
  md_was_plaintext :: bool
  md_report_spam_token :: "bytes option"
  md_pni_verified :: "uuid option"

record content =
  ct_metadata :: metadata
  ct_body :: content_body

section \<open>The thread of a message\<close>

datatype thread_error = InvalidServiceId | InvalidGroupMasterKey

text \<open>
  The patterns of \<open>Thread::try_from\<close>, in the order of its arms. \<open>parse_dest\<close> is
  libsignal's \<open>Sent::parse_destination_service_id\<close>.
\<close>

definition context_key :: "group_context option \<Rightarrow> bytes option" where
  "context_key g = (case g of None \<Rightarrow> None | Some c \<Rightarrow> gc_master_key c)"

definition message_key :: "data_message option \<Rightarrow> bytes option" where
  "message_key m = (case m of None \<Rightarrow> None | Some d \<Rightarrow> context_key (dm_group_v2 d))"

definition edit_key :: "edit_message option \<Rightarrow> bytes option" where
  "edit_key e = (case e of None \<Rightarrow> None | Some m \<Rightarrow> message_key (em_data_message m))"

definition body_group_key :: "content_body \<Rightarrow> bytes option" where
  "body_group_key b =
     (case b of
        DataMessage d \<Rightarrow> message_key (Some d)
      | SynchronizeMessage (Some (SyncSent s)) ops \<Rightarrow>
          (case message_key (sent_message s) of
             Some k \<Rightarrow> Some k
           | None \<Rightarrow> edit_key (sent_edit_message s))
      | EditMessage e \<Rightarrow> edit_key (Some e)
      | StoryMessage g _ \<Rightarrow> context_key g
      | _ \<Rightarrow> None)"

definition thread_try_from ::
  "(sent \<Rightarrow> service_id option) \<Rightarrow> content \<Rightarrow> thread_error + thread" where
  "thread_try_from parse_dest c =
     (case ct_body c of
        SynchronizeMessage (Some (SyncSent s)) ops \<Rightarrow>
          if sent_destination_service_id s \<noteq> None \<or> sent_destination_service_id_binary s \<noteq> None
          then res_map ContactThread (ok_or InvalidServiceId (parse_dest s))
          else (case body_group_key (ct_body c) of
                  Some k \<Rightarrow> res_map GroupThread (ok_or InvalidGroupMasterKey (key32_from_slice k))
                | None \<Rightarrow> Inr (ContactThread (md_sender (ct_metadata c))))
      | _ \<Rightarrow>
          (case body_group_key (ct_body c) of
             Some k \<Rightarrow> res_map GroupThread (ok_or InvalidGroupMasterKey (key32_from_slice k))
           | None \<Rightarrow> Inr (ContactThread (md_sender (ct_metadata c)))))"

section \<open>The timestamp of a message\<close>

definition edit_target :: "edit_message option \<Rightarrow> u64 option" where
  "edit_target e = (case e of None \<Rightarrow> None | Some m \<Rightarrow> em_target_sent_timestamp m)"

definition content_timestamp :: "content \<Rightarrow> u64" where
  "content_timestamp c =
     (case ct_body c of
        SynchronizeMessage (Some (SyncSent s)) ops \<Rightarrow>
          (case sent_timestamp s of
             Some ts \<Rightarrow> ts
           | None \<Rightarrow>
               (case edit_target (sent_edit_message s) of
                  Some ts \<Rightarrow> ts
                | None \<Rightarrow> md_client_timestamp (ct_metadata c)))
      | EditMessage e \<Rightarrow>
          (case em_target_sent_timestamp e of
             Some ts \<Rightarrow> ts
           | None \<Rightarrow> md_client_timestamp (ct_metadata c))
      | _ \<Rightarrow> md_client_timestamp (ct_metadata c))"

definition ensure_data_message_timestamp :: "u64 \<Rightarrow> content_body \<Rightarrow> content_body" where
  "ensure_data_message_timestamp ts b =
     (case b of
        DataMessage m \<Rightarrow> DataMessage (m\<lparr>dm_timestamp := Some ts\<rparr>)
      | EditMessage e \<Rightarrow>
          (case em_data_message e of
             Some d \<Rightarrow> EditMessage (e\<lparr>em_data_message := Some (d\<lparr>dm_timestamp := Some ts\<rparr>)\<rparr>)
           | None \<Rightarrow> b)
      | SynchronizeMessage (Some (SyncSent s)) ops \<Rightarrow>
          (case sent_message s of
             Some d \<Rightarrow> SynchronizeMessage (Some (SyncSent
               (s\<lparr>sent_message := Some (d\<lparr>dm_timestamp := Some ts\<rparr>)\<rparr>))) ops
           | None \<Rightarrow> b)
      | _ \<Rightarrow> b)"

section \<open>Properties\<close>

text \<open>C0. Stamping the data message inside a body with its envelope's time changes nothing
  else about where the message goes: its group, its thread and the timestamp it is stored
  under stay the same, and the last stamp wins.\<close>

theorem stamping_keeps_address:
  "body_group_key (ensure_data_message_timestamp ts b) = body_group_key b \<and>
   content_timestamp (c\<lparr>ct_body := ensure_data_message_timestamp ts b\<rparr>) = content_timestamp (c\<lparr>ct_body := b\<rparr>) \<and>
   ensure_data_message_timestamp ts (ensure_data_message_timestamp ts' b) = ensure_data_message_timestamp ts b"
proof (cases b)
  case (DataMessage d)
  then show ?thesis
    by (simp add: ensure_data_message_timestamp_def body_group_key_def content_timestamp_def message_key_def
        split: option.split)
next
  case (SynchronizeMessage m ops)
  show ?thesis
  proof (cases "\<exists>s. m = Some (SyncSent s)")
    case True
    then obtain s where m: "m = Some (SyncSent s)" by blast
    with SynchronizeMessage show ?thesis
      by (cases "sent_message s")
         (simp_all add: ensure_data_message_timestamp_def body_group_key_def content_timestamp_def
            message_key_def split: option.split)
  next
    case False
    with SynchronizeMessage have "ensure_data_message_timestamp t b = b" for t
      by (auto simp: ensure_data_message_timestamp_def split: option.split sync_content.split)
    then show ?thesis by simp
  qed
next
  case (EditMessage e)
  then show ?thesis
    by (cases "em_data_message e")
       (simp_all add: ensure_data_message_timestamp_def body_group_key_def content_timestamp_def
          edit_key_def message_key_def split: option.split)
qed (simp_all add: ensure_data_message_timestamp_def)

text \<open>A message is never filed under a stranger: the thread is the destination our own
  transcript names, the group whose 32-byte key the message carries, or its sender, and the
  sender only when neither applies; a malformed destination or key is an error.\<close>

theorem thread_try_from_sound:
  "case thread_try_from parse_dest c of
     Inr (ContactThread i) \<Rightarrow>
       (\<exists>s ops. ct_body c = SynchronizeMessage (Some (SyncSent s)) ops \<and> parse_dest s = Some i) \<or>
       i = md_sender (ct_metadata c) \<and> body_group_key (ct_body c) = None
   | Inr (GroupThread k) \<Rightarrow> body_group_key (ct_body c) = Some (key32_bytes k)
   | Inl InvalidServiceId \<Rightarrow> \<exists>s ops. ct_body c = SynchronizeMessage (Some (SyncSent s)) ops \<and> parse_dest s = None
   | Inl InvalidGroupMasterKey \<Rightarrow> \<exists>k. body_group_key (ct_body c) = Some k \<and> length k \<noteq> 32"
proof -
  define by_group where "by_group =
    (case body_group_key (ct_body c) of
       Some k \<Rightarrow> res_map GroupThread (ok_or InvalidGroupMasterKey (key32_from_slice k))
     | None \<Rightarrow> Inr (ContactThread (md_sender (ct_metadata c))))"
  have g: "case by_group of
     Inr (ContactThread i) \<Rightarrow> i = md_sender (ct_metadata c) \<and> body_group_key (ct_body c) = None
   | Inr (GroupThread k) \<Rightarrow> body_group_key (ct_body c) = Some (key32_bytes k)
   | Inl InvalidServiceId \<Rightarrow> False
   | Inl InvalidGroupMasterKey \<Rightarrow> \<exists>k. body_group_key (ct_body c) = Some k \<and> length k \<noteq> 32"
  proof (cases "body_group_key (ct_body c)")
    case (Some k)
    then show ?thesis
      by (cases "length k = 32") (simp_all add: by_group_def key32_from_slice_def Abs_key32_inverse)
  qed (simp add: by_group_def)
  consider s ops where "ct_body c = SynchronizeMessage (Some (SyncSent s)) ops"
      "thread_try_from parse_dest c = res_map ContactThread (ok_or InvalidServiceId (parse_dest s))"
    | "thread_try_from parse_dest c = by_group"
  proof (cases "\<exists>s ops. ct_body c = SynchronizeMessage (Some (SyncSent s)) ops")
    case True
    then obtain s ops where s: "ct_body c = SynchronizeMessage (Some (SyncSent s)) ops" by blast
    show ?thesis
    proof (cases "sent_destination_service_id s \<noteq> None \<or> sent_destination_service_id_binary s \<noteq> None")
      case True
      with s that(1) show ?thesis by (simp add: thread_try_from_def)
    next
      case False
      with s that(2) show ?thesis by (simp add: thread_try_from_def by_group_def)
    qed
  next
    case False
    then have "thread_try_from parse_dest c = by_group"
      unfolding thread_try_from_def by_group_def
      by (auto split: content_body.split option.split sync_content.split)
    with that(2) show ?thesis by blast
  qed
  then show ?thesis
  proof cases
    case (1 s)
    then show ?thesis by (cases "parse_dest s") auto
  next
    case 2
    with g show ?thesis by (auto split: sum.splits thread.splits thread_error.splits)
  qed
qed

end
