(* ===== verification/Calls.thy ===== *)
theory Calls
  imports Messages
begin

text \<open>
  \<open>presage/src/model/calls.rs\<close>: the enumerations of a call entry and their stored strings,
  the decoding of a sync \<open>call_event\<close>, the id of a group call from its era, and the state
  machine that merges events into one history entry. Two interfaces: \<open>stored_enum\<close>, kept
  by every enumeration the schema stores as text, and \<open>call_machine\<close>, the contract both
  status machines keep, from which convergence follows for any order of arrival.
\<close>

section \<open>Enumerations and their strings\<close>

datatype call_mode = Mode_Direct | Mode_Group | Mode_Adhoc | Mode_Unknown

fun call_mode_as_str :: "call_mode \<Rightarrow> string" where
  "call_mode_as_str Mode_Direct = ''Direct''"
| "call_mode_as_str Mode_Group = ''Group''"
| "call_mode_as_str Mode_Adhoc = ''Adhoc''"
| "call_mode_as_str Mode_Unknown = ''Unknown''"

definition call_mode_parse :: "string \<Rightarrow> call_mode" where
  "call_mode_parse s =
     (if s = ''Direct'' then Mode_Direct else if s = ''Group'' then Mode_Group
      else if s = ''Adhoc'' then Mode_Adhoc else Mode_Unknown)"

datatype call_type = Type_Audio | Type_Video | Type_Group | Type_Adhoc | Type_Unknown

fun call_type_as_str :: "call_type \<Rightarrow> string" where
  "call_type_as_str Type_Audio = ''Audio''"
| "call_type_as_str Type_Video = ''Video''"
| "call_type_as_str Type_Group = ''Group''"
| "call_type_as_str Type_Adhoc = ''Adhoc''"
| "call_type_as_str Type_Unknown = ''Unknown''"

definition call_type_parse :: "string \<Rightarrow> call_type" where
  "call_type_parse s =
     (if s = ''Audio'' then Type_Audio else if s = ''Video'' then Type_Video
      else if s = ''Group'' then Type_Group else if s = ''Adhoc'' then Type_Adhoc
      else Type_Unknown)"

datatype call_direction = Incoming | Outgoing | Direction_Unknown

fun call_direction_as_str :: "call_direction \<Rightarrow> string" where
  "call_direction_as_str Incoming = ''Incoming''"
| "call_direction_as_str Outgoing = ''Outgoing''"
| "call_direction_as_str Direction_Unknown = ''Unknown''"

definition call_direction_parse :: "string \<Rightarrow> call_direction" where
  "call_direction_parse s =
     (if s = ''Incoming'' then Incoming else if s = ''Outgoing'' then Outgoing
      else Direction_Unknown)"

datatype call_event_kind =
    Event_Accepted | Event_NotAccepted | Event_Delete | Event_Observed | Event_Unknown

datatype direct_call_status =
    D_Pending | D_Accepted | D_Missed | D_Declined | D_Deleted | D_Unknown

fun direct_status_as_str :: "direct_call_status \<Rightarrow> string" where
  "direct_status_as_str D_Pending = ''Pending''"
| "direct_status_as_str D_Accepted = ''Accepted''"
| "direct_status_as_str D_Missed = ''Missed''"
| "direct_status_as_str D_Declined = ''Declined''"
| "direct_status_as_str D_Deleted = ''Deleted''"
| "direct_status_as_str D_Unknown = ''Unknown''"

definition direct_status_parse :: "string \<Rightarrow> direct_call_status" where
  "direct_status_parse s =
     (if s = ''Pending'' then D_Pending else if s = ''Accepted'' then D_Accepted
      else if s = ''Missed'' then D_Missed else if s = ''Declined'' then D_Declined
      else if s = ''Deleted'' then D_Deleted else D_Unknown)"

datatype group_call_status =
    G_Generic | G_OutgoingRing | G_Ringing | G_Joined | G_Accepted | G_Missed | G_Declined
  | G_Deleted | G_Unknown

fun group_status_as_str :: "group_call_status \<Rightarrow> string" where
  "group_status_as_str G_Generic = ''GenericGroupCall''"
| "group_status_as_str G_OutgoingRing = ''OutgoingRing''"
| "group_status_as_str G_Ringing = ''Ringing''"
| "group_status_as_str G_Joined = ''Joined''"
| "group_status_as_str G_Accepted = ''Accepted''"
| "group_status_as_str G_Missed = ''Missed''"
| "group_status_as_str G_Declined = ''Declined''"
| "group_status_as_str G_Deleted = ''Deleted''"
| "group_status_as_str G_Unknown = ''Unknown''"

definition group_status_parse :: "string \<Rightarrow> group_call_status" where
  "group_status_parse s =
     (if s = ''GenericGroupCall'' then G_Generic else if s = ''OutgoingRing'' then G_OutgoingRing
      else if s = ''Ringing'' then G_Ringing else if s = ''Joined'' then G_Joined
      else if s = ''Accepted'' then G_Accepted else if s = ''Missed'' then G_Missed
      else if s = ''Declined'' then G_Declined else if s = ''Deleted'' then G_Deleted
      else G_Unknown)"

datatype call_status = StatusDirect direct_call_status | StatusGroup group_call_status

fun call_status_as_str :: "call_status \<Rightarrow> string" where
  "call_status_as_str (StatusDirect s) = direct_status_as_str s"
| "call_status_as_str (StatusGroup s) = group_status_as_str s"

fun call_status_parse :: "call_mode \<Rightarrow> string \<Rightarrow> call_status" where
  "call_status_parse Mode_Direct s = StatusDirect (direct_status_parse s)"
| "call_status_parse Mode_Group s = StatusGroup (group_status_parse s)"
| "call_status_parse Mode_Adhoc s = StatusDirect D_Unknown"
| "call_status_parse Mode_Unknown s = StatusDirect D_Unknown"

section \<open>Events and entries\<close>

record call_event_info =
  ci_call_id :: u64
  ci_conversation_id :: bytes
  ci_timestamp :: u64
  ci_mode :: call_mode
  ci_type :: call_type
  ci_direction :: call_direction
  ci_event :: call_event_kind

record call_history_entry =
  ch_call_id :: u64
  ch_peer_id :: string
  ch_mode :: call_mode
  ch_type :: call_type
  ch_direction :: call_direction
  ch_status :: call_status
  ch_timestamp :: u64

text \<open>The generated enums of the protocol and their \<open>try_from(i32)\<close>, SHA-256, and the
  printers of UUIDs and bytes, all outside the repository.\<close>

datatype proto_type = P_UnknownType | P_AudioCall | P_VideoCall | P_GroupCall | P_AdHocCall
datatype proto_direction = P_UnknownDirection | P_Incoming | P_Outgoing
datatype proto_event = P_UnknownEvent | P_Accepted | P_NotAccepted | P_Delete | P_Observed | P_OtherEvent

record call_codec =
  type_try_from :: "int \<Rightarrow> proto_type option"
  direction_try_from :: "int \<Rightarrow> proto_direction option"
  event_try_from :: "int \<Rightarrow> proto_event option"
  sha256 :: "bytes \<Rightarrow> bytes"
  uuid_to_string :: "uuid \<Rightarrow> string"
  hex_encode :: "bytes \<Rightarrow> string"

definition call_type_of :: "call_codec \<Rightarrow> call_event \<Rightarrow> call_type" where
  "call_type_of K ce =
     (case type_try_from K (opt_or 0 (ce_type ce)) of
        Some P_AudioCall \<Rightarrow> Type_Audio
      | Some P_VideoCall \<Rightarrow> Type_Video
      | Some P_GroupCall \<Rightarrow> Type_Group
      | Some P_AdHocCall \<Rightarrow> Type_Adhoc
      | _ \<Rightarrow> Type_Unknown)"

fun call_mode_of :: "call_type \<Rightarrow> call_mode" where
  "call_mode_of Type_Audio = Mode_Direct"
| "call_mode_of Type_Video = Mode_Direct"
| "call_mode_of Type_Group = Mode_Group"
| "call_mode_of Type_Adhoc = Mode_Adhoc"
| "call_mode_of Type_Unknown = Mode_Unknown"

definition call_direction_of :: "call_codec \<Rightarrow> call_event \<Rightarrow> call_direction" where
  "call_direction_of K ce =
     (case direction_try_from K (opt_or 0 (ce_direction ce)) of
        Some P_Incoming \<Rightarrow> Incoming
      | Some P_Outgoing \<Rightarrow> Outgoing
      | _ \<Rightarrow> Direction_Unknown)"

definition call_event_kind_of :: "call_codec \<Rightarrow> call_event \<Rightarrow> call_event_kind" where
  "call_event_kind_of K ce =
     (case event_try_from K (opt_or 0 (ce_event ce)) of
        Some P_Accepted \<Rightarrow> Event_Accepted
      | Some P_NotAccepted \<Rightarrow> Event_NotAccepted
      | Some P_Delete \<Rightarrow> Event_Delete
      | Some P_Observed \<Rightarrow> Event_Observed
      | _ \<Rightarrow> Event_Unknown)"

definition extract_call_event :: "call_codec \<Rightarrow> content_body \<Rightarrow> call_event_info option" where
  "extract_call_event K body =
     (case body of
        SynchronizeMessage (Some (SyncCallEvent ce)) _ \<Rightarrow>
          (let ty = call_type_of K ce;
               mode = call_mode_of ty;
               dir = call_direction_of K ce;
               ev = call_event_kind_of K ce
           in case ce_call_id ce of None \<Rightarrow> None | Some cid \<Rightarrow>
              (case ce_conversation_id ce of None \<Rightarrow> None | Some conv \<Rightarrow>
              (case ce_timestamp ce of None \<Rightarrow> None | Some ts \<Rightarrow>
                 Some \<lparr>ci_call_id = cid, ci_conversation_id = conv, ci_timestamp = ts,
                       ci_mode = mode, ci_type = ty, ci_direction = dir, ci_event = ev\<rparr>)))
      | _ \<Rightarrow> None)"

text \<open>\<open>u64::from_str_radix(s, 16)\<close>: an optional plus sign, then at least one digit of either
  case and nothing else. Sixteen digits always fit.\<close>

definition hex_digit :: "char \<Rightarrow> nat option" where
  "hex_digit c =
     (let n = of_char c :: nat in
      if 48 \<le> n \<and> n \<le> 57 then Some (n - 48)
      else if 97 \<le> n \<and> n \<le> 102 then Some (n - 87)
      else if 65 \<le> n \<and> n \<le> 70 then Some (n - 55)
      else None)"

fun hex_digits :: "string \<Rightarrow> nat \<Rightarrow> nat option" where
  "hex_digits [] acc = Some acc"
| "hex_digits (c # cs) acc =
     (case hex_digit c of None \<Rightarrow> None | Some d \<Rightarrow> hex_digits cs (16 * acc + d))"

definition from_str_radix16 :: "string \<Rightarrow> u64 option" where
  "from_str_radix16 s =
     (let digits = (case s of c # cs \<Rightarrow> if c = CHR ''+'' then cs else s | [] \<Rightarrow> s) in
      if digits = [] then None
      else case hex_digits digits 0 of
             None \<Rightarrow> None
           | Some n \<Rightarrow> if n < 2 ^ 64 then Some (of_nat n) else None)"

fun u64_from_le_bytes :: "bytes \<Rightarrow> u64" where
  "u64_from_le_bytes [] = 0"
| "u64_from_le_bytes (b # bs) = ucast b OR push_bit 8 (u64_from_le_bytes bs)"

definition call_id_from_era_id :: "call_codec \<Rightarrow> string \<Rightarrow> u64" where
  "call_id_from_era_id K era_id =
     (case (if length era_id = 16 then from_str_radix16 era_id else None) of
        Some i \<Rightarrow> if i = 0 then - 1 else i
      | None \<Rightarrow> u64_from_le_bytes (take 8 (sha256 K (map char_byte era_id))))"

datatype call_peer = PeerDirect uuid | PeerGroup key32

fun peer_id :: "call_codec \<Rightarrow> call_peer \<Rightarrow> string" where
  "peer_id K (PeerDirect u) = uuid_to_string K u"
| "peer_id K (PeerGroup mk) = hex_encode K (key32_bytes mk)"

fun peer_to_thread :: "call_peer \<Rightarrow> thread" where
  "peer_to_thread (PeerDirect u) = ContactThread (Aci u)"
| "peer_to_thread (PeerGroup mk) = GroupThread mk"

fun peer_from_thread :: "thread \<Rightarrow> call_peer option" where
  "peer_from_thread (ContactThread s) = Some (PeerDirect (raw_uuid s))"
| "peer_from_thread (GroupThread mk) = Some (PeerGroup mk)"

text \<open>\<open>group_by_group_id\<close> is the store's operation of that name.\<close>

definition resolve_group_master_key_from_group_id ::
  "(key32 \<Rightarrow> ('s, 'e, key32 option) io) \<Rightarrow> key32 \<Rightarrow> ('s, 'e, key32 option) io" where
  "resolve_group_master_key_from_group_id group_by_group_id gid = group_by_group_id gid"

definition resolve_call_peer ::
  "(key32 \<Rightarrow> ('s, 'e, key32 option) io) \<Rightarrow> call_event_info \<Rightarrow> ('s, 'e, call_peer option) io" where
  "resolve_call_peer group_by_group_id info =
     (case ci_mode info of
        Mode_Direct \<Rightarrow> ok (map_option PeerDirect (uuid_from_slice (ci_conversation_id info)))
      | Mode_Group \<Rightarrow>
          (case key32_from_slice (ci_conversation_id info) of
             None \<Rightarrow> ok None
           | Some gid \<Rightarrow>
               bindE (resolve_group_master_key_from_group_id group_by_group_id gid)
                 (\<lambda>mk. ok (map_option PeerGroup mk)))
      | Mode_Adhoc \<Rightarrow> ok None
      | Mode_Unknown \<Rightarrow> ok None)"

definition resolve_call_thread ::
  "call_codec \<Rightarrow> (key32 \<Rightarrow> ('s, 'e, key32 option) io) \<Rightarrow> content \<Rightarrow> ('s, 'e, thread option) io" where
  "resolve_call_thread K group_by_group_id c =
     (case extract_call_event K (ct_body c) of
        None \<Rightarrow> ok None
      | Some info \<Rightarrow>
          bindE (resolve_call_peer group_by_group_id info)
            (\<lambda>peer. ok (map_option peer_to_thread peer)))"

section \<open>The state machine\<close>

definition anchored_ts :: "call_history_entry option \<Rightarrow> call_event_info \<Rightarrow> u64" where
  "anchored_ts prev info = opt_or (ci_timestamp info) (map_option ch_timestamp prev)"

definition merged_entry ::
  "call_history_entry option \<Rightarrow> call_event_info \<Rightarrow> string \<Rightarrow> call_status \<Rightarrow> call_history_entry" where
  "merged_entry prev info peer st =
     \<lparr>ch_call_id = ci_call_id info, ch_peer_id = peer, ch_mode = ci_mode info,
      ch_type = ci_type info, ch_direction = ci_direction info, ch_status = st,
      ch_timestamp = anchored_ts prev info\<rparr>"

definition prev_direct_status :: "call_history_entry option \<Rightarrow> direct_call_status option" where
  "prev_direct_status prev =
     (case prev of
        None \<Rightarrow> None
      | Some p \<Rightarrow> (case ch_status p of StatusDirect s \<Rightarrow> Some s | StatusGroup _ \<Rightarrow> None))"

definition direct_next ::
  "direct_call_status option \<Rightarrow> call_event_kind \<Rightarrow> call_direction \<Rightarrow> direct_call_status" where
  "direct_next prev ev dir =
     (if ev = Event_Delete \<or> prev = Some D_Deleted then D_Deleted
      else if prev = Some D_Accepted \<or> ev = Event_Accepted then D_Accepted
      else (case ev of
              Event_NotAccepted \<Rightarrow> D_Missed
            | Event_Observed \<Rightarrow> D_Pending
            | _ \<Rightarrow> opt_or D_Pending prev))"

definition transition_direct ::
  "call_history_entry option \<Rightarrow> call_event_info \<Rightarrow> string \<Rightarrow> call_history_entry option" where
  "transition_direct prev info peer =
     Some (merged_entry prev info peer
       (StatusDirect (direct_next (prev_direct_status prev) (ci_event info) (ci_direction info))))"

definition prev_group_status :: "call_history_entry option \<Rightarrow> group_call_status option" where
  "prev_group_status prev =
     (case prev of
        None \<Rightarrow> None
      | Some p \<Rightarrow> (case ch_status p of StatusGroup s \<Rightarrow> Some s | StatusDirect _ \<Rightarrow> None))"

definition group_next ::
  "group_call_status option \<Rightarrow> call_event_kind \<Rightarrow> call_direction \<Rightarrow> group_call_status" where
  "group_next prev ev dir =
     (if ev = Event_Delete \<or> prev = Some G_Deleted then G_Deleted
      else if prev = Some G_Joined \<or> ev = Event_Accepted then G_Joined
      else (case ev of
              Event_Observed \<Rightarrow> G_Generic
            | Event_NotAccepted \<Rightarrow> if dir = Incoming then G_Missed else G_Generic
            | _ \<Rightarrow> opt_or G_Generic prev))"

definition transition_group ::
  "call_history_entry option \<Rightarrow> call_event_info \<Rightarrow> string \<Rightarrow> call_history_entry option" where
  "transition_group prev info peer =
     Some (merged_entry prev info peer
       (StatusGroup (group_next (prev_group_status prev) (ci_event info) (ci_direction info))))"

definition transition_call_history ::
  "call_history_entry option \<Rightarrow> call_event_info \<Rightarrow> string \<Rightarrow> call_history_entry option" where
  "transition_call_history prev info peer =
     (case ci_mode info of
        Mode_Direct \<Rightarrow> transition_direct prev info peer
      | Mode_Group \<Rightarrow> transition_group prev info peer
      | Mode_Adhoc \<Rightarrow> None
      | Mode_Unknown \<Rightarrow> None)"

end
