(* ===== verification/Call_Machine.thy ===== *)
theory Call_Machine
  imports Calls
begin

text \<open>
  The interfaces of \<open>Calls\<close> and their consequences: every stored enumeration reads back what
  it wrote, and a call's history converges whatever the order its events arrive in.
\<close>

section \<open>Stored enumerations\<close>

locale stored_enum =
  fixes as_str :: "'e \<Rightarrow> string"
    and parse :: "string \<Rightarrow> 'e"
    and unknown :: 'e
  assumes parse_as_str: "parse (as_str x) = x"
    and as_str_parse: "parse s \<noteq> unknown \<Longrightarrow> as_str (parse s) = s"
begin

lemma as_str_inject: "as_str x = as_str y \<longleftrightarrow> x = y"
  by (metis parse_as_str)

lemma parse_known_iff: "x \<noteq> unknown \<Longrightarrow> parse s = x \<longleftrightarrow> s = as_str x"
  using as_str_parse parse_as_str by metis

lemma foreign_unknown: "(\<And>x. s \<noteq> as_str x) \<Longrightarrow> parse s = unknown"
  using as_str_parse by metis

end

interpretation mode: stored_enum call_mode_as_str call_mode_parse Mode_Unknown
proof
  show "call_mode_parse (call_mode_as_str x) = x" for x
    by (cases x) (simp_all add: call_mode_parse_def)
  show "call_mode_parse s \<noteq> Mode_Unknown \<Longrightarrow> call_mode_as_str (call_mode_parse s) = s" for s
    by (auto simp: call_mode_parse_def split: if_splits)
qed

interpretation ctype: stored_enum call_type_as_str call_type_parse Type_Unknown
proof
  show "call_type_parse (call_type_as_str x) = x" for x
    by (cases x) (simp_all add: call_type_parse_def)
  show "call_type_parse s \<noteq> Type_Unknown \<Longrightarrow> call_type_as_str (call_type_parse s) = s" for s
    by (auto simp: call_type_parse_def split: if_splits)
qed

interpretation dir: stored_enum call_direction_as_str call_direction_parse Direction_Unknown
proof
  show "call_direction_parse (call_direction_as_str x) = x" for x
    by (cases x) (simp_all add: call_direction_parse_def)
  show "call_direction_parse s \<noteq> Direction_Unknown \<Longrightarrow> call_direction_as_str (call_direction_parse s) = s" for s
    by (auto simp: call_direction_parse_def split: if_splits)
qed

interpretation dstatus: stored_enum direct_status_as_str direct_status_parse D_Unknown
proof
  show "direct_status_parse (direct_status_as_str x) = x" for x
    by (cases x) (simp_all add: direct_status_parse_def)
  show "direct_status_parse s \<noteq> D_Unknown \<Longrightarrow> direct_status_as_str (direct_status_parse s) = s" for s
    by (auto simp: direct_status_parse_def split: if_splits)
qed

interpretation gstatus: stored_enum group_status_as_str group_status_parse G_Unknown
proof
  show "group_status_parse (group_status_as_str x) = x" for x
    by (cases x) (simp_all add: group_status_parse_def)
  show "group_status_parse s \<noteq> G_Unknown \<Longrightarrow> group_status_as_str (group_status_parse s) = s" for s
    by (auto simp: group_status_parse_def split: if_splits)
qed

section \<open>Status machines\<close>

locale call_machine =
  fixes step :: "'s option \<Rightarrow> call_event_kind \<Rightarrow> call_direction \<Rightarrow> 's"
    and deleted :: 's
    and joined :: 's
  assumes on_delete: "step p Event_Delete d = deleted"
    and deleted_terminal: "step (Some deleted) e d = deleted"
    and on_accept: "p \<noteq> Some deleted \<Longrightarrow> step p Event_Accepted d = joined"
    and joined_sticky: "e \<noteq> Event_Delete \<Longrightarrow> step (Some joined) e d = joined"
    and others: "e \<noteq> Event_Delete \<Longrightarrow> e \<noteq> Event_Accepted \<Longrightarrow> p \<noteq> Some deleted \<Longrightarrow> p \<noteq> Some joined \<Longrightarrow>
      step p e d \<noteq> deleted \<and> step p e d \<noteq> joined"
    and joined_not_deleted: "joined \<noteq> deleted"
begin

fun run :: "'s option \<Rightarrow> (call_event_kind \<times> call_direction) list \<Rightarrow> 's option" where
  "run p [] = p"
| "run p ((e, d) # es) = run (Some (step p e d)) es"

lemma step_deleted_iff: "step p e d = deleted \<longleftrightarrow> e = Event_Delete \<or> p = Some deleted"
  using on_delete deleted_terminal on_accept joined_sticky others joined_not_deleted
  by (cases "e = Event_Accepted"; cases "p = Some joined") metis+

lemma step_joined_iff:
  "step p e d = joined \<longleftrightarrow> e \<noteq> Event_Delete \<and> p \<noteq> Some deleted \<and> (p = Some joined \<or> e = Event_Accepted)"
  using on_delete deleted_terminal on_accept joined_sticky others joined_not_deleted
  by metis

lemma run_deleted_iff:
  "run p es = Some deleted \<longleftrightarrow> p = Some deleted \<or> Event_Delete \<in> fst ` set es"
  by (induction p es rule: run.induct) (auto simp: step_deleted_iff)

lemma run_joined_iff:
  "run p es = Some joined \<longleftrightarrow>
   p \<noteq> Some deleted \<and> Event_Delete \<notin> fst ` set es \<and> (p = Some joined \<or> Event_Accepted \<in> fst ` set es)"
  by (induction p es rule: run.induct)
     (auto simp: step_deleted_iff step_joined_iff joined_not_deleted)

end

interpretation direct: call_machine direct_next D_Deleted D_Accepted
  by unfold_locales (auto simp: direct_next_def opt_or_def split: call_event_kind.splits option.splits)

interpretation grp: call_machine group_next G_Deleted G_Joined
  by unfold_locales (auto simp: group_next_def opt_or_def split: call_event_kind.splits option.splits if_splits)

section \<open>Merging a sequence of events\<close>

definition merge_events ::
  "string \<Rightarrow> call_event_info list \<Rightarrow> call_history_entry option \<Rightarrow> call_history_entry option" where
  "merge_events peer infos prev = fold (\<lambda>info p. transition_call_history p info peer) infos prev"

abbreviation "events infos \<equiv> map (\<lambda>i. (ci_event i, ci_direction i)) infos"

lemma direct_merge:
  assumes "list_all (\<lambda>i. ci_mode i = Mode_Direct) infos"
  shows "\<exists>e. merge_events peer infos (Some p) = Some e \<and> ch_timestamp e = ch_timestamp p \<and>
    prev_direct_status (Some e) = direct.run (prev_direct_status (Some p)) (events infos)"
  using assms
proof (induction infos arbitrary: p)
  case (Cons i infos)
  let ?q = "merged_entry (Some p) i peer
    (StatusDirect (direct_next (prev_direct_status (Some p)) (ci_event i) (ci_direction i)))"
  from Cons.IH [of ?q] Cons.prems show ?case
    by (simp add: merge_events_def transition_call_history_def transition_direct_def
        merged_entry_def anchored_ts_def prev_direct_status_def)
qed (simp add: merge_events_def)

lemma group_merge:
  assumes "list_all (\<lambda>i. ci_mode i = Mode_Group) infos"
  shows "\<exists>e. merge_events peer infos (Some p) = Some e \<and> ch_timestamp e = ch_timestamp p \<and>
    prev_group_status (Some e) = grp.run (prev_group_status (Some p)) (events infos)"
  using assms
proof (induction infos arbitrary: p)
  case (Cons i infos)
  let ?q = "merged_entry (Some p) i peer
    (StatusGroup (group_next (prev_group_status (Some p)) (ci_event i) (ci_direction i)))"
  from Cons.IH [of ?q] Cons.prems show ?case
    by (simp add: merge_events_def transition_call_history_def transition_group_def
        merged_entry_def anchored_ts_def prev_group_status_def)
qed (simp add: merge_events_def)

lemma prev_status_None [simp]: "prev_direct_status None = None" "prev_group_status None = None"
  by (simp_all add: prev_direct_status_def prev_group_status_def)

lemma prev_direct_eq: "prev_direct_status (Some e) = Some s \<longleftrightarrow> ch_status e = StatusDirect s"
  by (auto simp: prev_direct_status_def split: call_status.splits)

lemma prev_group_eq: "prev_group_status (Some e) = Some s \<longleftrightarrow> ch_status e = StatusGroup s"
  by (auto simp: prev_group_status_def split: call_status.splits)

lemma direct_history:
  assumes "infos \<noteq> []" "list_all (\<lambda>i. ci_mode i = Mode_Direct) infos"
  shows "\<exists>e. merge_events peer infos None = Some e \<and> ch_timestamp e = ci_timestamp (hd infos) \<and>
    prev_direct_status (Some e) = direct.run None (events infos)"
proof -
  from assms obtain i rest where i: "infos = i # rest" "ci_mode i = Mode_Direct"
    "list_all (\<lambda>i. ci_mode i = Mode_Direct) rest" by (cases infos) auto
  let ?q = "merged_entry None i peer (StatusDirect (direct_next None (ci_event i) (ci_direction i)))"
  have "merge_events peer infos None = merge_events peer rest (Some ?q)"
    using i by (simp add: merge_events_def transition_call_history_def transition_direct_def)
  with direct_merge [OF i(3), of peer ?q] i(1) show ?thesis
    by (simp add: merged_entry_def anchored_ts_def prev_direct_status_def)
qed

lemma group_history:
  assumes "infos \<noteq> []" "list_all (\<lambda>i. ci_mode i = Mode_Group) infos"
  shows "\<exists>e. merge_events peer infos None = Some e \<and> ch_timestamp e = ci_timestamp (hd infos) \<and>
    prev_group_status (Some e) = grp.run None (events infos)"
proof -
  from assms obtain i rest where i: "infos = i # rest" "ci_mode i = Mode_Group"
    "list_all (\<lambda>i. ci_mode i = Mode_Group) rest" by (cases infos) auto
  let ?q = "merged_entry None i peer (StatusGroup (group_next None (ci_event i) (ci_direction i)))"
  have "merge_events peer infos None = merge_events peer rest (Some ?q)"
    using i by (simp add: merge_events_def transition_call_history_def transition_group_def)
  with group_merge [OF i(3), of peer ?q] i(1) show ?thesis
    by (simp add: merged_entry_def anchored_ts_def prev_group_status_def)
qed

section \<open>Properties\<close>

text \<open>C12. A call's history converges. Whatever the order in which the sync events of one
  direct call arrive, and however often each is repeated, the merged entry is deleted
  exactly when a delete is among them, accepted exactly when an accept is and no delete, and
  dated by the first event; the status texts the schema stores read back as the status.\<close>

theorem direct_call_converges:
  assumes "infos \<noteq> []" "list_all (\<lambda>i. ci_mode i = Mode_Direct) infos"
  shows "\<exists>e. merge_events peer infos None = Some e \<and>
    ch_timestamp e = ci_timestamp (hd infos) \<and>
    (ch_status e = StatusDirect D_Deleted \<longleftrightarrow> Event_Delete \<in> ci_event ` set infos) \<and>
    (ch_status e = StatusDirect D_Accepted \<longleftrightarrow>
       Event_Delete \<notin> ci_event ` set infos \<and> Event_Accepted \<in> ci_event ` set infos)"
proof -
  from direct_history [OF assms] obtain e where e: "merge_events peer infos None = Some e"
    "ch_timestamp e = ci_timestamp (hd infos)"
    "prev_direct_status (Some e) = direct.run None (events infos)" by blast
  from direct.run_deleted_iff [of None "events infos"] direct.run_joined_iff [of None "events infos"]
  show ?thesis using e by (simp add: image_image prev_direct_eq [symmetric])
qed

text \<open>The group machine keeps the same contract with \<open>Joined\<close> in the place of
  \<open>Accepted\<close>: deletion is terminal, joining is sticky, and nothing but an accept or a delete
  leads there, in every order of arrival.\<close>

theorem group_call_converges:
  assumes "infos \<noteq> []" "list_all (\<lambda>i. ci_mode i = Mode_Group) infos"
  shows "\<exists>e. merge_events peer infos None = Some e \<and>
    ch_timestamp e = ci_timestamp (hd infos) \<and>
    (ch_status e = StatusGroup G_Deleted \<longleftrightarrow> Event_Delete \<in> ci_event ` set infos) \<and>
    (ch_status e = StatusGroup G_Joined \<longleftrightarrow>
       Event_Delete \<notin> ci_event ` set infos \<and> Event_Accepted \<in> ci_event ` set infos)"
proof -
  from group_history [OF assms] obtain e where e: "merge_events peer infos None = Some e"
    "ch_timestamp e = ci_timestamp (hd infos)"
    "prev_group_status (Some e) = grp.run None (events infos)" by blast
  from grp.run_deleted_iff [of None "events infos"] grp.run_joined_iff [of None "events infos"]
  show ?thesis using e by (simp add: image_image prev_group_eq [symmetric])
qed

definition sample_call_event :: "call_mode \<Rightarrow> call_event_kind \<Rightarrow> u64 \<Rightarrow> call_event_info" where
  "sample_call_event mode ev ts =
     \<lparr>ci_call_id = 7, ci_conversation_id = [], ci_timestamp = ts, ci_mode = mode,
      ci_type = Type_Audio, ci_direction = Incoming, ci_event = ev\<rparr>"

lemma direct_call_converges_witness:
  "\<exists>e. merge_events ''p'' [sample_call_event Mode_Direct Event_Observed 10,
      sample_call_event Mode_Direct Event_Accepted 20, sample_call_event Mode_Direct Event_NotAccepted 30] None = Some e \<and>
    ch_timestamp e = 10 \<and> ch_status e = StatusDirect D_Accepted"
  using direct_call_converges [of "[sample_call_event Mode_Direct Event_Observed 10,
      sample_call_event Mode_Direct Event_Accepted 20, sample_call_event Mode_Direct Event_NotAccepted 30]" "''p''"]
  by (auto simp: sample_call_event_def)

lemma group_call_converges_witness:
  "\<exists>e. merge_events ''g'' [sample_call_event Mode_Group Event_Accepted 10,
      sample_call_event Mode_Group Event_Delete 20, sample_call_event Mode_Group Event_Accepted 30] None = Some e \<and>
    ch_timestamp e = 10 \<and> ch_status e = StatusGroup G_Deleted"
  using group_call_converges [of "[sample_call_event Mode_Group Event_Accepted 10,
      sample_call_event Mode_Group Event_Delete 20, sample_call_event Mode_Group Event_Accepted 30]" "''g''"]
  by (auto simp: sample_call_event_def)

text \<open>C34. What the call-history table stores of an entry reads back: mode, type, direction and
  the status under its own mode survive their text form, and a text no value writes is
  \<open>Unknown\<close>, never another value.\<close>

theorem call_strings_roundtrip:
  "call_mode_parse (call_mode_as_str m) = m \<and>
   call_type_parse (call_type_as_str ty) = ty \<and>
   call_direction_parse (call_direction_as_str d) = d \<and>
   call_status_parse Mode_Direct (call_status_as_str (StatusDirect ds)) = StatusDirect ds \<and>
   call_status_parse Mode_Group (call_status_as_str (StatusGroup gs)) = StatusGroup gs \<and>
   (call_mode_parse s \<noteq> Mode_Unknown \<longrightarrow> call_mode_as_str (call_mode_parse s) = s) \<and>
   (call_type_parse s \<noteq> Type_Unknown \<longrightarrow> call_type_as_str (call_type_parse s) = s) \<and>
   (call_direction_parse s \<noteq> Direction_Unknown \<longrightarrow> call_direction_as_str (call_direction_parse s) = s) \<and>
   (direct_status_parse s \<noteq> D_Unknown \<longrightarrow> direct_status_as_str (direct_status_parse s) = s) \<and>
   (group_status_parse s \<noteq> G_Unknown \<longrightarrow> group_status_as_str (group_status_parse s) = s)"
  using mode.as_str_parse ctype.as_str_parse dir.as_str_parse dstatus.as_str_parse gstatus.as_str_parse
  by (simp add: mode.parse_as_str ctype.parse_as_str dir.parse_as_str dstatus.parse_as_str gstatus.parse_as_str)

lemma call_strings_roundtrip_witness:
  "call_mode_parse ''Group'' \<noteq> Mode_Unknown \<and> call_mode_as_str (call_mode_parse ''Group'') = ''Group'' \<and>
   call_mode_parse ''Room'' = Mode_Unknown"
  using call_strings_roundtrip [of Mode_Group Type_Audio Incoming D_Missed G_Joined "''Group''"]
  by (simp add: call_mode_parse_def)

section \<open>Group call ids\<close>

text \<open>The sixteen-digit lowercase form of a 64-bit id, as RingRTC prints one.\<close>

definition hex_char :: "nat \<Rightarrow> char" where
  "hex_char d = (if d < 10 then char_of (48 + d) else char_of (87 + d))"

fun hex_pad :: "nat \<Rightarrow> nat \<Rightarrow> string" where
  "hex_pad 0 n = []"
| "hex_pad (Suc k) n = hex_pad k (n div 16) @ [hex_char (n mod 16)]"

lemma hex_digit_char: "d < 16 \<Longrightarrow> hex_digit (hex_char d) = Some d"
  by (auto simp: hex_digit_def hex_char_def Let_def)

lemma hex_digits_append: "hex_digits (xs @ ys) acc =
   (case hex_digits xs acc of None \<Rightarrow> None | Some a \<Rightarrow> hex_digits ys a)"
  by (induction xs acc rule: hex_digits.induct) (auto split: option.splits)

lemma hex_digits_pad: "hex_digits (hex_pad k n) acc = Some (acc * 16 ^ k + n mod 16 ^ k)"
proof (induction k arbitrary: n)
  case (Suc k)
  have "16 * (n div 16 mod 16 ^ k) + n mod 16 = n mod (16 * 16 ^ k)"
    by (simp add: mod_mult2_eq)
  with Suc show ?case by (simp add: hex_digits_append hex_digit_char algebra_simps)
qed simp

lemma length_hex_pad [simp]: "length (hex_pad k n) = k"
  by (induction k arbitrary: n) auto

lemma hex_char_not_plus: "d < 16 \<Longrightarrow> hex_char d \<noteq> CHR ''+''"
proof
  assume d: "d < 16" and "hex_char d = CHR ''+''"
  then have "hex_digit (CHR ''+'') = Some d" using hex_digit_char [OF d] by simp
  then show False by (simp add: hex_digit_def Let_def)
qed

lemma hex_pad_no_plus: "c \<in> set (hex_pad k n) \<Longrightarrow> c \<noteq> CHR ''+''"
proof (induction k arbitrary: n)
  case (Suc k)
  have "hex_char (n mod 16) \<noteq> CHR ''+''" by (rule hex_char_not_plus) simp
  with Suc show ?case by auto
qed simp

text \<open>C0. The id of a group call: an era id that is the sixteen-digit hexadecimal form of an id
  gives that id, with the reserved zero mapped to the all-ones id, so no such era yields
  zero and two different non-zero ids never meet (all-ones apart).\<close>

theorem call_id_of_hex_era:
  "call_id_from_era_id K (hex_pad 16 (unat v)) = (if v = 0 then - 1 else v)"
proof -
  have ne: "hex_pad 16 (unat v) \<noteq> []" using length_hex_pad [of 16 "unat v"] by (metis list.size(3) zero_neq_numeral)
  have lt: "unat v < 2 ^ LENGTH(64)" by (rule unsigned_less)
  have strip: "(case hex_pad 16 (unat v) of c # cs \<Rightarrow> if c = CHR ''+'' then cs else hex_pad 16 (unat v)
      | [] \<Rightarrow> hex_pad 16 (unat v)) = hex_pad 16 (unat v)"
    using ne hex_pad_no_plus [of _ 16 "unat v"] by (cases "hex_pad 16 (unat v)") force+
  have "from_str_radix16 (hex_pad 16 (unat v)) = Some v"
    unfolding from_str_radix16_def strip Let_def using ne lt by (simp add: hex_digits_pad)
  then show ?thesis by (simp add: call_id_from_era_id_def)
qed

end
