(* ===== verification/Store.thy ===== *)
theory Store
  imports Call_Machine Merge
begin

text \<open>
  \<open>presage/src/store.rs\<close>: the store every manager operation runs against. The trait's required
  methods are the fields of the dictionary \<open>store_ops\<close>, over an opaque world \<open>'w\<close> and store
  error \<open>'e\<close>; the methods the trait itself implements are definitions over the dictionary.
  The error type of the manager (\<open>errors.rs\<close>) and the key and identity of a storage record
  are here as well, since every later theory uses them.
\<close>

section \<open>Errors\<close>

datatype storage_service_error = SS_Conflict | SS_Other string

text \<open>\<open>MessageSenderError\<close>, of which this code tells one case apart.\<close>

datatype send_error = SendNotFound service_id | SendFailed string

datatype 'e error =
    StoreError 'e
  | StorageServiceError storage_service_error
  | StorageRecordEditError edit_error
  | MissingKeyError string
  | StorageManifestConflict
  | StorageRecordMoved
  | StorageRecordUnknown
  | NoteToSelfHasNoContactRecord
  | ChatFolderInvalidName
  | ChatFolderUnknown
  | ChatFolderUndeletable
  | UnknownGroup
  | NotAGroupMember
  | LastAdminMustPromote
  | EmptyGroupUpdate
  | EmptyGroupMembersUpdate
  | InvalidThread thread_error
  | TryFromSliceError
  | MessageSenderError send_error
  | ProtocolError string
  | NotPrimaryDevice
  | NotSecondaryDevice
  | InvalidDeviceId
  | ServiceWsClosing
  | CaptchaRequired
  | IoError string
  | AlreadyRegisteredError
  | NotYetRegisteredError
  | ProvisioningError string
  | NoProvisioningMessageReceived
  | LinkingError
  | RelinkNecessary
  | PushChallengeRequired
  | RequestingCodeForbidden string
  | UnverifiedRegistrationSession
  | UnexpectedAttachmentChecksum
  | AttachmentCipherError string
  | ProfileCipherError string
  | ProfileManagerError string
  | UpdatePreKeyFailure
  | InvalidUsername string
  | BackupRelinkRequested
  | BackupImportFailed string
  | ServiceConflict
  | ServiceUnauthorized
  | ServiceNotFound
  | ServiceError string

section \<open>Storage records\<close>

datatype storage_record_key =
    KeyContact service_id
  | KeyGroupV2 key32
  | KeyChatFolder uuid
  | KeyStickerPack bytes
  | KeyAccount

datatype item_type =
    Item_Unknown | Item_Contact | Item_Groupv1 | Item_Groupv2 | Item_Account
  | Item_StoryDistributionList | Item_StickerPack | Item_CallLink | Item_ChatFolder
  | Item_NotificationProfile | Item_Other int

fun item_type_of :: "storage_record_key \<Rightarrow> item_type" where
  "item_type_of (KeyContact _) = Item_Contact"
| "item_type_of (KeyGroupV2 _) = Item_Groupv2"
| "item_type_of (KeyChatFolder _) = Item_ChatFolder"
| "item_type_of (KeyStickerPack _) = Item_StickerPack"
| "item_type_of KeyAccount = Item_Account"

record storage_record_identity =
  si_storage_id :: bytes
  si_storage_version :: u64
  si_record :: bytes

record storage_sync_cursor =
  sc_target_version :: u64
  sc_next_batch_index :: u32

section \<open>The store\<close>

text \<open>
  The traits have one record per part, each extending the one before, so that the last, \<open>store_ops\<close>, has
  every operation.
\<close>

record ('w, 'e) manifest_store =
  fetch_storage_manifest_version :: "('w, 'e, u64) io"
  store_storage_manifest_version :: "u64 \<Rightarrow> ('w, 'e, unit) io"
  fetch_storage_sync_cursor :: "('w, 'e, storage_sync_cursor option) io"
  store_storage_sync_cursor :: "storage_sync_cursor \<Rightarrow> ('w, 'e, unit) io"
  clear_storage_sync_cursor :: "('w, 'e, unit) io"

record ('w, 'e) contact_store = "('w, 'e) manifest_store" +
  contact_by_id :: "service_id \<Rightarrow> ('w, 'e, contact option) io"
  stored_contacts :: "('w, 'e, ('e + contact) list) io"
  save_contact :: "contact \<Rightarrow> ('w, 'e, unit) io"
  contact_storage_identity :: "service_id \<Rightarrow> ('w, 'e, storage_record_identity option) io"
  save_contact_storage_identity :: "service_id \<Rightarrow> storage_record_identity \<Rightarrow> ('w, 'e, unit) io"
  set_contact_needs_storage_sync :: "service_id \<Rightarrow> bool \<Rightarrow> ('w, 'e, unit) io"
  contacts_needing_storage_sync :: "('w, 'e, service_id list) io"

record ('w, 'e) group_store = "('w, 'e) contact_store" +
  load_group :: "key32 \<Rightarrow> ('w, 'e, group option) io"
  save_group :: "key32 \<Rightarrow> group \<Rightarrow> ('w, 'e, unit) io"
  stored_groups :: "('w, 'e, ('e + (key32 \<times> group)) list) io"

record ('w, 'e) group_sync_store = "('w, 'e) group_store" +
  group_storage_identity :: "key32 \<Rightarrow> ('w, 'e, storage_record_identity option) io"
  save_group_storage_identity :: "key32 \<Rightarrow> storage_record_identity \<Rightarrow> ('w, 'e, unit) io"
  set_group_needs_storage_sync :: "key32 \<Rightarrow> bool \<Rightarrow> ('w, 'e, unit) io"
  groups_needing_storage_sync :: "('w, 'e, key32 list) io"

record ('w, 'e) folder_store = "('w, 'e) group_sync_store" +
  stored_chat_folders :: "('w, 'e, chat_folder list) io"
  load_chat_folder :: "uuid \<Rightarrow> ('w, 'e, chat_folder option) io"
  store_chat_folder :: "chat_folder \<Rightarrow> ('w, 'e, unit) io"
  drop_chat_folder :: "uuid \<Rightarrow> ('w, 'e, unit) io"
  chat_folder_storage_identity :: "uuid \<Rightarrow> ('w, 'e, storage_record_identity option) io"
  save_chat_folder_storage_identity :: "uuid \<Rightarrow> storage_record_identity \<Rightarrow> ('w, 'e, unit) io"
  clear_chat_folder_storage_identity :: "uuid \<Rightarrow> ('w, 'e, unit) io"
  set_chat_folder_needs_storage_sync :: "uuid \<Rightarrow> bool \<Rightarrow> ('w, 'e, unit) io"
  chat_folders_needing_storage_sync :: "('w, 'e, uuid list) io"

record ('w, 'e) account_store = "('w, 'e) folder_store" +
  account_chat_state_op :: "('w, 'e, account_chat_state) io"
  save_account_chat_state :: "account_chat_state \<Rightarrow> ('w, 'e, unit) io"
  account_storage_identity :: "('w, 'e, storage_record_identity option) io"
  save_account_storage_identity :: "storage_record_identity \<Rightarrow> ('w, 'e, unit) io"
  set_account_needs_storage_sync :: "bool \<Rightarrow> ('w, 'e, unit) io"
  account_needs_storage_sync :: "('w, 'e, bool) io"

record ('w, 'e) sticker_store = "('w, 'e) account_store" +
  sticker_pack_record_state_op :: "bytes \<Rightarrow> ('w, 'e, sticker_pack_record_state option) io"
  sticker_pack_storage_identity :: "bytes \<Rightarrow> ('w, 'e, storage_record_identity option) io"
  save_sticker_pack_storage_identity :: "bytes \<Rightarrow> storage_record_identity \<Rightarrow> ('w, 'e, unit) io"
  set_sticker_pack_needs_storage_sync :: "bytes \<Rightarrow> bool \<Rightarrow> ('w, 'e, unit) io"
  sticker_packs_needing_storage_sync :: "('w, 'e, bytes list) io"
  stored_sticker_pack :: "bytes \<Rightarrow> ('w, 'e, sticker_pack option) io"
  store_sticker_pack :: "sticker_pack \<Rightarrow> ('w, 'e, unit) io"
  pending_sticker_packs :: "('w, 'e, (bytes \<times> bytes) list) io"
  note_installed_sticker_pack :: "bytes \<Rightarrow> bytes \<Rightarrow> u32 option \<Rightarrow> ('w, 'e, unit) io"
  remove_sticker_pack :: "bytes \<Rightarrow> ('w, 'e, bool) io"
  stored_sticker_packs :: "('w, 'e, ('e + sticker_pack) list) io"

record ('w, 'e) message_store = "('w, 'e) sticker_store" +
  store_message :: "thread \<Rightarrow> content \<Rightarrow> ('w, 'e, unit) io"
  load_message :: "thread \<Rightarrow> u64 \<Rightarrow> ('w, 'e, content option) io"
  drop_message :: "thread \<Rightarrow> u64 \<Rightarrow> ('w, 'e, bool) io"
  thread_of_message :: "service_id \<Rightarrow> u64 \<Rightarrow> ('w, 'e, thread option) io"

record ('w, 'e) call_store = "('w, 'e) message_store" +
  get_call_history :: "u64 \<Rightarrow> ('w, 'e, call_history_entry option) io"
  save_call_history :: "call_history_entry \<Rightarrow> ('w, 'e, unit) io"

record ('w, 'e) store_ops = "('w, 'e) call_store" +
  stored_profile_key :: "service_id \<Rightarrow> ('w, 'e, key32 option) io"
  upsert_profile_key :: "uuid \<Rightarrow> key32 \<Rightarrow> ('w, 'e, bool) io"

section \<open>The trait's own methods\<close>

definition save_message_received_at ::
  "('w, 'e) store_ops \<Rightarrow> thread \<Rightarrow> content \<Rightarrow> u64 \<Rightarrow> ('w, 'e, unit) io" where
  "save_message_received_at S t m received_at_ms = store_message S t m"

definition ingest_call_event ::
  "('w, 'e) store_ops \<Rightarrow> call_codec \<Rightarrow> call_event_info \<Rightarrow> call_peer \<Rightarrow>
   ('w, 'e, call_history_entry option) io" where
  "ingest_call_event S K info peer =
     bindE (get_call_history S (ci_call_id info)) (\<lambda>prev.
       case transition_call_history prev info (peer_id K peer) of
         None \<Rightarrow> ok None
       | Some entry \<Rightarrow> thenE (save_call_history S entry) (ok (Some entry)))"

definition expire_timer :: "('w, 'e) store_ops \<Rightarrow> thread \<Rightarrow> ('w, 'e, (u32 \<times> u32) option) io" where
  "expire_timer S t =
     (case t of
        ContactThread sid \<Rightarrow>
          bindE (contact_by_id S sid) (\<lambda>c.
            ok (map_option (\<lambda>c. (c_expire_timer c, c_expire_timer_version c)) c))
      | GroupThread mk \<Rightarrow>
          bindE (load_group S mk) (\<lambda>g.
            ok (case g of
                  None \<Rightarrow> None
                | Some g \<Rightarrow> map_option (\<lambda>d. (d, 1)) (g_timer g))))"

definition update_expire_timer :: "('w, 'e) store_ops \<Rightarrow> thread \<Rightarrow> u32 \<Rightarrow> u32 \<Rightarrow> ('w, 'e, unit) io" where
  "update_expire_timer S t timer version =
     (case t of
        ContactThread sid \<Rightarrow>
          bindE (contact_by_id S sid) (\<lambda>contact.
            case contact of
              None \<Rightarrow> ok ()
            | Some c \<Rightarrow>
                if version \<le> c_expire_timer_version c then ok ()
                else save_contact S
                       (c\<lparr>c_expire_timer_version := version, c_expire_timer := timer\<rparr>))
      | GroupThread mk \<Rightarrow>
          bindE (load_group S mk) (\<lambda>g.
            case g of
              None \<Rightarrow> ok ()
            | Some g \<Rightarrow> save_group S mk (g\<lparr>g_timer := (if timer = 0 then None else Some timer)\<rparr>)))"

text \<open>\<open>group_id\<close> derives the public identifier of a group from its master key (zkgroup).\<close>

fun find_group_by_id ::
  "(key32 \<Rightarrow> key32) \<Rightarrow> key32 \<Rightarrow> ('e + (key32 \<times> group)) list \<Rightarrow> 'e + key32 option" where
  "find_group_by_id group_id gid [] = Inr None"
| "find_group_by_id group_id gid (r # rs) =
     res_bind r (\<lambda>(mk, _). if group_id mk = gid then Inr (Some mk) else find_group_by_id group_id gid rs)"

definition group_by_group_id ::
  "('w, 'e) store_ops \<Rightarrow> (key32 \<Rightarrow> key32) \<Rightarrow> key32 \<Rightarrow> ('w, 'e, key32 option) io" where
  "group_by_group_id S group_id gid =
     bindE (stored_groups S) (\<lambda>iter. lift_res (find_group_by_id group_id gid iter))"

section \<open>Contract of the rows\<close>

text \<open>
  What the documentation of the trait promises of a row: a saved row is read back, and reading
  changes nothing. \<open>get\<close> and \<open>put\<close> are one load/save pair of the store for one key; \<open>fits\<close> are
  the values of that key the store represents, \<open>good\<close> the states in which the key is
  unambiguous.
\<close>

locale stored_row =
  fixes get :: "('w, 'e, 'v option) io"
    and put :: "'v \<Rightarrow> ('w, 'e, unit) io"
    and good :: "'w \<Rightarrow> bool"
    and fits :: "'v \<Rightarrow> bool"
  assumes get_pure: "snd (get w) = w"
    and put_get: "good w \<Longrightarrow> fits v \<Longrightarrow>
      \<exists>w'. put v w = (Inr (), w') \<and> good w' \<and> get w' = (Inr (Some v), w')"
begin

lemma put_total:
  assumes "good w" "fits v"
  obtains w' where "put v w = (Inr (), w')" "good w'" "get w' = (Inr (Some v), w')"
  using put_get [OF assms] by blast

lemma put_getD:
  "good w \<Longrightarrow> fits v \<Longrightarrow> put v w = (Inr (), w') \<Longrightarrow> good w' \<and> get w' = (Inr (Some v), w')"
  using put_get [of w v] by auto

lemma get_same: "fst (get w) = r \<Longrightarrow> get w = (r, w)"
  using get_pure [of w] by (metis prod.collapse)

end

locale contact_row =
  stored_row "contact_by_id S sid" "save_contact S" good fits
  for S :: "('w, 'e) store_ops" and sid :: service_id and good fits +
  assumes fits_timer: "fits c \<Longrightarrow> fits (c\<lparr>c_expire_timer_version := v, c_expire_timer := t\<rparr>)"
begin

text \<open>One update against a stored contact: a version already seen changes nothing.\<close>

lemma timer_update:
  assumes "good w" "fits c" "contact_by_id S sid w = (Inr (Some c), w)"
  shows "\<exists>w'. update_expire_timer S (ContactThread sid) t v w = (Inr (), w') \<and> good w' \<and>
    (let c' = (if v \<le> c_expire_timer_version c then c
               else c\<lparr>c_expire_timer_version := v, c_expire_timer := t\<rparr>) in
     fits c' \<and> contact_by_id S sid w' = (Inr (Some c'), w'))"
proof (cases "v \<le> c_expire_timer_version c")
  case True
  then show ?thesis using assms by (auto simp: update_expire_timer_def io_simps)
next
  case False
  note f = fits_timer [OF assms(2), where v = v and t = t]
  obtain w' where "save_contact S (c\<lparr>c_expire_timer_version := v, c_expire_timer := t\<rparr>) w = (Inr (), w')"
    "good w'"
    "contact_by_id S sid w' = (Inr (Some (c\<lparr>c_expire_timer_version := v, c_expire_timer := t\<rparr>)), w')"
    by (rule put_total [OF assms(1) f])
  with False f assms show ?thesis by (simp add: update_expire_timer_def io_simps)
qed

lemma timer_read:
  "contact_by_id S sid w = (Inr (Some c), w) \<Longrightarrow>
   expire_timer S (ContactThread sid) w = (Inr (Some (c_expire_timer c, c_expire_timer_version c)), w)"
  by (simp add: expire_timer_def io_simps)

lemma timer_converges:
  assumes "good w" "fits c" "contact_by_id S sid w = (Inr (Some c), w)"
    "c_expire_timer_version c < v1" "c_expire_timer_version c < v2" "v1 \<noteq> v2"
  shows "\<exists>w1 w2. update_expire_timer S (ContactThread sid) t1 v1 w = (Inr (), w1) \<and>
    update_expire_timer S (ContactThread sid) t2 v2 w1 = (Inr (), w2) \<and>
    expire_timer S (ContactThread sid) w2 =
      (Inr (Some (if v1 < v2 then (t2, v2) else (t1, v1))), w2)"
proof -
  from timer_update [OF assms(1-3), of t1 v1] assms(4)
  obtain w1 c1 where 1: "update_expire_timer S (ContactThread sid) t1 v1 w = (Inr (), w1)" "good w1"
    "fits c1" "contact_by_id S sid w1 = (Inr (Some c1), w1)"
    "c_expire_timer_version c1 = v1" "c_expire_timer c1 = t1"
    by (auto simp: Let_def not_le [symmetric])
  from timer_update [OF 1(2-4), of t2 v2] 1(5,6) assms(6)
  obtain w2 c2 where 2: "update_expire_timer S (ContactThread sid) t2 v2 w1 = (Inr (), w2)"
    "contact_by_id S sid w2 = (Inr (Some c2), w2)"
    "(c_expire_timer c2, c_expire_timer_version c2) = (if v1 < v2 then (t2, v2) else (t1, v1))"
    by (auto simp: Let_def split: if_splits)
  from 1(1) 2 timer_read [OF 2(2)] show ?thesis by auto
qed

end

locale call_row =
  stored_row "get_call_history S cid" "save_call_history S" good fits
  for S :: "('w, 'e) store_ops" and cid :: u64 and peer :: string and good fits +
  assumes fits_merged: "ci_call_id info = cid \<Longrightarrow> ci_timestamp info < 2 ^ 63 \<Longrightarrow>
      (\<forall>e. prev = Some e \<longrightarrow> fits e) \<Longrightarrow>
      transition_call_history prev info peer = Some e' \<Longrightarrow> fits e'"
    and fits_read: "good w \<Longrightarrow> get_call_history S cid w = (Inr (Some e), w') \<Longrightarrow> fits e"
begin

lemma ingest:
  assumes "good w" "get_call_history S cid w = (Inr prev, w)" "ci_call_id info = cid"
    "ci_timestamp info < 2 ^ 63" "peer_id K p = peer"
    "transition_call_history prev info peer = Some e"
  shows "\<exists>w'. ingest_call_event S K info p w = (Inr (Some e), w') \<and> good w' \<and>
    get_call_history S cid w' = (Inr (Some e), w')"
proof -
  have "fits e"
    using fits_merged [OF assms(3,4) _ assms(6)] fits_read [OF assms(1)] assms(2) by blast
  from put_get [OF assms(1) this] show ?thesis
    using assms by (auto simp: ingest_call_event_def io_simps)
qed

lemma ingest_none:
  "get_call_history S cid w = (Inr prev, w) \<Longrightarrow> ci_call_id info = cid \<Longrightarrow> peer_id K p = peer \<Longrightarrow>
   transition_call_history prev info peer = None \<Longrightarrow> ingest_call_event S K info p w = (Inr None, w)"
  by (simp add: ingest_call_event_def io_simps)

end

end
