(* ===== verification/Manifest.thy ===== *)
theory Manifest
  imports Io_Rules Store Stickers
begin

text \<open>
  Writing the account's storage manifest (\<open>presage/src/manager/storage.rs\<close>, lines 94 to 560 and
  \<open>append_record\<close>). The manifest is the index of the account: version, identifiers and the key
  material items are encrypted under.

  What the code calls but does not contain is the dictionary \<open>account_env\<close>: the master key,
  libsignal's \<open>StorageService\<close> (open, read the manifest, read items, write), the operating system's
  random bytes and clock, the sender of sync messages, and prost's encoders. Every operation
  runs in the world \<open>'w\<close>, so other devices and other tasks may act inside each of them;
  \<open>ae_sync\<close> is the manager's own \<open>sync_storage_service\<close> (theory Sync), which the retry loops call.
\<close>

section \<open>The manifest and its environment\<close>

record manifest_identifier =
  id_raw :: bytes
  id_type :: item_type

record manifest =
  mf_version :: u64
  mf_source_device :: u32
  mf_identifiers :: "manifest_identifier list"
  mf_record_ikm :: bytes

datatype storage_record =
    RecContact contact_record
  | RecGroupV2 group_record
  | RecChatFolder chat_folder_record
  | RecStickerPack sticker_pack_record
  | RecAccount
  | RecOther

record storage_item =
  it_key :: bytes
  it_plaintext :: bytes
  it_record :: "storage_record option"

record ('w, 'e) account_env =
  ae_store :: "('w, 'e) store_ops"
  ae_master_key :: "('w, 'e error, bytes option) io"
  ae_open :: "('w, 'e error, unit) io"
  ae_manifest :: "('w, 'e error, manifest) io"
  ae_manifest_if_changed :: "u64 \<Rightarrow> ('w, 'e error, manifest option) io"
  ae_read_items :: "bytes list \<Rightarrow> bytes option \<Rightarrow> ('w, 'e error, storage_item list) io"
  ae_write_items :: "manifest \<Rightarrow> (bytes \<times> bytes) list \<Rightarrow> bytes list \<Rightarrow>
    ('w, storage_service_error, unit) io"
  ae_random16 :: "'w \<Rightarrow> bytes \<times> 'w"
  ae_now_ms :: "'w \<Rightarrow> u64 \<times> 'w"
  ae_sleep :: "nat \<Rightarrow> 'w \<Rightarrow> 'w"
  ae_new_sender :: "('w, 'e error, unit) io"
  ae_send_fetch_latest :: "('w, 'e error, unit) io"
  ae_sync :: "('w, 'e error, unit) io"
  ae_device :: u32
  ae_codec :: codec
  ae_contact_codec :: contact_codec
  ae_encode_contact :: "contact_record \<Rightarrow> bytes"
  ae_encode_group :: "group_record \<Rightarrow> bytes"
  ae_encode_sticker :: "sticker_pack_record \<Rightarrow> bytes"
  ae_encode_folder :: "chat_folder_record \<Rightarrow> bytes"
  ae_decode_sticker :: "bytes \<Rightarrow> sticker_pack_record option"

text \<open>\<open>self.store.f().await?\<close>: the store's error becomes the manager's.\<close>

definition st :: "('w, 'e, 'a) io \<Rightarrow> ('w, 'e error, 'a) io" where
  "st m = map_err StoreError m"

definition call :: "('w \<Rightarrow> 'a \<times> 'w) \<Rightarrow> ('w, 'f, 'a) io" where
  [io_simps]: "call f w = (case f w of (x, w') \<Rightarrow> (Inr x, w'))"

definition MANIFEST_WRITE_ATTEMPTS :: nat where "MANIFEST_WRITE_ATTEMPTS = 3"

text \<open>Seconds, one entry between each pair of attempts.\<close>

definition MANIFEST_WRITE_BACKOFF :: "nat list" where "MANIFEST_WRITE_BACKOFF = [1, 4]"

definition backoff_get :: "nat \<Rightarrow> nat option" where
  "backoff_get i =
     (if i < length MANIFEST_WRITE_BACKOFF then Some (MANIFEST_WRITE_BACKOFF ! i) else None)"

definition sleep :: "('w, 'e) account_env \<Rightarrow> nat \<Rightarrow> ('w, 'f, unit) io" where
  "sleep V d = call (\<lambda>w. ((), ae_sleep V d w))"

definition notify_storage_manifest_written :: "('w, 'e) account_env \<Rightarrow> ('w, 'f, unit) io" where
  "notify_storage_manifest_written V =
     attempt (ae_new_sender V) (\<lambda>sender.
       case sender of
         Inl _ \<Rightarrow> ok ()
       | Inr _ \<Rightarrow> ignore (ae_send_fetch_latest V) (ok ()))"

definition storage_service :: "('w, 'e) account_env \<Rightarrow> ('w, 'e error, unit) io" where
  "storage_service V =
     bindE (ae_master_key V) (\<lambda>key.
       case key of
         None \<Rightarrow> err (MissingKeyError ''master_key'')
       | Some _ \<Rightarrow> ae_open V)"

section \<open>Appending a record\<close>

definition appended_manifest :: "manifest \<Rightarrow> u32 \<Rightarrow> item_type \<Rightarrow> bytes \<Rightarrow> manifest" where
  "appended_manifest current device ty raw_id =
     \<lparr>mf_version = mf_version current + 1, mf_source_device = device,
      mf_identifiers = mf_identifiers current @ [\<lparr>id_raw = raw_id, id_type = ty\<rparr>],
      mf_record_ikm = mf_record_ikm current\<rparr>"

text \<open>\<open>n\<close> attempts are left; the number of the one running indexes the back-off.\<close>

fun append_attempts ::
  "('w, 'e) account_env \<Rightarrow> item_type \<Rightarrow> bytes \<Rightarrow> nat \<Rightarrow> ('w, 'e error, bytes) io" where
  "append_attempts V ty rec 0 = err StorageManifestConflict"
| "append_attempts V ty rec (Suc n) =
     bindE (ae_manifest V) (\<lambda>current.
     bindE (call (ae_random16 V)) (\<lambda>raw_id.
       let m = appended_manifest current (ae_device V) ty raw_id in
       attempt (ae_write_items V m [(raw_id, rec)] []) (\<lambda>r.
         case r of
           Inr () \<Rightarrow>
             thenE (st (store_storage_manifest_version (ae_store V) (mf_version m)))
               (thenE (notify_storage_manifest_written V) (ok raw_id))
         | Inl SS_Conflict \<Rightarrow>
             (case backoff_get (MANIFEST_WRITE_ATTEMPTS - Suc n) of
                Some d \<Rightarrow> thenE (sleep V d) (append_attempts V ty rec n)
              | None \<Rightarrow> append_attempts V ty rec n)
         | Inl e \<Rightarrow> err (StorageServiceError e))))"

definition append_storage_record ::
  "('w, 'e) account_env \<Rightarrow> item_type \<Rightarrow> bytes \<Rightarrow> ('w, 'e error, bytes) io" where
  "append_storage_record V ty rec =
     thenE (storage_service V) (append_attempts V ty rec MANIFEST_WRITE_ATTEMPTS)"

section \<open>Editing the manifest\<close>

text \<open>The \<open>retain\<close> of one identifier, which must remove exactly one entry.\<close>

fun drop_identifiers :: "bytes list \<Rightarrow> manifest_identifier list \<Rightarrow> 'e error + manifest_identifier list" where
  "drop_identifiers [] ids = Inr ids"
| "drop_identifiers (old # olds) ids =
     (let kept = filter (\<lambda>i. id_raw i \<noteq> old) ids in
      if length ids - length kept \<noteq> 1 then Inl StorageRecordMoved else drop_identifiers olds kept)"

fun add_identifiers ::
  "('w, 'e) account_env \<Rightarrow> (item_type \<times> bytes) list \<Rightarrow> manifest_identifier list \<Rightarrow>
   ('w, 'e error, manifest_identifier list \<times> (bytes \<times> bytes) list) io" where
  "add_identifiers V [] ids = ok (ids, [])"
| "add_identifiers V ((ty, rec) # inserts) ids =
     bindE (call (ae_random16 V)) (\<lambda>raw_id.
       if list_ex (\<lambda>i. id_raw i = raw_id) ids then err StorageManifestConflict
       else bindE (add_identifiers V inserts (ids @ [\<lparr>id_raw = raw_id, id_type = ty\<rparr>]))
              (\<lambda>(ids', recs). ok (ids', (raw_id, rec) # recs)))"

definition plan_manifest_edit ::
  "('w, 'e) account_env \<Rightarrow> manifest \<Rightarrow> (item_type \<times> bytes) list \<Rightarrow> bytes list \<Rightarrow>
   ('w, 'e error, manifest \<times> (bytes \<times> bytes) list) io" where
  "plan_manifest_edit V current inserts delete_ids =
     bindE (lift_res (drop_identifiers delete_ids (mf_identifiers current))) (\<lambda>kept.
     bindE (add_identifiers V inserts kept) (\<lambda>(ids, recs).
       if length ids \<noteq> length (mf_identifiers current) + length recs - length delete_ids
       then err StorageManifestConflict
       else ok (\<lparr>mf_version = mf_version current + 1, mf_source_device = ae_device V,
                 mf_identifiers = ids, mf_record_ikm = mf_record_ikm current\<rparr>, recs)))"

definition write_manifest_edit ::
  "('w, 'e) account_env \<Rightarrow> manifest \<Rightarrow> (item_type \<times> bytes) list \<Rightarrow> bytes list \<Rightarrow>
   ('w, 'e error, bytes list) io" where
  "write_manifest_edit V current inserts delete_ids =
     bindE (plan_manifest_edit V current inserts delete_ids) (\<lambda>(m, recs).
       attempt (ae_write_items V m recs delete_ids) (\<lambda>r.
         case r of
           Inr () \<Rightarrow> ok (map fst recs)
         | Inl SS_Conflict \<Rightarrow> err StorageManifestConflict
         | Inl e \<Rightarrow> err (StorageServiceError e)))"

definition write_replacing_storage_record ::
  "('w, 'e) account_env \<Rightarrow> manifest \<Rightarrow> item_type \<Rightarrow> bytes \<Rightarrow> bytes \<Rightarrow> ('w, 'e error, bytes) io" where
  "write_replacing_storage_record V current ty old_raw_id new_record =
     bindE (write_manifest_edit V current [(ty, new_record)] [old_raw_id]) (\<lambda>ids. ok (hd ids))"

section \<open>The record of a key\<close>

definition set_needs_storage_sync ::
  "('w, 'e) account_env \<Rightarrow> storage_record_key \<Rightarrow> bool \<Rightarrow> ('w, 'e error, unit) io" where
  "set_needs_storage_sync V key b =
     (case key of
        KeyContact sid \<Rightarrow> st (set_contact_needs_storage_sync (ae_store V) sid b)
      | KeyGroupV2 mk \<Rightarrow> st (set_group_needs_storage_sync (ae_store V) mk b)
      | KeyChatFolder i \<Rightarrow> st (set_chat_folder_needs_storage_sync (ae_store V) i b)
      | KeyStickerPack i \<Rightarrow> st (set_sticker_pack_needs_storage_sync (ae_store V) i b)
      | KeyAccount \<Rightarrow> st (set_account_needs_storage_sync (ae_store V) b))"

definition storage_identity ::
  "('w, 'e) account_env \<Rightarrow> storage_record_key \<Rightarrow> ('w, 'e error, storage_record_identity option) io" where
  "storage_identity V key =
     (case key of
        KeyContact sid \<Rightarrow> st (contact_storage_identity (ae_store V) sid)
      | KeyGroupV2 mk \<Rightarrow> st (group_storage_identity (ae_store V) mk)
      | KeyChatFolder i \<Rightarrow> st (chat_folder_storage_identity (ae_store V) i)
      | KeyStickerPack i \<Rightarrow> st (sticker_pack_storage_identity (ae_store V) i)
      | KeyAccount \<Rightarrow> st (account_storage_identity (ae_store V)))"

definition save_storage_identity ::
  "('w, 'e) account_env \<Rightarrow> storage_record_key \<Rightarrow> storage_record_identity \<Rightarrow> ('w, 'e error, unit) io" where
  "save_storage_identity V key i =
     (case key of
        KeyContact sid \<Rightarrow> st (save_contact_storage_identity (ae_store V) sid i)
      | KeyGroupV2 mk \<Rightarrow> st (save_group_storage_identity (ae_store V) mk i)
      | KeyChatFolder u \<Rightarrow> st (save_chat_folder_storage_identity (ae_store V) u i)
      | KeyStickerPack p \<Rightarrow> st (save_sticker_pack_storage_identity (ae_store V) p i)
      | KeyAccount \<Rightarrow> st (save_account_storage_identity (ae_store V) i))"

section \<open>Updating a record\<close>

definition MAX_PASSES :: nat where "MAX_PASSES = MANIFEST_WRITE_ATTEMPTS * 2"

text \<open>
  One pass of the loop of \<open>update_storage_record\<close>: it returns, fails, or asks for another pass,
  \<open>Again attempts\<close>, after a sync or a back-off. \<open>Stop\<close> is the loop's \<open>break\<close>.
\<close>

datatype pass = Done | Again nat | Stop

text \<open>A refused write: back off and try again, or stop when the attempts are used up.\<close>

definition retry_or_stop ::
  "('w, 'e) account_env \<Rightarrow> nat \<Rightarrow> 'e error \<Rightarrow> ('w, 'e error, pass) io" where
  "retry_or_stop V attempts e =
     (if e = StorageManifestConflict \<or> e = StorageRecordMoved then
        (case backoff_get attempts of
           None \<Rightarrow> ok Stop
         | Some d \<Rightarrow> thenE (sleep V d) (ok (Again (attempts + 1))))
      else err e)"

text \<open>The bookkeeping after an accepted write.\<close>

definition record_written ::
  "('w, 'e) account_env \<Rightarrow> storage_record_key \<Rightarrow> u64 \<Rightarrow> bytes \<Rightarrow> bytes \<Rightarrow> ('w, 'e error, pass) io" where
  "record_written V key version new_raw_id new_record =
     thenE (st (store_storage_manifest_version (ae_store V) version))
    (thenE (save_storage_identity V key
         \<lparr>si_storage_id = new_raw_id, si_storage_version = version, si_record = new_record\<rparr>)
    (thenE (set_needs_storage_sync V key False)
    (thenE (notify_storage_manifest_written V) (ok Done))))"

definition write_edited ::
  "('w, 'e) account_env \<Rightarrow> storage_record_key \<Rightarrow> manifest \<Rightarrow> nat \<Rightarrow> bytes \<Rightarrow> bytes \<Rightarrow>
   ('w, 'e error, pass) io" where
  "write_edited V key current attempts storage_id new_record =
     attempt (write_replacing_storage_record V current (item_type_of key) storage_id new_record) (\<lambda>r.
       case r of
         Inr new_raw_id \<Rightarrow> record_written V key (mf_version current + 1) new_raw_id new_record
       | Inl e \<Rightarrow> retry_or_stop V attempts e)"

definition update_pass ::
  "('w, 'e) account_env \<Rightarrow> storage_record_key \<Rightarrow> (bytes \<Rightarrow> edit_error + bytes option) \<Rightarrow> nat \<Rightarrow>
   ('w, 'e error, pass) io" where
  "update_pass V key edit attempts =
     bindE (st (fetch_storage_manifest_version (ae_store V))) (\<lambda>local_version.
     bindE (ae_manifest V) (\<lambda>current.
       if mf_version current \<noteq> local_version then thenE (ae_sync V) (ok (Again attempts))
       else bindE (storage_identity V key) (\<lambda>identity.
         case identity of
           None \<Rightarrow> err StorageRecordUnknown
         | Some i \<Rightarrow>
             bindE (map_err StorageRecordEditError (lift_res (edit (si_record i)))) (\<lambda>edited.
               case edited of
                 None \<Rightarrow> thenE (set_needs_storage_sync V key False) (ok Done)
               | Some new_record \<Rightarrow>
                   write_edited V key current attempts (si_storage_id i) new_record))))"

fun update_passes ::
  "('w, 'e) account_env \<Rightarrow> storage_record_key \<Rightarrow> (bytes \<Rightarrow> edit_error + bytes option) \<Rightarrow> nat \<Rightarrow> nat \<Rightarrow>
   ('w, 'e error, unit) io" where
  "update_passes V key edit 0 attempts = err StorageManifestConflict"
| "update_passes V key edit (Suc n) attempts =
     bindE (update_pass V key edit attempts) (\<lambda>p.
       case p of
         Done \<Rightarrow> ok ()
       | Again attempts' \<Rightarrow> update_passes V key edit n attempts'
       | Stop \<Rightarrow> err StorageManifestConflict)"

definition update_storage_record ::
  "('w, 'e) account_env \<Rightarrow> storage_record_key \<Rightarrow> (bytes \<Rightarrow> edit_error + bytes option) \<Rightarrow>
   ('w, 'e error, unit) io" where
  "update_storage_record V key edit =
     thenE (set_needs_storage_sync V key True)
    (thenE (storage_service V)
    (update_passes V key edit MAX_PASSES 0))"

definition append_record ::
  "('w, 'e) account_env \<Rightarrow> storage_record_key \<Rightarrow> bytes \<Rightarrow> ('w, 'e error, unit) io" where
  "append_record V key encoded =
     bindE (append_storage_record V (item_type_of key) encoded) (\<lambda>storage_id.
     bindE (st (fetch_storage_manifest_version (ae_store V))) (\<lambda>version.
       thenE (save_storage_identity V key
           \<lparr>si_storage_id = storage_id, si_storage_version = version, si_record = encoded\<rparr>)
         (set_needs_storage_sync V key False)))"

end
