(* ===== verification/Drains.thy ===== *)
theory Drains
  imports Manifest Merge
begin

text \<open>
  Publishing what changed here (\<open>presage/src/manager/storage.rs\<close>, lines 560 to 1020): the drains
  \<open>push_pending_*\<close> and the one-record publishers they call. Contact, group and sticker pack share
  one shape, \<open>publish_row\<close>: load the row, bring its record in line or append a first one, and
  raise the flag again if the row moved meanwhile. The account has no append; the folders go
  out in a single write.
\<close>

section \<open>One record\<close>

definition publish_row ::
  "('w, 'e) account_env \<Rightarrow> storage_record_key \<Rightarrow> ('w, 'e, 'r option) io \<Rightarrow>
   ('r \<Rightarrow> bytes \<Rightarrow> edit_error + bytes option) \<Rightarrow> ('r \<Rightarrow> bytes) \<Rightarrow> ('r \<Rightarrow> 'r \<Rightarrow> bool) \<Rightarrow>
   ('w, 'e error, unit) io" where
  "publish_row V key load edit fresh changed =
     bindE (st load) (\<lambda>row.
       case row of
         None \<Rightarrow> set_needs_storage_sync V key False
       | Some r \<Rightarrow>
           thenE (attempt (update_storage_record V key (edit r)) (\<lambda>res.
                    case res of
                      Inl e \<Rightarrow> if e = StorageRecordUnknown then append_record V key (fresh r) else err e
                    | Inr () \<Rightarrow> ok ()))
             (bindE (st load) (\<lambda>current.
                case current of
                  None \<Rightarrow> ok ()
                | Some c \<Rightarrow> if changed c r then set_needs_storage_sync V key True else ok ())))"

text \<open>The closures the three publishers pass to \<open>update_storage_record\<close>.\<close>

definition contact_edit :: "contact \<Rightarrow> bytes \<Rightarrow> edit_error + bytes option" where
  "contact_edit c rec =
     res_bind (pending_diff rec c) (\<lambda>d.
       if pending_any d then res_map Some (pending_apply d rec c) else Inr None)"

definition group_edit :: "group \<Rightarrow> bytes \<Rightarrow> edit_error + bytes option" where
  "group_edit g rec =
     res_bind (group_pending_diff rec g) (\<lambda>d.
       if group_pending_any d then res_map Some (group_pending_apply d rec g) else Inr None)"

definition account_edit :: "account_chat_state \<Rightarrow> bytes \<Rightarrow> edit_error + bytes option" where
  "account_edit s rec =
     res_bind (account_pending_diff rec s) (\<lambda>d.
       if account_pending_any d then res_map Some (account_pending_apply d rec s) else Inr None)"

definition sticker_edit ::
  "(bytes \<Rightarrow> sticker_pack_record option) \<Rightarrow> sticker_pack_record_state \<Rightarrow> bytes \<Rightarrow>
   edit_error + bytes option" where
  "sticker_edit decode wanted rec =
     res_bind (sticker_pack_state decode rec) (\<lambda>held.
       if published_as wanted held then Inr None
       else res_map Some (set_sticker_pack_state rec wanted))"

definition push_contact_record :: "('w, 'e) account_env \<Rightarrow> service_id \<Rightarrow> ('w, 'e error, unit) io" where
  "push_contact_record V sid =
     publish_row V (KeyContact sid) (contact_by_id (ae_store V) sid) contact_edit
       (\<lambda>c. ae_encode_contact V (contact_to_new_storage_record (ae_contact_codec V) c))
       (\<lambda>current c. pending_any (pending_between current c))"

definition push_group_record :: "('w, 'e) account_env \<Rightarrow> key32 \<Rightarrow> ('w, 'e error, unit) io" where
  "push_group_record V mk =
     publish_row V (KeyGroupV2 mk) (load_group (ae_store V) mk) group_edit
       (\<lambda>g. ae_encode_group V (group_to_new_storage_record g mk))
       (\<lambda>current g. group_pending_any (group_pending_between current g))"

definition push_sticker_pack_record :: "('w, 'e) account_env \<Rightarrow> bytes \<Rightarrow> ('w, 'e error, unit) io" where
  "push_sticker_pack_record V pid =
     publish_row V (KeyStickerPack pid) (sticker_pack_record_state_op (ae_store V) pid)
       (sticker_edit (ae_decode_sticker V))
       (\<lambda>wanted. ae_encode_sticker V (sticker_to_record wanted pid))
       (\<lambda>current wanted. \<not> published_as current wanted)"

section \<open>The drains\<close>

text \<open>\<open>for x in pending { if let Err(e) = push(x) { warn } }\<close>\<close>

definition drain ::
  "('w, 'e, 'k list) io \<Rightarrow> ('k \<Rightarrow> ('w, 'e error, unit) io) \<Rightarrow> ('w, 'e error, unit) io" where
  "drain pending push =
     bindE (st pending) (\<lambda>ks. if ks = [] then ok () else call (\<lambda>w. ((), for_each_ignore ks push w)))"

definition push_pending_contact_records :: "('w, 'e) account_env \<Rightarrow> ('w, 'e error, unit) io" where
  "push_pending_contact_records V =
     drain (contacts_needing_storage_sync (ae_store V)) (push_contact_record V)"

definition push_pending_group_records :: "('w, 'e) account_env \<Rightarrow> ('w, 'e error, unit) io" where
  "push_pending_group_records V =
     drain (groups_needing_storage_sync (ae_store V)) (push_group_record V)"

definition push_pending_sticker_pack_records :: "('w, 'e) account_env \<Rightarrow> ('w, 'e error, unit) io" where
  "push_pending_sticker_pack_records V =
     drain (sticker_packs_needing_storage_sync (ae_store V)) (push_sticker_pack_record V)"

definition push_pending_account_record :: "('w, 'e) account_env \<Rightarrow> ('w, 'e error, unit) io" where
  "push_pending_account_record V =
     bindE (st (account_needs_storage_sync (ae_store V))) (\<lambda>needed.
       if \<not> needed then ok ()
       else bindE (st (account_chat_state_op (ae_store V))) (\<lambda>state.
         thenE (update_storage_record V KeyAccount (account_edit state))
           (bindE (st (account_chat_state_op (ae_store V))) (\<lambda>current.
              if account_pending_any (account_pending_between current state)
              then st (set_account_needs_storage_sync (ae_store V) True) else ok ()))))"

section \<open>Chat folders\<close>

definition expired_chat_folder_tombstones ::
  "('w, 'e) account_env \<Rightarrow> ('w, 'e error, uuid list) io" where
  "expired_chat_folder_tombstones V =
     bindE (call (ae_now_ms V)) (\<lambda>now.
     bindE (st (stored_chat_folders (ae_store V))) (\<lambda>fs.
       ok (map cf_id (filter (\<lambda>f. chat_folder_tombstone_expired f now) fs))))"

definition purge_chat_folders :: "('w, 'e) account_env \<Rightarrow> uuid list \<Rightarrow> ('w, 'e error, unit) io" where
  "purge_chat_folders V ids = for_each ids (\<lambda>i. st (drop_chat_folder (ae_store V) i))"

text \<open>
  The pending folders, one by one: the record each is published as and the identifier it
  replaces. A folder that is gone has its flag cleared and is skipped.
\<close>

definition folder_record ::
  "('w, 'e) account_env \<Rightarrow> chat_folder \<Rightarrow> storage_record_identity option \<Rightarrow> 'e error + bytes" where
  "folder_record V f identity =
     (case identity of
        None \<Rightarrow> Inr (encode_chat_folder_record (ae_encode_folder V) (ae_codec V) f [])
      | Some i \<Rightarrow>
          (case chat_folder_unknown_fields (si_record i) of
             Inl e \<Rightarrow> Inl (StorageRecordEditError e)
           | Inr unknown \<Rightarrow> Inr (encode_chat_folder_record (ae_encode_folder V) (ae_codec V) f unknown)))"

fun collect_folders ::
  "('w, 'e) account_env \<Rightarrow> uuid list \<Rightarrow> ('w, 'e error, (uuid \<times> bytes) list \<times> bytes list) io" where
  "collect_folders V [] = ok ([], [])"
| "collect_folders V (i # pending) =
     bindE (st (load_chat_folder (ae_store V) i)) (\<lambda>folder.
       case folder of
         None \<Rightarrow> thenE (st (set_chat_folder_needs_storage_sync (ae_store V) i False))
                   (collect_folders V pending)
       | Some f \<Rightarrow>
           bindE (st (chat_folder_storage_identity (ae_store V) i)) (\<lambda>identity.
           bindE (lift_res (folder_record V f identity)) (\<lambda>rec.
           bindE (collect_folders V pending) (\<lambda>(published, deletes).
             ok ((i, rec) # published,
                 (case identity of None \<Rightarrow> deletes | Some d \<Rightarrow> si_storage_id d # deletes))))))"

fun collect_expired :: "('w, 'e) account_env \<Rightarrow> uuid list \<Rightarrow> ('w, 'e error, bytes list) io" where
  "collect_expired V [] = ok []"
| "collect_expired V (i # expired) =
     bindE (st (chat_folder_storage_identity (ae_store V) i)) (\<lambda>identity.
     bindE (collect_expired V expired) (\<lambda>deletes.
       ok (case identity of None \<Rightarrow> deletes | Some d \<Rightarrow> si_storage_id d # deletes)))"

definition folders_published ::
  "('w, 'e) account_env \<Rightarrow> u64 \<Rightarrow> (uuid \<times> bytes) list \<Rightarrow> bytes list \<Rightarrow> ('w, 'e error, unit) io" where
  "folders_published V version published new_ids =
     for_each (zip published new_ids) (\<lambda>((i, rec), storage_id).
       thenE (st (save_chat_folder_storage_identity (ae_store V) i
                \<lparr>si_storage_id = storage_id, si_storage_version = version, si_record = rec\<rparr>))
         (st (set_chat_folder_needs_storage_sync (ae_store V) i False)))"

definition folder_pass ::
  "('w, 'e) account_env \<Rightarrow> uuid list \<Rightarrow> uuid list \<Rightarrow> nat \<Rightarrow> ('w, 'e error, pass) io" where
  "folder_pass V pending expired attempts =
     bindE (st (fetch_storage_manifest_version (ae_store V))) (\<lambda>local_version.
     bindE (ae_manifest V) (\<lambda>current.
       if mf_version current \<noteq> local_version then thenE (ae_sync V) (ok (Again attempts))
       else bindE (collect_folders V pending) (\<lambda>(published, replaced).
            bindE (collect_expired V expired) (\<lambda>dropped.
              if published = [] \<and> replaced @ dropped = []
              then thenE (purge_chat_folders V expired) (ok Done)
              else attempt (write_manifest_edit V current
                       (map (\<lambda>(_, rec). (Item_ChatFolder, rec)) published) (replaced @ dropped))
                     (\<lambda>r. case r of
                        Inr new_ids \<Rightarrow>
                          let version = mf_version current + 1 in
                          thenE (st (store_storage_manifest_version (ae_store V) version))
                         (thenE (folders_published V version published new_ids)
                         (thenE (purge_chat_folders V expired)
                         (thenE (notify_storage_manifest_written V) (ok Done))))
                      | Inl e \<Rightarrow> retry_or_stop V attempts e)))))"

fun folder_passes ::
  "('w, 'e) account_env \<Rightarrow> uuid list \<Rightarrow> uuid list \<Rightarrow> nat \<Rightarrow> nat \<Rightarrow> ('w, 'e error, unit) io" where
  "folder_passes V pending expired 0 attempts = err StorageManifestConflict"
| "folder_passes V pending expired (Suc n) attempts =
     bindE (folder_pass V pending expired attempts) (\<lambda>p.
       case p of
         Done \<Rightarrow> ok ()
       | Again attempts' \<Rightarrow> folder_passes V pending expired n attempts'
       | Stop \<Rightarrow> err StorageManifestConflict)"

definition push_pending_chat_folder_records :: "('w, 'e) account_env \<Rightarrow> ('w, 'e error, unit) io" where
  "push_pending_chat_folder_records V =
     bindE (expired_chat_folder_tombstones V) (\<lambda>expired.
     bindE (st (chat_folders_needing_storage_sync (ae_store V))) (\<lambda>flagged.
       let pending = filter (\<lambda>i. i \<notin> set expired) flagged in
       if pending = [] \<and> expired = [] then ok ()
       else thenE (storage_service V) (folder_passes V pending expired MAX_PASSES 0)))"

end
