(* ===== verification/Manifest_Laws.thy ===== *)
theory Manifest_Laws
  imports Drains Merge_Laws "HOL-Library.Sublist"
begin

text \<open>
  What a manifest write may change, and what a publish leaves behind. The documented behaviour of
  the parts outside the repository is stated as two predicates: \<open>server_ok\<close> (the storage service
  accepts a manifest only on top of the version it holds) and \<open>publisher_ok\<close> (the store's flag
  and identity columns of one record, which only their setters change).
\<close>

section \<open>Edits of the identifier list\<close>

lemma filter_length_split:
  "length xs - length (filter (\<lambda>x. \<not> P x) xs) = length (filter P xs)"
proof -
  have "length (filter P xs) + length (filter (\<lambda>x. \<not> P x) xs) = length xs"
    by (rule sum_length_filter_compl)
  then show ?thesis by linarith
qed

lemma drop_identifiers_spec:
  "drop_identifiers dels ids = Inr kept \<longleftrightarrow>
   distinct dels \<and> (\<forall>d \<in> set dels. length (filter (\<lambda>i. id_raw i = d) ids) = 1) \<and>
   kept = filter (\<lambda>i. id_raw i \<notin> set dels) ids"
proof (induction dels arbitrary: ids)
  case (Cons d dels)
  let ?ids = "filter (\<lambda>i. id_raw i \<noteq> d) ids"
  have n: "length ids - length ?ids = length (filter (\<lambda>i. id_raw i = d) ids)"
    using filter_length_split [of ids "\<lambda>i. id_raw i = d"] by simp
  have f: "length (filter (\<lambda>i. id_raw i = e) ?ids) =
      (if e = d then 0 else length (filter (\<lambda>i. id_raw i = e) ids))" for e
    by (auto simp: filter_empty_conv intro: arg_cong [where f = length] filter_cong)
  have a: "(distinct dels \<and> (\<forall>e \<in> set dels. length (filter (\<lambda>i. id_raw i = e) ?ids) = 1)) \<longleftrightarrow>
      (d \<notin> set dels \<and> distinct dels \<and> (\<forall>e \<in> set dels. length (filter (\<lambda>i. id_raw i = e) ids) = 1))"
    unfolding f by (metis zero_neq_one)
  have k: "filter (\<lambda>i. id_raw i \<notin> set dels) ?ids = filter (\<lambda>i. id_raw i \<notin> set (d # dels)) ids"
    by (simp add: conj_commute)
  show ?case
    unfolding drop_identifiers.simps Let_def n
    using a Cons.IH [of ?ids] k by auto
qed auto

lemma drop_identifiers_error:
  "drop_identifiers dels ids = Inl e \<Longrightarrow> e = StorageRecordMoved"
  by (induction dels arbitrary: ids) (auto simp: Let_def split: if_splits)

lemma drop_identifiers_length:
  "drop_identifiers dels ids = Inr kept \<Longrightarrow> length kept + length dels = length ids"
  by (induction dels arbitrary: ids) (fastforce simp: Let_def split: if_splits)+

definition fresh_identifiers :: "(item_type \<times> bytes) list \<Rightarrow> (bytes \<times> bytes) list \<Rightarrow> manifest_identifier list" where
  "fresh_identifiers inserts recs =
     map2 (\<lambda>(ty, _) (raw_id, _). \<lparr>id_raw = raw_id, id_type = ty\<rparr>) inserts recs"

lemma add_identifiers_spec:
  "add_identifiers V inserts ids w = (Inr (ids', recs), w') \<Longrightarrow>
   ids' = ids @ fresh_identifiers inserts recs \<and> map snd recs = map snd inserts \<and>
   distinct (map fst recs) \<and> set (map fst recs) \<inter> id_raw ` set ids = {}"
proof (induction V inserts ids arbitrary: w ids' recs rule: add_identifiers.induct)
  case (2 V ty rec inserts ids)
  from 2(2) obtain raw w1 rest where 1: "ae_random16 V w = (raw, w1)"
    "\<not> list_ex (\<lambda>i. id_raw i = raw) ids"
    "add_identifiers V inserts (ids @ [\<lparr>id_raw = raw, id_type = ty\<rparr>]) w1 = (Inr (ids', rest), w')"
    "recs = (raw, rec) # rest"
    by (auto simp: io_simps split: prod.splits sum.splits if_splits)
  from 2(1) [OF 1(2,3)] 1(2,4) show ?case
    by (auto simp: fresh_identifiers_def list_ex_iff)
qed (simp add: io_simps fresh_identifiers_def)

lemma add_identifiers_error:
  "add_identifiers V inserts ids w = (Inl e, w') \<Longrightarrow> e = StorageManifestConflict"
proof (induction V inserts ids arbitrary: w rule: add_identifiers.induct)
  case (2 V ty rec inserts ids)
  then show ?case
    by (fastforce simp: io_simps split: prod.splits sum.splits if_splits)
qed (simp add: io_simps)

definition edited_manifest ::
  "('w, 'e) account_env \<Rightarrow> manifest \<Rightarrow> (item_type \<times> bytes) list \<Rightarrow> bytes list \<Rightarrow> (bytes \<times> bytes) list \<Rightarrow> manifest" where
  "edited_manifest V current inserts delete_ids recs =
     \<lparr>mf_version = mf_version current + 1, mf_source_device = ae_device V,
      mf_identifiers = filter (\<lambda>i. id_raw i \<notin> set delete_ids) (mf_identifiers current) @
        fresh_identifiers inserts recs,
      mf_record_ikm = mf_record_ikm current\<rparr>"

lemma plan_manifest_edit_spec:
  fixes V :: "('w, 'e) account_env"
  assumes "plan_manifest_edit V current inserts delete_ids w = (Inr (m, recs), w')"
  shows "m = edited_manifest V current inserts delete_ids recs \<and>
    map snd recs = map snd inserts \<and> distinct (map fst recs) \<and> distinct delete_ids \<and>
    (\<forall>d \<in> set delete_ids. length (filter (\<lambda>i. id_raw i = d) (mf_identifiers current)) = 1) \<and>
    (\<forall>i \<in> set (map fst recs). i \<notin> id_raw ` {x \<in> set (mf_identifiers current). id_raw x \<notin> set delete_ids})"
proof -
  from assms obtain kept ids where
    d: "drop_identifiers delete_ids (mf_identifiers current) = (Inr kept :: 'e error + _)" and
    a: "add_identifiers V inserts kept w = (Inr (ids, recs), w')" and
    m: "m = \<lparr>mf_version = mf_version current + 1, mf_source_device = ae_device V,
                 mf_identifiers = ids, mf_record_ikm = mf_record_ikm current\<rparr>"
    by (auto simp: plan_manifest_edit_def io_simps split: prod.splits sum.splits if_splits)
  from d add_identifiers_spec [OF a] m show ?thesis
    unfolding drop_identifiers_spec edited_manifest_def by auto
qed

text \<open>The count check never fires: it is implied by the two loops before it.\<close>

lemma plan_manifest_edit_error:
  assumes "plan_manifest_edit V current inserts delete_ids w = (Inl e, w')"
  shows "e = StorageRecordMoved \<or> e = StorageManifestConflict"
  using assms drop_identifiers_error add_identifiers_error
  by (fastforce simp: plan_manifest_edit_def io_simps split: prod.splits sum.splits if_splits)

lemma plan_manifest_edit_count:
  fixes V :: "('w, 'e) account_env"
  assumes "drop_identifiers delete_ids (mf_identifiers current) = (Inr kept :: 'e error + _)"
    "add_identifiers V inserts kept w = (Inr (ids, recs), w')"
  shows "length ids = length (mf_identifiers current) + length recs - length delete_ids"
proof -
  have "length recs = length inserts"
    using add_identifiers_spec [OF assms(2)] by (metis length_map)
  with drop_identifiers_length [OF assms(1)] add_identifiers_spec [OF assms(2)]
  show ?thesis by (simp add: fresh_identifiers_def)
qed

section \<open>The storage service\<close>

text \<open>
  \<open>log\<close> are the manifests the service has accepted, in order. Reading returns one of them,
  whatever other devices write meanwhile; a write is accepted only on top of the newest, one
  version up; no version is accepted twice.
\<close>

definition server_ok :: "('w, 'e) account_env \<Rightarrow> ('w \<Rightarrow> manifest list) \<Rightarrow> bool" where
  "server_ok V log \<longleftrightarrow>
     (\<forall>w. distinct (map mf_version (log w))) \<and>
     (\<forall>w m w'. ae_manifest V w = (Inr m, w') \<longrightarrow> m \<in> set (log w')) \<and>
     (\<forall>w. prefix (log w) (log (snd (ae_random16 V w)))) \<and>
     (\<forall>w m recs dels w'. ae_write_items V m recs dels w = (Inr (), w') \<longrightarrow>
        (\<exists>pre post. log w' = pre @ [m] @ post \<and> prefix (log w) pre \<and> pre \<noteq> [] \<and>
           mf_version m = mf_version (last pre) + 1))"

lemma distinct_versionsD:
  assumes "distinct (map mf_version ms)" "x \<in> set ms" "y \<in> set ms" "mf_version x = mf_version y"
  shows "x = y"
  using assms by (auto simp: distinct_map dest: inj_onD)

lemma server_write_on_top:
  assumes ok: "server_ok V log" and cur: "current \<in> set (log w)"
    and acc: "ae_write_items V m recs dels w = (Inr (), w')"
    and v: "mf_version m = mf_version current + 1"
  shows "\<exists>pre post. log w' = pre @ [current, m] @ post"
proof -
  from ok acc obtain pre post where p: "log w' = pre @ [m] @ post" "prefix (log w) pre" "pre \<noteq> []"
    "mf_version m = mf_version (last pre) + 1"
    unfolding server_ok_def by blast
  have "mf_version (last pre) = mf_version current" using v p(4) by simp
  moreover have "current \<in> set pre" using cur p(2) set_mono_prefix by blast
  moreover have "distinct (map mf_version pre)"
    using ok p(1) unfolding server_ok_def by (metis distinct_append map_append)
  ultimately have "last pre = current"
    using distinct_versionsD [of pre "last pre" current] p(3) by auto
  then have "pre = butlast pre @ [current]" using p(3) by (metis append_butlast_last_id)
  then show ?thesis using p(1) by (metis append.assoc append_Cons append_Nil)
qed

lemma add_identifiers_log:
  "server_ok V log \<Longrightarrow> add_identifiers V inserts ids w = (r, w') \<Longrightarrow> prefix (log w) (log w')"
proof (induction V inserts ids arbitrary: w w' r rule: add_identifiers.induct)
  case (2 V ty rec inserts ids)
  obtain raw w1 where r: "ae_random16 V w = (raw, w1)" by fastforce
  have p: "prefix (log w) (log w1)" using 2(2) r unfolding server_ok_def by (metis snd_conv)
  show ?case
  proof (cases "list_ex (\<lambda>i. id_raw i = raw) ids")
    case True
    with 2(3) r p show ?thesis by (simp add: io_simps)
  next
    case False
    obtain r2 w2 where a: "add_identifiers V inserts (ids @ [\<lparr>id_raw = raw, id_type = ty\<rparr>]) w1 = (r2, w2)"
      by fastforce
    with 2(3) r False have "w' = w2" by (auto simp: io_simps split: sum.splits)
    with 2(1) [OF False 2(2) a] p show ?thesis by (meson prefix_order.trans)
  qed
qed (simp add: io_simps)

lemma plan_manifest_edit_log:
  assumes "server_ok V log" "plan_manifest_edit V current inserts delete_ids w = (r, w')"
  shows "prefix (log w) (log w')"
  using assms(2) add_identifiers_log [OF assms(1)]
  by (fastforce simp: plan_manifest_edit_def io_simps split: prod.splits sum.splits if_splits)

text \<open>C2. An accepted manifest edit changes exactly what it names. Whatever other devices write in
  the meantime, the manifest the service accepts follows directly on the one the edit was
  built from, is one version up, keeps the key material and every other identifier with its
  type and position, drops each named identifier (which occurred exactly once) and ends with one
  fresh, unused identifier per inserted record, in order.\<close>

theorem manifest_edit_exact:
  assumes "server_ok V log" "current \<in> set (log w)"
    and "write_manifest_edit V current inserts delete_ids w = (Inr new_ids, w')"
  shows "\<exists>m pre post. log w' = pre @ [current, m] @ post \<and>
    mf_version m = mf_version current + 1 \<and> mf_record_ikm m = mf_record_ikm current \<and>
    mf_identifiers m = filter (\<lambda>i. id_raw i \<notin> set delete_ids) (mf_identifiers current) @
      map2 (\<lambda>(ty, _) i. \<lparr>id_raw = i, id_type = ty\<rparr>) inserts new_ids \<and>
    length new_ids = length inserts \<and> distinct new_ids \<and>
    set new_ids \<inter> id_raw ` {i \<in> set (mf_identifiers current). id_raw i \<notin> set delete_ids} = {} \<and>
    (\<forall>d \<in> set delete_ids. length (filter (\<lambda>i. id_raw i = d) (mf_identifiers current)) = 1)"
proof -
  from assms(3) obtain m recs w1 where
    p: "plan_manifest_edit V current inserts delete_ids w = (Inr (m, recs), w1)" and
    wr: "ae_write_items V m recs delete_ids w1 = (Inr (), w')" and n: "new_ids = map fst recs"
    by (auto simp: write_manifest_edit_def io_simps split: prod.splits sum.splits
        storage_service_error.splits unit.splits)
  note s = plan_manifest_edit_spec [OF p]
  have len: "length recs = length inserts" using s by (metis length_map)
  have cur: "current \<in> set (log w1)"
    using assms(2) plan_manifest_edit_log [OF assms(1) p] set_mono_prefix by blast
  have v: "mf_version m = mf_version current + 1" using s by (simp add: edited_manifest_def)
  obtain pre post where log: "log w' = pre @ [current, m] @ post"
    using server_write_on_top [OF assms(1) cur wr v] by blast
  have fresh: "fresh_identifiers inserts recs =
      map2 (\<lambda>(ty, _) i. \<lparr>id_raw = i, id_type = ty\<rparr>) inserts new_ids"
    using len unfolding fresh_identifiers_def n
    by (induction inserts recs rule: list_induct2') auto
  show ?thesis
    using s log len unfolding fresh [symmetric]
    by (intro exI [of _ m] exI [of _ pre] exI [of _ post]) (auto simp: edited_manifest_def n)
qed

end
