(* ===== verification/Publish.thy ===== *)
theory Publish
  imports Manifest_Laws
begin

text \<open>
  What a publisher leaves behind. The world may change under every call: other devices write the
  manifest, other tasks edit the row. What a publish relies on is stated as two predicates over
  three readings of the world, the needs-sync flag of the record, its stored identity and its
  row: \<open>publisher_ok\<close> (who may change the flag and the identity) and \<open>row_ok\<close> (loading reads the
  row and changes nothing of the three).
\<close>

section \<open>The readings of a record\<close>

definition calls_keep :: "('w, 'e) account_env \<Rightarrow> ('w \<Rightarrow> bool) \<Rightarrow> bool" where
  "calls_keep V P \<longleftrightarrow>
     keeps P (ae_master_key V) \<and> keeps P (ae_open V) \<and> keeps P (ae_manifest V) \<and> keeps P (ae_sync V) \<and>
     (\<forall>m recs dels. keeps P (ae_write_items V m recs dels)) \<and>
     (\<forall>w. P w \<longrightarrow> P (snd (ae_random16 V w))) \<and> (\<forall>d w. P w \<longrightarrow> P (ae_sleep V d w)) \<and>
     keeps P (ae_new_sender V) \<and> keeps P (ae_send_fetch_latest V) \<and>
     keeps P (fetch_storage_manifest_version (ae_store V)) \<and>
     (\<forall>v. keeps P (store_storage_manifest_version (ae_store V) v))"

text \<open>
  The flag, once raised, is lowered by its setter alone. The identity is what its getter returns;
  the setter of the flag and the notification leave it alone. A record is a byte string in
  memory, shorter than \<open>isize::MAX\<close>.
\<close>

definition publisher_ok ::
  "('w, 'e) account_env \<Rightarrow> storage_record_key \<Rightarrow> ('w \<Rightarrow> bool) \<Rightarrow>
   ('w \<Rightarrow> storage_record_identity option) \<Rightarrow> bool" where
  "publisher_ok V key flag ident \<longleftrightarrow>
     calls_keep V flag \<and> keeps flag (storage_identity V key) \<and>
     (\<forall>i. keeps flag (save_storage_identity V key i)) \<and>
     triple (\<lambda>_. True) (set_needs_storage_sync V key True) (\<lambda>_. flag) (\<lambda>_ _. True) \<and>
     triple flag (set_needs_storage_sync V key True) (\<lambda>_. flag) (\<lambda>_. flag) \<and>
     triple flag (set_needs_storage_sync V key False) (\<lambda>_ _. True) (\<lambda>_. flag) \<and>
     triple (\<lambda>_. True) (storage_identity V key) (\<lambda>x w. ident w = x) (\<lambda>_ _. True) \<and>
     (\<forall>i. triple (\<lambda>_. True) (save_storage_identity V key i) (\<lambda>_ w. ident w = Some i) (\<lambda>_ _. True)) \<and>
     (\<forall>x b. keeps (\<lambda>w. ident w = x) (set_needs_storage_sync V key b)) \<and>
     (\<forall>x. keeps (\<lambda>w. ident w = x) (ae_new_sender V)) \<and>
     (\<forall>x. keeps (\<lambda>w. ident w = x) (ae_send_fetch_latest V)) \<and>
     (\<forall>w i. ident w = Some i \<longrightarrow> length (si_record i) < 2 ^ 63)"

definition row_ok ::
  "('w, 'e) account_env \<Rightarrow> storage_record_key \<Rightarrow> ('w \<Rightarrow> bool) \<Rightarrow>
   ('w \<Rightarrow> storage_record_identity option) \<Rightarrow> ('w, 'e, 'r option) io \<Rightarrow> ('w \<Rightarrow> 'r option) \<Rightarrow> bool" where
  "row_ok V key flag ident load row \<longleftrightarrow>
     triple (\<lambda>_. True) load (\<lambda>r w. row w = r) (\<lambda>_ _. True) \<and> keeps flag load \<and>
     (\<forall>x. keeps (\<lambda>w. ident w = x) load) \<and>
     (\<forall>x b. keeps (\<lambda>w. row w = x) (set_needs_storage_sync V key b))"

lemma keeps_call [keeps_rules]: "(\<And>w. P w \<Longrightarrow> P (snd (f w))) \<Longrightarrow> keeps P (call f)"
  unfolding keeps_def call_def by (auto split: prod.splits) (metis snd_conv)

lemma keeps_st [keeps_rules]: "keeps P m \<Longrightarrow> keeps P (st m)"
  by (auto simp: st_def)

lemma keeps_case_service_error [keeps_rules]:
  "keeps P f \<Longrightarrow> (\<And>s. keeps P (g s)) \<Longrightarrow>
   keeps P (case e of SS_Conflict \<Rightarrow> f | SS_Other s \<Rightarrow> g s)"
  by (cases e) auto

lemma keeps_notify [keeps_rules]:
  "keeps P (ae_new_sender V) \<Longrightarrow> keeps P (ae_send_fetch_latest V) \<Longrightarrow>
   keeps P (notify_storage_manifest_written V)"
  unfolding notify_storage_manifest_written_def by (intro keeps_rules)

lemma triple_st: "triple P m Q (\<lambda>e. E (StoreError e)) \<Longrightarrow> triple P (st m) Q E"
  unfolding st_def by (rule triple_map_err)

text \<open>\<open>calls_keep\<close> on the operations of theory Manifest that touch neither flag nor identity.\<close>

lemma calls_keepD:
  assumes "calls_keep V P"
  shows "keeps P (ae_master_key V)" "keeps P (ae_open V)" "keeps P (ae_manifest V)" "keeps P (ae_sync V)"
    "keeps P (ae_write_items V m recs dels)" "keeps P (call (ae_random16 V))" "keeps P (sleep V d)"
    "keeps P (notify_storage_manifest_written V)" "keeps P (fetch_storage_manifest_version (ae_store V))"
    "keeps P (store_storage_manifest_version (ae_store V) v)"
  using assms by (simp_all add: calls_keep_def keeps_notify sleep_def keeps_call)

lemma keeps_storage_service: "calls_keep V P \<Longrightarrow> keeps P (storage_service V)"
  unfolding storage_service_def by (intro keeps_rules calls_keepD)

lemma keeps_add_identifiers: "calls_keep V P \<Longrightarrow> keeps P (add_identifiers V inserts ids)"
proof (induction V inserts ids rule: add_identifiers.induct)
  case (2 V ty rec inserts ids)
  show ?case unfolding add_identifiers.simps
    by (rule keeps_bindE) (use 2 in \<open>auto simp: calls_keepD split: prod.split\<close>)
qed simp

lemma keeps_write_manifest_edit: "calls_keep V P \<Longrightarrow> keeps P (write_manifest_edit V current inserts dels)"
  unfolding write_manifest_edit_def plan_manifest_edit_def
  by (intro keeps_rules keeps_add_identifiers calls_keepD)

lemma keeps_write_replacing:
  "calls_keep V P \<Longrightarrow> keeps P (write_replacing_storage_record V current ty old new_record)"
  unfolding write_replacing_storage_record_def by (intro keeps_rules keeps_write_manifest_edit)

lemma keeps_append_attempts: "calls_keep V P \<Longrightarrow> keeps P (append_attempts V ty rec n)"
proof (induction n)
  case (Suc n)
  then show ?case unfolding append_attempts.simps Let_def
    by (intro keeps_rules calls_keepD)
qed simp

lemma keeps_append_storage_record: "calls_keep V P \<Longrightarrow> keeps P (append_storage_record V ty rec)"
  unfolding append_storage_record_def by (intro keeps_rules keeps_storage_service keeps_append_attempts)

lemma triple_case_sum:
  "(\<And>e. r = Inl e \<Longrightarrow> triple P (f e) Q E) \<Longrightarrow> (\<And>x. r = Inr x \<Longrightarrow> triple P (g x) Q E) \<Longrightarrow>
   triple P (case r of Inl e \<Rightarrow> f e | Inr x \<Rightarrow> g x) Q E"
  by (cases r) auto

lemma triple_if:
  "(b \<Longrightarrow> triple P f Q E) \<Longrightarrow> (\<not> b \<Longrightarrow> triple P g Q E) \<Longrightarrow> triple P (if b then f else g) Q E"
  by auto

section \<open>Updating settles\<close>

definition edit_settles :: "(bytes \<Rightarrow> edit_error + bytes option) \<Rightarrow> bool" where
  "edit_settles edit \<longleftrightarrow>
     (\<forall>rec rec'. length rec < 2 ^ 63 \<longrightarrow> edit rec = Inr (Some rec') \<longrightarrow> edit rec' = Inr None)"

abbreviation settled ::
  "('w \<Rightarrow> storage_record_identity option) \<Rightarrow> (bytes \<Rightarrow> edit_error + bytes option) \<Rightarrow> 'w \<Rightarrow> bool" where
  "settled ident edit \<equiv> \<lambda>w. \<exists>i. ident w = Some i \<and> edit (si_record i) = Inr None"

lemma publisher_okD:
  assumes "publisher_ok V key flag ident"
  shows "calls_keep V flag" "keeps flag (storage_identity V key)"
    "keeps flag (save_storage_identity V key i)"
    "triple (\<lambda>_. True) (set_needs_storage_sync V key True) (\<lambda>_. flag) (\<lambda>_ _. True)"
    "triple flag (set_needs_storage_sync V key True) (\<lambda>_. flag) (\<lambda>_. flag)"
    "triple flag (set_needs_storage_sync V key False) (\<lambda>_ _. True) (\<lambda>_. flag)"
    "triple (\<lambda>_. True) (storage_identity V key) (\<lambda>x w. ident w = x) (\<lambda>_ _. True)"
    "triple (\<lambda>_. True) (save_storage_identity V key i) (\<lambda>_ w. ident w = Some i) (\<lambda>_ _. True)"
    "keeps (\<lambda>w. ident w = x) (set_needs_storage_sync V key b)"
    "keeps (\<lambda>w. ident w = x) (notify_storage_manifest_written V)"
    "ident w = Some j \<Longrightarrow> length (si_record j) < 2 ^ 63"
  using assms unfolding publisher_ok_def by (blast intro: keeps_notify)+

lemma read_identity:
  "publisher_ok V key flag ident \<Longrightarrow>
   triple flag (storage_identity V key) (\<lambda>x w. ident w = x \<and> flag w) (\<lambda>_. flag)"
  by (rule triple_weaken [OF triple_and_keeps [OF publisher_okD(7) publisher_okD(2)]]) auto

lemma save_identity_raised:
  "publisher_ok V key flag ident \<Longrightarrow>
   triple flag (save_storage_identity V key i) (\<lambda>_ w. flag w \<and> ident w = Some i) (\<lambda>_. flag)"
  by (rule triple_weaken [OF triple_and_keeps [OF publisher_okD(8) publisher_okD(3)]]) auto

lemma lower_flag:
  "publisher_ok V key flag ident \<Longrightarrow>
   triple (\<lambda>w. flag w \<and> ident w = x) (set_needs_storage_sync V key False) (\<lambda>_ w. ident w = x) (\<lambda>_. flag)"
  by (rule triple_weaken [OF triple_and_keeps [of flag _ _ "\<lambda>_. flag", OF publisher_okD(6) publisher_okD(9)]]) auto

text \<open>The notification returns normally whatever happens to it.\<close>

lemma triple_of_keeps:
  "keeps P m \<Longrightarrow> (\<And>s. \<exists>x s'. m s = (Inr x, s') \<and> A x) \<Longrightarrow> triple P m (\<lambda>x w. A x \<and> P w) E"
proof (rule tripleI, goal_cases)
  case (1 s x s')
  from 1(2) [of s] 1(4) keepsD [OF 1(1,3)] show ?case by auto
next
  case (2 s e s')
  from 2(2) [of s] 2(4) show ?case by auto
qed

lemma keeps_reading: "(\<And>x. keeps (\<lambda>w. f w = x) m) \<Longrightarrow> keeps (\<lambda>w. R (f w)) m"
  by (simp add: keeps_def)

lemma notify_returns: "\<exists>x s'. notify_storage_manifest_written V s = (Inr x, s')"
  by (cases "ae_new_sender V s"; cases "fst (ae_new_sender V s)")
     (auto simp: notify_storage_manifest_written_def io_simps split: prod.split)

lemma notify_never_fails:
  fixes E :: "'f \<Rightarrow> 'w \<Rightarrow> bool" and V :: "('w, 'e) account_env"
  assumes "keeps P (notify_storage_manifest_written V :: ('w, 'f, unit) io)"
  shows "triple P (notify_storage_manifest_written V) (\<lambda>_. P) E"
proof -
  have "triple P (notify_storage_manifest_written V) (\<lambda>_ w. True \<and> P w) E"
    by (rule triple_of_keeps [OF assms]) (use notify_returns [of V] in simp)
  then show ?thesis by simp
qed

text \<open>A branch that asks for another pass, or gives up, leaves the flag raised.\<close>

lemma not_done_keeps:
  "keeps flag m \<Longrightarrow> (\<And>s. fst (m s) \<noteq> Inr Done) \<Longrightarrow>
   triple flag m (\<lambda>p w. if p = Done then Q w else flag w) (\<lambda>_. flag)"
proof (rule tripleI, goal_cases)
  case (1 s x s')
  from keepsD [OF 1(1,3)] 1(2) [of s] 1(4) show ?case by auto
next
  case (2 s e s')
  from keepsD [OF 2(1,3)] 2(4) show ?case by simp
qed

lemma retry_keeps:
  assumes "calls_keep V flag"
  shows "triple flag (retry_or_stop V attempts e) (\<lambda>p w. if p = Done then Q w else flag w) (\<lambda>_. flag)"
proof (rule not_done_keeps)
  show "keeps flag (retry_or_stop V attempts e)"
    unfolding retry_or_stop_def by (intro keeps_rules calls_keepD [OF assms])
qed (simp add: retry_or_stop_def sleep_def io_simps split: option.split prod.split)

lemma written_settles:
  assumes ok: "publisher_ok V key flag ident" and e: "edit new_record = Inr None"
  shows "triple flag (record_written V key version raw new_record)
    (\<lambda>p w. if p = Done then settled ident edit w else flag w) (\<lambda>_. flag)"
  unfolding record_written_def
proof (intro triple_thenE)
  let ?i = "\<lparr>si_storage_id = raw, si_storage_version = version, si_record = new_record\<rparr>"
  show "triple flag (st (store_storage_manifest_version (ae_store V) version)) (\<lambda>_. flag) (\<lambda>_. flag)"
    by (intro triple_keeps keeps_st calls_keepD publisher_okD [OF ok])
  show "triple flag (save_storage_identity V key ?i) (\<lambda>_ w. flag w \<and> ident w = Some ?i) (\<lambda>_. flag)"
    by (rule save_identity_raised [OF ok])
  show "triple (\<lambda>w. flag w \<and> ident w = Some ?i) (set_needs_storage_sync V key False)
      (\<lambda>_ w. ident w = Some ?i) (\<lambda>_. flag)"
    by (rule lower_flag [OF ok])
  show "triple (\<lambda>w. ident w = Some ?i) (notify_storage_manifest_written V) (\<lambda>_ w. ident w = Some ?i) (\<lambda>_. flag)"
    by (rule notify_never_fails [OF publisher_okD(10) [OF ok]])
  show "triple (\<lambda>w. ident w = Some ?i) (ok Done)
      (\<lambda>p w. if p = Done then settled ident edit w else flag w) (\<lambda>_. flag)"
    using e by (simp add: triple_def ok_def)
qed

lemma write_edited_settles:
  assumes ok: "publisher_ok V key flag ident" and e: "edit new_record = Inr None"
  shows "triple flag (write_edited V key current attempts storage_id new_record)
    (\<lambda>p w. if p = Done then settled ident edit w else flag w) (\<lambda>_. flag)"
  unfolding write_edited_def
proof (rule triple_attempt [where R = "\<lambda>_. flag"])
  note ck = publisher_okD(1) [OF ok]
  show "triple flag (write_replacing_storage_record V current (item_type_of key) storage_id new_record)
      (\<lambda>_. flag) (\<lambda>_. flag)"
    by (rule triple_keeps [OF keeps_write_replacing [OF ck]])
  fix r
  show "triple flag (case r of
         Inr new_raw_id \<Rightarrow> record_written V key (mf_version current + 1) new_raw_id new_record
       | Inl e \<Rightarrow> retry_or_stop V attempts e)
      (\<lambda>p w. if p = Done then settled ident edit w else flag w) (\<lambda>_. flag)"
    by (rule triple_case_sum, rule retry_keeps [OF ck], rule written_settles [where edit = edit, OF ok e])
qed

lemma update_pass_edit:
  assumes ok: "publisher_ok V key flag ident" and edit: "edit_settles edit"
  shows "triple (\<lambda>w. ident w = Some i \<and> flag w)
    (bindE (map_err StorageRecordEditError (lift_res (edit (si_record i)))) (\<lambda>edited.
       case edited of
         None \<Rightarrow> thenE (set_needs_storage_sync V key False) (ok Done)
       | Some new_record \<Rightarrow> write_edited V key current attempts (si_storage_id i) new_record))
    (\<lambda>p w. if p = Done then settled ident edit w else flag w) (\<lambda>_. flag)"
    (is "triple ?P _ ?Q ?E")
proof (cases "edit (si_record i)")
  case (Inl e)
  then show ?thesis by (simp add: triple_def io_simps)
next
  case (Inr edited)
  have f: "bindE (map_err g (lift_res (edit (si_record i)))) k = k edited" for g k
    using Inr by (auto simp: io_simps)
  show ?thesis
  proof (cases edited)
    case None
    have "triple (\<lambda>w. ident w = Some i) (ok Done) ?Q ?E"
      using Inr None by (simp add: triple_def ok_def)
    from triple_thenE [OF lower_flag [OF ok] this] show ?thesis
      unfolding f None by (simp add: conj_commute)
  next
    case (Some new_record)
    show ?thesis
    proof (cases "length (si_record i) < 2 ^ 63")
      case True
      then have "edit new_record = Inr None"
        using edit Inr Some by (auto simp: edit_settles_def)
      from write_edited_settles [where edit = edit, OF ok this] show ?thesis
        unfolding f Some option.case by (rule triple_weaken) auto
    next
      case False
      then have "ident w \<noteq> Some i" for w using publisher_okD(11) [OF ok] by blast
      then show ?thesis unfolding triple_def by blast
    qed
  qed
qed

lemma update_pass_settles:
  assumes ok: "publisher_ok V key flag ident" and edit: "edit_settles edit"
  shows "triple flag (update_pass V key edit attempts)
    (\<lambda>p w. if p = Done then settled ident edit w else flag w) (\<lambda>_. flag)"
    (is "triple flag _ ?Q ?E")
proof -
  note ck = publisher_okD(1) [OF ok]
  show ?thesis
    unfolding update_pass_def
  proof (rule triple_bindE [OF triple_keeps [OF keeps_st [OF calls_keepD(9) [OF ck]]]],
      rule triple_bindE [OF triple_keeps [OF calls_keepD(3) [OF ck]]],
      rule triple_if, rule not_done_keeps)
    show "keeps flag (thenE (ae_sync V) (ok (Again attempts)))"
      by (intro keeps_rules calls_keepD [OF ck])
    show "fst (thenE (ae_sync V) (ok (Again attempts)) s) \<noteq> Inr Done" for s
      by (simp add: io_simps split: prod.split sum.split)
    fix current
    show "triple flag (bindE (storage_identity V key) (\<lambda>identity.
         case identity of
           None \<Rightarrow> err StorageRecordUnknown
         | Some i \<Rightarrow>
             bindE (map_err StorageRecordEditError (lift_res (edit (si_record i)))) (\<lambda>edited.
               case edited of
                 None \<Rightarrow> thenE (set_needs_storage_sync V key False) (ok Done)
               | Some new_record \<Rightarrow>
                   write_edited V key current attempts (si_storage_id i) new_record))) ?Q ?E"
    proof (rule triple_bindE [OF read_identity [OF ok]])
      fix x
      show "triple (\<lambda>w. ident w = x \<and> flag w) (case x of
           None \<Rightarrow> err StorageRecordUnknown
         | Some i \<Rightarrow>
             bindE (map_err StorageRecordEditError (lift_res (edit (si_record i)))) (\<lambda>edited.
               case edited of
                 None \<Rightarrow> thenE (set_needs_storage_sync V key False) (ok Done)
               | Some new_record \<Rightarrow>
                   write_edited V key current attempts (si_storage_id i) new_record)) ?Q ?E"
        using update_pass_edit [OF ok edit] by (cases x) (simp_all add: triple_def err_def)
    qed
  qed
qed

lemma update_passes_settle:
  assumes ok: "publisher_ok V key flag ident" and edit: "edit_settles edit"
  shows "triple flag (update_passes V key edit n attempts) (\<lambda>_. settled ident edit) (\<lambda>_. flag)"
proof (induction n arbitrary: attempts)
  case (Suc n)
  show ?case
    unfolding update_passes.simps
  proof (rule triple_bindE [OF update_pass_settles [OF assms]])
    fix p
    show "triple (\<lambda>w. if p = Done then settled ident edit w else flag w)
      (case p of Done \<Rightarrow> ok () | Again attempts' \<Rightarrow> update_passes V key edit n attempts'
       | Stop \<Rightarrow> err StorageManifestConflict) (\<lambda>_. settled ident edit) (\<lambda>_. flag)"
      using Suc.IH by (cases p) (simp_all add: triple_def ok_def err_def)
  qed
qed (simp add: triple_def err_def)

lemma update_settles:
  assumes ok: "publisher_ok V key flag ident" and edit: "edit_settles edit"
  shows "triple flag (update_storage_record V key edit) (\<lambda>_. settled ident edit) (\<lambda>_. flag)"
  unfolding update_storage_record_def
  by (rule triple_thenE [OF publisher_okD(5) [OF ok]],
      rule triple_thenE [OF triple_keeps [OF keeps_storage_service [OF publisher_okD(1) [OF ok]]]],
      rule update_passes_settle [OF assms])

lemma append_settles:
  assumes ok: "publisher_ok V key flag ident" and edit: "edit encoded = Inr None"
  shows "triple flag (append_record V key encoded) (\<lambda>_. settled ident edit) (\<lambda>_. flag)"
  unfolding append_record_def
proof (rule triple_bindE [OF triple_keeps [OF keeps_append_storage_record [OF publisher_okD(1) [OF ok]]]],
    rule triple_bindE [OF triple_keeps [OF keeps_st [OF calls_keepD(9) [OF publisher_okD(1) [OF ok]]]]])
  fix i v
  show "triple flag (thenE (save_storage_identity V key
           \<lparr>si_storage_id = i, si_storage_version = v, si_record = encoded\<rparr>)
         (set_needs_storage_sync V key False)) (\<lambda>_. settled ident edit) (\<lambda>_. flag)"
    by (rule triple_thenE [OF save_identity_raised [OF ok]], rule triple_weaken [OF lower_flag [OF ok]])
      (use edit in auto)
qed

section \<open>Publishing a row\<close>

lemma triple_load_row:
  assumes "row_ok V key flag ident load row" "keeps P load"
  shows "triple P (st load) (\<lambda>r w. row w = r \<and> P w) (\<lambda>_. P)"
proof (rule triple_st)
  have "triple (\<lambda>_. True) load (\<lambda>r w. row w = r) (\<lambda>_ _. True)" using assms(1) by (simp add: row_ok_def)
  from triple_and_keeps [OF this assms(2)] show "triple P load (\<lambda>r w. row w = r \<and> P w) (\<lambda>_. P)"
    by (rule triple_weaken) auto
qed

lemma triple_clear_flag:
  assumes "publisher_ok V key flag ident" "row_ok V key flag ident load row"
  shows "triple (\<lambda>w. row w = None \<and> flag w) (set_needs_storage_sync V key False)
    (\<lambda>_ w. flag w \<or> row w = None) (\<lambda>_. flag)"
proof -
  have "keeps (\<lambda>w. row w = None) (set_needs_storage_sync V key False)" using assms(2) by (simp add: row_ok_def)
  from triple_and_keeps [OF publisher_okD(6) [OF assms(1)] this] show ?thesis by (rule triple_weaken) auto
qed

lemma triple_update_or_append:
  assumes ok: "publisher_ok V key flag ident" and edit: "edit_settles edit" and fresh: "edit fresh = Inr None"
  shows "triple flag (attempt (update_storage_record V key edit) (\<lambda>res.
      case res of
        Inl e \<Rightarrow> if e = StorageRecordUnknown then append_record V key fresh else err e
      | Inr () \<Rightarrow> ok ())) (\<lambda>_. settled ident edit) (\<lambda>_. flag)"
proof (rule triple_attempt [where R = "\<lambda>res. if isl res then flag else settled ident edit"])
  show "triple flag (update_storage_record V key edit)
      (\<lambda>x. if isl (Inr x) then flag else settled ident edit)
      (\<lambda>e. if isl (Inl e) then flag else settled ident edit)"
    using update_settles [OF ok edit] by simp
  fix res :: "'b error + unit"
  show "triple (if isl res then flag else settled ident edit)
    (case res of Inl e \<Rightarrow> if e = StorageRecordUnknown then append_record V key fresh else err e
    | Inr () \<Rightarrow> ok ()) (\<lambda>_. settled ident edit) (\<lambda>_. flag)"
    using append_settles [OF ok, of edit fresh] fresh
    by (cases res) (auto simp: triple_def ok_def err_def split: unit.split)
qed

text \<open>The row is read again after the write: an edit made meanwhile raises the flag anew.\<close>

lemma triple_recheck_row:
  assumes ok: "publisher_ok V key flag ident" and row: "row_ok V key flag ident load row"
    and same: "\<And>c rec. edit r rec = Inr None \<Longrightarrow> \<not> changed c r \<Longrightarrow> edit c rec = Inr None"
  shows "triple (settled ident (edit r)) (bindE (st load) (\<lambda>current.
      case current of
        None \<Rightarrow> ok ()
      | Some c \<Rightarrow> if changed c r then set_needs_storage_sync V key True else ok ()))
    (\<lambda>_ w. flag w \<or> (case row w of None \<Rightarrow> True | Some r \<Rightarrow> settled ident (edit r) w))
    (\<lambda>_ w. flag w \<or> (\<exists>r. settled ident (edit r) w))"
    (is "triple _ _ ?Q ?E")
proof (rule triple_bindE [where R = "\<lambda>c w. row w = c \<and> settled ident (edit r) w"])
  have "keeps (settled ident (edit r)) load"
    by (rule keeps_reading [where f = ident]) (use row in \<open>simp add: row_ok_def\<close>)
  then show "triple (settled ident (edit r)) (st load) (\<lambda>c w. row w = c \<and> settled ident (edit r) w) ?E"
    by (rule triple_weaken [OF triple_load_row [OF row]]) blast+
  fix c
  show "triple (\<lambda>w. row w = c \<and> settled ident (edit r) w)
    (case c of None \<Rightarrow> ok () | Some c \<Rightarrow> if changed c r then set_needs_storage_sync V key True else ok ())
    ?Q ?E"
  proof (cases c)
    case (Some d)
    have "keeps (settled ident (edit r)) (set_needs_storage_sync V key True)"
      by (rule keeps_reading [where f = ident, OF publisher_okD(9) [OF ok]])
    from triple_and_keeps [OF publisher_okD(4) [OF ok] this]
    have "triple (\<lambda>w. row w = Some d \<and> settled ident (edit r) w) (set_needs_storage_sync V key True) ?Q ?E"
      by (rule triple_weaken) auto
    with same Some show ?thesis by (cases "changed d r") (auto simp: triple_def ok_def)
  qed (simp add: triple_def ok_def)
qed

lemma publish_row_settles:
  assumes ok: "publisher_ok V key flag ident" and row: "row_ok V key flag ident load row"
    and edit: "\<And>r. edit_settles (edit r)" and fresh: "\<And>r. edit r (fresh r) = Inr None"
    and same: "\<And>c r rec. edit r rec = Inr None \<Longrightarrow> \<not> changed c r \<Longrightarrow> edit c rec = Inr None"
  shows "triple flag (publish_row V key load edit fresh changed)
    (\<lambda>_ w. flag w \<or> (case row w of None \<Rightarrow> True | Some r \<Rightarrow> settled ident (edit r) w))
    (\<lambda>_ w. flag w \<or> (\<exists>r. settled ident (edit r) w))"
    (is "triple flag _ ?Q ?E")
  unfolding publish_row_def
proof (rule triple_bindE [where R = "\<lambda>r w. row w = r \<and> flag w"])
  have "keeps flag load" using row by (simp add: row_ok_def)
  then show "triple flag (st load) (\<lambda>r w. row w = r \<and> flag w) ?E"
    by (rule triple_weaken [OF triple_load_row [OF row]]) simp_all
  fix r
  show "triple (\<lambda>w. row w = r \<and> flag w)
    (case r of None \<Rightarrow> set_needs_storage_sync V key False
     | Some r \<Rightarrow>
         thenE (attempt (update_storage_record V key (edit r)) (\<lambda>res.
                  case res of
                    Inl e \<Rightarrow> if e = StorageRecordUnknown then append_record V key (fresh r) else err e
                  | Inr () \<Rightarrow> ok ()))
           (bindE (st load) (\<lambda>current.
              case current of
                None \<Rightarrow> ok ()
              | Some c \<Rightarrow> if changed c r then set_needs_storage_sync V key True else ok ()))) ?Q ?E"
  proof (cases r)
    case None
    with triple_clear_flag [OF ok row] show ?thesis by (auto elim!: triple_weaken)
  next
    case (Some q)
    note published = triple_update_or_append [OF ok edit fresh, of q]
    from triple_thenE [OF triple_weaken [OF published, where P' = "\<lambda>w. row w = r \<and> flag w" and E' = ?E]
        triple_recheck_row [OF ok row same]]
    show ?thesis using Some by auto
  qed
qed

end
