(* ===== verification/Sample_Account.thy ===== *)
theory Sample_Account
  imports Publish
begin

text \<open>
  A concrete account for the witnesses: a server that keeps the identifiers of every manifest it
  accepted (the version is the index), one contact with its row, flag and identity, and a
  counter for random bytes. The bounds (a thousand manifests, records in memory) keep every state
  of the type within what \<open>server_ok\<close> and \<open>publisher_ok\<close> ask of a world.
\<close>

record cloud =
  cl_history :: "manifest_identifier list list"
  cl_items :: "(bytes \<times> bytes) list"
  cl_version :: u64
  cl_contact :: "contact option"
  cl_identity :: "storage_record_identity option"
  cl_flag :: bool
  cl_next :: nat
  cl_reads :: nat
  cl_writes :: nat
  cl_slept :: nat

definition inert_store :: "('w, unit) store_ops" where
  "inert_store =
     \<lparr>fetch_storage_manifest_version = ok 0,
     store_storage_manifest_version = (\<lambda>_. ok ()),
     fetch_storage_sync_cursor = ok None,
     store_storage_sync_cursor = (\<lambda>_. ok ()),
     clear_storage_sync_cursor = ok (),
     contact_by_id = (\<lambda>_. ok None),
     stored_contacts = ok [],
     save_contact = (\<lambda>_. ok ()),
     contact_storage_identity = (\<lambda>_. ok None),
     save_contact_storage_identity = (\<lambda>_ _. ok ()),
     set_contact_needs_storage_sync = (\<lambda>_ _. ok ()),
     contacts_needing_storage_sync = ok [],
     load_group = (\<lambda>_. ok None),
     save_group = (\<lambda>_ _. ok ()),
     stored_groups = ok [],
     group_storage_identity = (\<lambda>_. ok None),
     save_group_storage_identity = (\<lambda>_ _. ok ()),
     set_group_needs_storage_sync = (\<lambda>_ _. ok ()),
     groups_needing_storage_sync = ok [],
     stored_chat_folders = ok [],
     load_chat_folder = (\<lambda>_. ok None),
     store_chat_folder = (\<lambda>_. ok ()),
     drop_chat_folder = (\<lambda>_. ok ()),
     chat_folder_storage_identity = (\<lambda>_. ok None),
     save_chat_folder_storage_identity = (\<lambda>_ _. ok ()),
     clear_chat_folder_storage_identity = (\<lambda>_. ok ()),
     set_chat_folder_needs_storage_sync = (\<lambda>_ _. ok ()),
     chat_folders_needing_storage_sync = ok [],
     account_chat_state_op = ok account_chat_state_default,
     save_account_chat_state = (\<lambda>_. ok ()),
     account_storage_identity = ok None,
     save_account_storage_identity = (\<lambda>_. ok ()),
     set_account_needs_storage_sync = (\<lambda>_. ok ()),
     account_needs_storage_sync = ok False,
     sticker_pack_record_state_op = (\<lambda>_. ok None),
     sticker_pack_storage_identity = (\<lambda>_. ok None),
     save_sticker_pack_storage_identity = (\<lambda>_ _. ok ()),
     set_sticker_pack_needs_storage_sync = (\<lambda>_ _. ok ()),
     sticker_packs_needing_storage_sync = ok [],
     stored_sticker_pack = (\<lambda>_. ok None),
     store_sticker_pack = (\<lambda>_. ok ()),
     pending_sticker_packs = ok [],
     note_installed_sticker_pack = (\<lambda>_ _ _. ok ()),
     remove_sticker_pack = (\<lambda>_. ok False),
     stored_sticker_packs = ok [],
     store_message = (\<lambda>_ _. ok ()),
     load_message = (\<lambda>_ _. ok None),
     drop_message = (\<lambda>_ _. ok False),
     thread_of_message = (\<lambda>_ _. ok None),
     get_call_history = (\<lambda>_. ok None),
     save_call_history = (\<lambda>_. ok ()),
     stored_profile_key = (\<lambda>_. ok None),
     upsert_profile_key = (\<lambda>_ _. ok False)\<rparr>"

definition short_record :: "storage_record_identity \<Rightarrow> bool" where
  "short_record i \<longleftrightarrow> length (si_record i) < 2 ^ 63"

definition cloud_identity :: "cloud \<Rightarrow> storage_record_identity option" where
  "cloud_identity w = (case cl_identity w of None \<Rightarrow> None | Some i \<Rightarrow> if short_record i then Some i else None)"

definition cloud_store :: "(cloud, unit) store_ops" where
  "cloud_store = inert_store
     \<lparr>fetch_storage_manifest_version := \<lambda>w. (Inr (cl_version w), w),
      store_storage_manifest_version := \<lambda>v w. (Inr (), w\<lparr>cl_version := v\<rparr>),
      contact_by_id := \<lambda>sid w. (Inr (cl_contact w), w),
      save_contact := \<lambda>c w. (Inr (), w\<lparr>cl_contact := Some c\<rparr>),
      contact_storage_identity := \<lambda>sid w. (Inr (cloud_identity w), w),
      save_contact_storage_identity := \<lambda>sid i w.
        if short_record i then (Inr (), w\<lparr>cl_identity := Some i\<rparr>) else (Inl (), w),
      set_contact_needs_storage_sync := \<lambda>sid b w. (Inr (), w\<lparr>cl_flag := b\<rparr>)\<rparr>"

definition cloud_manifest :: "manifest_identifier list list \<Rightarrow> nat \<Rightarrow> manifest" where
  "cloud_manifest h i =
     \<lparr>mf_version = of_nat i, mf_source_device = 1, mf_identifiers = h ! i, mf_record_ikm = []\<rparr>"

definition cloud_log :: "cloud \<Rightarrow> manifest list" where
  "cloud_log w = map (cloud_manifest (cl_history w)) [0..<min 1000 (length (cl_history w))]"

definition cloud_read :: "(cloud, unit error, manifest) io" where
  "cloud_read w =
     (if cl_history w = [] then (Inl StorageManifestConflict, w)
      else (Inr (last (cloud_log w)), w\<lparr>cl_reads := cl_reads w + 1\<rparr>))"

definition cloud_write ::
  "manifest \<Rightarrow> (bytes \<times> bytes) list \<Rightarrow> bytes list \<Rightarrow> (cloud, storage_service_error, unit) io" where
  "cloud_write m recs dels w0 =
     (let w = w0\<lparr>cl_writes := cl_writes w0 + 1\<rparr>; n = length (cl_history w) in
      if 0 < n \<and> n < 1000 \<and> m = \<lparr>mf_version = of_nat n, mf_source_device = 1,
           mf_identifiers = mf_identifiers m, mf_record_ikm = []\<rparr>
      then (Inr (), w\<lparr>cl_history := cl_history w @ [mf_identifiers m],
                      cl_items := filter (\<lambda>(k, _). k \<notin> set dels) (cl_items w) @ recs\<rparr>)
      else (Inl SS_Conflict, w))"

text \<open>The record of a contact, by its canonical edits of an empty one.\<close>

definition cloud_contact :: "contact_record \<Rightarrow> contact" where
  "cloud_contact r = (contact_minimal (Abs_uuid (replicate 16 0)))
     \<lparr>c_blocked := cr_blocked r, c_muted_until := cr_muted_until r, c_archived := cr_archived r\<rparr>"

definition cloud_encode :: "contact_record \<Rightarrow> bytes" where
  "cloud_encode r = unwrap_or []
     (res_bind (pending_diff [10, 0] (cloud_contact r)) (\<lambda>d. pending_apply d [10, 0] (cloud_contact r)))"

definition cloud_env :: "(cloud, unit) account_env" where
  "cloud_env =
     \<lparr>ae_store = cloud_store, ae_master_key = ok (Some []), ae_open = ok (),
      ae_manifest = cloud_read,
      ae_manifest_if_changed = (\<lambda>v. ok None),
      ae_read_items = (\<lambda>_ _. ok []),
      ae_write_items = cloud_write,
      ae_random16 = (\<lambda>w. (replicate 15 0 @ [of_nat (cl_next w)], w\<lparr>cl_next := cl_next w + 1\<rparr>)),
      ae_now_ms = (\<lambda>w. (0, w)),
      ae_sleep = (\<lambda>d w. w\<lparr>cl_slept := cl_slept w + d\<rparr>),
      ae_new_sender = ok (), ae_send_fetch_latest = ok (),
      ae_sync = (\<lambda>w. (Inr (), w\<lparr>cl_version := of_nat (length (cl_history w) - 1)\<rparr>)),
      ae_device = 1, ae_codec = plain_codec, ae_contact_codec = sample_contact_codec,
      ae_encode_contact = cloud_encode, ae_encode_group = (\<lambda>_. []), ae_encode_sticker = (\<lambda>_. []),
      ae_encode_folder = (\<lambda>_. []), ae_decode_sticker = (\<lambda>_. None)\<rparr>"

definition sample_cloud :: cloud where
  "sample_cloud =
     \<lparr>cl_history = [[\<lparr>id_raw = [7], id_type = Item_Contact\<rparr>, \<lparr>id_raw = [8], id_type = Item_Account\<rparr>]],
      cl_items = [([7], [10, 2, 104, 9]), ([8], [])], cl_version = 0,
      cl_contact = Some ((contact_minimal (sample_uuid 1))\<lparr>c_blocked := True, c_muted_until := 9\<rparr>),
      cl_identity = Some \<lparr>si_storage_id = [7], si_storage_version = 0, si_record = [10, 2, 104, 9]\<rparr>,
      cl_flag = True, cl_next = 0, cl_reads = 0, cl_writes = 0, cl_slept = 0\<rparr>"

lemma cloud_store_sel [simp]:
  "contact_by_id cloud_store sid = (\<lambda>w. (Inr (cl_contact w), w))"
  "fetch_storage_manifest_version cloud_store = (\<lambda>w. (Inr (cl_version w), w))"
  "store_storage_manifest_version cloud_store v = (\<lambda>w. (Inr (), w\<lparr>cl_version := v\<rparr>))"
  "contact_storage_identity cloud_store sid = (\<lambda>w. (Inr (cloud_identity w), w))"
  "save_contact_storage_identity cloud_store sid i =
     (\<lambda>w. if short_record i then (Inr (), w\<lparr>cl_identity := Some i\<rparr>) else (Inl (), w))"
  "set_contact_needs_storage_sync cloud_store sid b = (\<lambda>w. (Inr (), w\<lparr>cl_flag := b\<rparr>))"
  by (simp_all add: cloud_store_def)

lemma cloud_env_sel [simp]:
  "ae_store cloud_env = cloud_store" "ae_master_key cloud_env = ok (Some [])" "ae_open cloud_env = ok ()"
  "ae_manifest cloud_env = cloud_read" "ae_write_items cloud_env = cloud_write"
  "ae_random16 cloud_env = (\<lambda>w. (replicate 15 0 @ [of_nat (cl_next w)], w\<lparr>cl_next := cl_next w + 1\<rparr>))"
  "ae_sleep cloud_env = (\<lambda>d w. w\<lparr>cl_slept := cl_slept w + d\<rparr>)"
  "ae_new_sender cloud_env = ok ()" "ae_send_fetch_latest cloud_env = ok ()" "ae_device cloud_env = 1"
  "ae_sync cloud_env = (\<lambda>w. (Inr (), w\<lparr>cl_version := of_nat (length (cl_history w) - 1)\<rparr>))"
  "ae_encode_contact cloud_env = cloud_encode" "ae_contact_codec cloud_env = sample_contact_codec"
  by (simp_all add: cloud_env_def)

section \<open>It keeps the documented behaviour\<close>

lemma cloud_log_distinct: "distinct (map mf_version (cloud_log w))"
proof -
  have "inj_on (\<lambda>i. of_nat i :: u64) {0..<1000}"
    by (rule inj_onI) (simp add: word_of_nat_eq_iff take_bit_nat_eq_self)
  then have "inj_on (\<lambda>i. of_nat i :: u64) {0..<min 1000 (length (cl_history w))}"
    by (rule inj_on_subset) auto
  then show ?thesis by (simp add: cloud_log_def distinct_map cloud_manifest_def comp_def)
qed

lemma cloud_read_log:
  assumes "cloud_read w = (Inr m, w')"
  shows "m \<in> set (cloud_log w')"
proof -
  from assms have m: "cl_history w \<noteq> []" "m = last (cloud_log w)" "cl_history w' = cl_history w"
    by (auto simp: cloud_read_def split: if_splits)
  then have "cloud_log w \<noteq> []" "cloud_log w' = cloud_log w" by (auto simp: cloud_log_def)
  with m show ?thesis by simp
qed

lemma cloud_write_log:
  assumes "cloud_write m recs dels w = (Inr (), w')"
  shows "cloud_log w' = cloud_log w @ [m] \<and> cloud_log w \<noteq> [] \<and>
    mf_version m = mf_version (last (cloud_log w)) + 1"
proof -
  let ?n = "length (cl_history w)"
  from assms have w: "0 < ?n" "?n < 1000" "cl_history w' = cl_history w @ [mf_identifiers m]" and
    m: "m = \<lparr>mf_version = of_nat ?n, mf_source_device = 1,
           mf_identifiers = mf_identifiers m, mf_record_ikm = []\<rparr>"
    by (auto simp: cloud_write_def Let_def split: if_splits)
  have "cloud_manifest (cl_history w') ?n = m"
    using m w(3) by (simp add: cloud_manifest_def)
  moreover have "map (cloud_manifest (cl_history w')) [0..<?n] = map (cloud_manifest (cl_history w)) [0..<?n]"
    using w(3) by (auto simp: cloud_manifest_def nth_append)
  ultimately have log: "cloud_log w' = cloud_log w @ [m]"
    using w by (simp add: cloud_log_def)
  obtain k where k: "?n = Suc k" using w(1) gr0_implies_Suc by blast
  have "last (cloud_log w) = cloud_manifest (cl_history w) k"
    using w(2) by (simp add: cloud_log_def k)
  moreover have "mf_version m = of_nat ?n" by (subst m) simp
  ultimately show ?thesis using log k w by (simp add: cloud_manifest_def cloud_log_def)
qed

lemma cloud_server_ok: "server_ok cloud_env cloud_log"
  unfolding server_ok_def
proof (intro conjI allI impI)
  show "distinct (map mf_version (cloud_log w))" for w by (rule cloud_log_distinct)
  show "ae_manifest cloud_env w = (Inr m, w') \<Longrightarrow> m \<in> set (cloud_log w')" for w m w'
    using cloud_read_log by simp
  show "prefix (cloud_log w) (cloud_log (snd (ae_random16 cloud_env w)))" for w
    by (simp add: cloud_log_def)
  show "ae_write_items cloud_env m recs dels w = (Inr (), w') \<Longrightarrow>
      \<exists>pre post. cloud_log w' = pre @ [m] @ post \<and> prefix (cloud_log w) pre \<and> pre \<noteq> [] \<and>
        mf_version m = mf_version (last pre) + 1" for w m recs dels w'
    using cloud_write_log [of m recs dels w w']
    by (intro exI [of _ "cloud_log w"] exI [of _ "[]"]) simp
qed

lemma cloud_keeps:
  "(\<And>w v. P (w\<lparr>cl_version := v\<rparr>) = P w) \<Longrightarrow> (\<And>w h. P (w\<lparr>cl_history := h\<rparr>) = P w) \<Longrightarrow>
   (\<And>w h. P (w\<lparr>cl_items := h\<rparr>) = P w) \<Longrightarrow> (\<And>w h. P (w\<lparr>cl_next := h\<rparr>) = P w) \<Longrightarrow>
   (\<And>w h. P (w\<lparr>cl_reads := h\<rparr>) = P w) \<Longrightarrow> (\<And>w h. P (w\<lparr>cl_writes := h\<rparr>) = P w) \<Longrightarrow>
   (\<And>w h. P (w\<lparr>cl_slept := h\<rparr>) = P w) \<Longrightarrow> calls_keep cloud_env P"
  unfolding calls_keep_def
  by (intro conjI allI impI)
     (simp_all add: keeps_def ok_def cloud_read_def cloud_write_def Let_def)

lemma cloud_publisher_ok: "publisher_ok cloud_env (KeyContact sid) cl_flag cloud_identity"
proof -
  have "calls_keep cloud_env cl_flag" by (rule cloud_keeps) simp_all
  then show ?thesis
    unfolding publisher_ok_def
    by (intro conjI)
       (auto simp: set_needs_storage_sync_def storage_identity_def save_storage_identity_def st_def
         keeps_def triple_def map_err_def ok_def cloud_identity_def short_record_def
         split: option.splits if_splits)
qed

lemma cloud_row_ok:
  "row_ok cloud_env (KeyContact sid) cl_flag cloud_identity (contact_by_id cloud_store sid) cl_contact"
  unfolding row_ok_def by (auto simp: keeps_def triple_def set_needs_storage_sync_def st_def map_err_def
      cloud_identity_def split: option.splits)

end
