(* ===== verification/Publish_Props.thy ===== *)
theory Publish_Props
  imports Sample_Account
begin

text \<open>
  The properties of manifest writes and of publishing (theories Manifest and Drains), each with
  a witness on the account of Sample_Account.
\<close>

section \<open>Editing the manifest\<close>

lemma manifest_edit_exact_witness:
  "\<exists>m pre post. cloud_log (snd (write_manifest_edit cloud_env (cloud_manifest (cl_history sample_cloud) 0)
      [(Item_Contact, [10, 0])] [[7]] sample_cloud)) =
      pre @ [cloud_manifest (cl_history sample_cloud) 0, m] @ post \<and>
    mf_identifiers m = [\<lparr>id_raw = [8], id_type = Item_Account\<rparr>,
      \<lparr>id_raw = replicate 16 0, id_type = Item_Contact\<rparr>]"
proof -
  let ?c = "cloud_manifest (cl_history sample_cloud) 0"
  obtain w' where w: "write_manifest_edit cloud_env ?c [(Item_Contact, [10, 0])] [[7]] sample_cloud =
      (Inr [replicate 16 0], w')"
    by (simp add: write_manifest_edit_def plan_manifest_edit_def io_simps sample_cloud_def
        cloud_manifest_def cloud_write_def numeral_nat)
  have c: "?c \<in> set (cloud_log sample_cloud)" by (simp add: cloud_log_def sample_cloud_def)
  from manifest_edit_exact [OF cloud_server_ok c w] w show ?thesis
    by (auto simp: cloud_manifest_def sample_cloud_def)
qed

section \<open>Publishing a contact\<close>

text \<open>Row and record agree on what a publish can write.\<close>

definition contact_agrees :: "contact \<Rightarrow> bytes \<Rightarrow> bool" where
  "contact_agrees c rec \<longleftrightarrow>
     contact_blocked rec = Inr (c_blocked c) \<and> contact_muted_until rec = Inr (c_muted_until c) \<and>
     contact_archived rec = Inr (c_archived c)"

lemma contact_edit_None: "contact_edit c rec = Inr None \<longleftrightarrow> contact_agrees c rec"
  unfolding contact_edit_def contact_agrees_def pending_diff_def pending_any_def pending_none_def
  by (cases "contact_blocked rec"; cases "contact_muted_until rec"; cases "contact_archived rec")
     (auto simp: res_map_def split: sum.split)

lemma contact_edit_settles: "edit_settles (contact_edit c)"
  unfolding edit_settles_def
proof (intro allI impI)
  fix rec rec' :: bytes
  assume len: "length rec < 2 ^ 63" and e: "contact_edit c rec = Inr (Some rec')"
  from e obtain d where d: "pending_diff rec c = Inr d" "pending_apply d rec c = Inr rec'"
    by (auto simp: contact_edit_def res_map_Inr_iff elim!: res_bind_InrE split: if_splits)
  have "length rec + 200 < 2 ^ 64" using len by simp
  from contact_pending.apply_settles [OF d this] show "contact_edit c rec' = Inr None"
    by (simp add: contact_edit_def pending_any_def)
qed

text \<open>What the encoder of contact records is documented to do, as far as a publish depends on it.\<close>

definition contact_encoder_ok :: "(contact_record \<Rightarrow> bytes) \<Rightarrow> bool" where
  "contact_encoder_ok enc \<longleftrightarrow>
     (\<forall>r. contact_blocked (enc r) = Inr (cr_blocked r) \<and>
          contact_muted_until (enc r) = Inr (cr_muted_until r) \<and>
          contact_archived (enc r) = Inr (cr_archived r))"


lemma cloud_encoder_ok: "contact_encoder_ok cloud_encode"
proof -
  have "contact_agrees (cloud_contact r) (cloud_encode r)" for r
  proof -
    have g: "contact_blocked [10, 0] = Inr False" "contact_muted_until [10, 0] = Inr 0"
      "contact_archived [10, 0] = Inr False" by code_simp+
    have n: "length ([10, 0] :: bytes) + 200 < 2 ^ 64" by simp
    obtain d where d: "pending_diff [10, 0] (cloud_contact r) = Inr d" by (simp add: pending_diff_def g)
    from contact_pending.apply_total [OF d n] obtain bs where
      a: "pending_apply d [10, 0] (cloud_contact r) = Inr bs" by blast
    from contact_pending.apply_settles [OF d a n] have "contact_edit (cloud_contact r) bs = Inr None"
      by (simp add: contact_edit_def pending_any_def)
    with d a show ?thesis by (simp add: contact_edit_None cloud_encode_def)
  qed
  then show ?thesis by (simp add: contact_encoder_ok_def contact_agrees_def cloud_contact_def)
qed


end
