(* ===== verification/Sync.thy ===== *)
theory Sync
  imports Drains
begin

text \<open>
  Reading the storage service (\<open>sync_storage_service\<close> and its helpers in
  \<open>presage/src/manager/storage.rs\<close>) and the local half of chat folders
  (\<open>presage/src/manager/chat_folders.rs\<close>). A record that cannot be applied is logged and skipped, so
  processing one never fails; what can fail is reading the manifest and the batches, and the two
  writes of the manifest version. The sets of rows with an unpublished change are read once,
  before the first batch.
\<close>

section \<open>Chat folders, the local half\<close>

definition stage_chat_folder :: "('w, 'e) account_env \<Rightarrow> chat_folder \<Rightarrow> ('w, 'e error, unit) io" where
  "stage_chat_folder V f =
     thenE (st (store_chat_folder (ae_store V) f))
       (st (set_chat_folder_needs_storage_sync (ae_store V) (cf_id f) True))"

definition live_chat_folders :: "('w, 'e) account_env \<Rightarrow> ('w, 'e error, chat_folder list) io" where
  "live_chat_folders V =
     bindE (st (stored_chat_folders (ae_store V))) (\<lambda>fs.
       ok (sort_key cf_position (filter (\<lambda>f. is_live f \<and> cf_type f \<noteq> UnknownFolder) fs)))"

definition manager_save_chat_folder ::
  "('w, 'e) account_env \<Rightarrow> text_ops \<Rightarrow> chat_folder \<Rightarrow> ('w, 'e error, unit) io" where
  "manager_save_chat_folder V T folder =
     (let folder = (if cf_type folder = CustomFolder
                    then folder\<lparr>cf_name := normalized_name T (cf_name folder)\<rparr> else folder) in
      if cf_type folder = CustomFolder \<and> \<not> is_valid_name T (cf_name folder)
      then err ChatFolderInvalidName
      else bindE (st (load_chat_folder (ae_store V) (cf_id folder))) (\<lambda>existing.
           bindE (case existing of
                    Some e \<Rightarrow> ok (cf_position e)
                  | None \<Rightarrow> bindE (live_chat_folders V) (\<lambda>fs. ok (of_nat (length fs))))
             (\<lambda>position. stage_chat_folder V (folder\<lparr>cf_position := position\<rparr>))))"

definition renumber_chat_folders :: "('w, 'e) account_env \<Rightarrow> ('w, 'e error, unit) io" where
  "renumber_chat_folders V =
     bindE (live_chat_folders V) (\<lambda>fs.
       for_each (zip [0..<length fs] fs) (\<lambda>(i, f).
         if cf_position f = of_nat i then ok ()
         else stage_chat_folder V (f\<lparr>cf_position := of_nat i\<rparr>)))"

definition manager_delete_chat_folder :: "('w, 'e) account_env \<Rightarrow> uuid \<Rightarrow> ('w, 'e error, unit) io" where
  "manager_delete_chat_folder V i =
     bindE (st (load_chat_folder (ae_store V) i)) (\<lambda>folder.
       case folder of
         None \<Rightarrow> err ChatFolderUnknown
       | Some f \<Rightarrow>
           if cf_type f = AllFolder then err ChatFolderUndeletable
           else bindE (call (ae_now_ms V)) (\<lambda>now.
                thenE (stage_chat_folder V (tombstone now f)) (renumber_chat_folders V)))"

section \<open>Which local fields are unpublished\<close>

definition pending_publish_intent ::
  "('w, 'e) account_env \<Rightarrow> service_id \<Rightarrow> contact \<Rightarrow> bool \<Rightarrow> ('w, 'f, pending_publish) io" where
  "pending_publish_intent V sid local flagged =
     (if \<not> flagged then ok pending_none
      else attempt (contact_storage_identity (ae_store V) sid) (\<lambda>r. ok (case r of
             Inr (Some i) \<Rightarrow> unwrap_or pending_all (pending_diff (si_record i) local)
           | _ \<Rightarrow> pending_all)))"

definition group_pending_publish_intent ::
  "('w, 'e) account_env \<Rightarrow> key32 \<Rightarrow> group \<Rightarrow> bool \<Rightarrow> ('w, 'f, group_pending_publish) io" where
  "group_pending_publish_intent V mk local flagged =
     (if \<not> flagged then ok group_pending_none
      else attempt (group_storage_identity (ae_store V) mk) (\<lambda>r. ok (case r of
             Inr (Some i) \<Rightarrow> unwrap_or group_pending_all (group_pending_diff (si_record i) local)
           | _ \<Rightarrow> group_pending_all)))"

definition merge_account_record ::
  "('w, 'e) account_env \<Rightarrow> account_chat_state \<Rightarrow> bool \<Rightarrow> ('w, 'f, account_chat_state) io" where
  "merge_account_record V remote flagged =
     attempt (account_chat_state_op (ae_store V)) (\<lambda>r.
       let local = unwrap_or account_chat_state_default r in
       attempt (account_storage_identity (ae_store V)) (\<lambda>published. ok (
         case published of
           Inr None \<Rightarrow> adopt_first_account_record (ae_codec V) local remote
         | Inr (Some i) \<Rightarrow> merge_account_from_snapshot local remote
             (if \<not> flagged then account_pending_none
              else unwrap_or account_pending_all (account_pending_diff (si_record i) local))
         | Inl _ \<Rightarrow> merge_account_from_snapshot local remote
             (if \<not> flagged then account_pending_none else account_pending_all))))"

section \<open>After the records\<close>

definition unarchive_thread ::
  "('w, 'e) account_env \<Rightarrow> service_id set \<Rightarrow> key32 set \<Rightarrow> thread \<Rightarrow> ('w, 'f, unit) io" where
  "unarchive_thread V contact_pending group_pending t =
     (case t of
        ContactThread sid \<Rightarrow>
          if sid \<in> contact_pending then ok ()
          else attempt (contact_by_id (ae_store V) sid) (\<lambda>r.
            case r of
              Inr (Some c) \<Rightarrow>
                if c_archived c then ignore (save_contact (ae_store V) (c\<lparr>c_archived := False\<rparr>)) (ok ())
                else ok ()
            | _ \<Rightarrow> ok ())
      | GroupThread mk \<Rightarrow>
          if mk \<in> group_pending then ok ()
          else attempt (load_group (ae_store V) mk) (\<lambda>r.
            case r of
              Inr (Some g) \<Rightarrow>
                if g_archived g then ignore (save_group (ae_store V) mk (g\<lparr>g_archived := False\<rparr>)) (ok ())
                else ok ()
            | _ \<Rightarrow> ok ()))"

definition unarchive_pinned ::
  "('w, 'e) account_env \<Rightarrow> account_chat_state \<Rightarrow> service_id set \<Rightarrow> key32 set \<Rightarrow> ('w, 'f, unit) io" where
  "unarchive_pinned V state contact_pending group_pending =
     for_each (pinned_threads (ae_codec V) state) (unarchive_thread V contact_pending group_pending)"

definition reappend_chat_folders_missing_from_manifest ::
  "('w, 'e) account_env \<Rightarrow> bytes set \<Rightarrow> ('w, 'f, unit) io" where
  "reappend_chat_folders_missing_from_manifest V manifest_ids =
     attempt (stored_chat_folders (ae_store V)) (\<lambda>r.
       case r of
         Inl _ \<Rightarrow> ok ()
       | Inr fs \<Rightarrow> for_each fs (\<lambda>f.
           attempt (chat_folder_storage_identity (ae_store V) (cf_id f)) (\<lambda>r.
             case r of
               Inr (Some i) \<Rightarrow>
                 if si_storage_id i \<in> manifest_ids then ok ()
                 else ignore (clear_chat_folder_storage_identity (ae_store V) (cf_id f))
                     (ignore (set_chat_folder_needs_storage_sync (ae_store V) (cf_id f) True) (ok ()))
             | _ \<Rightarrow> ok ())))"

text \<open>The live all-chats folders with the version each one's record was last seen at.\<close>

fun all_chats_versions ::
  "('w, 'e) account_env \<Rightarrow> chat_folder list \<Rightarrow> ('w, 'f, (uuid \<times> u64 option) list) io" where
  "all_chats_versions V [] = ok []"
| "all_chats_versions V (f # fs) =
     attempt (chat_folder_storage_identity (ae_store V) (cf_id f)) (\<lambda>r.
     bindE (all_chats_versions V fs) (\<lambda>rest.
       ok ((cf_id f, (case r of Inr i \<Rightarrow> map_option si_storage_version i | Inl _ \<Rightarrow> None)) # rest)))"

text \<open>\<open>sort_by_key(|(id, version)| (Reverse(version), id))\<close>; \<open>None\<close> is the smallest version.\<close>

definition keep_order :: "uuid \<times> u64 option \<Rightarrow> uuid \<times> u64 option \<Rightarrow> bool" where
  "keep_order a b \<longleftrightarrow>
     (case (snd a, snd b) of
        (Some v, Some w) \<Rightarrow> w < v \<or> (v = w \<and> fst a \<le> fst b)
      | (Some _, None) \<Rightarrow> True
      | (None, Some _) \<Rightarrow> False
      | (None, None) \<Rightarrow> fst a \<le> fst b)"

fun insert_keep :: "uuid \<times> u64 option \<Rightarrow> (uuid \<times> u64 option) list \<Rightarrow> (uuid \<times> u64 option) list" where
  "insert_keep a [] = [a]"
| "insert_keep a (b # bs) = (if keep_order a b then a # b # bs else b # insert_keep a bs)"

definition sort_keep :: "(uuid \<times> u64 option) list \<Rightarrow> (uuid \<times> u64 option) list" where
  "sort_keep xs = foldr insert_keep xs []"

definition CHAT_FOLDER_EXPIRED_AT_MS :: u64 where "CHAT_FOLDER_EXPIRED_AT_MS = 1"

definition drop_duplicate_all_chats ::
  "('w, 'e) account_env \<Rightarrow> uuid \<times> u64 option \<Rightarrow> ('w, 'f, unit) io" where
  "drop_duplicate_all_chats V d =
     (case snd d of
        None \<Rightarrow> ignore (drop_chat_folder (ae_store V) (fst d)) (ok ())
      | Some _ \<Rightarrow>
          attempt (load_chat_folder (ae_store V) (fst d)) (\<lambda>r.
            case r of
              Inr (Some f) \<Rightarrow>
                ignore (store_chat_folder (ae_store V) (tombstone CHAT_FOLDER_EXPIRED_AT_MS f)) (ok ())
            | _ \<Rightarrow> ok ()))"

definition ensure_single_all_chats_folder ::
  "('w, 'e) account_env \<Rightarrow> bool \<Rightarrow> ('w, 'f, unit) io" where
  "ensure_single_all_chats_folder V create_missing =
     attempt (stored_chat_folders (ae_store V)) (\<lambda>r.
       case r of
         Inl _ \<Rightarrow> ok ()
       | Inr fs \<Rightarrow>
           bindE (all_chats_versions V (filter (\<lambda>f. is_live f \<and> cf_type f = AllFolder) fs)) (\<lambda>all.
             thenE (for_each (tl (sort_keep all)) (drop_duplicate_all_chats V))
               (if all = [] \<and> create_missing
                then bindE (call (ae_random16 V)) (\<lambda>raw.
                  case uuid_from_slice raw of
                    None \<Rightarrow> ok ()
                  | Some i \<Rightarrow> ignore (stage_chat_folder V (all_chats i)) (ok ()))
                else ok ())))"

section \<open>One record\<close>

record pending_sets =
  ps_contacts :: "service_id set"
  ps_groups :: "key32 set"
  ps_folders :: "uuid set"
  ps_stickers :: "bytes set"
  ps_account :: bool

definition item_identity :: "u64 \<Rightarrow> storage_item \<Rightarrow> storage_record_identity" where
  "item_identity version item =
     \<lparr>si_storage_id = it_key item, si_storage_version = version, si_record = it_plaintext item\<rparr>"

definition sync_contact ::
  "('w, 'e) account_env \<Rightarrow> pending_sets \<Rightarrow> storage_record_identity \<Rightarrow> contact_record \<Rightarrow>
   ('w, 'f, unit) io" where
  "sync_contact V P identity cr =
     (case contact_try_from (ae_contact_codec V) cr of
        Inl _ \<Rightarrow> ok ()
      | Inr contact \<Rightarrow>
          let sid = Aci (c_uuid contact) in
          bindE (attempt (contact_by_id (ae_store V) sid) (\<lambda>r.
                   case r of
                     Inr (Some existing) \<Rightarrow>
                       bindE (pending_publish_intent V sid existing (sid \<in> ps_contacts P)) (\<lambda>pending.
                         ok (fst (merge_contact_from_snapshot contact existing pending)))
                   | _ \<Rightarrow> ok contact)) (\<lambda>contact.
          ignore (save_contact (ae_store V) contact)
         (ignore (save_contact_storage_identity (ae_store V) sid identity)
         (case contact_profile_key contact of
            None \<Rightarrow> ok ()
          | Some k \<Rightarrow> ignore (upsert_profile_key (ae_store V) (c_uuid contact) k) (ok ())))))"

text \<open>\<open>Group { needs_hydration: true, ..Default::default() }\<close>\<close>

definition group_stub :: group where
  "group_stub =
     \<lparr>g_title = None, g_avatar = None, g_timer = None, g_access_control = None, g_revision = 0,
      g_members = [], g_pending_members = [], g_requesting_members = [],
      g_invite_link_password = [], g_description = None, g_announcements_only = False,
      g_needs_hydration = True, g_blocked = False, g_whitelisted = False, g_archived = False,
      g_marked_unread = False, g_muted_until = 0, g_dont_notify_for_mentions_if_muted = False,
      g_hide_story = False, g_story_send_mode = 0\<rparr>"

definition sync_group ::
  "('w, 'e) account_env \<Rightarrow> pending_sets \<Rightarrow> storage_record_identity \<Rightarrow> group_record \<Rightarrow>
   ('w, 'f, unit) io" where
  "sync_group V P identity gr =
     (case key32_from_slice (gr_master_key gr) of
        None \<Rightarrow> ok ()
      | Some mk \<Rightarrow>
          bindE (attempt (load_group (ae_store V) mk) (\<lambda>r.
                   case r of
                     Inr (Some existing) \<Rightarrow>
                       bindE (group_pending_publish_intent V mk existing (mk \<in> ps_groups P)) (\<lambda>pending.
                         ok (merge_group_from_snapshot existing gr pending))
                   | _ \<Rightarrow> ok (merge_group_from_snapshot group_stub gr group_pending_none))) (\<lambda>group.
          ignore (save_group (ae_store V) mk group)
         (ignore (save_group_storage_identity (ae_store V) mk identity) (ok ()))))"

definition sync_folder ::
  "('w, 'e) account_env \<Rightarrow> pending_sets \<Rightarrow> storage_record_identity \<Rightarrow> chat_folder_record \<Rightarrow>
   ('w, 'f, unit) io" where
  "sync_folder V P identity fr =
     (case chat_folder_try_from (ae_codec V) fr of
        Inl _ \<Rightarrow> ok ()
      | Inr remote \<Rightarrow>
          let i = cf_id remote in
          attempt (load_chat_folder (ae_store V) i) (\<lambda>r.
            let local = unwrap_or None r;
                finish = ignore (save_chat_folder_storage_identity (ae_store V) i identity) (ok ()) in
            case merge_chat_folder_from_snapshot local remote (i \<in> ps_folders P) of
              None \<Rightarrow> finish
            | Some merged \<Rightarrow> ignore (store_chat_folder (ae_store V) merged) finish))"

definition sync_sticker_pack ::
  "('w, 'e) account_env \<Rightarrow> pending_sets \<Rightarrow> storage_record_identity \<Rightarrow> sticker_pack_record \<Rightarrow>
   ('w, 'f, unit) io" where
  "sync_sticker_pack V P identity r =
     (case sticker_pack_change r of
        None \<Rightarrow> ok ()
      | Some (i, state) \<Rightarrow>
          let finish = ignore (save_sticker_pack_storage_identity (ae_store V) i identity) (ok ()) in
          if i \<in> ps_stickers P then finish
          else (case state of
                  Removed _ \<Rightarrow> ignore (remove_sticker_pack (ae_store V) i) finish
                | Installed key position \<Rightarrow>
                    ignore (note_installed_sticker_pack (ae_store V) i key (Some position)) finish))"

definition sync_account ::
  "('w, 'e) account_env \<Rightarrow> pending_sets \<Rightarrow> storage_record_identity \<Rightarrow> ('w, 'f, unit) io" where
  "sync_account V P identity =
     (case account_from_record (si_record identity) of
        Inl _ \<Rightarrow> ok ()
      | Inr remote \<Rightarrow>
          bindE (merge_account_record V remote (ps_account P)) (\<lambda>merged.
          ignore (save_account_chat_state (ae_store V) merged)
         (ignore (save_account_storage_identity (ae_store V) identity)
         (unarchive_pinned V merged (ps_contacts P) (ps_groups P)))))"

definition sync_item ::
  "('w, 'e) account_env \<Rightarrow> pending_sets \<Rightarrow> u64 \<Rightarrow> storage_item \<Rightarrow> ('w, 'f, unit) io" where
  "sync_item V P version item =
     (let identity = item_identity version item in
      case it_record item of
        Some (RecContact cr) \<Rightarrow> sync_contact V P identity cr
      | Some (RecGroupV2 gr) \<Rightarrow> sync_group V P identity gr
      | Some (RecChatFolder fr) \<Rightarrow> sync_folder V P identity fr
      | Some (RecStickerPack sr) \<Rightarrow> sync_sticker_pack V P identity sr
      | Some RecAccount \<Rightarrow> sync_account V P identity
      | Some RecOther \<Rightarrow> ok ()
      | None \<Rightarrow> ok ())"

section \<open>The whole sync\<close>

definition STORAGE_SERVICE_BATCH_SIZE :: nat where "STORAGE_SERVICE_BATCH_SIZE = 2500"

definition raw_of_type :: "item_type \<Rightarrow> manifest \<Rightarrow> bytes list" where
  "raw_of_type ty m = map id_raw (filter (\<lambda>i. id_type i = ty) (mf_identifiers m))"

definition subject_keys :: "manifest \<Rightarrow> bytes list" where
  "subject_keys m = raw_of_type Item_Contact m @ raw_of_type Item_Groupv2 m @ raw_of_type Item_StickerPack m"

text \<open>Of several account records only the last is read.\<close>

definition trailing_keys :: "manifest \<Rightarrow> bytes list" where
  "trailing_keys m =
     (let account = raw_of_type Item_Account m in
      raw_of_type Item_ChatFolder m @ drop (length account - 1) account)"

definition sync_batches :: "manifest \<Rightarrow> bytes list list" where
  "sync_batches m =
     chunks STORAGE_SERVICE_BATCH_SIZE (subject_keys m) @ chunks STORAGE_SERVICE_BATCH_SIZE (trailing_keys m)"

definition read_or :: "'a \<Rightarrow> ('w, 'e, 'a) io \<Rightarrow> ('w, 'f, 'a) io" where
  "read_or d m = attempt m (\<lambda>r. ok (unwrap_or d r))"

definition read_pending :: "('w, 'e) account_env \<Rightarrow> ('w, 'f, pending_sets) io" where
  "read_pending V =
     bindE (read_or [] (contacts_needing_storage_sync (ae_store V))) (\<lambda>cs.
     bindE (read_or [] (groups_needing_storage_sync (ae_store V))) (\<lambda>gs.
     bindE (read_or [] (chat_folders_needing_storage_sync (ae_store V))) (\<lambda>fs.
     bindE (read_or [] (sticker_packs_needing_storage_sync (ae_store V))) (\<lambda>ss.
     bindE (read_or False (account_needs_storage_sync (ae_store V))) (\<lambda>a.
       ok \<lparr>ps_contacts = set cs, ps_groups = set gs, ps_folders = set fs, ps_stickers = set ss,
           ps_account = a\<rparr>)))))"

definition resume_index :: "('w, 'e) account_env \<Rightarrow> u64 \<Rightarrow> ('w, 'e error, nat) io" where
  "resume_index V version =
     bindE (st (fetch_storage_sync_cursor (ae_store V))) (\<lambda>cursor.
       case cursor of
         None \<Rightarrow> ok 0
       | Some c \<Rightarrow>
           if sc_target_version c = version then ok (unat (sc_next_batch_index c))
           else ignore (clear_storage_sync_cursor (ae_store V)) (ok 0))"

definition sync_batch ::
  "('w, 'e) account_env \<Rightarrow> pending_sets \<Rightarrow> manifest \<Rightarrow> nat \<times> bytes list \<Rightarrow> ('w, 'e error, unit) io" where
  "sync_batch V P m = (\<lambda>(i, batch).
     bindE (ae_read_items V batch (if mf_record_ikm m = [] then None else Some (mf_record_ikm m)))
       (\<lambda>records.
         thenE (for_each records (sync_item V P (mf_version m)))
           (ignore (store_storage_sync_cursor (ae_store V)
              \<lparr>sc_target_version = mf_version m, sc_next_batch_index = of_nat (i + 1)\<rparr>) (ok ()))))"

definition sync_finish :: "('w, 'e) account_env \<Rightarrow> manifest \<Rightarrow> ('w, 'e error, unit) io" where
  "sync_finish V m =
     thenE (st (store_storage_manifest_version (ae_store V) (mf_version m)))
    (thenE (reappend_chat_folders_missing_from_manifest V (set (map id_raw (mf_identifiers m))))
     (ensure_single_all_chats_folder V True))"

definition sync_records :: "('w, 'e) account_env \<Rightarrow> manifest \<Rightarrow> ('w, 'e error, unit) io" where
  "sync_records V m =
     bindE (read_pending V) (\<lambda>P.
     bindE (resume_index V (mf_version m)) (\<lambda>from.
       thenE (for_each (drop from (zip [0..<length (sync_batches m)] (sync_batches m))) (sync_batch V P m))
      (thenE (sync_finish V m)
      (ignore (clear_storage_sync_cursor (ae_store V)) (ok ())))))"

definition sync_storage_service ::
  "('w, 'e) account_env \<Rightarrow> ('w, 'e error, unit) io" where
  "sync_storage_service V =
     thenE (ae_open V)
    (bindE (st (fetch_storage_manifest_version (ae_store V))) (\<lambda>local_version.
     bindE (ae_manifest_if_changed V local_version) (\<lambda>changed.
       case changed of
         None \<Rightarrow>
           ignore (clear_storage_sync_cursor (ae_store V))
             (ensure_single_all_chats_folder V False)
       | Some m \<Rightarrow>
           if subject_keys m = [] \<and> trailing_keys m = [] then sync_finish V m else sync_records V m)))"

text \<open>\<open>Manager::sync_storage_service\<close>, and the environment in which the retry loops call it.\<close>

definition manager_sync_storage_service ::
  "('w, 'e) account_env \<Rightarrow> ('w, 'e error, unit) io" where
  "manager_sync_storage_service V =
     bindE (ae_master_key V) (\<lambda>key.
       case key of
         None \<Rightarrow> err (MissingKeyError ''master_key'')
       | Some _ \<Rightarrow> sync_storage_service V)"

definition with_sync :: "('w, 'e) account_env \<Rightarrow> ('w, 'e) account_env" where
  "with_sync V = V\<lparr>ae_sync := manager_sync_storage_service V\<rparr>"

end
