(* ===== verification/Convergence.thy ===== *)
theory Convergence
  imports Merge_Laws Publish_Props Sync
begin

text \<open>
  Several devices of one account, each with its row of a contact, and the account's record of that
  contact between them. A device edits its row at any time; an exchange is a sync of the record into the
  row (\<open>sync_contact\<close>, under the flag and the identity the store holds) followed by the edit a publish makes of
  the record (\<open>contact_edit\<close>). Once the edits stop, the devices agree, and what they agree on is an edit
  one of them made wherever any of them made one.
\<close>

section \<open>A device\<close>

record device =
  dv_row :: contact
  dv_identity :: "storage_record_identity option"
  dv_flag :: bool

definition device_store :: "uuid \<Rightarrow> (device, unit) store_ops" where
  "device_store u = inert_store
     \<lparr>contact_by_id := \<lambda>_ D. (Inr (Some (dv_row D)), D),
      save_contact := \<lambda>c D. (Inr (), D\<lparr>dv_row := c\<rparr>),
      contact_storage_identity := \<lambda>_ D. (Inr (dv_identity D), D),
      save_contact_storage_identity := \<lambda>_ i D. (Inr (), D\<lparr>dv_identity := Some i\<rparr>),
      set_contact_needs_storage_sync := \<lambda>_ b D. (Inr (), D\<lparr>dv_flag := b\<rparr>),
      contacts_needing_storage_sync := \<lambda>D. (Inr (if dv_flag D then [Aci u] else []), D)\<rparr>"

definition device_account :: "uuid \<Rightarrow> contact_codec \<Rightarrow> (device, unit) account_env" where
  "device_account u K =
     \<lparr>ae_store = device_store u, ae_master_key = ok (Some []), ae_open = ok (),
      ae_manifest = err StorageManifestConflict, ae_manifest_if_changed = (\<lambda>_. ok None),
      ae_read_items = (\<lambda>_ _. ok []), ae_write_items = (\<lambda>_ _ _. ok ()), ae_random16 = (\<lambda>w. ([], w)),
      ae_now_ms = (\<lambda>w. (0, w)), ae_sleep = (\<lambda>_ w. w), ae_new_sender = ok (), ae_send_fetch_latest = ok (),
      ae_sync = ok (), ae_device = 1, ae_codec = plain_codec, ae_contact_codec = K,
      ae_encode_contact = (\<lambda>_. []), ae_encode_group = (\<lambda>_. []), ae_encode_sticker = (\<lambda>_. []),
      ae_encode_folder = (\<lambda>_. []), ae_decode_sticker = (\<lambda>_. None)\<rparr>"

text \<open>The record's identity as the store keeps it; identifier and version play no part here.\<close>

definition held_record :: "bytes \<Rightarrow> storage_record_identity" where
  "held_record rec = \<lparr>si_storage_id = [], si_storage_version = 0, si_record = rec\<rparr>"

definition sync_device ::
  "uuid \<Rightarrow> contact_codec \<Rightarrow> (bytes \<Rightarrow> contact_record) \<Rightarrow> bytes \<Rightarrow> device \<Rightarrow> device" where
  "sync_device u K decode rec D =
     snd (bindE (read_pending (device_account u K))
            (\<lambda>P. sync_contact (device_account u K) P (held_record rec) (decode rec) :: (device, unit, unit) io) D)"

definition publish_device :: "device \<Rightarrow> bytes \<Rightarrow> device \<times> bytes" where
  "publish_device D rec =
     (case contact_edit (dv_row D) rec of
        Inl _ \<Rightarrow> (D, rec)
      | Inr None \<Rightarrow> (D\<lparr>dv_flag := False\<rparr>, rec)
      | Inr (Some rec') \<Rightarrow> (D\<lparr>dv_identity := Some (held_record rec'), dv_flag := False\<rparr>, rec'))"

definition exchange ::
  "uuid \<Rightarrow> contact_codec \<Rightarrow> (bytes \<Rightarrow> contact_record) \<Rightarrow> device \<Rightarrow> bytes \<Rightarrow> device \<times> bytes" where
  "exchange u K decode D rec = publish_device (sync_device u K decode rec D) rec"

text \<open>What a device owes the record: the fields in which its row left the record it last saw.\<close>

definition device_pending :: "device \<Rightarrow> pending_publish" where
  "device_pending D =
     (if \<not> dv_flag D then pending_none
      else case dv_identity D of
             Some i \<Rightarrow> unwrap_or pending_all (pending_diff (si_record i) (dv_row D))
           | None \<Rightarrow> pending_all)"

text \<open>The codec reads the three fields the way the editor does, and knows whose record it is.\<close>

definition decodes :: "uuid \<Rightarrow> contact_codec \<Rightarrow> (bytes \<Rightarrow> contact_record) \<Rightarrow> bool" where
  "decodes u K decode \<longleftrightarrow>
     (\<forall>rec c. contact_agrees c rec \<longrightarrow>
        (\<exists>c'. contact_try_from K (decode rec) = Inr c' \<and> c_uuid c' = u \<and> contact_agrees c' rec))"

section \<open>One exchange\<close>

lemma sync_device_row:
  assumes "contact_try_from K (decode rec) = Inr c" "c_uuid c = u"
  shows "sync_device u K decode rec D =
    D\<lparr>dv_row := fst (merge_contact_from_snapshot c (dv_row D) (device_pending D)), dv_identity := Some (held_record rec)\<rparr>"
  using assms
  by (simp add: sync_device_def read_pending_def read_or_def sync_contact_def device_account_def device_store_def
      inert_store_def pending_publish_intent_def device_pending_def unwrap_or_def ok_def io_simps attempt_def ignore_def
      held_record_def Let_def split: option.split)

lemma contact_agrees_iff:
  "contact_agrees c rec \<Longrightarrow> contact_agrees d rec \<longleftrightarrow>
     c_blocked d = c_blocked c \<and> c_muted_until d = c_muted_until c \<and> c_archived d = c_archived c"
  by (auto simp: contact_agrees_def)

lemma pending_apply_length:
  assumes "pending_apply d rec l = Inr rec'" "length rec + 200 < 2 ^ 64"
  shows "length rec' \<le> length rec + 120"
proof -
  from assms(1) obtain e1 e2 where e:
    "put_if set_contact_blocked (pp_blocked d) rec (c_blocked l) = Inr e1"
    "put_if set_contact_muted_until (pp_muted d) e1 (c_muted_until l) = Inr e2"
    "put_if set_contact_archived (pp_archived d) e2 (c_archived l) = Inr rec'"
    unfolding pending_apply_def by (auto elim!: res_bind_InrE)
  have "length e1 \<le> length rec + 40" using contact_blocked.put_if_length [OF e(1)] assms(2) by simp
  moreover from this have "length e2 \<le> length e1 + 40" using contact_muted.put_if_length [OF e(2)] assms(2) by simp
  ultimately show ?thesis using contact_archived.put_if_length [OF e(3)] assms(2) by simp
qed

lemma publish_device_spec:
  assumes "contact_agrees c rec" "length rec + 200 < 2 ^ 64" "publish_device D rec = (D', rec')"
  shows "\<not> dv_flag D' \<and> dv_row D' = dv_row D \<and> contact_agrees (dv_row D) rec' \<and> length rec' \<le> length rec + 120 \<and>
    (contact_agrees (dv_row D) rec \<longrightarrow> rec' = rec)"
proof (cases "contact_agrees (dv_row D) rec")
  case True
  with assms(3) show ?thesis by (auto simp: publish_device_def contact_edit_None [symmetric])
next
  case False
  obtain d where d: "pending_diff rec (dv_row D) = Inr d"
    using assms(1) by (simp add: pending_diff_def contact_agrees_def)
  from contact_pending.apply_total [OF d assms(2)] obtain r where r: "pending_apply d rec (dv_row D) = Inr r" by blast
  have "pending_any d" using False d by (auto simp: contact_edit_None [symmetric] contact_edit_def split: if_splits)
  with d r have e: "contact_edit (dv_row D) rec = Inr (Some r)" by (simp add: contact_edit_def res_map_Inr_iff)
  have "contact_agrees (dv_row D) r"
    using contact_pending.apply_settles [OF d r assms(2)]
    by (simp add: contact_edit_None [symmetric] contact_edit_def pending_any_def)
  with False e assms(3) pending_apply_length [OF r assms(2)] show ?thesis by (auto simp: publish_device_def)
qed

lemma exchange_spec:
  assumes "decodes u K decode" "contact_agrees c rec" "length rec + 200 < 2 ^ 64"
    and e: "exchange u K decode D rec = (D', rec')"
  shows "\<not> dv_flag D'" "contact_agrees (dv_row D') rec'" "length rec' \<le> length rec + 120"
    "\<not> dv_flag D \<Longrightarrow> rec' = rec"
    "c_blocked (dv_row D') = (if pp_blocked (device_pending D) then c_blocked (dv_row D) else c_blocked c)"
    "c_muted_until (dv_row D') = (if pp_muted (device_pending D) then c_muted_until (dv_row D) else c_muted_until c)"
    "c_archived (dv_row D') = (if pp_archived (device_pending D) then c_archived (dv_row D) else c_archived c)"
proof -
  from assms(1,2) obtain c' where c': "contact_try_from K (decode rec) = Inr c'" "c_uuid c' = u" "contact_agrees c' rec"
    unfolding decodes_def by blast
  let ?D = "sync_device u K decode rec D"
  note r = sync_device_row [where u = u and D = D and decode = decode and rec = rec, OF c'(1,2)]
  note f = merge_contact_fields(1-3) [of c' "dv_row D" "device_pending D"]
  note eq = contact_agrees_iff [OF assms(2), THEN iffD1, OF c'(3)]
  note p = publish_device_spec [OF assms(2,3) e [unfolded exchange_def]]
  show "\<not> dv_flag D'" "contact_agrees (dv_row D') rec'" "length rec' \<le> length rec + 120" using p by simp_all
  show "c_blocked (dv_row D') = (if pp_blocked (device_pending D) then c_blocked (dv_row D) else c_blocked c)"
    "c_muted_until (dv_row D') = (if pp_muted (device_pending D) then c_muted_until (dv_row D) else c_muted_until c)"
    "c_archived (dv_row D') = (if pp_archived (device_pending D) then c_archived (dv_row D) else c_archived c)"
    using p r f eq by simp_all
  assume "\<not> dv_flag D"
  then have "device_pending D = pending_none" by (simp add: device_pending_def)
  with f r eq have "contact_agrees (dv_row ?D) rec"
    by (simp add: contact_agrees_iff [OF assms(2)] pending_none_def)
  with p show "rec' = rec" by simp
qed

section \<open>Edits and exchanges\<close>

datatype event =
    Edit nat "contact \<Rightarrow> contact"
  | Exchange nat

fun event_step ::
  "uuid \<Rightarrow> contact_codec \<Rightarrow> (bytes \<Rightarrow> contact_record) \<Rightarrow> event \<Rightarrow> (nat \<Rightarrow> device) \<times> bytes \<Rightarrow> (nat \<Rightarrow> device) \<times> bytes" where
  "event_step u K decode (Edit i f) (ds, rec) = (ds(i := (ds i)\<lparr>dv_row := f (dv_row (ds i)), dv_flag := True\<rparr>), rec)"
| "event_step u K decode (Exchange i) (ds, rec) =
     (let (D, rec') = exchange u K decode (ds i) rec in (ds(i := D), rec'))"

definition run ::
  "uuid \<Rightarrow> contact_codec \<Rightarrow> (bytes \<Rightarrow> contact_record) \<Rightarrow> event list \<Rightarrow> (nat \<Rightarrow> device) \<times> bytes \<Rightarrow> (nat \<Rightarrow> device) \<times> bytes" where
  "run u K decode es s = fold (event_step u K decode) es s"

lemma run_simps [simp]:
  "run u K decode [] s = s"
  "run u K decode (e # es) s = run u K decode es (event_step u K decode e s)"
  "run u K decode (es @ fs) s = run u K decode fs (run u K decode es s)"
  by (simp_all add: run_def)

text \<open>The record stays readable and grows by a bounded number of bytes with every exchange.\<close>

lemma event_step_readable:
  assumes "decodes u K decode" "contact_agrees c rec" "length rec + 200 < 2 ^ 64"
    "event_step u K decode e (ds, rec) = (ds', rec')"
  shows "(\<exists>c'. contact_agrees c' rec') \<and> length rec' \<le> length rec + 120"
proof (cases e)
  case (Exchange i)
  obtain D r where x: "exchange u K decode (ds i) rec = (D, r)" by fastforce
  with assms(4) Exchange exchange_spec(2,3) [OF assms(1-3) x] show ?thesis by auto
qed (use assms in auto)

lemma run_readable:
  assumes "decodes u K decode" "contact_agrees c rec" "length rec + 120 * length es + 200 < 2 ^ 64"
    "run u K decode es (ds, rec) = (ds', rec')"
  shows "(\<exists>c'. contact_agrees c' rec') \<and> length rec' \<le> length rec + 120 * length es"
  using assms(2-)
proof (induction es arbitrary: ds rec c)
  case (Cons e es)
  obtain ds1 rec1 where s: "event_step u K decode e (ds, rec) = (ds1, rec1)" by fastforce
  have "length rec + 200 < 2 ^ 64" using Cons.prems(2) by simp
  from event_step_readable [OF assms(1) Cons.prems(1) this s] obtain c1 where
    c1: "contact_agrees c1 rec1" "length rec1 \<le> length rec + 120" by blast
  with Cons.prems(2) have "length rec1 + 120 * length es + 200 < 2 ^ 64" by simp
  from Cons.IH [OF c1(1) this] Cons.prems(3) s c1(2) show ?case by fastforce
qed auto

section \<open>When the edits stop\<close>

text \<open>
  What becomes of one field while the devices of a list exchange: an edit one of them owes, or what it was
  if none of them owes one.
\<close>

definition outcome ::
  "(pending_publish \<Rightarrow> bool) \<Rightarrow> (contact \<Rightarrow> 'v) \<Rightarrow> device list \<Rightarrow> 'v \<Rightarrow> 'v \<Rightarrow> bool" where
  "outcome owes field Ds old new \<longleftrightarrow>
     list_ex (\<lambda>D. owes (device_pending D) \<and> field (dv_row D) = new) Ds \<or>
     new = old \<and> list_all (\<lambda>D. \<not> owes (device_pending D)) Ds"

lemma outcome_step:
  assumes "outcome owes field (map (ds(i := D)) is) mid new" "\<not> dv_flag D" "\<not> owes pending_none"
    "mid = (if owes (device_pending (ds i)) then field (dv_row (ds i)) else old)"
  shows "outcome owes field (map ds (i # is)) old new"
proof -
  have D: "device_pending D = pending_none" using assms(2) by (simp add: device_pending_def)
  show ?thesis
  proof (cases "list_ex (\<lambda>D. owes (device_pending D) \<and> field (dv_row D) = new) (map (ds(i := D)) is)")
    case True
    with D assms(3) have "list_ex (\<lambda>D. owes (device_pending D) \<and> field (dv_row D) = new) (map ds is)"
      by (auto simp: list_ex_iff split: if_splits)
    then show ?thesis by (simp add: outcome_def)
  next
    case False
    with assms(1) have "new = mid" "list_all (\<lambda>D. \<not> owes (device_pending D)) (map (ds(i := D)) is)"
      unfolding outcome_def by blast+
    then have "\<forall>j \<in> set is. j \<noteq> i \<longrightarrow> \<not> owes (device_pending (ds j))" by (auto simp: list_all_iff split: if_splits)
    with \<open>new = mid\<close> assms(4) show ?thesis by (auto simp: outcome_def list_all_iff list_ex_iff)
  qed
qed

lemma quiet_run:
  assumes "decodes u K decode" "contact_agrees c rec" "length rec + 120 * length is + 200 < 2 ^ 64"
    "run u K decode (map Exchange is) (ds, rec) = (ds', rec')" "contact_agrees c' rec'"
  shows "outcome pp_blocked c_blocked (map ds is) (c_blocked c) (c_blocked c') \<and>
    outcome pp_muted c_muted_until (map ds is) (c_muted_until c) (c_muted_until c') \<and>
    outcome pp_archived c_archived (map ds is) (c_archived c) (c_archived c')"
  using assms(2-)
proof (induction "is" arbitrary: ds rec c)
  case Nil
  then show ?case using contact_agrees_iff [of c rec c'] by (simp add: outcome_def)
next
  case (Cons i "is")
  obtain D r where x: "exchange u K decode (ds i) rec = (D, r)" by fastforce
  have "length rec + 200 < 2 ^ 64" using Cons.prems(2) by simp
  note X = exchange_spec [OF assms(1) Cons.prems(1) this x]
  have "length r + 120 * length is + 200 < 2 ^ 64" using X(3) Cons.prems(2) by simp
  moreover have "run u K decode (map Exchange is) (ds(i := D), r) = (ds', rec')" using Cons.prems(3) x by simp
  ultimately have "outcome pp_blocked c_blocked (map (ds(i := D)) is) (c_blocked (dv_row D)) (c_blocked c')"
    "outcome pp_muted c_muted_until (map (ds(i := D)) is) (c_muted_until (dv_row D)) (c_muted_until c')"
    "outcome pp_archived c_archived (map (ds(i := D)) is) (c_archived (dv_row D)) (c_archived c')"
    using Cons.IH [OF X(2) _ _ Cons.prems(4), of "ds(i := D)"] by blast+
  from outcome_step [OF this(1) X(1) _ X(5)] outcome_step [OF this(2) X(1) _ X(6)]
    outcome_step [OF this(3) X(1) _ X(7)]
  show ?case by (simp add: pending_none_def)
qed

lemma exchange_flags:
  assumes "decodes u K decode" "contact_agrees c rec" "length rec + 120 * length is + 200 < 2 ^ 64"
    "run u K decode (map Exchange is) (ds, rec) = (ds', rec')"
  shows "dv_flag (ds' i) \<longrightarrow> dv_flag (ds i) \<and> i \<notin> set is"
  using assms(2-)
proof (induction "is" arbitrary: ds rec c)
  case (Cons j "is")
  obtain D r where x: "exchange u K decode (ds j) rec = (D, r)" by fastforce
  have "length rec + 200 < 2 ^ 64" using Cons.prems(2) by simp
  note X = exchange_spec [OF assms(1) Cons.prems(1) this x]
  have "length r + 120 * length is + 200 < 2 ^ 64" using X(3) Cons.prems(2) by simp
  moreover have "run u K decode (map Exchange is) (ds(j := D), r) = (ds', rec')" using Cons.prems(3) x by simp
  ultimately have "dv_flag (ds' i) \<longrightarrow> dv_flag ((ds(j := D)) i) \<and> i \<notin> set is"
    using Cons.IH [OF X(2)] by blast
  with X(1) show ?case by (auto split: if_splits)
qed simp

text \<open>With nothing owed anywhere the record stands and every device that looks at it takes its values.\<close>

lemma settled_run:
  assumes "decodes u K decode" "contact_agrees c rec" "length rec + 200 < 2 ^ 64" "\<forall>i. \<not> dv_flag (ds i)"
    "run u K decode (map Exchange is) (ds, rec) = (ds', rec')"
  shows "rec' = rec \<and> list_all (\<lambda>i. contact_agrees (dv_row (ds' i)) rec) is \<and>
    (\<forall>i. contact_agrees (dv_row (ds i)) rec \<longrightarrow> contact_agrees (dv_row (ds' i)) rec) \<and> (\<forall>i. \<not> dv_flag (ds' i))"
  using assms(4-)
proof (induction "is" arbitrary: ds)
  case (Cons j "is")
  obtain D r where x: "exchange u K decode (ds j) rec = (D, r)" by fastforce
  note X = exchange_spec [OF assms(1-3) x]
  have r: "r = rec" using X(4) Cons.prems(1) by simp
  have "run u K decode (map Exchange is) (ds(j := D), rec) = (ds', rec')" using Cons.prems(2) x r by simp
  moreover have "\<forall>i. \<not> dv_flag ((ds(j := D)) i)" using X(1) Cons.prems(1) by simp
  ultimately have "rec' = rec \<and> list_all (\<lambda>i. contact_agrees (dv_row (ds' i)) rec) is \<and>
    (\<forall>i. contact_agrees (dv_row ((ds(j := D)) i)) rec \<longrightarrow> contact_agrees (dv_row (ds' i)) rec) \<and> (\<forall>i. \<not> dv_flag (ds' i))"
    using Cons.IH by blast
  moreover have "contact_agrees (dv_row D) rec" using X(2) r by simp
  ultimately show ?case by (auto split: if_splits)
qed simp

section \<open>Convergence\<close>

text \<open>C6. Devices that stop editing come to agree, and no field falls back. Let any devices edit and exchange in
  any order. When from then on they only exchange, every device that owed an edit first among the rest in any
  order and any number of times, all devices that exchange afterwards have their flag down and block, mute and
  archive as the account's record has them. And what the record then holds in each field is an
  edit one of the devices owed for it when the edits stopped, or, if none owed one, what it held then.\<close>

theorem devices_converge:
  assumes "decodes u K decode" "contact_agrees c rec"
    and "length rec + 120 * (length es + length q1 + length q2) + 200 < 2 ^ 64"
    and "run u K decode es (ds, rec) = (ds1, rec1)"
    and "\<And>i. dv_flag (ds1 i) \<Longrightarrow> i \<in> set q1"
    and "run u K decode (map Exchange (q1 @ q2)) (ds1, rec1) = (ds2, rec2)"
  shows "list_all (\<lambda>i. \<not> dv_flag (ds2 i) \<and> contact_agrees (dv_row (ds2 i)) rec2) q2 \<and>
    (\<exists>c1 c2. contact_agrees c1 rec1 \<and> contact_agrees c2 rec2 \<and>
       outcome pp_blocked c_blocked (map ds1 q1) (c_blocked c1) (c_blocked c2) \<and>
       outcome pp_muted c_muted_until (map ds1 q1) (c_muted_until c1) (c_muted_until c2) \<and>
       outcome pp_archived c_archived (map ds1 q1) (c_archived c1) (c_archived c2))"
proof -
  have "length rec + 120 * length es + 200 < 2 ^ 64" using assms(3) by simp
  from run_readable [OF assms(1,2) this assms(4)] obtain c1 where
    c1: "contact_agrees c1 rec1" "length rec1 \<le> length rec + 120 * length es" by blast
  obtain dsq recq where q: "run u K decode (map Exchange q1) (ds1, rec1) = (dsq, recq)" by fastforce
  have n: "length rec1 + 120 * length q1 + 200 < 2 ^ 64" using c1(2) assms(3) by simp
  moreover have "length rec1 + 120 * length (map Exchange q1) + 200 < 2 ^ 64" using n by simp
  from run_readable [OF assms(1) c1(1) this q] obtain c2 where
    c2: "contact_agrees c2 recq" "length recq \<le> length rec1 + 120 * length q1" by auto
  have flags: "\<forall>i. \<not> dv_flag (dsq i)" using exchange_flags [OF assms(1) c1(1) n q] assms(5) by blast
  have "run u K decode (map Exchange q2) (dsq, recq) = (ds2, rec2)" using assms(6) q by simp
  moreover have "length recq + 200 < 2 ^ 64" using c1(2) c2(2) assms(3) by simp
  ultimately have "rec2 = recq" "list_all (\<lambda>i. contact_agrees (dv_row (ds2 i)) recq) q2" "\<forall>i. \<not> dv_flag (ds2 i)"
    using settled_run [OF assms(1) c2(1) _ flags] by blast+
  with quiet_run [OF assms(1) c1(1) n q c2(1)] c1(1) c2(1) show ?thesis by (auto simp: list_all_iff)
qed

text \<open>Two devices that muted and blocked one contact while they were apart.\<close>

definition sample_decode :: "bytes \<Rightarrow> contact_record" where
  "sample_decode rec = contact_to_new_storage_record sample_contact_codec
     ((contact_minimal (sample_uuid 1))
        \<lparr>c_blocked := unwrap_or False (contact_blocked rec), c_muted_until := unwrap_or 0 (contact_muted_until rec),
         c_archived := unwrap_or False (contact_archived rec)\<rparr>)"

lemma sample_decodes: "decodes (sample_uuid 1) sample_contact_codec sample_decode"
  unfolding decodes_def
  by (auto simp: contact_agrees_def sample_decode_def contact_try_from_def contact_to_new_storage_record_def
      contact_minimal_def contact_from_synced_def unwrap_or_def ok_or_def Let_def simp del: sample_uuid_bytes)

definition sample_devices :: "nat \<Rightarrow> device" where
  "sample_devices i = \<lparr>dv_row = contact_minimal (sample_uuid 1), dv_identity = Some (held_record [10, 0]), dv_flag = False\<rparr>"

definition sample_edits :: "event list" where
  "sample_edits = [Edit 0 (c_muted_until_update (\<lambda>_. 9)), Edit 1 (c_blocked_update (\<lambda>_. True))]"

lemma devices_converge_witness:
  "\<exists>ds rec. run (sample_uuid 1) sample_contact_codec sample_decode
      (sample_edits @ map Exchange ([0, 1] @ [0, 1])) (sample_devices, [10, 0]) = (ds, rec) \<and>
    contact_agrees (dv_row (ds 0)) rec \<and> contact_agrees (dv_row (ds 1)) rec"
proof -
  let ?run = "run (sample_uuid 1) sample_contact_codec sample_decode"
  have a: "contact_agrees (contact_minimal (sample_uuid 1)) [10, 0]"
    unfolding contact_agrees_def by (intro conjI; code_simp)
  obtain ds1 rec1 where e: "?run sample_edits (sample_devices, [10, 0]) = (ds1, rec1)" by fastforce
  have f: "dv_flag (ds1 i) \<Longrightarrow> i \<in> set [0, 1]" for i
    using e by (auto simp: sample_edits_def sample_devices_def split: if_splits)
  obtain ds2 rec2 where q: "?run (map Exchange ([0, 1] @ [0, 1])) (ds1, rec1) = (ds2, rec2)" by fastforce
  have n: "length ([10, 0] :: bytes) + 120 * (length sample_edits + length [0, 1 :: nat] + length [0, 1 :: nat]) + 200 < 2 ^ 64"
    by (simp add: sample_edits_def)
  from devices_converge [OF sample_decodes a n e f q] e q show ?thesis by simp
qed

end
