(* ===== verification/Group_Service.thy ===== *)
theory Group_Service
  imports Manifest
begin

text \<open>
  Groups as the manager keeps them (\<open>presage/src/manager/registered.rs\<close>): reading a group from the
  server into the store, and the changes this account makes. The group server, the credentials and
  libsignal's encryption of groups are the parameters of \<open>group_env\<close>: \<open>'g\<close> is an encrypted group,
  \<open>'a\<close> an encrypted action, \<open>'c\<close> a profile key credential.
\<close>

section \<open>The group server\<close>

record ('w, 'e, 'g, 'a, 'c) group_env =
  ge_account :: "('w, 'e) account_env"
  ge_self :: uuid
  ge_manager :: "('w, 'e error, unit) io"
  ge_authorize :: "key32 \<Rightarrow> ('w, 'e error, unit) io"
  ge_fetch_encrypted :: "key32 \<Rightarrow> ('w, 'e error, 'g) io"
  ge_decrypt :: "key32 \<Rightarrow> 'g \<Rightarrow> 'e error + server_group"
  ge_patch :: "key32 \<Rightarrow> 'a actions \<Rightarrow> ('w, 'e error, bytes) io"
  ge_ops :: "key32 \<Rightarrow> ('a, 'c, 'e error) group_ops"
  ge_websocket :: "('w, 'e error, unit) io"
  ge_credential :: "uuid \<Rightarrow> key32 \<Rightarrow> ('w, 'e error, 'c) io"
  ge_own_credential :: "('w, 'e error, 'c) io"
  ge_random32 :: "'w \<Rightarrow> key32 \<times> 'w"
  ge_encrypt :: "key32 \<Rightarrow> string \<Rightarrow> string option \<Rightarrow> u32 option \<Rightarrow> access_control \<Rightarrow> 'c \<Rightarrow>
    'c group_member_candidate list \<Rightarrow> 'e error + 'g"
  ge_create :: "key32 \<Rightarrow> 'g \<Rightarrow> ('w, 'e error, unit) io"

abbreviation ge_store :: "('w, 'e, 'g, 'a, 'c) group_env \<Rightarrow> ('w, 'e) store_ops" where
  "ge_store G \<equiv> ae_store (ge_account G)"

definition fetch_group ::
  "('w, 'e, 'g, 'a, 'c) group_env \<Rightarrow> key32 \<Rightarrow> ('w, 'e error, server_group) io" where
  "fetch_group G mk =
     bindE (ge_fetch_encrypted G mk) (\<lambda>encrypted. lift_res (ge_decrypt G mk encrypted))"

section \<open>Reading a group\<close>

definition load_group_or_none ::
  "('w, 'e, 'g, 'a, 'c) group_env \<Rightarrow> key32 \<Rightarrow> ('w, 'e error, group option) io" where
  "load_group_or_none G mk =
     attempt (load_group (ge_store G) mk) (\<lambda>r.
       case r of
         Inr g \<Rightarrow> ok g
       | Inl _ \<Rightarrow> ok None)"

definition save_and_read_group ::
  "('w, 'e, 'g, 'a, 'c) group_env \<Rightarrow> key32 \<Rightarrow> group \<Rightarrow> ('w, 'e error, group option) io" where
  "save_and_read_group G mk g =
     thenE (st (save_group (ge_store G) mk g)) (st (load_group (ge_store G) mk))"

definition fetch_and_store_group ::
  "('w, 'e, 'g, 'a, 'c) group_env \<Rightarrow> key32 \<Rightarrow> group option \<Rightarrow> ('w, 'e error, group option) io" where
  "fetch_and_store_group G mk local =
     thenE (ge_authorize G mk)
    (attempt (fetch_group G mk) (\<lambda>r.
       case r of
         Inr server \<Rightarrow> save_and_read_group G mk (from_server server local)
       | Inl e \<Rightarrow>
           if e = ServiceUnauthorized \<or> e = ServiceNotFound then
             (case local of
                None \<Rightarrow> ok None
              | Some g \<Rightarrow> save_and_read_group G mk (mark_denied (ge_self G) g))
           else err e))"

definition refresh_group ::
  "('w, 'e, 'g, 'a, 'c) group_env \<Rightarrow> key32 \<Rightarrow> group option \<Rightarrow> ('w, 'e error, group option) io" where
  "refresh_group G mk local =
     attempt (fetch_and_store_group G mk local) (\<lambda>r.
       case r of
         Inr g \<Rightarrow> ok g
       | Inl _ \<Rightarrow> st (load_group (ge_store G) mk))"

definition upsert_group ::
  "('w, 'e, 'g, 'a, 'c) group_env \<Rightarrow> bytes \<Rightarrow> u32 \<Rightarrow> ('w, 'e error, group option) io" where
  "upsert_group G master_key_bytes revision =
     bindE (lift_res (ok_or TryFromSliceError (key32_from_slice master_key_bytes))) (\<lambda>mk.
     bindE (load_group_or_none G mk) (\<lambda>local.
       if (case local of Some g \<Rightarrow> revision \<le> g_revision g | None \<Rightarrow> False) then ok local
       else refresh_group G mk local))"

definition stored_group :: "('w, 'e) account_env \<Rightarrow> key32 \<Rightarrow> ('w, 'e error, group) io" where
  "stored_group V mk =
     bindE (st (load_group (ae_store V) mk)) (\<lambda>g. lift_res (ok_or UnknownGroup g))"

definition save_group_from_server ::
  "('w, 'e, 'g, 'a, 'c) group_env \<Rightarrow> key32 \<Rightarrow> group \<Rightarrow> ('w, 'e error, unit) io" where
  "save_group_from_server G mk local =
     thenE (ge_manager G)
    (bindE (fetch_group G mk) (\<lambda>server.
       st (save_group (ge_store G) mk (from_server server (Some local)))))"

section \<open>Hydration\<close>

definition HYDRATION_WORKERS :: nat where "HYDRATION_WORKERS = 5"

text \<open>The loop of one worker.\<close>

fun hydrate_each ::
  "('w, 'e, 'g, 'a, 'c) group_env \<Rightarrow> key32 list \<Rightarrow> ('w, 'e error, unit) io" where
  "hydrate_each G [] = ok ()"
| "hydrate_each G (mk # mks) =
     attempt (load_group (ge_store G) mk) (\<lambda>local.
     attempt (fetch_and_store_group G mk (opt_or None (res_ok local))) (\<lambda>r.
       case r of
         Inr _ \<Rightarrow> hydrate_each G mks
       | Inl e \<Rightarrow> if e = ServiceUnauthorized then err ServiceUnauthorized else hydrate_each G mks))"

definition hydrate_chunk ::
  "('w, 'e, 'g, 'a, 'c) group_env \<Rightarrow> key32 list \<Rightarrow> ('w, 'e error, unit) io" where
  "hydrate_chunk G chunk = thenE (ge_manager G) (hydrate_each G chunk)"

definition group_stubs :: "('e + (key32 \<times> group)) list \<Rightarrow> key32 list" where
  "group_stubs rs = map fst (filter (\<lambda>(_, g). g_needs_hydration g) (List.map_filter res_ok rs))"

definition hydrate_groups :: "('w, 'e, 'g, 'a, 'c) group_env \<Rightarrow> ('w, 'e error, unit) io" where
  "hydrate_groups G =
     bindE (st (stored_groups (ge_store G))) (\<lambda>rs.
       case group_stubs rs of
         [] \<Rightarrow> ok ()
       | first # rest \<Rightarrow>
           thenE (ge_manager G)
          (thenE (ge_authorize G first)
          (let stubs = first # rest;
               per_chunk = max 1 ((length stubs + HYDRATION_WORKERS - 1) div HYDRATION_WORKERS) in
           bindE (call (run_all (map (hydrate_chunk G) (chunks per_chunk stubs)))) (\<lambda>results.
             lift_res (res_map (\<lambda>_. ()) (res_collect results))))))"

section \<open>Changing a group\<close>

definition GROUP_UPDATE_CONFLICT_RETRIES :: nat where "GROUP_UPDATE_CONFLICT_RETRIES = 3"

text \<open>The loop of \<open>apply_group_change\<close>, \<open>left\<close> conflicts from giving up.\<close>

fun change_attempts ::
  "('w, 'e, 'g, 'a, 'c) group_env \<Rightarrow> key32 \<Rightarrow> (u32 \<Rightarrow> 'e error + 'a actions) \<Rightarrow> nat \<Rightarrow> u32 \<Rightarrow>
   ('w, 'e error, bytes \<times> u32) io" where
  "change_attempts G mk build 0 revision =
     bindE (lift_res (build (revision + 1))) (\<lambda>actions.
     bindE (ge_patch G mk actions) (\<lambda>change. ok (change, revision + 1)))"
| "change_attempts G mk build (Suc left) revision =
     bindE (lift_res (build (revision + 1))) (\<lambda>actions.
     attempt (ge_patch G mk actions) (\<lambda>r.
       case r of
         Inr change \<Rightarrow> ok (change, revision + 1)
       | Inl e \<Rightarrow>
           if e = ServiceConflict then
             bindE (fetch_group G mk) (\<lambda>server.
               change_attempts G mk build left (sg_version server))
           else err e))"

definition apply_group_change ::
  "('w, 'e, 'g, 'a, 'c) group_env \<Rightarrow> key32 \<Rightarrow> u32 \<Rightarrow> (u32 \<Rightarrow> 'e error + 'a actions) \<Rightarrow>
   ('w, 'e error, group_context) io" where
  "apply_group_change G mk stored_revision build =
     thenE (ge_manager G)
    (bindE (change_attempts G mk build GROUP_UPDATE_CONFLICT_RETRIES stored_revision)
       (\<lambda>(change, applied_revision).
          ok \<lparr>gc_master_key = Some (key32_bytes mk), gc_revision = Some applied_revision,
              gc_group_change = Some change\<rparr>))"

definition update_group ::
  "('w, 'e, 'g, 'a, 'c) group_env \<Rightarrow> key32 \<Rightarrow> group_update \<Rightarrow> ('w, 'e error, group_context) io" where
  "update_group G mk update =
     (if group_update_is_empty update then err EmptyGroupUpdate
      else bindE (stored_group (ge_account G) mk) (\<lambda>local.
        let clearing = opt_or [] (map_option (members_losing_labels local) (gu_member_label_access update)) in
        bindE (apply_group_change G mk (g_revision local) (group_update_actions (ge_ops G mk) clearing update))
          (\<lambda>context. thenE (save_group_from_server G mk local) (ok context))))"

definition member_profile_key_credential ::
  "('w, 'e, 'g, 'a, 'c) group_env \<Rightarrow> service_id \<Rightarrow> ('w, 'e error, 'c option) io" where
  "member_profile_key_credential G sid =
     (case sid_aci sid of
        None \<Rightarrow> ok None
      | Some aci \<Rightarrow>
          attempt (stored_profile_key (ge_store G) sid) (\<lambda>key.
            case key of
              Inr (Some k) \<Rightarrow>
                attempt (ge_websocket G) (\<lambda>ws.
                  case ws of
                    Inl _ \<Rightarrow> ok None
                  | Inr () \<Rightarrow> attempt (ge_credential G aci k) (\<lambda>r. ok (res_ok r)))
            | _ \<Rightarrow> ok None))"

fun group_member_candidates ::
  "('w, 'e, 'g, 'a, 'c) group_env \<Rightarrow> service_id list \<Rightarrow>
   ('w, 'e error, 'c group_member_candidate list) io" where
  "group_member_candidates G [] = ok []"
| "group_member_candidates G (sid # sids) =
     bindE (member_profile_key_credential G sid) (\<lambda>credential.
     bindE (group_member_candidates G sids) (\<lambda>cands.
       ok (\<lparr>cand_service_id = sid, cand_credential = credential\<rparr> # cands)))"

text \<open>\<open>update.add.retain(..)\<close>\<close>

definition can_be_added :: "group \<Rightarrow> uuid \<Rightarrow> service_id \<Rightarrow> bool" where
  "can_be_added local self_aci sid \<longleftrightarrow>
     sid \<noteq> Aci self_aci \<and> \<not> is_pending local sid \<and>
     (case sid_aci sid of None \<Rightarrow> True | Some aci \<Rightarrow> \<not> is_member local aci)"

definition update_group_members ::
  "('w, 'e, 'g, 'a, 'c) group_env \<Rightarrow> key32 \<Rightarrow> group_members_update \<Rightarrow> ('w, 'e error, group_context) io" where
  "update_group_members G mk update0 =
     bindE (stored_group (ge_account G) mk) (\<lambda>local.
       if \<not> is_member local (ge_self G) then err NotAGroupMember
       else
         let update = update0\<lparr>gm_add := filter (can_be_added local (ge_self G)) (gm_add update0)\<rparr> in
         if group_members_update_is_empty update then err EmptyGroupMembersUpdate
         else bindE (group_member_candidates G (gm_add update)) (\<lambda>candidates.
           bindE (apply_group_change G mk (g_revision local)
               (group_members_actions (ge_ops G mk) (ge_self G) candidates update))
             (\<lambda>context. thenE (save_group_from_server G mk local) (ok context))))"

definition leave_group ::
  "('w, 'e, 'g, 'a, 'c) group_env \<Rightarrow> key32 \<Rightarrow> uuid list \<Rightarrow> ('w, 'e error, group_context) io" where
  "leave_group G mk promote_to_admin =
     bindE (stored_group (ge_account G) mk) (\<lambda>local.
       let pending_self = is_pending local (Aci (ge_self G)) in
       if \<not> pending_self \<and> \<not> is_member local (ge_self G) then err NotAGroupMember
       else if \<not> pending_self \<and> leave_orphans_the_group local (ge_self G) promote_to_admin
         then err LastAdminMustPromote
       else bindE (apply_group_change G mk (g_revision local)
           (leave_actions (ge_ops G mk) (ge_self G) pending_self promote_to_admin))
         (\<lambda>context.
            thenE (st (save_group (ge_store G) mk
                (mark_left (ge_self G) promote_to_admin (gc_revision context) local)))
              (ok context)))"

section \<open>Creating a group\<close>

definition new_group_access :: access_control where
  "new_group_access =
     \<lparr>ac_attributes = Access_Member, ac_members = Access_Member,
      ac_add_from_invite_link = Access_Unsatisfiable, ac_member_label = Access_Member\<rparr>"

definition new_group_record :: "key32 \<Rightarrow> group_record" where
  "new_group_record mk =
     \<lparr>gr_master_key = key32_bytes mk, gr_blocked = False, gr_whitelisted = True, gr_archived = False,
      gr_marked_unread = False, gr_muted_until = 0, gr_dont_notify_for_mentions_if_muted = False,
      gr_hide_story = False, gr_story_send_mode = 0\<rparr>"

definition create_group ::
  "('w, 'e, 'g, 'a, 'c) group_env \<Rightarrow> string \<Rightarrow> string option \<Rightarrow> u32 option \<Rightarrow> service_id list \<Rightarrow>
   ('w, 'e error, key32) io" where
  "create_group G title description timer members =
     bindE (call (ge_random32 G)) (\<lambda>mk.
     bindE (ge_own_credential G) (\<lambda>self_credential.
     bindE (group_member_candidates G members) (\<lambda>candidates.
     bindE (lift_res (ge_encrypt G mk title description timer new_group_access self_credential candidates))
       (\<lambda>encrypted.
     thenE (ge_manager G)
    (thenE (ge_create G mk encrypted)
    (bindE (fetch_group G mk) (\<lambda>server.
     thenE (st (save_group (ge_store G) mk (group_from server)))
    (ignore (append_storage_record (ge_account G) Item_Groupv2
         (ae_encode_group (ge_account G) (new_group_record mk)))
       (ok mk)))))))))"

end
