(* ===== verification/Save_Message.thy ===== *)
theory Save_Message
  imports Manifest
begin

text \<open>
  What the manager does with a message it has (\<open>presage/src/manager/registered.rs\<close>): \<open>save_message\<close>, which
  decides whether and where it is stored, and \<open>upsert_contact_from_profile\<close>, the background task that
  learns a contact from a message. \<open>message_env\<close> holds the manager's collaborators; a task handed to
  \<open>tokio::spawn\<close> is a value of \<open>background\<close>, and \<open>mv_spawn\<close> is what the runtime does with it.
\<close>

section \<open>The manager's collaborators\<close>

datatype background =
    UpsertContact data_message service_id key32
  | SendContactDetails "contact list"
  | SendKeys "string option"
  | SendBlocked "uuid list"
  | RequestKeysFromPrimary
  | DownloadStickerPack sticker_operation

record ('w, 'e) message_env =
  mv_account :: "('w, 'e) account_env"
  mv_self :: uuid
  mv_device :: u8
  mv_profile_key :: key32
  mv_call_codec :: call_codec
  mv_group_by_group_id :: "key32 \<Rightarrow> ('w, 'e, key32 option) io"
  mv_parse_dest :: "sent \<Rightarrow> service_id option"
  mv_spawn :: "background \<Rightarrow> 'w \<Rightarrow> 'w"
  mv_retrieve_name :: "uuid \<Rightarrow> key32 \<Rightarrow> ('w, 'e error, string option) io"
  mv_upsert_group :: "bytes \<Rightarrow> u32 \<Rightarrow> ('w, 'e error, group option) io"
  mv_groups_manager :: "('w, 'e error, unit) io"
  mv_websocket :: "('w, 'e error, unit) io"
  mv_unidentified_websocket :: "('w, 'e error, unit) io"
  mv_cached_certificate :: "'w \<Rightarrow> bytes option \<times> 'w"
  mv_cache_certificate :: "bytes \<Rightarrow> 'w \<Rightarrow> 'w"
  mv_fetch_certificate :: "('w, 'e error, bytes) io"
  mv_save_certificate :: "bytes \<Rightarrow> ('w, 'e, unit) io"
  mv_expiration :: "bytes \<Rightarrow> u64 option"
  mv_access_key :: "key32 \<Rightarrow> bytes"
  mv_send :: "service_id \<Rightarrow> (bytes \<times> bytes) option \<Rightarrow> content_body \<Rightarrow> u64 \<Rightarrow>
    ('w, send_error, unit) io"
  mv_send_group :: "(service_id \<times> (bytes \<times> bytes) option) list \<Rightarrow> content_body \<Rightarrow> u64 \<Rightarrow>
    'w \<Rightarrow> (send_error + unit) list \<times> 'w"
  mv_send_sync :: "content_body \<Rightarrow> ('w, send_error, unit) io"
  mv_sticker_manifest :: "bytes \<Rightarrow> bytes \<Rightarrow> ('w, 'e error, sticker_pack_manifest) io"
  mv_sub_device_sessions :: "('w, 'e error, u8 list) io"

abbreviation mv_store :: "('w, 'e) message_env \<Rightarrow> ('w, 'e) store_ops" where
  "mv_store M \<equiv> ae_store (mv_account M)"

definition spawn :: "('w, 'e) message_env \<Rightarrow> background \<Rightarrow> ('w, 'f, unit) io" where
  "spawn M task = call (\<lambda>w. ((), mv_spawn M task w))"

section \<open>Saving a message\<close>

definition message_thread ::
  "('w, 'e) message_env \<Rightarrow> content \<Rightarrow> thread option \<Rightarrow> ('w, 'e error, thread) io" where
  "message_thread M c override_thread =
     (case override_thread of
        Some t \<Rightarrow> ok t
      | None \<Rightarrow>
          bindE (st (resolve_call_thread (mv_call_codec M) (mv_group_by_group_id M) c)) (\<lambda>resolved.
            case resolved of
              Some t \<Rightarrow> ok t
            | None \<Rightarrow> map_err InvalidThread (lift_res (thread_try_from (mv_parse_dest M) c))))"

text \<open>The arm of a data message, received or sent by another device of this account.\<close>

definition data_message_to_save ::
  "('w, 'e) message_env \<Rightarrow> thread \<Rightarrow> content \<Rightarrow> data_message \<Rightarrow> ('w, 'e error, content option) io" where
  "data_message_to_save M t c d =
     thenE (case Option.bind (dm_profile_key d) key32_from_slice of
              Some key \<Rightarrow> spawn M (UpsertContact d (md_sender (ct_metadata c)) key)
            | None \<Rightarrow> ok ())
    (thenE (case t of
              ContactThread _ \<Rightarrow>
                st (update_expire_timer (mv_store M) t (opt_or 0 (dm_expire_timer d))
                     (opt_or 1 (dm_expire_timer_version d)))
            | GroupThread _ \<Rightarrow> ok ())
    (case dm_delete d of
       Some (Some ts) \<Rightarrow> bindE (st (load_message (mv_store M) t ts)) (\<lambda>_. ok None)
     | _ \<Rightarrow> ok (Some c)))"

text \<open>The arm of an edit: the stored message gives way to the edit as it came in.\<close>

definition edit_to_save ::
  "('w, 'e) message_env \<Rightarrow> thread \<Rightarrow> content \<Rightarrow> edit_message option \<Rightarrow> ('w, 'e error, content option) io" where
  "edit_to_save M t c e =
     (case (edit_target e, Option.bind e em_data_message) of
        (Some ts, Some d) \<Rightarrow>
          bindE (st (load_message (mv_store M) t ts)) (\<lambda>existing.
            case existing of
              None \<Rightarrow> ok None
            | Some m \<Rightarrow> ok (Some (m\<lparr>ct_metadata := ct_metadata c,
                ct_body := EditMessage \<lparr>em_target_sent_timestamp = Some ts, em_data_message = Some d\<rparr>\<rparr>)))
      | _ \<Rightarrow> ok None)"

definition message_to_save ::
  "('w, 'e) message_env \<Rightarrow> thread \<Rightarrow> content \<Rightarrow> ('w, 'e error, content option) io" where
  "message_to_save M t c =
     (case ct_body c of
        DecryptionErrorMessage \<Rightarrow> ok None
      | NullMessage \<Rightarrow> ok (Some c)
      | DataMessage d \<Rightarrow> data_message_to_save M t c d
      | SynchronizeMessage (Some (SyncSent s)) _ \<Rightarrow>
          (case sent_message s of
             Some d \<Rightarrow> data_message_to_save M t c d
           | None \<Rightarrow> edit_to_save M t c (sent_edit_message s))
      | SynchronizeMessage (Some SyncDeleteForMe) _ \<Rightarrow> ok None
      | EditMessage e \<Rightarrow> edit_to_save M t c (Some e)
      | CallMessage \<Rightarrow> ok None
      | SynchronizeMessage (Some (SyncCallEvent _)) _ \<Rightarrow> ok (Some c)
      | SynchronizeMessage _ _ \<Rightarrow> ok None
      | ReceiptMessage _ _ \<Rightarrow> ok (Some c)
      | TypingMessage \<Rightarrow> ok None
      | StoryMessage _ _ \<Rightarrow> ok None)"

definition save_message ::
  "('w, 'e) message_env \<Rightarrow> content \<Rightarrow> thread option \<Rightarrow> ('w, 'e error, unit) io" where
  "save_message M c override_thread =
     bindE (message_thread M c override_thread) (\<lambda>t.
     bindE (message_to_save M t c) (\<lambda>m.
       case m of
         Some message \<Rightarrow> st (store_message (mv_store M) t message)
       | None \<Rightarrow> ok ()))"

section \<open>Learning a contact from a message\<close>

definition merged_expire_timer_version :: "u32 option \<Rightarrow> u32 \<Rightarrow> u32" where
  "merged_expire_timer_version incoming stored =
     (case incoming of Some v \<Rightarrow> max v stored | None \<Rightarrow> stored)"

text \<open>The contact of a first sight: empty but for the timer version.\<close>

definition first_sight_contact :: "uuid \<Rightarrow> contact" where
  "first_sight_contact u =
     \<lparr>c_uuid = u, c_phone_number = None, c_name = [], c_verified = verified_default, c_profile_key = [],
      c_expire_timer = 0, c_expire_timer_version = 2, c_inbox_position = 0, c_avatar = None,
      c_pni = None, c_username = None, c_blocked = False, c_whitelisted = False, c_archived = False,
      c_marked_unread = False, c_muted_until = 0, c_hide_story = False, c_hidden = False,
      c_unregistered_at = 0, c_pni_signature_verified = False, c_system_given_name = [],
      c_system_family_name = [], c_system_nickname = [], c_nickname_given_name = [],
      c_nickname_family_name = [], c_note = []\<rparr>"

definition contact_with_profile :: "contact \<Rightarrow> string option \<Rightarrow> key32 \<Rightarrow> data_message \<Rightarrow> contact" where
  "contact_with_profile contact name key d =
     (let fetched_name = opt_or [] name;
          c = (if fetched_name \<noteq> [] then contact\<lparr>c_name := fetched_name\<rparr> else contact)
      in c\<lparr>c_profile_key := key32_bytes key,
           c_expire_timer := opt_or 0 (dm_expire_timer d),
           c_expire_timer_version :=
             merged_expire_timer_version (dm_expire_timer_version d) (c_expire_timer_version c)\<rparr>)"

definition upsert_contact_from_profile ::
  "('w, 'e) message_env \<Rightarrow> data_message \<Rightarrow> service_id \<Rightarrow> key32 \<Rightarrow> ('w, 'e error, unit) io" where
  "upsert_contact_from_profile M d sender key =
     bindE (st (contact_by_id (mv_store M) sender)) (\<lambda>existing.
     bindE (if existing = None then ok True
            else bindE (st (stored_profile_key (mv_store M) sender)) (\<lambda>k. ok (k \<noteq> Some key))) (\<lambda>fetch.
       if \<not> fetch then ok ()
       else case sid_aci sender of
         None \<Rightarrow> ok ()
       | Some u \<Rightarrow>
           bindE (mv_retrieve_name M u key) (\<lambda>name.
           thenE (st (save_contact (mv_store M)
               (contact_with_profile (opt_or (first_sight_contact u) existing) name key d)))
             (bindE (st (upsert_profile_key (mv_store M) u key)) (\<lambda>_. ok ())))))"

end
