(* ===== verification/Sending.thy ===== *)
theory Sending
  imports Save_Message
begin

text \<open>
  Sending (\<open>presage/src/manager/registered.rs\<close>): to a person, to a group, and the sync messages to this
  account's other devices. Encryption and transport are libsignal-service's \<open>MessageSender\<close>,
  \<open>mv_send\<close> and its siblings. Times are milliseconds a \<open>DateTime\<close> can hold; for others the code's
  \<open>timestamp_millis_opt(..).unwrap()\<close> panics.
\<close>

section \<open>The sender certificate\<close>

definition needs_renewal :: "('w, 'e) message_env \<Rightarrow> u64 \<Rightarrow> bytes \<Rightarrow> bool" where
  "needs_renewal M seconds_since_epoch cert =
     (case mv_expiration M cert of
        Some epoch_millis \<Rightarrow> epoch_millis div 1000 \<le> seconds_since_epoch + 600
      | None \<Rightarrow> True)"

definition sender_certificate_for :: "('w, 'e) message_env \<Rightarrow> ('w, 'e error, bytes) io" where
  "sender_certificate_for M =
     (let renew =
        thenE (mv_websocket M)
       (bindE (mv_fetch_certificate M) (\<lambda>cert.
        thenE (st (mv_save_certificate M cert))
       (thenE (call (\<lambda>w. ((), mv_cache_certificate M cert w))) (ok cert))))
      in bindE (call (mv_cached_certificate M)) (\<lambda>cached.
        case cached of
          None \<Rightarrow> renew
        | Some cert \<Rightarrow>
            bindE (call (ae_now_ms (mv_account M))) (\<lambda>now_ms.
              if needs_renewal M (now_ms div 1000) cert then renew else ok cert)))"

section \<open>What is added to a message\<close>

text \<open>The timer of the thread: kept when the message names none, moved on by one version when it does.\<close>

definition with_thread_timer :: "(u32 \<times> u32) option \<Rightarrow> content_body \<Rightarrow> content_body" where
  "with_thread_timer stored body =
     (case body of
        DataMessage d \<Rightarrow>
          DataMessage (case dm_expire_timer d of
             None \<Rightarrow> d\<lparr>dm_expire_timer := Option.bind stored (\<lambda>(t, _). if t = 0 then None else Some t),
                       dm_expire_timer_version := Some (opt_or 0 (map_option snd stored))\<rparr>
           | Some _ \<Rightarrow> d\<lparr>dm_expire_timer_version := Some (opt_or 0 (map_option snd stored) + 1)\<rparr>)
      | _ \<Rightarrow> body)"

definition restore_thread_timer ::
  "('w, 'e) message_env \<Rightarrow> thread \<Rightarrow> content_body \<Rightarrow> ('w, 'e error, content_body) io" where
  "restore_thread_timer M t body =
     attempt (expire_timer (mv_store M) t) (\<lambda>stored. ok (with_thread_timer (unwrap_or None stored) body))"

definition with_profile_key :: "key32 \<Rightarrow> content_body \<Rightarrow> content_body" where
  "with_profile_key own body =
     (case body of
        DataMessage d \<Rightarrow>
          DataMessage (d\<lparr>dm_profile_key := Some (opt_or (key32_bytes own) (dm_profile_key d)),
                         dm_required_protocol_version := Some 0\<rparr>)
      | _ \<Rightarrow> body)"

text \<open>\<open>Content\<close> as it is stored for a message of our own.\<close>

definition sent_content :: "('w, 'e) message_env \<Rightarrow> service_id \<Rightarrow> u64 \<Rightarrow> content_body \<Rightarrow> content" where
  "sent_content M destination timestamp body =
     \<lparr>ct_metadata =
        \<lparr>md_sender = Aci (mv_self M), md_destination = destination, md_sender_device = mv_device M,
         md_client_timestamp = timestamp, md_server_timestamp = timestamp, md_needs_receipt = False,
         md_unidentified_sender = False, md_server_guid = None, md_was_plaintext = False,
         md_report_spam_token = None, md_pni_verified = None\<rparr>,
      ct_body = body\<rparr>"

definition unidentified_access ::
  "('w, 'e) message_env \<Rightarrow> bytes \<Rightarrow> service_id \<Rightarrow> ('w, 'e error, (bytes \<times> bytes) option) io" where
  "unidentified_access M cert sid =
     bindE (st (stored_profile_key (mv_store M) sid)) (\<lambda>key.
       ok (map_option (\<lambda>k. (mv_access_key M k, cert)) key))"

section \<open>To a person\<close>

definition send_message ::
  "('w, 'e) message_env \<Rightarrow> service_id \<Rightarrow> content_body \<Rightarrow> u64 \<Rightarrow> ('w, 'e error, unit) io" where
  "send_message M recipient message timestamp =
     thenE (ae_new_sender (mv_account M))
    (bindE (restore_thread_timer M (ContactThread recipient) message) (\<lambda>timed.
     bindE (sender_certificate_for M) (\<lambda>cert.
     bindE (unidentified_access M cert recipient) (\<lambda>access.
       let body = ensure_data_message_timestamp timestamp (with_profile_key (mv_profile_key M) timed) in
       thenE (map_err MessageSenderError (mv_send M recipient access body timestamp))
      (thenE (mv_websocket M)
      (save_message M (sent_content M recipient timestamp body) (Some (ContactThread recipient))))))))"

section \<open>To a group\<close>

definition group_recipients :: "group \<Rightarrow> uuid \<Rightarrow> service_id list" where
  "group_recipients g self_aci =
     filter (\<lambda>sid. sid \<noteq> Aci self_aci)
       (map (\<lambda>m. Aci (m_aci m)) (g_members g) @ map pending_service_id (g_pending_members g))"

fun group_accesses ::
  "('w, 'e) message_env \<Rightarrow> bytes \<Rightarrow> service_id list \<Rightarrow>
   ('w, 'e error, (service_id \<times> (bytes \<times> bytes) option) list) io" where
  "group_accesses M cert [] = ok []"
| "group_accesses M cert (sid # sids) =
     bindE (unidentified_access M cert sid) (\<lambda>access.
     bindE (group_accesses M cert sids) (\<lambda>rest. ok ((sid, access) # rest)))"

text \<open>The first result that counts as a failure: not of a recipient that is gone, nor of an invitee.\<close>

fun delivery_error :: "group \<Rightarrow> ((send_error + unit) \<times> service_id) list \<Rightarrow> send_error option" where
  "delivery_error g [] = None"
| "delivery_error g ((Inr _, _) # rs) = delivery_error g rs"
| "delivery_error g ((Inl (SendNotFound _), _) # rs) = delivery_error g rs"
| "delivery_error g ((Inl e, sid) # rs) = (if is_pending g sid then delivery_error g rs else Some e)"

definition send_message_to_group ::
  "('w, 'e) message_env \<Rightarrow> key32 \<Rightarrow> content_body \<Rightarrow> u64 \<Rightarrow> ('w, 'e error, unit) io" where
  "send_message_to_group M mk message timestamp =
     bindE (restore_thread_timer M (GroupThread mk) message) (\<lambda>timed.
       let body = ensure_data_message_timestamp timestamp timed in
       thenE (ae_new_sender (mv_account M))
      (thenE (mv_groups_manager M)
      (bindE (mv_upsert_group M (key32_bytes mk) 0) (\<lambda>found.
         case found of
           None \<Rightarrow> err UnknownGroup
         | Some g \<Rightarrow>
             bindE (sender_certificate_for M) (\<lambda>cert.
             bindE (group_accesses M cert (group_recipients g (mv_self M))) (\<lambda>recipients.
             bindE (call (mv_send_group M recipients body timestamp)) (\<lambda>results.
               case delivery_error g (zip results (map fst recipients)) of
                 Some e \<Rightarrow> err (MessageSenderError e)
               | None \<Rightarrow>
                   thenE (mv_websocket M)
                     (save_message M (sent_content M (Aci (mv_self M)) timestamp body)
                        (Some (GroupThread mk))))))))))"

section \<open>To our other devices\<close>

definition request_contacts :: "('w, 'e) message_env \<Rightarrow> ('w, 'e error, unit) io" where
  "request_contacts M =
     bindE (call (ae_now_ms (mv_account M))) (\<lambda>timestamp.
       send_message M (Aci (mv_self M)) (SynchronizeMessage (Some (SyncRequest RequestContacts)) []) timestamp)"

text \<open>The blocked contacts: rows that do not load are skipped, a failing query blocks nobody.\<close>

definition collect_blocked_contacts :: "('w, 'e) message_env \<Rightarrow> ('w, 'f, uuid list) io" where
  "collect_blocked_contacts M =
     attempt (stored_contacts (mv_store M)) (\<lambda>r.
       ok (case r of
             Inl _ \<Rightarrow> []
           | Inr rows \<Rightarrow> map c_uuid (filter c_blocked (List.map_filter res_ok rows))))"

definition send_blocked_sync :: "('w, 'e) message_env \<Rightarrow> ('w, 'e error, unit) io" where
  "send_blocked_sync M =
     attempt (mv_sub_device_sessions M) (\<lambda>devices.
       if unwrap_or [] devices = [] then ok ()
       else bindE (collect_blocked_contacts M) (\<lambda>blocked.
            bindE (call (ae_now_ms (mv_account M))) (\<lambda>timestamp.
              send_message M (Aci (mv_self M)) (SynchronizeMessage (Some (SyncBlocked blocked)) []) timestamp)))"

text \<open>A finished call: told to the other devices, then filed under its start.\<close>

definition send_call_event ::
  "('w, 'e) message_env \<Rightarrow> call_event \<Rightarrow> ('w, 'e error, content) io" where
  "send_call_event M event =
     (let body = SynchronizeMessage (Some (SyncCallEvent event)) [] in
      thenE (ae_new_sender (mv_account M))
     (thenE (map_err MessageSenderError (mv_send_sync M body))
     (bindE (case ce_timestamp event of
               Some ts \<Rightarrow> ok ts
             | None \<Rightarrow> call (ae_now_ms (mv_account M))) (\<lambda>timestamp.
       let content = sent_content M (Aci (mv_self M)) timestamp body in
       thenE (mv_websocket M)
      (thenE (save_message M content None) (ok content))))))"

section \<open>Sticker packs\<close>

definition pack_operation :: "bytes \<Rightarrow> bytes \<Rightarrow> sticker_operation_type \<Rightarrow> sticker_operation" where
  "pack_operation pack_id pack_key operation =
     \<lparr>so_pack_id = Some pack_id, so_pack_key = Some pack_key, so_type = operation\<rparr>"

definition download_sticker_pack ::
  "('w, 'e) message_env \<Rightarrow> sticker_operation \<Rightarrow> ('w, 'e error, sticker_pack) io" where
  "download_sticker_pack M operation =
     (let pack_id = opt_or [] (so_pack_id operation); pack_key = opt_or [] (so_pack_key operation) in
      bindE (mv_sticker_manifest M pack_id pack_key) (\<lambda>manifest.
        let pack = \<lparr>sk_pack_id = pack_id, sk_pack_key = pack_key, sk_manifest = manifest\<rparr> in
        thenE (st (store_sticker_pack (mv_store M) pack)) (ok pack)))"

definition send_sticker_pack_operation ::
  "('w, 'e) message_env \<Rightarrow> sticker_operation \<Rightarrow> ('w, 'e error, unit) io" where
  "send_sticker_pack_operation M operation =
     attempt (ae_new_sender (mv_account M)) (\<lambda>sender.
       case sender of
         Inl _ \<Rightarrow> ok ()
       | Inr () \<Rightarrow> ignore (mv_send_sync M (SynchronizeMessage None [operation])) (ok ()))"

definition install_sticker_pack ::
  "('w, 'e) message_env \<Rightarrow> bytes \<Rightarrow> bytes \<Rightarrow> ('w, 'e error, unit) io" where
  "install_sticker_pack M pack_id pack_key =
     (let operation = pack_operation pack_id pack_key StickerInstall in
      thenE (bindE (st (stored_sticker_pack (mv_store M) pack_id)) (\<lambda>held.
               case held of
                 Some pack \<Rightarrow> st (store_sticker_pack (mv_store M) pack)
               | None \<Rightarrow> thenE (mv_unidentified_websocket M) (bindE (download_sticker_pack M operation) (\<lambda>_. ok ()))))
     (thenE (st (set_sticker_pack_needs_storage_sync (mv_store M) pack_id True))
     (send_sticker_pack_operation M operation)))"

definition remove_installed_sticker_pack ::
  "('w, 'e) message_env \<Rightarrow> bytes \<Rightarrow> bytes \<Rightarrow> ('w, 'e error, unit) io" where
  "remove_installed_sticker_pack M pack_id pack_key =
     bindE (st (remove_sticker_pack (mv_store M) pack_id)) (\<lambda>_.
     thenE (st (set_sticker_pack_needs_storage_sync (mv_store M) pack_id True))
     (send_sticker_pack_operation M (pack_operation pack_id pack_key StickerRemove)))"

definition download_pending_sticker_packs :: "('w, 'e) message_env \<Rightarrow> ('w, 'e error, unit) io" where
  "download_pending_sticker_packs M =
     bindE (st (pending_sticker_packs (mv_store M))) (\<lambda>pending.
       if pending = [] then ok ()
       else thenE (mv_unidentified_websocket M)
         (call (\<lambda>w. ((), for_each_ignore pending (\<lambda>(pack_id, pack_key).
            bindE (download_sticker_pack M (pack_operation pack_id pack_key StickerInstall)) (\<lambda>_. ok ())) w))))"

end
