(* ===== verification/Chat_Edits.thy ===== *)
theory Chat_Edits
  imports Group_Service Sending
begin

text \<open>
  The edits of a chat that travel with the storage service (\<open>presage/src/manager/registered.rs\<close>): block,
  mute, archive and pin. Each writes the row and raises its flag in one step; publishing is theory
  Drains' part.
\<close>

definition is_note_to_self :: "('w, 'e) message_env \<Rightarrow> service_id \<Rightarrow> bool" where
  "is_note_to_self M sid \<longleftrightarrow> sid = Aci (mv_self M)"

section \<open>One row and its flag\<close>

definition edit_account_for_publish ::
  "('w, 'e) message_env \<Rightarrow> (account_chat_state \<Rightarrow> account_chat_state) \<Rightarrow> ('w, 'e error, unit) io" where
  "edit_account_for_publish M edit =
     bindE (st (account_chat_state_op (mv_store M))) (\<lambda>before.
       let state = edit before in
       if state = before then ok ()
       else thenE (st (save_account_chat_state (mv_store M) state))
                  (st (set_account_needs_storage_sync (mv_store M) True)))"

definition edit_group_for_publish ::
  "('w, 'e) message_env \<Rightarrow> key32 \<Rightarrow> (group \<Rightarrow> group) \<Rightarrow> ('w, 'e error, unit) io" where
  "edit_group_for_publish M mk edit =
     bindE (stored_group (mv_account M) mk) (\<lambda>g.
     thenE (st (save_group (mv_store M) mk (edit g)))
           (st (set_group_needs_storage_sync (mv_store M) mk True)))"

definition edit_contact_for_publish ::
  "('w, 'e) message_env \<Rightarrow> service_id \<Rightarrow> (contact \<Rightarrow> contact) \<Rightarrow> ('w, 'e error, unit) io" where
  "edit_contact_for_publish M sid edit =
     (if is_note_to_self M sid then err NoteToSelfHasNoContactRecord
      else bindE (st (contact_by_id (mv_store M) sid)) (\<lambda>found.
        thenE (st (save_contact (mv_store M) (edit (opt_or (contact_minimal (raw_uuid sid)) found))))
              (st (set_contact_needs_storage_sync (mv_store M) sid True))))"

section \<open>The edits\<close>

definition set_blocked :: "('w, 'e) message_env \<Rightarrow> service_id \<Rightarrow> bool \<Rightarrow> ('w, 'e error, unit) io" where
  "set_blocked M sid blocked =
     thenE (edit_contact_for_publish M sid (\<lambda>c. c\<lparr>c_blocked := blocked\<rparr>)) (send_blocked_sync M)"

definition set_muted_until :: "('w, 'e) message_env \<Rightarrow> thread \<Rightarrow> u64 \<Rightarrow> ('w, 'e error, unit) io" where
  "set_muted_until M t until_ms =
     (case t of
        ContactThread sid \<Rightarrow> edit_contact_for_publish M sid (\<lambda>c. c\<lparr>c_muted_until := until_ms\<rparr>)
      | GroupThread mk \<Rightarrow> edit_group_for_publish M mk (\<lambda>g. g\<lparr>g_muted_until := until_ms\<rparr>))"

definition set_archived :: "('w, 'e) message_env \<Rightarrow> thread \<Rightarrow> bool \<Rightarrow> ('w, 'e error, unit) io" where
  "set_archived M t archived =
     thenE (if archived then edit_account_for_publish M (unpin (ae_codec (mv_account M)) t) else ok ())
       (case t of
          ContactThread sid \<Rightarrow>
            if is_note_to_self M sid
            then edit_account_for_publish M (\<lambda>s. s\<lparr>note_to_self_archived := archived\<rparr>)
            else edit_contact_for_publish M sid (\<lambda>c. c\<lparr>c_archived := archived\<rparr>)
        | GroupThread mk \<Rightarrow> edit_group_for_publish M mk (\<lambda>g. g\<lparr>g_archived := archived\<rparr>))"

definition is_archived :: "('w, 'e) message_env \<Rightarrow> thread \<Rightarrow> ('w, 'e error, bool) io" where
  "is_archived M t =
     (case t of
        ContactThread sid \<Rightarrow>
          if is_note_to_self M sid
          then bindE (st (account_chat_state_op (mv_store M))) (\<lambda>s. ok (note_to_self_archived s))
          else bindE (st (contact_by_id (mv_store M) sid)) (\<lambda>c.
            ok (case c of Some c \<Rightarrow> c_archived c | None \<Rightarrow> False))
      | GroupThread mk \<Rightarrow>
          bindE (st (load_group (mv_store M) mk)) (\<lambda>g.
            ok (case g of Some g \<Rightarrow> g_archived g | None \<Rightarrow> False)))"

definition set_pinned :: "('w, 'e) message_env \<Rightarrow> thread \<Rightarrow> bool \<Rightarrow> ('w, 'e error, unit) io" where
  "set_pinned M t wanted =
     (let C = ae_codec (mv_account M) in
      thenE (edit_account_for_publish M (if wanted then pin C t else unpin C t))
        (if wanted
         then bindE (is_archived M t) (\<lambda>archived. if archived then set_archived M t False else ok ())
         else ok ()))"

text \<open>The title of a chat, for display.\<close>

definition thread_title :: "('w, 'e) message_env \<Rightarrow> thread \<Rightarrow> ('w, 'e error, string) io" where
  "thread_title M t =
     (case t of
        ContactThread sid \<Rightarrow>
          attempt (contact_by_id (mv_store M) sid) (\<lambda>r.
            ok (case unwrap_or None r of
                  Some c \<Rightarrow> c_name c
                | None \<Rightarrow> service_id_string (ae_codec (mv_account M)) sid))
      | GroupThread mk \<Rightarrow>
          bindE (st (load_group (mv_store M) mk)) (\<lambda>g.
            ok (case g of Some g \<Rightarrow> opt_or [] (g_title g) | None \<Rightarrow> [])))"

end
