(* ===== verification/Sqlite_Data.thy ===== *)
theory Sqlite_Data
  imports Store
begin

text \<open>
  \<open>presage-store-sqlite/src/data.rs\<close>: the rows sqlx reads and writes and their conversions to
  and from the model. An \<open>INTEGER\<close> column is an \<open>i64\<close> (a 64-bit word, compared through \<open>sint\<close>), so
  \<open>as i64\<close> keeps the bits of a \<open>u64\<close> and widens a \<open>u32\<close>; a \<open>Json<T>\<close> column holds the value.
  \<open>contacts_row\<close> leaves the columns of the verification join at their \<open>NULL\<close>s.

  Outside the repository, as the fields of \<open>sqlite_env\<close>: the phone number parser, the
  text form of UUIDs and service ids, protobuf's encoding of a message body, zkgroup's
  group identifier, chrono's range of \<open>timestamp_millis_opt\<close> and libsignal's \<open>DeviceId\<close>
  check. I/O failures of the database file are not modelled; constraint failures are.
\<close>

type_synonym i64 = "64 word"

datatype sqlite_error =
    Sq_Db | Sq_PhoneNumber | Sq_InvalidFormat | Sq_InvalidDeviceId | Sq_Json | Sq_Protocol | Sq_Panic

record sqlite_env =
  phone_parse :: "string \<Rightarrow> phone_number option"
  phone_to_string :: "phone_number \<Rightarrow> string"
  uuid_parse :: "string \<Rightarrow> uuid option"
  uuid_print :: "uuid \<Rightarrow> string"
  sid_print :: "service_id \<Rightarrow> string"
  sid_parse :: "string \<Rightarrow> service_id option"
  sid_binary :: "service_id \<Rightarrow> bytes"
  body_encode :: "content_body \<Rightarrow> bytes"
  body_decode :: "bytes \<Rightarrow> content_body option"
  group_identifier :: "key32 \<Rightarrow> key32"
  millis_in_range :: "i64 \<Rightarrow> bool"
  device_id_ok :: "u8 \<Rightarrow> bool"

definition i64_of_u32 :: "u32 \<Rightarrow> i64" where "i64_of_u32 x = ucast x"
definition u32_of_i64 :: "i64 \<Rightarrow> u32" where "u32_of_i64 x = ucast x"
definition i64_of_u64 :: "u64 \<Rightarrow> i64" where "i64_of_u64 x = x"
definition u64_of_i64 :: "i64 \<Rightarrow> u64" where "u64_of_i64 x = x"

definition i64_try_from :: "u64 \<Rightarrow> sqlite_error + i64" where
  "i64_try_from x = (if x < 2 ^ 63 then Inr x else Inl Sq_InvalidFormat)"

section \<open>Contacts\<close>

record sql_contact =
  sq_uuid :: uuid
  sq_phone_number :: "string option"
  sq_name :: string
  sq_profile_key :: bytes
  sq_expire_timer :: i64
  sq_expire_timer_version :: i64
  sq_inbox_position :: i64
  sq_avatar :: "bytes option"
  sq_destination_aci :: "string option"
  sq_identity_key :: "bytes option"
  sq_is_verified :: "bool option"
  sq_pni :: "string option"
  sq_username :: "string option"
  sq_blocked :: bool
  sq_whitelisted :: bool
  sq_archived :: bool
  sq_marked_unread :: bool
  sq_muted_until :: i64
  sq_hide_story :: bool
  sq_hidden :: bool
  sq_unregistered_at :: i64
  sq_pni_signature_verified :: bool
  sq_system_given_name :: "string option"
  sq_system_family_name :: "string option"
  sq_system_nickname :: "string option"
  sq_nickname_given_name :: "string option"
  sq_nickname_family_name :: "string option"
  sq_note :: "string option"

text \<open>\<open>verified::State\<close>: \<open>Default\<close> is 0, \<open>Verified\<close> 1, \<open>Unverified\<close> 2.\<close>

definition state_of_is_verified :: "bool option \<Rightarrow> int option" where
  "state_of_is_verified = map_option (\<lambda>v. if v then 1 else 2)"

definition is_verified_of_state :: "int option \<Rightarrow> bool option" where
  "is_verified_of_state s =
     (let i = (case s of None \<Rightarrow> 0 | Some i \<Rightarrow> i) in
      if i = 2 then Some False else if i = 1 then Some True else None)"

definition octet_stream :: string where "octet_stream = ''application/octet-stream''"

definition sql_contact_verified :: "sqlite_env \<Rightarrow> sql_contact \<Rightarrow> verified" where
  "sql_contact_verified E r =
     \<lparr>v_destination_aci = sq_destination_aci r,
      v_destination_aci_binary =
        (case Option.bind (sq_destination_aci r) (sid_parse E) of
           Some (Aci u) \<Rightarrow> Some (sid_binary E (Aci u))
         | _ \<Rightarrow> None),
      v_identity_key = sq_identity_key r,
      v_state = state_of_is_verified (sq_is_verified r),
      v_null_message = None\<rparr>"

definition contact_of_sql :: "sqlite_env \<Rightarrow> sql_contact \<Rightarrow> sqlite_error + contact" where
  "contact_of_sql E r =
     res_map
       (\<lambda>phone.
         \<lparr>c_uuid = sq_uuid r, c_phone_number = phone, c_name = sq_name r,
          c_verified = sql_contact_verified E r, c_profile_key = sq_profile_key r,
          c_expire_timer = u32_of_i64 (sq_expire_timer r),
          c_expire_timer_version = u32_of_i64 (sq_expire_timer_version r),
          c_inbox_position = u32_of_i64 (sq_inbox_position r),
          c_avatar = map_option (\<lambda>b. \<lparr>at_content_type = octet_stream, at_reader = b\<rparr>) (sq_avatar r),
          c_pni = Option.bind (sq_pni r) (uuid_parse E), c_username = sq_username r,
          c_blocked = sq_blocked r, c_whitelisted = sq_whitelisted r, c_archived = sq_archived r,
          c_marked_unread = sq_marked_unread r,
          c_muted_until = u64_of_i64 (sq_muted_until r), c_hide_story = sq_hide_story r,
          c_hidden = sq_hidden r, c_unregistered_at = u64_of_i64 (sq_unregistered_at r),
          c_pni_signature_verified = sq_pni_signature_verified r,
          c_system_given_name = opt_or [] (sq_system_given_name r),
          c_system_family_name = opt_or [] (sq_system_family_name r),
          c_system_nickname = opt_or [] (sq_system_nickname r),
          c_nickname_given_name = opt_or [] (sq_nickname_given_name r),
          c_nickname_family_name = opt_or [] (sq_nickname_family_name r),
          c_note = opt_or [] (sq_note r)\<rparr>)
       (case sq_phone_number r of
          None \<Rightarrow> Inr None
        | Some s \<Rightarrow> res_map Some (ok_or Sq_PhoneNumber (phone_parse E s)))"

text \<open>The values \<open>save_contact\<close> binds to the columns of \<open>contacts\<close>.\<close>

definition contacts_row :: "sqlite_env \<Rightarrow> contact \<Rightarrow> sql_contact" where
  "contacts_row E c =
     \<lparr>sq_uuid = c_uuid c, sq_phone_number = map_option (phone_to_string E) (c_phone_number c),
      sq_name = c_name c, sq_profile_key = c_profile_key c,
      sq_expire_timer = i64_of_u32 (c_expire_timer c),
      sq_expire_timer_version = i64_of_u32 (c_expire_timer_version c),
      sq_inbox_position = i64_of_u32 (c_inbox_position c),
      sq_avatar = map_option at_reader (c_avatar c),
      sq_destination_aci = None, sq_identity_key = None, sq_is_verified = None,
      sq_pni = map_option (uuid_print E) (c_pni c), sq_username = c_username c,
      sq_blocked = c_blocked c, sq_whitelisted = c_whitelisted c, sq_archived = c_archived c,
      sq_marked_unread = c_marked_unread c, sq_muted_until = i64_of_u64 (c_muted_until c),
      sq_hide_story = c_hide_story c, sq_hidden = c_hidden c,
      sq_unregistered_at = i64_of_u64 (c_unregistered_at c),
      sq_pni_signature_verified = c_pni_signature_verified c,
      sq_system_given_name = Some (c_system_given_name c),
      sq_system_family_name = Some (c_system_family_name c),
      sq_system_nickname = Some (c_system_nickname c),
      sq_nickname_given_name = Some (c_nickname_given_name c),
      sq_nickname_family_name = Some (c_nickname_family_name c),
      sq_note = Some (c_note c)\<rparr>"

section \<open>Profiles\<close>

record sql_profile =
  sp_uuid :: uuid
  sp_given_name :: "string option"
  sp_family_name :: "string option"
  sp_about :: "string option"
  sp_about_emoji :: "string option"
  sp_avatar :: "string option"
  sp_unrestricted_unidentified_access :: bool

definition profile_of_sql :: "sql_profile \<Rightarrow> profile" where
  "profile_of_sql r =
     \<lparr>pf_name = map_option (\<lambda>gn. \<lparr>pn_given_name = gn, pn_family_name = sp_family_name r\<rparr>)
        (sp_given_name r),
      pf_about = sp_about r, pf_about_emoji = sp_about_emoji r, pf_avatar = sp_avatar r,
      pf_unrestricted_unidentified_access = sp_unrestricted_unidentified_access r\<rparr>"

definition profiles_row :: "uuid \<Rightarrow> profile \<Rightarrow> sql_profile" where
  "profiles_row u p =
     \<lparr>sp_uuid = u, sp_given_name = map_option pn_given_name (pf_name p),
      sp_family_name = Option.bind (pf_name p) pn_family_name,
      sp_about = pf_about p, sp_about_emoji = pf_about_emoji p, sp_avatar = pf_avatar p,
      sp_unrestricted_unidentified_access = pf_unrestricted_unidentified_access p\<rparr>"

lemma profile_of_profiles_row [simp]: "profile_of_sql (profiles_row u p) = p"
  by (cases "pf_name p") (simp_all add: profile_of_sql_def profiles_row_def)

section \<open>Groups\<close>

record sql_group =
  sg_master_key :: bytes
  sg_group_id :: "bytes option"
  sg_title :: "string option"
  sg_revision :: u32
  sg_invite_link_password :: "bytes option"
  sg_access_control :: "access_control option"
  sg_avatar :: "string option"
  sg_description :: "string option"
  sg_members :: "member list"
  sg_pending_members :: "pending_member list"
  sg_requesting_members :: "requesting_member list"
  sg_needs_hydration :: bool
  sg_blocked :: bool
  sg_whitelisted :: bool
  sg_archived :: bool
  sg_marked_unread :: bool
  sg_muted_until :: i64
  sg_dont_notify_for_mentions_if_muted :: bool
  sg_hide_story :: bool
  sg_story_send_mode :: int
  sg_timer :: "i64 option"
  sg_announcements_only :: bool

text \<open>\<open>group_id\<close> is not a field of \<open>SqlGroup\<close>: \<open>save_group\<close> binds it beside the row.\<close>

definition sql_from_group :: "key32 \<Rightarrow> bytes option \<Rightarrow> group \<Rightarrow> sql_group" where
  "sql_from_group mk gid g =
     \<lparr>sg_master_key = key32_bytes mk, sg_group_id = gid, sg_title = g_title g,
      sg_revision = g_revision g, sg_invite_link_password = Some (g_invite_link_password g),
      sg_access_control = g_access_control g, sg_avatar = g_avatar g,
      sg_description = g_description g, sg_members = g_members g,
      sg_pending_members = g_pending_members g, sg_requesting_members = g_requesting_members g,
      sg_needs_hydration = g_needs_hydration g, sg_blocked = g_blocked g,
      sg_whitelisted = g_whitelisted g, sg_archived = g_archived g,
      sg_marked_unread = g_marked_unread g, sg_muted_until = i64_of_u64 (g_muted_until g),
      sg_dont_notify_for_mentions_if_muted = g_dont_notify_for_mentions_if_muted g,
      sg_hide_story = g_hide_story g, sg_story_send_mode = g_story_send_mode g,
      sg_timer = map_option i64_of_u32 (g_timer g),
      sg_announcements_only = g_announcements_only g\<rparr>"

definition sql_into_group :: "sql_group \<Rightarrow> sqlite_error + (key32 \<times> group)" where
  "sql_into_group r =
     res_map
       (\<lambda>mk. (mk,
         \<lparr>g_title = sg_title r, g_avatar = sg_avatar r,
          g_timer = map_option u32_of_i64 (sg_timer r), g_access_control = sg_access_control r,
          g_revision = sg_revision r, g_members = sg_members r,
          g_pending_members = sg_pending_members r,
          g_requesting_members = sg_requesting_members r,
          g_invite_link_password = opt_or [] (sg_invite_link_password r),
          g_description = sg_description r, g_announcements_only = sg_announcements_only r,
          g_needs_hydration = sg_needs_hydration r, g_blocked = sg_blocked r,
          g_whitelisted = sg_whitelisted r, g_archived = sg_archived r,
          g_marked_unread = sg_marked_unread r, g_muted_until = u64_of_i64 (sg_muted_until r),
          g_dont_notify_for_mentions_if_muted = sg_dont_notify_for_mentions_if_muted r,
          g_hide_story = sg_hide_story r, g_story_send_mode = sg_story_send_mode r\<rparr>))
       (ok_or Sq_InvalidFormat (key32_from_slice (sg_master_key r)))"

section \<open>Messages\<close>

record sql_message =
  sm_thread_id :: int
  sm_ts :: i64
  sm_server_ts :: "i64 option"
  sm_sender_service_id :: string
  sm_sender_device_id :: u8
  sm_destination_service_id :: string
  sm_needs_receipt :: bool
  sm_unidentified_sender :: bool
  sm_content_body :: bytes
  sm_was_plaintext :: bool
  sm_pni_verified :: "string option"

text \<open>
  The conversions that can fail, in the order \<open>try_into\<close> evaluates them: body, sender,
  destination, device id, the two \<open>unwrap\<close>s of the timestamps, the verified PNI.
\<close>

definition content_of_sql :: "sqlite_env \<Rightarrow> sql_message \<Rightarrow> sqlite_error + content" where
  "content_of_sql E m =
     res_bind (ok_or Sq_InvalidFormat (body_decode E (sm_content_body m))) (\<lambda>body.
     res_bind (ok_or Sq_InvalidFormat (sid_parse E (sm_sender_service_id m))) (\<lambda>sender.
     res_bind (ok_or Sq_InvalidFormat (sid_parse E (sm_destination_service_id m))) (\<lambda>destination.
     res_bind (if device_id_ok E (sm_sender_device_id m) then Inr (sm_sender_device_id m)
               else Inl Sq_InvalidDeviceId) (\<lambda>device.
     res_bind (if millis_in_range E (sm_ts m) then Inr (u64_of_i64 (sm_ts m)) else Inl Sq_Panic)
       (\<lambda>client.
     let server_ts = opt_or (sm_ts m) (sm_server_ts m) in
     res_bind (if millis_in_range E server_ts then Inr (u64_of_i64 server_ts) else Inl Sq_Panic)
       (\<lambda>server.
     res_bind (case sm_pni_verified m of
                 None \<Rightarrow> Inr None
               | Some p \<Rightarrow>
                   (case sid_parse E p of
                      Some (Pni u) \<Rightarrow> Inr (Some u)
                    | _ \<Rightarrow> Inl Sq_InvalidFormat)) (\<lambda>pni.
     Inr \<lparr>ct_metadata =
            \<lparr>md_sender = sender, md_destination = destination, md_sender_device = device,
             md_client_timestamp = client, md_server_timestamp = server,
             md_needs_receipt = sm_needs_receipt m,
             md_unidentified_sender = sm_unidentified_sender m, md_server_guid = None,
             md_was_plaintext = sm_was_plaintext m, md_report_spam_token = None,
             md_pni_verified = pni\<rparr>,
          ct_body = body\<rparr>)))))))"

text \<open>The values \<open>save_message\<close> binds; \<open>server_ts\<close> is not among its columns.\<close>

definition message_row :: "sqlite_env \<Rightarrow> int \<Rightarrow> content \<Rightarrow> sql_message" where
  "message_row E tid c =
     (let m = ct_metadata c in
      \<lparr>sm_thread_id = tid, sm_ts = i64_of_u64 (md_client_timestamp m), sm_server_ts = None,
       sm_sender_service_id = sid_print E (md_sender m),
       sm_sender_device_id = md_sender_device m,
       sm_destination_service_id = sid_print E (md_destination m),
       sm_needs_receipt = md_needs_receipt m,
       sm_unidentified_sender = md_unidentified_sender m,
       sm_content_body = body_encode E (ct_body c),
       sm_was_plaintext = md_was_plaintext m,
       sm_pni_verified = map_option (\<lambda>u. sid_print E (Pni u)) (md_pni_verified m)\<rparr>)"

section \<open>Round trips of the conversions\<close>

lemma u32_i64_roundtrip [simp]: "u32_of_i64 (i64_of_u32 x) = x"
  by (simp add: u32_of_i64_def i64_of_u32_def)

lemma u64_i64_roundtrip [simp]: "u64_of_i64 (i64_of_u64 x) = x"
  by (simp add: u64_of_i64_def i64_of_u64_def)

text \<open>
  What a row carries of a contact: its avatar's content type is replaced, and its
  verification is not in this table.
\<close>

definition stored_contact :: "contact \<Rightarrow> contact" where
  "stored_contact c =
     c\<lparr>c_verified := verified_default,
       c_avatar := map_option (\<lambda>a. a\<lparr>at_content_type := octet_stream\<rparr>) (c_avatar c)\<rparr>"

definition contact_texts_ok :: "sqlite_env \<Rightarrow> contact \<Rightarrow> bool" where
  "contact_texts_ok E c \<longleftrightarrow>
     (\<forall>p. c_phone_number c = Some p \<longrightarrow> phone_parse E (phone_to_string E p) = Some p) \<and>
     (\<forall>u. c_pni c = Some u \<longrightarrow> uuid_parse E (uuid_print E u) = Some u)"

lemma contact_of_contacts_row:
  assumes "contact_texts_ok E c"
  shows "contact_of_sql E (contacts_row E c) = Inr (stored_contact c)"
proof -
  have "(case map_option (phone_to_string E) (c_phone_number c) of None \<Rightarrow> Inr None
      | Some s \<Rightarrow> res_map Some (ok_or Sq_PhoneNumber (phone_parse E s))) = Inr (c_phone_number c)"
    using assms by (cases "c_phone_number c") (auto simp: contact_texts_ok_def res_map_def ok_or_def)
  moreover have "Option.bind (map_option (uuid_print E) (c_pni c)) (uuid_parse E) = c_pni c"
    using assms by (cases "c_pni c") (auto simp: contact_texts_ok_def)
  moreover have "map_option (\<lambda>b. \<lparr>at_content_type = octet_stream, at_reader = b\<rparr>)
      (map_option at_reader (c_avatar c)) = map_option (\<lambda>a. a\<lparr>at_content_type := octet_stream\<rparr>) (c_avatar c)"
    by (cases "c_avatar c") auto
  ultimately show ?thesis
    by (simp add: contact_of_sql_def contacts_row_def stored_contact_def res_map_def
        sql_contact_verified_def verified_default_def state_of_is_verified_def opt_or_def)
qed

lemma group_of_sql_row [simp]:
  "sql_into_group (sql_from_group mk gid g) = Inr (mk, g)"
proof -
  have "map_option u32_of_i64 (map_option i64_of_u32 (g_timer g)) = g_timer g"
    by (cases "g_timer g") auto
  then show ?thesis
    by (simp add: sql_into_group_def sql_from_group_def res_map_def ok_or_def opt_or_def)
qed

text \<open>What a row carries of a message, and when it can be read back at all.\<close>

definition stored_message :: "content \<Rightarrow> content" where
  "stored_message c =
     c\<lparr>ct_metadata := (ct_metadata c)
        \<lparr>md_server_timestamp := md_client_timestamp (ct_metadata c), md_server_guid := None,
         md_report_spam_token := None\<rparr>\<rparr>"

definition message_readable :: "sqlite_env \<Rightarrow> content \<Rightarrow> bool" where
  "message_readable E c \<longleftrightarrow>
     body_decode E (body_encode E (ct_body c)) = Some (ct_body c) \<and>
     (\<forall>s. sid_parse E (sid_print E s) = Some s) \<and>
     device_id_ok E (md_sender_device (ct_metadata c)) \<and>
     millis_in_range E (md_client_timestamp (ct_metadata c))"

lemma content_of_message_row:
  "message_readable E c \<Longrightarrow> content_of_sql E (message_row E tid c) = Inr (stored_message c)"
  by (cases "md_pni_verified (ct_metadata c)")
    (simp_all add: message_readable_def content_of_sql_def message_row_def stored_message_def Let_def
      ok_or_def res_bind_def opt_or_def u64_of_i64_def i64_of_u64_def)

end
