(* ===== verification/Sqlite_Content.thy ===== *)
theory Sqlite_Content
  imports Sqlite_Data
begin

text \<open>
  \<open>presage-store-sqlite/src/content.rs\<close>, the storage-manifest rows of \<open>lib.rs\<close> and the schema of
  \<open>presage-store-sqlite/migrations\<close>. A table is the list of its rows, each statement a
  function on the database:

  \<^item> \<open>INSERT OR REPLACE\<close> deletes the rows that clash on a primary key or unique index, with
    the \<open>ON DELETE CASCADE\<close> of the foreign keys onto them, and appends the row;
  \<^item> foreign keys are enforced (\<open>foreign_keys(true)\<close>): a statement that leaves a child without
    parent fails and, inside a transaction, takes everything before it back;
  \<^item> a \<open>SELECT\<close> without \<open>ORDER BY\<close>, whose order SQLite leaves open, lists rows as they were
    inserted.

  \<open>sqlite_store\<close> at the end packs the operations into the dictionary of theory Store; the
  methods this store does not implement are the trait's defaults.
\<close>

section \<open>The database\<close>

record sql_verification =
  vf_destination_aci :: string
  vf_identity_key :: bytes
  vf_is_verified :: "bool option"

record sql_thread =
  th_id :: int
  th_group_master_key :: "bytes option"
  th_recipient_id :: "uuid option"

record sql_call =
  cl_call_id :: i64
  cl_peer_id :: string
  cl_mode :: string
  cl_call_type :: string
  cl_direction :: string
  cl_status :: string
  cl_timestamp_ms :: i64

record sql_avatar =
  av_key :: bytes
  av_bytes :: bytes
  av_url :: "string option"

record sqlite_db =
  db_contacts :: "sql_contact list"
  db_verification :: "sql_verification list"
  db_groups :: "sql_group list"
  db_group_avatars :: "sql_avatar list"
  db_profile_keys :: "(uuid \<times> bytes) list"
  db_profiles :: "sql_profile list"
  db_profile_avatars :: "sql_avatar list"
  db_threads :: "sql_thread list"
  db_thread_seq :: int
  db_messages :: "sql_message list"
  db_sticker_packs :: "sticker_pack list"
  db_call_history :: "sql_call list"
  db_kv :: "(string \<times> bytes) list"

definition sqlite_empty :: sqlite_db where
  "sqlite_empty =
     \<lparr>db_contacts = [], db_verification = [], db_groups = [], db_group_avatars = [],
      db_profile_keys = [], db_profiles = [], db_profile_avatars = [], db_threads = [],
      db_thread_seq = 0, db_messages = [], db_sticker_packs = [], db_call_history = [],
      db_kv = []\<rparr>"

type_synonym 'a sql = "(sqlite_db, sqlite_error, 'a) io"

definition replace_row :: "('r \<Rightarrow> bool) \<Rightarrow> 'r \<Rightarrow> 'r list \<Rightarrow> 'r list" where
  "replace_row clash r rows = filter (\<lambda>x. \<not> clash x) rows @ [r]"

definition select_one :: "('r \<Rightarrow> bool) \<Rightarrow> 'r list \<Rightarrow> 'r option" where
  "select_one p rows = find p rows"

definition query_sql :: "(sqlite_db \<Rightarrow> sqlite_error + 'a) \<Rightarrow> 'a sql" where
  "query_sql f db = (f db, db)"

definition execute_sql :: "(sqlite_db \<Rightarrow> sqlite_db) \<Rightarrow> unit sql" where
  "execute_sql f db = (Inr (), f db)"

text \<open>
  SQLite compares a \<open>BLOB\<close> and a \<open>TEXT\<close> value by storage class: they are never equal, and the
  affinity of the \<open>BLOB\<close> columns of the schema converts neither.
\<close>

datatype sql_value = SqlBlob bytes | SqlText string

section \<open>Clearing\<close>

text \<open>
  \<open>DELETE FROM profile_keys\<close> cascades to \<open>profiles\<close>; \<open>profile_avatars\<close> has no \<open>ON DELETE\<close>
  action, so the statement fails while an avatar refers to a key.
\<close>

definition avatar_needs_key :: "sqlite_db \<Rightarrow> bool" where
  "avatar_needs_key db \<longleftrightarrow>
     list_ex (\<lambda>a. list_ex (\<lambda>(u, _). uuid_bytes u = av_key a) (db_profile_keys db))
       (db_profile_avatars db)"

definition clear_profiles :: "unit sql" where
  "clear_profiles db =
     (if avatar_needs_key db then (Inl Sq_Db, db)
      else (Inr (), db\<lparr>db_profiles := [], db_profile_keys := [], db_profile_avatars := []\<rparr>))"

text \<open>\<open>DELETE FROM contacts\<close> before \<open>contacts_verification_state\<close>, which refers to it.\<close>

definition verification_needs_contact :: "sqlite_db \<Rightarrow> bool" where
  "verification_needs_contact db \<longleftrightarrow>
     list_ex (\<lambda>v. list_ex
         (\<lambda>c. SqlBlob (uuid_bytes (sq_uuid c)) = SqlText (vf_destination_aci v)) (db_contacts db))
       (db_verification db)"

definition clear_contents :: "unit sql" where
  "clear_contents db =
     (if verification_needs_contact db then (Inl Sq_Db, db)
      else (Inr (), db\<lparr>db_messages := [], db_threads := [], db_contacts := [],
        db_verification := [], db_groups := [], db_group_avatars := [],
        db_sticker_packs := []\<rparr>))"

definition clear_messages :: "unit sql" where
  "clear_messages = execute_sql (\<lambda>db. db\<lparr>db_messages := [], db_threads := []\<rparr>)"

definition clear_contacts :: "unit sql" where
  "clear_contacts db =
     (if verification_needs_contact db then (Inl Sq_Db, db)
      else (Inr (), db\<lparr>db_contacts := [], db_verification := []\<rparr>))"

definition clear_groups :: "unit sql" where
  "clear_groups = execute_sql (\<lambda>db. db\<lparr>db_groups := [], db_group_avatars := []\<rparr>)"

definition clear_kv :: "unit sql" where
  "clear_kv = execute_sql (\<lambda>db. db\<lparr>db_kv := []\<rparr>)"

section \<open>Messages\<close>

fun thread_group_master_key :: "thread \<Rightarrow> bytes option" where
  "thread_group_master_key (ContactThread _) = None"
| "thread_group_master_key (GroupThread mk) = Some (key32_bytes mk)"

fun thread_recipient_id :: "thread \<Rightarrow> uuid option" where
  "thread_recipient_id (ContactThread sid) = Some (raw_uuid sid)"
| "thread_recipient_id (GroupThread _) = None"

text \<open>\<open>SELECT id FROM threads WHERE group_master_key = ? OR recipient_id = ?\<close>; \<open>= NULL\<close> never holds.\<close>

definition sql_eq :: "'a option \<Rightarrow> 'a option \<Rightarrow> bool" where
  "sql_eq a b \<longleftrightarrow> a \<noteq> None \<and> a = b"

definition thread_matches :: "thread \<Rightarrow> sql_thread \<Rightarrow> bool" where
  "thread_matches t r \<longleftrightarrow>
     sql_eq (th_group_master_key r) (thread_group_master_key t) \<or>
     sql_eq (th_recipient_id r) (thread_recipient_id t)"

definition find_thread_id :: "thread \<Rightarrow> sqlite_db \<Rightarrow> int option" where
  "find_thread_id t db = map_option th_id (select_one (thread_matches t) (db_threads db))"

definition in_thread :: "thread \<Rightarrow> sqlite_db \<Rightarrow> sql_message \<Rightarrow> bool" where
  "in_thread t db m \<longleftrightarrow> sql_eq (Some (sm_thread_id m)) (find_thread_id t db)"

definition clear_thread :: "thread \<Rightarrow> unit sql" where
  "clear_thread t =
     execute_sql (\<lambda>db. db\<lparr>db_messages := filter (\<lambda>m. \<not> in_thread t db m) (db_messages db)\<rparr>)"

text \<open>\<open>INSERT ... ON CONFLICT DO UPDATE ... RETURNING id\<close>: the row that is there, or a new one.\<close>

definition upsert_thread :: "thread \<Rightarrow> sqlite_db \<Rightarrow> int \<times> sqlite_db" where
  "upsert_thread t db =
     (case find_thread_id t db of
        Some i \<Rightarrow> (i, db)
      | None \<Rightarrow>
          let i = db_thread_seq db + 1 in
          (i, db\<lparr>db_threads := db_threads db @
                  [\<lparr>th_id = i, th_group_master_key = thread_group_master_key t,
                    th_recipient_id = thread_recipient_id t\<rparr>],
                db_thread_seq := i\<rparr>))"

definition sqlite_save_message :: "sqlite_env \<Rightarrow> thread \<Rightarrow> content \<Rightarrow> unit sql" where
  "sqlite_save_message E t c =
     execute_sql (\<lambda>db.
       let (tid, db') = upsert_thread t db; r = message_row E tid c in
       db'\<lparr>db_messages :=
         replace_row (\<lambda>x. sm_ts x = sm_ts r \<and> sm_thread_id x = tid) r (db_messages db')\<rparr>)"

definition delete_message :: "thread \<Rightarrow> u64 \<Rightarrow> bool sql" where
  "delete_message t timestamp =
     bindE (lift_res (i64_try_from timestamp)) (\<lambda>ts db.
       let hit = (\<lambda>m. sm_ts m = ts \<and> in_thread t db m) in
       (Inr (list_ex hit (db_messages db)),
        db\<lparr>db_messages := filter (\<lambda>m. \<not> hit m) (db_messages db)\<rparr>))"

definition sqlite_message :: "sqlite_env \<Rightarrow> thread \<Rightarrow> u64 \<Rightarrow> content option sql" where
  "sqlite_message E t timestamp =
     bindE (lift_res (i64_try_from timestamp)) (\<lambda>ts.
       query_sql (\<lambda>db.
         case select_one (\<lambda>m. sm_ts m = ts \<and> in_thread t db m) (db_messages db) of
           None \<Rightarrow> Inr None
         | Some m \<Rightarrow> res_map Some (content_of_sql E m)))"

datatype bound = Included u64 | Excluded u64 | Unbounded

fun into_sql_bound :: "bound \<Rightarrow> i64 option \<times> i64 option" where
  "into_sql_bound (Excluded x) = (Some (i64_of_u64 x), None)"
| "into_sql_bound (Included x) = (None, Some (i64_of_u64 x))"
| "into_sql_bound Unbounded = (None, None)"

text \<open>A comparison with \<open>NULL\<close> is \<open>NULL\<close>, and \<open>coalesce\<close> takes the first value that is not.\<close>

definition sql_cmp :: "(int \<Rightarrow> int \<Rightarrow> bool) \<Rightarrow> i64 \<Rightarrow> i64 option \<Rightarrow> bool option" where
  "sql_cmp c x p = map_option (\<lambda>y. c (sint x) (sint y)) p"

definition coalesce3 :: "bool option \<Rightarrow> bool option \<Rightarrow> bool \<Rightarrow> bool" where
  "coalesce3 a b d = (case a of Some x \<Rightarrow> x | None \<Rightarrow> (case b of Some y \<Rightarrow> y | None \<Rightarrow> d))"

definition sql_in_range :: "bound \<Rightarrow> bound \<Rightarrow> i64 \<Rightarrow> bool" where
  "sql_in_range lo hi ts =
     (let (start_incl, start_excl) = into_sql_bound lo; (end_incl, end_excl) = into_sql_bound hi in
      coalesce3 (sql_cmp (>) ts start_incl) (sql_cmp (\<ge>) ts start_excl) True \<and>
      coalesce3 (sql_cmp (<) ts end_incl) (sql_cmp (\<le>) ts end_excl) True)"

definition sqlite_messages ::
  "sqlite_env \<Rightarrow> thread \<Rightarrow> bound \<Rightarrow> bound \<Rightarrow> (sqlite_error + content) list sql" where
  "sqlite_messages E t lo hi =
     query_sql (\<lambda>db.
       Inr (map (content_of_sql E)
         (rev (sort_key (\<lambda>m. sint (sm_ts m))
           (filter (\<lambda>m. in_thread t db m \<and> sql_in_range lo hi (sm_ts m)) (db_messages db))))))"

text \<open>The join lists, thread by thread, the messages of that sender and time; one is fetched.\<close>

definition thread_for_sender_and_timestamp ::
  "sqlite_env \<Rightarrow> service_id \<Rightarrow> u64 \<Rightarrow> thread option sql" where
  "thread_for_sender_and_timestamp E sender timestamp =
     bindE (lift_res (i64_try_from timestamp)) (\<lambda>ts.
       query_sql (\<lambda>db.
         case select_one
             (\<lambda>r. list_ex (\<lambda>m. sm_thread_id m = th_id r \<and>
                  sm_sender_service_id m = sid_print E sender \<and> sm_ts m = ts) (db_messages db))
             (db_threads db) of
           None \<Rightarrow> Inr None
         | Some r \<Rightarrow>
             (case (th_group_master_key r, th_recipient_id r) of
                (Some k, None) \<Rightarrow> Inr (map_option GroupThread (key32_from_slice k))
              | (None, Some u) \<Rightarrow> Inr (Some (ContactThread (Aci u)))
              | _ \<Rightarrow> Inl Sq_Panic)))"

section \<open>Call history\<close>

definition call_row_of :: "call_history_entry \<Rightarrow> i64 \<Rightarrow> sql_call" where
  "call_row_of e ts =
     \<lparr>cl_call_id = i64_of_u64 (ch_call_id e), cl_peer_id = ch_peer_id e,
      cl_mode = call_mode_as_str (ch_mode e), cl_call_type = call_type_as_str (ch_type e),
      cl_direction = call_direction_as_str (ch_direction e),
      cl_status = call_status_as_str (ch_status e), cl_timestamp_ms = ts\<rparr>"

definition sqlite_save_call_history :: "call_history_entry \<Rightarrow> unit sql" where
  "sqlite_save_call_history e =
     bindE (lift_res (i64_try_from (ch_timestamp e))) (\<lambda>ts.
       execute_sql (\<lambda>db.
         let r = call_row_of e ts in
         db\<lparr>db_call_history :=
           replace_row (\<lambda>x. cl_call_id x = cl_call_id r \<and> cl_peer_id x = cl_peer_id r) r
             (db_call_history db)\<rparr>))"

definition call_of_row :: "sql_call \<Rightarrow> call_history_entry" where
  "call_of_row r =
     (let mode = call_mode_parse (cl_mode r) in
      \<lparr>ch_call_id = u64_of_i64 (cl_call_id r), ch_peer_id = cl_peer_id r, ch_mode = mode,
       ch_type = call_type_parse (cl_call_type r),
       ch_direction = call_direction_parse (cl_direction r),
       ch_status = call_status_parse mode (cl_status r),
       ch_timestamp = u64_of_i64 (cl_timestamp_ms r)\<rparr>)"

definition sqlite_get_call_history :: "u64 \<Rightarrow> call_history_entry option sql" where
  "sqlite_get_call_history cid =
     query_sql (\<lambda>db. Inr (map_option call_of_row
       (select_one (\<lambda>r. cl_call_id r = i64_of_u64 cid) (db_call_history db))))"

section \<open>Contacts\<close>

text \<open>
  The row, then, if the contact carries a verification with an identity key, the row of
  \<open>contacts_verification_state\<close>, whose foreign key refers to \<open>contacts.uuid\<close>.
\<close>

definition sqlite_save_contact :: "sqlite_env \<Rightarrow> contact \<Rightarrow> unit sql" where
  "sqlite_save_contact E c db =
     (let r = contacts_row E c;
          db1 = db\<lparr>db_contacts := replace_row (\<lambda>x. sq_uuid x = sq_uuid r) r (db_contacts db)\<rparr>;
          v = c_verified c in
      case (v_destination_aci v, v_identity_key v) of
        (Some aci, Some key) \<Rightarrow>
          if list_ex (\<lambda>x. SqlBlob (uuid_bytes (sq_uuid x)) = SqlText aci) (db_contacts db1)
          then (Inr (), db1\<lparr>db_verification :=
                 replace_row (\<lambda>x. vf_destination_aci x = aci)
                   \<lparr>vf_destination_aci = aci, vf_identity_key = key,
                    vf_is_verified = is_verified_of_state (v_state v)\<rparr> (db_verification db1)\<rparr>)
          else (Inl Sq_Db, db)
      | _ \<Rightarrow> (Inr (), db1))"

definition join_verification :: "sqlite_db \<Rightarrow> sql_contact \<Rightarrow> sql_contact" where
  "join_verification db r =
     (case select_one (\<lambda>v. SqlBlob (uuid_bytes (sq_uuid r)) = SqlText (vf_destination_aci v))
             (db_verification db) of
        None \<Rightarrow> r
      | Some v \<Rightarrow> r\<lparr>sq_destination_aci := Some (vf_destination_aci v),
                   sq_identity_key := Some (vf_identity_key v),
                   sq_is_verified := vf_is_verified v\<rparr>)"

definition sqlite_contacts :: "sqlite_env \<Rightarrow> (sqlite_error + contact) list sql" where
  "sqlite_contacts E =
     query_sql (\<lambda>db. Inr (map (\<lambda>r. contact_of_sql E (join_verification db r))
       (sort_key (\<lambda>r. sint (sq_inbox_position r)) (db_contacts db))))"

definition sqlite_contact_by_id :: "sqlite_env \<Rightarrow> service_id \<Rightarrow> contact option sql" where
  "sqlite_contact_by_id E sid =
     query_sql (\<lambda>db.
       case select_one (\<lambda>r. sq_uuid r = raw_uuid sid) (db_contacts db) of
         None \<Rightarrow> Inr None
       | Some r \<Rightarrow> res_map Some (contact_of_sql E (join_verification db r)))"

section \<open>Groups\<close>

text \<open>
  The new row clashes with the row of its master key and, through the unique index, with
  any other row of its group identifier. The avatars of the rows it replaces go with them
  (\<open>ON DELETE CASCADE\<close>).
\<close>

definition sqlite_save_group :: "sqlite_env \<Rightarrow> key32 \<Rightarrow> group \<Rightarrow> unit sql" where
  "sqlite_save_group E mk g =
     execute_sql (\<lambda>db.
       let r = sql_from_group mk (Some (key32_bytes (group_identifier E mk))) g;
           clash = (\<lambda>x. sg_master_key x = sg_master_key r \<or> sql_eq (sg_group_id x) (sg_group_id r));
           gone = map sg_master_key (filter clash (db_groups db)) in
       db\<lparr>db_groups := replace_row clash r (db_groups db),
          db_group_avatars := filter (\<lambda>a. av_key a \<notin> set gone) (db_group_avatars db)\<rparr>)"

definition sqlite_groups :: "(sqlite_error + (key32 \<times> group)) list sql" where
  "sqlite_groups = query_sql (\<lambda>db. Inr (map sql_into_group (db_groups db)))"

definition sqlite_group :: "key32 \<Rightarrow> group option sql" where
  "sqlite_group mk =
     query_sql (\<lambda>db.
       case select_one (\<lambda>r. sg_master_key r = key32_bytes mk) (db_groups db) of
         None \<Rightarrow> Inr None
       | Some r \<Rightarrow> res_map (\<lambda>(_, g). Some g) (sql_into_group r))"

definition sqlite_group_by_group_id :: "key32 \<Rightarrow> key32 option sql" where
  "sqlite_group_by_group_id gid =
     query_sql (\<lambda>db.
       case select_one (\<lambda>r. sql_eq (sg_group_id r) (Some (key32_bytes gid))) (db_groups db) of
         None \<Rightarrow> Inr None
       | Some r \<Rightarrow> res_map Some (ok_or Sq_InvalidFormat (key32_from_slice (sg_master_key r))))"

text \<open>
  \<open>backfill_group_ids\<close>: one \<open>UPDATE\<close> per row that has no identifier; rows whose key is not
  32 bytes are skipped but counted. An identifier another row already holds violates the
  unique index, and the transaction is dropped.
\<close>

definition set_group_id :: "sqlite_env \<Rightarrow> key32 \<Rightarrow> sql_group list \<Rightarrow> sqlite_error + sql_group list" where
  "set_group_id E mk rows =
     (if list_ex (\<lambda>x. sg_master_key x \<noteq> key32_bytes mk \<and>
          sql_eq (sg_group_id x) (Some (key32_bytes (group_identifier E mk)))) rows
      then Inl Sq_Db
      else Inr (map (\<lambda>x. if sg_master_key x = key32_bytes mk
                         then x\<lparr>sg_group_id := Some (key32_bytes (group_identifier E mk))\<rparr> else x) rows))"

fun backfill_rows :: "sqlite_env \<Rightarrow> bytes list \<Rightarrow> sql_group list \<Rightarrow> sqlite_error + sql_group list" where
  "backfill_rows E [] rows = Inr rows"
| "backfill_rows E (k # ks) rows =
     (case key32_from_slice k of
        None \<Rightarrow> backfill_rows E ks rows
      | Some mk \<Rightarrow> res_bind (set_group_id E mk rows) (backfill_rows E ks))"

definition backfill_group_ids :: "sqlite_env \<Rightarrow> nat sql" where
  "backfill_group_ids E db =
     (let ks = map sg_master_key (filter (\<lambda>r. sg_group_id r = None) (db_groups db)) in
      if ks = [] then (Inr 0, db)
      else case backfill_rows E ks (db_groups db) of
             Inl e \<Rightarrow> (Inl e, db)
           | Inr rows \<Rightarrow> (Inr (length ks), db\<lparr>db_groups := rows\<rparr>))"

definition save_group_avatar :: "key32 \<Rightarrow> bytes \<Rightarrow> string \<Rightarrow> unit sql" where
  "save_group_avatar mk avatar url db =
     (if list_ex (\<lambda>r. sg_master_key r = key32_bytes mk) (db_groups db)
      then (Inr (), db\<lparr>db_group_avatars :=
             replace_row (\<lambda>a. av_key a = key32_bytes mk)
               \<lparr>av_key = key32_bytes mk, av_bytes = avatar, av_url = Some url\<rparr> (db_group_avatars db)\<rparr>)
      else (Inl Sq_Db, db))"

definition group_avatar :: "key32 \<Rightarrow> (string option \<times> bytes) option sql" where
  "group_avatar mk =
     query_sql (\<lambda>db. Inr (map_option (\<lambda>a. (av_url a, av_bytes a))
       (select_one (\<lambda>a. av_key a = key32_bytes mk) (db_group_avatars db))))"

section \<open>Profiles\<close>

text \<open>Replacing the key's row deletes it first: the profile goes with it (\<open>ON DELETE CASCADE\<close>).\<close>

definition sqlite_upsert_profile_key :: "uuid \<Rightarrow> key32 \<Rightarrow> bool sql" where
  "sqlite_upsert_profile_key u k db =
     (Inr True,
      db\<lparr>db_profile_keys := replace_row (\<lambda>(v, _). v = u) (u, key32_bytes k) (db_profile_keys db),
         db_profiles :=
           (if list_ex (\<lambda>(v, _). v = u) (db_profile_keys db)
            then filter (\<lambda>p. sp_uuid p \<noteq> u) (db_profiles db) else db_profiles db)\<rparr>)"

definition sqlite_profile_key :: "service_id \<Rightarrow> key32 option sql" where
  "sqlite_profile_key sid =
     query_sql (\<lambda>db. Inr (Option.bind
       (map_option snd (select_one (\<lambda>(u, _). u = raw_uuid sid) (db_profile_keys db)))
       key32_from_slice))"

definition save_profile :: "uuid \<Rightarrow> key32 \<Rightarrow> profile \<Rightarrow> unit sql" where
  "save_profile u k p =
     bindE (sqlite_upsert_profile_key u k) (\<lambda>_.
       execute_sql (\<lambda>db.
         let r = profiles_row u p in
         db\<lparr>db_profiles := replace_row (\<lambda>x. sp_uuid x = u) r (db_profiles db)\<rparr>))"

definition load_profile :: "uuid \<Rightarrow> key32 \<Rightarrow> profile option sql" where
  "load_profile u k =
     query_sql (\<lambda>db. Inr (
       if list_ex (\<lambda>(v, b). v = u \<and> b = key32_bytes k) (db_profile_keys db)
       then map_option profile_of_sql (select_one (\<lambda>p. sp_uuid p = u) (db_profiles db))
       else None))"

definition save_profile_avatar :: "uuid \<Rightarrow> key32 \<Rightarrow> bytes \<Rightarrow> string \<Rightarrow> unit sql" where
  "save_profile_avatar u key avatar url db =
     (if list_ex (\<lambda>(v, _). v = u) (db_profile_keys db)
      then (Inr (), db\<lparr>db_profile_avatars :=
             replace_row (\<lambda>a. av_key a = uuid_bytes u)
               \<lparr>av_key = uuid_bytes u, av_bytes = avatar, av_url = Some url\<rparr> (db_profile_avatars db)\<rparr>)
      else (Inl Sq_Db, db))"

definition profile_avatar :: "uuid \<Rightarrow> key32 \<Rightarrow> (string option \<times> bytes) option sql" where
  "profile_avatar u key =
     query_sql (\<lambda>db. Inr (map_option (\<lambda>a. (av_url a, av_bytes a))
       (select_one (\<lambda>a. av_key a = uuid_bytes u) (db_profile_avatars db))))"

section \<open>Sticker packs\<close>

definition add_sticker_pack :: "sticker_pack \<Rightarrow> unit sql" where
  "add_sticker_pack p =
     execute_sql (\<lambda>db. db\<lparr>db_sticker_packs :=
       replace_row (\<lambda>x. sk_pack_id x = sk_pack_id p) p (db_sticker_packs db)\<rparr>)"

definition load_sticker_pack :: "bytes \<Rightarrow> sticker_pack option sql" where
  "load_sticker_pack i =
     query_sql (\<lambda>db. Inr (select_one (\<lambda>x. sk_pack_id x = i) (db_sticker_packs db)))"

definition sqlite_remove_sticker_pack :: "bytes \<Rightarrow> bool sql" where
  "sqlite_remove_sticker_pack i db =
     (Inr (list_ex (\<lambda>x. sk_pack_id x = i) (db_sticker_packs db)),
      db\<lparr>db_sticker_packs := filter (\<lambda>x. sk_pack_id x \<noteq> i) (db_sticker_packs db)\<rparr>)"

definition all_sticker_packs :: "(sqlite_error + sticker_pack) list sql" where
  "all_sticker_packs = query_sql (\<lambda>db. Inr (map Inr (db_sticker_packs db)))"

section \<open>The storage manifest version\<close>

fun le_bytes :: "nat \<Rightarrow> u64 \<Rightarrow> bytes" where
  "le_bytes 0 x = []"
| "le_bytes (Suc n) x = ucast x # le_bytes n (drop_bit 8 x)"

definition kv_get :: "string \<Rightarrow> sqlite_db \<Rightarrow> bytes option" where
  "kv_get k db = map_option snd (select_one (\<lambda>(x, _). x = k) (db_kv db))"

definition kv_put :: "string \<Rightarrow> bytes \<Rightarrow> sqlite_db \<Rightarrow> sqlite_db" where
  "kv_put k v db = db\<lparr>db_kv := replace_row (\<lambda>(x, _). x = k) (k, v) (db_kv db)\<rparr>"

definition kv_remove :: "string \<Rightarrow> sqlite_db \<Rightarrow> sqlite_db" where
  "kv_remove k db = db\<lparr>db_kv := filter (\<lambda>(x, _). x \<noteq> k) (db_kv db)\<rparr>"

definition manifest_version_key :: string where "manifest_version_key = ''storage_manifest_version''"

definition sqlite_fetch_manifest_version :: "u64 sql" where
  "sqlite_fetch_manifest_version =
     query_sql (\<lambda>db.
       case kv_get manifest_version_key db of
         None \<Rightarrow> Inr 0
       | Some bs \<Rightarrow> if length bs = 8 then Inr (u64_from_le_bytes bs) else Inl Sq_InvalidFormat)"

definition sqlite_store_manifest_version :: "u64 \<Rightarrow> unit sql" where
  "sqlite_store_manifest_version v = execute_sql (kv_put manifest_version_key (le_bytes 8 v))"

section \<open>The store as a dictionary\<close>

definition sqlite_store :: "sqlite_env \<Rightarrow> (sqlite_db, sqlite_error) store_ops" where
  "sqlite_store E =
     \<lparr>fetch_storage_manifest_version = sqlite_fetch_manifest_version,
      store_storage_manifest_version = sqlite_store_manifest_version,
      fetch_storage_sync_cursor = ok None,
      store_storage_sync_cursor = (\<lambda>_. ok ()),
      clear_storage_sync_cursor = ok (),
      contact_by_id = sqlite_contact_by_id E,
      stored_contacts = sqlite_contacts E,
      save_contact = sqlite_save_contact E,
      contact_storage_identity = (\<lambda>_. ok None),
      save_contact_storage_identity = (\<lambda>_ _. ok ()),
      set_contact_needs_storage_sync = (\<lambda>_ _. ok ()),
      contacts_needing_storage_sync = ok [],
      load_group = sqlite_group,
      save_group = sqlite_save_group E,
      stored_groups = sqlite_groups,
      group_storage_identity = (\<lambda>_. ok None),
      save_group_storage_identity = (\<lambda>_ _. ok ()),
      set_group_needs_storage_sync = (\<lambda>_ _. ok ()),
      groups_needing_storage_sync = ok [],
      stored_chat_folders = ok [],
      load_chat_folder = (\<lambda>_. ok None),
      store_chat_folder = (\<lambda>_. ok ()),
      drop_chat_folder = (\<lambda>_. ok ()),
      chat_folder_storage_identity = (\<lambda>_. ok None),
      save_chat_folder_storage_identity = (\<lambda>_ _. ok ()),
      clear_chat_folder_storage_identity = (\<lambda>_. ok ()),
      set_chat_folder_needs_storage_sync = (\<lambda>_ _. ok ()),
      chat_folders_needing_storage_sync = ok [],
      account_chat_state_op = ok account_chat_state_default,
      save_account_chat_state = (\<lambda>_. ok ()),
      account_storage_identity = ok None,
      save_account_storage_identity = (\<lambda>_. ok ()),
      set_account_needs_storage_sync = (\<lambda>_. ok ()),
      account_needs_storage_sync = ok False,
      sticker_pack_record_state_op = (\<lambda>_. ok None),
      sticker_pack_storage_identity = (\<lambda>_. ok None),
      save_sticker_pack_storage_identity = (\<lambda>_ _. ok ()),
      set_sticker_pack_needs_storage_sync = (\<lambda>_ _. ok ()),
      sticker_packs_needing_storage_sync = ok [],
      stored_sticker_pack = load_sticker_pack,
      store_sticker_pack = add_sticker_pack,
      pending_sticker_packs = ok [],
      note_installed_sticker_pack = (\<lambda>_ _ _. ok ()),
      remove_sticker_pack = sqlite_remove_sticker_pack,
      stored_sticker_packs = all_sticker_packs,
      store_message = sqlite_save_message E,
      load_message = sqlite_message E,
      drop_message = delete_message,
      thread_of_message = thread_for_sender_and_timestamp E,
      get_call_history = sqlite_get_call_history,
      save_call_history = sqlite_save_call_history,
      stored_profile_key = sqlite_profile_key,
      upsert_profile_key = sqlite_upsert_profile_key\<rparr>"

end
