(* ===== verification/Store_Defaults.thy ===== *)
theory Store_Defaults
  imports Drains Chat_Edits Sqlite_Content
begin

text \<open>
  What a store is without the methods it need not implement (\<open>presage/src/store.rs\<close>): the bodies the traits give
  for the sync cursor, the call history and the rows that travel with the storage service. The
  SQLite store implements the call history and leaves the rest. On such a store an edit of a chat
  is made and never owed: nothing is published, however often the drains run.
\<close>

section \<open>The bodies of the traits\<close>

definition default_cursor :: "('w, 'e) store_ops \<Rightarrow> ('w, 'e) store_ops" where
  "default_cursor S = S
     \<lparr>fetch_storage_sync_cursor := ok None,
      store_storage_sync_cursor := \<lambda>_. ok (),
      clear_storage_sync_cursor := ok ()\<rparr>"

definition default_save_call :: "('w, 'e) store_ops \<Rightarrow> ('w, 'e) store_ops" where
  "default_save_call S = S\<lparr>save_call_history := \<lambda>_. ok ()\<rparr>"

definition default_get_call :: "('w, 'e) store_ops \<Rightarrow> ('w, 'e) store_ops" where
  "default_get_call S = S\<lparr>get_call_history := \<lambda>_. ok None\<rparr>"

definition default_contact_sync :: "('w, 'e) store_ops \<Rightarrow> ('w, 'e) store_ops" where
  "default_contact_sync S = S
     \<lparr>contact_storage_identity := \<lambda>_. ok None,
      save_contact_storage_identity := \<lambda>_ _. ok (),
      set_contact_needs_storage_sync := \<lambda>_ _. ok (),
      contacts_needing_storage_sync := ok []\<rparr>"

definition default_group_sync :: "('w, 'e) store_ops \<Rightarrow> ('w, 'e) store_ops" where
  "default_group_sync S = S
     \<lparr>group_storage_identity := \<lambda>_. ok None,
      save_group_storage_identity := \<lambda>_ _. ok (),
      set_group_needs_storage_sync := \<lambda>_ _. ok (),
      groups_needing_storage_sync := ok []\<rparr>"

definition default_folders :: "('w, 'e) store_ops \<Rightarrow> ('w, 'e) store_ops" where
  "default_folders S = S
     \<lparr>stored_chat_folders := ok [],
      load_chat_folder := \<lambda>_. ok None,
      store_chat_folder := \<lambda>_. ok (),
      drop_chat_folder := \<lambda>_. ok (),
      chat_folder_storage_identity := \<lambda>_. ok None,
      save_chat_folder_storage_identity := \<lambda>_ _. ok (),
      clear_chat_folder_storage_identity := \<lambda>_. ok (),
      set_chat_folder_needs_storage_sync := \<lambda>_ _. ok (),
      chat_folders_needing_storage_sync := ok []\<rparr>"

definition default_account :: "('w, 'e) store_ops \<Rightarrow> ('w, 'e) store_ops" where
  "default_account S = S
     \<lparr>account_chat_state_op := ok account_chat_state_default,
      save_account_chat_state := \<lambda>_. ok (),
      account_storage_identity := ok None,
      save_account_storage_identity := \<lambda>_. ok (),
      set_account_needs_storage_sync := \<lambda>_. ok (),
      account_needs_storage_sync := ok False\<rparr>"

definition default_stickers :: "('w, 'e) store_ops \<Rightarrow> ('w, 'e) store_ops" where
  "default_stickers S = S
     \<lparr>note_installed_sticker_pack := \<lambda>_ _ _. ok (),
      pending_sticker_packs := ok [],
      sticker_pack_record_state_op := \<lambda>_. ok None,
      sticker_pack_storage_identity := \<lambda>_. ok None,
      save_sticker_pack_storage_identity := \<lambda>_ _. ok (),
      set_sticker_pack_needs_storage_sync := \<lambda>_ _. ok (),
      sticker_packs_needing_storage_sync := ok []\<rparr>"

text \<open>A store that implements none of the rows of the storage service.\<close>

definition without_sync :: "('w, 'e) store_ops \<Rightarrow> ('w, 'e) store_ops" where
  "without_sync S =
     default_cursor (default_contact_sync (default_group_sync (default_folders (default_account (default_stickers S)))))"

lemmas default_defs = default_cursor_def default_contact_sync_def default_group_sync_def default_folders_def
  default_account_def default_stickers_def

lemma without_sync_sel [simp]:
  "set_contact_needs_storage_sync (without_sync S) sid b = ok ()"
  "contacts_needing_storage_sync (without_sync S) = ok []"
  "set_group_needs_storage_sync (without_sync S) mk b = ok ()"
  "groups_needing_storage_sync (without_sync S) = ok []"
  "stored_chat_folders (without_sync S) = ok []"
  "chat_folders_needing_storage_sync (without_sync S) = ok []"
  "account_chat_state_op (without_sync S) = ok account_chat_state_default"
  "save_account_chat_state (without_sync S) s = ok ()"
  "set_account_needs_storage_sync (without_sync S) b = ok ()"
  "account_needs_storage_sync (without_sync S) = ok False"
  "sticker_packs_needing_storage_sync (without_sync S) = ok []"
  by (simp_all add: without_sync_def default_defs)

text \<open>The SQLite store is one.\<close>

lemma sqlite_without_sync: "without_sync (sqlite_store E) = sqlite_store E"
  by (simp add: without_sync_def default_defs sqlite_store_def)

section \<open>Nothing is owed\<close>

lemma drains_without_sync:
  assumes "ae_store V = without_sync S"
  shows "push_pending_contact_records V = ok ()" "push_pending_group_records V = ok ()"
    "push_pending_sticker_pack_records V = ok ()" "push_pending_account_record V = ok ()"
    "push_pending_chat_folder_records V = bindE (call (ae_now_ms V)) (\<lambda>_. ok ())"
  by (simp_all add: assms push_pending_contact_records_def push_pending_group_records_def
      push_pending_sticker_pack_records_def push_pending_account_record_def push_pending_chat_folder_records_def
      expired_chat_folder_tombstones_def drain_def bindE_def thenE_def map_err_def ok_def st_def call_def Let_def
      fun_eq_iff split: prod.split)

text \<open>Pins are not kept at all: the account row reads as one that pins nothing.\<close>

lemma account_edit_without_sync:
  assumes "mv_store M = without_sync S"
  shows "edit_account_for_publish M edit = ok ()"
  by (simp add: assms edit_account_for_publish_def Let_def io_simps st_def fun_eq_iff)

text \<open>
  Muting or archiving a chat and publishing what is owed is the edit alone: on the SQLite store no
  record of the account changes for it. And a pin is reported as made and not there afterwards.
\<close>

definition publish_owed :: "('w, 'e) account_env \<Rightarrow> ('w, 'e error, unit) io" where
  "publish_owed V =
     thenE (push_pending_contact_records V)
       (thenE (push_pending_group_records V) (push_pending_account_record V))"

theorem sqlite_edits_are_not_published:
  fixes M :: "(sqlite_db, sqlite_error) message_env"
  assumes "mv_store M = sqlite_store E"
  shows "thenE (set_muted_until M t ms) (publish_owed (mv_account M)) = set_muted_until M t ms"
    "thenE (set_archived M t b) (publish_owed (mv_account M)) = set_archived M t b"
proof -
  have S: "mv_store M = without_sync (sqlite_store E)" by (simp add: assms sqlite_without_sync)
  have "thenE edit (publish_owed (mv_account M)) = edit" for edit
    by (simp add: publish_owed_def drains_without_sync [OF S] thenE_def bindE_def ok_def fun_eq_iff
        split: prod.split sum.split)
  then show "thenE (set_muted_until M t ms) (publish_owed (mv_account M)) = set_muted_until M t ms"
    "thenE (set_archived M t b) (publish_owed (mv_account M)) = set_archived M t b" by blast+
qed

lemma sqlite_forgets_pins:
  assumes "mv_store M = sqlite_store E"
  shows "edit_account_for_publish M (pin C t) = ok ()"
    "account_chat_state_op (mv_store M) = ok account_chat_state_default"
    "pinned account_chat_state_default = []"
proof -
  have S: "mv_store M = without_sync (sqlite_store E)" by (simp add: assms sqlite_without_sync)
  show "edit_account_for_publish M (pin C t) = ok ()" by (rule account_edit_without_sync [OF S])
  show "account_chat_state_op (mv_store M) = ok account_chat_state_default" unfolding S by simp
  show "pinned account_chat_state_default = []" by (simp add: account_chat_state_default_def)
qed

end
