(* ===== verification/Sync_Laws.thy ===== *)
theory Sync_Laws
  imports Sync Sample_Account
begin

text \<open>
  Laws of theory Sync: a sync may be interrupted anywhere and taken up again from its cursor, and still
  the local manifest version moves only when every record of the manifest has been read.
\<close>

section \<open>What a sync calls\<close>

text \<open>The calls of a sync other than those on the manifest, the version and the cursor.\<close>

definition sync_keeps :: "('w, 'e) account_env \<Rightarrow> ('w \<Rightarrow> bool) \<Rightarrow> bool" where
  "sync_keeps V P \<longleftrightarrow>
     keeps P (ae_open V) \<and> (\<forall>w. P w \<longrightarrow> P (snd (ae_random16 V w))) \<and>
     (let S = ae_store V in
      (\<forall>sid. keeps P (contact_by_id S sid)) \<and> (\<forall>c. keeps P (save_contact S c)) \<and>
      (\<forall>sid. keeps P (contact_storage_identity S sid)) \<and>
      (\<forall>sid i. keeps P (save_contact_storage_identity S sid i)) \<and>
      keeps P (contacts_needing_storage_sync S) \<and>
      (\<forall>mk. keeps P (load_group S mk)) \<and> (\<forall>mk g. keeps P (save_group S mk g)) \<and>
      (\<forall>mk. keeps P (group_storage_identity S mk)) \<and>
      (\<forall>mk i. keeps P (save_group_storage_identity S mk i)) \<and> keeps P (groups_needing_storage_sync S) \<and>
      keeps P (stored_chat_folders S) \<and> (\<forall>i. keeps P (load_chat_folder S i)) \<and>
      (\<forall>f. keeps P (store_chat_folder S f)) \<and> (\<forall>i. keeps P (drop_chat_folder S i)) \<and>
      (\<forall>i. keeps P (chat_folder_storage_identity S i)) \<and>
      (\<forall>i x. keeps P (save_chat_folder_storage_identity S i x)) \<and>
      (\<forall>i. keeps P (clear_chat_folder_storage_identity S i)) \<and>
      (\<forall>i b. keeps P (set_chat_folder_needs_storage_sync S i b)) \<and>
      keeps P (chat_folders_needing_storage_sync S) \<and>
      keeps P (account_chat_state_op S) \<and> (\<forall>s. keeps P (save_account_chat_state S s)) \<and>
      keeps P (account_storage_identity S) \<and> (\<forall>i. keeps P (save_account_storage_identity S i)) \<and>
      keeps P (account_needs_storage_sync S) \<and>
      (\<forall>k i. keeps P (save_sticker_pack_storage_identity S k i)) \<and>
      keeps P (sticker_packs_needing_storage_sync S) \<and>
      (\<forall>k key p. keeps P (note_installed_sticker_pack S k key p)) \<and>
      (\<forall>k. keeps P (remove_sticker_pack S k)) \<and> (\<forall>u k. keeps P (upsert_profile_key S u k)))"

lemma sync_keepsD:
  assumes "sync_keeps V P"
  shows "keeps P (ae_open V)" "keeps P (call (ae_random16 V))"
    "keeps P (contact_by_id (ae_store V) sid)" "keeps P (save_contact (ae_store V) c)"
    "keeps P (contact_storage_identity (ae_store V) sid)"
    "keeps P (save_contact_storage_identity (ae_store V) sid x)"
    "keeps P (contacts_needing_storage_sync (ae_store V))"
    "keeps P (load_group (ae_store V) mk)" "keeps P (save_group (ae_store V) mk g)"
    "keeps P (group_storage_identity (ae_store V) mk)"
    "keeps P (save_group_storage_identity (ae_store V) mk x)"
    "keeps P (groups_needing_storage_sync (ae_store V))"
    "keeps P (stored_chat_folders (ae_store V))" "keeps P (load_chat_folder (ae_store V) i)"
    "keeps P (store_chat_folder (ae_store V) f)" "keeps P (drop_chat_folder (ae_store V) i)"
    "keeps P (chat_folder_storage_identity (ae_store V) i)"
    "keeps P (save_chat_folder_storage_identity (ae_store V) i x)"
    "keeps P (clear_chat_folder_storage_identity (ae_store V) i)"
    "keeps P (set_chat_folder_needs_storage_sync (ae_store V) i b)"
    "keeps P (chat_folders_needing_storage_sync (ae_store V))"
    "keeps P (account_chat_state_op (ae_store V))" "keeps P (save_account_chat_state (ae_store V) s)"
    "keeps P (account_storage_identity (ae_store V))"
    "keeps P (save_account_storage_identity (ae_store V) x)"
    "keeps P (account_needs_storage_sync (ae_store V))"
    "keeps P (save_sticker_pack_storage_identity (ae_store V) k x)"
    "keeps P (sticker_packs_needing_storage_sync (ae_store V))"
    "keeps P (note_installed_sticker_pack (ae_store V) k key p)"
    "keeps P (remove_sticker_pack (ae_store V) k)" "keeps P (upsert_profile_key (ae_store V) u key')"
  using assms unfolding sync_keeps_def Let_def by (simp_all add: keeps_call)

lemma keeps_case_sticker_state [keeps_rules]:
  "(\<And>k p. keeps P (f k p)) \<Longrightarrow> (\<And>t. keeps P (g t)) \<Longrightarrow>
   keeps P (case x of Installed k p \<Rightarrow> f k p | Removed t \<Rightarrow> g t)"
  by (cases x) auto

lemma keeps_case_thread [keeps_rules]:
  "(\<And>sid. keeps P (f sid)) \<Longrightarrow> (\<And>mk. keeps P (g mk)) \<Longrightarrow>
   keeps P (case t of ContactThread sid \<Rightarrow> f sid | GroupThread mk \<Rightarrow> g mk)"
  by (cases t) auto

lemma keeps_sync_item:
  assumes "sync_keeps V P"
  shows "keeps P (sync_item V D version item)"
proof -
  note ops = keeps_rules sync_keepsD [OF assms]
  have "keeps P (sync_contact V D i cr)" "keeps P (sync_group V D i gr)" "keeps P (sync_folder V D i fr)"
    "keeps P (sync_sticker_pack V D i sr)" for i cr gr fr sr
    unfolding sync_contact_def sync_group_def sync_folder_def sync_sticker_pack_def Let_def
      pending_publish_intent_def group_pending_publish_intent_def
    by (intro ops)+
  moreover have "keeps P (sync_account V D i)" for i
    unfolding sync_account_def merge_account_record_def unarchive_pinned_def unarchive_thread_def Let_def
    by (intro ops)
  ultimately show ?thesis
    by (auto simp: sync_item_def Let_def split: option.split storage_record.split)
qed

lemma keeps_all_chats_versions: "sync_keeps V P \<Longrightarrow> keeps P (all_chats_versions V fs)"
proof (induction fs)
  case (Cons f fs)
  show ?case unfolding all_chats_versions.simps
    by (intro keeps_rules sync_keepsD [OF Cons.prems] Cons.IH [OF Cons.prems])
qed simp

lemma keeps_sync_rest:
  assumes "sync_keeps V P"
  shows "keeps P (ensure_single_all_chats_folder V create)"
    "keeps P (reappend_chat_folders_missing_from_manifest V ids)" "keeps P (read_pending V)"
proof -
  note ops = keeps_rules sync_keepsD [OF assms] keeps_all_chats_versions [OF assms]
  show "keeps P (ensure_single_all_chats_folder V create)"
    unfolding ensure_single_all_chats_folder_def drop_duplicate_all_chats_def stage_chat_folder_def
    by (intro ops)
  show "keeps P (reappend_chat_folders_missing_from_manifest V ids)"
    unfolding reappend_chat_folders_missing_from_manifest_def by (intro ops)
  show "keeps P (read_pending V)"
    unfolding read_pending_def read_or_def by (intro ops)
qed

section \<open>Progress\<close>

text \<open>
  Three readings of the world: the local manifest version, the cursor, and the keys of the manifest \<open>m\<close>
  whose records have been handed out so far.
\<close>

definition stands ::
  "('w \<Rightarrow> u64) \<Rightarrow> ('w \<Rightarrow> storage_sync_cursor option) \<Rightarrow> ('w \<Rightarrow> bytes set) \<Rightarrow>
   u64 \<Rightarrow> storage_sync_cursor option \<Rightarrow> bytes set \<Rightarrow> 'w \<Rightarrow> bool" where
  "stands version cursor seen v c K w \<longleftrightarrow> version w = v \<and> cursor w = c \<and> K \<subseteq> seen w"

text \<open>
  What is relied on while the server's manifest is \<open>m\<close>: version and cursor change by their own operations
  alone, which do nothing when they fail; an unchanged manifest has the local version; a batch that is
  read hands out its keys.
\<close>

definition sync_world ::
  "('w, 'e) account_env \<Rightarrow> manifest \<Rightarrow> ('w \<Rightarrow> u64) \<Rightarrow> ('w \<Rightarrow> storage_sync_cursor option) \<Rightarrow>
   ('w \<Rightarrow> bytes set) \<Rightarrow> bool" where
  "sync_world V m version cursor seen \<longleftrightarrow>
     (\<forall>v c K. let A = stands version cursor seen; S = ae_store V in
        sync_keeps V (A v c K) \<and>
        triple (A v c K) (fetch_storage_manifest_version S) (\<lambda>x w. x = v \<and> A v c K w) (\<lambda>_. A v c K) \<and>
        triple (A v c K) (fetch_storage_sync_cursor S) (\<lambda>x w. x = c \<and> A v c K w) (\<lambda>_. A v c K) \<and>
        (\<forall>x. triple (A v c K) (store_storage_manifest_version S x) (\<lambda>_. A x c K) (\<lambda>_. A v c K)) \<and>
        (\<forall>x. triple (A v c K) (store_storage_sync_cursor S x) (\<lambda>_. A v (Some x) K) (\<lambda>_. A v c K)) \<and>
        triple (A v c K) (clear_storage_sync_cursor S) (\<lambda>_. A v None K) (\<lambda>_. A v c K) \<and>
        (\<forall>x. triple (A v c K) (ae_manifest_if_changed V x)
           (\<lambda>r w. A v c K w \<and> (case r of None \<Rightarrow> x = mf_version m | Some m' \<Rightarrow> m' = m)) (\<lambda>_. A v c K)) \<and>
        (\<forall>b ikm. triple (A v c K) (ae_read_items V b ikm) (\<lambda>_. A v c (K \<union> set b)) (\<lambda>_. A v c K)))"

text \<open>
  The invariant: what the cursor says is done has been read; the local version is the manifest's only
  when everything has; \<open>k\<close> batches have been read anyway, and \<open>b\<close> remembers that the version has moved.
\<close>

definition covered :: "manifest \<Rightarrow> nat \<Rightarrow> bytes set" where
  "covered m k = set (concat (take k (sync_batches m)))"

definition progress ::
  "manifest \<Rightarrow> ('w \<Rightarrow> u64) \<Rightarrow> ('w \<Rightarrow> storage_sync_cursor option) \<Rightarrow> ('w \<Rightarrow> bytes set) \<Rightarrow>
   bool \<Rightarrow> nat \<Rightarrow> 'w \<Rightarrow> bool" where
  "progress m version cursor seen b k w \<longleftrightarrow>
     (\<forall>c. cursor w = Some c \<longrightarrow> sc_target_version c = mf_version m \<longrightarrow>
        covered m (unat (sc_next_batch_index c)) \<subseteq> seen w) \<and>
     (version w = mf_version m \<longrightarrow> set (concat (sync_batches m)) \<subseteq> seen w) \<and>
     (b \<longrightarrow> version w = mf_version m) \<and> covered m k \<subseteq> seen w"

lemma covered_mono: "i \<le> k \<Longrightarrow> covered m i \<subseteq> covered m k"
  unfolding covered_def by (auto dest: set_take_subset_set_take [THEN subsetD])

lemma covered_all: "length (sync_batches m) \<le> k \<Longrightarrow> covered m k = set (concat (sync_batches m))"
  by (simp add: covered_def)

lemma covered_Suc: "k < length (sync_batches m) \<Longrightarrow> covered m (Suc k) = covered m k \<union> set (sync_batches m ! k)"
  by (simp add: covered_def take_Suc_conv_app_nth)

lemma covered_0 [simp]: "covered m 0 = {}"
  by (simp add: covered_def)

lemma progress_weaken: "progress m version cursor seen b k w \<Longrightarrow> i \<le> k \<Longrightarrow> progress m version cursor seen b i w"
  unfolding progress_def using covered_mono [of i k m] by blast

lemma keeps_progress:
  assumes "\<And>v c K. keeps (stands version cursor seen v c K) f"
  shows "keeps (progress m version cursor seen b k) f"
  unfolding keeps_def
proof (intro allI impI)
  fix w assume p: "progress m version cursor seen b k w"
  from keepsD [OF assms, of "version w" "cursor w" "seen w" w]
  have "version (snd (f w)) = version w" "cursor (snd (f w)) = cursor w" "seen w \<subseteq> seen (snd (f w))"
    by (auto simp: stands_def)
  with p show "progress m version cursor seen b k (snd (f w))"
    unfolding progress_def by auto
qed

lemma triple_progress_and:
  assumes "\<And>v c K. triple (stands version cursor seen v c K) f (Q v c K) (\<lambda>_. stands version cursor seen v c K)"
    "\<And>w x w'. progress m version cursor seen b k w \<Longrightarrow> X w \<Longrightarrow> Q (version w) (cursor w) (seen w) x w' \<Longrightarrow> R x w'"
  shows "triple (\<lambda>w. progress m version cursor seen b k w \<and> X w) f R (\<lambda>_. progress m version cursor seen b k)"
proof (rule tripleI)
  fix w x w' assume p: "progress m version cursor seen b k w \<and> X w" "f w = (Inr x, w')"
  have "stands version cursor seen (version w) (cursor w) (seen w) w" by (simp add: stands_def)
  from assms(2) [OF _ _ triple_Inr [OF assms(1) this p(2)]] p(1) show "R x w'" by blast
next
  fix w e w' assume p: "progress m version cursor seen b k w \<and> X w" "f w = (Inl e, w')"
  have "stands version cursor seen (version w) (cursor w) (seen w) w" by (simp add: stands_def)
  from triple_Inl [OF assms(1) this p(2)] p(1) show "progress m version cursor seen b k w'"
    unfolding progress_def stands_def by auto
qed

lemmas triple_progress = triple_progress_and [where X = "\<lambda>_. True", simplified]

lemma sync_worldD:
  assumes "sync_world V m version cursor seen"
  shows "sync_keeps V (stands version cursor seen v c K)"
    "triple (stands version cursor seen v c K) (fetch_storage_manifest_version (ae_store V))
       (\<lambda>x w. x = v \<and> stands version cursor seen v c K w) (\<lambda>_. stands version cursor seen v c K)"
    "triple (stands version cursor seen v c K) (fetch_storage_sync_cursor (ae_store V))
       (\<lambda>x w. x = c \<and> stands version cursor seen v c K w) (\<lambda>_. stands version cursor seen v c K)"
    "triple (stands version cursor seen v c K) (store_storage_manifest_version (ae_store V) x)
       (\<lambda>_. stands version cursor seen x c K) (\<lambda>_. stands version cursor seen v c K)"
    "triple (stands version cursor seen v c K) (store_storage_sync_cursor (ae_store V) y)
       (\<lambda>_. stands version cursor seen v (Some y) K) (\<lambda>_. stands version cursor seen v c K)"
    "triple (stands version cursor seen v c K) (clear_storage_sync_cursor (ae_store V))
       (\<lambda>_. stands version cursor seen v None K) (\<lambda>_. stands version cursor seen v c K)"
    "triple (stands version cursor seen v c K) (ae_manifest_if_changed V x)
       (\<lambda>r w. stands version cursor seen v c K w \<and> (case r of None \<Rightarrow> x = mf_version m | Some m' \<Rightarrow> m' = m))
       (\<lambda>_. stands version cursor seen v c K)"
    "triple (stands version cursor seen v c K) (ae_read_items V batch ikm)
       (\<lambda>_. stands version cursor seen v c (K \<union> set batch)) (\<lambda>_. stands version cursor seen v c K)"
  using assms unfolding sync_world_def Let_def by blast+

lemma keeps_readings:
  assumes "sync_world V m version cursor seen"
  shows "sync_keeps V (progress m version cursor seen b k)"
  unfolding sync_keeps_def Let_def
proof (intro conjI allI impI keeps_progress sync_keepsD [OF sync_worldD(1) [OF assms]])
  fix w assume "progress m version cursor seen b k w"
  from keepsD [OF keeps_progress [OF sync_keepsD(2) [OF sync_worldD(1) [OF assms]]] this]
  show "progress m version cursor seen b k (snd (ae_random16 V w))"
    by (simp add: call_def split: prod.splits)
qed

lemma progress_done: "progress m version cursor seen True k w \<Longrightarrow> progress m version cursor seen b 0 w"
  by (simp add: progress_def)

text \<open>The calls that move a reading.\<close>

lemma progress_calls:
  assumes "sync_world V m version cursor seen"
  shows "triple (progress m version cursor seen b k) (ae_read_items V batch ikm)
      (\<lambda>_ w. progress m version cursor seen b k w \<and> set batch \<subseteq> seen w) (\<lambda>_. progress m version cursor seen b k)"
    "keeps (progress m version cursor seen b k) (clear_storage_sync_cursor (ae_store V))"
    "triple (progress m version cursor seen b k) (store_storage_sync_cursor (ae_store V)
        \<lparr>sc_target_version = mf_version m, sc_next_batch_index = of_nat k\<rparr>)
      (\<lambda>_. progress m version cursor seen b k) (\<lambda>_. progress m version cursor seen b k)"
    "length (sync_batches m) \<le> k \<Longrightarrow>
     triple (progress m version cursor seen b k) (store_storage_manifest_version (ae_store V) (mf_version m))
      (\<lambda>_. progress m version cursor seen True k) (\<lambda>_. progress m version cursor seen b k)"
proof -
  note ops = sync_worldD [OF assms]
  show "triple (progress m version cursor seen b k) (ae_read_items V batch ikm)
      (\<lambda>_ w. progress m version cursor seen b k w \<and> set batch \<subseteq> seen w) (\<lambda>_. progress m version cursor seen b k)"
    by (rule triple_progress [OF ops(8)]) (auto simp: progress_def stands_def)
  show "keeps (progress m version cursor seen b k) (clear_storage_sync_cursor (ae_store V))"
    unfolding keeps_triple
    by (rule triple_progress [OF ops(6)]) (auto simp: progress_def stands_def)
  have "unat (of_nat k :: u32) \<le> k" by (simp add: unat_of_nat)
  then have "covered m (unat (of_nat k :: u32)) \<subseteq> covered m k" by (rule covered_mono)
  then show "triple (progress m version cursor seen b k) (store_storage_sync_cursor (ae_store V)
        \<lparr>sc_target_version = mf_version m, sc_next_batch_index = of_nat k\<rparr>)
      (\<lambda>_. progress m version cursor seen b k) (\<lambda>_. progress m version cursor seen b k)"
    by (intro triple_progress [OF ops(5)]) (auto simp: progress_def stands_def; blast)
  show "triple (progress m version cursor seen b k) (store_storage_manifest_version (ae_store V) (mf_version m))
      (\<lambda>_. progress m version cursor seen True k) (\<lambda>_. progress m version cursor seen b k)"
    if "length (sync_batches m) \<le> k"
    by (rule triple_progress [OF ops(4)]) (use covered_all [OF that] in \<open>auto simp: progress_def stands_def; blast\<close>)
qed

section \<open>A sync\<close>

lemma triple_keepsI: "keeps P m \<Longrightarrow> (\<And>w. P w \<Longrightarrow> E w) \<Longrightarrow> triple P m (\<lambda>_. P) (\<lambda>_. E)"
  unfolding keeps_def triple_def by (fastforce split: prod.split sum.split)

lemma triple_ignore: "triple P m (\<lambda>_. R) (\<lambda>_. R) \<Longrightarrow> triple R k Q E \<Longrightarrow> triple P (ignore m k) Q E"
  unfolding ignore_def by (rule triple_attempt) auto

lemma sync_batch_progress:
  assumes "sync_world V m version cursor seen" "k < length (sync_batches m)"
  shows "triple (progress m version cursor seen b k) (sync_batch V D m (k, sync_batches m ! k))
    (\<lambda>_. progress m version cursor seen b (Suc k)) (\<lambda>_. progress m version cursor seen b 0)"
proof -
  let ?P = "progress m version cursor seen b"
  have "triple (?P k) (ae_read_items V (sync_batches m ! k)
      (if mf_record_ikm m = [] then None else Some (mf_record_ikm m))) (\<lambda>_. ?P (k + 1)) (\<lambda>_. ?P 0)"
    by (rule triple_weaken [OF progress_calls(1) [OF assms(1)]])
      (auto simp: progress_def covered_Suc [OF assms(2)])
  moreover have "triple (?P (k + 1)) (for_each records (sync_item V D (mf_version m))) (\<lambda>_. ?P (k + 1))
      (\<lambda>_. ?P 0)" for records
    by (rule triple_keepsI) (auto intro!: keeps_for_each keeps_sync_item keeps_readings [OF assms(1)] intro: progress_weaken)
  moreover have "triple (?P (k + 1)) (ignore (store_storage_sync_cursor (ae_store V)
      \<lparr>sc_target_version = mf_version m, sc_next_batch_index = of_nat (k + 1)\<rparr>) (ok ()))
      (\<lambda>_. ?P (k + 1)) (\<lambda>_. ?P 0)"
    by (rule triple_ignore [OF progress_calls(3) [OF assms(1)] triple_ok [where Q = "\<lambda>_. ?P (k + 1)"]])
  ultimately have "triple (?P k) (sync_batch V D m (k, sync_batches m ! k)) (\<lambda>_. ?P (k + 1)) (\<lambda>_. ?P 0)"
    unfolding sync_batch_def prod.case by (rule triple_bindE [OF _ triple_thenE])
  then show ?thesis by simp
qed

lemma sync_batches_progress:
  assumes "sync_world V m version cursor seen"
  shows "triple (progress m version cursor seen b k)
    (for_each (drop k (zip [0..<length (sync_batches m)] (sync_batches m))) (sync_batch V D m))
    (\<lambda>_. progress m version cursor seen b (length (sync_batches m)))
    (\<lambda>_. progress m version cursor seen b 0)"
proof (induction "length (sync_batches m) - k" arbitrary: k)
  case 0
  then have "length (sync_batches m) \<le> k" by simp
  then show ?case
    by (simp add: triple_weaken [OF triple_ok] progress_weaken triple_def ok_def)
next
  case (Suc n)
  then have k: "k < length (sync_batches m)" by simp
  then have "drop k (zip [0..<length (sync_batches m)] (sync_batches m)) =
      (k, sync_batches m ! k) # drop (Suc k) (zip [0..<length (sync_batches m)] (sync_batches m))"
    by (subst Cons_nth_drop_Suc [symmetric]) simp_all
  moreover have "n = length (sync_batches m) - Suc k" using Suc.hyps(2) by simp
  ultimately show ?case
    using Suc.hyps(1) [of "Suc k"] sync_batch_progress [OF assms k] by (auto intro: triple_thenE)
qed

lemma resume_index_progress:
  assumes "sync_world V m version cursor seen"
  shows "triple (progress m version cursor seen b 0) (resume_index V (mf_version m))
    (\<lambda>k. progress m version cursor seen b k) (\<lambda>_. progress m version cursor seen b 0)"
  unfolding resume_index_def
proof (rule triple_bindE)
  let ?P = "progress m version cursor seen b"
  show "triple (?P 0) (st (fetch_storage_sync_cursor (ae_store V))) (\<lambda>c w. ?P 0 w \<and> cursor w = c) (\<lambda>_. ?P 0)"
    by (intro triple_st triple_progress [OF sync_worldD(3) [OF assms]]) (auto simp: progress_def stands_def)
  have clear: "triple (?P 0) (ignore (clear_storage_sync_cursor (ae_store V)) (ok 0)) (\<lambda>k. ?P k) (\<lambda>_. ?P 0)"
    by (rule triple_ignore [OF triple_keeps [OF progress_calls(2) [OF assms]]
      triple_ok [where Q = "\<lambda>k. ?P k"]])
  show "triple (\<lambda>w. ?P 0 w \<and> cursor w = c) (case c of None \<Rightarrow> ok 0
      | Some x \<Rightarrow> if sc_target_version x = mf_version m then ok (unat (sc_next_batch_index x))
          else ignore (clear_storage_sync_cursor (ae_store V)) (ok 0)) (\<lambda>k. ?P k) (\<lambda>_. ?P 0)" for c
  proof (cases c)
    case (Some x)
    have "triple (\<lambda>w. ?P 0 w \<and> cursor w = Some x) (ok (unat (sc_next_batch_index x))) (\<lambda>k. ?P k) (\<lambda>_. ?P 0)"
      if "sc_target_version x = mf_version m"
      using that by (auto simp: triple_def ok_def progress_def)
    with Some show ?thesis by (auto intro!: triple_if triple_weaken [OF clear])
  qed (simp add: triple_def ok_def)
qed

lemma finish_progress:
  assumes "sync_world V m version cursor seen" "length (sync_batches m) \<le> k"
  shows "triple (progress m version cursor seen b k) (sync_finish V m)
    (\<lambda>_. progress m version cursor seen True k) (\<lambda>_. progress m version cursor seen b 0)"
  unfolding sync_finish_def
proof (rule triple_thenE)
  let ?P = "progress m version cursor seen"
  show "triple (?P b k) (st (store_storage_manifest_version (ae_store V) (mf_version m)))
      (\<lambda>_. ?P True k) (\<lambda>_. ?P b 0)"
    by (intro triple_st triple_weaken [OF progress_calls(4) [OF assms]]) (auto intro: progress_weaken)
  show "triple (?P True k) (thenE (reappend_chat_folders_missing_from_manifest V ids)
      (ensure_single_all_chats_folder V True)) (\<lambda>_. ?P True k) (\<lambda>_. ?P b 0)" for ids
    by (rule triple_keepsI) (auto intro!: keeps_sync_rest keeps_readings [OF assms(1)] intro: progress_done)
qed

lemma records_progress:
  assumes "sync_world V m version cursor seen"
  shows "triple (progress m version cursor seen b 0) (sync_records V m)
    (\<lambda>_. progress m version cursor seen True 0) (\<lambda>_. progress m version cursor seen b 0)"
proof -
  let ?P = "progress m version cursor seen" and ?n = "length (sync_batches m)"
  have pending: "triple (?P b 0) (read_pending V) (\<lambda>_. ?P b 0) (\<lambda>_. ?P b 0)"
    by (rule triple_keeps [OF keeps_sync_rest(3) [OF keeps_readings [OF assms]]])
  have clear: "triple (?P True ?n) (ignore (clear_storage_sync_cursor (ae_store V)) (ok ()))
      (\<lambda>_. ?P True 0) (\<lambda>_. ?P b 0)"
    by (rule triple_weaken [OF triple_keeps [OF keeps_ignore [OF progress_calls(2)
        [OF assms, where b = True and k = ?n] keeps_ok]]])
      (auto intro: progress_weaken progress_done)
  show ?thesis
    unfolding sync_records_def
    by (intro triple_bindE [OF pending] triple_bindE [OF resume_index_progress [OF assms]]
        triple_thenE [OF sync_batches_progress [OF assms]] triple_thenE [OF finish_progress [OF assms] clear])
      simp
qed

lemma no_keys_no_batches: "subject_keys m = [] \<Longrightarrow> trailing_keys m = [] \<Longrightarrow> sync_batches m = []"
  by (simp add: sync_batches_def chunks_def)

lemma sync_progress:
  assumes "sync_world V m version cursor seen"
  shows "triple (progress m version cursor seen b 0) (sync_storage_service V)
    (\<lambda>_. progress m version cursor seen True 0) (\<lambda>_. progress m version cursor seen b 0)"
  unfolding sync_storage_service_def
proof (intro triple_thenE triple_bindE)
  let ?P = "progress m version cursor seen"
  note ops = sync_worldD [OF assms] and keep = keeps_readings [OF assms]
  show "triple (?P b 0) (ae_open V) (\<lambda>_. ?P b 0) (\<lambda>_. ?P b 0)"
    by (rule triple_keeps [OF sync_keepsD(1) [OF keep]])
  show "triple (?P b 0) (st (fetch_storage_manifest_version (ae_store V)))
      (\<lambda>v w. ?P b 0 w \<and> version w = v) (\<lambda>_. ?P b 0)"
    by (intro triple_st triple_progress [OF ops(2)]) (auto simp: progress_def stands_def)
  show "triple (\<lambda>w. ?P b 0 w \<and> version w = v) (ae_manifest_if_changed V v)
      (\<lambda>r w. case r of None \<Rightarrow> ?P True 0 w | Some m' \<Rightarrow> m' = m \<and> ?P b 0 w) (\<lambda>_. ?P b 0)" for v
    by (rule triple_progress_and [OF ops(7)]) (auto simp: progress_def stands_def split: option.splits; blast)
  have unchanged: "triple (?P True 0) (ignore (clear_storage_sync_cursor (ae_store V))
      (ensure_single_all_chats_folder V False)) (\<lambda>_. ?P True 0) (\<lambda>_. ?P b 0)"
    by (rule triple_keepsI [OF keeps_ignore [OF progress_calls(2) [OF assms] keeps_sync_rest(1) [OF keep]]])
      (rule progress_done)
  show "triple (\<lambda>w. case r of None \<Rightarrow> ?P True 0 w | Some m' \<Rightarrow> m' = m \<and> ?P b 0 w)
      (case r of None \<Rightarrow> ignore (clear_storage_sync_cursor (ae_store V)) (ensure_single_all_chats_folder V False)
       | Some m \<Rightarrow> if subject_keys m = [] \<and> trailing_keys m = [] then sync_finish V m else sync_records V m)
      (\<lambda>_. ?P True 0) (\<lambda>_. ?P b 0)" for r
    by (cases r) (auto intro!: unchanged triple_assume records_progress [OF assms] finish_progress [OF assms]
        simp: no_keys_no_batches)
qed

section \<open>Attempts\<close>

lemma attempts_progress:
  assumes "sync_world V m version cursor seen" "progress m version cursor seen b 0 w"
    "run_all (replicate n (sync_storage_service V)) w = (rs, w')"
  shows "progress m version cursor seen (b \<or> Inr () \<in> set rs) 0 w'"
  using assms(2,3)
proof (induction n arbitrary: b w rs)
  case (Suc n)
  obtain r w1 where r: "sync_storage_service V w = (r, w1)" by fastforce
  obtain rs' where rs: "run_all (replicate n (sync_storage_service V)) w1 = (rs', w')" "rs = r # rs'"
    using Suc.prems(2) by (auto simp: r split: prod.splits)
  have "progress m version cursor seen (b \<or> r = Inr ()) 0 w1"
    using triple_Inr [OF sync_progress [OF assms(1)] Suc.prems(1)]
      triple_Inl [OF sync_progress [OF assms(1)] Suc.prems(1)] r
    by (cases r) (auto simp: progress_def)
  from Suc.IH [OF this rs(1)] show ?case
    unfolding rs(2) disj_assoc list.set insert_iff by (simp only: eq_commute [of "Inr ()" r])
qed simp

lemma sync_batches_keys: "set (concat (sync_batches m)) = set (subject_keys m) \<union> set (trailing_keys m)"
  by (simp add: sync_batches_def concat_chunks STORAGE_SERVICE_BATCH_SIZE_def del: set_concat)

definition synced_types :: "item_type set" where
  "synced_types = {Item_Contact, Item_Groupv2, Item_StickerPack, Item_ChatFolder}"

lemma synced_keys:
  assumes "set (concat (sync_batches m)) \<subseteq> K"
  shows "(\<forall>i \<in> set (mf_identifiers m). id_type i \<in> synced_types \<longrightarrow> id_raw i \<in> K) \<and>
    (raw_of_type Item_Account m \<noteq> [] \<longrightarrow> last (raw_of_type Item_Account m) \<in> K)"
proof
  have sub: "set (subject_keys m) \<union> set (trailing_keys m) \<subseteq> K"
    using assms unfolding sync_batches_keys .
  then show "\<forall>i \<in> set (mf_identifiers m). id_type i \<in> synced_types \<longrightarrow> id_raw i \<in> K"
    by (auto simp: subject_keys_def trailing_keys_def raw_of_type_def synced_types_def Let_def)
  have "drop (length xs - 1) xs = [last xs]" if "xs \<noteq> []" for xs :: "bytes list"
    using that by (induction xs rule: rev_induct) auto
  then show "raw_of_type Item_Account m \<noteq> [] \<longrightarrow> last (raw_of_type Item_Account m) \<in> K"
    using sub by (auto simp: trailing_keys_def Let_def)
qed

text \<open>C7. A sync never skips a record. Start with a version other than the server's manifest and without a
  cursor for it, and try as often as you like, each attempt failing wherever it may, with the cursor
  stored, not stored or not cleared: the local version becomes the manifest's only when every contact,
  group, sticker pack and folder the manifest names, and its last account record, has been handed
  out, be it over several attempts; and as soon as one attempt succeeds the version has moved.\<close>

theorem sync_misses_nothing:
  assumes "sync_world V m version cursor seen" "version w \<noteq> mf_version m"
    "\<forall>c. cursor w = Some c \<longrightarrow> sc_target_version c \<noteq> mf_version m"
    "run_all (replicate n (sync_storage_service V)) w = (rs, w')"
  shows "(version w' = mf_version m \<longrightarrow>
      (\<forall>i \<in> set (mf_identifiers m). id_type i \<in> synced_types \<longrightarrow> id_raw i \<in> seen w') \<and>
      (raw_of_type Item_Account m \<noteq> [] \<longrightarrow> last (raw_of_type Item_Account m) \<in> seen w')) \<and>
    (Inr () \<in> set rs \<longrightarrow> version w' = mf_version m)"
proof -
  have "progress m version cursor seen False 0 w"
    using assms(2,3) by (simp add: progress_def)
  from attempts_progress [OF assms(1) this assms(4)]
  have "version w' = mf_version m \<longrightarrow> set (concat (sync_batches m)) \<subseteq> seen w'"
    "Inr () \<in> set rs \<longrightarrow> version w' = mf_version m"
    unfolding progress_def by simp_all
  with synced_keys [of m "seen w'"] show ?thesis by blast
qed

text \<open>A server that loses the first read after one that went through.\<close>

record sync_state =
  sy_version :: u64
  sy_cursor :: "storage_sync_cursor option"
  sy_seen :: "bytes list"
  sy_losses :: nat

definition sample_sync_manifest :: manifest where
  "sample_sync_manifest =
     \<lparr>mf_version = 5, mf_source_device = 1,
      mf_identifiers = [\<lparr>id_raw = [1], id_type = Item_Contact\<rparr>, \<lparr>id_raw = [2], id_type = Item_ChatFolder\<rparr>,
        \<lparr>id_raw = [3], id_type = Item_Account\<rparr>, \<lparr>id_raw = [4], id_type = Item_Account\<rparr>],
      mf_record_ikm = []\<rparr>"

definition sample_sync_store :: "(sync_state, unit) store_ops" where
  "sample_sync_store = inert_store
     \<lparr>fetch_storage_manifest_version := \<lambda>w. (Inr (sy_version w), w),
      store_storage_manifest_version := \<lambda>v w. (Inr (), w\<lparr>sy_version := v\<rparr>),
      fetch_storage_sync_cursor := \<lambda>w. (Inr (sy_cursor w), w),
      store_storage_sync_cursor := \<lambda>c w. (Inr (), w\<lparr>sy_cursor := Some c\<rparr>),
      clear_storage_sync_cursor := \<lambda>w. (Inr (), w\<lparr>sy_cursor := None\<rparr>)\<rparr>"

definition sample_sync_env :: "(sync_state, unit) account_env" where
  "sample_sync_env =
     \<lparr>ae_store = sample_sync_store, ae_master_key = ok (Some []), ae_open = ok (),
      ae_manifest = ok sample_sync_manifest,
      ae_manifest_if_changed = (\<lambda>v. ok (if v = 5 then None else Some sample_sync_manifest)),
      ae_read_items = (\<lambda>b _ w.
        if sy_seen w = [] \<or> sy_losses w = 0 then (Inr [], w\<lparr>sy_seen := sy_seen w @ b\<rparr>)
        else (Inl (ServiceError ''lost''), w\<lparr>sy_losses := sy_losses w - 1\<rparr>)),
      ae_write_items = (\<lambda>_ _ _. ok ()), ae_random16 = (\<lambda>w. ([], w)), ae_now_ms = (\<lambda>w. (0, w)),
      ae_sleep = (\<lambda>_ w. w), ae_new_sender = ok (), ae_send_fetch_latest = ok (), ae_sync = ok (),
      ae_device = 1, ae_codec = plain_codec, ae_contact_codec = sample_contact_codec,
      ae_encode_contact = (\<lambda>_. []), ae_encode_group = (\<lambda>_. []), ae_encode_sticker = (\<lambda>_. []),
      ae_encode_folder = (\<lambda>_. []), ae_decode_sticker = (\<lambda>_. None)\<rparr>"

definition sample_sync_start :: sync_state where
  "sample_sync_start = \<lparr>sy_version = 0, sy_cursor = None, sy_seen = [], sy_losses = 1\<rparr>"

lemma sample_sync_world:
  "sync_world sample_sync_env sample_sync_manifest sy_version sy_cursor (set \<circ> sy_seen)"
  unfolding sync_world_def Let_def
  by (auto simp: sync_keeps_def sample_sync_env_def sample_sync_store_def inert_store_def triple_def ok_def
      keeps_def stands_def sample_sync_manifest_def)

lemma sample_sync_run:
  "run_all (replicate 2 (sync_storage_service sample_sync_env)) sample_sync_start =
     ([Inl (ServiceError ''lost''), Inr ()],
      \<lparr>sy_version = 5, sy_cursor = None, sy_seen = [[1], [2], [4]], sy_losses = 0\<rparr>)"
  by code_simp

theorem sync_misses_nothing_witness:
  "set (map id_raw (filter (\<lambda>i. id_type i \<in> synced_types) (mf_identifiers sample_sync_manifest)))
     \<subseteq> {[1], [2], [4 :: byte]}"
  using sync_misses_nothing [OF sample_sync_world _ _ sample_sync_run]
  by (auto simp: sample_sync_start_def sample_sync_manifest_def)

section \<open>At the edges\<close>

text \<open>
  Appending a record stores the version it wrote, whether or not this device had read the one before: a
  device that never synced appends to the manifest of version 5, and the sync that follows finds nothing
  new and reads none of the records it was missing.
\<close>

definition appending_env :: "(sync_state, unit) account_env" where
  "appending_env = sample_sync_env
     \<lparr>ae_random16 := (\<lambda>w. ([9], w)),
      ae_manifest_if_changed := (\<lambda>v. ok (if v = 6 then None else Some (appended_manifest sample_sync_manifest 1 Item_Groupv2 [9])))\<rparr>"

theorem appended_record_hides_others:
  "\<exists>w. append_storage_record appending_env Item_Groupv2 [7] sample_sync_start = (Inr [9], w) \<and>
     (\<exists>w'. sync_storage_service appending_env w = (Inr (), w') \<and> sy_seen w' = [])"
proof -
  have "append_storage_record appending_env Item_Groupv2 [7] sample_sync_start =
      (Inr [9], \<lparr>sy_version = 6, sy_cursor = None, sy_seen = [], sy_losses = 1\<rparr>)"
    by code_simp
  moreover have "sync_storage_service appending_env \<lparr>sy_version = 6, sy_cursor = None, sy_seen = [], sy_losses = 1\<rparr> =
      (Inr (), \<lparr>sy_version = 6, sy_cursor = None, sy_seen = [], sy_losses = 1\<rparr>)"
    by code_simp
  ultimately show ?thesis by simp
qed

text \<open>Of several all-chats folders the one that is kept is the one whose record was written last.\<close>

lemma insert_keep_set: "set (insert_keep a xs) = insert a (set xs)"
  by (induction xs) auto

lemma sort_keep_set: "set (sort_keep xs) = set xs"
  by (induction xs) (simp_all add: sort_keep_def insert_keep_set)

lemma keep_order_version: "keep_order a b \<Longrightarrow> \<forall>v. snd b = Some v \<longrightarrow> (\<exists>u. snd a = Some u \<and> v \<le> u)"
  by (auto simp: keep_order_def split: option.splits)

definition newer_than_all :: "uuid \<times> u64 option \<Rightarrow> (uuid \<times> u64 option) list \<Rightarrow> bool" where
  "newer_than_all a xs \<longleftrightarrow> (\<forall>(_, v) \<in> set xs. case v of None \<Rightarrow> True | Some v \<Rightarrow> \<exists>u. snd a = Some u \<and> v \<le> u)"

lemma newer_hd_insert:
  assumes "xs \<noteq> [] \<longrightarrow> newer_than_all (hd xs) xs"
  shows "newer_than_all (hd (insert_keep a xs)) (insert_keep a xs)"
proof (cases xs)
  case (Cons b bs)
  with assms have b: "newer_than_all b xs" by simp
  show ?thesis
  proof (cases "keep_order a b")
    case True
    with b Cons keep_order_version [OF this] show ?thesis
      by (fastforce simp: newer_than_all_def split: option.splits)
  next
    case False
    then have "keep_order b a" by (auto simp: keep_order_def split: option.splits)
    from keep_order_version [OF this] b False Cons show ?thesis
      by (fastforce simp: newer_than_all_def insert_keep_set split: option.splits)
  qed
qed (cases a, simp add: newer_than_all_def split: option.split)

theorem newest_folder_is_kept: "xs \<noteq> [] \<Longrightarrow> newer_than_all (hd (sort_keep xs)) xs"
proof -
  have "ys \<noteq> [] \<longrightarrow> newer_than_all (hd (sort_keep ys)) (sort_keep ys)" for ys
  proof (induction ys)
    case (Cons y ys)
    then have "newer_than_all (hd (insert_keep y (sort_keep ys))) (insert_keep y (sort_keep ys))"
      by (intro newer_hd_insert) (auto simp: sort_keep_def)
    then show ?case by (simp add: sort_keep_def)
  qed simp
  then show "xs \<noteq> [] \<Longrightarrow> newer_than_all (hd (sort_keep xs)) xs"
    by (simp add: newer_than_all_def sort_keep_set)
qed

end
