(* ===== verification/Receive.thy ===== *)
theory Receive
  imports Save_Message
begin

text \<open>
  The receive loop (\<open>Manager::receive_messages\<close> of \<open>presage/src/manager/registered.rs\<close>): the stream's
  state, one function for what an opened envelope does, one for an incoming event, and the \<open>unfold\<close>
  that turns events into \<open>Received\<close> values. Decryption is libsignal-service's \<open>ServiceCipher\<close>; the
  requests answered in the background are tasks of \<open>background\<close>. What the loop logs is left out.
\<close>

section \<open>Events\<close>

datatype ciphertext_type = Ciphertext_Whisper | Ciphertext_PreKey | Ciphertext_SenderKey | Ciphertext_Plaintext

datatype envelope_type = Envelope_PrekeyMessage | Envelope_DoubleRatchet | Envelope_Other

record envelope =
  env_type :: envelope_type
  env_client_timestamp :: u64
  env_destination :: "service_id option"
  env_source :: "service_id option"
  env_source_device :: u32
  env_content :: "bytes option"

datatype cipher_kind = CipherAci | CipherPni

text \<open>A sealed-sender failure names the address it knows, as text and device, and the ciphertext.\<close>

datatype open_error =
    SealedSenderDecryptionError "(string \<times> u8) option" "(ciphertext_type \<times> bytes) option"
  | OtherOpenError

datatype 'r incoming = IncomingEnvelope envelope | IncomingQueueEmpty | IncomingDisconnected 'r | IncomingError

datatype 'r received =
    QueueEmpty
  | Contacts
  | DecryptionError service_id u8 u64 "(ciphertext_type \<times> bytes) option"
  | PeerDecryptionError service_id
  | Content content
  | Disconnected 'r

datatype registration_type = Primary | Secondary

text \<open>
  The stream's state besides the sockets and the world. \<open>re_parse_pool\<close> is \<open>AccountEntropyPool::from_str\<close>,
  \<open>re_derive_master\<close> the derivation of the master key, which does not fail.
\<close>

record receive_state =
  rs_master_key :: "bytes option"
  rs_account_entropy_pool :: "string option"

record ('w, 'e) receive_env =
  re_messages :: "('w, 'e) message_env"
  re_pni :: uuid
  re_registration_type :: registration_type
  re_open :: "cipher_kind \<Rightarrow> envelope \<Rightarrow> ('w, open_error, content option) io"
  re_parse_pool :: "string \<Rightarrow> string option"
  re_derive_master :: "string \<Rightarrow> bytes"
  re_store_pool :: "string \<Rightarrow> ('w, 'e, unit) io"
  re_store_master_key :: "bytes \<Rightarrow> ('w, 'e, unit) io"
  re_device_id :: "u32 \<Rightarrow> u8 option"

section \<open>Opening an envelope\<close>

record retry_context =
  rc_sender :: service_id
  rc_sender_device :: u8
  rc_original :: "(ciphertext_type \<times> bytes) option"

definition session_retry_context :: "('w, 'e) receive_env \<Rightarrow> envelope \<Rightarrow> retry_context option" where
  "session_retry_context R env =
     Option.bind (case env_type env of
         Envelope_PrekeyMessage \<Rightarrow> Some Ciphertext_PreKey
       | Envelope_DoubleRatchet \<Rightarrow> Some Ciphertext_Whisper
       | Envelope_Other \<Rightarrow> None) (\<lambda>original_type.
     Option.bind (env_source env) (\<lambda>sender.
     Option.bind (re_device_id R (env_source_device env)) (\<lambda>sender_device.
     Option.bind (env_content env) (\<lambda>original_ciphertext.
       Some \<lparr>rc_sender = sender, rc_sender_device = sender_device,
             rc_original = Some (original_type, original_ciphertext)\<rparr>))))"

definition retry_of :: "('w, 'e) receive_env \<Rightarrow> envelope \<Rightarrow> open_error \<Rightarrow> retry_context option" where
  "retry_of R env e =
     (case e of
        SealedSenderDecryptionError (Some (name, device)) original \<Rightarrow>
          map_option (\<lambda>sender. \<lparr>rc_sender = sender, rc_sender_device = device, rc_original = original\<rparr>)
            (parse_from_service_id_string (ae_codec (mv_account (re_messages R))) name)
      | _ \<Rightarrow> session_retry_context R env)"

text \<open>Which cipher an envelope is for; \<open>None\<close> for one that is dropped unread.\<close>

definition envelope_cipher :: "('w, 'e) receive_env \<Rightarrow> envelope \<Rightarrow> cipher_kind option" where
  "envelope_cipher R env =
     (case env_destination env of
        None \<Rightarrow> None
      | Some (Aci _) \<Rightarrow> Some CipherAci
      | Some (Pni pni) \<Rightarrow>
          if pni = re_pni R \<and> env_source env = None then None else Some CipherPni)"

section \<open>What an opened envelope does\<close>

type_synonym ('w, 'a) receiving = "receive_state \<times> 'w \<Rightarrow> 'a \<times> (receive_state \<times> 'w)"

text \<open>A request from another device, answered in the background.\<close>

definition answer_request ::
  "('w, 'e) receive_env \<Rightarrow> content \<Rightarrow> request_type \<Rightarrow> receive_state \<times> 'w \<Rightarrow> receive_state \<times> 'w" where
  "answer_request R c req s =
     (let (r, w) = s; M = re_messages R; S = mv_store M in
      case req of
        RequestContacts \<Rightarrow>
          if md_sender_device (ct_metadata c) = mv_device M then s
          else
            let (rows, w1) = stored_contacts S w;
                contacts = opt_or [] (Option.bind (res_ok rows) (\<lambda>rs. res_ok (res_collect rs)))
            in (r, mv_spawn M (SendContactDetails contacts) w1)
      | RequestKeys \<Rightarrow> (r, mv_spawn M (SendKeys (rs_account_entropy_pool r)) w)
      | RequestBlocked \<Rightarrow>
          let (rows, w1) = stored_contacts S w;
              blocked = (case rows of
                Inl _ \<Rightarrow> []
              | Inr rs \<Rightarrow> map c_uuid (filter c_blocked (List.map_filter res_ok rs)))
          in (r, mv_spawn M (SendBlocked blocked) w1)
      | RequestOther \<Rightarrow> s)"

definition apply_sticker_operation ::
  "('w, 'e) receive_env \<Rightarrow> sticker_operation \<Rightarrow> 'w \<Rightarrow> 'w" where
  "apply_sticker_operation R operation w =
     (case so_type operation of
        StickerInstall \<Rightarrow> mv_spawn (re_messages R) (DownloadStickerPack operation) w
      | StickerRemove \<Rightarrow>
          snd (remove_sticker_pack (mv_store (re_messages R)) (opt_or [] (so_pack_id operation)) w))"

text \<open>The keys of the primary device: the pool as sent, and the master key derived from whichever pool is held.\<close>

definition receive_keys ::
  "('w, 'e) receive_env \<Rightarrow> string option \<Rightarrow> receive_state \<times> 'w \<Rightarrow> receive_state \<times> 'w" where
  "receive_keys R pool s =
     (if re_registration_type R = Primary then s
      else
        let (r1, w1) =
          (case Option.bind pool (re_parse_pool R) of
             Some aep \<Rightarrow>
               ((fst s)\<lparr>rs_account_entropy_pool := Some aep\<rparr>, snd (re_store_pool R aep (snd s)))
           | None \<Rightarrow> s)
        in case rs_account_entropy_pool r1 of
             Some aep \<Rightarrow>
               let master = re_derive_master R aep in
               (r1\<lparr>rs_master_key := Some master\<rparr>, snd (re_store_master_key R master w1))
           | None \<Rightarrow> (r1, w1))"

text \<open>The group context of a message of ours or to us.\<close>

definition body_group_context :: "content_body \<Rightarrow> group_context option" where
  "body_group_context b =
     (case b of
        DataMessage d \<Rightarrow> dm_group_v2 d
      | SynchronizeMessage (Some (SyncSent s)) _ \<Rightarrow> Option.bind (sent_message s) dm_group_v2
      | _ \<Rightarrow> None)"

definition refresh_message_group :: "('w, 'e) receive_env \<Rightarrow> content \<Rightarrow> 'w \<Rightarrow> 'w" where
  "refresh_message_group R c w =
     (case body_group_context (ct_body c) of
        None \<Rightarrow> w
      | Some g \<Rightarrow>
          (case (gc_master_key g, gc_revision g) of
             (Some mk, Some revision) \<Rightarrow> snd (mv_upsert_group (re_messages R) mk revision w)
           | _ \<Rightarrow> w))"

text \<open>The tail every content reaches: group, store, and the hand-over to the client.\<close>

definition deliver :: "('w, 'e) receive_env \<Rightarrow> content \<Rightarrow> ('w, 'r received) receiving" where
  "deliver R c s =
     (let (r, w) = s; w1 = refresh_message_group R c w;
          w2 = snd (save_message (re_messages R) c None w1)
      in (Content c, (r, w2)))"

definition handle_content :: "('w, 'e) receive_env \<Rightarrow> content \<Rightarrow> ('w, 'r received) receiving" where
  "handle_content R c s =
     (case ct_body c of
        DecryptionErrorMessage \<Rightarrow> (PeerDecryptionError (md_sender (ct_metadata c)), s)
      | SynchronizeMessage m operations \<Rightarrow>
          let s1 = (case m of Some (SyncRequest req) \<Rightarrow> answer_request R c req s | _ \<Rightarrow> s) in
          if m = Some SyncContacts then (Contacts, s1)
          else
            let s2 = (fst s1, fold (apply_sticker_operation R) operations (snd s1));
                s3 = (case m of Some (SyncKeys pool) \<Rightarrow> receive_keys R pool s2 | _ \<Rightarrow> s2)
            in deliver R c s3
      | _ \<Rightarrow> deliver R c s)"

section \<open>The loop\<close>

text \<open>One event: \<open>Some\<close> what the stream yields for it, \<open>None\<close> when the loop goes on to the next.\<close>

definition handle_envelope :: "('w, 'e) receive_env \<Rightarrow> envelope \<Rightarrow> ('w, 'r received option) receiving" where
  "handle_envelope R env s =
     (case envelope_cipher R env of
        None \<Rightarrow> (None, s)
      | Some cipher \<Rightarrow>
          let (opened, w1) = re_open R cipher env (snd s); s1 = (fst s, w1) in
          case opened of
            Inr (Some c) \<Rightarrow> let (x, s2) = handle_content R c s1 in (Some x, s2)
          | Inr None \<Rightarrow> (None, s1)
          | Inl e \<Rightarrow>
              (case retry_of R env e of
                 None \<Rightarrow> (None, s1)
               | Some retry \<Rightarrow>
                   (Some (DecryptionError (rc_sender retry) (rc_sender_device retry)
                      (env_client_timestamp env) (rc_original retry)), s1)))"

definition handle_queue_empty :: "('w, 'e) receive_env \<Rightarrow> ('w, 'r received option) receiving" where
  "handle_queue_empty R s =
     (let (r, w) = s in
      (Some QueueEmpty,
       (r, if rs_account_entropy_pool r = None then mv_spawn (re_messages R) RequestKeysFromPrimary w else w)))"

fun handle_incoming :: "('w, 'e) receive_env \<Rightarrow> 'r incoming \<Rightarrow> ('w, 'r received option) receiving" where
  "handle_incoming R (IncomingEnvelope env) s = handle_envelope R env s"
| "handle_incoming R IncomingQueueEmpty s = handle_queue_empty R s"
| "handle_incoming R (IncomingDisconnected reason) s = (Some (Disconnected reason), s)"
| "handle_incoming R IncomingError s = (None, s)"

text \<open>
  The closure of \<open>unfold\<close>: the next value of the stream and the events still to come, or \<open>None\<close> when
  the socket's stream has ended.
\<close>

fun next_received ::
  "('w, 'e) receive_env \<Rightarrow> 'r incoming list \<Rightarrow> receive_state \<times> 'w \<Rightarrow>
   ('r received \<times> 'r incoming list) option \<times> (receive_state \<times> 'w)" where
  "next_received R [] s = (None, s)"
| "next_received R (ev # evs) s =
     (case handle_incoming R ev s of
        (Some x, s') \<Rightarrow> (Some (x, evs), s')
      | (None, s') \<Rightarrow> next_received R evs s')"

lemma next_received_shrinks:
  "next_received R evs s = (Some (x, rest), s') \<Longrightarrow> length rest < length evs"
  by (induction R evs s rule: next_received.induct) (auto split: prod.splits option.splits)

text \<open>The whole stream, polled to its end.\<close>

function receive_all ::
  "('w, 'e) receive_env \<Rightarrow> 'r incoming list \<Rightarrow> receive_state \<times> 'w \<Rightarrow> 'r received list \<times> (receive_state \<times> 'w)" where
  "receive_all R evs s =
     (case next_received R evs s of
        (None, s') \<Rightarrow> ([], s')
      | (Some (x, rest), s') \<Rightarrow> (let (xs, s'') = receive_all R rest s' in (x # xs, s'')))"
  by pat_completeness auto
termination by (relation "measure (\<lambda>(R, evs, s). length evs)") (auto dest: next_received_shrinks [OF sym])

declare receive_all.simps [simp del]

end
