(* ===== verification/Downloads.thy ===== *)
theory Downloads
  imports Messages Stickers Manifest
begin

text \<open>
  Downloads (\<open>presage/src/manager/registered.rs\<close>): attachments with their progress, single stickers and
  sticker manifests. A body read from the network is the list of what its reads return, an error for one
  that fails; the CDN, SHA-256 and the attachment cipher are operations of \<open>download_env\<close>.
\<close>

section \<open>Reading with progress\<close>

datatype attachment_progress =
    AttachmentDownloading u64 "u64 option"
  | AttachmentProcessing u64 "u64 option"

definition ATTACHMENT_DOWNLOAD_CHUNK_SIZE :: nat where "ATTACHMENT_DOWNLOAD_CHUNK_SIZE = 64 * 1024"

text \<open>
  The loop, with what was read and announced so far. A read of no byte ends it; a total that turns out
  too small is forgotten. The result comes with the progress still to be reported.
\<close>

fun read_loop ::
  "(string + bytes) list \<Rightarrow> bytes \<Rightarrow> u64 \<Rightarrow> u64 option \<Rightarrow> (string + bytes) \<times> attachment_progress list" where
  "read_loop [] ciphertext downloaded expected_len = (Inr ciphertext, [AttachmentProcessing downloaded expected_len])"
| "read_loop (Inl e # reads) ciphertext downloaded expected_len = (Inl e, [])"
| "read_loop (Inr buffer # reads) ciphertext downloaded expected_len =
     (if buffer = [] then (Inr ciphertext, [AttachmentProcessing downloaded expected_len])
      else
        let downloaded' = downloaded + of_nat (length buffer);
            expected_len' = (case expected_len of Some t \<Rightarrow> if downloaded' > t then None else Some t | None \<Rightarrow> None);
            (r, ps) = read_loop reads (ciphertext @ buffer) downloaded' expected_len'
        in (r, AttachmentDownloading downloaded' expected_len' # ps))"

definition read_attachment_with_progress ::
  "(string + bytes) list \<Rightarrow> u64 option \<Rightarrow> (string + bytes) \<times> attachment_progress list" where
  "read_attachment_with_progress reads expected_len =
     (let (r, ps) = read_loop reads [] 0 expected_len in (r, AttachmentDownloading 0 expected_len # ps))"

section \<open>Attachments\<close>

text \<open>What an upload tells of an attachment beside its bytes.\<close>

record attachment_spec =
  as_content_type :: string
  as_length :: nat
  as_file_name :: "string option"
  as_preview :: "bytes option"
  as_voice_note :: "bool option"
  as_borderless :: "bool option"
  as_width :: "u32 option"
  as_height :: "u32 option"
  as_caption :: "string option"
  as_blur_hash :: "string option"

record ('w, 'e) download_env =
  dl_get_attachment :: "attachment_pointer \<Rightarrow> ('w, 'e error, (string + bytes) list \<times> u64 option) io"
  dl_progress :: "attachment_progress \<Rightarrow> 'w \<Rightarrow> 'w"
  dl_sha256 :: "bytes \<Rightarrow> bytes"
  dl_decrypt :: "bytes \<Rightarrow> bytes \<Rightarrow> string + bytes"
  dl_derive_key :: "bytes \<Rightarrow> 'e error + bytes"
  dl_hex :: "bytes \<Rightarrow> string"
  dl_unidentified_websocket :: "('w, 'e error, unit) io"
  dl_get_sticker :: "string \<Rightarrow> u32 \<Rightarrow> ('w, 'e error, string + bytes) io"
  dl_get_sticker_manifest :: "string \<Rightarrow> ('w, 'e error, string + bytes) io"
  dl_decode_pack :: "bytes \<Rightarrow> string + proto_pack"
  dl_new_sender :: "('w, 'e error, unit) io"
  dl_upload :: "attachment_spec \<Rightarrow> bytes \<Rightarrow> ('w, string, attachment_pointer) io"

definition report_progress :: "('w, 'e) download_env \<Rightarrow> attachment_progress list \<Rightarrow> ('w, 'f, unit) io" where
  "report_progress E ps = call (\<lambda>w. ((), fold (dl_progress E) ps w))"

text \<open>The steps after the download: digest, key, cipher, padding.\<close>

definition open_attachment :: "('w, 'e) download_env \<Rightarrow> attachment_pointer \<Rightarrow> bytes \<Rightarrow> 'e error + bytes" where
  "open_attachment E p ciphertext =
     (if (case ap_digest p of Some expected \<Rightarrow> dl_sha256 E ciphertext \<noteq> expected | None \<Rightarrow> False)
      then Inl UnexpectedAttachmentChecksum
      else
        let key = opt_or [] (ap_key p) in
        if length key \<noteq> 64 then Inl TryFromSliceError
        else
          (case dl_decrypt E key ciphertext of
             Inl e \<Rightarrow> Inl (AttachmentCipherError e)
           | Inr plain \<Rightarrow>
               Inr (case ap_size p of
                      Some len \<Rightarrow> if unat len < length plain then take (unat len) plain else plain
                    | None \<Rightarrow> plain)))"

definition get_attachment_with_progress ::
  "('w, 'e) download_env \<Rightarrow> attachment_pointer \<Rightarrow> ('w, 'e error, bytes) io" where
  "get_attachment_with_progress E p =
     bindE (dl_get_attachment E p) (\<lambda>(reads, content_length).
       let (r, ps) = read_attachment_with_progress reads content_length in
       thenE (report_progress E ps)
      (case r of
         Inl e \<Rightarrow> err (IoError e)
       | Inr ciphertext \<Rightarrow> lift_res (open_attachment E p ciphertext)))"

definition get_attachment :: "('w, 'e) download_env \<Rightarrow> attachment_pointer \<Rightarrow> ('w, 'e error, bytes) io" where
  "get_attachment E p = get_attachment_with_progress (E\<lparr>dl_progress := (\<lambda>_ w. w)\<rparr>) p"

section \<open>Stickers\<close>

definition decrypt_sticker_data ::
  "('w, 'e) download_env \<Rightarrow> bytes \<Rightarrow> string + bytes \<Rightarrow> 'e error + bytes" where
  "decrypt_sticker_data E key body =
     (case body of
        Inl e \<Rightarrow> Inl (IoError e)
      | Inr ciphertext \<Rightarrow>
          (case dl_decrypt E key ciphertext of Inl e \<Rightarrow> Inl (AttachmentCipherError e) | Inr plain \<Rightarrow> Inr plain))"

definition fetch_sticker :: "('w, 'e) download_env \<Rightarrow> bytes \<Rightarrow> bytes \<Rightarrow> u32 \<Rightarrow> ('w, 'e error, bytes) io" where
  "fetch_sticker E pack_id pack_key sticker_id =
     bindE (lift_res (dl_derive_key E pack_key)) (\<lambda>key.
     bindE (dl_get_sticker E (dl_hex E pack_id) sticker_id) (\<lambda>body.
       lift_res (decrypt_sticker_data E key body)))"

definition fetch_sticker_pack_manifest ::
  "('w, 'e) download_env \<Rightarrow> bytes \<Rightarrow> bytes \<Rightarrow> ('w, 'e error, sticker_pack_manifest) io" where
  "fetch_sticker_pack_manifest E pack_id pack_key =
     bindE (lift_res (dl_derive_key E pack_key)) (\<lambda>key.
     bindE (dl_get_sticker_manifest E (dl_hex E pack_id)) (\<lambda>body.
     bindE (lift_res (decrypt_sticker_data E key body)) (\<lambda>plain.
       case dl_decode_pack E plain of
         Inl e \<Rightarrow> err (ProvisioningError e)
       | Inr pack \<Rightarrow> ok (sticker_pack_manifest_from pack))))"

definition download_sticker :: "('w, 'e) download_env \<Rightarrow> bytes \<Rightarrow> bytes \<Rightarrow> u32 \<Rightarrow> ('w, 'e error, bytes) io" where
  "download_sticker E pack_id pack_key sticker_id =
     thenE (dl_unidentified_websocket E) (fetch_sticker E pack_id pack_key sticker_id)"

definition manager_sticker_pack_manifest ::
  "('w, 'e) download_env \<Rightarrow> bytes \<Rightarrow> bytes \<Rightarrow> ('w, 'e error, sticker_pack_manifest) io" where
  "manager_sticker_pack_manifest E pack_id pack_key =
     thenE (dl_unidentified_websocket E) (fetch_sticker_pack_manifest E pack_id pack_key)"

definition sticker_metadata ::
  "('w, 'e) store_ops \<Rightarrow> bytes \<Rightarrow> u32 \<Rightarrow> ('w, 'e error, sticker option) io" where
  "sticker_metadata S pack_id sticker_id =
     bindE (map_err StoreError (stored_sticker_pack S pack_id)) (\<lambda>pack.
       ok (Option.bind pack (\<lambda>p. find (\<lambda>s. sk_id s = sticker_id) (sk_stickers (sk_manifest p)))))"

section \<open>Uploads\<close>

text \<open>Each attachment has a result of its own; the error of the whole is that of the sender.\<close>

definition upload_attachment ::
  "('w, 'e) download_env \<Rightarrow> attachment_spec \<Rightarrow> bytes \<Rightarrow> ('w, 'e error, string + attachment_pointer) io" where
  "upload_attachment E spec contents =
     thenE (dl_new_sender E) (call (dl_upload E spec contents))"

definition upload_attachments ::
  "('w, 'e) download_env \<Rightarrow> (attachment_spec \<times> bytes) list \<Rightarrow> ('w, 'e error, (string + attachment_pointer) list) io" where
  "upload_attachments E attachments =
     (if attachments = [] then ok []
      else thenE (dl_new_sender E)
        (call (run_all (map (\<lambda>(spec, contents). dl_upload E spec contents) attachments))))"

end
