(* ===== verification/Cli_Print.thy ===== *)
theory Cli_Print
  imports Receive Sending Downloads
begin

text \<open>
  What the command-line client (\<open>presage-cli/src/main.rs\<close>) does with messages: the text it shows for one,
  the attachments it writes to disk, and its loop over the stream of a manager. The terminal, the
  desktop's notifications and the file system are operations of \<open>cli_env\<close>; an \<open>expect\<close> or \<open>unwrap\<close> that
  does not hold ends the process and is the failure \<open>Panicked\<close>. What is logged is left out.
\<close>

section \<open>The terminal\<close>

datatype 'e failure = Failed "'e error" | Bail string | Panicked string

record ('w, 'e) cli_env =
  ci_receive :: "('w, 'e) receive_env"
  ci_downloads :: "('w, 'e) download_env"
  ci_println :: "string \<Rightarrow> 'w \<Rightarrow> 'w"
  ci_notify :: "string \<Rightarrow> string \<Rightarrow> 'w \<Rightarrow> 'w"
  ci_debug_story :: "group_context option \<Rightarrow> bytes \<Rightarrow> string"
  ci_debug_sender :: "service_id \<Rightarrow> string"
  ci_mime_extension :: "string \<Rightarrow> string option"
  ci_time_name :: "'w \<Rightarrow> string \<times> 'w"
  ci_write_file :: "string \<Rightarrow> bytes \<Rightarrow> 'w \<Rightarrow> 'w"

abbreviation ci_messages :: "('w, 'e) cli_env \<Rightarrow> ('w, 'e) message_env" where
  "ci_messages C \<equiv> re_messages (ci_receive C)"

abbreviation ci_store :: "('w, 'e) cli_env \<Rightarrow> ('w, 'e) store_ops" where
  "ci_store C \<equiv> mv_store (ci_messages C)"

abbreviation ci_id :: "('w, 'e) cli_env \<Rightarrow> service_id \<Rightarrow> string" where
  "ci_id C \<equiv> service_id_string (ae_codec (mv_account (ci_messages C)))"

definition println :: "('w, 'e) cli_env \<Rightarrow> string \<Rightarrow> ('w, 'f, unit) io" where
  "println C line = call (\<lambda>w. ((), ci_println C line w))"

text \<open>\<open>Display\<close> of an unsigned integer and \<open>Debug\<close> of a list of them.\<close>

fun show_nat :: "nat \<Rightarrow> string" where
  "show_nat n = (if n < 10 then [char_of (48 + n)] else show_nat (n div 10) @ [char_of (48 + n mod 10)])"

declare show_nat.simps [simp del]

definition show_u64 :: "u64 \<Rightarrow> string" where "show_u64 x = show_nat (unat x)"

fun separated :: "string \<Rightarrow> string list \<Rightarrow> string" where
  "separated sep [] = []"
| "separated sep [x] = x"
| "separated sep (x # y # xs) = x @ sep @ separated sep (y # xs)"

definition show_u64s :: "u64 list \<Rightarrow> string" where
  "show_u64s xs = ''['' @ separated '', '' (map show_u64 xs) @ '']''"

definition quoted :: "string \<Rightarrow> string" where "quoted s = CHR 0x22 # s @ [CHR 0x22]"

section \<open>The text of a message\<close>

definition or_none :: "string option \<Rightarrow> string" where "or_none = opt_or ''None''"

text \<open>The link previews, numbered from one.\<close>

definition preview_line :: "nat \<times> message_preview \<Rightarrow> string" where
  "preview_line = (\<lambda>(i, p).
     [CHR 0x0A] @ ''(link #'' @ show_nat (i + 1) @ '') url: '' @ or_none (mp_url p) @
     ''; title: '' @ or_none (mp_title p) @ ''; description: '' @ or_none (mp_description p) @
     ''; date: '' @ or_none (map_option show_u64 (mp_date p)) @ ''; '')"

definition preview_appendix :: "data_message \<Rightarrow> string" where
  "preview_appendix d =
     (if dm_preview d = [] then []
      else [CHR 0x0A] @ ''Link previews:'' @
        concat (map preview_line (zip [0..<length (dm_preview d)] (dm_preview d))))"

definition format_data_message ::
  "('w, 'e) cli_env \<Rightarrow> thread \<Rightarrow> data_message \<Rightarrow> ('w, 'f, string option) io" where
  "format_data_message C t d =
     (let quoted_text = Option.bind (dm_quote d) mq_text;
          target = Option.bind (dm_reaction d) (\<lambda>r.
            case (mr_target_sent_timestamp r, mr_emoji r) of (Some ts, Some e) \<Rightarrow> Some (ts, e) | _ \<Rightarrow> None) in
      case (quoted_text, dm_body d) of
        (Some q, Some body) \<Rightarrow>
          ok (Some (''Answer to message '' @ quoted q @ '': '' @ body @ preview_appendix d))
      | _ \<Rightarrow>
          (case target of
             Some (ts, emoji) \<Rightarrow>
               attempt (load_message (ci_store C) t ts) (\<lambda>r. ok (
                 case r of
                   Inr (Some m) \<Rightarrow>
                     (case ct_body m of
                        DataMessage reacted_to \<Rightarrow>
                          map_option (\<lambda>body. ''Reacted with '' @ emoji @ '' to message: '' @ quoted body)
                            (dm_body reacted_to)
                      | _ \<Rightarrow> None)
                 | _ \<Rightarrow> None))
           | None \<Rightarrow>
               (case dm_body d of
                  Some body \<Rightarrow> ok (Some (body @ preview_appendix d))
                | None \<Rightarrow> ok (Some ''Empty data message''))))"

definition format_contact :: "('w, 'e) cli_env \<Rightarrow> service_id \<Rightarrow> ('w, 'f, string) io" where
  "format_contact C sid =
     attempt (contact_by_id (ci_store C) sid) (\<lambda>r. ok (
       case r of
         Inr (Some c) \<Rightarrow> if c_name c = [] then ci_id C sid else c_name c @ '': '' @ ci_id C sid
       | _ \<Rightarrow> ci_id C sid))"

definition format_group :: "('w, 'e) cli_env \<Rightarrow> key32 \<Rightarrow> ('w, 'f, string) io" where
  "format_group C mk =
     attempt (load_group (ci_store C) mk) (\<lambda>r. ok (
       case r of
         Inr (Some g) \<Rightarrow> opt_or ''<no title>'' (g_title g)
       | _ \<Rightarrow> ''<missing group>''))"

section \<open>Showing a message\<close>

datatype cli_msg = MsgReceived thread string | MsgSent thread string

text \<open>\<open>receipt_message::Type::try_from\<close> and its \<open>Debug\<close>; a number it does not know panics.\<close>

definition receipt_type_name :: "int \<Rightarrow> string option" where
  "receipt_type_name i =
     (if i = 0 then Some ''Delivery'' else if i = 1 then Some ''Read'' else if i = 2 then Some ''Viewed'' else None)"

definition shown_data_message ::
  "('w, 'e) cli_env \<Rightarrow> (thread \<Rightarrow> string \<Rightarrow> cli_msg) \<Rightarrow> thread \<Rightarrow> data_message \<Rightarrow>
   ('w, 'e failure, cli_msg option) io" where
  "shown_data_message C msg t d =
     bindE (format_data_message C t d) (\<lambda>text. ok (map_option (msg t) text))"

definition message_shown ::
  "('w, 'e) cli_env \<Rightarrow> thread \<Rightarrow> content_body \<Rightarrow> ('w, 'e failure, cli_msg option) io" where
  "message_shown C t b =
     (case b of
        NullMessage \<Rightarrow> ok (Some (MsgReceived t ''Null message (for example deleted)''))
      | DataMessage d \<Rightarrow> shown_data_message C MsgReceived t d
      | EditMessage e \<Rightarrow>
          (case em_data_message e of Some d \<Rightarrow> shown_data_message C MsgReceived t d | None \<Rightarrow> ok None)
      | SynchronizeMessage (Some (SyncSent s)) _ \<Rightarrow>
          (case sent_message s of
             Some d \<Rightarrow> shown_data_message C MsgSent t d
           | None \<Rightarrow>
               (case Option.bind (sent_edit_message s) em_data_message of
                  Some d \<Rightarrow> shown_data_message C MsgSent t d
                | None \<Rightarrow> ok None))
      | SynchronizeMessage _ _ \<Rightarrow> ok None
      | CallMessage \<Rightarrow> ok (Some (MsgReceived t ''is calling!''))
      | TypingMessage \<Rightarrow> ok (Some (MsgReceived t ''is typing...''))
      | ReceiptMessage receipt_type timestamp \<Rightarrow>
          (case receipt_type_name (opt_or 0 receipt_type) of
             Some name \<Rightarrow> ok (Some (MsgReceived t
               (''got '' @ name @ '' receipt for messages sent at '' @ show_u64s timestamp)))
           | None \<Rightarrow> err (Panicked ''UnknownEnumValue''))
      | StoryMessage g rest \<Rightarrow> ok (Some (MsgReceived t (''new story: '' @ ci_debug_story C g rest)))
      | DecryptionErrorMessage \<Rightarrow> ok (Some (MsgReceived t ''failed to decrypt a messagee'')))"

text \<open>The heading of a message and its text.\<close>

definition message_heading ::
  "('w, 'e) cli_env \<Rightarrow> content \<Rightarrow> cli_msg \<Rightarrow> ('w, 'e failure, string \<times> string) io" where
  "message_heading C c msg =
     (let ts = show_u64 (content_timestamp c) in
      case msg of
        MsgReceived (ContactThread sender) body \<Rightarrow>
          bindE (format_contact C sender) (\<lambda>contact. ok (''From '' @ contact @ '' @ '' @ ts @ '': '', body))
      | MsgSent (ContactThread recipient) body \<Rightarrow>
          bindE (format_contact C recipient) (\<lambda>contact. ok (''To '' @ contact @ '' @ '' @ ts, body))
      | MsgReceived (GroupThread key) body \<Rightarrow>
          bindE (format_contact C (md_sender (ct_metadata c))) (\<lambda>sender.
          bindE (format_group C key) (\<lambda>group.
            ok (''From '' @ sender @ '' to group '' @ group @ '' @ '' @ ts @ '': '', body)))
      | MsgSent (GroupThread key) body \<Rightarrow>
          bindE (format_group C key) (\<lambda>group. ok (''To group '' @ group @ '' @ '' @ ts, body)))"

definition print_message ::
  "('w, 'e) cli_env \<Rightarrow> bool \<Rightarrow> content \<Rightarrow> ('w, 'e failure, unit) io" where
  "print_message C notifications c =
     (case thread_try_from (mv_parse_dest (ci_messages C)) c of
        Inl _ \<Rightarrow> ok ()
      | Inr t \<Rightarrow>
          bindE (message_shown C t (ct_body c)) (\<lambda>msg.
            case msg of
              None \<Rightarrow> ok ()
            | Some m \<Rightarrow>
                bindE (message_heading C c m) (\<lambda>(prefix, body).
                thenE (println C (prefix @ '' / '' @ body))
                  (if notifications then call (\<lambda>w. ((), ci_notify C prefix body w)) else ok ()))))"

section \<open>Attachments\<close>

text \<open>The name under the temporary directory; a file that cannot be written is logged.\<close>

definition save_attachment ::
  "('w, 'e) cli_env \<Rightarrow> attachment_pointer \<Rightarrow> ('w, 'e failure, unit) io" where
  "save_attachment C p =
     attempt (get_attachment (ci_downloads C) p) (\<lambda>r.
       case r of
         Inl _ \<Rightarrow> ok ()
       | Inr contents \<Rightarrow>
           let extension = opt_or ''bin''
                 (ci_mime_extension C (opt_or ''application/octet-stream'' (ap_content_type p))) in
           bindE (case ap_file_name p of Some name \<Rightarrow> ok name | None \<Rightarrow> call (ci_time_name C)) (\<lambda>filename.
             call (\<lambda>w. ((), ci_write_file C (''presage-'' @ filename @ ''.'' @ extension) contents w))))"

definition process_incoming_message ::
  "('w, 'e) cli_env \<Rightarrow> bool \<Rightarrow> content \<Rightarrow> ('w, 'e failure, unit) io" where
  "process_incoming_message C notifications c =
     thenE (print_message C notifications c)
       (case ct_body c of
          DataMessage d \<Rightarrow> for_each (dm_attachments d) (save_attachment C)
        | _ \<Rightarrow> ok ())"

section \<open>The loop of the sync command\<close>

text \<open>What one value of the stream does; \<open>True\<close> ends the loop. \<open>reason\<close> shows why a socket was closed.\<close>

definition handle_received ::
  "('w, 'e) cli_env \<Rightarrow> ('r \<Rightarrow> string) \<Rightarrow> bool \<Rightarrow> bool \<Rightarrow> 'r received \<Rightarrow> ('w, 'e failure, bool) io" where
  "handle_received C reason notifications stop_after_empty_queue x =
     (case x of
        QueueEmpty \<Rightarrow> thenE (println C ''done with synchronization'') (ok stop_after_empty_queue)
      | Contacts \<Rightarrow> thenE (println C ''got contacts synchronization'') (ok False)
      | Content c \<Rightarrow> thenE (process_incoming_message C notifications c) (ok False)
      | DecryptionError sender _ _ _ \<Rightarrow>
          thenE (println C (''failed to receive a message from a contact: '' @ ci_debug_sender C sender)) (ok False)
      | PeerDecryptionError sender \<Rightarrow>
          thenE (println C (''a contact could not decrypt a message we sent: '' @ ci_debug_sender C sender)) (ok False)
      | Disconnected r \<Rightarrow> thenE (println C (''disconnected: '' @ reason r)) (ok False))"

text \<open>The manager's stream is polled once per turn; between two turns the client acts on the same world.\<close>

function receive_loop ::
  "('w, 'e) cli_env \<Rightarrow> ('r \<Rightarrow> string) \<Rightarrow> bool \<Rightarrow> bool \<Rightarrow> 'r incoming list \<Rightarrow>
   (receive_state \<times> 'w, 'e failure, unit) io" where
  "receive_loop C reason notifications stop evs s =
     (case next_received (ci_receive C) evs s of
        (None, s') \<Rightarrow> (Inr (), s')
      | (Some (x, rest), (g, w)) \<Rightarrow>
          (case handle_received C reason notifications stop x w of
             (Inl e, w') \<Rightarrow> (Inl e, (g, w'))
           | (Inr ended, w') \<Rightarrow>
               if ended then (Inr (), (g, w'))
               else receive_loop C reason notifications stop rest (g, w')))"
  by pat_completeness auto
termination
  by (relation "measure (\<lambda>(C, reason, n, stop, evs, s). length evs)") (auto dest: next_received_shrinks [OF sym])

declare receive_loop.simps [simp del]

section \<open>Sending\<close>

datatype recipient = RecipientContact uuid | RecipientGroup key32

definition cli_send ::
  "('w, 'e) cli_env \<Rightarrow> recipient \<Rightarrow> content_body \<Rightarrow> ('w, 'e failure, unit) io" where
  "cli_send C recipient msg =
     bindE (call (ae_now_ms (mv_account (ci_messages C)))) (\<lambda>timestamp.
       let body = (case msg of DataMessage d \<Rightarrow> DataMessage (d\<lparr>dm_timestamp := Some timestamp\<rparr>) | _ \<Rightarrow> msg) in
       thenE (case recipient of
                RecipientContact u \<Rightarrow>
                  map_err (\<lambda>_. Panicked ''failed to send message'')
                    (send_message (ci_messages C) (Aci u) body timestamp)
              | RecipientGroup mk \<Rightarrow>
                  map_err (\<lambda>_. Panicked ''failed to send message to group!'')
                    (send_message_to_group (ci_messages C) mk body timestamp))
         (println C ''message sent!''))"

end
