(* ===== verification/Sqlite_Protocol.thy ===== *)
theory Sqlite_Protocol
  imports Sqlite_Content "HOL-Library.AList"
begin

text \<open>
  \<open>presage-store-sqlite/src/protocol.rs\<close>: the tables of the Signal protocol, for the account's two
  identities. A table is the list of its rows, the columns of the primary key in front:
  \<open>AList.update\<close> is \<open>UPDATE\<close>, and \<open>INSERT\<close> where no row matched, which is also
  \<open>INSERT .. ON CONFLICT DO UPDATE\<close>. An operation that fails leaves the database as it was (its
  transaction is dropped).

  libsignal's records are opaque: \<open>rec_codec\<close> is the pair of their \<open>serialize\<close> and \<open>deserialize\<close>.
\<close>

section \<open>Tables\<close>

datatype identity_type = AciIdentity | PniIdentity

fun identity_key_pair_key :: "identity_type \<Rightarrow> string" where
  "identity_key_pair_key AciIdentity = ''identity_keypair_aci''"
| "identity_key_pair_key PniIdentity = ''identity_keypair_pni''"

datatype protocol_error = InvalidState | InvalidMessage string | BadRecord string | Unimplemented

datatype on_new_identity = RejectNew | TrustNew

datatype identity_change = NewOrUnchanged | ReplacedExisting

text \<open>\<open>ProtocolAddress\<close>: a name and a device.\<close>

type_synonym address = "string \<times> u8"

record 'r rec_codec =
  rec_serialize :: "'r \<Rightarrow> protocol_error + bytes"
  rec_deserialize :: "bytes \<Rightarrow> protocol_error + 'r"

record kyber_row =
  ky_record :: bytes
  ky_last_resort :: bool

record protocol_db =
  pr_content :: sqlite_db
  pr_sessions :: "((address \<times> identity_type) \<times> bytes) list"
  pr_identities :: "((string \<times> identity_type) \<times> bytes) list"
  pr_pre_keys :: "((u32 \<times> identity_type) \<times> bytes) list"
  pr_signed_pre_keys :: "((u32 \<times> identity_type) \<times> bytes) list"
  pr_kyber_pre_keys :: "((u32 \<times> identity_type) \<times> kyber_row) list"
  pr_base_keys_seen :: "(identity_type \<times> u32 \<times> u32 \<times> bytes) list"
  pr_sender_keys :: "((address \<times> identity_type \<times> uuid) \<times> bytes) list"

type_synonym 'a proto = "(protocol_db, protocol_error, 'a) io"

definition protocol_empty :: protocol_db where
  "protocol_empty =
     \<lparr>pr_content = sqlite_empty, pr_sessions = [], pr_identities = [], pr_pre_keys = [],
      pr_signed_pre_keys = [], pr_kyber_pre_keys = [], pr_base_keys_seen = [], pr_sender_keys = []\<rparr>"

definition pr_query :: "(protocol_db \<Rightarrow> protocol_error + 'a) \<Rightarrow> 'a proto" where
  [io_simps]: "pr_query f db = (f db, db)"

definition pr_execute :: "(protocol_db \<Rightarrow> protocol_db) \<Rightarrow> unit proto" where
  [io_simps]: "pr_execute f db = (Inr (), f db)"

text \<open>\<open>fetch_optional .. map(deserialize).transpose()\<close> and \<open>fetch_one\<close>, which fails on no row.\<close>

definition fetch_optional :: "'r rec_codec \<Rightarrow> bytes option \<Rightarrow> protocol_error + 'r option" where
  "fetch_optional C row =
     (case row of None \<Rightarrow> Inr None | Some bs \<Rightarrow> res_map Some (rec_deserialize C bs))"

definition fetch_one :: "'r rec_codec \<Rightarrow> bytes option \<Rightarrow> protocol_error + 'r" where
  "fetch_one C row = res_bind (ok_or InvalidState row) (rec_deserialize C)"

section \<open>Sessions\<close>

definition load_session :: "'r rec_codec \<Rightarrow> identity_type \<Rightarrow> address \<Rightarrow> 'r option proto" where
  "load_session C i a = pr_query (\<lambda>db. fetch_optional C (map_of (pr_sessions db) (a, i)))"

definition store_session :: "'r rec_codec \<Rightarrow> identity_type \<Rightarrow> address \<Rightarrow> 'r \<Rightarrow> unit proto" where
  "store_session C i a r =
     bindE (lift_res (rec_serialize C r)) (\<lambda>bs.
       pr_execute (\<lambda>db. db\<lparr>pr_sessions := AList.update (a, i) bs (pr_sessions db)\<rparr>))"

text \<open>\<open>DEFAULT_DEVICE_ID\<close> and the range of a \<open>DeviceId\<close> are libsignal's: 1, and 1 to 127.\<close>

definition DEFAULT_DEVICE_ID :: u8 where "DEFAULT_DEVICE_ID = 1"

definition device_id_in_range :: "u8 \<Rightarrow> bool" where
  "device_id_in_range d \<longleftrightarrow> 1 \<le> d \<and> d \<le> 127"

definition get_sub_device_sessions :: "identity_type \<Rightarrow> string \<Rightarrow> u8 list proto" where
  "get_sub_device_sessions i name =
     pr_query (\<lambda>db. Inr (filter device_id_in_range
       (map (\<lambda>(((_, d), _), _). d)
         (filter (\<lambda>(((n, d), j), _). n = name \<and> d \<noteq> DEFAULT_DEVICE_ID \<and> j = i) (pr_sessions db)))))"

definition delete_session :: "identity_type \<Rightarrow> address \<Rightarrow> unit proto" where
  "delete_session i a = pr_execute (\<lambda>db. db\<lparr>pr_sessions := AList.delete (a, i) (pr_sessions db)\<rparr>)"

definition delete_all_sessions :: "identity_type \<Rightarrow> string \<Rightarrow> nat proto" where
  "delete_all_sessions i name db =
     (let gone = (\<lambda>(((n, _), j), _). n = name \<and> j = i) in
      (Inr (length (filter gone (pr_sessions db))),
       db\<lparr>pr_sessions := filter (\<lambda>r. \<not> gone r) (pr_sessions db)\<rparr>))"

section \<open>Pre-keys\<close>

definition get_pre_key :: "'r rec_codec \<Rightarrow> identity_type \<Rightarrow> u32 \<Rightarrow> 'r proto" where
  "get_pre_key C i k = pr_query (\<lambda>db. fetch_one C (map_of (pr_pre_keys db) (k, i)))"

definition save_pre_key :: "'r rec_codec \<Rightarrow> identity_type \<Rightarrow> u32 \<Rightarrow> 'r \<Rightarrow> unit proto" where
  "save_pre_key C i k r =
     bindE (lift_res (rec_serialize C r)) (\<lambda>bs.
       pr_execute (\<lambda>db. db\<lparr>pr_pre_keys := AList.update (k, i) bs (pr_pre_keys db)\<rparr>))"

definition remove_pre_key :: "identity_type \<Rightarrow> u32 \<Rightarrow> unit proto" where
  "remove_pre_key i k = pr_execute (\<lambda>db. db\<lparr>pr_pre_keys := AList.delete (k, i) (pr_pre_keys db)\<rparr>)"

text \<open>\<open>SELECT MAX(id) .. WHERE identity = ?\<close>\<close>

definition ids_of :: "identity_type \<Rightarrow> ((u32 \<times> identity_type) \<times> 'v) list \<Rightarrow> u32 list" where
  "ids_of i t = map (\<lambda>((k, _), _). k) (filter (\<lambda>((_, j), _). j = i) t)"

definition max_id :: "identity_type \<Rightarrow> ((u32 \<times> identity_type) \<times> 'v) list \<Rightarrow> u32 option" where
  "max_id i t = (case ids_of i t of [] \<Rightarrow> None | k # ks \<Rightarrow> Some (fold max ks k))"

text \<open>\<open>max_id.map(|id| id + 1).unwrap_or(1)\<close>, wrapping as a release build does.\<close>

definition next_id :: "u32 option \<Rightarrow> u32" where
  "next_id m = (case m of None \<Rightarrow> 1 | Some k \<Rightarrow> k + 1)"

definition next_pre_key_id :: "identity_type \<Rightarrow> u32 proto" where
  "next_pre_key_id i = pr_query (\<lambda>db. Inr (next_id (max_id i (pr_pre_keys db))))"

definition next_signed_pre_key_id :: "identity_type \<Rightarrow> u32 proto" where
  "next_signed_pre_key_id i = pr_query (\<lambda>db. Inr (next_id (max_id i (pr_signed_pre_keys db))))"

definition next_pq_pre_key_id :: "identity_type \<Rightarrow> u32 proto" where
  "next_pq_pre_key_id i = pr_query (\<lambda>db. Inr (next_id (max_id i (pr_kyber_pre_keys db))))"

definition signed_pre_keys_count :: "identity_type \<Rightarrow> nat proto" where
  "signed_pre_keys_count i = pr_query (\<lambda>db. Inr (length (ids_of i (pr_signed_pre_keys db))))"

definition kyber_pre_keys_count :: "identity_type \<Rightarrow> bool \<Rightarrow> nat proto" where
  "kyber_pre_keys_count i last_resort = pr_query (\<lambda>db. Inr (length (ids_of i (pr_kyber_pre_keys db))))"

definition signed_prekey_id :: "identity_type \<Rightarrow> u32 option proto" where
  "signed_prekey_id i = pr_query (\<lambda>db. Inr (max_id i (pr_signed_pre_keys db)))"

definition last_resort_rows :: "protocol_db \<Rightarrow> ((u32 \<times> identity_type) \<times> kyber_row) list" where
  "last_resort_rows db = filter (\<lambda>(_, r). ky_last_resort r) (pr_kyber_pre_keys db)"

definition last_resort_kyber_prekey_id :: "identity_type \<Rightarrow> u32 option proto" where
  "last_resort_kyber_prekey_id i = pr_query (\<lambda>db. Inr (max_id i (last_resort_rows db)))"

definition get_signed_pre_key :: "'r rec_codec \<Rightarrow> identity_type \<Rightarrow> u32 \<Rightarrow> 'r proto" where
  "get_signed_pre_key C i k = pr_query (\<lambda>db. fetch_one C (map_of (pr_signed_pre_keys db) (k, i)))"

definition save_signed_pre_key :: "'r rec_codec \<Rightarrow> identity_type \<Rightarrow> u32 \<Rightarrow> 'r \<Rightarrow> unit proto" where
  "save_signed_pre_key C i k r =
     bindE (lift_res (rec_serialize C r)) (\<lambda>bs.
       pr_execute (\<lambda>db. db\<lparr>pr_signed_pre_keys := AList.update (k, i) bs (pr_signed_pre_keys db)\<rparr>))"

section \<open>Kyber pre-keys\<close>

definition get_kyber_pre_key :: "'r rec_codec \<Rightarrow> identity_type \<Rightarrow> u32 \<Rightarrow> 'r proto" where
  "get_kyber_pre_key C i k =
     pr_query (\<lambda>db. fetch_one C (map_option ky_record (map_of (pr_kyber_pre_keys db) (k, i))))"

text \<open>The column \<open>is_last_resort\<close> defaults to 0, and an update leaves it as it is.\<close>

definition save_kyber_pre_key :: "'r rec_codec \<Rightarrow> identity_type \<Rightarrow> u32 \<Rightarrow> 'r \<Rightarrow> unit proto" where
  "save_kyber_pre_key C i k r =
     bindE (lift_res (rec_serialize C r)) (\<lambda>bs.
       pr_execute (\<lambda>db.
         let last_resort = (case map_of (pr_kyber_pre_keys db) (k, i) of
                              None \<Rightarrow> False | Some row \<Rightarrow> ky_last_resort row) in
         db\<lparr>pr_kyber_pre_keys := AList.update (k, i) \<lparr>ky_record = bs, ky_last_resort = last_resort\<rparr>
              (pr_kyber_pre_keys db)\<rparr>))"

definition store_last_resort_kyber_pre_key ::
  "'r rec_codec \<Rightarrow> identity_type \<Rightarrow> u32 \<Rightarrow> 'r \<Rightarrow> unit proto" where
  "store_last_resort_kyber_pre_key C i k r =
     bindE (lift_res (rec_serialize C r)) (\<lambda>bs.
       pr_execute (\<lambda>db. db\<lparr>pr_kyber_pre_keys :=
         AList.update (k, i) \<lparr>ky_record = bs, ky_last_resort = True\<rparr> (pr_kyber_pre_keys db)\<rparr>))"

definition load_last_resort_kyber_pre_keys :: "'r rec_codec \<Rightarrow> identity_type \<Rightarrow> 'r list proto" where
  "load_last_resort_kyber_pre_keys C i =
     pr_query (\<lambda>db. res_collect (map (\<lambda>(_, r). rec_deserialize C (ky_record r))
       (filter (\<lambda>((_, j), _). j = i) (last_resort_rows db))))"

text \<open>Deleting a Kyber pre-key deletes the base keys seen with it (\<open>ON DELETE CASCADE\<close>).\<close>

definition drop_kyber :: "identity_type \<Rightarrow> u32 \<Rightarrow> protocol_db \<Rightarrow> protocol_db" where
  "drop_kyber i k db =
     db\<lparr>pr_kyber_pre_keys := AList.delete (k, i) (pr_kyber_pre_keys db),
        pr_base_keys_seen := filter (\<lambda>(j, kk, _, _). \<not> (j = i \<and> kk = k)) (pr_base_keys_seen db)\<rparr>"

definition remove_kyber_pre_key :: "identity_type \<Rightarrow> u32 \<Rightarrow> unit proto" where
  "remove_kyber_pre_key i k = pr_execute (drop_kyber i k)"

text \<open>
  A one-time key is deleted. For a last-resort key the base key is recorded; its primary key
  refuses one already seen and its foreign key a signed pre-key that is not stored.
\<close>

definition mark_kyber_pre_key_used :: "identity_type \<Rightarrow> u32 \<Rightarrow> u32 \<Rightarrow> bytes \<Rightarrow> unit proto" where
  "mark_kyber_pre_key_used i k ec base_key db =
     (case map_of (pr_kyber_pre_keys db) (k, i) of
        None \<Rightarrow> (Inl InvalidState, db)
      | Some row \<Rightarrow>
          if ky_last_resort row then
            if (i, k, ec, base_key) \<in> set (pr_base_keys_seen db)
            then (Inl (InvalidMessage ''reused base key''), db)
            else if map_of (pr_signed_pre_keys db) (ec, i) = None then (Inl InvalidState, db)
            else (Inr (), db\<lparr>pr_base_keys_seen := pr_base_keys_seen db @ [(i, k, ec, base_key)]\<rparr>)
          else (Inr (), drop_kyber i k db))"

section \<open>Identities\<close>

definition get_identity_key_pair :: "'r rec_codec \<Rightarrow> identity_type \<Rightarrow> 'r proto" where
  "get_identity_key_pair C i =
     pr_query (\<lambda>db. fetch_one C (kv_get (identity_key_pair_key i) (pr_content db)))"

definition save_identity :: "'r rec_codec \<Rightarrow> identity_type \<Rightarrow> address \<Rightarrow> 'r \<Rightarrow> identity_change proto" where
  "save_identity C i a r =
     bindE (lift_res (rec_serialize C r)) (\<lambda>bs db.
       let is_replaced = map_of (pr_identities db) (fst a, i) \<noteq> None in
       (Inr (if is_replaced then ReplacedExisting else NewOrUnchanged),
        db\<lparr>pr_identities := AList.update (fst a, i) bs (pr_identities db)\<rparr>))"

definition get_identity :: "'r rec_codec \<Rightarrow> identity_type \<Rightarrow> address \<Rightarrow> 'r option proto" where
  "get_identity C i a = pr_query (\<lambda>db. fetch_optional C (map_of (pr_identities db) (fst a, i)))"

definition is_trusted_identity ::
  "'r rec_codec \<Rightarrow> on_new_identity \<Rightarrow> identity_type \<Rightarrow> address \<Rightarrow> 'r \<Rightarrow> bool proto" where
  "is_trusted_identity C trust_new_identities i a identity =
     bindE (get_identity C i a) (\<lambda>known.
       case known of
         Some trusted_key \<Rightarrow>
           if identity = trusted_key then ok True
           else (case trust_new_identities of TrustNew \<Rightarrow> ok True | RejectNew \<Rightarrow> ok False)
       | None \<Rightarrow> ok True)"

section \<open>Sender keys\<close>

definition store_sender_key ::
  "'r rec_codec \<Rightarrow> identity_type \<Rightarrow> address \<Rightarrow> uuid \<Rightarrow> 'r \<Rightarrow> unit proto" where
  "store_sender_key C i a distribution_id r =
     bindE (lift_res (rec_serialize C r)) (\<lambda>bs.
       pr_execute (\<lambda>db. db\<lparr>pr_sender_keys :=
         AList.update (a, i, distribution_id) bs (pr_sender_keys db)\<rparr>))"

definition load_sender_key ::
  "'r rec_codec \<Rightarrow> identity_type \<Rightarrow> address \<Rightarrow> uuid \<Rightarrow> 'r option proto" where
  "load_sender_key C i a distribution_id =
     pr_query (\<lambda>db. fetch_optional C (map_of (pr_sender_keys db) (a, i, distribution_id)))"

end
