(* ===== verification/Sqlite_State.thy ===== *)
theory Sqlite_State
  imports Sqlite_Protocol
begin

text \<open>
  The \<open>StateStore\<close> of \<open>presage-store-sqlite/src/lib.rs\<close>: single values under fixed keys of the table
  \<open>kv\<close>. The encodings of the values (JSON, libsignal's serializations, UTF-8 text) are codecs, which
  also say which error a value that does not decode becomes.
\<close>

section \<open>Values under a key\<close>

record 'v kv_codec =
  kv_encode :: "'v \<Rightarrow> sqlite_error + bytes"
  kv_decode :: "bytes \<Rightarrow> sqlite_error + 'v"

text \<open>\<open>SELECT value FROM kv WHERE key = ?\<close>, decoded; \<open>INSERT OR REPLACE\<close>; \<open>DELETE\<close>.\<close>

definition kv_fetch :: "'v kv_codec \<Rightarrow> string \<Rightarrow> 'v option sql" where
  "kv_fetch C k =
     query_sql (\<lambda>db.
       case kv_get k db of
         None \<Rightarrow> Inr None
       | Some bs \<Rightarrow> res_map Some (kv_decode C bs))"

definition kv_save :: "'v kv_codec \<Rightarrow> string \<Rightarrow> 'v \<Rightarrow> unit sql" where
  "kv_save C k v = bindE (lift_res (kv_encode C v)) (\<lambda>bs. execute_sql (kv_put k bs))"

definition kv_store :: "'v kv_codec \<Rightarrow> string \<Rightarrow> 'v option \<Rightarrow> unit sql" where
  "kv_store C k v = (case v of Some x \<Rightarrow> kv_save C k x | None \<Rightarrow> execute_sql (kv_remove k))"

section \<open>The state\<close>

definition load_registration_data :: "'v kv_codec \<Rightarrow> 'v option sql" where
  "load_registration_data C = kv_fetch C ''registration''"

definition save_registration_data :: "'v kv_codec \<Rightarrow> 'v \<Rightarrow> unit sql" where
  "save_registration_data C v = kv_save C ''registration'' v"

definition is_registered :: "'v kv_codec \<Rightarrow> sqlite_db \<Rightarrow> bool" where
  "is_registered C db =
     (case fst (load_registration_data C db) of Inr (Some _) \<Rightarrow> True | _ \<Rightarrow> False)"

definition set_identity_key_pair ::
  "'v kv_codec \<Rightarrow> identity_type \<Rightarrow> 'v \<Rightarrow> unit sql" where
  "set_identity_key_pair C i v = kv_save C (identity_key_pair_key i) v"

definition sender_certificate :: "'v kv_codec \<Rightarrow> 'v option sql" where
  "sender_certificate C = kv_fetch C ''sender_certificate''"

definition save_sender_certificate :: "'v kv_codec \<Rightarrow> 'v \<Rightarrow> unit sql" where
  "save_sender_certificate C v = kv_save C ''sender_certificate'' v"

definition fetch_master_key :: "'v kv_codec \<Rightarrow> 'v option sql" where
  "fetch_master_key C = kv_fetch C ''master_key''"

definition store_master_key :: "'v kv_codec \<Rightarrow> 'v option \<Rightarrow> unit sql" where
  "store_master_key C v = kv_store C ''master_key'' v"

definition fetch_account_entropy_pool :: "'v kv_codec \<Rightarrow> 'v option sql" where
  "fetch_account_entropy_pool C = kv_fetch C ''account_entropy_pool''"

definition store_account_entropy_pool :: "'v kv_codec \<Rightarrow> 'v option \<Rightarrow> unit sql" where
  "store_account_entropy_pool C v = kv_store C ''account_entropy_pool'' v"

text \<open>\<open>BackupKey\<close> is a \<open>[u8; 32]\<close>, written as it is.\<close>

definition backup_key_codec :: "key32 kv_codec" where
  "backup_key_codec =
     \<lparr>kv_encode = \<lambda>k. Inr (key32_bytes k), kv_decode = \<lambda>bs. ok_or Sq_InvalidFormat (key32_from_slice bs)\<rparr>"

definition fetch_backup_key :: "key32 option sql" where
  "fetch_backup_key = kv_fetch backup_key_codec ''backup_key''"

definition store_backup_key :: "key32 option \<Rightarrow> unit sql" where
  "store_backup_key v = kv_store backup_key_codec ''backup_key'' v"

definition fetch_transfer_archive :: "'v kv_codec \<Rightarrow> 'v option sql" where
  "fetch_transfer_archive C = kv_fetch C ''transfer_archive''"

definition store_transfer_archive :: "'v kv_codec \<Rightarrow> 'v option \<Rightarrow> unit sql" where
  "store_transfer_archive C v = kv_store C ''transfer_archive'' v"

definition get_local_registration_id :: "'v kv_codec \<Rightarrow> ('v \<Rightarrow> u32) \<Rightarrow> u32 proto" where
  "get_local_registration_id C registration_id db =
     (case fst (load_registration_data C (pr_content db)) of
        Inr (Some d) \<Rightarrow> (Inr (registration_id d), db)
      | _ \<Rightarrow> (Inl InvalidState, db))"

text \<open>
  One transaction over both halves of the database; deleting the pre-keys empties \<open>base_keys_seen\<close>
  by cascade.
\<close>

definition clear_registration :: "unit proto" where
  "clear_registration =
     pr_execute (\<lambda>db.
       db\<lparr>pr_content := kv_remove ''registration'' (pr_content db), pr_sessions := [],
          pr_identities := [], pr_pre_keys := [], pr_signed_pre_keys := [],
          pr_kyber_pre_keys := [], pr_base_keys_seen := [], pr_sender_keys := []\<rparr>)"

end
