(* ===== verification/Onboarding.thy ===== *)
theory Onboarding
  imports Receive Sqlite_State
begin

text \<open>
  Becoming a registered client: \<open>Manager::register\<close> (\<open>registration.rs\<close>), \<open>confirm_verification_code\<close>
  (\<open>confirmation.rs\<close>), \<open>link_secondary_device\<close> (\<open>linking.rs\<close>) and, of \<open>registered.rs\<close>, \<open>load_registered\<close>
  with the keys an account is told apart by. The server's side and libsignal's key derivations are
  operations of \<open>onboarding_env\<close>; the \<open>StateStore\<close> is \<open>state_ops\<close>.
\<close>

section \<open>Registration data\<close>

text \<open>A phone number is its E.164 text.\<close>

datatype signal_servers = Staging | Production

record registration_data =
  rd_signal_servers :: signal_servers
  rd_device_name :: "string option"
  rd_phone_number :: string
  rd_aci :: uuid
  rd_pni :: uuid
  rd_password :: string
  rd_device_id :: "u32 option"
  rd_registration_id :: u32
  rd_pni_registration_id :: "u32 option"
  rd_profile_key :: key32

record ('w, 'e, 'k, 'c) state_ops =
  sto_load_registration :: "('w, 'e, registration_data option) io"
  sto_save_registration :: "registration_data \<Rightarrow> ('w, 'e, unit) io"
  sto_is_registered :: "'w \<Rightarrow> bool"
  sto_clear_registration :: "('w, 'e, unit) io"
  sto_set_aci_identity_key_pair :: "'k \<Rightarrow> ('w, 'e, unit) io"
  sto_set_pni_identity_key_pair :: "'k \<Rightarrow> ('w, 'e, unit) io"
  sto_sender_certificate :: "('w, 'e, 'c option) io"
  sto_fetch_master_key :: "('w, 'e, bytes option) io"
  sto_store_master_key :: "bytes option \<Rightarrow> ('w, 'e, unit) io"
  sto_fetch_account_entropy_pool :: "('w, 'e, string option) io"
  sto_store_account_entropy_pool :: "string option \<Rightarrow> ('w, 'e, unit) io"
  sto_store_backup_key :: "key32 option \<Rightarrow> ('w, 'e, unit) io"

text \<open>The sockets, the push services and the session locks of \<open>Registered\<close> start empty; theory Devices has the former.\<close>

record ('c, 's) registered =
  rg_data :: registration_data
  rg_sender_certificate :: "'c option"
  rg_identified_websocket :: "'s option"
  rg_unidentified_websocket :: "'s option"

definition with_data :: "registration_data \<Rightarrow> ('c, 's) registered" where
  "with_data d =
     \<lparr>rg_data = d, rg_sender_certificate = None, rg_identified_websocket = None, rg_unidentified_websocket = None\<rparr>"

text \<open>\<open>try_from_u32\<close> is \<open>DeviceId::try_from\<close>, which refuses what is no device id.\<close>

definition device_id :: "(u32 \<Rightarrow> u8 option) \<Rightarrow> registration_data \<Rightarrow> u8" where
  "device_id try_from_u32 d = opt_or DEFAULT_DEVICE_ID (Option.bind (rd_device_id d) try_from_u32)"

definition registration_type_of :: "registration_data \<Rightarrow> registration_type" where
  "registration_type_of d = (if rd_device_name d \<noteq> None then Secondary else Primary)"

record service_credentials =
  sv_aci :: "uuid option"
  sv_pni :: "uuid option"
  sv_phonenumber :: string
  sv_password :: "string option"
  sv_device_id :: "u8 option"

definition credentials :: "(u32 \<Rightarrow> u8 option) \<Rightarrow> registration_data \<Rightarrow> service_credentials" where
  "credentials try_from_u32 d =
     \<lparr>sv_aci = Some (rd_aci d), sv_pni = Some (rd_pni d), sv_phonenumber = rd_phone_number d,
      sv_password = Some (rd_password d), sv_device_id = Option.bind (rd_device_id d) try_from_u32\<rparr>"

definition load_registered :: "('w, 'e, 'k, 'c) state_ops \<Rightarrow> ('w, 'e error, ('c, 's) registered) io" where
  "load_registered K =
     bindE (map_err StoreError (sto_load_registration K)) (\<lambda>stored.
       case stored of
         None \<Rightarrow> err NotYetRegisteredError
       | Some d \<Rightarrow>
           bindE (map_err StoreError (sto_sender_certificate K)) (\<lambda>certificate.
             ok ((with_data d)\<lparr>rg_sender_certificate := certificate\<rparr>)))"

section \<open>The keys of the account\<close>

definition account_entropy_pool ::
  "('w, 'e, 'k, 'c) state_ops \<Rightarrow> ('w \<Rightarrow> string \<times> 'w) \<Rightarrow> registration_data \<Rightarrow> ('w, 'e error, string option) io" where
  "account_entropy_pool K generate d =
     bindE (map_err StoreError (sto_fetch_account_entropy_pool K)) (\<lambda>from_store.
       case from_store of
         Some key \<Rightarrow> ok (Some key)
       | None \<Rightarrow>
           if registration_type_of d = Primary then
             bindE (call generate) (\<lambda>key.
               thenE (map_err StoreError (sto_store_account_entropy_pool K (Some key))) (ok (Some key)))
           else ok None)"

text \<open>\<open>derive\<close> is \<open>derive_svr_key\<close> read as a master key, which is known to have its size.\<close>

definition master_key ::
  "('w, 'e, 'k, 'c) state_ops \<Rightarrow> ('w \<Rightarrow> string \<times> 'w) \<Rightarrow> (string \<Rightarrow> bytes) \<Rightarrow> registration_data \<Rightarrow>
   ('w, 'e error, bytes option) io" where
  "master_key K generate derive d =
     bindE (map_err StoreError (sto_fetch_master_key K)) (\<lambda>from_store.
       case from_store of
         Some key \<Rightarrow> ok (Some key)
       | None \<Rightarrow>
           bindE (account_entropy_pool K generate d) (\<lambda>aep. ok (map_option derive aep)))"

section \<open>The server's side\<close>

text \<open>What presage reads of a verification session.\<close>

record verification_session =
  vs_id :: string
  vs_allowed_to_request_code :: bool
  vs_captcha_required :: bool
  vs_push_challenge_required :: bool
  vs_verified :: bool

datatype verification_transport = Sms | Voice

record device_capabilities =
  dc_storage :: bool
  dc_transfer :: bool
  dc_attachment_backfill :: bool
  dc_spqr :: bool
  dc_profiles_v2 :: bool
  dc_username_change_sync_message :: bool

record account_attributes =
  aa_fetches_messages :: bool
  aa_registration_id :: u32
  aa_pni_registration_id :: u32
  aa_name :: "bytes option"
  aa_registration_lock :: "string option"
  aa_unidentified_access_key :: "bytes option"
  aa_unrestricted_unidentified_access :: bool
  aa_capabilities :: "device_capabilities option"
  aa_discoverable_by_phone_number :: bool
  aa_recovery_password :: "bytes option"
  aa_video :: bool
  aa_voice :: bool

text \<open>The registration of a linked device, and the two messages its provisioning sends on the channel.\<close>

record new_device_registration =
  nd_phone_number :: string
  nd_device_id :: u8
  nd_registration_id :: u32
  nd_pni_registration_id :: u32
  nd_aci :: uuid
  nd_pni :: uuid
  nd_aci_public_key :: bytes
  nd_aci_private_key :: bytes
  nd_pni_public_key :: bytes
  nd_pni_private_key :: bytes
  nd_profile_key :: key32
  nd_account_entropy_pool :: "string option"
  nd_ephemeral_backup_key :: "key32 option"

datatype device_provisioning = ProvisioningUrl string | NewDeviceRegistration new_device_registration

text \<open>
  \<open>on_link_device\<close> is libsignal-service's \<open>link_device\<close> run together with the reader of its channel: given
  the password, the device name and whether the client still waits for the URL, it tells what it
  sent on the channel and how it ended.
\<close>

record ('w, 'e, 'k, 'c) onboarding_env =
  on_store :: "('w, 'e, 'k, 'c) state_ops"
  on_random_password :: "'w \<Rightarrow> string \<times> 'w"
  on_random32 :: "'w \<Rightarrow> bytes \<times> 'w"
  on_random_id :: "'w \<Rightarrow> u32 \<times> 'w"
  on_random_identity :: "'w \<Rightarrow> 'k \<times> 'w"
  on_profile_key :: "bytes \<Rightarrow> key32"
  on_access_key :: "key32 \<Rightarrow> bytes"
  on_identity_key_pair :: "bytes \<Rightarrow> bytes \<Rightarrow> 'k"
  on_svr_key :: "string \<Rightarrow> bytes"
  on_master_key :: "bytes \<Rightarrow> bytes option"
  on_connect :: "signal_servers \<Rightarrow> ('w, 'e error, unit) io"
  on_create_session :: "string \<Rightarrow> ('w, 'e error, verification_session) io"
  on_patch_session :: "string \<Rightarrow> string option \<Rightarrow> ('w, 'e error, verification_session) io"
  on_request_code :: "string \<Rightarrow> verification_transport \<Rightarrow> ('w, 'e error, verification_session) io"
  on_submit_code :: "string \<Rightarrow> string \<Rightarrow> ('w, 'e error, verification_session) io"
  on_register_account ::
    "string \<Rightarrow> account_attributes \<Rightarrow> bool \<Rightarrow> string \<Rightarrow> string \<Rightarrow> ('w, 'e error, uuid \<times> uuid) io"
  on_link_device ::
    "signal_servers \<Rightarrow> string \<Rightarrow> string \<Rightarrow> bool \<Rightarrow> 'w \<Rightarrow> (device_provisioning list \<times> (string + unit)) \<times> 'w"

section \<open>Registering\<close>

definition strip_prefix :: "string \<Rightarrow> string \<Rightarrow> string option" where
  "strip_prefix p s = (if take (length p) s = p then Some (drop (length p) s) else None)"

definition strip_suffix :: "string \<Rightarrow> string \<Rightarrow> string option" where
  "strip_suffix p s = map_option rev (strip_prefix (rev p) (rev s))"

definition strip_captcha :: "string \<Rightarrow> string" where
  "strip_captcha c =
     (let no_prefix = opt_or c (strip_prefix ''signalcaptcha://'' c)
      in opt_or no_prefix (strip_suffix ''/'' no_prefix))"

record registration_options =
  ro_signal_servers :: signal_servers
  ro_phone_number :: string
  ro_use_voice_call :: bool
  ro_captcha :: "string option"
  ro_force :: bool

record confirmation =
  cf_signal_servers :: signal_servers
  cf_phone_number :: string
  cf_password :: string
  cf_session_id :: string

text \<open>What a session that does not let a code be requested still asks for.\<close>

definition unlock_session ::
  "('w, 'e, 'k, 'c) onboarding_env \<Rightarrow> string option \<Rightarrow> verification_session \<Rightarrow>
   ('w, 'e error, verification_session) io" where
  "unlock_session E captcha session =
     (if vs_allowed_to_request_code session then ok session
      else
        bindE (if vs_captcha_required session
               then (if captcha = None then err CaptchaRequired
                     else on_patch_session E (vs_id session) captcha)
               else ok session) (\<lambda>session.
          if vs_push_challenge_required session then err PushChallengeRequired else ok session))"

text \<open>The error for a session that stays locked carries the session, here its id.\<close>

definition start_session ::
  "('w, 'e, 'k, 'c) onboarding_env \<Rightarrow> registration_options \<Rightarrow> ('w, 'e error, confirmation) io" where
  "start_session E options =
     (let captcha = map_option strip_captcha (ro_captcha options) in
      bindE (call (on_random_password E)) (\<lambda>password.
      thenE (on_connect E (ro_signal_servers options))
     (bindE (on_create_session E (ro_phone_number options)) (\<lambda>session.
      bindE (unlock_session E captcha session) (\<lambda>session.
        if \<not> vs_allowed_to_request_code session then err (RequestingCodeForbidden (vs_id session))
        else
          bindE (on_request_code E (vs_id session) (if ro_use_voice_call options then Voice else Sms)) (\<lambda>session.
            ok \<lparr>cf_signal_servers = ro_signal_servers options, cf_phone_number = ro_phone_number options,
                cf_password = password, cf_session_id = vs_id session\<rparr>))))))"

definition register ::
  "('w, 'e, 'k, 'c) onboarding_env \<Rightarrow> registration_options \<Rightarrow> ('w, 'e error, confirmation) io" where
  "register E options w =
     (if \<not> ro_force options \<and> sto_is_registered (on_store E) w then err AlreadyRegisteredError w
      else thenE (map_err StoreError (sto_clear_registration (on_store E))) (start_session E options) w)"

section \<open>Confirming\<close>

definition registration_attributes :: "('w, 'e, 'k, 'c) onboarding_env \<Rightarrow> u32 \<Rightarrow> u32 \<Rightarrow> key32 \<Rightarrow> account_attributes" where
  "registration_attributes E registration_id pni_registration_id profile_key =
     \<lparr>aa_fetches_messages = True, aa_registration_id = registration_id,
      aa_pni_registration_id = pni_registration_id, aa_name = None, aa_registration_lock = None,
      aa_unidentified_access_key = Some (on_access_key E profile_key),
      aa_unrestricted_unidentified_access = False,
      aa_capabilities = Some \<lparr>dc_storage = True, dc_transfer = False, dc_attachment_backfill = False,
        dc_spqr = True, dc_profiles_v2 = False, dc_username_change_sync_message = True\<rparr>,
      aa_discoverable_by_phone_number = True, aa_recovery_password = None, aa_video = False, aa_voice = False\<rparr>"

definition confirm_verification_code ::
  "('w, 'e, 'k, 'c) onboarding_env \<Rightarrow> confirmation \<Rightarrow> string \<Rightarrow> ('w, 'e error, ('c, 's) registered) io" where
  "confirm_verification_code E c code =
     (let K = on_store E in
      bindE (call (on_random_id E)) (\<lambda>registration_id.
      bindE (call (on_random_id E)) (\<lambda>pni_registration_id.
      bindE (on_submit_code E (cf_session_id c) code) (\<lambda>session.
      if \<not> vs_verified session then err UnverifiedRegistrationSession
      else
        bindE (call (on_random32 E)) (\<lambda>random.
        let profile_key = on_profile_key E random in
        bindE (call (on_random_identity E)) (\<lambda>aci_keys.
        thenE (map_err StoreError (sto_set_aci_identity_key_pair K aci_keys))
       (bindE (call (on_random_identity E)) (\<lambda>pni_keys.
        thenE (map_err StoreError (sto_set_pni_identity_key_pair K pni_keys))
       (bindE (on_register_account E (vs_id session)
            (registration_attributes E registration_id pni_registration_id profile_key)
            True (cf_phone_number c) (cf_password c)) (\<lambda>(aci, pni).
        let data = \<lparr>rd_signal_servers = cf_signal_servers c, rd_device_name = None,
              rd_phone_number = cf_phone_number c, rd_aci = aci, rd_pni = pni,
              rd_password = cf_password c, rd_device_id = None, rd_registration_id = registration_id,
              rd_pni_registration_id = Some pni_registration_id, rd_profile_key = profile_key\<rparr> in
        thenE (map_err StoreError (sto_save_registration K data)) (ok (with_data data))))))))))))"

section \<open>Linking\<close>

text \<open>The reader of the provisioning channel: the URL goes to the client, then the registration is awaited.\<close>

fun await_registration :: "bool \<Rightarrow> device_provisioning list \<Rightarrow> 'e error + new_device_registration" where
  "await_registration url_taken (ProvisioningUrl url # sent) =
     (if \<not> url_taken then Inl LinkingError
      else (case sent of
              NewDeviceRegistration data # _ \<Rightarrow> Inr data
            | _ \<Rightarrow> Inl NoProvisioningMessageReceived))"
| "await_registration url_taken _ = Inl LinkingError"

definition linked_data :: "signal_servers \<Rightarrow> string \<Rightarrow> string \<Rightarrow> new_device_registration \<Rightarrow> registration_data" where
  "linked_data servers device_name password n =
     \<lparr>rd_signal_servers = servers, rd_device_name = Some device_name,
      rd_phone_number = nd_phone_number n, rd_aci = nd_aci n, rd_pni = nd_pni n, rd_password = password,
      rd_device_id = Some (ucast (nd_device_id n)), rd_registration_id = nd_registration_id n,
      rd_pni_registration_id = Some (nd_pni_registration_id n), rd_profile_key = nd_profile_key n\<rparr>"

definition store_linked_device ::
  "('w, 'e, 'k, 'c) onboarding_env \<Rightarrow> registration_data \<Rightarrow> new_device_registration \<Rightarrow> ('w, 'e, unit) io" where
  "store_linked_device E data n =
     (let K = on_store E in
      thenE (if nd_ephemeral_backup_key n \<noteq> None then sto_store_backup_key K (nd_ephemeral_backup_key n) else ok ())
     (thenE (sto_set_aci_identity_key_pair K (on_identity_key_pair E (nd_aci_public_key n) (nd_aci_private_key n)))
     (thenE (sto_set_pni_identity_key_pair K (on_identity_key_pair E (nd_pni_public_key n) (nd_pni_private_key n)))
     (thenE (sto_store_master_key K
        (Option.bind (nd_account_entropy_pool n) (\<lambda>aep. on_master_key E (on_svr_key E aep))))
     (thenE (sto_store_account_entropy_pool K (nd_account_entropy_pool n))
        (sto_save_registration K data))))))"

definition link_secondary_device ::
  "('w, 'e, 'k, 'c) onboarding_env \<Rightarrow> signal_servers \<Rightarrow> string \<Rightarrow> bool \<Rightarrow>
   ('w, 'e error, ('c, 's) registered) io" where
  "link_secondary_device E servers device_name url_taken =
     (let K = on_store E in
      thenE (map_err StoreError (sto_clear_registration K))
     (bindE (call (on_random_password E)) (\<lambda>password.
      bindE (call (on_link_device E servers password device_name url_taken)) (\<lambda>(sent, ended).
      case ended of
        Inl e \<Rightarrow> err (ProvisioningError e)
      | Inr _ \<Rightarrow>
          (case await_registration url_taken sent of
             Inr n \<Rightarrow>
               let data = linked_data servers device_name password n in
               thenE (map_err StoreError (store_linked_device E data n)) (ok (with_data data))
           | Inl e \<Rightarrow> thenE (map_err StoreError (sto_clear_registration K)) (err e))))))"

end
