(* ===== verification/Devices.thy ===== *)
theory Devices
  imports Onboarding
begin

text \<open>
  The devices of the account (\<open>presage/src/manager/registered.rs\<close>): the sockets a manager keeps, the
  attributes and pre-keys it uploads, linking another device and unlinking one. A socket is an opaque
  \<open>'s\<close>; whether it is closed or used, and what the server answers on it, are operations of \<open>device_env\<close>.
\<close>

record ('w, 'e, 'k, 'c, 's) device_env =
  dv_store :: "('w, 'e, 'k, 'c) state_ops"
  dv_device_id :: "u32 \<Rightarrow> u8 option"
  dv_is_closed :: "'s \<Rightarrow> 'w \<Rightarrow> bool"
  dv_is_used :: "'s \<Rightarrow> 'w \<Rightarrow> bool"
  dv_connect :: "(string \<times> string) list \<Rightarrow> service_credentials option \<Rightarrow> ('w, 'e error, 's) io"
  dv_aci_key_pair :: "('w, 'e error, 'k) io"
  dv_encrypt_name :: "string \<Rightarrow> 'k \<Rightarrow> ('w, 'e error, bytes) io"
  dv_access_key :: "key32 \<Rightarrow> bytes"
  dv_set_attributes :: "account_attributes \<Rightarrow> ('w, 'e error, unit) io"
  dv_update_pre_keys :: "identity_type \<Rightarrow> bool \<Rightarrow> ('w, 'e error, unit) io"
  dv_random_pool :: "'w \<Rightarrow> string \<times> 'w"
  dv_link_device :: "'s \<Rightarrow> string \<Rightarrow> service_credentials \<Rightarrow> string \<Rightarrow> ('w, 'e error, unit) io"
  dv_unlink_device :: "'s \<Rightarrow> u8 \<Rightarrow> ('w, 'e error, unit) io"

text \<open>Operations of a manager: its own state beside the world.\<close>

type_synonym ('w, 'e, 'c, 's, 'a) manager_io = "(('c, 's) registered \<times> 'w, 'e error, 'a) io"

definition in_world :: "('w, 'f, 'a) io \<Rightarrow> ('g \<times> 'w, 'f, 'a) io" where
  [io_simps]: "in_world m s = (case s of (g, w) \<Rightarrow> (case m w of (r, w') \<Rightarrow> (r, (g, w'))))"

definition manager_data :: "('w, 'e, 'c, 's, registration_data) manager_io" where
  [io_simps]: "manager_data s = (Inr (rg_data (fst s)), s)"

section \<open>Sockets\<close>

definition identified_websocket ::
  "('w, 'e, 'k, 'c, 's) device_env \<Rightarrow> bool \<Rightarrow> ('w, 'e, 'c, 's, 's) manager_io" where
  "identified_websocket E require_unused s =
     (let (g, w) = s;
          usable = (\<lambda>ws. \<not> dv_is_closed E ws w \<and> \<not> (require_unused \<and> dv_is_used E ws w));
          cached = (case rg_identified_websocket g of
            Some ws \<Rightarrow> if usable ws then Some ws else None | None \<Rightarrow> None)
      in case cached of
           Some ws \<Rightarrow> (Inr ws, s)
         | None \<Rightarrow>
             (case dv_connect E [(''X-Signal-Receive-Stories'', ''true'')]
                  (Some (credentials (dv_device_id E) (rg_data g))) w of
                (Inl e, w') \<Rightarrow> (Inl e, (g, w'))
              | (Inr ws, w') \<Rightarrow> (Inr ws, (g\<lparr>rg_identified_websocket := Some ws\<rparr>, w'))))"

definition unidentified_websocket ::
  "('w, 'e, 'k, 'c, 's) device_env \<Rightarrow> ('w, 'e, 'c, 's, 's) manager_io" where
  "unidentified_websocket E s =
     (let (g, w) = s;
          cached = (case rg_unidentified_websocket g of
            Some ws \<Rightarrow> if \<not> dv_is_closed E ws w then Some ws else None | None \<Rightarrow> None)
      in case cached of
           Some ws \<Rightarrow> (Inr ws, s)
         | None \<Rightarrow>
             (case dv_connect E [] None w of
                (Inl e, w') \<Rightarrow> (Inl e, (g, w'))
              | (Inr ws, w') \<Rightarrow> (Inr ws, (g\<lparr>rg_unidentified_websocket := Some ws\<rparr>, w'))))"

section \<open>Attributes and pre-keys\<close>

definition set_account_attributes ::
  "('w, 'e, 'k, 'c, 's) device_env \<Rightarrow> registration_data \<Rightarrow> ('w, 'e error, unit) io" where
  "set_account_attributes E d =
     bindE (lift_res (ok_or RelinkNecessary (rd_pni_registration_id d))) (\<lambda>pni_registration_id.
     bindE (case rd_device_name d of
              Some device_name \<Rightarrow>
                bindE (dv_aci_key_pair E) (\<lambda>keys.
                bindE (dv_encrypt_name E device_name keys) (\<lambda>name. ok (Some name)))
            | None \<Rightarrow> ok None) (\<lambda>name.
     dv_set_attributes E
       \<lparr>aa_fetches_messages = True, aa_registration_id = rd_registration_id d,
        aa_pni_registration_id = pni_registration_id, aa_name = name, aa_registration_lock = None,
        aa_unidentified_access_key = Some (dv_access_key E (rd_profile_key d)),
        aa_unrestricted_unidentified_access = False,
        aa_capabilities = Some \<lparr>dc_storage = True, dc_transfer = False, dc_attachment_backfill = False,
          dc_spqr = True, dc_profiles_v2 = False, dc_username_change_sync_message = True\<rparr>,
        aa_discoverable_by_phone_number = True, aa_recovery_password = None, aa_video = False, aa_voice = False\<rparr>))"

definition register_pre_keys :: "('w, 'e, 'k, 'c, 's) device_env \<Rightarrow> ('w, 'e error, unit) io" where
  "register_pre_keys E = thenE (dv_update_pre_keys E AciIdentity True) (dv_update_pre_keys E PniIdentity True)"

section \<open>Linking and unlinking\<close>

text \<open>The pool of a primary device is never \<open>None\<close>, which the code expects.\<close>

definition link_secondary ::
  "('w, 'e, 'k, 'c, 's) device_env \<Rightarrow> string \<Rightarrow> ('w, 'e, 'c, 's, unit) manager_io" where
  "link_secondary E secondary =
     bindE manager_data (\<lambda>d.
       if registration_type_of d \<noteq> Primary then err NotPrimaryDevice
       else
         bindE (identified_websocket E False) (\<lambda>ws.
         bindE (in_world (account_entropy_pool (dv_store E) (dv_random_pool E) d)) (\<lambda>pool.
           in_world (dv_link_device E ws secondary (credentials (dv_device_id E) d) (the pool)))))"

definition SELF_UNLINK_ATTEMPTS :: nat where "SELF_UNLINK_ATTEMPTS = 3"

text \<open>The attempts still to make; \<open>unlinking_self\<close> is fixed before the first.\<close>

fun unlink_attempts ::
  "('w, 'e, 'k, 'c, 's) device_env \<Rightarrow> u8 \<Rightarrow> bool \<Rightarrow> nat \<Rightarrow> ('w, 'e, 'c, 's, unit) manager_io" where
  "unlink_attempts E device unlinking_self 0 = err ServiceWsClosing"
| "unlink_attempts E device unlinking_self (Suc n) =
     attempt (identified_websocket E False) (\<lambda>r.
       case r of
         Inl e \<Rightarrow> if e = ServiceUnauthorized \<and> unlinking_self then ok () else err e
       | Inr ws \<Rightarrow>
           attempt (in_world (dv_unlink_device E ws device)) (\<lambda>r.
             case r of
               Inr _ \<Rightarrow> ok ()
             | Inl e \<Rightarrow>
                 if e = ServiceUnauthorized \<and> unlinking_self then ok ()
                 else if e = ServiceWsClosing \<and> unlinking_self \<and> 0 < n
                 then unlink_attempts E device unlinking_self n
                 else err e))"

definition unlink_secondary ::
  "('w, 'e, 'k, 'c, 's) device_env \<Rightarrow> u8 option \<Rightarrow> ('w, 'e, 'c, 's, unit) manager_io" where
  "unlink_secondary E device =
     bindE (lift_res (ok_or InvalidDeviceId device)) (\<lambda>device.
     bindE manager_data (\<lambda>d.
       let unlinking_self = (device = device_id (dv_device_id E) d) in
       if registration_type_of d \<noteq> Primary \<and> \<not> unlinking_self then err NotPrimaryDevice
       else unlink_attempts E device unlinking_self SELF_UNLINK_ATTEMPTS))"

definition unlink_self :: "('w, 'e, 'k, 'c, 's) device_env \<Rightarrow> ('w, 'e, 'c, 's, unit) manager_io" where
  "unlink_self E =
     bindE manager_data (\<lambda>d.
       if registration_type_of d = Primary then err NotSecondaryDevice
       else unlink_secondary E (Some (device_id (dv_device_id E) d)))"

section \<open>Starting to receive\<close>

definition groups_manager :: "('w, 'e, 'k, 'c, 's) device_env \<Rightarrow> ('w, 'e, 'c, 's, 's) manager_io" where
  "groups_manager E = unidentified_websocket E"

text \<open>A sender is the two sockets and the two key pairs it is made of.\<close>

definition new_message_sender ::
  "('w, 'e, 'k, 'c, 's) device_env \<Rightarrow> ('w, 'e error, 'k) io \<Rightarrow> ('w, 'e, 'c, 's, 's \<times> 's \<times> 'k \<times> 'k) manager_io" where
  "new_message_sender E pni_key_pair =
     bindE (identified_websocket E False) (\<lambda>identified.
     bindE (unidentified_websocket E) (\<lambda>unidentified.
     bindE (in_world (dv_aci_key_pair E)) (\<lambda>aci_keys.
     bindE (in_world pni_key_pair) (\<lambda>pni_keys.
       ok (identified, unidentified, aci_keys, pni_keys)))))"

text \<open>
  What \<open>receive_messages\<close> sets up before its stream (theory Receive): a socket nobody reads from yet,
  and the keys. The refresh of attributes and pre-keys runs beside the stream; each half is tried.
\<close>

definition start_receiving ::
  "('w, 'e, 'k, 'c, 's) device_env \<Rightarrow> ('w, 'e error, 'k) io \<Rightarrow> (string \<Rightarrow> bytes) \<Rightarrow>
   ('w, 'e, 'c, 's, 's \<times> receive_state) manager_io" where
  "start_receiving E pni_key_pair derive =
     bindE (identified_websocket E True) (\<lambda>ws.
     bindE (unidentified_websocket E) (\<lambda>_.
     bindE (groups_manager E) (\<lambda>_.
     bindE (new_message_sender E pni_key_pair) (\<lambda>_.
     bindE manager_data (\<lambda>d.
     bindE (in_world (master_key (dv_store E) (dv_random_pool E) derive d)) (\<lambda>master.
     bindE (in_world (account_entropy_pool (dv_store E) (dv_random_pool E) d)) (\<lambda>pool.
       ok (ws, \<lparr>rs_master_key = master, rs_account_entropy_pool = pool\<rparr>))))))))"

definition refresh_registration :: "('w, 'e, 'k, 'c, 's) device_env \<Rightarrow> registration_data \<Rightarrow> 'w \<Rightarrow> 'w" where
  "refresh_registration E d w = snd (register_pre_keys E (snd (set_account_attributes E d w)))"

end
