(* ===== verification/Devices_Laws.thy ===== *)
theory Devices_Laws
  imports Devices
begin

text \<open>
  Laws of theory Devices: sockets are reused as long as they can be, and unlinking this device ends with
  the server no longer knowing it, also when it closes the socket instead of answering.
\<close>

section \<open>Sockets\<close>

lemma identified_websocket_cached:
  "rg_identified_websocket g = Some ws \<Longrightarrow> \<not> dv_is_closed E ws w \<Longrightarrow> \<not> (unused \<and> dv_is_used E ws w) \<Longrightarrow>
   identified_websocket E unused (g, w) = (Inr ws, (g, w))"
  by (simp add: identified_websocket_def)

lemma identified_websocket_fresh:
  assumes "\<forall>ws. rg_identified_websocket g = Some ws \<longrightarrow> dv_is_closed E ws w \<or> unused \<and> dv_is_used E ws w"
  shows "identified_websocket E unused (g, w) =
    (case dv_connect E [(''X-Signal-Receive-Stories'', ''true'')] (Some (credentials (dv_device_id E) (rg_data g))) w of
       (Inl e, w') \<Rightarrow> (Inl e, (g, w'))
     | (Inr ws, w') \<Rightarrow> (Inr ws, (g\<lparr>rg_identified_websocket := Some ws\<rparr>, w')))"
  using assms by (cases "rg_identified_websocket g") (auto simp: identified_websocket_def)

lemma websocket_keeps_data: "rg_data (fst (snd (identified_websocket E unused s))) = rg_data (fst s)"
  by (cases s) (auto simp: identified_websocket_def Let_def split: option.splits prod.splits sum.splits)

section \<open>Unlinking this device\<close>

text \<open>
  What the server does: it refuses connections of a device it does not know; a request that reaches it removes
  the device, whether it then answers or closes the socket; \<open>losses\<close> bounds how often a request is
  lost with its socket before it reaches the server.
\<close>

locale device_server =
  fixes E :: "('w, 'e, 'k, 'c, 's) device_env"
    and linked :: "'w \<Rightarrow> bool"
    and losses :: "'w \<Rightarrow> nat"
  assumes refused: "\<not> linked w \<Longrightarrow> \<exists>w'. dv_connect E h c w = (Inl ServiceUnauthorized, w') \<and> \<not> linked w'"
    and connects: "linked w \<Longrightarrow> \<exists>ws w'. dv_connect E h c w = (Inr ws, w') \<and> linked w' \<and> losses w' = losses w"
    and answers: "linked w \<Longrightarrow> dv_unlink_device E ws device w = (r, w') \<Longrightarrow>
      \<not> linked w' \<and> (r = Inr () \<or> r = Inl ServiceUnauthorized \<or>
        r = Inl ServiceWsClosing \<and> dv_is_closed E ws w') \<or>
      linked w' \<and> losses w' < losses w \<and> r = Inl ServiceWsClosing"
begin

lemma socket:
  assumes "linked w"
  obtains ws g' w' where "identified_websocket E False (g, w) = (Inr ws, (g', w'))" "linked w'" "losses w' = losses w"
    "rg_identified_websocket g' = Some ws"
proof (cases "\<exists>ws. rg_identified_websocket g = Some ws \<and> \<not> dv_is_closed E ws w")
  case True
  then obtain ws where "rg_identified_websocket g = Some ws" "\<not> dv_is_closed E ws w" by blast
  with that assms identified_websocket_cached [of g ws E w False] show ?thesis by simp
next
  case False
  obtain ws w' where c: "dv_connect E [(''X-Signal-Receive-Stories'', ''true'')]
      (Some (credentials (dv_device_id E) (rg_data g))) w = (Inr ws, w')" "linked w'" "losses w' = losses w"
    using connects [OF assms] by blast
  from False have "identified_websocket E False (g, w) = (Inr ws, (g\<lparr>rg_identified_websocket := Some ws\<rparr>, w'))"
    by (subst identified_websocket_fresh) (auto simp: c(1))
  from that [OF this c(2,3)] show ?thesis by simp
qed

lemma gone:
  assumes "\<not> linked w" "\<forall>x. rg_identified_websocket g = Some x \<longrightarrow> dv_is_closed E x w" "0 < n"
  shows "\<exists>s. unlink_attempts E device True n (g, w) = (Inr (), s) \<and> \<not> linked (snd s)"
proof -
  obtain m where n: "n = Suc m" using assms(3) by (cases n) auto
  obtain w' where c: "dv_connect E [(''X-Signal-Receive-Stories'', ''true'')]
      (Some (credentials (dv_device_id E) (rg_data g))) w = (Inl ServiceUnauthorized, w')" "\<not> linked w'"
    using refused [OF assms(1)] by blast
  have "identified_websocket E False (g, w) = (Inl ServiceUnauthorized, (g, w'))"
    using assms(2) by (subst identified_websocket_fresh) (auto simp: c(1))
  with c(2) show ?thesis by (simp add: n io_simps)
qed

lemma unlinks:
  assumes "linked w" "losses w + 2 \<le> n"
  shows "\<exists>s. unlink_attempts E device True n (g, w) = (Inr (), s) \<and> \<not> linked (snd s)"
  using assms
proof (induction n arbitrary: g w)
  case (Suc n)
  obtain ws g1 w1 where ws: "identified_websocket E False (g, w) = (Inr ws, (g1, w1))" "linked w1" "losses w1 = losses w"
    "rg_identified_websocket g1 = Some ws"
    using socket [OF Suc.prems(1)] .
  obtain r w2 where r: "dv_unlink_device E ws device w1 = (r, w2)" by fastforce
  note step = ws(1) r
  from answers [OF ws(2) r] show ?case
  proof (elim disjE conjE)
    assume "\<not> linked w2" "r = Inl ServiceWsClosing" "dv_is_closed E ws w2"
    moreover have "0 < n" using Suc.prems(2) by simp
    ultimately show ?thesis using gone [of w2 g1 n device] ws(4) step by (simp add: io_simps)
  next
    assume "linked w2" "losses w2 < losses w1" "r = Inl ServiceWsClosing"
    moreover have "0 < n" "losses w2 + 2 \<le> n" using calculation ws(3) Suc.prems(2) by auto
    ultimately show ?thesis using Suc.IH [of w2 g1] step by (simp add: io_simps)
  qed (use step in \<open>simp_all add: io_simps\<close>)
qed simp

lemma unlinked_or_unanswered:
  assumes "linked w" "unlink_attempts E device True n (g, w) = (r, s)" "0 < n"
  shows "r = Inr () \<and> \<not> linked (snd s) \<or> r = Inl ServiceWsClosing"
  using assms
proof (induction n arbitrary: g w)
  case (Suc n)
  obtain ws g1 w1 where ws: "identified_websocket E False (g, w) = (Inr ws, (g1, w1))" "linked w1"
    "rg_identified_websocket g1 = Some ws"
    using socket [OF Suc.prems(1)] by metis
  obtain r' w2 where r: "dv_unlink_device E ws device w1 = (r', w2)" by fastforce
  note step = ws(1) r Suc.prems(2)
  from answers [OF ws(2) r] show ?case
  proof (elim disjE conjE)
    assume a: "\<not> linked w2" "r' = Inl ServiceWsClosing" "dv_is_closed E ws w2"
    show ?thesis
    proof (cases "n = 0")
      case True
      with a step show ?thesis by (auto simp: io_simps)
    next
      case False
      with a gone [of w2 g1 n device] ws(3) step show ?thesis by (auto simp: io_simps)
    qed
  next
    assume a: "linked w2" "losses w2 < losses w1" "r' = Inl ServiceWsClosing"
    show ?thesis
    proof (cases "n = 0")
      case True
      with a step show ?thesis by (auto simp: io_simps)
    next
      case False
      with a Suc.IH [of w2 g1] step show ?thesis by (auto simp: io_simps)
    qed
  qed (use step in \<open>auto simp: io_simps\<close>)
qed simp

end

text \<open>C31. A linked device that unlinks itself gets an answer. When the server removes the device with the
  first request that reaches it, and at most one request is lost, unlinking succeeds within its
  three attempts and the server no longer knows the device, also when the sockets close instead
  of an answer. However many are lost, a success is never claimed for a device that is still
  linked, and the only error is the closing socket.\<close>

theorem unlinking_self_settles:
  assumes "device_server E linked losses" "linked w" "registration_type_of (rg_data g) = Secondary"
  shows "(losses w \<le> 1 \<longrightarrow> (\<exists>s. unlink_self E (g, w) = (Inr (), s) \<and> \<not> linked (snd s))) \<and>
    (case unlink_self E (g, w) of (r, s) \<Rightarrow> r = Inr () \<and> \<not> linked (snd s) \<or> r = Inl ServiceWsClosing)"
proof -
  let ?me = "device_id (dv_device_id E) (rg_data g)"
  have run: "unlink_self E (g, w) = unlink_attempts E ?me True 3 (g, w)"
    using assms(3) by (simp add: unlink_self_def unlink_secondary_def manager_data_def bindE_def Let_def lift_res_def
        ok_or_def SELF_UNLINK_ATTEMPTS_def)
  have "losses w \<le> 1 \<longrightarrow> (\<exists>s. unlink_attempts E ?me True 3 (g, w) = (Inr (), s) \<and> \<not> linked (snd s))"
    using device_server.unlinks [OF assms(1,2), of 3] by auto
  moreover have "case unlink_attempts E ?me True 3 (g, w) of (r, s) \<Rightarrow>
      r = Inr () \<and> \<not> linked (snd s) \<or> r = Inl ServiceWsClosing"
    using device_server.unlinked_or_unanswered [OF assms(1,2)]
    by (cases "unlink_attempts E ?me True 3 (g, w)") fastforce
  ultimately show ?thesis unfolding run by blast
qed

text \<open>Unlinking another device is a primary's right, and one request.\<close>

lemma unlink_other_once:
  assumes "registration_type_of (rg_data g) = Primary" "device \<noteq> device_id (dv_device_id E) (rg_data g)"
  shows "unlink_secondary E (Some device) (g, w) =
    bindE (identified_websocket E False) (\<lambda>ws. in_world (dv_unlink_device E ws device)) (g, w)"
  using assms
  by (simp add: unlink_secondary_def manager_data_def bindE_def Let_def lift_res_def ok_or_def
      SELF_UNLINK_ATTEMPTS_def eval_nat_numeral attempt_def ok_def err_def in_world_def
      split: prod.splits sum.splits)

lemma unlink_other_refused:
  "registration_type_of (rg_data g) = Secondary \<Longrightarrow> device \<noteq> device_id (dv_device_id E) (rg_data g) \<Longrightarrow>
   unlink_secondary E (Some device) (g, w) = (Inl NotPrimaryDevice, (g, w))"
  by (simp add: unlink_secondary_def manager_data_def bindE_def Let_def lift_res_def ok_or_def err_def)

section \<open>A sample\<close>

text \<open>
  A server that removes the device and closes its sockets without an answer, after losing some requests.
  Sockets are numbered; those below \<open>cs_open\<close> are closed.
\<close>

record closing_server =
  cs_linked :: bool
  cs_losses :: nat
  cs_open :: nat

definition closing_env :: "(closing_server, unit, unit, unit, nat) device_env" where
  "closing_env =
     \<lparr>dv_store = \<lparr>sto_load_registration = ok None, sto_save_registration = (\<lambda>_. ok ()), sto_is_registered = (\<lambda>_. False),
        sto_clear_registration = ok (), sto_set_aci_identity_key_pair = (\<lambda>_. ok ()),
        sto_set_pni_identity_key_pair = (\<lambda>_. ok ()), sto_sender_certificate = ok None, sto_fetch_master_key = ok None,
        sto_store_master_key = (\<lambda>_. ok ()), sto_fetch_account_entropy_pool = ok None,
        sto_store_account_entropy_pool = (\<lambda>_. ok ()), sto_store_backup_key = (\<lambda>_. ok ())\<rparr>,
      dv_device_id = (\<lambda>d. Some (ucast d)), dv_is_closed = (\<lambda>ws w. ws < cs_open w), dv_is_used = (\<lambda>_ _. False),
      dv_connect = (\<lambda>_ _ w. (if cs_linked w then Inr (cs_open w) else Inl ServiceUnauthorized, w)),
      dv_aci_key_pair = ok (), dv_encrypt_name = (\<lambda>_ _. ok []), dv_access_key = key32_bytes,
      dv_set_attributes = (\<lambda>_. ok ()), dv_update_pre_keys = (\<lambda>_ _. ok ()), dv_random_pool = (\<lambda>w. ([], w)),
      dv_link_device = (\<lambda>_ _ _ _. ok ()),
      dv_unlink_device = (\<lambda>ws _ w.
        if cs_losses w = 0
        then (Inl (if ws < cs_open w then ServiceUnauthorized else ServiceWsClosing), w\<lparr>cs_linked := False, cs_open := Suc (max ws (cs_open w))\<rparr>)
        else (Inl ServiceWsClosing, w\<lparr>cs_losses := cs_losses w - 1, cs_open := Suc (max ws (cs_open w))\<rparr>))\<rparr>"

definition linked_sample :: "(unit, nat) registered" where
  "linked_sample = with_data \<lparr>rd_signal_servers = Staging, rd_device_name = Some ''desktop'',
     rd_phone_number = ''+16137827274'', rd_aci = sample_uuid 1, rd_pni = sample_uuid 2, rd_password = ''password'',
     rd_device_id = Some 2, rd_registration_id = 5, rd_pni_registration_id = Some 6, rd_profile_key = sample_key32 7\<rparr>"

interpretation closing: device_server closing_env cs_linked cs_losses
  by unfold_locales (auto simp: closing_env_def split: if_splits)

lemma unlinking_self_settles_witness:
  "\<exists>s. unlink_self closing_env (linked_sample, \<lparr>cs_linked = True, cs_losses = 1, cs_open = 4\<rparr>) = (Inr (), s) \<and>
     \<not> cs_linked (snd s)"
proof -
  have "registration_type_of (rg_data linked_sample) = Secondary"
    by (simp add: registration_type_of_def linked_sample_def with_data_def)
  from unlinking_self_settles [OF closing.device_server_axioms _ this, of "\<lparr>cs_linked = True, cs_losses = 1, cs_open = 4\<rparr>"]
  show ?thesis by auto
qed

end
