(* ===== verification/Server_Calls.thy ===== *)
theory Server_Calls
  imports Devices_Laws
begin

text \<open>
  The calls a manager puts to the server on one of its sockets (\<open>presage/src/manager/registered.rs\<close>). What the
  server answers is the last argument of each; what is modelled is which socket the call goes out on,
  what is sent beside the arguments, and what happens before and after.
\<close>

section \<open>A call on a socket\<close>

abbreviation on_identified ::
  "('w, 'e, 'k, 'c, 's) device_env \<Rightarrow> ('s \<Rightarrow> ('w, 'e error, 'a) io) \<Rightarrow> ('w, 'e, 'c, 's, 'a) manager_io" where
  "on_identified E ask \<equiv> bindE (identified_websocket E False) (\<lambda>ws. in_world (ask ws))"

abbreviation on_unidentified ::
  "('w, 'e, 'k, 'c, 's) device_env \<Rightarrow> ('s \<Rightarrow> ('w, 'e error, 'a) io) \<Rightarrow> ('w, 'e, 'c, 's, 'a) manager_io" where
  "on_unidentified E ask \<equiv> bindE (unidentified_websocket E) (\<lambda>ws. in_world (ask ws))"

section \<open>The account\<close>

definition submit_recaptcha_challenge ::
  "('w, 'e, 'k, 'c, 's) device_env \<Rightarrow> ('s \<Rightarrow> string \<Rightarrow> string \<Rightarrow> ('w, 'e error, unit) io) \<Rightarrow>
   string \<Rightarrow> string \<Rightarrow> ('w, 'e, 'c, 's, unit) manager_io" where
  "submit_recaptcha_challenge E submit token captcha = on_identified E (\<lambda>ws. submit ws token captcha)"

definition whoami ::
  "('w, 'e, 'k, 'c, 's) device_env \<Rightarrow> ('s \<Rightarrow> ('w, 'e error, 'a) io) \<Rightarrow> ('w, 'e, 'c, 's, 'a) manager_io" where
  "whoami E ask = on_identified E ask"

definition calling_relays ::
  "('w, 'e, 'k, 'c, 's) device_env \<Rightarrow> ('s \<Rightarrow> ('w, 'e error, 'a) io) \<Rightarrow> ('w, 'e, 'c, 's, 'a) manager_io" where
  "calling_relays E ask = on_identified E ask"

text \<open>The request is drawn before the socket is opened; \<open>receive\<close> checks the answer against it and the clock.\<close>

definition own_profile_key_credential ::
  "('w, 'e, 'k, 'c, 's) device_env \<Rightarrow> (uuid \<Rightarrow> key32 \<Rightarrow> 'w \<Rightarrow> 'q \<times> 'w) \<Rightarrow> ('s \<Rightarrow> 'q \<Rightarrow> ('w, 'e error, 'p) io) \<Rightarrow>
   ('q \<Rightarrow> 'p \<Rightarrow> ('w, 'e error, 'd) io) \<Rightarrow> ('w, 'e, 'c, 's, 'd) manager_io" where
  "own_profile_key_credential E new_request ask receive =
     bindE manager_data (\<lambda>d.
     bindE (in_world (call (new_request (rd_aci d) (rd_profile_key d)))) (\<lambda>request.
     bindE (on_identified E (\<lambda>ws. ask ws request)) (\<lambda>response.
       in_world (receive request response))))"

definition devices ::
  "('w, 'e, 'k, 'c, 's) device_env \<Rightarrow> ('s \<Rightarrow> key32 \<Rightarrow> ('w, 'e error, 'a) io) \<Rightarrow> ('w, 'e, 'c, 's, 'a) manager_io" where
  "devices E linked = bindE manager_data (\<lambda>d. on_identified E (\<lambda>ws. linked ws (rd_profile_key d)))"

definition update_device_name ::
  "('w, 'e, 'k, 'c, 's) device_env \<Rightarrow> ('s \<Rightarrow> key32 \<Rightarrow> u8 \<Rightarrow> string \<Rightarrow> uuid \<Rightarrow> ('w, 'e error, unit) io) \<Rightarrow>
   string \<Rightarrow> ('w, 'e, 'c, 's, unit) manager_io" where
  "update_device_name E update name =
     bindE manager_data (\<lambda>d.
       on_identified E (\<lambda>ws. update ws (rd_profile_key d) (device_id (dv_device_id E) d) name (rd_aci d)))"

section \<open>Other people\<close>

text \<open>A phone number that is no E.164 number is left out; the answers are in the server's order.\<close>

definition discover_contacts_by_phone_number ::
  "('w, 'e, 'k, 'c, 's) device_env \<Rightarrow> ('p \<Rightarrow> 'n option) \<Rightarrow> ('n \<Rightarrow> string) \<Rightarrow>
   ('s \<Rightarrow> 'n list \<Rightarrow> ('w, 'e error, ('n \<times> service_id option) list) io) \<Rightarrow>
   'p list \<Rightarrow> ('w, 'e, 'c, 's, (string \<times> service_id option) list) manager_io" where
  "discover_contacts_by_phone_number E to_e164 from_signal discover phone_numbers =
     bindE (on_identified E (\<lambda>ws. discover ws (List.map_filter to_e164 phone_numbers))) (\<lambda>found.
       ok (map (\<lambda>(e164, sid). (from_signal e164, sid)) found))"

definition lookup_username ::
  "('w, 'e, 'k, 'c, 's) device_env \<Rightarrow> (string \<Rightarrow> 'e error + 'u) \<Rightarrow> ('s \<Rightarrow> 'u \<Rightarrow> ('w, 'e error, uuid option) io) \<Rightarrow>
   string \<Rightarrow> ('w, 'e, 'c, 's, uuid option) manager_io" where
  "lookup_username E parse look_up username =
     bindE (lift_res (parse username)) (\<lambda>u. on_unidentified E (\<lambda>ws. look_up ws u))"

definition send_retry_receipt ::
  "('w, 'e, 'k, 'c, 's) device_env \<Rightarrow> ('w, 'e error, 'k) io \<Rightarrow>
   ('s \<times> 's \<times> 'k \<times> 'k \<Rightarrow> service_id \<Rightarrow> ciphertext_type \<Rightarrow> bytes \<Rightarrow> u64 \<Rightarrow> u8 \<Rightarrow> ('w, 'e error, unit) io) \<Rightarrow>
   service_id \<Rightarrow> ciphertext_type \<Rightarrow> bytes \<Rightarrow> u64 \<Rightarrow> u8 \<Rightarrow> ('w, 'e, 'c, 's, unit) manager_io" where
  "send_retry_receipt E pni_key_pair send recipient original_type original timestamp device =
     bindE (new_message_sender E pni_key_pair) (\<lambda>sender.
       in_world (send sender recipient original_type original timestamp device))"

section \<open>The keys of a backup and the addresses of the ciphers\<close>

definition backup_message_key ::
  "('w, 'e, key32 option) io \<Rightarrow> (key32 \<Rightarrow> uuid \<Rightarrow> bytes) \<Rightarrow> (key32 \<Rightarrow> bytes \<Rightarrow> 'b) \<Rightarrow>
   ('w, 'e, 'c, 's, 'b option) manager_io" where
  "backup_message_key fetch_key derive_id derive =
     bindE manager_data (\<lambda>d.
     bindE (in_world (st fetch_key)) (\<lambda>stored.
       ok (map_option (\<lambda>key. derive key (derive_id key (rd_aci d))) stored)))"

definition cipher_address ::
  "('w, 'e, 'k, 'c, 's) device_env \<Rightarrow> (service_id \<Rightarrow> string) \<Rightarrow> identity_type \<Rightarrow> registration_data \<Rightarrow> string \<times> u8" where
  "cipher_address E print_id identity d =
     (print_id (case identity of AciIdentity \<Rightarrow> Aci (rd_aci d) | PniIdentity \<Rightarrow> Pni (rd_pni d)),
      device_id (dv_device_id E) d)"

section \<open>How sockets are shared\<close>

text \<open>A call leaves the socket it went out on behind, and the next one goes out on it while it stays open.\<close>

lemma identified_websocket_left:
  "identified_websocket E unused (g, w) = (Inr ws, (g', w')) \<Longrightarrow> rg_identified_websocket g' = Some ws"
  by (auto simp: identified_websocket_def Let_def split: option.splits prod.splits sum.splits if_splits)

lemma calls_share_a_socket:
  assumes "identified_websocket E False (g, w) = (Inr ws, (g1, w1))" "ask ws w1 = (r, w2)" "\<not> dv_is_closed E ws w2"
  shows "on_identified E ask (g, w) = (r, (g1, w2))"
    and "on_identified E ask' (g1, w2) = apsnd (Pair g1) (ask' ws w2)"
proof -
  show "on_identified E ask (g, w) = (r, (g1, w2))"
    using assms(1,2) by (simp add: io_simps)
  have "identified_websocket E False (g1, w2) = (Inr ws, (g1, w2))"
    by (rule identified_websocket_cached [OF identified_websocket_left [OF assms(1)] assms(3)]) simp
  then show "on_identified E ask' (g1, w2) = apsnd (Pair g1) (ask' ws w2)"
    by (cases "ask' ws w2") (simp add: io_simps)
qed

text \<open>A username that does not parse costs no connection.\<close>

lemma bad_username_asks_nobody:
  "parse username = Inl e \<Longrightarrow> lookup_username E parse look_up username s = (Inl e, s)"
  by (simp add: lookup_username_def io_simps)

end
