(* ===== verification/Profiles.thy ===== *)
theory Profiles
  imports Group_Service Contacts
begin

text \<open>
  Profiles and avatars (\<open>presage/src/manager/registered.rs\<close>). An avatar is cached under its URL, which is its
  version: the cache answers as long as the URL is the same. The account manager, the CDN and
  the profile cipher are operations of \<open>profile_env\<close>.
\<close>

record ('w, 'e) profile_env =
  pe_self :: uuid
  pe_self_key :: key32
  pe_identified_websocket :: "('w, 'e error, unit) io"
  pe_unidentified_websocket :: "('w, 'e error, unit) io"
  pe_fetch_profile :: "uuid \<Rightarrow> key32 \<Rightarrow> ('w, 'e error, profile) io"
  pe_upload_profile :: "uuid \<Rightarrow> profile_name \<Rightarrow> string option \<Rightarrow> string option \<Rightarrow> bool \<Rightarrow> ('w, 'e error, unit) io"
  pe_save_profile :: "uuid \<Rightarrow> key32 \<Rightarrow> profile \<Rightarrow> ('w, 'e, unit) io"
  pe_profile_avatar :: "uuid \<Rightarrow> key32 \<Rightarrow> ('w, 'e, (string option \<times> bytes) option) io"
  pe_save_profile_avatar :: "uuid \<Rightarrow> key32 \<Rightarrow> bytes \<Rightarrow> string \<Rightarrow> ('w, 'e, unit) io"
  pe_fetch_avatar :: "string \<Rightarrow> ('w, 'e error, string + bytes) io"
  pe_decrypt_avatar :: "key32 \<Rightarrow> bytes \<Rightarrow> string + bytes"

section \<open>Profiles\<close>

text \<open>What is fetched is returned even if it cannot be stored.\<close>

definition retrieve_profile_by_uuid ::
  "('w, 'e) profile_env \<Rightarrow> uuid \<Rightarrow> key32 \<Rightarrow> ('w, 'e error, profile) io" where
  "retrieve_profile_by_uuid E aci profile_key =
     thenE (pe_identified_websocket E)
    (bindE (pe_fetch_profile E aci profile_key) (\<lambda>profile.
       ignore (pe_save_profile E aci profile_key profile) (ok profile)))"

definition retrieve_profile :: "('w, 'e) profile_env \<Rightarrow> ('w, 'e error, profile) io" where
  "retrieve_profile E = retrieve_profile_by_uuid E (pe_self E) (pe_self_key E)"

definition update_profile ::
  "('w, 'e) profile_env \<Rightarrow> profile_name \<Rightarrow> string option \<Rightarrow> string option \<Rightarrow> ('w, 'e error, unit) io" where
  "update_profile E name about emoji =
     (let aci = pe_self E in
      thenE (pe_identified_websocket E)
     (thenE (pe_upload_profile E aci name about emoji True)
     (bindE (pe_fetch_profile E aci (pe_self_key E)) (\<lambda>profile.
        ignore (pe_save_profile E aci (pe_self_key E) profile) (ok ())))))"

section \<open>Avatars of profiles\<close>

definition download_profile_avatar ::
  "('w, 'e) profile_env \<Rightarrow> uuid \<Rightarrow> key32 \<Rightarrow> string \<Rightarrow> ('w, 'e error, bytes) io" where
  "download_profile_avatar E u profile_key avatar_url =
     thenE (pe_unidentified_websocket E)
    (bindE (pe_fetch_avatar E avatar_url) (\<lambda>body.
       case body of
         Inl e \<Rightarrow> err (IoError e)
       | Inr contents \<Rightarrow>
           (case pe_decrypt_avatar E profile_key contents of
              Inl e \<Rightarrow> err (ProfileCipherError e)
            | Inr avatar \<Rightarrow> ignore (pe_save_profile_avatar E u profile_key avatar avatar_url) (ok avatar))))"

definition retrieve_avatar_for_profile ::
  "('w, 'e) profile_env \<Rightarrow> uuid \<Rightarrow> key32 \<Rightarrow> profile \<Rightarrow> ('w, 'e error, bytes option) io" where
  "retrieve_avatar_for_profile E u profile_key profile =
     (case pf_avatar profile of
        None \<Rightarrow> ok None
      | Some avatar_url \<Rightarrow>
          attempt (pe_profile_avatar E u profile_key) (\<lambda>cached.
            let fresh = bindE (download_profile_avatar E u profile_key avatar_url) (\<lambda>a. ok (Some a)) in
            case cached of
              Inr (Some (cached_url, cached_bytes)) \<Rightarrow>
                if cached_url = Some avatar_url then ok (Some cached_bytes) else fresh
            | _ \<Rightarrow> fresh))"

definition retrieve_profile_avatar_by_uuid ::
  "('w, 'e) profile_env \<Rightarrow> uuid \<Rightarrow> key32 \<Rightarrow> ('w, 'e error, bytes option) io" where
  "retrieve_profile_avatar_by_uuid E u profile_key =
     bindE (retrieve_profile_by_uuid E u profile_key) (retrieve_avatar_for_profile E u profile_key)"

section \<open>Avatars of groups\<close>

record ('w, 'e, 'g, 'a, 'c) group_avatar_env =
  ga_group :: "('w, 'e, 'g, 'a, 'c) group_env"
  ga_cached :: "key32 \<Rightarrow> ('w, 'e, (string option \<times> bytes) option) io"
  ga_save :: "key32 \<Rightarrow> bytes \<Rightarrow> string \<Rightarrow> ('w, 'e, unit) io"
  ga_fetch :: "string \<Rightarrow> key32 \<Rightarrow> ('w, 'e error, bytes option) io"

text \<open>The first half: the group at the revision asked for, and whether a groups manager was built for it.\<close>

definition group_at_revision ::
  "('w, 'e, 'g, 'a, 'c) group_avatar_env \<Rightarrow> key32 \<Rightarrow> u32 \<Rightarrow> ('w, 'e error, group option \<times> bool) io" where
  "group_at_revision E mk revision =
     (let G = ga_group E in
      bindE (load_group_or_none G mk) (\<lambda>local.
        if (case local of Some g \<Rightarrow> revision \<le> g_revision g | None \<Rightarrow> False) then ok (local, False)
        else thenE (ge_manager G) (bindE (refresh_group G mk local) (\<lambda>g. ok (g, True)))))"

definition download_group_avatar ::
  "('w, 'e, 'g, 'a, 'c) group_avatar_env \<Rightarrow> key32 \<Rightarrow> bool \<Rightarrow> string \<Rightarrow> ('w, 'e error, bytes option) io" where
  "download_group_avatar E mk managed avatar_url =
     thenE (if managed then ok () else ge_manager (ga_group E))
    (bindE (ga_fetch E avatar_url mk) (\<lambda>avatar.
       case avatar of
         None \<Rightarrow> ok None
       | Some a \<Rightarrow> ignore (ga_save E mk a avatar_url) (ok (Some a))))"

definition retrieve_group_avatar ::
  "('w, 'e, 'g, 'a, 'c) group_avatar_env \<Rightarrow> key32 \<Rightarrow> u32 \<Rightarrow> ('w, 'e error, bytes option) io" where
  "retrieve_group_avatar E mk revision =
     bindE (group_at_revision E mk revision) (\<lambda>(found, managed).
       case Option.bind found g_avatar of
         None \<Rightarrow> ok None
       | Some avatar_url \<Rightarrow>
           if avatar_url = [] then ok None
           else
             attempt (ga_cached E mk) (\<lambda>cached.
               case cached of
                 Inr (Some (url, bytes)) \<Rightarrow>
                   if url = Some avatar_url then ok (Some bytes)
                   else download_group_avatar E mk managed avatar_url
               | _ \<Rightarrow> download_group_avatar E mk managed avatar_url))"

end
