(* ===== verification/Backup_Groups.thy ===== *)
theory Backup_Groups
  imports Group_Model
begin

text \<open>
  \<open>presage/src/backup/group_change.rs\<close> and the coalescing of group changes in
  \<open>presage/src/backup/convert.rs\<close>: a backup's plaintext group history rebuilt as the encrypted
  group changes of the wire.

  The updates are the backup's protobuf messages, with the fields this code reads. The actions
  are built and encrypted by libsignal-service's \<open>GroupOperations\<close>, the dictionary \<open>backup_ops\<close>; \<open>'k\<close>
  is the random profile key it is given, one draw per update that needs one.
\<close>

section \<open>Updates and actions\<close>

datatype backup_update =
    GenericGroupUpdate "bytes option"
  | GroupCreationUpdate "bytes option"
  | GroupNameUpdate "bytes option" "string option"
  | GroupAvatarUpdate "bytes option" bool
  | GroupDescriptionUpdate "bytes option" "string option"
  | GroupMembershipAccessLevelChangeUpdate "bytes option" int
  | GroupAttributesAccessLevelChangeUpdate "bytes option" int
  | GroupAnnouncementOnlyChangeUpdate "bytes option" bool
  | GroupAdminStatusUpdate "bytes option" bytes bool
  | GroupMemberLeftUpdate bytes
  | GroupMemberRemovedUpdate "bytes option" bytes
  | SelfInvitedToGroupUpdate "bytes option"
  | SelfInvitedOtherUserToGroupUpdate bytes
  | GroupUnknownInviteeUpdate "bytes option"
  | GroupInvitationAcceptedUpdate bytes
  | GroupInvitationDeclinedUpdate "bytes option" "bytes option"
  | GroupMemberJoinedUpdate bytes
  | GroupMemberJoinedByLinkUpdate bytes
  | GroupMemberAddedUpdate "bytes option" bytes
  | GroupSelfInvitationRevokedUpdate "bytes option"
  | GroupInvitationRevokedUpdate "bytes option" "(bytes option \<times> bytes option) list"
  | GroupJoinRequestUpdate bytes
  | GroupJoinRequestApprovalUpdate "bytes option" bytes bool
  | GroupJoinRequestCanceledUpdate bytes
  | GroupSequenceOfRequestsAndCancelsUpdate bytes
  | GroupInviteLinkResetUpdate "bytes option"
  | GroupInviteLinkEnabledUpdate "bytes option" bool
  | GroupInviteLinkAdminApprovalUpdate "bytes option" bool
  | GroupInviteLinkDisabledUpdate "bytes option"
  | GroupV2MigrationUpdate
  | GroupV2MigrationSelfInvitedUpdate
  | GroupV2MigrationInvitedMembersUpdate
  | GroupV2MigrationDroppedMembersUpdate
  | GroupExpirationTimerUpdate "bytes option" u64

text \<open>\<open>Actions\<close> with every field \<open>merge_actions\<close> names.\<close>

record 'a full_actions = "'a actions" +
  modify_member_profile_keys :: "'a list"
  promote_members_pending_profile_key :: "'a list"
  add_members_pending_admin_approval :: "'a list"
  delete_members_pending_admin_approval :: "'a list"
  promote_members_pending_admin_approval :: "'a list"
  add_members_banned :: "'a list"
  delete_members_banned :: "'a list"
  promote_members_pending_pni_aci_profile_key :: "'a list"
  modify_avatar :: "'a option"
  modify_add_from_invite_link_access :: "'a option"
  modify_invite_link_password :: "'a option"
  terminate_group :: "'a option"

definition full_actions_default :: "'a full_actions" where
  "full_actions_default = actions.extend (actions_default 0)
     \<lparr>modify_member_profile_keys = [], promote_members_pending_profile_key = [],
      add_members_pending_admin_approval = [], delete_members_pending_admin_approval = [],
      promote_members_pending_admin_approval = [], add_members_banned = [],
      delete_members_banned = [], promote_members_pending_pni_aci_profile_key = [],
      modify_avatar = None, modify_add_from_invite_link_access = None,
      modify_invite_link_password = None, terminate_group = None\<rparr>"

record ('a, 'k, 'e) backup_ops = "('a, unit, 'e) group_ops" +
  build_modify_avatar :: "string \<Rightarrow> 'a"
  build_add_member :: "uuid \<Rightarrow> 'k \<Rightarrow> role \<Rightarrow> 'e + 'a"
  with_join_from_invite_link :: "bool \<Rightarrow> 'a \<Rightarrow> 'a"
  build_promote_pending_member :: "uuid \<Rightarrow> 'k \<Rightarrow> 'e + 'a"
  build_add_requesting_member :: "uuid \<Rightarrow> 'k \<Rightarrow> 'e + 'a"
  build_promote_requesting_member :: "uuid \<Rightarrow> role \<Rightarrow> 'e + 'a"
  build_remove_requesting_member :: "uuid \<Rightarrow> 'e + 'a"
  build_modify_invite_link_password :: "bytes \<Rightarrow> 'a"
  build_modify_invite_link_access :: "access_required \<Rightarrow> 'a"
  encrypt_group_change :: "uuid \<Rightarrow> 'a full_actions \<Rightarrow> 'e + bytes"

section \<open>Helpers\<close>

definition aci_bytes :: "bytes \<Rightarrow> uuid option" where "aci_bytes bs = uuid_from_slice bs"

definition opt_aci :: "bytes option \<Rightarrow> uuid option" where "opt_aci bs = Option.bind bs aci_bytes"

definition opt_pni :: "bytes option \<Rightarrow> uuid option" where "opt_pni bs = Option.bind bs uuid_from_slice"

text \<open>The numbering of the wire's \<open>AccessRequired\<close>.\<close>

definition access_level :: "int \<Rightarrow> access_required option" where
  "access_level level =
     (if level = 0 then Some Access_Unknown else if level = 1 then Some Access_Any
      else if level = 2 then Some Access_Member else if level = 3 then Some Access_Administrator
      else if level = 4 then Some Access_Unsatisfiable else None)"

definition link_access :: "bool \<Rightarrow> access_required" where
  "link_access requires_admin_approval =
     (if requires_admin_approval then Access_Administrator else Access_Any)"

definition BACKUP_AVATAR_PATH :: string where "BACKUP_AVATAR_PATH = ''backup''"

definition add_member :: "('a, 'k, 'e) backup_ops \<Rightarrow> 'k \<Rightarrow> uuid \<Rightarrow> bool \<Rightarrow> 'a full_actions option" where
  "add_member ops key a join_from_invite_link =
     map_option (\<lambda>added. full_actions_default
         \<lparr>add_members := [with_join_from_invite_link ops join_from_invite_link added]\<rparr>)
       (res_ok (build_add_member ops a key Role_Default))"

definition remove_member :: "('a, 'k, 'e) backup_ops \<Rightarrow> uuid \<Rightarrow> 'a full_actions option" where
  "remove_member ops a =
     map_option (\<lambda>x. full_actions_default\<lparr>delete_members := [x]\<rparr>) (res_ok (build_remove_member ops a))"

definition add_pending_member ::
  "('a, 'k, 'e) backup_ops \<Rightarrow> service_id \<Rightarrow> uuid \<Rightarrow> 'a full_actions option" where
  "add_pending_member ops invitee inviter =
     map_option (\<lambda>x. full_actions_default\<lparr>add_members_pending_profile_key := [x]\<rparr>)
       (res_ok (build_add_pending_member ops invitee inviter Role_Default))"

definition remove_pending_member ::
  "('a, 'k, 'e) backup_ops \<Rightarrow> service_id \<Rightarrow> 'a full_actions option" where
  "remove_pending_member ops invitee =
     map_option (\<lambda>x. full_actions_default\<lparr>delete_members_pending_profile_key := [x]\<rparr>)
       (res_ok (build_remove_pending_member ops invitee))"

definition remove_requesting_member :: "('a, 'k, 'e) backup_ops \<Rightarrow> uuid \<Rightarrow> 'a full_actions option" where
  "remove_requesting_member ops a =
     map_option (\<lambda>x. full_actions_default\<lparr>delete_members_pending_admin_approval := [x]\<rparr>)
       (res_ok (build_remove_requesting_member ops a))"

definition invite_link_access :: "('a, 'k, 'e) backup_ops \<Rightarrow> access_required \<Rightarrow> 'a full_actions" where
  "invite_link_access ops access =
     full_actions_default\<lparr>modify_add_from_invite_link_access := Some (build_modify_invite_link_access ops access)\<rparr>"

section \<open>Merging actions\<close>

text \<open>\<open>later.or(earlier)\<close>\<close>

definition later_or :: "'a option \<Rightarrow> 'a option \<Rightarrow> 'a option" where
  "later_or earlier later = (case later of Some x \<Rightarrow> Some x | None \<Rightarrow> earlier)"

definition merge_actions :: "'a full_actions \<Rightarrow> 'a full_actions \<Rightarrow> 'a full_actions" where
  "merge_actions i f = i
     \<lparr>add_members := add_members i @ add_members f,
      delete_members := delete_members i @ delete_members f,
      modify_member_roles := modify_member_roles i @ modify_member_roles f,
      modify_member_profile_keys := modify_member_profile_keys i @ modify_member_profile_keys f,
      add_members_pending_profile_key :=
        add_members_pending_profile_key i @ add_members_pending_profile_key f,
      delete_members_pending_profile_key :=
        delete_members_pending_profile_key i @ delete_members_pending_profile_key f,
      promote_members_pending_profile_key :=
        promote_members_pending_profile_key i @ promote_members_pending_profile_key f,
      add_members_pending_admin_approval :=
        add_members_pending_admin_approval i @ add_members_pending_admin_approval f,
      delete_members_pending_admin_approval :=
        delete_members_pending_admin_approval i @ delete_members_pending_admin_approval f,
      promote_members_pending_admin_approval :=
        promote_members_pending_admin_approval i @ promote_members_pending_admin_approval f,
      add_members_banned := add_members_banned i @ add_members_banned f,
      delete_members_banned := delete_members_banned i @ delete_members_banned f,
      promote_members_pending_pni_aci_profile_key :=
        promote_members_pending_pni_aci_profile_key i @ promote_members_pending_pni_aci_profile_key f,
      modify_member_labels := modify_member_labels i @ modify_member_labels f,
      modify_title := later_or (modify_title i) (modify_title f),
      modify_avatar := later_or (modify_avatar i) (modify_avatar f),
      modify_disappearing_message_timer :=
        later_or (modify_disappearing_message_timer i) (modify_disappearing_message_timer f),
      modify_attributes_access := later_or (modify_attributes_access i) (modify_attributes_access f),
      modify_member_access := later_or (modify_member_access i) (modify_member_access f),
      modify_add_from_invite_link_access :=
        later_or (modify_add_from_invite_link_access i) (modify_add_from_invite_link_access f),
      modify_invite_link_password := later_or (modify_invite_link_password i) (modify_invite_link_password f),
      modify_description := later_or (modify_description i) (modify_description f),
      modify_announcements_only := later_or (modify_announcements_only i) (modify_announcements_only f),
      modify_member_label_access := later_or (modify_member_label_access i) (modify_member_label_access f),
      terminate_group := later_or (terminate_group i) (terminate_group f)\<rparr>"

section \<open>Planning a change\<close>

text \<open>
  \<open>plan\<close>: the editor the backup names, if any, and the actions, \<open>None\<close> when the backup left out a
  participant they need. \<open>key\<close> is the placeholder profile key drawn for this update.
\<close>

definition promote_member :: "('a, 'k, 'e) backup_ops \<Rightarrow> 'k \<Rightarrow> uuid \<Rightarrow> 'a full_actions option" where
  "promote_member ops key a =
     map_option (\<lambda>x. full_actions_default\<lparr>promote_members_pending_profile_key := [x]\<rparr>)
       (res_ok (build_promote_pending_member ops a key))"

definition add_requesting_member :: "('a, 'k, 'e) backup_ops \<Rightarrow> 'k \<Rightarrow> uuid \<Rightarrow> 'a full_actions option" where
  "add_requesting_member ops key a =
     map_option (\<lambda>x. full_actions_default\<lparr>add_members_pending_admin_approval := [x]\<rparr>)
       (res_ok (build_add_requesting_member ops a key))"

definition promote_requesting_member :: "('a, 'k, 'e) backup_ops \<Rightarrow> uuid \<Rightarrow> 'a full_actions option" where
  "promote_requesting_member ops a =
     map_option (\<lambda>x. full_actions_default\<lparr>promote_members_pending_admin_approval := [x]\<rparr>)
       (res_ok (build_promote_requesting_member ops a Role_Default))"

text \<open>\<open>invitees.try_fold(..)\<close>: the invitees the backup names, all of them or nothing.\<close>

definition revoked_invitee :: "bytes option \<times> bytes option \<Rightarrow> service_id option" where
  "revoked_invitee i =
     (case opt_aci (fst i) of Some u \<Rightarrow> Some (Aci u) | None \<Rightarrow> map_option Pni (opt_pni (snd i)))"

fun revoke_all ::
  "('a, 'k, 'e) backup_ops \<Rightarrow> 'a full_actions \<Rightarrow> service_id list \<Rightarrow> 'a full_actions option" where
  "revoke_all ops all [] = Some all"
| "revoke_all ops all (i # is) =
     (case remove_pending_member ops i of
        None \<Rightarrow> None
      | Some actions \<Rightarrow> revoke_all ops (merge_actions all actions) is)"

fun plan ::
  "('a, 'k, 'e) backup_ops \<Rightarrow> (bytes \<Rightarrow> service_id option) \<Rightarrow> uuid \<Rightarrow> 'k \<Rightarrow> backup_update \<Rightarrow>
   uuid option \<times> 'a full_actions option" where
  "plan ops parse our_aci key (GenericGroupUpdate updater) = (opt_aci updater, None)"
| "plan ops parse our_aci key (GroupCreationUpdate updater) = (opt_aci updater, None)"
| "plan ops parse our_aci key (GroupNameUpdate updater new_name) =
     (opt_aci updater,
      Some (full_actions_default\<lparr>modify_title := Some (build_modify_title ops (opt_or [] new_name))\<rparr>))"
| "plan ops parse our_aci key (GroupAvatarUpdate updater was_removed) =
     (opt_aci updater,
      Some (full_actions_default\<lparr>modify_avatar := Some (build_modify_avatar ops
        (if was_removed then [] else BACKUP_AVATAR_PATH))\<rparr>))"
| "plan ops parse our_aci key (GroupDescriptionUpdate updater new_description) =
     (opt_aci updater,
      Some (full_actions_default\<lparr>modify_description :=
        Some (build_modify_description ops (opt_or [] new_description))\<rparr>))"
| "plan ops parse our_aci key (GroupMembershipAccessLevelChangeUpdate updater level) =
     (opt_aci updater,
      map_option (\<lambda>a. full_actions_default\<lparr>modify_member_access := Some (build_modify_members_access ops a)\<rparr>)
        (access_level level))"
| "plan ops parse our_aci key (GroupAttributesAccessLevelChangeUpdate updater level) =
     (opt_aci updater,
      map_option (\<lambda>a. full_actions_default\<lparr>modify_attributes_access :=
          Some (build_modify_attributes_access ops a)\<rparr>) (access_level level))"
| "plan ops parse our_aci key (GroupAnnouncementOnlyChangeUpdate updater only) =
     (opt_aci updater,
      Some (full_actions_default\<lparr>modify_announcements_only := Some (build_modify_announcements_only ops only)\<rparr>))"
| "plan ops parse our_aci key (GroupAdminStatusUpdate updater member_aci granted) =
     (opt_aci updater,
      Option.bind (aci_bytes member_aci) (\<lambda>m.
        map_option (\<lambda>x. full_actions_default\<lparr>modify_member_roles := [x]\<rparr>)
          (res_ok (build_modify_member_role ops m (if granted then Role_Administrator else Role_Default)))))"
| "plan ops parse our_aci key (GroupMemberLeftUpdate a) =
     (aci_bytes a, Option.bind (aci_bytes a) (remove_member ops))"
| "plan ops parse our_aci key (GroupMemberRemovedUpdate remover removed) =
     (opt_aci remover, Option.bind (aci_bytes removed) (remove_member ops))"
| "plan ops parse our_aci key (SelfInvitedToGroupUpdate inviter) =
     (opt_aci inviter, add_pending_member ops (Aci our_aci) (opt_or our_aci (opt_aci inviter)))"
| "plan ops parse our_aci key (SelfInvitedOtherUserToGroupUpdate invitee) =
     (Some our_aci, Option.bind (parse invitee) (\<lambda>s. add_pending_member ops s our_aci))"
| "plan ops parse our_aci key (GroupUnknownInviteeUpdate inviter) = (opt_aci inviter, None)"
| "plan ops parse our_aci key (GroupInvitationAcceptedUpdate a) =
     (aci_bytes a, Option.bind (aci_bytes a) (promote_member ops key))"
| "plan ops parse our_aci key (GroupInvitationDeclinedUpdate inviter invitee) =
     (case opt_aci invitee of
        Some i \<Rightarrow> (Some i, remove_pending_member ops (Aci i))
      | None \<Rightarrow> (opt_aci inviter, None))"
| "plan ops parse our_aci key (GroupMemberJoinedUpdate a) =
     (aci_bytes a, Option.bind (aci_bytes a) (\<lambda>j. add_member ops key j False))"
| "plan ops parse our_aci key (GroupMemberJoinedByLinkUpdate a) =
     (aci_bytes a, Option.bind (aci_bytes a) (\<lambda>j. add_member ops key j True))"
| "plan ops parse our_aci key (GroupMemberAddedUpdate updater a) =
     (opt_aci updater, Option.bind (aci_bytes a) (\<lambda>j. add_member ops key j False))"
| "plan ops parse our_aci key (GroupSelfInvitationRevokedUpdate revoker) =
     (opt_aci revoker, remove_pending_member ops (Aci our_aci))"
| "plan ops parse our_aci key (GroupInvitationRevokedUpdate updater invitees) =
     (opt_aci updater, revoke_all ops full_actions_default (List.map_filter revoked_invitee invitees))"
| "plan ops parse our_aci key (GroupJoinRequestUpdate a) =
     (aci_bytes a, Option.bind (aci_bytes a) (add_requesting_member ops key))"
| "plan ops parse our_aci key (GroupJoinRequestApprovalUpdate updater a was_approved) =
     (opt_aci updater,
      Option.bind (aci_bytes a) (\<lambda>r.
        if was_approved then promote_requesting_member ops r else remove_requesting_member ops r))"
| "plan ops parse our_aci key (GroupJoinRequestCanceledUpdate a) =
     (aci_bytes a, Option.bind (aci_bytes a) (remove_requesting_member ops))"
| "plan ops parse our_aci key (GroupSequenceOfRequestsAndCancelsUpdate a) =
     (aci_bytes a, Option.bind (aci_bytes a) (remove_requesting_member ops))"
| "plan ops parse our_aci key (GroupInviteLinkResetUpdate updater) =
     (opt_aci updater,
      Some (full_actions_default\<lparr>modify_invite_link_password := Some (build_modify_invite_link_password ops [])\<rparr>))"
| "plan ops parse our_aci key (GroupInviteLinkEnabledUpdate updater approval) =
     (opt_aci updater, Some (invite_link_access ops (link_access approval)))"
| "plan ops parse our_aci key (GroupInviteLinkAdminApprovalUpdate updater approval) =
     (opt_aci updater, Some (invite_link_access ops (link_access approval)))"
| "plan ops parse our_aci key (GroupInviteLinkDisabledUpdate updater) =
     (opt_aci updater, Some (invite_link_access ops Access_Unsatisfiable))"
| "plan ops parse our_aci key GroupV2MigrationUpdate = (None, None)"
| "plan ops parse our_aci key GroupV2MigrationSelfInvitedUpdate = (None, None)"
| "plan ops parse our_aci key GroupV2MigrationInvitedMembersUpdate = (None, None)"
| "plan ops parse our_aci key GroupV2MigrationDroppedMembersUpdate = (None, None)"
| "plan ops parse our_aci key (GroupExpirationTimerUpdate updater expires_in_ms) =
     (opt_aci updater,
      Some (full_actions_default\<lparr>modify_disappearing_message_timer :=
        Some (build_modify_timer ops (ucast (expires_in_ms div 1000)))\<rparr>))"

section \<open>The whole batch\<close>

datatype backup_group_update = Created | Change bytes

fun creation_update :: "backup_update option list \<Rightarrow> bytes option option" where
  "creation_update [] = None"
| "creation_update (Some (GroupCreationUpdate updater) # us) = Some updater"
| "creation_update (_ # us) = creation_update us"

text \<open>The loop: the later editor wins, the actions accumulate. \<open>keys\<close> are the draws of the updates.\<close>

fun plan_updates ::
  "('a, 'k, 'e) backup_ops \<Rightarrow> (bytes \<Rightarrow> service_id option) \<Rightarrow> uuid \<Rightarrow> uuid option \<Rightarrow> 'a full_actions \<Rightarrow>
   ('k \<times> backup_update) list \<Rightarrow> uuid option \<times> 'a full_actions" where
  "plan_updates ops parse our_aci editor merged [] = (editor, merged)"
| "plan_updates ops parse our_aci editor merged ((key, u) # us) =
     (let (update_editor, actions) = plan ops parse our_aci key u in
      plan_updates ops parse our_aci (later_or editor update_editor)
        (case actions of None \<Rightarrow> merged | Some a \<Rightarrow> merge_actions merged a) us)"

fun keyed_updates :: "('k \<times> backup_update option) list \<Rightarrow> ('k \<times> backup_update) list" where
  "keyed_updates [] = []"
| "keyed_updates ((k, None) # us) = keyed_updates us"
| "keyed_updates ((k, Some u) # us) = (k, u) # keyed_updates us"

definition plan_group_update ::
  "('a, 'k, 'e) backup_ops \<Rightarrow> (bytes \<Rightarrow> service_id option) \<Rightarrow> ('k \<times> backup_update option) list \<Rightarrow>
   uuid \<Rightarrow> uuid \<Rightarrow> (uuid \<times> backup_group_update) option" where
  "plan_group_update ops parse updates our_aci fallback_editor =
     (case creation_update (map snd updates) of
        Some updater \<Rightarrow> Some (opt_or fallback_editor (opt_aci updater), Created)
      | None \<Rightarrow>
          let (named, merged) = plan_updates ops parse our_aci None full_actions_default (keyed_updates updates);
              editor = opt_or fallback_editor named in
          map_option (\<lambda>change. (editor, Change change)) (res_ok (encrypt_group_change ops editor merged)))"

section \<open>Coalescing the items of one change\<close>

text \<open>A backup's chat item: what dates it, and the updates if it is a group change.\<close>

datatype 'x chat_item_kind = GroupChangeItem "backup_update option list" | OtherItem 'x

record 'x chat_item =
  ci_chat_id :: u64
  ci_author_id :: u64
  ci_date_sent :: u64
  ci_item :: "'x chat_item_kind"

definition group_change_updates :: "('x, 'm) chat_item_scheme \<Rightarrow> backup_update option list option" where
  "group_change_updates i = (case ci_item i of GroupChangeItem us \<Rightarrow> Some us | OtherItem _ \<Rightarrow> None)"

definition same_group_change_run :: "('x, 'm) chat_item_scheme \<Rightarrow> ('x, 'm) chat_item_scheme \<Rightarrow> bool" where
  "same_group_change_run held item \<longleftrightarrow>
     ci_chat_id held = ci_chat_id item \<and> ci_author_id held = ci_author_id item \<and>
     ci_date_sent held = ci_date_sent item \<and> group_change_updates item \<noteq> None"

text \<open>\<open>into.extend(from)\<close>\<close>

definition absorb :: "('x, 'm) chat_item_scheme \<Rightarrow> ('x, 'm) chat_item_scheme \<Rightarrow> ('x, 'm) chat_item_scheme" where
  "absorb held item =
     (case (group_change_updates held, group_change_updates item) of
        (Some a, Some b) \<Rightarrow> held\<lparr>ci_item := GroupChangeItem (a @ b)\<rparr>
      | _ \<Rightarrow> held)"

text \<open>The items now ready, and the one held back.\<close>

definition coalesce_group_changes ::
  "('x, 'm) chat_item_scheme option \<Rightarrow> ('x, 'm) chat_item_scheme \<Rightarrow> ('x, 'm) chat_item_scheme list \<times> ('x, 'm) chat_item_scheme option" where
  "coalesce_group_changes pending item =
     (let start = (\<lambda>ready. if group_change_updates item \<noteq> None then (ready, Some item)
                           else (ready @ [item], None)) in
      case pending of
        Some held \<Rightarrow>
          if same_group_change_run held item then ([], Some (absorb held item)) else start [held]
      | None \<Rightarrow> start [])"

end
