(* ===== verification/Backup_Rows.thy ===== *)
theory Backup_Rows
  imports Backup_Groups Calls Messages Contacts
begin

text \<open>
  \<open>presage/src/backup/convert.rs\<close>: the frames of a backup as the rows, contacts and groups a live
  client would have stored. The backup's protobuf messages are records and datatypes with the fields
  the converter reads; \<open>import_codec\<close> holds what other crates supply: the numbers of generated enums,
  the conversion of milliseconds to a date, the rendering of service ids, and libsignal's group
  operations. The converter caches the latter per group, which changes no value; they are
  a function of the master key here.
\<close>

section \<open>The backup's messages\<close>

datatype integrity_check = EncryptedDigest bytes | PlaintextHash bytes

record locator_info =
  li_transit_cdn_key :: "string option"
  li_integrity_check :: "integrity_check option"
  li_key :: bytes
  li_transit_cdn_number :: "u32 option"
  li_size :: u32
  li_transit_tier_upload_timestamp :: "u64 option"

record file_pointer =
  fp_locator_info :: "locator_info option"
  fp_content_type :: "string option"
  fp_file_name :: "string option"
  fp_width :: "u32 option"
  fp_height :: "u32 option"
  fp_caption :: "string option"
  fp_blur_hash :: "string option"
  fp_incremental_mac :: "bytes option"
  fp_incremental_mac_chunk_size :: "u32 option"

datatype attachment_flag = AttachmentFlag_None | AttachmentFlag_VoiceMessage | AttachmentFlag_Borderless | AttachmentFlag_Gif

record message_attachment =
  ma_pointer :: "file_pointer option"
  ma_flag :: int

datatype backup_range_value = BackupMentionAci bytes | BackupStyle int

record backup_range =
  bra_start :: u32
  bra_length :: u32
  bra_associated_value :: "backup_range_value option"

record backup_text =
  bt_body :: string
  bt_body_ranges :: "backup_range list"

datatype backup_quote_type = BackupQuote_Unknown | BackupQuote_Normal | BackupQuote_GiftBadge | BackupQuote_ViewOnce | BackupQuote_Poll

record backup_quote =
  bq_target_sent_timestamp :: "u64 option"
  bq_author_id :: u64
  bq_text :: "backup_text option"
  bq_type :: backup_quote_type

record link_preview =
  lp_url :: string
  lp_title :: "string option"
  lp_image :: "file_pointer option"
  lp_description :: "string option"
  lp_date :: "u64 option"

record backup_sticker =
  bs_pack_id :: bytes
  bs_pack_key :: bytes
  bs_sticker_id :: u32
  bs_data :: "file_pointer option"
  bs_emoji :: "string option"

record backup_reaction =
  br_emoji :: string
  br_author_id :: u64
  br_sent_timestamp :: u64

record standard_message =
  sm_text :: "backup_text option"
  sm_attachments :: "message_attachment list"
  sm_quote :: "backup_quote option"
  sm_link_preview :: "link_preview list"
  sm_reactions :: "backup_reaction list"

record sticker_message =
  st_sticker :: "backup_sticker option"
  st_reactions :: "backup_reaction list"

datatype individual_call_type = IndividualCall_AudioCall | IndividualCall_VideoCall | IndividualCall_UnknownType
datatype individual_call_direction = IndividualCall_Incoming | IndividualCall_Outgoing | IndividualCall_UnknownDirection
datatype individual_call_state =
    IndividualCall_Accepted | IndividualCall_NotAccepted | IndividualCall_Missed
  | IndividualCall_MissedNotificationProfile | IndividualCall_UnknownState

record individual_call =
  ic_call_id :: "u64 option"
  ic_type :: int
  ic_direction :: int
  ic_state :: int
  ic_started_call_timestamp :: u64

datatype group_call_state =
    GroupCall_Generic | GroupCall_Joined | GroupCall_Ringing | GroupCall_Accepted | GroupCall_Declined
  | GroupCall_Missed | GroupCall_MissedNotificationProfile | GroupCall_OutgoingRing | GroupCall_UnknownState

record group_call =
  gcl_call_id :: "u64 option"
  gcl_state :: int
  gcl_started_call_recipient_id :: "u64 option"
  gcl_started_call_timestamp :: u64

datatype simple_update_type = Simple_Blocked | Simple_Unblocked | Simple_Other

text \<open>The updates of a chat but for group changes, which \<open>chat_item_kind\<close> keeps apart.\<close>

datatype chat_update =
    IndividualCall individual_call
  | GroupCall group_call
  | SimpleUpdate simple_update_type
  | ExpirationTimerChange u64
  | PollTerminate u64
  | PinMessageUpdate u64 u64
  | OtherUpdate

datatype other_item =
    StandardMessage standard_message
  | StickerMessage sticker_message
  | UpdateMessage "chat_update option"
  | UnknownItem

datatype delivery_status =
    Delivery_Pending | Delivery_Sent | Delivery_Delivered | Delivery_Read | Delivery_Viewed
  | Delivery_Skipped | Delivery_Failed

record send_status =
  ss_recipient_id :: u64
  ss_timestamp :: u64
  ss_delivery_status :: "delivery_status option"

datatype directional_details =
    DirectionIncoming u64 bool            \<comment> \<open>\<open>date_received\<close>, \<open>read\<close>\<close>
  | DirectionOutgoing u64 "send_status list"   \<comment> \<open>\<open>date_received\<close>, \<open>send_status\<close>\<close>
  | Directionless

datatype pin_expiry = PinExpiresAt u64 | PinNeverExpires

record pin_details =
  pd_pinned_at :: u64
  pd_expiry :: "pin_expiry option"

text \<open>A version of an item, and an item with its earlier versions; nobody reads the revisions of a revision.\<close>

record item_version = "other_item chat_item" +
  ci_directional_details :: "directional_details option"

record backup_item = item_version +
  ci_revisions :: "item_version list"
  ci_pin_details :: "pin_details option"

definition the_version :: "backup_item \<Rightarrow> item_version" where
  "the_version i =
     \<lparr>ci_chat_id = ci_chat_id i, ci_author_id = ci_author_id i, ci_date_sent = ci_date_sent i,
      ci_item = ci_item i, ci_directional_details = ci_directional_details i\<rparr>"

record backup_contact =
  bc_aci :: "bytes option"
  bc_pni :: "bytes option"
  bc_e164 :: "u64 option"
  bc_username :: "string option"
  bc_blocked :: bool
  bc_hide_story :: bool
  bc_profile_key :: "bytes option"
  bc_profile_given_name :: "string option"
  bc_profile_family_name :: "string option"
  bc_nickname :: "(string \<times> string) option"
  bc_note :: string
  bc_system_given_name :: string
  bc_system_family_name :: string
  bc_system_nickname :: string

datatype group_blob = BlobTitle string | BlobOther

text \<open>\<open>bg_snapshot\<close> is the snapshot's title: the snapshot, its title and the title's content may each be unset.\<close>

record backup_group =
  bg_master_key :: bytes
  bg_whitelisted :: bool
  bg_hide_story :: bool
  bg_story_send_mode :: int
  bg_blocked :: bool
  bg_snapshot :: "group_blob option option option"

datatype recipient_destination = DestinationContact backup_contact | DestinationGroup backup_group | DestinationSelf | DestinationOther

record backup_recipient =
  rp_id :: u64
  rp_destination :: "recipient_destination option"

record backup_chat =
  bch_id :: u64
  bch_recipient_id :: u64

record account_data =
  ad_given_name :: string
  ad_family_name :: string
  ad_avatar_url_path :: string
  ad_bio_text :: string
  ad_bio_emoji :: string

section \<open>What other crates supply\<close>

record ('a, 'k, 'e) import_codec =
  im_codec :: codec
  im_contact_codec :: contact_codec
  im_millis :: "u64 \<Rightarrow> u64 option"
  im_default_device :: u8
  im_flag_voice_message :: u32
  im_flag_borderless :: u32
  im_flag_gif :: u32
  im_flag_expiration_timer_update :: u32
  im_attachment_flag :: "int \<Rightarrow> attachment_flag option"
  im_individual_type :: "int \<Rightarrow> individual_call_type option"
  im_individual_direction :: "int \<Rightarrow> individual_call_direction option"
  im_individual_state :: "int \<Rightarrow> individual_call_state option"
  im_group_state :: "int \<Rightarrow> group_call_state option"
  im_type_number :: "proto_type \<Rightarrow> int"
  im_direction_number :: "proto_direction \<Rightarrow> int"
  im_event_number :: "proto_event \<Rightarrow> int"
  im_group_identifier :: "key32 \<Rightarrow> bytes"
  im_group_operations :: "key32 \<Rightarrow> ('a, 'k, 'e) backup_ops"
  im_parse_invitee :: "bytes \<Rightarrow> service_id option"
  im_draw :: "nat \<Rightarrow> 'k"

section \<open>Recipients and chats\<close>

record recipient_info =
  ri_service_id :: "service_id option"
  ri_group_master_key :: "key32 option"

definition recipient_info :: "backup_recipient \<Rightarrow> uuid \<Rightarrow> (u64 \<times> recipient_info) option" where
  "recipient_info r our_aci =
     map_option (Pair (rp_id r))
       (case rp_destination r of
          None \<Rightarrow> None
        | Some (DestinationContact c) \<Rightarrow>
            Some \<lparr>ri_service_id = map_option Aci (Option.bind (bc_aci c) aci_bytes), ri_group_master_key = None\<rparr>
        | Some (DestinationGroup g) \<Rightarrow>
            if length (bg_master_key g) = 32
            then Some \<lparr>ri_service_id = None, ri_group_master_key = key32_from_slice (bg_master_key g)\<rparr>
            else None
        | Some DestinationSelf \<Rightarrow> Some \<lparr>ri_service_id = Some (Aci our_aci), ri_group_master_key = None\<rparr>
        | Some DestinationOther \<Rightarrow> None)"

type_synonym recipients = "u64 \<rightharpoonup> recipient_info"
type_synonym chats = "u64 \<rightharpoonup> thread"

definition chat_to_thread :: "backup_chat \<Rightarrow> recipients \<Rightarrow> (u64 \<times> thread) option" where
  "chat_to_thread c recipients =
     Option.bind (recipients (bch_recipient_id c)) (\<lambda>ri.
     map_option (Pair (bch_id c))
       (case ri_group_master_key ri of
          Some key \<Rightarrow> Some (GroupThread key)
        | None \<Rightarrow> map_option ContactThread (ri_service_id ri)))"

definition resolved :: "recipients \<Rightarrow> u64 \<Rightarrow> service_id option" where
  "resolved recipients author = Option.bind (recipients author) ri_service_id"

section \<open>Attachments and the parts of a message\<close>

definition file_pointer_to_attachment_pointer :: "file_pointer \<Rightarrow> u32 option \<Rightarrow> attachment_pointer option" where
  "file_pointer_to_attachment_pointer fp flags =
     Option.bind (fp_locator_info fp) (\<lambda>locator.
     Option.bind (li_transit_cdn_key locator) (\<lambda>cdn_key.
       let digest = (case li_integrity_check locator of
             Some (EncryptedDigest d) \<Rightarrow> Some d
           | Some (PlaintextHash _) \<Rightarrow> None
           | None \<Rightarrow> None);
           key = (if li_key locator = [] then None else Some (li_key locator))
       in Some
         \<lparr>ap_attachment_identifier = Some (CdnKey cdn_key), ap_cdn_number = li_transit_cdn_number locator,
          ap_content_type = fp_content_type fp, ap_key = key, ap_size = Some (li_size locator),
          ap_digest = digest, ap_file_name = fp_file_name fp, ap_flags = flags, ap_width = fp_width fp,
          ap_height = fp_height fp, ap_caption = fp_caption fp, ap_blur_hash = fp_blur_hash fp,
          ap_upload_timestamp = li_transit_tier_upload_timestamp locator,
          ap_incremental_mac = fp_incremental_mac fp,
          ap_chunk_size = fp_incremental_mac_chunk_size fp\<rparr>))"

definition message_attachment_to_pointer ::
  "('a, 'k, 'e) import_codec \<Rightarrow> message_attachment \<Rightarrow> attachment_pointer option" where
  "message_attachment_to_pointer I a =
     Option.bind (ma_pointer a) (\<lambda>fp.
       file_pointer_to_attachment_pointer fp
         (case opt_or AttachmentFlag_None (im_attachment_flag I (ma_flag a)) of
            AttachmentFlag_None \<Rightarrow> None
          | AttachmentFlag_VoiceMessage \<Rightarrow> Some (im_flag_voice_message I)
          | AttachmentFlag_Borderless \<Rightarrow> Some (im_flag_borderless I)
          | AttachmentFlag_Gif \<Rightarrow> Some (im_flag_gif I)))"

definition backup_body_ranges_to_wire :: "backup_text option \<Rightarrow> body_range list" where
  "backup_body_ranges_to_wire text =
     (case text of
        None \<Rightarrow> []
      | Some t \<Rightarrow>
          List.map_filter (\<lambda>br. map_option (\<lambda>v.
              \<lparr>rg_start = Some (bra_start br), rg_length = Some (bra_length br),
               rg_associated_value = Some (case v of
                   BackupMentionAci aci \<Rightarrow> MentionAciBinary aci
                 | BackupStyle style \<Rightarrow> RangeStyle style)\<rparr>) (bra_associated_value br))
            (bt_body_ranges t))"

definition backup_quote_to_dm_quote ::
  "('a, 'k, 'e) import_codec \<Rightarrow> backup_quote \<Rightarrow> recipients \<Rightarrow> message_quote option" where
  "backup_quote_to_dm_quote I q recipients =
     map_option (\<lambda>author.
         \<lparr>mq_id = bq_target_sent_timestamp q,
          mq_author_aci = Some (service_id_string (im_codec I) (Aci author)),
          mq_author_aci_binary = Some (uuid_bytes author),
          mq_text = map_option bt_body (bq_text q),
          mq_body_ranges = backup_body_ranges_to_wire (bq_text q),
          mq_type = Some (case bq_type q of
              BackupQuote_GiftBadge \<Rightarrow> Quote_GiftBadge
            | BackupQuote_Poll \<Rightarrow> Quote_Poll
            | _ \<Rightarrow> Quote_Normal)\<rparr>)
       (Option.bind (resolved recipients (bq_author_id q)) sid_aci)"

definition backup_link_preview_to_preview :: "link_preview \<Rightarrow> message_preview" where
  "backup_link_preview_to_preview lp =
     \<lparr>mp_url = Some (lp_url lp), mp_title = lp_title lp,
      mp_image = Option.bind (lp_image lp) (\<lambda>fp. file_pointer_to_attachment_pointer fp None),
      mp_description = lp_description lp, mp_date = lp_date lp\<rparr>"

definition backup_sticker_to_dm_sticker :: "backup_sticker \<Rightarrow> message_sticker" where
  "backup_sticker_to_dm_sticker s =
     \<lparr>ms_pack_id = Some (bs_pack_id s), ms_pack_key = Some (bs_pack_key s), ms_sticker_id = Some (bs_sticker_id s),
      ms_data = Option.bind (bs_data s) (\<lambda>fp. file_pointer_to_attachment_pointer fp None),
      ms_emoji = bs_emoji s\<rparr>"

section \<open>Envelopes\<close>

record imported_content =
  imp_content :: content
  imp_thread :: thread
  imp_received_at_ms :: u64

text \<open>A time chrono cannot represent becomes the epoch.\<close>

definition imported_metadata ::
  "('a, 'k, 'e) import_codec \<Rightarrow> service_id \<Rightarrow> service_id \<Rightarrow> u64 \<Rightarrow> metadata" where
  "imported_metadata I sender destination timestamp =
     (let at = opt_or 0 (im_millis I timestamp) in
      \<lparr>md_sender = sender, md_destination = destination, md_sender_device = im_default_device I,
       md_client_timestamp = at, md_server_timestamp = at, md_needs_receipt = False,
       md_unidentified_sender = False, md_server_guid = None, md_was_plaintext = False,
       md_report_spam_token = None, md_pni_verified = None\<rparr>)"

definition dm_content ::
  "('a, 'k, 'e) import_codec \<Rightarrow> data_message \<Rightarrow> service_id \<Rightarrow> thread \<Rightarrow> uuid \<Rightarrow> u64 \<Rightarrow> content" where
  "dm_content I dm sender t our_aci timestamp =
     (if sid_aci sender = Some our_aci then
        \<lparr>ct_metadata = imported_metadata I sender
           (case t of ContactThread sid \<Rightarrow> sid | GroupThread _ \<Rightarrow> Aci our_aci) timestamp,
         ct_body = SynchronizeMessage (Some (SyncSent
           \<lparr>sent_destination_service_id =
              (case t of ContactThread sid \<Rightarrow> Some (service_id_string (im_codec I) sid) | GroupThread _ \<Rightarrow> None),
            sent_destination_service_id_binary = None, sent_timestamp = Some timestamp,
            sent_message = Some dm, sent_edit_message = None\<rparr>)) []\<rparr>
      else
        \<lparr>ct_metadata = imported_metadata I sender (Aci our_aci) timestamp, ct_body = DataMessage dm\<rparr>)"

section \<open>The versions of an item\<close>

definition first_version :: "backup_item \<Rightarrow> item_version" where
  "first_version i = (case ci_revisions i of [] \<Rightarrow> the_version i | v # _ \<Rightarrow> v)"

definition chat_item_sent_ms :: "backup_item \<Rightarrow> u64" where
  "chat_item_sent_ms i = ci_date_sent (first_version i)"

definition arrival_ms :: "item_version \<Rightarrow> u64" where
  "arrival_ms v =
     (let date_received = (case ci_directional_details v of
            Some (DirectionIncoming received _) \<Rightarrow> Some received
          | Some (DirectionOutgoing received _) \<Rightarrow> Some received
          | _ \<Rightarrow> None)
      in case date_received of
           Some ms \<Rightarrow> if ms > 0 then ms else ci_date_sent v
         | None \<Rightarrow> ci_date_sent v)"

text \<open>Each version after the first, with the version it replaced.\<close>

definition edits :: "backup_item \<Rightarrow> (item_version \<times> item_version) list" where
  "edits i = zip (ci_revisions i) (drop 1 (ci_revisions i) @ [the_version i])"

definition item_author :: "backup_item \<Rightarrow> recipients \<Rightarrow> uuid \<Rightarrow> service_id" where
  "item_author i recipients our_aci = opt_or (Aci our_aci) (resolved recipients (ci_author_id i))"

definition message_sender :: "backup_item \<Rightarrow> recipients \<Rightarrow> uuid \<Rightarrow> service_id option" where
  "message_sender i recipients our_aci =
     (case ci_directional_details i of
        None \<Rightarrow> None
      | Some (DirectionOutgoing _ _) \<Rightarrow> Some (Aci our_aci)
      | Some (DirectionIncoming _ _) \<Rightarrow> resolved recipients (ci_author_id i)
      | Some Directionless \<Rightarrow> None)"

section \<open>Messages\<close>

definition reactions_to_contents ::
  "('a, 'k, 'e) import_codec \<Rightarrow> backup_reaction list \<Rightarrow> backup_item \<Rightarrow> u64 \<Rightarrow> recipients \<Rightarrow> thread \<Rightarrow> uuid \<Rightarrow>
   imported_content list" where
  "reactions_to_contents I reactions parent parent_timestamp recipients t our_aci =
     (let parent_author = opt_or our_aci (Option.bind (resolved recipients (ci_author_id parent)) sid_aci) in
      List.map_filter (\<lambda>reaction. map_option (\<lambda>author.
          let dm = data_message_default
            \<lparr>dm_reaction := Some
               \<lparr>mr_emoji = Some (br_emoji reaction), mr_remove = Some False,
                mr_target_author_aci = Some (service_id_string (im_codec I) (Aci parent_author)),
                mr_target_author_aci_binary = Some (uuid_bytes parent_author),
                mr_target_sent_timestamp = Some parent_timestamp\<rparr>,
             dm_timestamp := Some (br_sent_timestamp reaction)\<rparr>
          in \<lparr>imp_content = dm_content I dm author t our_aci (br_sent_timestamp reaction),
              imp_thread = t, imp_received_at_ms = br_sent_timestamp reaction\<rparr>)
          (resolved recipients (br_author_id reaction)))
        reactions)"

definition wrap_dm_with_reactions ::
  "('a, 'k, 'e) import_codec \<Rightarrow> data_message \<Rightarrow> backup_reaction list \<Rightarrow> backup_item \<Rightarrow> thread \<Rightarrow> recipients \<Rightarrow>
   uuid \<Rightarrow> u64 \<Rightarrow> imported_content list" where
  "wrap_dm_with_reactions I dm reactions i t recipients our_aci timestamp =
     (case message_sender i recipients our_aci of
        None \<Rightarrow> []
      | Some sender \<Rightarrow>
          \<lparr>imp_content = dm_content I dm sender t our_aci timestamp, imp_thread = t,
           imp_received_at_ms = arrival_ms (first_version i)\<rparr>
          # reactions_to_contents I reactions i timestamp recipients t our_aci)"

definition standard_data_message ::
  "('a, 'k, 'e) import_codec \<Rightarrow> standard_message \<Rightarrow> recipients \<Rightarrow> u64 \<Rightarrow> data_message" where
  "standard_data_message I sm recipients timestamp =
     data_message_default
       \<lparr>dm_body := map_option bt_body (sm_text sm),
        dm_body_ranges := backup_body_ranges_to_wire (sm_text sm),
        dm_attachments := List.map_filter (message_attachment_to_pointer I) (sm_attachments sm),
        dm_quote := Option.bind (sm_quote sm) (\<lambda>q. backup_quote_to_dm_quote I q recipients),
        dm_preview := map backup_link_preview_to_preview (sm_link_preview sm),
        dm_timestamp := Some timestamp\<rparr>"

definition edit_row ::
  "('a, 'k, 'e) import_codec \<Rightarrow> thread \<Rightarrow> recipients \<Rightarrow> uuid \<Rightarrow> service_id \<Rightarrow> item_version \<times> item_version \<Rightarrow>
   imported_content option" where
  "edit_row I t recipients our_aci sender e =
     (case e of (previous, version) \<Rightarrow>
        (case ci_item version of
           OtherItem (StandardMessage sm) \<Rightarrow>
             Some \<lparr>imp_content =
                     \<lparr>ct_metadata = imported_metadata I sender (Aci our_aci) (ci_date_sent version),
                      ct_body = EditMessage
                        \<lparr>em_target_sent_timestamp = Some (ci_date_sent previous),
                         em_data_message = Some (standard_data_message I sm recipients (ci_date_sent version))\<rparr>\<rparr>,
                   imp_thread = t, imp_received_at_ms = arrival_ms version\<rparr>
         | _ \<Rightarrow> None))"

definition edit_rows ::
  "('a, 'k, 'e) import_codec \<Rightarrow> backup_item \<Rightarrow> thread \<Rightarrow> recipients \<Rightarrow> uuid \<Rightarrow> imported_content list" where
  "edit_rows I i t recipients our_aci =
     (case message_sender i recipients our_aci of
        None \<Rightarrow> []
      | Some sender \<Rightarrow> List.map_filter (edit_row I t recipients our_aci sender) (edits i))"

definition standard_message_to_contents ::
  "('a, 'k, 'e) import_codec \<Rightarrow> standard_message \<Rightarrow> backup_item \<Rightarrow> thread \<Rightarrow> recipients \<Rightarrow> uuid \<Rightarrow> u64 \<Rightarrow>
   imported_content list" where
  "standard_message_to_contents I sm i t recipients our_aci timestamp =
     wrap_dm_with_reactions I (standard_data_message I sm recipients timestamp) (sm_reactions sm) i t recipients
       our_aci timestamp
     @ edit_rows I i t recipients our_aci"

definition sticker_message_to_contents ::
  "('a, 'k, 'e) import_codec \<Rightarrow> sticker_message \<Rightarrow> backup_item \<Rightarrow> thread \<Rightarrow> recipients \<Rightarrow> uuid \<Rightarrow> u64 \<Rightarrow>
   imported_content list" where
  "sticker_message_to_contents I sm i t recipients our_aci timestamp =
     wrap_dm_with_reactions I
       (data_message_default
          \<lparr>dm_sticker := map_option backup_sticker_to_dm_sticker (st_sticker sm), dm_timestamp := Some timestamp\<rparr>)
       (st_reactions sm) i t recipients our_aci timestamp"

end
