(* ===== verification/Backup_Items.thy ===== *)
theory Backup_Items
  imports Backup_Rows
begin

text \<open>
  The rest of \<open>presage/src/backup/convert.rs\<close>: calls, updates and group changes as wire messages, the
  dispatch of an item (\<open>chat_item_to_contents\<close>), the read, delivery, pin and edit state restored on
  the rows, and the contacts, groups and profile a backup brings.
\<close>

section \<open>Calls\<close>

definition call_content :: "('a, 'k, 'e) import_codec \<Rightarrow> call_event \<Rightarrow> uuid \<Rightarrow> u64 \<Rightarrow> content" where
  "call_content I ev our_aci call_ts =
     \<lparr>ct_metadata = imported_metadata I (Aci our_aci) (Aci our_aci) call_ts,
      ct_body = SynchronizeMessage (Some (SyncCallEvent ev)) []\<rparr>"

definition individual_call_to_contents ::
  "('a, 'k, 'e) import_codec \<Rightarrow> individual_call \<Rightarrow> thread \<Rightarrow> uuid \<Rightarrow> u64 \<Rightarrow> imported_content list" where
  "individual_call_to_contents I c t our_aci fallback_ts =
     (case t of
        GroupThread _ \<Rightarrow> []
      | ContactThread peer \<Rightarrow>
          let wire_type = (case im_individual_type I (ic_type c) of
                Some IndividualCall_VideoCall \<Rightarrow> P_VideoCall | _ \<Rightarrow> P_AudioCall);
              wire_dir = (case im_individual_direction I (ic_direction c) of
                Some IndividualCall_Outgoing \<Rightarrow> P_Outgoing | _ \<Rightarrow> P_Incoming);
              wire_event = (case im_individual_state I (ic_state c) of
                Some IndividualCall_Missed \<Rightarrow> P_NotAccepted
              | Some IndividualCall_MissedNotificationProfile \<Rightarrow> P_NotAccepted
              | Some IndividualCall_NotAccepted \<Rightarrow> P_NotAccepted
              | _ \<Rightarrow> P_Accepted);
              call_ts = (if ic_started_call_timestamp c \<noteq> 0 then ic_started_call_timestamp c else fallback_ts)
          in [\<lparr>imp_content = call_content I
                 \<lparr>ce_type = Some (im_type_number I wire_type), ce_direction = Some (im_direction_number I wire_dir),
                  ce_event = Some (im_event_number I wire_event), ce_call_id = ic_call_id c,
                  ce_conversation_id = Some (uuid_bytes (raw_uuid peer)), ce_timestamp = Some call_ts\<rparr>
                 our_aci call_ts,
               imp_thread = t, imp_received_at_ms = call_ts\<rparr>])"

definition group_call_to_contents ::
  "('a, 'k, 'e) import_codec \<Rightarrow> group_call \<Rightarrow> thread \<Rightarrow> recipients \<Rightarrow> uuid \<Rightarrow> u64 \<Rightarrow> imported_content list" where
  "group_call_to_contents I c t recipients our_aci fallback_ts =
     (case t of
        ContactThread _ \<Rightarrow> []
      | GroupThread mk \<Rightarrow>
          let state = opt_or GroupCall_Generic (im_group_state I (gcl_state c));
              started_by_us =
                (case Option.bind (Option.bind (gcl_started_call_recipient_id c) (resolved recipients)) sid_aci of
                   Some a \<Rightarrow> a = our_aci
                 | None \<Rightarrow> state = GroupCall_OutgoingRing);
              wire_dir = (if started_by_us then P_Outgoing else P_Incoming);
              wire_event = (case state of
                GroupCall_Joined \<Rightarrow> P_Accepted
              | GroupCall_Accepted \<Rightarrow> P_Accepted
              | GroupCall_Missed \<Rightarrow> P_NotAccepted
              | GroupCall_MissedNotificationProfile \<Rightarrow> P_NotAccepted
              | GroupCall_Declined \<Rightarrow> P_NotAccepted
              | _ \<Rightarrow> P_Observed);
              call_ts = (if gcl_started_call_timestamp c \<noteq> 0 then gcl_started_call_timestamp c else fallback_ts)
          in [\<lparr>imp_content = call_content I
                 \<lparr>ce_type = Some (im_type_number I P_GroupCall), ce_direction = Some (im_direction_number I wire_dir),
                  ce_event = Some (im_event_number I wire_event), ce_call_id = gcl_call_id c,
                  ce_conversation_id = Some (im_group_identifier I mk), ce_timestamp = Some call_ts\<rparr>
                 our_aci call_ts,
               imp_thread = t, imp_received_at_ms = call_ts\<rparr>])"

section \<open>Updates\<close>

definition simple_update_to_contents ::
  "('a, 'k, 'e) import_codec \<Rightarrow> simple_update_type \<Rightarrow> thread \<Rightarrow> uuid \<Rightarrow> u64 \<Rightarrow> imported_content list" where
  "simple_update_to_contents I u t our_aci timestamp =
     (case t of
        GroupThread _ \<Rightarrow> []
      | ContactThread peer \<Rightarrow>
          (case (case u of Simple_Blocked \<Rightarrow> Some MRR_Block | Simple_Unblocked \<Rightarrow> Some MRR_Accept | Simple_Other \<Rightarrow> None) of
             None \<Rightarrow> []
           | Some mrr \<Rightarrow>
               [\<lparr>imp_content =
                   \<lparr>ct_metadata = imported_metadata I (Aci our_aci) peer timestamp,
                    ct_body = SynchronizeMessage (Some (SyncMessageRequestResponse
                      \<lparr>mrr_thread_aci_binary = Some (uuid_bytes (raw_uuid peer)), mrr_type = Some mrr\<rparr>)) []\<rparr>,
                 imp_thread = t, imp_received_at_ms = timestamp\<rparr>]))"

text \<open>\<open>im_draw\<close> is the random profile key drawn for each update in turn.\<close>

definition group_change_data_message ::
  "('a, 'k, 'e) import_codec \<Rightarrow> backup_update option list \<Rightarrow> thread \<Rightarrow> service_id \<Rightarrow> uuid \<Rightarrow>
   (service_id \<times> data_message) option" where
  "group_change_data_message I updates t author our_aci =
     (case t of
        ContactThread _ \<Rightarrow> None
      | GroupThread mk \<Rightarrow>
          if updates = [] then None
          else map_option (\<lambda>(editor, update).
              let (revision, change) = (case update of
                    Created \<Rightarrow> (Some 0, None)
                  | Change change \<Rightarrow> (None, Some change))
              in (Aci editor, data_message_default\<lparr>dm_group_v2 := Some
                   \<lparr>gc_master_key = Some (key32_bytes mk), gc_revision = revision, gc_group_change = change\<rparr>\<rparr>))
            (plan_group_update (im_group_operations I mk) (im_parse_invitee I)
               (map (\<lambda>(n, u). (im_draw I n, u)) (enumerate 0 updates)) our_aci
               (opt_or our_aci (sid_aci author))))"

text \<open>The sender and the message of an update that is a data message on the wire.\<close>

definition update_message ::
  "('a, 'k, 'e) import_codec \<Rightarrow> other_item chat_item_kind \<Rightarrow> backup_item \<Rightarrow> thread \<Rightarrow> recipients \<Rightarrow> uuid \<Rightarrow>
   (service_id \<times> data_message) option" where
  "update_message I update i t recipients our_aci =
     (let author = item_author i recipients our_aci in
      case update of
        GroupChangeItem updates \<Rightarrow> group_change_data_message I updates t author our_aci
      | OtherItem (UpdateMessage (Some (ExpirationTimerChange expires_in_ms))) \<Rightarrow>
          Some (author, data_message_default
            \<lparr>dm_flags := Some (im_flag_expiration_timer_update I),
             dm_expire_timer := Some (ucast (expires_in_ms div 1000))\<rparr>)
      | OtherItem (UpdateMessage (Some (PollTerminate target))) \<Rightarrow>
          Some (author, data_message_default\<lparr>dm_poll_terminate := Some (Some target)\<rparr>)
      | OtherItem (UpdateMessage (Some (PinMessageUpdate author_id target))) \<Rightarrow>
          map_option (\<lambda>target_author. (author, data_message_default\<lparr>dm_pin_message := Some
               \<lparr>pn_target_author_aci_binary = Some (uuid_bytes (raw_uuid target_author)),
                pn_target_sent_timestamp = Some target, pn_pin_duration_seconds = None\<rparr>\<rparr>))
            (resolved recipients author_id)
      | _ \<Rightarrow> None)"

definition update_row ::
  "('a, 'k, 'e) import_codec \<Rightarrow> other_item chat_item_kind \<Rightarrow> backup_item \<Rightarrow> thread \<Rightarrow> recipients \<Rightarrow> uuid \<Rightarrow> u64 \<Rightarrow>
   imported_content list" where
  "update_row I update i t recipients our_aci timestamp =
     (case update_message I update i t recipients our_aci of
        None \<Rightarrow> []
      | Some (sender, dm) \<Rightarrow>
          [\<lparr>imp_content = dm_content I (dm\<lparr>dm_timestamp := Some timestamp\<rparr>) sender t our_aci timestamp,
            imp_thread = t, imp_received_at_ms = timestamp\<rparr>])"

section \<open>An item\<close>

definition chat_item_to_contents ::
  "('a, 'k, 'e) import_codec \<Rightarrow> backup_item \<Rightarrow> recipients \<Rightarrow> chats \<Rightarrow> uuid \<Rightarrow> imported_content list" where
  "chat_item_to_contents I i recipients chats our_aci =
     (case chats (ci_chat_id i) of
        None \<Rightarrow> []
      | Some t \<Rightarrow>
          let timestamp = chat_item_sent_ms i in
          case ci_item i of
            OtherItem (StandardMessage sm) \<Rightarrow> standard_message_to_contents I sm i t recipients our_aci timestamp
          | OtherItem (StickerMessage sm) \<Rightarrow> sticker_message_to_contents I sm i t recipients our_aci timestamp
          | OtherItem (UpdateMessage (Some (IndividualCall c))) \<Rightarrow> individual_call_to_contents I c t our_aci timestamp
          | OtherItem (UpdateMessage (Some (GroupCall c))) \<Rightarrow> group_call_to_contents I c t recipients our_aci timestamp
          | OtherItem (UpdateMessage (Some (SimpleUpdate u))) \<Rightarrow> simple_update_to_contents I u t our_aci timestamp
          | OtherItem (UpdateMessage None) \<Rightarrow> []
          | OtherItem UnknownItem \<Rightarrow> []
          | update \<Rightarrow> update_row I update i t recipients our_aci timestamp)"

section \<open>What is restored on the rows\<close>

datatype backup_send_status = BackupSent | BackupDelivered | BackupRead | BackupViewed

record backup_message_state =
  bms_thread :: thread
  bms_ts :: u64
  bms_read :: "bool option"
  bms_send_states :: "(string \<times> backup_send_status \<times> u64) list"

definition restored_send_status :: "delivery_status \<Rightarrow> backup_send_status option" where
  "restored_send_status s =
     (case s of
        Delivery_Sent \<Rightarrow> Some BackupSent
      | Delivery_Delivered \<Rightarrow> Some BackupDelivered
      | Delivery_Read \<Rightarrow> Some BackupRead
      | Delivery_Viewed \<Rightarrow> Some BackupViewed
      | _ \<Rightarrow> None)"

definition chat_item_backup_state ::
  "('a, 'k, 'e) import_codec \<Rightarrow> backup_item \<Rightarrow> recipients \<Rightarrow> chats \<Rightarrow> backup_message_state option" where
  "chat_item_backup_state I i recipients chats =
     Option.bind (chats (ci_chat_id i)) (\<lambda>t.
       case ci_directional_details i of
         Some (DirectionIncoming _ was_read) \<Rightarrow>
           Some \<lparr>bms_thread = t, bms_ts = chat_item_sent_ms i, bms_read = Some was_read, bms_send_states = []\<rparr>
       | Some (DirectionOutgoing _ send_status) \<Rightarrow>
           Some \<lparr>bms_thread = t, bms_ts = ci_date_sent i, bms_read = None,
                 bms_send_states = List.map_filter (\<lambda>s.
                   Option.bind (map_option (service_id_string (im_codec I)) (resolved recipients (ss_recipient_id s)))
                     (\<lambda>recipient. map_option (\<lambda>status. (recipient, status, ss_timestamp s))
                        (Option.bind (ss_delivery_status s) restored_send_status))) send_status\<rparr>
       | _ \<Rightarrow> None)"

definition is_standard :: "('m) item_version_scheme \<Rightarrow> bool" where
  "is_standard i \<longleftrightarrow> (case ci_item i of OtherItem (StandardMessage _) \<Rightarrow> True | _ \<Rightarrow> False)"

definition is_incoming :: "('m) item_version_scheme \<Rightarrow> bool" where
  "is_incoming i \<longleftrightarrow> (case ci_directional_details i of Some (DirectionIncoming _ _) \<Rightarrow> True | _ \<Rightarrow> False)"

definition chat_item_backup_states ::
  "('a, 'k, 'e) import_codec \<Rightarrow> backup_item \<Rightarrow> recipients \<Rightarrow> chats \<Rightarrow> backup_message_state list" where
  "chat_item_backup_states I i recipients chats =
     (case chats (ci_chat_id i) of
        None \<Rightarrow> []
      | Some t \<Rightarrow>
          (case chat_item_backup_state I i recipients chats of None \<Rightarrow> [] | Some s \<Rightarrow> [s])
          @ map (\<lambda>(_, version). \<lparr>bms_thread = t, bms_ts = ci_date_sent version, bms_read = Some True,
                                 bms_send_states = []\<rparr>)
              (filter (\<lambda>_. is_standard i \<and> is_incoming i) (edits i)))"

record backup_pin =
  bp_thread :: thread
  bp_ts :: u64
  bp_author :: service_id
  bp_pinned_at_ms :: u64
  bp_expires_at_ms :: "u64 option"

definition chat_item_pin :: "backup_item \<Rightarrow> recipients \<Rightarrow> chats \<Rightarrow> uuid \<Rightarrow> backup_pin option" where
  "chat_item_pin i recipients chats our_aci =
     Option.bind (ci_pin_details i) (\<lambda>pin.
       if \<not> (case ci_item i of OtherItem (StandardMessage _) \<Rightarrow> True | OtherItem (StickerMessage _) \<Rightarrow> True | _ \<Rightarrow> False)
       then None
       else Option.bind (chats (ci_chat_id i)) (\<lambda>t.
            map_option (\<lambda>author.
                \<lparr>bp_thread = t, bp_ts = chat_item_sent_ms i, bp_author = author, bp_pinned_at_ms = pd_pinned_at pin,
                 bp_expires_at_ms = (case pd_expiry pin of
                     Some (PinExpiresAt at) \<Rightarrow> Some at
                   | Some PinNeverExpires \<Rightarrow> None
                   | None \<Rightarrow> None)\<rparr>)
              (message_sender i recipients our_aci)))"

record backup_message_version =
  bmv_sent_ms :: u64
  bmv_text :: "string option"

record backup_edit =
  be_thread :: thread
  be_ts :: u64
  be_author :: service_id
  be_edited_at_ms :: u64
  be_earlier :: "backup_message_version list"

definition standard_text :: "item_version \<Rightarrow> string option" where
  "standard_text v =
     (case ci_item v of OtherItem (StandardMessage sm) \<Rightarrow> map_option bt_body (sm_text sm) | _ \<Rightarrow> None)"

definition chat_item_edit :: "backup_item \<Rightarrow> recipients \<Rightarrow> chats \<Rightarrow> uuid \<Rightarrow> backup_edit option" where
  "chat_item_edit i recipients chats our_aci =
     (if ci_revisions i = [] \<or> \<not> is_standard i then None
      else Option.bind (chats (ci_chat_id i)) (\<lambda>t.
           map_option (\<lambda>author.
               \<lparr>be_thread = t, be_ts = chat_item_sent_ms i, be_author = author, be_edited_at_ms = ci_date_sent i,
                be_earlier = map (\<lambda>v. \<lparr>bmv_sent_ms = ci_date_sent v, bmv_text = standard_text v\<rparr>) (ci_revisions i)\<rparr>)
             (message_sender i recipients our_aci)))"

section \<open>Contacts, groups and our own profile\<close>

fun decimal :: "nat \<Rightarrow> string" where
  "decimal n =
     (if n < 10 then [char_of (48 + n)] else decimal (n div 10) @ [char_of (48 + n mod 10)])"

declare decimal.simps [simp del]

definition recipient_to_contact :: "contact_codec \<Rightarrow> backup_recipient \<Rightarrow> contact option" where
  "recipient_to_contact P r =
     (case rp_destination r of
        Some (DestinationContact c) \<Rightarrow>
          map_option (\<lambda>u.
              \<lparr>c_uuid = u,
               c_phone_number = Option.bind (bc_e164 c) (\<lambda>n.
                 if n \<noteq> 0 then phone_from_e164 P (''+'' @ decimal (unat n)) else None),
               c_name = profile_name_to_string P (opt_or [] (bc_profile_given_name c))
                 (Option.bind (bc_profile_family_name c) (\<lambda>s. if s \<noteq> [] then Some s else None)),
               c_verified = verified_default, c_profile_key = opt_or [] (bc_profile_key c), c_expire_timer = 0,
               c_expire_timer_version = 2, c_inbox_position = 0, c_avatar = None,
               c_pni = Option.bind (bc_pni c) uuid_from_slice,
               c_username = Option.bind (bc_username c) (\<lambda>s. if s \<noteq> [] then Some s else None),
               c_blocked = bc_blocked c, c_whitelisted = False, c_archived = False, c_marked_unread = False,
               c_muted_until = 0, c_hide_story = bc_hide_story c, c_hidden = False, c_unregistered_at = 0,
               c_pni_signature_verified = False, c_system_given_name = bc_system_given_name c,
               c_system_family_name = bc_system_family_name c, c_system_nickname = bc_system_nickname c,
               c_nickname_given_name = opt_or [] (map_option fst (bc_nickname c)),
               c_nickname_family_name = opt_or [] (map_option snd (bc_nickname c)), c_note = bc_note c\<rparr>)
            (Option.bind (bc_aci c) uuid_from_slice)
      | _ \<Rightarrow> None)"

definition recipient_to_group :: "backup_recipient \<Rightarrow> (key32 \<times> group) option" where
  "recipient_to_group r =
     (case rp_destination r of
        Some (DestinationGroup g) \<Rightarrow>
          map_option (\<lambda>mk. (mk,
              \<lparr>g_title = Option.bind (Option.bind (Option.bind (bg_snapshot g) (\<lambda>title. title)) (\<lambda>content. content))
                 (\<lambda>content. case content of
                    BlobTitle s \<Rightarrow> if s \<noteq> [] then Some s else None
                  | BlobOther \<Rightarrow> None),
               g_avatar = None, g_timer = None, g_access_control = None, g_revision = 0, g_members = [],
               g_pending_members = [], g_requesting_members = [], g_invite_link_password = [],
               g_description = None, g_announcements_only = False, g_needs_hydration = True,
               g_blocked = bg_blocked g, g_whitelisted = bg_whitelisted g, g_archived = False,
               g_marked_unread = False, g_muted_until = 0, g_dont_notify_for_mentions_if_muted = False,
               g_hide_story = bg_hide_story g, g_story_send_mode = bg_story_send_mode g\<rparr>))
            (key32_from_slice (bg_master_key g))
      | _ \<Rightarrow> None)"

definition non_empty :: "string \<Rightarrow> string option" where
  "non_empty s = (if s = [] then None else Some s)"

text \<open>\<open>name_is_empty\<close> is libsignal-service's \<open>ProfileName::is_empty\<close>.\<close>

definition account_profile :: "(profile_name \<Rightarrow> bool) \<Rightarrow> account_data \<Rightarrow> profile" where
  "account_profile name_is_empty a =
     (let name = \<lparr>pn_given_name = ad_given_name a, pn_family_name = non_empty (ad_family_name a)\<rparr> in
      \<lparr>pf_name = (if name_is_empty name then None else Some name), pf_about = non_empty (ad_bio_text a),
       pf_about_emoji = non_empty (ad_bio_emoji a), pf_avatar = non_empty (ad_avatar_url_path a),
       pf_unrestricted_unidentified_access = False\<rparr>)"

end
