(* ===== verification/Backup_Transfer.thy ===== *)
theory Backup_Transfer
  imports Backup_Items Io_Rules Manifest
begin

text \<open>
  Fetching the transfer archive of a linked device (\<open>Manager::download_and_import_backup\<close> and
  \<open>write_archive_to_file\<close> of \<open>presage/src/manager/registered.rs\<close>): the archive the primary uploaded is
  appended to a file, from where an earlier attempt stopped, and imported. Server, file system and
  progress callback are operations of \<open>transfer_env\<close>; a download stream is the list of what its reads return,
  an error for a read that fails or stalls for ten seconds.
\<close>

section \<open>The code\<close>

record transfer_archive =
  ta_cdn :: u32
  ta_key :: string
  ta_path :: string

datatype transfer_archive_result = ArchiveAvailable u32 string | RelinkRequested | ContinueWithoutUpload

datatype backup_import_progress = WaitingForUpload | Downloading u64 u64 | Processing | ImportDone

record ('w, 'e, 'key) transfer_env =
  te_fetch_archive :: "('w, 'e, transfer_archive option) io"
  te_store_archive :: "transfer_archive option \<Rightarrow> ('w, 'e, unit) io"
  te_get_archive :: "('w, 'e error, transfer_archive_result) io"
  te_random_path :: "'w \<Rightarrow> string \<times> 'w"
  te_file_len :: "string \<Rightarrow> ('w, string, u64 option) io"
  te_download :: "u32 \<Rightarrow> string \<Rightarrow> u64 \<Rightarrow> ('w, 'e error, (string + bytes) list \<times> u64) io"
  te_open :: "string \<Rightarrow> ('w, string, unit) io"
  te_append :: "string \<Rightarrow> bytes \<Rightarrow> ('w, string, unit) io"
  te_remove :: "string \<Rightarrow> ('w, string, unit) io"
  te_progress :: "backup_import_progress \<Rightarrow> 'w \<Rightarrow> 'w"
  te_import :: "string \<Rightarrow> 'key \<Rightarrow> ('w, 'e error, backup_edit list) io"

definition report :: "('w, 'e, 'key) transfer_env \<Rightarrow> backup_import_progress \<Rightarrow> ('w, 'f, unit) io" where
  "report E p = call (\<lambda>w. ((), te_progress E p w))"

text \<open>The loop over the reads; an empty read is the end of the stream.\<close>

fun write_chunks ::
  "('w, 'e, 'key) transfer_env \<Rightarrow> string \<Rightarrow> (string + bytes) list \<Rightarrow> u64 \<Rightarrow> u64 \<Rightarrow> ('w, 'e error, unit) io" where
  "write_chunks E path [] total_bytes bytes_received = ok ()"
| "write_chunks E path (Inl e # reads) total_bytes bytes_received = err (IoError e)"
| "write_chunks E path (Inr [] # reads) total_bytes bytes_received = ok ()"
| "write_chunks E path (Inr (b # bs) # reads) total_bytes bytes_received =
     thenE (map_err IoError (te_append E path (b # bs)))
    (let bytes_received' = bytes_received + of_nat (length (b # bs)) in
     thenE (report E (Downloading bytes_received' total_bytes))
       (write_chunks E path reads total_bytes bytes_received'))"

definition write_archive_to_file ::
  "('w, 'e, 'key) transfer_env \<Rightarrow> string \<Rightarrow> (string + bytes) list \<Rightarrow> u64 \<Rightarrow> u64 \<Rightarrow> ('w, 'e error, unit) io" where
  "write_archive_to_file E path stream total_bytes download_offset =
     thenE (report E (Downloading download_offset total_bytes))
    (thenE (map_err IoError (te_open E path))
       (write_chunks E path stream total_bytes download_offset))"

text \<open>The archive to download, from the store or from the primary; \<open>None\<close> when there will be none.\<close>

definition transfer_archive_of :: "('w, 'e, 'key) transfer_env \<Rightarrow> ('w, 'e error, transfer_archive option) io" where
  "transfer_archive_of E =
     bindE (st (te_fetch_archive E)) (\<lambda>cached.
       case cached of
         Some a \<Rightarrow> ok (Some a)
       | None \<Rightarrow>
           thenE (report E WaitingForUpload)
          (bindE (te_get_archive E) (\<lambda>r.
             case r of
               ArchiveAvailable cdn key \<Rightarrow>
                 bindE (call (te_random_path E)) (\<lambda>path.
                 let a = \<lparr>ta_cdn = cdn, ta_key = key, ta_path = path\<rparr> in
                 thenE (st (te_store_archive E (Some a))) (ok (Some a)))
             | RelinkRequested \<Rightarrow> err BackupRelinkRequested
             | ContinueWithoutUpload \<Rightarrow> ok None)))"

text \<open>The import, once the file is complete.\<close>

definition import_and_clear ::
  "('w, 'e, 'key) transfer_env \<Rightarrow> 'key \<Rightarrow> transfer_archive \<Rightarrow> ('w, 'e error, backup_edit list option) io" where
  "import_and_clear E key a =
     thenE (report E Processing)
    (attempt (te_import E (ta_path a) key) (\<lambda>import_result.
     ignore (te_remove E (ta_path a))
    (bindE (lift_res import_result) (\<lambda>edits.
     thenE (st (te_store_archive E None))
    (thenE (report E ImportDone) (ok (Some edits)))))))"

definition import_archive ::
  "('w, 'e, 'key) transfer_env \<Rightarrow> 'key \<Rightarrow> transfer_archive \<Rightarrow> ('w, 'e error, backup_edit list option) io" where
  "import_archive E key a =
     bindE (map_err IoError (te_file_len E (ta_path a))) (\<lambda>len.
     let download_offset = opt_or 0 len in
     bindE (te_download E (ta_cdn a) (ta_key a) download_offset) (\<lambda>(stream, total_bytes).
     thenE (write_archive_to_file E (ta_path a) stream total_bytes download_offset)
      (import_and_clear E key a)))"

definition download_and_import_backup ::
  "('w, 'e, 'key) transfer_env \<Rightarrow> 'key option \<Rightarrow> ('w, 'e error, backup_edit list option) io" where
  "download_and_import_backup E ephemeral_key =
     (case ephemeral_key of
        None \<Rightarrow> ok None
      | Some key \<Rightarrow>
          bindE (transfer_archive_of E) (\<lambda>archive.
            case archive of
              None \<Rightarrow> ok None
            | Some a \<Rightarrow> import_archive E key a))"

section \<open>Resuming\<close>

text \<open>
  What the code relies on: files change only by appending to and removing them (a failed append may have
  written part of what it was given), the store keeps the archive it is given, a download from an offset yields a
  part of the rest of the archive and ends without an error only when it yielded all of it.
\<close>

definition reads_of :: "(string + bytes) list \<Rightarrow> bytes" where
  "reads_of rs = concat (List.map_filter res_ok (takeWhile (\<lambda>r. \<exists>b bs. r = Inr (b # bs)) rs))"

definition ends_well :: "(string + bytes) list \<Rightarrow> bool" where
  "ends_well rs \<longleftrightarrow> list_all (\<lambda>r. \<not> isl r) (takeWhile (\<lambda>r. r \<noteq> Inr []) rs)"

definition transfer_ok ::
  "('w, 'e, 'key) transfer_env \<Rightarrow> ('w \<Rightarrow> bytes option) \<Rightarrow> ('w \<Rightarrow> transfer_archive option) \<Rightarrow> transfer_archive \<Rightarrow> bytes \<Rightarrow> bool" where
  "transfer_ok E file cached a data \<longleftrightarrow>
     length data < 2 ^ 64 \<and>
     (\<forall>w. \<exists>w'. te_fetch_archive E w = (Inr (cached w), w') \<and> file w' = file w \<and> cached w' = cached w) \<and>
     (\<forall>x w r w'. te_store_archive E x w = (r, w') \<longrightarrow> file w' = file w \<and> cached w' = (if isl r then cached w else x)) \<and>
     (\<forall>w r w'. te_file_len E (ta_path a) w = (r, w') \<longrightarrow> file w' = file w \<and> cached w' = cached w \<and>
        (isl r \<or> r = Inr (map_option (\<lambda>f. of_nat (length f)) (file w)))) \<and>
     (\<forall>offset w r w'. te_download E (ta_cdn a) (ta_key a) offset w = (r, w') \<longrightarrow> file w' = file w \<and> cached w' = cached w \<and>
        (\<forall>reads total_bytes. r = Inr (reads, total_bytes) \<longrightarrow>
           (\<exists>rest. drop (unat offset) data = reads_of reads @ rest \<and> (ends_well reads \<longrightarrow> rest = [])))) \<and>
     (\<forall>w r w'. te_open E (ta_path a) w = (r, w') \<longrightarrow> cached w' = cached w \<and>
        (file w' = file w \<or> file w' = Some (opt_or [] (file w))) \<and> (isl r \<or> file w' = Some (opt_or [] (file w)))) \<and>
     (\<forall>bs w r w'. te_append E (ta_path a) bs w = (r, w') \<longrightarrow> cached w' = cached w \<and>
        (\<forall>f. file w = Some f \<longrightarrow> (if isl r then \<exists>n. file w' = Some (f @ take n bs) else file w' = Some (f @ bs)))) \<and>
     (\<forall>w r w'. te_remove E (ta_path a) w = (r, w') \<longrightarrow> cached w' = cached w \<and> (file w' = None \<or> isl r \<and> file w' = file w)) \<and>
     (\<forall>p w. file (te_progress E p w) = file w \<and> cached (te_progress E p w) = cached w) \<and>
     (\<forall>key w r w'. te_import E (ta_path a) key w = (r, w') \<longrightarrow> file w' = file w \<and> cached w' = cached w)"

lemma transfer_okD:
  assumes "transfer_ok E file cached a data"
  shows "length data < 2 ^ 64"
    "\<exists>w'. te_fetch_archive E w = (Inr (cached w), w') \<and> file w' = file w \<and> cached w' = cached w"
    "te_store_archive E x w = (r1, w') \<Longrightarrow> file w' = file w \<and> cached w' = (if isl r1 then cached w else x)"
    "te_file_len E (ta_path a) w = (r2, w') \<Longrightarrow> file w' = file w \<and> cached w' = cached w \<and>
        (isl r2 \<or> r2 = Inr (map_option (\<lambda>f. of_nat (length f)) (file w)))"
    "te_download E (ta_cdn a) (ta_key a) offset w = (r3, w') \<Longrightarrow> file w' = file w \<and> cached w' = cached w"
    "te_download E (ta_cdn a) (ta_key a) offset w = (Inr (reads, total_bytes), w') \<Longrightarrow>
       \<exists>rest. drop (unat offset) data = reads_of reads @ rest \<and> (ends_well reads \<longrightarrow> rest = [])"
    "te_open E (ta_path a) w = (r4, w') \<Longrightarrow> cached w' = cached w \<and>
        (file w' = file w \<or> file w' = Some (opt_or [] (file w))) \<and> (isl r4 \<or> file w' = Some (opt_or [] (file w)))"
    "te_append E (ta_path a) bs w = (r5, w') \<Longrightarrow> cached w' = cached w \<and>
        (\<forall>f. file w = Some f \<longrightarrow> (if isl r5 then \<exists>n. file w' = Some (f @ take n bs) else file w' = Some (f @ bs)))"
    "te_remove E (ta_path a) w = (r6, w') \<Longrightarrow> cached w' = cached w \<and> (file w' = None \<or> isl r6 \<and> file w' = file w)"
    "file (te_progress E p w) = file w" "cached (te_progress E p w) = cached w"
    "te_import E (ta_path a) key w = (r7, w') \<Longrightarrow> file w' = file w \<and> cached w' = cached w"
  using assms by (simp_all add: transfer_ok_def)

text \<open>The file holds the beginning of the archive.\<close>

definition partly :: "bytes \<Rightarrow> bytes option \<Rightarrow> bool" where
  "partly data f \<longleftrightarrow> (\<exists>rest. data = opt_or [] f @ rest)"

lemma partly_append_take: "data = f @ bs @ rest \<Longrightarrow> partly data (Some (f @ take n bs))"
  by (auto simp: partly_def intro: exI [of _ "drop n bs @ rest"])

lemma reads_of_simps [simp]:
  "reads_of [] = []" "reads_of (Inl e # rs) = []" "reads_of (Inr [] # rs) = []"
  "reads_of (Inr (b # bs) # rs) = (b # bs) @ reads_of rs"
  by (simp_all add: reads_of_def)

lemma ends_well_simps [simp]:
  "ends_well []" "\<not> ends_well (Inl e # rs)" "ends_well (Inr [] # rs)"
  "ends_well (Inr (b # bs) # rs) \<longleftrightarrow> ends_well rs"
  by (simp_all add: ends_well_def)

lemma write_chunks_part:
  assumes T: "transfer_ok E file cached a data"
    and "write_chunks E (ta_path a) rs n k w = (r, w')" "file w = Some f" "data = f @ reads_of rs @ rest"
  shows "cached w' = cached w \<and>
    (case r of Inl _ \<Rightarrow> partly data (file w') | Inr _ \<Rightarrow> ends_well rs \<and> file w' = Some (f @ reads_of rs))"
  using assms(2-4)
proof (induction rs arbitrary: w f k)
  case (Cons x rs)
  note T = transfer_okD [OF T]
  show ?case
  proof (cases "\<exists>b bs. x = Inr (b # bs)")
    case True
    then obtain b bs where x: "x = Inr (b # bs)" by blast
    obtain r1 w1 where a: "te_append E (ta_path a) (b # bs) w = (r1, w1)" by fastforce
    show ?thesis
    proof (cases r1)
      case (Inl e)
      with T(8) [OF a] obtain m where m: "file w1 = Some (f @ take m (b # bs))" "cached w1 = cached w"
        using Cons.prems(2) by auto
      have "partly data (Some (f @ take m (b # bs)))"
        by (rule partly_append_take) (use Cons.prems(3) x in simp)
      with m Inl a x Cons.prems(1) show ?thesis by (auto simp: io_simps)
    next
      case (Inr u)
      with T(8) [OF a] have w1: "file w1 = Some (f @ b # bs)" "cached w1 = cached w"
        using Cons.prems(2) by auto
      let ?k = "k + of_nat (length (b # bs))"
      let ?w = "te_progress E (Downloading ?k n) w1"
      have "write_chunks E (ta_path a) rs n ?k ?w = (r, w')"
        using Cons.prems(1) a Inr x by (simp add: io_simps report_def call_def Let_def)
      from Cons.IH [OF this, of "f @ b # bs"] w1 Cons.prems(3) x T(10,11) show ?thesis
        by (auto split: sum.splits)
    qed
  next
    case False
    then consider e where "x = Inl e" | "x = Inr []" by (metis list.exhaust sum.exhaust)
    then show ?thesis using Cons.prems by cases (auto simp: io_simps partly_def)
  qed
qed (auto simp: io_simps partly_def)

lemma write_archive_part:
  assumes T: "transfer_ok E file cached a data"
    and w: "write_archive_to_file E (ta_path a) rs n k w = (r, w')" and d: "data = opt_or [] (file w) @ reads_of rs @ rest"
  shows "cached w' = cached w \<and>
    (case r of Inl _ \<Rightarrow> partly data (file w') | Inr _ \<Rightarrow> ends_well rs \<and> file w' = Some (opt_or [] (file w) @ reads_of rs))"
proof -
  note D = transfer_okD [OF T]
  let ?w = "te_progress E (Downloading k n) w"
  obtain r1 w1 where o: "te_open E (ta_path a) ?w = (r1, w1)" by fastforce
  with D(7) have w1: "cached w1 = cached w" "file w1 = file w \<or> file w1 = Some (opt_or [] (file w))"
    "isl r1 \<or> file w1 = Some (opt_or [] (file w))" by (metis D(10,11))+
  show ?thesis
  proof (cases r1)
    case (Inl e)
    with w1(2) d have "partly data (file w1)" by (auto simp: partly_def)
    with Inl o w w1(1) show ?thesis
      by (auto simp: write_archive_to_file_def io_simps report_def call_def)
  next
    case (Inr u)
    with o w have "write_chunks E (ta_path a) rs n k w1 = (r, w')"
      by (simp add: write_archive_to_file_def io_simps report_def call_def)
    from write_chunks_part [OF T this, of "opt_or [] (file w)" rest] w1 Inr d show ?thesis by simp
  qed
qed

text \<open>The size of the part already there is the offset asked for.\<close>

lemma offset_is_length:
  assumes "transfer_ok E file cached a data" "partly data f"
  shows "data = opt_or [] f @ drop (unat (opt_or 0 (map_option (\<lambda>x. of_nat (length x)) f) :: u64)) data"
proof -
  obtain rest where r: "data = opt_or [] f @ rest" using assms(2) by (auto simp: partly_def)
  then have "length (opt_or [] f) < 2 ^ 64" using transfer_okD(1) [OF assms(1)] by simp
  then have "unat (opt_or 0 (map_option (\<lambda>x. of_nat (length x)) f) :: u64) = length (opt_or [] f)"
    by (cases f) (simp_all add: unat_of_nat take_bit_nat_eq_self)
  with r show ?thesis by simp
qed

lemma cached_archive:
  assumes "transfer_ok E file cached a data" "cached w = Some a"
  shows "\<exists>w'. transfer_archive_of E w = (Inr (Some a), w') \<and> file w' = file w \<and> cached w' = Some a"
  using transfer_okD(2) [OF assms(1), of w] assms(2) by (auto simp: transfer_archive_of_def st_def io_simps)

lemma import_and_clear_result:
  assumes T: "transfer_ok E file cached a data"
    and i: "import_and_clear E key a w = (r, w')" and w: "file w = Some data" "cached w = Some a"
  shows "(\<exists>e. r = Inl e \<and> cached w' = Some a \<and> partly data (file w')) \<or>
    (\<exists>edits w1 w2. r = Inr (Some edits) \<and> cached w' = None \<and> file w1 = Some data \<and>
       te_import E (ta_path a) key w1 = (Inr edits, w2))"
proof -
  note D = transfer_okD [OF T]
  let ?w = "te_progress E Processing w"
  obtain r1 w1 where m: "te_import E (ta_path a) key ?w = (r1, w1)" by fastforce
  obtain r2 w2 where v: "te_remove E (ta_path a) w1 = (r2, w2)" by fastforce
  have w1: "file w1 = Some data" "cached w1 = Some a" using D(12) [OF m] D(10,11) w by simp_all
  have w2: "cached w2 = Some a" "partly data (file w2)"
    using D(9) [OF v] w1 by (auto simp: partly_def)
  show ?thesis
  proof (cases r1)
    case (Inl e)
    with i m v w2 show ?thesis by (auto simp: import_and_clear_def io_simps report_def call_def)
  next
    case (Inr edits)
    obtain r3 w3 where c: "te_store_archive E None w2 = (r3, w3)" by fastforce
    with D(3) [OF c] w2 have w3: "file w3 = file w2" "cached w3 = (if isl r3 then Some a else None)" by simp_all
    show ?thesis
    proof (cases r3)
      case (Inl e)
      with Inr i m v c w2 w3 show ?thesis by (auto simp: import_and_clear_def io_simps report_def call_def st_def)
    next
      case u: (Inr u)
      have "r = Inr (Some edits)" "w' = te_progress E ImportDone w3"
        using i Inr u m v c by (auto simp: import_and_clear_def io_simps report_def call_def st_def)
      moreover have "file ?w = Some data" using D(10) w(1) by simp
      ultimately show ?thesis using m Inr u w3(2) D(11) by auto
    qed
  qed
qed

text \<open>The bytes arrive at the file, and what follows is the import.\<close>

lemma write_then_import:
  assumes T: "transfer_ok E file cached a data" and c: "cached w = Some a"
    and data: "data = opt_or [] (file w) @ reads_of rs @ rest" "ends_well rs \<Longrightarrow> rest = []"
    and run: "thenE (write_archive_to_file E (ta_path a) rs t k) (import_and_clear E key a) w = (r, w')"
  shows "(\<exists>e. r = Inl e \<and> cached w' = Some a \<and> partly data (file w')) \<or>
    (\<exists>edits w1 w2. r = Inr (Some edits) \<and> cached w' = None \<and> file w1 = Some data \<and>
       te_import E (ta_path a) key w1 = (Inr edits, w2))"
proof -
  obtain r3 w3 where w3: "write_archive_to_file E (ta_path a) rs t k w = (r3, w3)" by fastforce
  note P = write_archive_part [OF T w3 data(1)]
  show ?thesis
  proof (cases r3)
    case (Inl e)
    with P c run w3 show ?thesis by (auto simp: io_simps)
  next
    case u: (Inr u)
    with P have "file w3 = Some data" "cached w3 = Some a" using data(2) data(1) c by simp_all
    moreover have "import_and_clear E key a w3 = (r, w')" using run w3 u by (simp add: io_simps)
    ultimately show ?thesis by (rule import_and_clear_result [OF T, rotated])
  qed
qed

text \<open>C27. A transfer that is interrupted is resumed, not started over or spoilt. With an archive already
  announced and the file holding any beginning of it, an attempt ends in one of two ways: with the
  edits of an import that ran on a file holding exactly the archive, the archive then being forgotten;
  or with an error, the archive still known and the file still holding a beginning of it, wherever the
  attempt failed (size, request, stream, write, import, removal or store), so the next attempt carries on.\<close>

theorem interrupted_transfer_resumes:
  assumes T: "transfer_ok E file cached a data"
    and w: "cached w = Some a" "partly data (file w)"
    and run: "download_and_import_backup E (Some key) w = (r, w')"
  shows "(\<exists>e. r = Inl e \<and> cached w' = Some a \<and> partly data (file w')) \<or>
    (\<exists>edits w1 w2. r = Inr (Some edits) \<and> cached w' = None \<and> file w1 = Some data \<and>
       te_import E (ta_path a) key w1 = (Inr edits, w2))"
proof -
  note D = transfer_okD [OF T]
  obtain w0 where w0: "transfer_archive_of E w = (Inr (Some a), w0)" "file w0 = file w" "cached w0 = Some a"
    using cached_archive [OF T w(1)] by blast
  with run have r: "import_archive E key a w0 = (r, w')"
    by (simp add: download_and_import_backup_def io_simps)
  obtain len w1 where l: "te_file_len E (ta_path a) w0 = (len, w1)" by fastforce
  note L = D(4) [OF l]
  show ?thesis
  proof (cases len)
    case (Inl e)
    with r l L w0 w show ?thesis by (auto simp: import_archive_def io_simps)
  next
    case (Inr n)
    let ?o = "opt_or 0 n"
    obtain d w2 where d: "te_download E (ta_cdn a) (ta_key a) ?o w1 = (d, w2)" by fastforce
    note W2 = D(5) [OF d]
    show ?thesis
    proof (cases d)
      case (Inl e)
      with r l Inr d L W2 w0 w show ?thesis by (auto simp: import_archive_def io_simps Let_def)
    next
      case s: (Inr s)
      obtain rs t where rs: "s = (rs, t)" by fastforce
      obtain rest where rest: "drop (unat ?o) data = reads_of rs @ rest" "ends_well rs \<Longrightarrow> rest = []"
        using D(6) d s rs by blast
      have "data = opt_or [] (file w2) @ reads_of rs @ rest"
        using offset_is_length [OF T w(2)] L Inr W2 w0(2) rest(1) by simp
      moreover have "cached w2 = Some a" using W2 L w0(3) by simp
      moreover have "thenE (write_archive_to_file E (ta_path a) rs t ?o) (import_and_clear E key a) w2 = (r, w')"
        using r l Inr d s rs by (simp add: import_archive_def io_simps Let_def)
      ultimately show ?thesis using write_then_import [OF T, of w2 rs rest t ?o key r w'] rest(2) by blast
    qed
  qed
qed

section \<open>A sample\<close>

record transfer_world =
  tw_file :: "bytes option"
  tw_cached :: "transfer_archive option"

definition tw_archive :: transfer_archive where
  "tw_archive = \<lparr>ta_cdn = 3, ta_key = ''k'', ta_path = ''p''\<rparr>"

definition tw_env :: "bytes \<Rightarrow> (transfer_world, unit, unit) transfer_env" where
  "tw_env data =
     \<lparr>te_fetch_archive = (\<lambda>w. (Inr (tw_cached w), w)), te_store_archive = (\<lambda>x w. (Inr (), w\<lparr>tw_cached := x\<rparr>)),
      te_get_archive = ok ContinueWithoutUpload, te_random_path = (\<lambda>w. (''p'', w)),
      te_file_len = (\<lambda>_ w. (Inr (map_option (\<lambda>f. of_nat (length f)) (tw_file w)), w)),
      te_download = (\<lambda>_ _ offset. ok ([Inr (drop (unat offset) data)], of_nat (length data))),
      te_open = (\<lambda>_ w. (Inr (), w\<lparr>tw_file := Some (opt_or [] (tw_file w))\<rparr>)),
      te_append = (\<lambda>_ bs w. (Inr (), w\<lparr>tw_file := map_option (\<lambda>f. f @ bs) (tw_file w)\<rparr>)),
      te_remove = (\<lambda>_ w. (Inr (), w\<lparr>tw_file := None\<rparr>)), te_progress = (\<lambda>_ w. w), te_import = (\<lambda>_ _. ok [])\<rparr>"

lemma reads_of_one: "reads_of [Inr bs] = bs"
  by (cases bs) simp_all

lemma tw_env_ok: "length data < 2 ^ 64 \<Longrightarrow> transfer_ok (tw_env data) tw_file tw_cached tw_archive data"
  unfolding transfer_ok_def by (auto simp: tw_env_def io_simps reads_of_one)

lemma interrupted_transfer_resumes_witness:
  "\<exists>w'. download_and_import_backup (tw_env [1, 2, 3]) (Some ()) \<lparr>tw_file = Some [1], tw_cached = Some tw_archive\<rparr> =
     (Inr (Some []), w') \<and> tw_cached w' = None"
proof -
  let ?w = "\<lparr>tw_file = Some [1], tw_cached = Some tw_archive\<rparr>"
  have T: "transfer_ok (tw_env [1, 2, 3]) tw_file tw_cached tw_archive [1, 2, 3]" by (rule tw_env_ok) simp
  have p: "partly [1, 2, 3] (tw_file ?w)" by (simp add: partly_def)
  obtain r w' where run: "download_and_import_backup (tw_env [1, 2, 3]) (Some ()) ?w = (r, w')" by fastforce
  moreover have "r = Inr (Some [])"
    using run by (auto simp: download_and_import_backup_def transfer_archive_of_def import_archive_def
        import_and_clear_def write_archive_to_file_def tw_env_def tw_archive_def report_def call_def st_def io_simps Let_def)
  ultimately show ?thesis using interrupted_transfer_resumes [OF T _ p run] by auto
qed

end
