(* ===== verification/Cli_Commands.thy ===== *)
theory Cli_Commands
  imports Cli_Print Server_Calls Sync Profiles Backup_Transfer
begin

text \<open>
  The commands of the command-line client (\<open>run\<close> in \<open>presage-cli/src/main.rs\<close>), each a definition of its own over
  the manager operations of the other theories. A manager is loaded per command from the account's
  \<open>registration_data\<close>, which the environments of the manager are functions of; the sockets it
  opened are dropped with it. How values are rendered (\<open>Debug\<close>, UUIDs, hexadecimal) and what the server and the
  operating system answer are operations of \<open>command_env\<close>.
\<close>

section \<open>The environment\<close>

text \<open>The numbers \<open>Stats\<close> shows of each identity, in its order; the counts of Kyber keys ask for both kinds.\<close>

datatype cli_stat =
    Next_Pre_Key_Id | Next_Signed_Pre_Key_Id | Next_Kyber_Pre_Key_Id
  | Signed_Pre_Keys_Count | Kyber_Pre_Keys_Count bool

record ('w, 'e, 'g, 'a, 'c, 'k, 'd, 's, 'b) command_env =
  cm_cli :: "registration_data \<Rightarrow> ('w, 'e) cli_env"
  cm_groups :: "registration_data \<Rightarrow> ('w, 'e, 'g, 'a, 'c) group_env"
  cm_profiles :: "registration_data \<Rightarrow> ('w, 'e) profile_env"
  cm_devices :: "('w, 'e, 'k, 'd, 's) device_env"
  cm_onboarding :: "('w, 'e, 'k, 'd) onboarding_env"
  cm_spawn_receive :: "registration_data \<Rightarrow> 'w \<Rightarrow> 'w"
  cm_println :: "string \<Rightarrow> 'w \<Rightarrow> 'w"
  cm_print :: "string \<Rightarrow> 'w \<Rightarrow> 'w"
  cm_eprintln :: "string \<Rightarrow> 'w \<Rightarrow> 'w"
  cm_read_line :: "('w, string, string option) io"
  cm_stored_messages :: "thread \<Rightarrow> u64 \<Rightarrow> ('w, 'e, ('e + content) list) io"
  cm_sticker_packs :: "('w, 'e, ('e + sticker_pack) list) io"
  cm_read_file :: "string \<Rightarrow> 'w \<Rightarrow> bytes option \<times> 'w"
  cm_mime_type :: "string \<Rightarrow> string option"
  cm_file_name :: "string \<Rightarrow> string option"
  cm_whoami :: "'s \<Rightarrow> ('w, 'e error, string) io"
  cm_linked :: "'s \<Rightarrow> key32 \<Rightarrow> ('w, 'e error, (u8 \<times> string option \<times> string \<times> string) list) io"
  cm_parse_username :: "string \<Rightarrow> 'e error + string"
  cm_look_up :: "'s \<Rightarrow> string \<Rightarrow> ('w, 'e error, uuid option) io"
  cm_e164 :: "phone_number \<Rightarrow> string option"
  cm_from_signal :: "string \<Rightarrow> string"
  cm_discover :: "'s \<Rightarrow> string list \<Rightarrow> ('w, 'e error, (string \<times> service_id option) list) io"
  cm_own_credential :: "('w, 'e, 'd, 's, 'c) manager_io"
  cm_pni_key_pair :: "('w, 'e error, 'k) io"
  cm_derive :: "string \<Rightarrow> bytes"
  cm_expires :: "'c \<Rightarrow> nat"
  cm_show_contact :: "contact \<Rightarrow> string"
  cm_show_profile :: "profile \<Rightarrow> string"
  cm_show_phone :: "phone_number option \<Rightarrow> string"
  cm_show_text :: "string option \<Rightarrow> string"
  cm_debug_string :: "string \<Rightarrow> string"
  cm_show_uuid :: "uuid \<Rightarrow> string"
  cm_show_error :: "'e error \<Rightarrow> string"
  cm_transfer :: "registration_data \<Rightarrow> ('w, 'e, 'b) transfer_env"
  cm_fetch_backup_key :: "('w, 'e, key32 option) io"
  cm_backup_id :: "key32 \<Rightarrow> uuid \<Rightarrow> bytes"
  cm_derive_backup_key :: "key32 \<Rightarrow> bytes \<Rightarrow> 'b"
  cm_percent :: "u64 \<Rightarrow> u64 \<Rightarrow> string"
  cm_stat :: "identity_type \<Rightarrow> cli_stat \<Rightarrow> ('w, string, nat) io"
  cm_show_stats :: "nat list \<Rightarrow> string"
  cm_hex :: "bytes \<Rightarrow> string"
  cm_unhex :: "string \<Rightarrow> string + bytes"
  cm_unbase64 :: "string \<Rightarrow> string + bytes"

definition say :: "('w, 'e, 'g, 'a, 'c, 'k, 'd, 's, 'b) command_env \<Rightarrow> string \<Rightarrow> ('w, 'f, unit) io" where
  "say E line = call (\<lambda>w. ((), cm_println E line w))"

definition complain :: "('w, 'e, 'g, 'a, 'c, 'k, 'd, 's, 'b) command_env \<Rightarrow> string \<Rightarrow> ('w, 'f, unit) io" where
  "complain E line = call (\<lambda>w. ((), cm_eprintln E line w))"

definition run_manager :: "('w, 'e error, 'x) io \<Rightarrow> ('w, 'e failure, 'x) io" where
  "run_manager m = map_err Failed m"

definition from_store :: "('w, 'e, 'x) io \<Rightarrow> ('w, 'e failure, 'x) io" where
  "from_store m = run_manager (st m)"

definition on_manager :: "('d, 's) registered \<Rightarrow> ('w, 'e, 'd, 's, 'x) manager_io \<Rightarrow> ('w, 'e failure, 'x) io" where
  "on_manager g m w = (case m (g, w) of (r, (g', w')) \<Rightarrow> run_manager (lift_res r) w')"

abbreviation cm_store :: "('w, 'e, 'g, 'a, 'c, 'k, 'd, 's, 'b) command_env \<Rightarrow> ('d, 's) registered \<Rightarrow> ('w, 'e) store_ops" where
  "cm_store E g \<equiv> ci_store (cm_cli E (rg_data g))"

abbreviation cm_id :: "('w, 'e, 'g, 'a, 'c, 'k, 'd, 's, 'b) command_env \<Rightarrow> ('d, 's) registered \<Rightarrow> service_id \<Rightarrow> string" where
  "cm_id E g \<equiv> ci_id (cm_cli E (rg_data g))"

definition load_manager ::
  "('w, 'e, 'g, 'a, 'c, 'k, 'd, 's, 'b) command_env \<Rightarrow> ('w, 'e failure, ('d, 's) registered) io" where
  "load_manager E = run_manager (load_registered (dv_store (cm_devices E)))"

definition load_registered_and_receive ::
  "('w, 'e, 'g, 'a, 'c, 'k, 'd, 's, 'b) command_env \<Rightarrow> ('w, 'e failure, ('d, 's) registered) io" where
  "load_registered_and_receive E =
     bindE (load_manager E) (\<lambda>g. thenE (call (\<lambda>w. ((), cm_spawn_receive E (rg_data g) w))) (ok g))"

section \<open>Arguments\<close>

definition parse_group_master_key :: "('w, 'e, 'g, 'a, 'c, 'k, 'd, 's, 'b) command_env \<Rightarrow> string \<Rightarrow> string + key32" where
  "parse_group_master_key E value =
     res_bind (cm_unhex E value) (\<lambda>bytes. ok_or ''master key should be 32 bytes long'' (key32_from_slice bytes))"

definition parse_base64_profile_key :: "('w, 'e, 'g, 'a, 'c, 'k, 'd, 's, 'b) command_env \<Rightarrow> string \<Rightarrow> string + key32" where
  "parse_base64_profile_key E s =
     res_bind (cm_unbase64 E s) (\<lambda>bytes. ok_or ''profile key of invalid length'' (key32_from_slice bytes))"

text \<open>\<open>str::contains\<close>\<close>

fun contains :: "string \<Rightarrow> string \<Rightarrow> bool" where
  "contains [] needle \<longleftrightarrow> needle = []"
| "contains (c # cs) needle \<longleftrightarrow> take (length needle) (c # cs) = needle \<or> contains cs needle"

section \<open>Registering and linking\<close>

definition cmd_register ::
  "('w, 'e, 'g, 'a, 'c, 'k, 'd, 's, 'b) command_env \<Rightarrow> registration_options \<Rightarrow> ('w, 'e failure, unit) io" where
  "cmd_register E options =
     bindE (run_manager (register (cm_onboarding E) options)) (\<lambda>confirmation.
     thenE (say E ''input confirmation code (followed by RETURN): '')
    (bindE (map_err Bail (cm_read_line E)) (\<lambda>line.
       case line of
         None \<Rightarrow> ok ()
       | Some code \<Rightarrow>
           bindE (run_manager (confirm_verification_code (cm_onboarding E) confirmation code))
             (\<lambda>g :: ('d, 's) registered.
               say E (''Account identifiers: '' @ cm_show_uuid E (rd_aci (rg_data g)) @ '' '' @
                 cm_show_uuid E (rd_pni (rg_data g)))))))"

text \<open>An ellipsis and an em dash in UTF-8.\<close>

definition ellipsis :: string where "ellipsis = [CHR 0xE2, CHR 0x80, CHR 0xA6]"
definition dash :: string where "dash = [CHR 0xE2, CHR 0x80, CHR 0x94]"

definition backup_progress_line :: "(u64 \<Rightarrow> u64 \<Rightarrow> string) \<Rightarrow> backup_import_progress \<Rightarrow> string" where
  "backup_progress_line percent p =
     (case p of
        WaitingForUpload \<Rightarrow> ''[backup] Waiting for primary device to upload'' @ ellipsis
      | Downloading received all \<Rightarrow>
          ''[backup] Downloading'' @ ellipsis @ '' '' @ show_u64 received @ ''/'' @ show_u64 all @
          '' bytes ('' @ percent received all @ ''%)''
      | Processing \<Rightarrow> ''[backup] Decrypting and importing messages'' @ ellipsis
      | ImportDone \<Rightarrow> ''[backup] Import complete.'')"

text \<open>
  The QR code is shown by a future that runs beside the link, from the URL \<open>on_link_device\<close> hands out. A link
  that fails is printed; what fails afterwards ends the command.
\<close>

definition cmd_link_device ::
  "('w, 'e, 'g, 'a, 'c, 'k, 'd, 's, 'b) command_env \<Rightarrow> signal_servers \<Rightarrow> string \<Rightarrow> ('w, 'e failure, unit) io" where
  "cmd_link_device E servers device_name =
     attempt (link_secondary_device (cm_onboarding E) servers device_name True) (\<lambda>manager.
       case manager of
         Inl e \<Rightarrow> say E (cm_show_error E e)
       | Inr g \<Rightarrow>
           bindE (on_manager g (whoami (cm_devices E) (cm_whoami E))) (\<lambda>me.
           thenE (say E me)
          (thenE (say E (''Starting backup import'' @ ellipsis))
          (bindE (on_manager g (backup_message_key (cm_fetch_backup_key E) (cm_backup_id E) (cm_derive_backup_key E)))
             (\<lambda>key.
           bindE (run_manager (download_and_import_backup
               (cm_transfer E (rg_data g)\<lparr>te_progress := (\<lambda>p. cm_println E (backup_progress_line (cm_percent E) p))\<rparr>)
               key)) (\<lambda>imported.
             if imported = None
             then say E ''[backup] Primary device skipped upload; continuing without message history.''
             else ok ()))))))"

definition cmd_add_device ::
  "('w, 'e, 'g, 'a, 'c, 'k, 'd, 's, 'b) command_env \<Rightarrow> string \<Rightarrow> ('w, 'e failure, unit) io" where
  "cmd_add_device E url =
     bindE (load_registered_and_receive E) (\<lambda>g.
     thenE (on_manager g (link_secondary (cm_devices E) url)) (say E ''Added new secondary device''))"

definition cmd_unlink_device ::
  "('w, 'e, 'g, 'a, 'c, 'k, 'd, 's, 'b) command_env \<Rightarrow> u32 option \<Rightarrow> ('w, 'e failure, unit) io" where
  "cmd_unlink_device E device =
     (case device of
        Some i \<Rightarrow>
          bindE (load_registered_and_receive E) (\<lambda>g.
          thenE (on_manager g (unlink_secondary (cm_devices E) (dv_device_id (cm_devices E) i)))
            (say E (''Unlinked device with id: '' @ show_nat (unat i))))
      | None \<Rightarrow>
          bindE (load_manager E) (\<lambda>g.
          thenE (on_manager g (unlink_self (cm_devices E)))
            (say E (''Unlinked this device (id: '' @
              show_nat (unat (device_id (dv_device_id (cm_devices E)) (rg_data g))) @ '')''))))"

text \<open>A device's id, name, and the times it was created and last seen, as the client renders them.\<close>

definition device_line :: "u8 \<Rightarrow> u8 \<times> string option \<times> string \<times> string \<Rightarrow> string" where
  "device_line current = (\<lambda>(i, name, created, seen).
     ''- Device '' @ show_nat (unat i) @ '' '' @ (if i = current then ''(this device)'' else []) @
     [CHR 0x0A] @ ''  Name: '' @ opt_or ''(no device name)'' name @
     [CHR 0x0A] @ ''  Created: '' @ created @ [CHR 0x0A] @ ''  Last seen: '' @ seen)"

definition cmd_list_devices :: "('w, 'e, 'g, 'a, 'c, 'k, 'd, 's, 'b) command_env \<Rightarrow> ('w, 'e failure, unit) io" where
  "cmd_list_devices E =
     bindE (load_registered_and_receive E) (\<lambda>g.
     bindE (on_manager g (devices (cm_devices E) (cm_linked E))) (\<lambda>ds.
       for_each ds (\<lambda>d. say E (device_line (device_id (dv_device_id (cm_devices E)) (rg_data g)) d))))"

definition cmd_whoami :: "('w, 'e, 'g, 'a, 'c, 'k, 'd, 's, 'b) command_env \<Rightarrow> ('w, 'e failure, unit) io" where
  "cmd_whoami E =
     bindE (load_registered_and_receive E) (\<lambda>g.
     bindE (on_manager g (whoami (cm_devices E) (cm_whoami E))) (say E))"

definition cmd_lookup_username ::
  "('w, 'e, 'g, 'a, 'c, 'k, 'd, 's, 'b) command_env \<Rightarrow> string \<Rightarrow> ('w, 'e failure, unit) io" where
  "cmd_lookup_username E username =
     bindE (load_registered_and_receive E) (\<lambda>g.
     bindE (on_manager g (lookup_username (cm_devices E) (cm_parse_username E) (cm_look_up E) username)) (\<lambda>found.
       say E (username @ '' => '' @
         (case found of Some aci \<Rightarrow> cm_id E g (Aci aci) | None \<Rightarrow> ''no matching account found''))))"

definition cmd_resolve_phone_number ::
  "('w, 'e, 'g, 'a, 'c, 'k, 'd, 's, 'b) command_env \<Rightarrow> phone_number list \<Rightarrow> ('w, 'e failure, unit) io" where
  "cmd_resolve_phone_number E phone_numbers =
     bindE (load_registered_and_receive E) (\<lambda>g.
     bindE (on_manager g (discover_contacts_by_phone_number (cm_devices E) (cm_e164 E) (cm_from_signal E)
         (cm_discover E) phone_numbers)) (\<lambda>found.
       for_each found (\<lambda>(phone_number, identity).
         say E (phone_number @ '' => '' @ (case identity of Some i \<Rightarrow> cm_id E g i | None \<Rightarrow> ''no account'')))))"

section \<open>Receiving and synchronizing\<close>

definition start_stream ::
  "('w, 'e, 'g, 'a, 'c, 'k, 'd, 's, 'b) command_env \<Rightarrow> ('d, 's) registered \<Rightarrow> ('w, 'e failure, receive_state) io" where
  "start_stream E g =
     bindE (on_manager g (start_receiving (cm_devices E) (cm_pni_key_pair E) (cm_derive E))) (\<lambda>(_, s). ok s)"

text \<open>\<open>evs\<close> are the events of the socket while the command runs.\<close>

definition cmd_sync ::
  "('w, 'e, 'g, 'a, 'c, 'k, 'd, 's, 'b) command_env \<Rightarrow> ('r \<Rightarrow> string) \<Rightarrow>
   'r incoming list \<Rightarrow> bool \<Rightarrow> bool \<Rightarrow> ('w, 'e failure, unit) io" where
  "cmd_sync E reason evs notifications stop_after_empty_queue =
     bindE (load_manager E) (\<lambda>g.
     bindE (start_stream E g) (\<lambda>s w.
       let (r, (_, w')) = receive_loop (cm_cli E (rg_data g)) reason notifications stop_after_empty_queue evs (s, w)
       in (r, w')))"

definition cmd_sync_storage_service :: "('w, 'e, 'g, 'a, 'c, 'k, 'd, 's, 'b) command_env \<Rightarrow> ('w, 'e failure, unit) io" where
  "cmd_sync_storage_service E =
     bindE (load_manager E) (\<lambda>g.
     thenE (run_manager (manager_sync_storage_service (mv_account (ci_messages (cm_cli E (rg_data g))))))
       (say E ''storage service sync complete''))"

definition cmd_hydrate_groups :: "('w, 'e, 'g, 'a, 'c, 'k, 'd, 's, 'b) command_env \<Rightarrow> ('w, 'e failure, unit) io" where
  "cmd_hydrate_groups E =
     bindE (load_manager E) (\<lambda>g.
     thenE (run_manager (hydrate_groups (cm_groups E (rg_data g)))) (say E ''group hydration complete''))"

text \<open>
  The wait for the contacts: \<open>evs\<close> are the events until the stream ends or thirty seconds have passed. It returns
  whether the contacts came.
\<close>

function await_contacts ::
  "('w, 'e, 'g, 'a, 'c, 'k, 'd, 's, 'b) command_env \<Rightarrow> ('w, 'e) receive_env \<Rightarrow> 'r incoming list \<Rightarrow>
   receive_state \<times> 'w \<Rightarrow> bool \<times> (receive_state \<times> 'w)" where
  "await_contacts E R evs s =
     (case next_received R evs s of
        (None, s') \<Rightarrow> (False, s')
      | (Some (x, rest), (g, w)) \<Rightarrow>
          (case x of
             Contacts \<Rightarrow> (True, (g, cm_println E ''got contacts! thank you, come again.'' w))
           | Content _ \<Rightarrow> await_contacts E R rest (g, cm_print E ''.'' w)
           | DecryptionError _ _ _ _ \<Rightarrow>
               await_contacts E R rest (g, cm_println E ''failed to receive a message from a contact'' w)
           | PeerDecryptionError _ \<Rightarrow>
               await_contacts E R rest (g, cm_println E ''a contact could not decrypt a message we sent'' w)
           | QueueEmpty \<Rightarrow> await_contacts E R rest (g, w)
           | Disconnected _ \<Rightarrow> await_contacts E R rest (g, w)))"
  by pat_completeness auto
termination
  by (relation "measure (\<lambda>(E, R, evs, s). length evs)") (auto dest: next_received_shrinks [OF sym])

declare await_contacts.simps [simp del]

definition cmd_sync_contacts ::
  "('w, 'e, 'g, 'a, 'c, 'k, 'd, 's, 'b) command_env \<Rightarrow> 'r incoming list \<Rightarrow> bool \<Rightarrow> ('w, 'e failure, unit) io" where
  "cmd_sync_contacts E evs timed_out =
     bindE (load_manager E) (\<lambda>g.
     let R = ci_receive (cm_cli E (rg_data g)) in
     thenE (run_manager (request_contacts (re_messages R)))
    (bindE (start_stream E g) (\<lambda>s.
     thenE (say E ''synchronizing messages until we get contacts (dots are messages synced from the past timeline)'')
    (bindE (call (\<lambda>w. let (came, (_, w')) = await_contacts E R evs (s, w) in (came, w'))) (\<lambda>came.
       if came then ok ()
       else complain E ([CHR 0x0A] @
         (if timed_out then ''timed out after 30s: primary device did not respond with contacts''
          else ''stream ended before contacts were received'')))))))"

section \<open>Sending\<close>

fun read_attachments ::
  "('w, 'e, 'g, 'a, 'c, 'k, 'd, 's, 'b) command_env \<Rightarrow> string list \<Rightarrow> ('w, 'f, (attachment_spec \<times> bytes) list) io" where
  "read_attachments E [] = ok []"
| "read_attachments E (path # paths) =
     bindE (call (cm_read_file E path)) (\<lambda>contents.
     bindE (read_attachments E paths) (\<lambda>rest. ok (
       case contents of
         None \<Rightarrow> rest
       | Some bytes \<Rightarrow>
           (\<lparr>as_content_type = opt_or ''application/octet-stream'' (cm_mime_type E path),
             as_length = length bytes, as_file_name = cm_file_name E path, as_preview = None,
             as_voice_note = None, as_borderless = None, as_width = None, as_height = None,
             as_caption = None, as_blur_hash = None\<rparr>, bytes) # rest)))"

definition cli_upload_attachments ::
  "('w, 'e, 'g, 'a, 'c, 'k, 'd, 's, 'b) command_env \<Rightarrow> ('d, 's) registered \<Rightarrow> string list \<Rightarrow>
   ('w, 'e failure, attachment_pointer list) io" where
  "cli_upload_attachments E g paths =
     bindE (read_attachments E paths) (\<lambda>specs.
     bindE (run_manager (upload_attachments (ci_downloads (cm_cli E (rg_data g))) specs)) (\<lambda>results.
       lift_res (case res_collect results of Inl e \<Rightarrow> Inl (Bail e) | Inr ps \<Rightarrow> Inr ps)))"

definition announced_group :: "key32 \<Rightarrow> group_context" where
  "announced_group mk = \<lparr>gc_master_key = Some (key32_bytes mk), gc_revision = Some 0, gc_group_change = None\<rparr>"

definition cmd_send ::
  "('w, 'e, 'g, 'a, 'c, 'k, 'd, 's, 'b) command_env \<Rightarrow> uuid \<Rightarrow> string \<Rightarrow> string list \<Rightarrow> ('w, 'e failure, unit) io" where
  "cmd_send E u message paths =
     bindE (load_registered_and_receive E) (\<lambda>g.
     bindE (cli_upload_attachments E g paths) (\<lambda>attachments.
       cli_send (cm_cli E (rg_data g)) (RecipientContact u)
         (DataMessage (data_message_default\<lparr>dm_body := Some message, dm_attachments := attachments\<rparr>))))"

definition cmd_send_to_group ::
  "('w, 'e, 'g, 'a, 'c, 'k, 'd, 's, 'b) command_env \<Rightarrow> string \<Rightarrow> key32 \<Rightarrow> string list \<Rightarrow> ('w, 'e failure, unit) io" where
  "cmd_send_to_group E message mk paths =
     bindE (load_registered_and_receive E) (\<lambda>g.
     bindE (cli_upload_attachments E g paths) (\<lambda>attachments.
       cli_send (cm_cli E (rg_data g)) (RecipientGroup mk)
         (DataMessage (data_message_default
            \<lparr>dm_body := Some message, dm_attachments := attachments, dm_group_v2 := Some (announced_group mk)\<rparr>))))"

section \<open>Reading the store\<close>

definition found_contacts ::
  "service_id option \<Rightarrow> phone_number option \<Rightarrow> string option \<Rightarrow> ('e + contact) list \<Rightarrow> contact list" where
  "found_contacts i phone_number name cs =
     filter (\<lambda>c. case name of None \<Rightarrow> True | Some n \<Rightarrow> contains (c_name c) n)
    (filter (\<lambda>c. c_phone_number c = phone_number)
    (filter (\<lambda>c. case i of None \<Rightarrow> True | Some sid \<Rightarrow> c_uuid c = raw_uuid sid)
       (List.map_filter res_ok cs)))"

definition cmd_find_contact ::
  "('w, 'e, 'g, 'a, 'c, 'k, 'd, 's, 'b) command_env \<Rightarrow> service_id option \<Rightarrow> phone_number option \<Rightarrow> string option \<Rightarrow>
   ('w, 'e failure, unit) io" where
  "cmd_find_contact E i phone_number name =
     bindE (load_registered_and_receive E) (\<lambda>g.
     bindE (from_store (stored_contacts (cm_store E g))) (\<lambda>cs.
       for_each (found_contacts i phone_number name cs) (\<lambda>c. say E (cm_show_contact E c))))"

definition cmd_get_contact ::
  "('w, 'e, 'g, 'a, 'c, 'k, 'd, 's, 'b) command_env \<Rightarrow> service_id \<Rightarrow> ('w, 'e failure, unit) io" where
  "cmd_get_contact E i =
     bindE (load_registered_and_receive E) (\<lambda>g.
     bindE (from_store (contact_by_id (cm_store E g) i)) (\<lambda>found.
       case found of
         Some c \<Rightarrow> say E (cm_show_contact E c)
       | None \<Rightarrow> complain E (''Could not find contact for '' @ cm_id E g i)))"

definition cmd_list_contacts :: "('w, 'e, 'g, 'a, 'c, 'k, 'd, 's, 'b) command_env \<Rightarrow> ('w, 'e failure, unit) io" where
  "cmd_list_contacts E =
     bindE (load_registered_and_receive E) (\<lambda>g.
     bindE (from_store (stored_contacts (cm_store E g))) (\<lambda>cs.
       for_each (List.map_filter res_ok cs) (\<lambda>c.
         say E (cm_show_uuid E (c_uuid c) @ '' / '' @ cm_show_phone E (c_phone_number c) @ '' / '' @ c_name c))))"

definition group_listed :: "string option \<Rightarrow> group \<Rightarrow> bool" where
  "group_listed name_filter gr \<longleftrightarrow>
     (case name_filter of
        None \<Rightarrow> True
      | Some f \<Rightarrow> (case g_title gr of Some t \<Rightarrow> contains t f | None \<Rightarrow> False))"

definition group_lines ::
  "('w, 'e, 'g, 'a, 'c, 'k, 'd, 's, 'b) command_env \<Rightarrow> bool \<Rightarrow> key32 \<times> group \<Rightarrow> string list" where
  "group_lines E verbose = (\<lambda>(mk, gr).
     (let key = cm_hex E (key32_bytes mk); title = opt_or ''<not yet fetched>'' (g_title gr);
          revision = show_nat (unat (g_revision gr)) in
      if verbose then
        [key @ '' (revision '' @ revision @ '')'', CHR 0x09 # ''Title: '' @ title] @
        (case g_description gr of
           Some d \<Rightarrow> [CHR 0x09 # ''Description: '' @ d @ [CHR 0x0A]] | None \<Rightarrow> []) @
        (if g_pending_members gr = [] then []
         else [''Has '' @ show_nat (length (g_pending_members gr)) @ '' pending members'']) @
        (if g_requesting_members gr = [] then []
         else [''Has '' @ show_nat (length (g_requesting_members gr)) @ '' requesting members'']) @
        (case g_timer gr of
           Some t \<Rightarrow> [''Disappearing messages timer: '' @ show_nat (unat t) @ '' seconds''] | None \<Rightarrow> [])
      else
        [key @ '' '' @ title @ '': '' @ cm_show_text E (g_description gr) @ '' / revision '' @ revision @
         '' / '' @ show_nat (length (g_members gr)) @ '' members'']))"

definition cmd_list_groups ::
  "('w, 'e, 'g, 'a, 'c, 'k, 'd, 's, 'b) command_env \<Rightarrow> string option \<Rightarrow> bool \<Rightarrow> ('w, 'e failure, unit) io" where
  "cmd_list_groups E name_filter verbose =
     bindE (load_registered_and_receive E) (\<lambda>g.
     bindE (from_store (stored_groups (cm_store E g))) (\<lambda>gs.
       for_each (filter (\<lambda>(_, gr). group_listed name_filter gr) (List.map_filter res_ok gs)) (\<lambda>gr.
         for_each (group_lines E verbose gr) (say E))))"

definition sticker_line :: "sticker \<Rightarrow> string" where
  "sticker_line s =
     CHR 0x09 # ''id='' @ show_nat (unat (sk_id s)) @ '' emoji='' @ opt_or [] (sk_emoji s) @
     '' content_type='' @ opt_or [] (sk_content_type s) @ '' bytes='' @ show_nat (length (opt_or [] (sk_bytes s)))"

definition cmd_list_sticker_packs :: "('w, 'e, 'g, 'a, 'c, 'k, 'd, 's, 'b) command_env \<Rightarrow> ('w, 'e failure, unit) io" where
  "cmd_list_sticker_packs E =
     bindE (load_registered_and_receive E) (\<lambda>_.
     bindE (from_store (cm_sticker_packs E)) (\<lambda>packs.
       for_each (List.map_filter res_ok packs) (\<lambda>p.
         thenE (say E (''title='' @ sk_title (sk_manifest p) @ '' author='' @ sk_author (sk_manifest p)))
           (for_each (sk_stickers (sk_manifest p)) (\<lambda>s. say E (sticker_line s))))))"

definition cmd_list_messages ::
  "('w, 'e, 'g, 'a, 'c, 'k, 'd, 's, 'b) command_env \<Rightarrow> key32 option \<Rightarrow> service_id option \<Rightarrow> u64 option \<Rightarrow>
   ('w, 'e failure, unit) io" where
  "cmd_list_messages E group_key recipient from_time =
     bindE (load_registered_and_receive E) (\<lambda>g.
     bindE (case (group_key, recipient) of
              (Some mk, _) \<Rightarrow> ok (GroupThread mk)
            | (None, Some sid) \<Rightarrow> ok (ContactThread sid)
            | (None, None) \<Rightarrow> err (Panicked ''unreachable'')) (\<lambda>t.
     bindE (from_store (cm_stored_messages E t (opt_or 0 from_time))) (\<lambda>ms.
       for_each (List.map_filter res_ok ms) (print_message (cm_cli E (rg_data g)) False))))"

section \<open>Profiles\<close>

text \<open>The loop over the contacts of that UUID; the last one's key is used.\<close>

fun profile_key_of_contacts :: "string \<Rightarrow> contact list \<Rightarrow> key32 option \<Rightarrow> 'e failure + key32 option" where
  "profile_key_of_contacts u [] key = Inr key"
| "profile_key_of_contacts u (c # cs) key =
     (case key32_from_slice (c_profile_key c) of
        None \<Rightarrow> Inl (Bail (''Profile key is not 32 bytes or empty for uuid: '' @ u @
          '' and no alternative profile key was provided''))
      | Some k \<Rightarrow> profile_key_of_contacts u cs (Some k))"

definition cmd_retrieve_profile ::
  "('w, 'e, 'g, 'a, 'c, 'k, 'd, 's, 'b) command_env \<Rightarrow> uuid \<Rightarrow> key32 option \<Rightarrow> ('w, 'e failure, unit) io" where
  "cmd_retrieve_profile E u given_key =
     bindE (load_registered_and_receive E) (\<lambda>g.
     bindE (case given_key of
              None \<Rightarrow>
                bindE (from_store (stored_contacts (cm_store E g))) (\<lambda>cs.
                  lift_res (profile_key_of_contacts (cm_show_uuid E u)
                    (filter (\<lambda>c. c_uuid c = u) (List.map_filter res_ok cs)) None))
            | Some k \<Rightarrow>
                thenE (say E (''Retrieving profile for: '' @ cm_show_uuid E u @ '' with profile_key'')) (ok (Some k)))
       (\<lambda>key.
     bindE (run_manager (case key of
              None \<Rightarrow> retrieve_profile (cm_profiles E (rg_data g))
            | Some k \<Rightarrow> retrieve_profile_by_uuid (cm_profiles E (rg_data g)) u k)) (\<lambda>p.
       say E (cm_show_profile E p))))"

definition cmd_update_profile ::
  "('w, 'e, 'g, 'a, 'c, 'k, 'd, 's, 'b) command_env \<Rightarrow> string option \<Rightarrow> string option \<Rightarrow> string option \<Rightarrow> string option \<Rightarrow>
   ('w, 'e failure, unit) io" where
  "cmd_update_profile E given_name family_name about emoji =
     bindE (load_registered_and_receive E) (\<lambda>g.
       case given_name of
         Some name \<Rightarrow>
           thenE (run_manager (update_profile (cm_profiles E (rg_data g))
               \<lparr>pn_given_name = name, pn_family_name = family_name\<rparr> about emoji))
             (say E ''Profile updated.'')
       | None \<Rightarrow>
           if family_name \<noteq> None \<or> about \<noteq> None \<or> emoji \<noteq> None
           then err (Bail (''The --given-name parameter is required when updating the profile fields '' @
             ''(--family-name, --about or --emoji)''))
           else ok ())"

section \<open>Groups\<close>

definition cmd_get_credential ::
  "('w, 'e, 'g, 'a, 'c, 'k, 'd, 's, 'b) command_env \<Rightarrow> service_id option \<Rightarrow> ('w, 'e failure, unit) io" where
  "cmd_get_credential E i =
     bindE (load_manager E) (\<lambda>g.
       case i of
         None \<Rightarrow>
           bindE (on_manager g (cm_own_credential E)) (\<lambda>credential.
             say E (''self: credential OK, expires '' @ show_nat (cm_expires E credential)))
       | Some sid \<Rightarrow>
           bindE (from_store (stored_profile_key (cm_store E g) sid)) (\<lambda>key.
           thenE (say E (cm_id E g sid @ '': profile key '' @
              (if key \<noteq> None then ''found in signal_profile_keys''
               else ''MISSING '' @ dash @ '' will be a pending invite'')))
          (bindE (run_manager (group_member_candidates (cm_groups E (rg_data g)) [sid])) (\<lambda>candidates.
             say E (cm_id E g sid @
               (case Option.bind (case candidates of c # _ \<Rightarrow> Some c | [] \<Rightarrow> None) cand_credential of
                  Some credential \<Rightarrow> '': credential OK, expires '' @ show_nat (cm_expires E credential) @
                    '' '' @ dash @ '' joins as FULL MEMBER''
                | None \<Rightarrow> '': no credential '' @ dash @ '' joins as PENDING INVITE''))))))"

definition candidate_line ::
  "('w, 'e, 'g, 'a, 'c, 'k, 'd, 's, 'b) command_env \<Rightarrow> ('d, 's) registered \<Rightarrow> 'c group_member_candidate \<Rightarrow> string" where
  "candidate_line E g c =
     cm_id E g (cand_service_id c) @ '': '' @
     (if cand_credential c \<noteq> None then ''full member'' else ''pending invite (no profile key credential)'')"

definition cmd_create_group ::
  "('w, 'e, 'g, 'a, 'c, 'k, 'd, 's, 'b) command_env \<Rightarrow> string \<Rightarrow> service_id list \<Rightarrow> ('w, 'e failure, unit) io" where
  "cmd_create_group E name members =
     bindE (load_manager E) (\<lambda>g.
     let G = cm_groups E (rg_data g); M = ci_messages (cm_cli E (rg_data g)) in
     bindE (run_manager (group_member_candidates G members)) (\<lambda>candidates.
     thenE (for_each candidates (\<lambda>c. say E (candidate_line E g c)))
    (bindE (run_manager (create_group G name None None members)) (\<lambda>mk.
     thenE (say E (''created group '' @ cm_debug_string E name))
    (thenE (say E (''master key: '' @ cm_hex E (key32_bytes mk)))
    (bindE (call (ae_now_ms (mv_account M))) (\<lambda>timestamp.
     attempt (send_message_to_group M mk
         (DataMessage (data_message_default\<lparr>dm_group_v2 := Some (announced_group mk)\<rparr>)) timestamp) (\<lambda>r.
       say E (case r of
         Inr _ \<Rightarrow> ''announced the group to its members''
       | Inl e \<Rightarrow> ''WARNING: announcing the group to its members failed: '' @ cm_show_error E e)))))))))"

section \<open>Statistics\<close>

definition shown_stats :: "(identity_type \<times> cli_stat) list" where
  "shown_stats = List.product [AciIdentity, PniIdentity]
     [Next_Pre_Key_Id, Next_Signed_Pre_Key_Id, Next_Kyber_Pre_Key_Id, Signed_Pre_Keys_Count,
      Kyber_Pre_Keys_Count False, Kyber_Pre_Keys_Count True]"

fun read_stats ::
  "('w, 'e, 'g, 'a, 'c, 'k, 'd, 's, 'b) command_env \<Rightarrow> (identity_type \<times> cli_stat) list \<Rightarrow>
   ('w, 'e failure, nat list) io" where
  "read_stats E [] = ok []"
| "read_stats E ((i, x) # xs) =
     bindE (map_err Panicked (cm_stat E i x)) (\<lambda>n. bindE (read_stats E xs) (\<lambda>ns. ok (n # ns)))"

definition cmd_stats :: "('w, 'e, 'g, 'a, 'c, 'k, 'd, 's, 'b) command_env \<Rightarrow> ('w, 'e failure, unit) io" where
  "cmd_stats E =
     bindE (load_registered_and_receive E) (\<lambda>_.
     bindE (read_stats E shown_stats) (\<lambda>ns. say E (cm_show_stats E ns)))"

section \<open>The commands\<close>

datatype cli_command =
    Cmd_Register registration_options
  | Cmd_LinkDevice signal_servers string
  | Cmd_AddDevice string
  | Cmd_UnlinkDevice "u32 option"
  | Cmd_ListDevices
  | Cmd_Whoami
  | Cmd_RetrieveProfile uuid "key32 option"
  | Cmd_UpdateProfile "string option" "string option" "string option" "string option"
  | Cmd_Sync bool bool
  | Cmd_SyncStorageService
  | Cmd_HydrateGroups
  | Cmd_ListGroups "string option" bool
  | Cmd_ListContacts
  | Cmd_ListMessages "service_id option" "key32 option" "u64 option"
  | Cmd_ListStickerPacks
  | Cmd_GetContact service_id
  | Cmd_FindContact "service_id option" "phone_number option" "string option"
  | Cmd_Send uuid string "string list"
  | Cmd_SendToGroup string key32 "string list"
  | Cmd_SyncContacts
  | Cmd_ResolvePhoneNumber "phone_number list"
  | Cmd_LookupUsername string
  | Cmd_GetCredential "service_id option"
  | Cmd_CreateGroup string "service_id list"
  | Cmd_Stats

fun run_command ::
  "('w, 'e, 'g, 'a, 'c, 'k, 'd, 's, 'b) command_env \<Rightarrow> ('r \<Rightarrow> string) \<Rightarrow> 'r incoming list \<Rightarrow> bool \<Rightarrow> cli_command \<Rightarrow>
   ('w, 'e failure, unit) io" where
  "run_command E reason evs timed_out (Cmd_Register options) = cmd_register E options"
| "run_command E reason evs timed_out (Cmd_LinkDevice servers device_name) = cmd_link_device E servers device_name"
| "run_command E reason evs timed_out (Cmd_AddDevice url) = cmd_add_device E url"
| "run_command E reason evs timed_out (Cmd_UnlinkDevice device) = cmd_unlink_device E device"
| "run_command E reason evs timed_out Cmd_ListDevices = cmd_list_devices E"
| "run_command E reason evs timed_out Cmd_Whoami = cmd_whoami E"
| "run_command E reason evs timed_out (Cmd_RetrieveProfile u key) = cmd_retrieve_profile E u key"
| "run_command E reason evs timed_out (Cmd_UpdateProfile given family about emoji) =
     cmd_update_profile E given family about emoji"
| "run_command E reason evs timed_out (Cmd_Sync notifications stop) = cmd_sync E reason evs notifications stop"
| "run_command E reason evs timed_out Cmd_SyncStorageService = cmd_sync_storage_service E"
| "run_command E reason evs timed_out Cmd_HydrateGroups = cmd_hydrate_groups E"
| "run_command E reason evs timed_out (Cmd_ListGroups name_filter verbose) = cmd_list_groups E name_filter verbose"
| "run_command E reason evs timed_out Cmd_ListContacts = cmd_list_contacts E"
| "run_command E reason evs timed_out (Cmd_ListMessages recipient group_key from_time) =
     cmd_list_messages E group_key recipient from_time"
| "run_command E reason evs timed_out Cmd_ListStickerPacks = cmd_list_sticker_packs E"
| "run_command E reason evs timed_out (Cmd_GetContact i) = cmd_get_contact E i"
| "run_command E reason evs timed_out (Cmd_FindContact i phone_number name) = cmd_find_contact E i phone_number name"
| "run_command E reason evs timed_out (Cmd_Send u message paths) = cmd_send E u message paths"
| "run_command E reason evs timed_out (Cmd_SendToGroup message mk paths) = cmd_send_to_group E message mk paths"
| "run_command E reason evs timed_out Cmd_SyncContacts = cmd_sync_contacts E evs timed_out"
| "run_command E reason evs timed_out (Cmd_ResolvePhoneNumber phone_numbers) = cmd_resolve_phone_number E phone_numbers"
| "run_command E reason evs timed_out (Cmd_LookupUsername username) = cmd_lookup_username E username"
| "run_command E reason evs timed_out (Cmd_GetCredential i) = cmd_get_credential E i"
| "run_command E reason evs timed_out (Cmd_CreateGroup name members) = cmd_create_group E name members"
| "run_command E reason evs timed_out Cmd_Stats = cmd_stats E"

end
