(* ===== verification/Cli_Laws.thy ===== *)
theory Cli_Laws
  imports Cli_Commands
begin

text \<open>
  Laws of theories Cli_Print and Cli_Commands: when the client stops reading its stream, the one message that
  ends the process, and what the look-up commands find.
\<close>

section \<open>Computations that do not fail\<close>

named_theorems returns_rules \<open>one rule per combinator and per case\<close>

definition returns :: "('w, 'f, 'a) io \<Rightarrow> bool" where
  "returns m \<longleftrightarrow> (\<forall>w. \<exists>x w'. m w = (Inr x, w'))"

lemma returns_ok [returns_rules]: "returns (ok x)"
  by (simp add: returns_def ok_def)

lemma returns_call [returns_rules]: "returns (call f)"
  by (simp add: returns_def call_def split: prod.split)

lemma returns_println [returns_rules]: "returns (println C line)"
  unfolding println_def by (rule returns_call)

lemma returns_bindE [returns_rules]: "returns m \<Longrightarrow> (\<And>x. returns (f x)) \<Longrightarrow> returns (bindE m f)"
  unfolding returns_def by (metis bindE_Inr)

lemma returns_thenE [returns_rules]: "returns m \<Longrightarrow> returns k \<Longrightarrow> returns (thenE m k)"
  unfolding thenE_def by (rule returns_bindE)

lemma returns_attempt [returns_rules]: "(\<And>r. returns (f r)) \<Longrightarrow> returns (attempt m f)"
  by (simp add: returns_def attempt_def split: prod.split)

lemma returns_for_each [returns_rules]: "(\<And>x. returns (f x)) \<Longrightarrow> returns (for_each xs f)"
  by (induction xs) (auto intro: returns_rules)

lemma returns_cases [returns_rules]:
  "(\<And>x. z = Some x \<Longrightarrow> returns (f x)) \<Longrightarrow> (z = None \<Longrightarrow> returns g) \<Longrightarrow>
   returns (case z of None \<Rightarrow> g | Some x \<Rightarrow> f x)"
  "(\<And>e. r = Inl e \<Longrightarrow> returns (h e)) \<Longrightarrow> (\<And>x. r = Inr x \<Longrightarrow> returns (k x)) \<Longrightarrow>
   returns (case r of Inl e \<Rightarrow> h e | Inr x \<Rightarrow> k x)"
  "(\<And>a b. p = (a, b) \<Longrightarrow> returns (q a b)) \<Longrightarrow> returns (case p of (a, b) \<Rightarrow> q a b)"
  "(c \<Longrightarrow> returns m) \<Longrightarrow> (\<not> c \<Longrightarrow> returns n) \<Longrightarrow> returns (if c then m else n)"
  by (auto split: option.split sum.split prod.split)

section \<open>Showing a message\<close>

lemma returns_format [returns_rules]:
  "returns (format_data_message C t d)" "returns (format_contact C sid)" "returns (format_group C mk)"
  unfolding format_data_message_def format_contact_def format_group_def Let_def
  by (intro returns_rules)+

lemma returns_shown_data_message [returns_rules]: "returns (shown_data_message C msg t d)"
  unfolding shown_data_message_def by (intro returns_rules)

lemma returns_message_heading [returns_rules]: "returns (message_heading C c m)"
  unfolding message_heading_def Let_def
  by (cases m; rename_tac t body; case_tac t) (simp; intro returns_rules)+

definition unknown_receipt :: "content_body \<Rightarrow> bool" where
  "unknown_receipt b \<longleftrightarrow>
     (case b of ReceiptMessage receipt_type _ \<Rightarrow> receipt_type_name (opt_or 0 receipt_type) = None | _ \<Rightarrow> False)"

lemma returns_message_shown: "\<not> unknown_receipt b \<Longrightarrow> returns (message_shown C t b)"
  unfolding message_shown_def unknown_receipt_def
  by (auto split: content_body.split option.split sync_content.split intro!: returns_rules)

lemma message_shown_panics: "unknown_receipt b \<Longrightarrow> message_shown C t b w = (Inl (Panicked ''UnknownEnumValue''), w)"
  by (auto simp: message_shown_def unknown_receipt_def err_def split: content_body.splits)

text \<open>C37. Showing a message fails exactly for a receipt of a type the client does not know, if the thread it belongs
  to can be told: neither a store that fails nor a message, contact or group that is missing, nor any other
  content keeps the client from going on.\<close>

theorem only_receipts_panic:
  "(\<exists>e w'. print_message C notifications c w = (Inl e, w')) \<longleftrightarrow>
     unknown_receipt (ct_body c) \<and> \<not> isl (thread_try_from (mv_parse_dest (ci_messages C)) c)"
proof (cases "thread_try_from (mv_parse_dest (ci_messages C)) c")
  case (Inr t)
  show ?thesis
  proof (cases "unknown_receipt (ct_body c)")
    case True
    with Inr show ?thesis
      by (auto simp: print_message_def bindE_Inl [OF message_shown_panics])
  next
    case False
    have "returns (print_message C notifications c)"
      unfolding print_message_def by (intro returns_rules returns_message_shown [OF False])
    with False show ?thesis unfolding returns_def by (metis Inl_Inr_False Pair_inject)
  qed
qed (simp add: print_message_def ok_def)

lemma returns_save_attachment [returns_rules]: "returns (save_attachment C p)"
  unfolding save_attachment_def Let_def by (intro returns_rules)

lemma returns_handle_received:
  assumes "\<And>c. x = Content c \<Longrightarrow> \<not> unknown_receipt (ct_body c)"
  shows "returns (handle_received C reason notifications stop x)"
proof -
  have "returns (print_message C notifications c)" if "x = Content c" for c
    unfolding print_message_def by (intro returns_rules returns_message_shown assms [OF that])
  then show ?thesis
    by (auto simp: handle_received_def process_incoming_message_def
        split: received.split content_body.split intro!: returns_rules)
qed

section \<open>The loop\<close>

text \<open>An event that yields nothing, and one that yields a value.\<close>

lemma receive_loop_Nil: "receive_loop C reason n stop [] s = (Inr (), s)"
  by (simp add: receive_loop.simps)

lemma receive_loop_Cons:
  "receive_loop C reason n stop (ev # evs) s =
     (case handle_incoming (ci_receive C) ev s of
        (None, s') \<Rightarrow> receive_loop C reason n stop evs s'
      | (Some x, (g, w)) \<Rightarrow>
          (case handle_received C reason n stop x w of
             (Inl e, w') \<Rightarrow> (Inl e, (g, w'))
           | (Inr ended, w') \<Rightarrow>
               if ended then (Inr (), (g, w')) else receive_loop C reason n stop evs (g, w')))"
  by (subst receive_loop.simps)
    (auto simp: receive_loop.simps [of _ _ _ _ evs] split: prod.split option.split)

text \<open>With \<open>stop_after_empty_queue\<close> the client leaves its stream at the end of the queue: whatever came
  before, once the server has said that the queue is empty no later event is opened, stored or shown,
  and the client ends in the same state and with the same result as if there were none.\<close>

theorem sync_stops_with_the_queue:
  "receive_loop C reason n True (before @ IncomingQueueEmpty # after) s =
     receive_loop C reason n True (before @ [IncomingQueueEmpty]) s"
proof (induction before arbitrary: s)
  case Nil
  show ?case
    by (simp add: receive_loop_Cons handle_queue_empty_def handle_received_def println_def io_simps
        split: prod.split)
next
  case (Cons ev before)
  then show ?case by (simp add: receive_loop_Cons split: prod.split option.split sum.split)
qed

text \<open>Without the option it goes on, and what comes after a beginning that did not fail is treated as if it came first.\<close>

lemma sync_goes_on:
  "receive_loop C reason n False before s = (Inr (), s') \<Longrightarrow>
   receive_loop C reason n False (before @ after) s = receive_loop C reason n False after s'"
proof (induction before arbitrary: s)
  case (Cons ev before)
  have "handle_received C reason n False x w = (Inr ended, w') \<Longrightarrow> \<not> ended" for x w ended w'
    by (auto simp: handle_received_def thenE_def println_def io_simps split: received.splits prod.splits sum.splits)
  with Cons show ?case
    by (auto simp: receive_loop_Cons split: prod.splits option.splits sum.splits if_splits)
qed (simp add: receive_loop_Nil)

text \<open>So a contact can end the process of a client that waits for messages, by a receipt of an unknown type.\<close>

lemma unknown_receipt_ends_the_client:
  assumes "handle_incoming (ci_receive C) ev s = (Some (Content c), (g, w))" "unknown_receipt (ct_body c)"
    "thread_try_from (mv_parse_dest (ci_messages C)) c = Inr t"
  shows "receive_loop C reason n stop (ev # evs) s = (Inl (Panicked ''UnknownEnumValue''), (g, w))"
proof -
  have "handle_received C reason n stop (Content c) w = (Inl (Panicked ''UnknownEnumValue''), w)"
    using assms(3)
    by (simp add: message_shown_panics [OF assms(2)] handle_received_def process_incoming_message_def print_message_def io_simps)
  with assms(1) show ?thesis by (simp add: receive_loop_Cons)
qed

section \<open>Looking things up\<close>

text \<open>
  \<open>find-contact\<close> compares the phone number even when none is given: it then finds only contacts without one, and a
  contact whose number is known is not found by its id.
\<close>

lemma set_oks: "c \<in> set (List.map_filter res_ok cs) \<longleftrightarrow> Inr c \<in> set cs"
proof (induction cs)
  case (Cons r cs)
  then show ?case by (cases r) (auto simp: map_filter_simps)
qed (simp add: map_filter_simps)

lemma found_contacts_iff:
  "c \<in> set (found_contacts i phone_number name cs) \<longleftrightarrow>
     Inr c \<in> set cs \<and> c_phone_number c = phone_number \<and>
     (\<forall>sid. i = Some sid \<longrightarrow> c_uuid c = raw_uuid sid) \<and> (\<forall>n. name = Some n \<longrightarrow> contains (c_name c) n)"
  by (auto simp: found_contacts_def set_oks split: option.split)

lemma known_number_is_not_found_by_id:
  "c_phone_number c \<noteq> None \<Longrightarrow> c \<notin> set (found_contacts (Some (Aci (c_uuid c))) None None cs)"
  by (simp add: found_contacts_iff)

text \<open>
  \<open>retrieve-profile\<close> for an id no stored contact has and without a key fetches the account's own profile and shows it
  as the profile asked for.
\<close>

lemma stranger_profile_is_ours:
  assumes "load_registered_and_receive E w = (Inr g, w1)" "stored_contacts (cm_store E g) w1 = (Inr cs, w2)"
    "\<forall>c. Inr c \<in> set cs \<longrightarrow> c_uuid c \<noteq> u"
  shows "cmd_retrieve_profile E u None w =
    bindE (run_manager (retrieve_profile (cm_profiles E (rg_data g)))) (\<lambda>p. say E (cm_show_profile E p)) w2"
proof -
  have "filter (\<lambda>c. c_uuid c = u) (List.map_filter res_ok cs) = []"
    using assms(3) by (simp add: filter_empty_conv set_oks)
  then show ?thesis
    using assms(1,2) by (simp add: cmd_retrieve_profile_def from_store_def run_manager_def st_def io_simps)
qed

text \<open>The key \<open>list-groups\<close> shows is one the other commands take.\<close>

lemma listed_key_parses:
  "cm_unhex E (cm_hex E (key32_bytes mk)) = Inr (key32_bytes mk) \<Longrightarrow>
   parse_group_master_key E (cm_hex E (key32_bytes mk)) = Inr mk"
  by (simp add: parse_group_master_key_def)

text \<open>A contact found by part of its name.\<close>

lemma contains_iff: "contains hay needle \<longleftrightarrow> (\<exists>xs ys. hay = xs @ needle @ ys)"
proof (induction hay)
  case (Cons c cs)
  have "take (length needle) (c # cs) = needle \<longleftrightarrow> (\<exists>ys. c # cs = needle @ ys)"
    by (metis append_eq_conv_conj append_take_drop_id)
  moreover have "(\<exists>xs ys. c # cs = xs @ needle @ ys) \<longleftrightarrow>
      (\<exists>ys. c # cs = needle @ ys) \<or> (\<exists>xs ys. cs = xs @ needle @ ys)"
    by (metis append_Cons append_Nil list.sel(3) neq_Nil_conv)
  ultimately show ?case using Cons.IH by simp
qed auto

section \<open>Attachments that cannot be read\<close>

text \<open>A file that cannot be read is left out and nothing else changes: the message goes without it.\<close>

lemma read_attachments_unreadable:
  assumes "\<And>w. cm_read_file E path w = (None, w)"
  shows "read_attachments E (before @ path # after) = read_attachments E (before @ after)"
  by (induction before) (simp_all add: assms io_simps call_def fun_eq_iff split: prod.split sum.split)

theorem unreadable_attachment_is_dropped:
  assumes "\<And>w. cm_read_file E path w = (None, w)"
  shows "cli_upload_attachments E g (before @ path # after) = cli_upload_attachments E g (before @ after)"
  by (simp add: cli_upload_attachments_def read_attachments_unreadable [where path = path, OF assms])

end
