(* ===== verification/Receive_Laws.thy ===== *)
theory Receive_Laws
  imports Receive
begin

text \<open>
  Laws of theory Receive: what the stream yields, event by event, and what it keeps of the account's keys.
\<close>

section \<open>What is yielded\<close>

text \<open>The value an opened content becomes.\<close>

definition received_of :: "content \<Rightarrow> 'r received" where
  "received_of c =
     (case ct_body c of
        DecryptionErrorMessage \<Rightarrow> PeerDecryptionError (md_sender (ct_metadata c))
      | SynchronizeMessage (Some SyncContacts) _ \<Rightarrow> Contacts
      | _ \<Rightarrow> Content c)"

text \<open>The value of an event, read off its opening alone.\<close>

definition yield_of :: "('w, 'e) receive_env \<Rightarrow> 'r incoming \<Rightarrow> 'w \<Rightarrow> 'r received option" where
  "yield_of R ev w =
     (case ev of
        IncomingEnvelope env \<Rightarrow>
          (case envelope_cipher R env of
             None \<Rightarrow> None
           | Some cipher \<Rightarrow>
               (case fst (re_open R cipher env w) of
                  Inr c \<Rightarrow> map_option received_of c
                | Inl e \<Rightarrow> map_option (\<lambda>r. DecryptionError (rc_sender r) (rc_sender_device r)
                    (env_client_timestamp env) (rc_original r)) (retry_of R env e)))
      | IncomingQueueEmpty \<Rightarrow> Some QueueEmpty
      | IncomingDisconnected reason \<Rightarrow> Some (Disconnected reason)
      | IncomingError \<Rightarrow> None)"

definition effect_of :: "('w, 'e) receive_env \<Rightarrow> 'r incoming \<Rightarrow> receive_state \<times> 'w \<Rightarrow> receive_state \<times> 'w" where
  "effect_of R ev s = snd (handle_incoming R ev s)"

text \<open>The reference stream: one event after the other, each yielding at most one value.\<close>

fun reference_stream ::
  "('w, 'e) receive_env \<Rightarrow> 'r incoming list \<Rightarrow> receive_state \<times> 'w \<Rightarrow> 'r received list \<times> (receive_state \<times> 'w)" where
  "reference_stream R [] s = ([], s)"
| "reference_stream R (ev # evs) s =
     (let (xs, s') = reference_stream R evs (effect_of R ev s) in
      (case yield_of R ev (snd s) of Some x \<Rightarrow> x # xs | None \<Rightarrow> xs, s'))"

lemma deliver_yields [simp]: "fst (deliver R c s) = Content c"
  by (simp add: deliver_def Let_def split: prod.split)

lemma handle_content_yields: "fst (handle_content R c s) = received_of c"
  by (auto simp: handle_content_def received_of_def Let_def
      split: content_body.split option.split sync_content.split)

lemma handle_content_fst: "handle_content R c s = (x, s') \<Longrightarrow> x = received_of c"
  by (drule arg_cong [where f = fst]) (simp add: handle_content_yields)

lemma handle_incoming_yields: "fst (handle_incoming R ev s) = yield_of R ev (snd s)"
proof (cases ev)
  case (IncomingEnvelope env)
  show ?thesis
  proof (cases "envelope_cipher R env")
    case (Some cipher)
    obtain opened w1 where o: "re_open R cipher env (snd s) = (opened, w1)" by fastforce
    show ?thesis
      by (auto simp: IncomingEnvelope Some o yield_of_def handle_envelope_def Let_def
          dest: handle_content_fst split: sum.split option.split prod.split)
  qed (simp add: IncomingEnvelope yield_of_def handle_envelope_def)
qed (simp_all add: yield_of_def handle_queue_empty_def split: prod.split)

lemma next_received_reference:
  "case next_received R evs s of
     (None, s') \<Rightarrow> reference_stream R evs s = ([], s')
   | (Some (x, rest), s') \<Rightarrow>
       reference_stream R evs s = (let (xs, s'') = reference_stream R rest s' in (x # xs, s''))"
proof (induction R evs s rule: next_received.induct)
  case (2 R ev evs s)
  obtain y s1 where h: "handle_incoming R ev s = (y, s1)" by (cases "handle_incoming R ev s")
  then have y: "yield_of R ev (snd s) = y" "effect_of R ev s = s1"
    using handle_incoming_yields [of R ev s] by (simp_all add: effect_of_def)
  show ?case
  proof (cases y)
    case None
    with 2 h y show ?thesis by (auto split: prod.splits option.splits)
  next
    case (Some x)
    with h y show ?thesis by (simp split: prod.split)
  qed
qed simp

lemma receive_all_reference: "receive_all R evs s = reference_stream R evs s"
proof (induction R evs s rule: receive_all.induct)
  case (1 R evs s)
  show ?case
    using 1 next_received_reference [of R evs s]
    by (subst receive_all.simps) (auto split: prod.splits option.splits)
qed

text \<open>C21. The stream yields, in order, exactly one value for every event that has one, and which value that is
  depends on how the envelope opens and on nothing else: no failure of the store, of a group fetch or of
  a background task drops, delays or reorders a message. An envelope that opens to a content is yielded
  as that content, except that a peer's decryption error and a contact list are announced as such; one
  that fails to open is yielded only with what a retry receipt needs.\<close>

theorem stream_yields_every_event:
  "receive_all R evs s = reference_stream R evs s"
  by (rule receive_all_reference)

end
