(* ===== verification/Protocol_Laws.thy ===== *)
theory Protocol_Laws
  imports Sqlite_State
begin

text \<open>
  Laws of the protocol tables. \<open>key_table\<close> is the interface of a table with a primary key, with
  one interpretation per table; \<open>proto_step\<close> is the step relation of the whole store, every
  operation that writes being one rule, and the invariants are proved by induction on it.
\<close>

section \<open>The interface of a keyed table\<close>

locale key_table =
  fixes tget :: "'k \<Rightarrow> 'db \<Rightarrow> 'v option"
    and tput :: "'k \<Rightarrow> 'v \<Rightarrow> 'db \<Rightarrow> 'db"
    and tdel :: "'k \<Rightarrow> 'db \<Rightarrow> 'db"
  assumes get_put: "tget k (tput k' v db) = (if k = k' then Some v else tget k db)"
    and get_del: "tget k (tdel k' db) = (if k = k' then None else tget k db)"
begin

definition rows :: "'db \<Rightarrow> 'k \<rightharpoonup> 'v" where "rows db = (\<lambda>k. tget k db)"

lemma rows_put: "rows (tput k v db) = (rows db)(k \<mapsto> v)"
  by (auto simp: rows_def get_put)

lemma rows_del: "rows (tdel k db) = (rows db)(k := None)"
  by (auto simp: rows_def get_del)

lemma put_put: "rows (tput k v (tput k v' db)) = rows (tput k v db)"
  by (simp add: rows_put)

lemma put_commute: "k \<noteq> k' \<Longrightarrow> rows (tput k v (tput k' v' db)) = rows (tput k' v' (tput k v db))"
  by (simp add: rows_put fun_upd_twist)

lemma del_put: "rows (tdel k (tput k v db)) = rows (tdel k db)"
  by (simp add: rows_put rows_del)

end

interpretation sessions: key_table
  "\<lambda>k db. map_of (pr_sessions db) k"
  "\<lambda>k v db. db\<lparr>pr_sessions := AList.update k v (pr_sessions db)\<rparr>"
  "\<lambda>k db. db\<lparr>pr_sessions := AList.delete k (pr_sessions db)\<rparr>"
  by unfold_locales (auto simp: update_conv' delete_conv')

interpretation pre_keys: key_table
  "\<lambda>k db. map_of (pr_pre_keys db) k"
  "\<lambda>k v db. db\<lparr>pr_pre_keys := AList.update k v (pr_pre_keys db)\<rparr>"
  "\<lambda>k db. db\<lparr>pr_pre_keys := AList.delete k (pr_pre_keys db)\<rparr>"
  by unfold_locales (auto simp: update_conv' delete_conv')

interpretation kyber_keys: key_table
  "\<lambda>k db. map_of (pr_kyber_pre_keys db) k"
  "\<lambda>k v db. db\<lparr>pr_kyber_pre_keys := AList.update k v (pr_kyber_pre_keys db)\<rparr>"
  "\<lambda>(k, i) db. drop_kyber i k db"
  by unfold_locales (auto simp: update_conv' delete_conv' drop_kyber_def split: prod.splits)

lemma find_filter_key:
  "find (\<lambda>(x, _). x = k) (filter (\<lambda>(x, _). x \<noteq> k') kvs) =
     (if k = k' then None else find (\<lambda>(x, _). x = k) kvs)"
  by (induction kvs) auto

lemma find_append: "find P (xs @ ys) = (case find P xs of None \<Rightarrow> find P ys | Some x \<Rightarrow> Some x)"
  by (induction xs) auto

lemma kv_get_put: "kv_get k (kv_put k' v db) = (if k = k' then Some v else kv_get k db)"
proof -
  have "filter (\<lambda>x. \<not> (case x of (x, _) \<Rightarrow> x = k')) (db_kv db) = filter (\<lambda>(x, _). x \<noteq> k') (db_kv db)"
    by (rule filter_cong) auto
  then show ?thesis
    by (simp add: kv_get_def kv_put_def select_one_def replace_row_def find_append find_filter_key
        split: option.split)
qed

lemma kv_get_remove: "kv_get k (kv_remove k' db) = (if k = k' then None else kv_get k db)"
  by (simp add: kv_get_def kv_remove_def select_one_def find_filter_key)

interpretation kv: key_table kv_get kv_put kv_remove
  by unfold_locales (rule kv_get_put, rule kv_get_remove)

section \<open>The steps of the store\<close>

datatype proto_label =
    L_Session | L_PreKey | L_SignedPreKey | L_Kyber
  | L_RemoveKyber identity_type u32
  | L_MarkUsed identity_type u32
  | L_Identity identity_type string
  | L_SenderKey | L_State | L_ClearRegistration

inductive proto_step :: "'r rec_codec \<Rightarrow> proto_label \<Rightarrow> protocol_db \<Rightarrow> protocol_db \<Rightarrow> bool"
  for C :: "'r rec_codec" where
  store_session: "store_session C i a r db = (res, db') \<Longrightarrow> proto_step C L_Session db db'"
| delete_session: "delete_session i a db = (res, db') \<Longrightarrow> proto_step C L_Session db db'"
| delete_all_sessions: "delete_all_sessions i n db = (count, db') \<Longrightarrow> proto_step C L_Session db db'"
| save_pre_key: "save_pre_key C i k r db = (res, db') \<Longrightarrow> proto_step C L_PreKey db db'"
| remove_pre_key: "remove_pre_key i k db = (res, db') \<Longrightarrow> proto_step C L_PreKey db db'"
| save_signed_pre_key: "save_signed_pre_key C i k r db = (res, db') \<Longrightarrow> proto_step C L_SignedPreKey db db'"
| save_kyber_pre_key: "save_kyber_pre_key C i k r db = (res, db') \<Longrightarrow> proto_step C L_Kyber db db'"
| store_last_resort:
    "store_last_resort_kyber_pre_key C i k r db = (res, db') \<Longrightarrow> proto_step C L_Kyber db db'"
| remove_kyber_pre_key:
    "remove_kyber_pre_key i k db = (res, db') \<Longrightarrow> proto_step C (L_RemoveKyber i k) db db'"
| mark_used:
    "mark_kyber_pre_key_used i k ec b db = (res, db') \<Longrightarrow> proto_step C (L_MarkUsed i k) db db'"
| save_identity:
    "save_identity C i a r db = (change, db') \<Longrightarrow> proto_step C (L_Identity i (fst a)) db db'"
| store_sender_key: "store_sender_key C i a u r db = (res, db') \<Longrightarrow> proto_step C L_SenderKey db db'"
| state_change: "proto_step C L_State db (db\<lparr>pr_content := content\<rparr>)"
| clear_registration: "clear_registration db = (res, db') \<Longrightarrow> proto_step C L_ClearRegistration db db'"

inductive proto_run :: "'r rec_codec \<Rightarrow> proto_label list \<Rightarrow> protocol_db \<Rightarrow> protocol_db \<Rightarrow> bool"
  for C :: "'r rec_codec" where
  run_nil: "proto_run C [] db db"
| run_cons: "proto_step C l db db' \<Longrightarrow> proto_run C ls db' db'' \<Longrightarrow> proto_run C (l # ls) db db''"

lemma run_invariant:
  "proto_run C ls db db' \<Longrightarrow> P db \<Longrightarrow>
   (\<And>l x y. l \<in> set ls \<Longrightarrow> proto_step C l x y \<Longrightarrow> P x \<Longrightarrow> P y) \<Longrightarrow> P db'"
  by (induction rule: proto_run.induct) auto

text \<open>The effect of each operation on the database, as one simplification set.\<close>

lemmas proto_defs = store_session_def delete_session_def delete_all_sessions_def save_pre_key_def
  remove_pre_key_def save_signed_pre_key_def save_kyber_pre_key_def
  store_last_resort_kyber_pre_key_def remove_kyber_pre_key_def save_identity_def
  store_sender_key_def clear_registration_def

definition last_resort_key :: "u32 \<times> identity_type \<Rightarrow> protocol_db \<Rightarrow> bool" where
  "last_resort_key k db =
     (case map_of (pr_kyber_pre_keys db) k of None \<Rightarrow> False | Some row \<Rightarrow> ky_last_resort row)"

definition signed_key_stored :: "u32 \<times> identity_type \<Rightarrow> protocol_db \<Rightarrow> bool" where
  "signed_key_stored k db \<longleftrightarrow> map_of (pr_signed_pre_keys db) k \<noteq> None"

text \<open>Primary keys are unique, and every base key seen belongs to stored keys.\<close>

definition protocol_wf :: "protocol_db \<Rightarrow> bool" where
  "protocol_wf db \<longleftrightarrow>
     distinct (map fst (pr_sessions db)) \<and> distinct (map fst (pr_identities db)) \<and>
     distinct (map fst (pr_pre_keys db)) \<and> distinct (map fst (pr_signed_pre_keys db)) \<and>
     distinct (map fst (pr_kyber_pre_keys db)) \<and> distinct (pr_base_keys_seen db) \<and>
     distinct (map fst (pr_sender_keys db)) \<and>
     (\<forall>i k ec b. (i, k, ec, b) \<in> set (pr_base_keys_seen db) \<longrightarrow>
        last_resort_key (k, i) db \<and> signed_key_stored (ec, i) db)"

text \<open>What a step can do to the database, one case per table.\<close>

lemma proto_step_effect [consumes 1, case_names same sessions pre signed kyber drop seen identity sender state clear]:
  assumes step: "proto_step C l db db'"
    and "db' = db \<Longrightarrow> thesis"
    and "\<And>t. l = L_Session \<Longrightarrow> db' = db\<lparr>pr_sessions := t\<rparr> \<Longrightarrow>
           (distinct (map fst (pr_sessions db)) \<Longrightarrow> distinct (map fst t)) \<Longrightarrow> thesis"
    and "\<And>t. l = L_PreKey \<Longrightarrow> db' = db\<lparr>pr_pre_keys := t\<rparr> \<Longrightarrow>
           (distinct (map fst (pr_pre_keys db)) \<Longrightarrow> distinct (map fst t)) \<Longrightarrow> thesis"
    and "\<And>k v. l = L_SignedPreKey \<Longrightarrow>
           db' = db\<lparr>pr_signed_pre_keys := AList.update k v (pr_signed_pre_keys db)\<rparr> \<Longrightarrow> thesis"
    and "\<And>k v. l = L_Kyber \<Longrightarrow>
           db' = db\<lparr>pr_kyber_pre_keys := AList.update k v (pr_kyber_pre_keys db)\<rparr> \<Longrightarrow>
           (\<And>row. map_of (pr_kyber_pre_keys db) k = Some row \<Longrightarrow> ky_last_resort row \<Longrightarrow> ky_last_resort v) \<Longrightarrow>
           thesis"
    and "\<And>i k. l = L_RemoveKyber i k \<or>
           l = L_MarkUsed i k \<and> (\<exists>row. map_of (pr_kyber_pre_keys db) (k, i) = Some row \<and> \<not> ky_last_resort row) \<Longrightarrow>
           db' = drop_kyber i k db \<Longrightarrow> thesis"
    and "\<And>i k ec b row. l = L_MarkUsed i k \<Longrightarrow>
           db' = db\<lparr>pr_base_keys_seen := pr_base_keys_seen db @ [(i, k, ec, b)]\<rparr> \<Longrightarrow>
           (i, k, ec, b) \<notin> set (pr_base_keys_seen db) \<Longrightarrow>
           map_of (pr_kyber_pre_keys db) (k, i) = Some row \<Longrightarrow> ky_last_resort row \<Longrightarrow>
           map_of (pr_signed_pre_keys db) (ec, i) \<noteq> None \<Longrightarrow> thesis"
    and "\<And>i n bs. l = L_Identity i n \<Longrightarrow>
           db' = db\<lparr>pr_identities := AList.update (n, i) bs (pr_identities db)\<rparr> \<Longrightarrow> thesis"
    and "\<And>k v. l = L_SenderKey \<Longrightarrow>
           db' = db\<lparr>pr_sender_keys := AList.update k v (pr_sender_keys db)\<rparr> \<Longrightarrow> thesis"
    and "\<And>c. l = L_State \<Longrightarrow> db' = db\<lparr>pr_content := c\<rparr> \<Longrightarrow> thesis"
    and "l = L_ClearRegistration \<Longrightarrow> clear_registration db = (Inr (), db') \<Longrightarrow> thesis"
  shows thesis
  using step
proof cases
  case (store_session i a r res)
  then show ?thesis
    using assms(2) assms(3) [of "AList.update (a, i) bs (pr_sessions db)" for bs]
    by (cases "rec_serialize C r") (auto simp: proto_defs io_simps distinct_update)
next
  case (delete_session i a res)
  then show ?thesis using assms(3) by (auto simp: proto_defs io_simps distinct_delete)
next
  case (delete_all_sessions i n count)
  then show ?thesis using assms(3) by (auto simp: proto_defs Let_def distinct_map_filter)
next
  case (save_pre_key i k r res)
  then show ?thesis
    using assms(2) assms(4) [of "AList.update (k, i) bs (pr_pre_keys db)" for bs]
    by (cases "rec_serialize C r") (auto simp: proto_defs io_simps distinct_update)
next
  case (remove_pre_key i k res)
  then show ?thesis using assms(4) by (auto simp: proto_defs io_simps distinct_delete)
next
  case (save_signed_pre_key i k r res)
  then show ?thesis using assms(2,5) by (cases "rec_serialize C r") (auto simp: proto_defs io_simps)
next
  case (save_kyber_pre_key i k r res)
  then show ?thesis using assms(2) assms(6) [of "(k, i)"]
    by (cases "rec_serialize C r") (auto simp: proto_defs io_simps Let_def)
next
  case (store_last_resort i k r res)
  then show ?thesis using assms(2) assms(6) [of "(k, i)"]
    by (cases "rec_serialize C r") (auto simp: proto_defs io_simps)
next
  case (remove_kyber_pre_key i k res)
  then show ?thesis using assms(7) by (auto simp: proto_defs io_simps)
next
  case (mark_used i k ec b res)
  then show ?thesis using assms(2,7,8)
    by (auto simp: mark_kyber_pre_key_used_def split: option.splits if_splits)
next
  case (save_identity i a r change)
  then show ?thesis using assms(2,9)
    by (cases "rec_serialize C r") (auto simp: proto_defs io_simps Let_def)
next
  case (store_sender_key i a u r res)
  then show ?thesis using assms(2) assms(10) [of "(a, i, u)"] by (cases "rec_serialize C r") (auto simp: proto_defs io_simps)
next
  case (state_change content)
  then show ?thesis using assms(11) by blast
next
  case (clear_registration res)
  then show ?thesis using assms(12) by (cases res) (auto simp: proto_defs io_simps)
qed

lemma last_resort_update:
  "last_resort_key k (db\<lparr>pr_kyber_pre_keys := AList.update k' v (pr_kyber_pre_keys db)\<rparr>) =
     (if k = k' then ky_last_resort v else last_resort_key k db)"
  by (simp add: last_resort_key_def update_conv')

lemma last_resort_drop:
  "last_resort_key k (drop_kyber i k' db) = (k \<noteq> (k', i) \<and> last_resort_key k db)"
  by (simp add: last_resort_key_def drop_kyber_def delete_conv')

lemma last_resort_other [simp]:
  "last_resort_key k (db\<lparr>pr_sessions := t1\<rparr>) = last_resort_key k db"
  "last_resort_key k (db\<lparr>pr_identities := t2\<rparr>) = last_resort_key k db"
  "last_resort_key k (db\<lparr>pr_pre_keys := t3\<rparr>) = last_resort_key k db"
  "last_resort_key k (db\<lparr>pr_signed_pre_keys := t4\<rparr>) = last_resort_key k db"
  "last_resort_key k (db\<lparr>pr_base_keys_seen := t5\<rparr>) = last_resort_key k db"
  "last_resort_key k (db\<lparr>pr_sender_keys := t6\<rparr>) = last_resort_key k db"
  "last_resort_key k (db\<lparr>pr_content := c\<rparr>) = last_resort_key k db"
  by (simp_all add: last_resort_key_def)

lemma signed_key_stored_update:
  "signed_key_stored k (db\<lparr>pr_signed_pre_keys := AList.update k' v (pr_signed_pre_keys db)\<rparr>) =
     (k = k' \<or> signed_key_stored k db)"
  unfolding signed_key_stored_def by (simp add: update_conv')

lemma signed_key_stored_other [simp]:
  "signed_key_stored k (db\<lparr>pr_sessions := t1\<rparr>) = signed_key_stored k db"
  "signed_key_stored k (db\<lparr>pr_identities := t2\<rparr>) = signed_key_stored k db"
  "signed_key_stored k (db\<lparr>pr_pre_keys := t3\<rparr>) = signed_key_stored k db"
  "signed_key_stored k (db\<lparr>pr_kyber_pre_keys := t4\<rparr>) = signed_key_stored k db"
  "signed_key_stored k (db\<lparr>pr_base_keys_seen := t5\<rparr>) = signed_key_stored k db"
  "signed_key_stored k (db\<lparr>pr_sender_keys := t6\<rparr>) = signed_key_stored k db"
  "signed_key_stored k (db\<lparr>pr_content := c\<rparr>) = signed_key_stored k db"
  "signed_key_stored k (drop_kyber i k' db) = signed_key_stored k db"
  by (simp_all add: signed_key_stored_def drop_kyber_def)

lemma drop_kyber_sel [simp]:
  "pr_sessions (drop_kyber i k db) = pr_sessions db" "pr_identities (drop_kyber i k db) = pr_identities db"
  "pr_pre_keys (drop_kyber i k db) = pr_pre_keys db"
  "pr_signed_pre_keys (drop_kyber i k db) = pr_signed_pre_keys db"
  "pr_sender_keys (drop_kyber i k db) = pr_sender_keys db" "pr_content (drop_kyber i k db) = pr_content db"
  "pr_kyber_pre_keys (drop_kyber i k db) = AList.delete (k, i) (pr_kyber_pre_keys db)"
  "pr_base_keys_seen (drop_kyber i k db) =
     filter (\<lambda>(j, kk, _, _). \<not> (j = i \<and> kk = k)) (pr_base_keys_seen db)"
  by (simp_all add: drop_kyber_def)

lemma drop_kyber_wf: "protocol_wf db \<Longrightarrow> protocol_wf (drop_kyber i k db)"
  unfolding protocol_wf_def
  by (auto simp: distinct_delete last_resort_drop)

lemma step_wf:
  assumes "proto_step C l db db'" "protocol_wf db"
  shows "protocol_wf db'"
  using assms(1)
proof (cases rule: proto_step_effect)
  case (kyber k v)
  have "last_resort_key k db \<Longrightarrow> ky_last_resort v"
    using kyber(3) by (auto simp: last_resort_key_def split: option.splits)
  with kyber(2) assms(2) show ?thesis
    unfolding protocol_wf_def
    by (auto simp: distinct_update last_resort_update)
next
  case (seen i k ec b row)
  then have "last_resort_key (k, i) db" "signed_key_stored (ec, i) db"
    by (simp_all add: last_resort_key_def signed_key_stored_def)
  with seen assms(2) show ?thesis
    unfolding protocol_wf_def by auto
next
  case clear
  then show ?thesis by (auto simp: protocol_wf_def proto_defs io_simps)
next
  case (signed k v)
  then show ?thesis using assms(2)
    by (simp add: protocol_wf_def distinct_update signed_key_stored_update)
next
  case (drop i k)
  then show ?thesis using assms(2) drop_kyber_wf by simp
qed (use assms(2) in \<open>simp_all add: protocol_wf_def distinct_update\<close>)

section \<open>Properties\<close>

text \<open>C9. The protocol tables stay well formed whatever the store does, in any order and with any
  failures: primary keys stay unique, and every base key on record belongs to a stored
  last-resort Kyber key and a stored signed pre-key, of the same identity.\<close>

theorem protocol_store_invariant:
  assumes "proto_run C ls protocol_empty db"
  shows "protocol_wf db"
  using assms
proof (rule run_invariant)
  show "protocol_wf protocol_empty" by (simp add: protocol_wf_def protocol_empty_def)
qed (rule step_wf)

definition raw_codec :: "bytes rec_codec" where
  "raw_codec = \<lparr>rec_serialize = Inr, rec_deserialize = Inr\<rparr>"

text \<open>A last-resort key, a signed pre-key, and a first use of the two.\<close>

definition used_db :: protocol_db where
  "used_db = snd (mark_kyber_pre_key_used AciIdentity 1 2 [9]
     (snd (save_signed_pre_key raw_codec AciIdentity 2 [5]
       (snd (store_last_resort_kyber_pre_key raw_codec AciIdentity 1 [4] protocol_empty)))))"

lemma used_run:
  "proto_run raw_codec [L_Kyber, L_SignedPreKey, L_MarkUsed AciIdentity 1] protocol_empty used_db"
proof -
  let ?db1 = "snd (store_last_resort_kyber_pre_key raw_codec AciIdentity 1 [4] protocol_empty)"
  let ?db2 = "snd (save_signed_pre_key raw_codec AciIdentity 2 [5] ?db1)"
  have s: "proto_step raw_codec L_Kyber protocol_empty ?db1" "proto_step raw_codec L_SignedPreKey ?db1 ?db2"
    "proto_step raw_codec (L_MarkUsed AciIdentity 1) ?db2 used_db"
    unfolding used_db_def
    by (rule proto_step.store_last_resort proto_step.save_signed_pre_key proto_step.mark_used,
        rule surjective_pairing)+
  show ?thesis by (rule run_cons [OF s(1) run_cons [OF s(2) run_cons [OF s(3) run_nil]]])
qed

lemma protocol_store_invariant_witness: "protocol_wf used_db \<and> pr_base_keys_seen used_db = [(AciIdentity, 1, 2, [9])]"
  using protocol_store_invariant [OF used_run]
  by (simp add: used_db_def proto_defs io_simps raw_codec_def mark_kyber_pre_key_used_def protocol_empty_def)

text \<open>C8. A pre-key message cannot be replayed. Once a base key was accepted with a last-resort Kyber
  key, marking the same base key again is refused as reused and changes nothing, whatever the
  store does in between, unless that Kyber key is removed or the registration is cleared.\<close>

theorem replay_rejected:
  assumes "mark_kyber_pre_key_used i k ec b db0 = (Inr (), db1)" "last_resort_key (k, i) db0"
    "proto_run C ls db1 db2" "L_RemoveKyber i k \<notin> set ls" "L_ClearRegistration \<notin> set ls"
  shows "mark_kyber_pre_key_used i k ec b db2 = (Inl (InvalidMessage ''reused base key''), db2)"
proof -
  let ?P = "\<lambda>db. last_resort_key (k, i) db \<and> (i, k, ec, b) \<in> set (pr_base_keys_seen db)"
  have "?P db1"
    using assms(1,2)
    by (auto simp: mark_kyber_pre_key_used_def last_resort_key_def split: option.splits if_splits)
  have "?P db2"
    using assms(3) \<open>?P db1\<close>
  proof (rule run_invariant)
    fix l x y
    assume l: "l \<in> set ls" and "proto_step C l x y" and P: "?P x"
    from this(2) show "?P y"
    proof (cases rule: proto_step_effect)
      case (kyber k' v)
      have "last_resort_key k' x \<Longrightarrow> ky_last_resort v"
        using kyber(3) by (auto simp: last_resort_key_def split: option.splits)
      with kyber(2) P show ?thesis by (auto simp: last_resort_update)
    next
      case (drop j k')
      then have "(j, k') \<noteq> (i, k)"
        using l assms(4) P by (auto simp: last_resort_key_def)
      then show ?thesis using drop(2) P by (auto simp: last_resort_drop)
    next
      case (signed k' v)
      then show ?thesis using P by simp
    next
      case clear
      then show ?thesis using l assms(5) by simp
    qed (use P in auto)
  qed
  then show ?thesis
    by (auto simp: mark_kyber_pre_key_used_def last_resort_key_def split: option.splits)
qed

lemma replay_rejected_witness:
  "mark_kyber_pre_key_used AciIdentity 1 2 [9] used_db = (Inl (InvalidMessage ''reused base key''), used_db)"
proof -
  let ?db0 = "snd (save_signed_pre_key raw_codec AciIdentity 2 [5]
       (snd (store_last_resort_kyber_pre_key raw_codec AciIdentity 1 [4] protocol_empty)))"
  have "mark_kyber_pre_key_used AciIdentity 1 2 [9] ?db0 = (Inr (), used_db)"
    "last_resort_key (1, AciIdentity) ?db0"
    by (simp_all add: used_db_def proto_defs io_simps raw_codec_def mark_kyber_pre_key_used_def
        protocol_empty_def last_resort_key_def)
  from replay_rejected [OF this proto_run.run_nil] show ?thesis by simp
qed

text \<open>C11. An identity is pinned. Under the policy that rejects new identities, once a key was saved
  for an address that key and no other is trusted for it, whichever device of the address is
  asked for and whatever the store does, until another key is saved for the address or the
  registration is cleared; an address with no key trusts any.\<close>

theorem identity_is_pinned:
  assumes "\<And>r bs. rec_serialize C r = Inr bs \<Longrightarrow> rec_deserialize C bs = Inr r"
    and "save_identity C i (n, d) r db0 = (Inr change, db1)"
    and "proto_run C ls db1 db2" "L_Identity i n \<notin> set ls" "L_ClearRegistration \<notin> set ls"
  shows "is_trusted_identity C RejectNew i (n, d') r' db2 = (Inr (r' = r), db2)"
proof -
  obtain bs where bs: "rec_serialize C r = Inr bs"
    using assms(2) by (cases "rec_serialize C r") (auto simp: save_identity_def io_simps)
  have "map_of (pr_identities db1) (n, i) = Some bs"
    using assms(2) bs by (auto simp: save_identity_def io_simps Let_def update_conv')
  have "map_of (pr_identities db2) (n, i) = Some bs"
    using assms(3) \<open>map_of (pr_identities db1) (n, i) = Some bs\<close>
  proof (rule run_invariant)
    fix l x y
    assume l: "l \<in> set ls" and "proto_step C l x y" and P: "map_of (pr_identities x) (n, i) = Some bs"
    from this(2) show "map_of (pr_identities y) (n, i) = Some bs"
    proof (cases rule: proto_step_effect)
      case (identity j m cs)
      then show ?thesis using l assms(4) P by (auto simp: update_conv')
    next
      case clear
      then show ?thesis using l assms(5) by simp
    qed (use P in auto)
  qed
  with assms(1) [OF bs] show ?thesis
    by (simp add: is_trusted_identity_def get_identity_def fetch_optional_def io_simps)
qed

lemma identity_is_pinned_witness:
  "is_trusted_identity raw_codec RejectNew AciIdentity (''alice'', 2) [8]
     (snd (save_identity raw_codec AciIdentity (''alice'', 1) [7] protocol_empty)) =
   (Inr False, snd (save_identity raw_codec AciIdentity (''alice'', 1) [7] protocol_empty))"
proof -
  let ?db = "snd (save_identity raw_codec AciIdentity (''alice'', 1) [7] protocol_empty)"
  have "save_identity raw_codec AciIdentity (''alice'', 1) [7] protocol_empty = (Inr NewOrUnchanged, ?db)"
    by (simp add: save_identity_def io_simps raw_codec_def protocol_empty_def)
  from identity_is_pinned [OF _ this proto_run.run_nil] show ?thesis by (simp add: raw_codec_def)
qed

end
