(* ===== verification/Protocol_Props.thy ===== *)
theory Protocol_Props
  imports Protocol_Laws
begin

text \<open>
  What the protocol store promises its callers: the session table as an abstract map per
  identity, one-time keys that work once, fresh key ids, and the values under fixed keys.
\<close>

section \<open>Sessions as a map\<close>

definition sessions_of :: "identity_type \<Rightarrow> protocol_db \<Rightarrow> address \<rightharpoonup> bytes" where
  "sessions_of i db = (\<lambda>a. map_of (pr_sessions db) (a, i))"

lemma sessions_of_rows: "sessions_of i db = (\<lambda>a. sessions.rows db (a, i))"
  by (simp add: sessions_of_def sessions.rows_def)

lemma map_of_filter_key: "map_of (filter (\<lambda>(k, _). P k) xs) k = (if P k then map_of xs k else None)"
  by (induction xs) auto

lemma dom_sessions_of: "a \<in> dom (sessions_of i db) \<longleftrightarrow> (a, i) \<in> fst ` set (pr_sessions db)"
  by (auto simp: sessions_of_def dom_def) (metis map_of_eq_None_iff not_Some_eq image_eqI fst_conv)+

lemma length_filter_keys:
  "distinct (map fst xs) \<Longrightarrow>
   length (filter (\<lambda>(k, _). P k) xs) = card {k \<in> fst ` set xs. P k}"
proof -
  assume d: "distinct (map fst xs)"
  have "distinct (map fst (filter (\<lambda>(k, _). P k) xs))" using d by (rule distinct_map_filter)
  then have "length (filter (\<lambda>(k, _). P k) xs) = card (set (map fst (filter (\<lambda>(k, _). P k) xs)))"
    using distinct_card by (metis length_map)
  also have "set (map fst (filter (\<lambda>(k, _). P k) xs)) = {k \<in> fst ` set xs. P k}" by force
  finally show ?thesis .
qed

lemma delete_all_sessions_alt:
  "delete_all_sessions i n db =
     (Inr (length (filter (\<lambda>(k, _). fst (fst k) = n \<and> snd k = i) (pr_sessions db))),
      db\<lparr>pr_sessions := filter (\<lambda>(k, _). \<not> (fst (fst k) = n \<and> snd k = i)) (pr_sessions db)\<rparr>)"
  by (simp add: delete_all_sessions_def case_prod_unfold)

text \<open>C10. The session table implements a map from addresses to records, one per identity: storing,
  loading and deleting are update, lookup and removal on the map, deleting all sessions of a
  name removes exactly that name's devices and returns their number, the sub-devices listed are
  the stored devices other than the main one, and the sessions of the other identity never
  change.\<close>

theorem session_store_refines_map:
  assumes "protocol_wf db" "rec_serialize C r = Inr bs" "j \<noteq> i"
  shows "fst (load_session C i a db) = fetch_optional C (sessions_of i db a) \<and>
    sessions_of i (snd (store_session C i a r db)) = (sessions_of i db)(a \<mapsto> bs) \<and>
    sessions_of i (snd (delete_session i a db)) = (sessions_of i db)(a := None) \<and>
    sessions_of i (snd (delete_all_sessions i n db)) = sessions_of i db |` {a. fst a \<noteq> n} \<and>
    fst (delete_all_sessions i n db) = Inr (card {a \<in> dom (sessions_of i db). fst a = n}) \<and>
    map_sum id set (fst (get_sub_device_sessions i n db)) =
      Inr {d. (n, d) \<in> dom (sessions_of i db) \<and> d \<noteq> DEFAULT_DEVICE_ID \<and> device_id_in_range d} \<and>
    sessions_of j (snd (store_session C i a r db)) = sessions_of j db \<and>
    sessions_of j (snd (delete_session i a db)) = sessions_of j db \<and>
    sessions_of j (snd (delete_all_sessions i n db)) = sessions_of j db"
proof -
  let ?P = "\<lambda>k. fst (fst k) = n \<and> snd k = i"
  have all: "sessions_of k (snd (delete_all_sessions i n db)) a =
      (if k = i \<and> fst a = n then None else sessions_of k db a)" for k a
    by (simp add: delete_all_sessions_alt sessions_of_def map_of_filter_key)
  have "card {k \<in> fst ` set (pr_sessions db). ?P k} = card {a \<in> dom (sessions_of i db). fst a = n}"
    by (rule bij_betw_same_card [of fst])
       (force simp: bij_betw_def inj_on_def dom_sessions_of)
  then have count: "fst (delete_all_sessions i n db) = Inr (card {a \<in> dom (sessions_of i db). fst a = n})"
    using assms(1) length_filter_keys [of "pr_sessions db" ?P]
    by (simp add: delete_all_sessions_alt protocol_wf_def)
  have devices: "map_sum id set (fst (get_sub_device_sessions i n db)) =
      Inr {d. (n, d) \<in> dom (sessions_of i db) \<and> d \<noteq> DEFAULT_DEVICE_ID \<and> device_id_in_range d}"
    by (force simp: get_sub_device_sessions_def pr_query_def dom_sessions_of)
  show ?thesis
  proof (intro conjI)
    show "sessions_of i (snd (delete_all_sessions i n db)) = sessions_of i db |` {a. fst a \<noteq> n}"
      by (rule ext) (simp add: all restrict_map_def)
    show "fst (delete_all_sessions i n db) = Inr (card {a \<in> dom (sessions_of i db). fst a = n})"
      by (rule count)
    show "map_sum id set (fst (get_sub_device_sessions i n db)) =
        Inr {d. (n, d) \<in> dom (sessions_of i db) \<and> d \<noteq> DEFAULT_DEVICE_ID \<and> device_id_in_range d}"
      by (rule devices)
    show "sessions_of j (snd (delete_all_sessions i n db)) = sessions_of j db"
      using assms(3) by (intro ext) (simp add: all)
  qed (use assms(2,3) in \<open>auto simp: load_session_def store_session_def delete_session_def io_simps
        sessions_of_def update_conv' delete_conv'\<close>)
qed

lemma session_store_refines_map_witness:
  "sessions_of AciIdentity (snd (store_session raw_codec AciIdentity (''bob'', 2) [3] protocol_empty)) (''bob'', 2) = Some [3]"
proof -
  have "protocol_wf protocol_empty" by (simp add: protocol_wf_def protocol_empty_def)
  from session_store_refines_map [OF this, of raw_codec "[3]" "[3]" PniIdentity AciIdentity "(''bob'', 2)"]
  show ?thesis by (simp add: raw_codec_def)
qed

section \<open>Keys\<close>

text \<open>A one-time Kyber pre-key works once: marking it used deletes it, after which it can neither
  be read nor marked again, and every other pre-key of either identity stays.\<close>

theorem one_time_key_works_once:
  assumes "map_of (pr_kyber_pre_keys db) (k, i) = Some row" "\<not> ky_last_resort row"
  shows "\<exists>db'. mark_kyber_pre_key_used i k ec b db = (Inr (), db') \<and>
    get_kyber_pre_key C i k db' = (Inl InvalidState, db') \<and>
    mark_kyber_pre_key_used i k ec' b' db' = (Inl InvalidState, db') \<and>
    (\<forall>k' j. (k', j) \<noteq> (k, i) \<longrightarrow> map_of (pr_kyber_pre_keys db') (k', j) = map_of (pr_kyber_pre_keys db) (k', j)) \<and>
    pr_pre_keys db' = pr_pre_keys db \<and> pr_signed_pre_keys db' = pr_signed_pre_keys db"
  by (intro exI [of _ "drop_kyber i k db"])
     (simp add: assms mark_kyber_pre_key_used_def get_kyber_pre_key_def fetch_one_def pr_query_def
       delete_conv')

lemma one_time_key_works_once_witness:
  "\<exists>db'. mark_kyber_pre_key_used PniIdentity 3 0 [] 
      (snd (save_kyber_pre_key raw_codec PniIdentity 3 [6] protocol_empty)) = (Inr (), db') \<and>
    get_kyber_pre_key raw_codec PniIdentity 3 db' = (Inl InvalidState, db')"
proof -
  have "map_of (pr_kyber_pre_keys (snd (save_kyber_pre_key raw_codec PniIdentity 3 [6] protocol_empty)))
      (3, PniIdentity) = Some \<lparr>ky_record = [6], ky_last_resort = False\<rparr>"
    by (simp add: save_kyber_pre_key_def io_simps raw_codec_def protocol_empty_def)
  from one_time_key_works_once [OF this, of 0 "[]" raw_codec 0 "[]"] show ?thesis by auto
qed

lemma fold_max_word: "fold max ks (k :: u32) \<in> set (k # ks) \<and> (\<forall>x \<in> set (k # ks). x \<le> fold max ks k)"
proof (induction ks arbitrary: k)
  case (Cons a ks)
  from Cons [of "max a k"] show ?case
    by (auto simp: max_def split: if_splits)
qed simp

text \<open>The next pre-key id is free: no pre-key of the identity is stored under it, so the key saved
  there replaces none, unless the largest 32-bit id is taken, when the count wraps to zero.\<close>

theorem next_pre_key_id_is_free:
  "\<exists>n. next_pre_key_id i db = (Inr n, db) \<and>
    (n = 0 \<longrightarrow> map_of (pr_pre_keys db) (- 1, i) \<noteq> None) \<and>
    (n \<noteq> 0 \<longrightarrow> map_of (pr_pre_keys db) (n, i) = None)"
proof (cases "ids_of i (pr_pre_keys db)")
  case Nil
  then have "map_of (pr_pre_keys db) (1, i) = None"
    by (auto simp: ids_of_def map_of_eq_None_iff filter_empty_conv)
  with Nil show ?thesis by (simp add: next_pre_key_id_def pr_query_def max_id_def next_id_def)
next
  case (Cons k ks)
  let ?m = "fold max ks k"
  have ids: "x \<in> set (ids_of i (pr_pre_keys db)) \<longleftrightarrow> map_of (pr_pre_keys db) (x, i) \<noteq> None" for x
    by (force simp: ids_of_def map_of_eq_None_iff)
  have m: "map_of (pr_pre_keys db) (?m, i) \<noteq> None"
    "\<And>x. map_of (pr_pre_keys db) (x, i) \<noteq> None \<Longrightarrow> x \<le> ?m"
    using fold_max_word [of ks k] unfolding ids [symmetric] Cons by blast+
  have z: "?m + 1 = 0 \<Longrightarrow> ?m = - 1" by (simp add: eq_neg_iff_add_eq_0)
  have lt: "?m + 1 \<noteq> 0 \<Longrightarrow> \<not> ?m + 1 \<le> ?m"
    by uint_arith
  have free: "?m + 1 \<noteq> 0 \<Longrightarrow> map_of (pr_pre_keys db) (?m + 1, i) = None"
    using m(2) [of "?m + 1"] lt by blast
  have n: "next_pre_key_id i db = (Inr (?m + 1), db)"
    by (simp add: next_pre_key_id_def pr_query_def max_id_def next_id_def Cons)
  show ?thesis
    by (rule exI [of _ "?m + 1"]) (use n m(1) z free in auto)
qed

lemma next_pre_key_id_is_free_witness:
  "\<exists>n. next_pre_key_id AciIdentity (snd (save_pre_key raw_codec AciIdentity (- 1) [1] protocol_empty)) =
      (Inr n, snd (save_pre_key raw_codec AciIdentity (- 1) [1] protocol_empty)) \<and> n = 0"
  using next_pre_key_id_is_free [of AciIdentity "snd (save_pre_key raw_codec AciIdentity (- 1) [1] protocol_empty)"]
  by (simp add: save_pre_key_def io_simps raw_codec_def protocol_empty_def next_pre_key_id_def max_id_def
      ids_of_def next_id_def)

text \<open>\<open>save_identity\<close> reports a replacement whenever the address was known, the same key included.\<close>

lemma save_identity_reports:
  assumes "rec_serialize C r = Inr bs"
  shows "fst (save_identity C i (n, d) r db) =
    Inr (if map_of (pr_identities db) (n, i) = None then NewOrUnchanged else ReplacedExisting)"
  using assms by (simp add: save_identity_def io_simps Let_def)

lemma save_identity_same_key_is_a_change:
  assumes "rec_serialize C r = Inr bs"
  shows "fst (save_identity C i a r (snd (save_identity C i a r db))) = Inr ReplacedExisting"
  using assms by (cases a) (simp add: save_identity_def io_simps Let_def update_conv')

section \<open>The state\<close>

definition kv_codec_ok :: "'v kv_codec \<Rightarrow> bool" where
  "kv_codec_ok C \<longleftrightarrow> (\<forall>v. \<exists>bs. kv_encode C v = Inr bs \<and> kv_decode C bs = Inr v)"

text \<open>What is stored under a key is what is fetched: after storing a master key, or no master
  key, fetching returns exactly that, and every other value of the state, the registration, the
  identity keys, the certificate, the backup key and the manifest version among them, reads as
  before.\<close>

theorem master_key_roundtrip:
  assumes "kv_codec_ok C"
  shows "\<exists>db'. store_master_key C v db = (Inr (), db') \<and> fetch_master_key C db' = (Inr v, db') \<and>
    (\<forall>k. k \<noteq> ''master_key'' \<longrightarrow> kv_get k db' = kv_get k db) \<and>
    fst (load_registration_data D db') = fst (load_registration_data D db) \<and>
    fst (fetch_backup_key db') = fst (fetch_backup_key db) \<and>
    fst (sqlite_fetch_manifest_version db') = fst (sqlite_fetch_manifest_version db)"
proof -
  let ?db' = "snd (store_master_key C v db)"
  have ok: "fst (store_master_key C v db) = Inr () \<and> fst (fetch_master_key C ?db') = Inr v"
  proof (cases v)
    case None
    then show ?thesis
      by (simp add: store_master_key_def fetch_master_key_def kv_store_def kv_fetch_def query_sql_def
          execute_sql_def kv_get_remove)
  next
    case (Some x)
    from assms obtain bs where "kv_encode C x = Inr bs" "kv_decode C bs = Inr x"
      by (auto simp: kv_codec_ok_def)
    with Some show ?thesis
      by (simp add: store_master_key_def fetch_master_key_def kv_store_def kv_save_def kv_fetch_def
          query_sql_def execute_sql_def io_simps kv_get_put)
  qed
  have frame: "kv_get k ?db' = kv_get k db" if "k \<noteq> ''master_key''" for k
    using that by (cases v; cases "kv_encode C (the v)")
      (auto simp: store_master_key_def kv_store_def kv_save_def execute_sql_def io_simps kv_get_put kv_get_remove)
  have "store_master_key C v db = (Inr (), ?db')" using ok by (metis prod.collapse)
  moreover have "fetch_master_key C ?db' = (Inr v, ?db')"
    using ok by (simp add: fetch_master_key_def kv_fetch_def query_sql_def)
  ultimately show ?thesis
    by (intro exI [of _ ?db'])
       (simp add: frame load_registration_data_def fetch_backup_key_def kv_fetch_def query_sql_def
         sqlite_fetch_manifest_version_def manifest_version_key_def)
qed

definition byte_kv_codec :: "bytes kv_codec" where
  "byte_kv_codec = \<lparr>kv_encode = Inr, kv_decode = Inr\<rparr>"

lemma master_key_roundtrip_witness:
  "fetch_master_key byte_kv_codec (snd (store_master_key byte_kv_codec (Some [1, 2]) sqlite_empty)) =
    (Inr (Some [1, 2]), snd (store_master_key byte_kv_codec (Some [1, 2]) sqlite_empty))"
proof -
  have "kv_codec_ok byte_kv_codec" by (simp add: kv_codec_ok_def byte_kv_codec_def)
  from master_key_roundtrip [OF this, of "Some [1, 2]" sqlite_empty byte_kv_codec] show ?thesis by auto
qed

text \<open>Clearing the registration empties every protocol table and leaves the store unregistered,
  and touches nothing else: contacts, groups and messages stay, and so do the identity key
  pairs, the master key and the other values of the state.\<close>

theorem clear_registration_spec:
  "\<exists>db'. clear_registration db = (Inr (), db') \<and> protocol_wf db' \<and>
    pr_sessions db' = [] \<and> pr_identities db' = [] \<and> pr_pre_keys db' = [] \<and>
    pr_signed_pre_keys db' = [] \<and> pr_kyber_pre_keys db' = [] \<and> pr_base_keys_seen db' = [] \<and>
    pr_sender_keys db' = [] \<and> \<not> is_registered C (pr_content db') \<and>
    get_local_registration_id C f db' = (Inl InvalidState, db') \<and>
    get_identity_key_pair K i db' = (fst (get_identity_key_pair K i db), db') \<and>
    fst (fetch_master_key M (pr_content db')) = fst (fetch_master_key M (pr_content db)) \<and>
    pr_content db' = kv_remove ''registration'' (pr_content db)"
proof -
  have r: "kv_get ''registration'' (kv_remove ''registration'' c) = None" for c by (simp add: kv_get_remove)
  have i: "kv_get (identity_key_pair_key i) (kv_remove ''registration'' c) = kv_get (identity_key_pair_key i) c" for c
    by (cases i) (simp_all add: kv_get_remove)
  have m: "kv_get ''master_key'' (kv_remove ''registration'' c) = kv_get ''master_key'' c" for c
    by (simp add: kv_get_remove)
  show ?thesis
    by (rule exI [of _ "snd (clear_registration db)"])
       (simp add: clear_registration_def pr_execute_def protocol_wf_def is_registered_def
         load_registration_data_def kv_fetch_def query_sql_def r get_local_registration_id_def
         get_identity_key_pair_def pr_query_def i fetch_master_key_def m)
qed

end
