(* ===== verification/Onboarding_Laws.thy ===== *)
theory Onboarding_Laws
  imports Onboarding Protocol_Props Io_Rules
begin

text \<open>
  Laws of theory Onboarding. \<open>registration_store\<close> states what the state store owes the managers; inside it,
  becoming registered is all or nothing. The SQLite store is its instance, and shows what a
  store keeps of the account it was registered with before.
\<close>

section \<open>The contract of the state store\<close>

locale registration_store =
  fixes K :: "('w, 'e, 'k, 'c) state_ops"
  assumes load_pure: "snd (sto_load_registration K w) = w"
    and is_registered_iff: "sto_is_registered K w \<longleftrightarrow> (\<exists>d. fst (sto_load_registration K w) = Inr (Some d))"
    and cleared: "sto_clear_registration K w = (Inr (), w') \<Longrightarrow> fst (sto_load_registration K w') = Inr None"
    and clear_failed: "sto_clear_registration K w = (Inl e, w') \<Longrightarrow>
      fst (sto_load_registration K w') = fst (sto_load_registration K w)"
    and saved: "sto_save_registration K d w = (Inr (), w') \<Longrightarrow> fst (sto_load_registration K w') = Inr (Some d)"
    and unsaved: "sto_save_registration K d w = (Inl e, w') \<Longrightarrow>
      fst (sto_load_registration K w') = fst (sto_load_registration K w)"
    and aci_keys: "keeps (\<lambda>w. fst (sto_load_registration K w) = r) (sto_set_aci_identity_key_pair K k)"
    and pni_keys: "keeps (\<lambda>w. fst (sto_load_registration K w) = r) (sto_set_pni_identity_key_pair K k)"
    and master: "keeps (\<lambda>w. fst (sto_load_registration K w) = r) (sto_store_master_key K m)"
    and pool: "keeps (\<lambda>w. fst (sto_load_registration K w) = r) (sto_store_account_entropy_pool K p)"
    and backup: "keeps (\<lambda>w. fst (sto_load_registration K w) = r) (sto_store_backup_key K b)"

text \<open>The server and libsignal leave a reading of the state store alone.\<close>

definition leaves :: "('w \<Rightarrow> bool) \<Rightarrow> ('w, 'e, 'k, 'c) onboarding_env \<Rightarrow> bool" where
  "leaves P E \<longleftrightarrow>
     (\<forall>w. P w \<longrightarrow> P (snd (on_random_password E w)) \<and> P (snd (on_random32 E w)) \<and>
        P (snd (on_random_id E w)) \<and> P (snd (on_random_identity E w))) \<and>
     (\<forall>s. keeps P (on_connect E s)) \<and> (\<forall>p. keeps P (on_create_session E p)) \<and>
     (\<forall>i c. keeps P (on_patch_session E i c)) \<and> (\<forall>i t. keeps P (on_request_code E i t)) \<and>
     (\<forall>i c. keeps P (on_submit_code E i c)) \<and>
     (\<forall>i a s p q. keeps P (on_register_account E i a s p q)) \<and>
     (\<forall>s p d t w. P w \<longrightarrow> P (snd (on_link_device E s p d t w)))"

lemma keeps_draw: "(\<And>w. P w \<Longrightarrow> P (snd (f w))) \<Longrightarrow> keeps P (call f)"
  by (simp add: keeps_def call_def case_prod_unfold)

lemma leavesD:
  assumes "leaves P E"
  shows "keeps P (call (on_random_password E) :: ('w, 'x, string) io)"
    "keeps P (call (on_random32 E) :: ('w, 'x, bytes) io)"
    "keeps P (call (on_random_id E) :: ('w, 'x, u32) io)"
    "keeps P (call (on_random_identity E) :: ('w, 'x, 'k) io)"
    "keeps P (on_connect E s)" "keeps P (on_create_session E ph)" "keeps P (on_patch_session E i cap)"
    "keeps P (on_request_code E i t)" "keeps P (on_submit_code E i code)"
    "keeps P (on_register_account E i a skip ph pw)"
    "keeps P (call (on_link_device E s pw dn taken) :: ('w, 'x, _) io)"
  using assms unfolding leaves_def by (auto intro!: keeps_draw)

lemma triple_map_err_any: "triple P m Q (\<lambda>_. R) \<Longrightarrow> triple P (map_err g m) Q (\<lambda>_. R)"
  by (rule triple_map_err)

text \<open>A session is started without a word to the state store.\<close>

lemma start_session_keeps:
  assumes "leaves P E"
  shows "keeps P (start_session E options)"
  unfolding start_session_def unlock_session_def Let_def
  by (intro keeps_rules leavesD [OF assms] allI)

context registration_store
begin

abbreviation stored :: "'w \<Rightarrow> 'e + registration_data option" where
  "stored w \<equiv> fst (sto_load_registration K w)"

lemma load_stored: "sto_load_registration K w = (stored w, w)"
  by (metis load_pure prod.collapse)

lemma clear_triple: "triple (\<lambda>w. stored w = Inr None) (sto_clear_registration K) (\<lambda>_ w. stored w = Inr None) (\<lambda>_ w. stored w = Inr None)"
  by (rule tripleI) (auto dest: cleared clear_failed)

lemma save_triple:
  "triple (\<lambda>w. stored w = Inr None) (sto_save_registration K d) (\<lambda>_ w. stored w = Inr (Some d)) (\<lambda>_ w. stored w = Inr None)"
  by (rule tripleI) (auto dest: saved unsaved)

lemmas keeps_stored = aci_keys pni_keys master pool backup

lemma store_linked_triple:
  assumes "on_store E = K"
  shows "triple (\<lambda>w. stored w = Inr None) (store_linked_device E d n)
    (\<lambda>_ w. stored w = Inr (Some d)) (\<lambda>_ w. stored w = Inr None)"
  unfolding store_linked_device_def Let_def assms
  by (intro triple_thenE [where R = "\<lambda>w. stored w = Inr None"] save_triple triple_keeps keeps_stored keeps_if keeps_ok)

text \<open>Linking: on success the linked registration is stored, on failure none is, unless the store could not even be cleared.\<close>

lemma link_step:
  assumes "on_store E = K" "\<And>r. leaves (\<lambda>w. stored w = r) E"
  shows "triple (\<lambda>w. stored w = Inr None)
    (bindE (call (on_random_password E)) (\<lambda>password.
      bindE (call (on_link_device E servers password device_name url_taken)) (\<lambda>(sent, ended).
      case ended of
        Inl e \<Rightarrow> err (ProvisioningError e)
      | Inr _ \<Rightarrow>
          (case await_registration url_taken sent of
             Inr n \<Rightarrow>
               let data = linked_data servers device_name password n in
               thenE (map_err StoreError (store_linked_device E data n)) (ok (with_data data))
           | Inl e \<Rightarrow> thenE (map_err StoreError (sto_clear_registration K)) (err e)))))
    (\<lambda>g w. stored w = Inr (Some (rg_data g)) \<and> g = with_data (rg_data g) \<and>
       rd_device_name (rg_data g) = Some device_name \<and> rd_device_id (rg_data g) \<noteq> None)
    (\<lambda>e w. stored w = Inr None)"
proof -
  have linked: "triple (\<lambda>w. stored w = Inr None)
      (thenE (map_err StoreError (store_linked_device E (linked_data servers device_name password n) n))
         (ok (with_data (linked_data servers device_name password n))))
      (\<lambda>g w. stored w = Inr (Some (rg_data g)) \<and> g = with_data (rg_data g) \<and>
         rd_device_name (rg_data g) = Some device_name \<and> rd_device_id (rg_data g) \<noteq> None)
      (\<lambda>e w. stored w = Inr None)" for password n
    by (rule triple_thenE [OF triple_map_err_any [OF store_linked_triple [OF assms(1)]]])
       (simp add: triple_def ok_def with_data_def linked_data_def)
  have failed: "triple (\<lambda>w. stored w = Inr None)
      (thenE (map_err StoreError (sto_clear_registration K)) (err e))
      Q (\<lambda>e w. stored w = Inr None)" for e Q
    by (rule triple_thenE [OF triple_map_err_any [OF clear_triple] triple_err])
  show ?thesis
  proof (intro triple_bindE [where R = "\<lambda>_ w. stored w = Inr None"])
    fix password
    show "triple (\<lambda>w. stored w = Inr None) (call (on_link_device E servers password device_name url_taken))
        (\<lambda>_ w. stored w = Inr None) (\<lambda>e w. stored w = Inr None)"
      by (intro triple_keeps leavesD [OF assms(2)])
    fix x :: "device_provisioning list \<times> (string + unit)"
    show "triple (\<lambda>w. stored w = Inr None)
       (case x of (sent, ended) \<Rightarrow>
          case ended of
            Inl e \<Rightarrow> err (ProvisioningError e)
          | Inr _ \<Rightarrow>
              (case await_registration url_taken sent of
                 Inr n \<Rightarrow>
                   let data = linked_data servers device_name password n in
                   thenE (map_err StoreError (store_linked_device E data n)) (ok (with_data data))
               | Inl e \<Rightarrow> thenE (map_err StoreError (sto_clear_registration K)) (err e)))
       (\<lambda>g w. stored w = Inr (Some (rg_data g)) \<and> g = with_data (rg_data g) \<and>
          rd_device_name (rg_data g) = Some device_name \<and> rd_device_id (rg_data g) \<noteq> None)
       (\<lambda>e w. stored w = Inr None)"
    proof (cases x)
      case (Pair sent ended)
      show ?thesis
      proof (cases ended)
        case (Inl e)
        show ?thesis unfolding Pair Inl prod.case sum.case by (rule triple_err)
      next
        case (Inr u)
        show ?thesis
          unfolding Pair Inr prod.case sum.case
          by (cases "await_registration url_taken sent :: 'e error + _")
            (simp_all only: sum.case Let_def linked failed)
      qed
    qed
  qed (intro triple_keeps leavesD [OF assms(2)])
qed

lemma link_outcome:
  assumes "on_store E = K" "\<And>r. leaves (\<lambda>w. stored w = r) E"
    and clear: "sto_clear_registration K w = (Inr (), w0)"
    and run: "link_secondary_device E servers device_name url_taken w = (r, w')"
  shows "case r of
      Inl e \<Rightarrow> stored w' = Inr None
    | Inr g \<Rightarrow> stored w' = Inr (Some (rg_data g)) \<and> g = with_data (rg_data g) \<and>
        rd_device_name (rg_data g) = Some device_name \<and> rd_device_id (rg_data g) \<noteq> None"
proof (cases r)
  case (Inl e)
  with triple_Inl [OF link_step [OF assms(1,2)] cleared [OF clear]] run clear show ?thesis
    by (simp add: link_secondary_device_def Let_def assms(1) thenE_def bindE_def map_err_def)
next
  case (Inr g)
  with triple_Inr [OF link_step [OF assms(1,2)] cleared [OF clear]] run clear show ?thesis
    by (simp add: link_secondary_device_def Let_def assms(1) thenE_def bindE_def map_err_def)
qed

text \<open>Registering: refused, or the old registration is gone whatever becomes of the new one.\<close>

lemma register_outcome:
  assumes "on_store E = K" "\<And>r. leaves (\<lambda>w. stored w = r) E"
    and clear: "sto_clear_registration K w = (Inr (), w0)"
    and run: "register E options w = (r, w')"
  shows "if \<not> ro_force options \<and> sto_is_registered K w
    then r = Inl AlreadyRegisteredError \<and> w' = w
    else stored w' = Inr None"
proof -
  have "stored (snd (start_session E options w0)) = Inr None"
    using keepsD [OF start_session_keeps [OF assms(2)] cleared [OF clear]] .
  with run clear show ?thesis
    by (auto simp: register_def assms(1) thenE_def bindE_def map_err_def err_def)
qed

text \<open>Confirming: the new registration is stored as that of a primary device, or none is.\<close>

lemma confirm_triple:
  assumes "on_store E = K" "\<And>r. leaves (\<lambda>w. stored w = r) E"
  shows "triple (\<lambda>w. stored w = Inr None) (confirm_verification_code E c code)
    (\<lambda>g w. stored w = Inr (Some (rg_data g)) \<and> g = with_data (rg_data g) \<and>
       rd_phone_number (rg_data g) = cf_phone_number c \<and> rd_password (rg_data g) = cf_password c \<and>
       rd_device_name (rg_data g) = None \<and> rd_device_id (rg_data g) = None)
    (\<lambda>e w. stored w = Inr None)"
proof -
  have save: "triple (\<lambda>w. stored w = Inr None)
      (thenE (map_err StoreError (sto_save_registration K d)) (ok (with_data d)))
      (\<lambda>g w. stored w = Inr (Some (rg_data g)) \<and> g = with_data (rg_data g) \<and>
         rd_phone_number (rg_data g) = rd_phone_number d \<and> rd_password (rg_data g) = rd_password d \<and>
         rd_device_name (rg_data g) = rd_device_name d \<and> rd_device_id (rg_data g) = rd_device_id d)
      (\<lambda>e w. stored w = Inr None)" for d
    by (rule triple_thenE [OF triple_map_err_any [OF save_triple]]) (simp add: triple_def ok_def with_data_def)
  have saved_as: "triple (\<lambda>w. stored w = Inr None)
      (case (x :: uuid \<times> uuid) of (aci, pni) \<Rightarrow>
        let d = \<lparr>rd_signal_servers = cf_signal_servers c, rd_device_name = None,
              rd_phone_number = cf_phone_number c, rd_aci = aci, rd_pni = pni,
              rd_password = cf_password c, rd_device_id = None, rd_registration_id = i,
              rd_pni_registration_id = Some j, rd_profile_key = k\<rparr>
        in thenE (map_err StoreError (sto_save_registration K d)) (ok (with_data d)))
      (\<lambda>g w. stored w = Inr (Some (rg_data g)) \<and> g = with_data (rg_data g) \<and>
         rd_phone_number (rg_data g) = cf_phone_number c \<and> rd_password (rg_data g) = cf_password c \<and>
         rd_device_name (rg_data g) = None \<and> rd_device_id (rg_data g) = None)
      (\<lambda>e w. stored w = Inr None)" for i j k x
    by (cases x) (simp only: prod.case Let_def, rule triple_weaken [OF save], auto)
  have if_rule: "triple P (if b then err e else m) Q E'" if "triple P m Q E'" "\<And>w. P w \<Longrightarrow> E' e w"
    for P b m Q E' and e :: "'e error"
    using that by (auto simp: triple_def err_def)
  note quiet = triple_keeps [OF leavesD(2) [OF assms(2)]] triple_keeps [OF leavesD(3) [OF assms(2)]]
    triple_keeps [OF leavesD(4) [OF assms(2)]] triple_keeps [OF leavesD(9) [OF assms(2)]]
    triple_keeps [OF leavesD(10) [OF assms(2)]]
    triple_map_err_any [OF triple_keeps [OF aci_keys]] triple_map_err_any [OF triple_keeps [OF pni_keys]]
  show ?thesis
    unfolding confirm_verification_code_def Let_def [of K] assms(1)
      Let_def [of "on_store E"] Let_def [of "on_profile_key E _"]
    by (intro triple_bindE [where R = "\<lambda>_ w. stored w = Inr None"] if_rule
          triple_thenE [where R = "\<lambda>w. stored w = Inr None"] saved_as quiet)
qed

end

end
