(* ===== verification/Sample_Registration.thy ===== *)
theory Sample_Registration
  imports Onboarding Protocol_Props Sample_Codec
begin

text \<open>
  A concrete codec for registration data, used by the witnesses of theory Sqlite_Onboarding: the fields
  in order, each stuffed as theory Sample_Codec does.
\<close>

definition bits32 :: "u32 \<Rightarrow> bytes" where
  "bits32 x = map (\<lambda>i. if bit x i then 1 else 0) [0..<32]"

definition of_bits32 :: "bytes \<Rightarrow> u32" where
  "of_bits32 bs = horner_sum of_bool 2 (map (\<lambda>b. b = 1) bs)"

lemma of_bits32_bits32 [simp]: "of_bits32 (bits32 x) = x"
proof -
  have "map (\<lambda>b. b = 1) (bits32 x) = map (bit x) [0..<32]" by (simp add: bits32_def)
  then have "of_bits32 (bits32 x) = take_bit 32 x"
    by (simp only: of_bits32_def horner_sum_bit_eq_take_bit)
  then show ?thesis by (simp add: take_bit_word_eq_self)
qed

definition text_bytes :: "string \<Rightarrow> bytes" where "text_bytes s = map char_byte s"
definition bytes_text :: "bytes \<Rightarrow> string" where "bytes_text bs = map byte_char bs"

lemma bytes_text_bytes [simp]: "bytes_text (text_bytes s) = s"
  by (simp add: bytes_text_def text_bytes_def comp_def)

lemma text_bytes_text [simp]: "text_bytes (bytes_text bs) = bs"
  by (simp add: bytes_text_def text_bytes_def comp_def)

definition option_bytes :: "('a \<Rightarrow> bytes) \<Rightarrow> 'a option \<Rightarrow> bytes" where
  "option_bytes f x = (case x of None \<Rightarrow> [] | Some v \<Rightarrow> 0 # f v)"

definition bytes_option :: "(bytes \<Rightarrow> 'a) \<Rightarrow> bytes \<Rightarrow> 'a option" where
  "bytes_option g bs = (case bs of [] \<Rightarrow> None | _ # r \<Rightarrow> Some (g r))"

lemma bytes_option_bytes [simp]: "(\<And>v. g (f v) = v) \<Longrightarrow> bytes_option g (option_bytes f x) = x"
  by (cases x) (simp_all add: bytes_option_def option_bytes_def)

definition servers_bytes :: "signal_servers \<Rightarrow> bytes" where
  "servers_bytes s = (if s = Production then [1] else [])"

definition bytes_servers :: "bytes \<Rightarrow> signal_servers" where
  "bytes_servers bs = (if bs = [] then Staging else Production)"

lemma bytes_servers_bytes [simp]: "bytes_servers (servers_bytes s) = s"
  by (cases s) (simp_all add: bytes_servers_def servers_bytes_def)

fun unstuff_all :: "nat \<Rightarrow> bytes \<Rightarrow> bytes list option" where
  "unstuff_all 0 bs = Some []"
| "unstuff_all (Suc n) bs =
     (case unstuff bs of None \<Rightarrow> None | Some (f, r) \<Rightarrow> map_option (Cons f) (unstuff_all n r))"

lemma unstuff_all_stuff: "unstuff_all (length fs) (concat (map stuff fs) @ rest) = Some fs"
  by (induction fs) auto

definition registration_fields :: "registration_data \<Rightarrow> bytes list" where
  "registration_fields d =
     [servers_bytes (rd_signal_servers d), option_bytes text_bytes (rd_device_name d),
      text_bytes (rd_phone_number d), uuid_bytes (rd_aci d), uuid_bytes (rd_pni d),
      text_bytes (rd_password d), option_bytes bits32 (rd_device_id d), bits32 (rd_registration_id d),
      option_bytes bits32 (rd_pni_registration_id d), key32_bytes (rd_profile_key d)]"

fun registration_of_fields :: "bytes list \<Rightarrow> registration_data option" where
  "registration_of_fields [sv, nm, ph, ac, pn, pw, dv, ri, pr, pk] =
     (case (uuid_from_slice ac, uuid_from_slice pn, key32_from_slice pk) of
        (Some aci, Some pni, Some key) \<Rightarrow>
          Some \<lparr>rd_signal_servers = bytes_servers sv, rd_device_name = bytes_option bytes_text nm,
            rd_phone_number = bytes_text ph, rd_aci = aci, rd_pni = pni, rd_password = bytes_text pw,
            rd_device_id = bytes_option of_bits32 dv, rd_registration_id = of_bits32 ri,
            rd_pni_registration_id = bytes_option of_bits32 pr, rd_profile_key = key\<rparr>
      | _ \<Rightarrow> None)"
| "registration_of_fields _ = None"

lemma registration_of_fields_fields: "registration_of_fields (registration_fields d) = Some d"
  by (simp add: registration_fields_def)

definition sample_registration_codec :: "registration_data kv_codec" where
  "sample_registration_codec =
     \<lparr>kv_encode = (\<lambda>d. Inr (concat (map stuff (registration_fields d)))),
      kv_decode = (\<lambda>bs. ok_or Sq_Json (Option.bind (unstuff_all 10 bs) registration_of_fields))\<rparr>"

lemma sample_registration_codec_ok: "kv_codec_ok sample_registration_codec"
proof -
  have "unstuff_all 10 (concat (map stuff (registration_fields d))) = Some (registration_fields d)" for d
    using unstuff_all_stuff [of "registration_fields d" "[]"]
    by (simp add: registration_fields_def eval_nat_numeral)
  then show ?thesis
    by (simp add: kv_codec_ok_def sample_registration_codec_def registration_of_fields_fields ok_or_def)
qed

definition text_kv_codec :: "string kv_codec" where
  "text_kv_codec = \<lparr>kv_encode = (\<lambda>s. Inr (text_bytes s)), kv_decode = (\<lambda>bs. Inr (bytes_text bs))\<rparr>"

lemma text_kv_codec_ok: "kv_codec_ok text_kv_codec"
  by (simp add: kv_codec_ok_def text_kv_codec_def)

lemma byte_kv_codec_ok: "kv_codec_ok byte_kv_codec"
  by (simp add: kv_codec_ok_def byte_kv_codec_def)

end
