(* ===== verification/Sqlite_Onboarding.thy ===== *)
theory Sqlite_Onboarding
  imports Onboarding_Laws Sample_Registration
begin

text \<open>
  Onboarding on the SQLite store: its \<open>StateStore\<close> keeps the contract \<open>registration_store\<close>, so a device is
  registered or linked as a whole or not at all; and what it keeps across registrations.
\<close>

section \<open>The SQLite state store\<close>

record ('k, 'c) state_codecs =
  sc_registration :: "registration_data kv_codec"
  sc_identity :: "'k kv_codec"
  sc_certificate :: "'c kv_codec"
  sc_master_key :: "bytes kv_codec"
  sc_pool :: "string kv_codec"

text \<open>The key/value table is part of the whole database.\<close>

definition on_content :: "'a sql \<Rightarrow> (protocol_db, sqlite_error, 'a) io" where
  "on_content m db = (case m (pr_content db) of (r, content) \<Rightarrow> (r, db\<lparr>pr_content := content\<rparr>))"

definition sqlite_state_store :: "('k, 'c) state_codecs \<Rightarrow> (protocol_db, sqlite_error, 'k, 'c) state_ops" where
  "sqlite_state_store C =
     \<lparr>sto_load_registration = on_content (load_registration_data (sc_registration C)),
      sto_save_registration = (\<lambda>d. on_content (save_registration_data (sc_registration C) d)),
      sto_is_registered = (\<lambda>db. is_registered (sc_registration C) (pr_content db)),
      sto_clear_registration = map_err (\<lambda>_. Sq_Db) clear_registration,
      sto_set_aci_identity_key_pair = (\<lambda>k. on_content (set_identity_key_pair (sc_identity C) AciIdentity k)),
      sto_set_pni_identity_key_pair = (\<lambda>k. on_content (set_identity_key_pair (sc_identity C) PniIdentity k)),
      sto_sender_certificate = on_content (sender_certificate (sc_certificate C)),
      sto_fetch_master_key = on_content (fetch_master_key (sc_master_key C)),
      sto_store_master_key = (\<lambda>m. on_content (store_master_key (sc_master_key C) m)),
      sto_fetch_account_entropy_pool = on_content (fetch_account_entropy_pool (sc_pool C)),
      sto_store_account_entropy_pool = (\<lambda>p. on_content (store_account_entropy_pool (sc_pool C) p)),
      sto_store_backup_key = (\<lambda>b. on_content (store_backup_key b))\<rparr>"

text \<open>A value under one key does not see a write under another.\<close>

lemma kv_save_other: "k \<noteq> k' \<Longrightarrow> kv_get k (snd (kv_save C k' v db)) = kv_get k db"
  by (cases "kv_encode C v") (auto simp: kv_save_def io_simps execute_sql_def kv_get_put)

lemma kv_store_other: "k \<noteq> k' \<Longrightarrow> kv_get k (snd (kv_store C k' v db)) = kv_get k db"
  by (cases v) (auto simp: kv_store_def kv_save_other execute_sql_def kv_get_remove)

lemma kv_fetch_same: "snd (kv_fetch C k db) = db"
  by (simp add: kv_fetch_def query_sql_def)

lemma kv_fetch_cong: "kv_get k db' = kv_get k db \<Longrightarrow> fst (kv_fetch C k db') = fst (kv_fetch C k db)"
  by (simp add: kv_fetch_def query_sql_def)

lemma kv_save_fetch:
  "kv_codec_ok C \<Longrightarrow> fst (kv_save C k v db) = Inr () \<and> fst (kv_fetch C k (snd (kv_save C k v db))) = Inr (Some v)"
  by (auto simp: kv_codec_ok_def kv_save_def kv_fetch_def io_simps execute_sql_def query_sql_def kv_get_put
      dest: spec [of _ v])

lemma kv_store_fetch:
  "kv_codec_ok C \<Longrightarrow> fst (kv_store C k v db) = Inr () \<and> fst (kv_fetch C k (snd (kv_store C k v db))) = Inr v"
  using kv_save_fetch [of C k _ db]
  by (cases v) (auto simp: kv_store_def kv_fetch_def execute_sql_def query_sql_def kv_get_remove)

lemma on_content_fst [simp]: "fst (on_content m db) = fst (m (pr_content db))"
  by (simp add: on_content_def case_prod_unfold)

lemma on_content_snd [simp]: "pr_content (snd (on_content m db)) = snd (m (pr_content db))"
  by (simp add: on_content_def case_prod_unfold)

lemma on_content_keeps:
  "(\<And>c. f (snd (m c)) = f c) \<Longrightarrow> keeps (\<lambda>db. f (pr_content db) = r) (on_content m)"
  by (simp add: keeps_def)

lemmas state_entry_defs = load_registration_data_def save_registration_data_def set_identity_key_pair_def
  sender_certificate_def fetch_master_key_def store_master_key_def fetch_account_entropy_pool_def
  store_account_entropy_pool_def store_backup_key_def

lemma identity_key_pair_keys [simp]: "identity_key_pair_key i \<noteq> ''registration''"
  "identity_key_pair_key i \<noteq> ''master_key''" "identity_key_pair_key i \<noteq> ''account_entropy_pool''"
  "identity_key_pair_key i \<noteq> ''sender_certificate''" "identity_key_pair_key i \<noteq> ''backup_key''"
  by (cases i; simp)+

section \<open>The contract\<close>

lemma sqlite_registration_reads:
  "fst (sto_load_registration (sqlite_state_store C) db) =
    fst (kv_fetch (sc_registration C) ''registration'' (pr_content db))"
  by (simp add: sqlite_state_store_def load_registration_data_def)

lemma sqlite_clear_registration:
  "sto_clear_registration (sqlite_state_store C) db = (Inr (), snd (clear_registration db))"
  by (simp add: sqlite_state_store_def clear_registration_def pr_execute_def map_err_def)

lemma sqlite_cleared_registration: "pr_content (snd (clear_registration db)) = kv_remove ''registration'' (pr_content db)"
  by (simp add: clear_registration_def pr_execute_def)

lemma sqlite_state_fields:
  "sto_load_registration (sqlite_state_store C) = on_content (kv_fetch (sc_registration C) ''registration'')"
  "sto_save_registration (sqlite_state_store C) d = on_content (kv_save (sc_registration C) ''registration'' d)"
  "sto_set_aci_identity_key_pair (sqlite_state_store C) k = on_content (kv_save (sc_identity C) ''identity_keypair_aci'' k)"
  "sto_set_pni_identity_key_pair (sqlite_state_store C) k = on_content (kv_save (sc_identity C) ''identity_keypair_pni'' k)"
  "sto_sender_certificate (sqlite_state_store C) = on_content (kv_fetch (sc_certificate C) ''sender_certificate'')"
  "sto_fetch_master_key (sqlite_state_store C) = on_content (kv_fetch (sc_master_key C) ''master_key'')"
  "sto_store_master_key (sqlite_state_store C) m = on_content (kv_store (sc_master_key C) ''master_key'' m)"
  "sto_fetch_account_entropy_pool (sqlite_state_store C) = on_content (kv_fetch (sc_pool C) ''account_entropy_pool'')"
  "sto_store_account_entropy_pool (sqlite_state_store C) p = on_content (kv_store (sc_pool C) ''account_entropy_pool'' p)"
  "sto_store_backup_key (sqlite_state_store C) b = on_content (kv_store backup_key_codec ''backup_key'' b)"
  by (simp_all add: sqlite_state_store_def state_entry_defs)

lemma keeps_registration:
  assumes "\<And>c. kv_get ''registration'' (snd (m c)) = kv_get ''registration'' c"
  shows "keeps (\<lambda>w. fst (sto_load_registration (sqlite_state_store C) w) = r) (on_content m)"
proof -
  have "fst (kv_fetch (sc_registration C) ''registration'' (snd (m c))) =
      fst (kv_fetch (sc_registration C) ''registration'' c)" for c
    by (rule kv_fetch_cong [OF assms])
  then show ?thesis by (simp add: sqlite_registration_reads keeps_def)
qed

lemma sqlite_registration_store:
  assumes codec: "kv_codec_ok (sc_registration C)"
  shows "registration_store (sqlite_state_store C)"
proof
  show "snd (sto_load_registration (sqlite_state_store C) w) = w" for w
    by (simp add: sqlite_state_store_def on_content_def load_registration_data_def kv_fetch_def query_sql_def)
  show "sto_is_registered (sqlite_state_store C) w \<longleftrightarrow>
      (\<exists>d. fst (sto_load_registration (sqlite_state_store C) w) = Inr (Some d))" for w
    by (auto simp: sqlite_state_store_def is_registered_def split: sum.splits option.splits)
  show "fst (sto_load_registration (sqlite_state_store C) w') = Inr None"
    if "sto_clear_registration (sqlite_state_store C) w = (Inr (), w')" for w w'
    using that by (auto simp: sqlite_clear_registration sqlite_registration_reads sqlite_cleared_registration
        kv_fetch_def query_sql_def kv_get_remove)
  show "fst (sto_load_registration (sqlite_state_store C) w') = fst (sto_load_registration (sqlite_state_store C) w)"
    if "sto_clear_registration (sqlite_state_store C) w = (Inl e, w')" for w w' e
    using that by (simp add: sqlite_clear_registration)
  fix d and w w' :: protocol_db
  have put: "fst (kv_save (sc_registration C) ''registration'' d (pr_content w)) = Inr () \<and>
      fst (kv_fetch (sc_registration C) ''registration''
        (snd (kv_save (sc_registration C) ''registration'' d (pr_content w)))) = Inr (Some d)"
    by (rule kv_save_fetch [OF codec])
  have save: "sto_save_registration (sqlite_state_store C) d = on_content (kv_save (sc_registration C) ''registration'' d)"
    by (simp add: sqlite_state_store_def save_registration_data_def)
  show "fst (sto_load_registration (sqlite_state_store C) w') = Inr (Some d)"
    if "sto_save_registration (sqlite_state_store C) d w = (Inr (), w')"
    using put that by (auto simp: save sqlite_registration_reads on_content_def case_prod_unfold)
  show "fst (sto_load_registration (sqlite_state_store C) w') = fst (sto_load_registration (sqlite_state_store C) w)"
    if "sto_save_registration (sqlite_state_store C) d w = (Inl e, w')" for e
    using put that by (auto simp: save on_content_def case_prod_unfold)
qed (unfold sqlite_state_fields(3-10), (rule keeps_registration, simp add: kv_save_other kv_store_other)+)

locale sqlite_registration =
  fixes C :: "('k, 'c) state_codecs"
  assumes codec: "kv_codec_ok (sc_registration C)"

sublocale sqlite_registration \<subseteq> registration_store "sqlite_state_store C"
  by (rule sqlite_registration_store [OF codec])

section \<open>All or nothing\<close>

lemma on_content_fetch: "on_content (kv_fetch C k) db = (fst (kv_fetch C k (pr_content db)), db)"
  by (simp add: on_content_def kv_fetch_def query_sql_def case_prod_unfold)

lemma load_registered_none:
  assumes "fst (sto_load_registration (sqlite_state_store C) db) = Inr None"
  shows "load_registered (sqlite_state_store C) db = (Inl NotYetRegisteredError, db)"
  using assms by (simp add: load_registered_def sqlite_state_fields on_content_fetch io_simps)

lemma load_registered_some:
  assumes "fst (sto_load_registration (sqlite_state_store C) db) = Inr (Some d)"
  shows "load_registered (sqlite_state_store C) db =
    (case fst (sto_sender_certificate (sqlite_state_store C) db) of
       Inl e \<Rightarrow> Inl (StoreError e)
     | Inr c \<Rightarrow> Inr ((with_data d)\<lparr>rg_sender_certificate := c\<rparr>), db)"
  using assms by (simp add: load_registered_def sqlite_state_fields on_content_fetch io_simps split: sum.split)

text \<open>What loading gives after \<open>g\<close> was set up: the same manager, with whatever certificate the store holds.\<close>

definition loads_as :: "('k, 'c) state_codecs \<Rightarrow> ('c, 's) registered \<Rightarrow> protocol_db \<Rightarrow> bool" where
  "loads_as C g db \<longleftrightarrow>
     load_registered (sqlite_state_store C) db =
       (case fst (sto_sender_certificate (sqlite_state_store C) db) of
          Inl e \<Rightarrow> Inl (StoreError e)
        | Inr c \<Rightarrow> Inr (g\<lparr>rg_sender_certificate := c\<rparr>), db)"

definition not_registered :: "('k, 'c) state_codecs \<Rightarrow> protocol_db \<Rightarrow> bool" where
  "not_registered C db \<longleftrightarrow>
     fst (load_registered (sqlite_state_store C) db :: (_ + ('c, unit) registered) \<times> _) = Inl NotYetRegisteredError"

lemma not_registered_iff:
  "not_registered C db \<longleftrightarrow> fst (sto_load_registration (sqlite_state_store C) db) = Inr None"
  by (auto simp: not_registered_def load_registered_def sqlite_state_fields on_content_fetch io_simps
      split: sum.splits option.splits)

lemma loads_asI:
  "fst (sto_load_registration (sqlite_state_store C) db) = Inr (Some (rg_data g)) \<Longrightarrow> g = with_data (rg_data g) \<Longrightarrow>
   loads_as C g db"
  by (metis loads_as_def load_registered_some)

text \<open>C28. Registering is all or nothing. Without the order to force it, a registered client is refused and
  keeps everything. Otherwise the old registration is gone before the server is asked, and stays gone
  whatever step fails: a captcha or a push challenge that is asked for, a code that is not sent or does
  not verify, keys or data that cannot be stored. Only a confirmation that succeeds leaves a
  registration, and loading it gives the confirmed manager: this number and password, as primary
  device number one.\<close>

theorem registered_or_nothing:
  fixes E :: "(protocol_db, sqlite_error, 'k, 'c) onboarding_env"
  assumes "on_store E = sqlite_state_store C" "kv_codec_ok (sc_registration C)"
    "\<forall>r. leaves (\<lambda>db. fst (sto_load_registration (sqlite_state_store C) db) = r) E"
  shows "(case register E options db of (r, db') \<Rightarrow>
      if \<not> ro_force options \<and> is_registered (sc_registration C) (pr_content db)
      then r = Inl AlreadyRegisteredError \<and> db' = db
      else not_registered C db') \<and>
    (not_registered C db1 \<longrightarrow>
      (case (confirm_verification_code E c code db1 :: (_ + ('c, 's) registered) \<times> _) of
         (Inl e, db') \<Rightarrow> not_registered C db'
       | (Inr g, db') \<Rightarrow> loads_as C g db' \<and> registration_type_of (rg_data g) = Primary \<and>
           device_id try_from_u32 (rg_data g) = DEFAULT_DEVICE_ID \<and>
           rd_phone_number (rg_data g) = cf_phone_number c \<and> rd_password (rg_data g) = cf_password c))"
proof -
  note L = sqlite_registration_store [OF assms(2)]
  from assms(3) have quiet: "leaves (\<lambda>db. fst (sto_load_registration (sqlite_state_store C) db) = r) E" for r
    by blast
  have reg: "sto_is_registered (sqlite_state_store C) db \<longleftrightarrow> is_registered (sc_registration C) (pr_content db)"
    by (simp add: sqlite_state_store_def)
  obtain r db' where run: "register E options db = (r, db')" by fastforce
  from registration_store.register_outcome [OF L assms(1) quiet sqlite_clear_registration run]
  have "if \<not> ro_force options \<and> is_registered (sc_registration C) (pr_content db)
      then r = Inl AlreadyRegisteredError \<and> db' = db else not_registered C db'"
    by (simp add: reg not_registered_iff split: if_splits)
  moreover have "case (confirm_verification_code E c code db1 :: (_ + ('c, 's) registered) \<times> _) of
         (Inl e, db') \<Rightarrow> not_registered C db'
       | (Inr g, db') \<Rightarrow> loads_as C g db' \<and> registration_type_of (rg_data g) = Primary \<and>
           device_id try_from_u32 (rg_data g) = DEFAULT_DEVICE_ID \<and>
           rd_phone_number (rg_data g) = cf_phone_number c \<and> rd_password (rg_data g) = cf_password c"
    if "not_registered C db1"
  proof -
    note T = registration_store.confirm_triple [OF L assms(1) quiet, of c code]
    from that have P: "fst (sto_load_registration (sqlite_state_store C) db1) = Inr None"
      by (simp add: not_registered_iff)
    show ?thesis
    proof (cases "confirm_verification_code E c code db1 :: (_ + ('c, 's) registered) \<times> _")
      case (Pair r db')
      show ?thesis
      proof (cases r)
        case (Inl e)
        with triple_Inl [OF T P] Pair show ?thesis by (simp add: not_registered_iff)
      next
        case (Inr g)
        from triple_Inr [OF T P Pair [unfolded Inr]]
        have "loads_as C g db'" "rd_device_name (rg_data g) = None" "rd_device_id (rg_data g) = None"
          "rd_phone_number (rg_data g) = cf_phone_number c" "rd_password (rg_data g) = cf_password c"
          by (blast intro: loads_asI)+
        then show ?thesis
          by (simp add: Pair Inr registration_type_of_def device_id_def opt_or_def)
      qed
    qed
  qed
  ultimately show ?thesis using run by simp
qed

text \<open>C29. Linking is all or nothing. Whether the client stops waiting for the URL, provisioning fails or ends
  without a registration, or a key cannot be stored: a link that fails leaves the store without
  a registration, the old one included. One that succeeds leaves its own, and loading it gives
  the linked manager under the given device name, as a secondary device.\<close>

theorem linked_or_nothing:
  fixes E :: "(protocol_db, sqlite_error, 'k, 'c) onboarding_env"
  assumes "on_store E = sqlite_state_store C" "kv_codec_ok (sc_registration C)"
    "\<forall>r. leaves (\<lambda>db. fst (sto_load_registration (sqlite_state_store C) db) = r) E"
  shows "case link_secondary_device E servers device_name url_taken db :: (_ + ('c, 's) registered) \<times> _ of
      (Inl e, db') \<Rightarrow> not_registered C db'
    | (Inr g, db') \<Rightarrow> loads_as C g db' \<and> rd_device_name (rg_data g) = Some device_name \<and>
        registration_type_of (rg_data g) = Secondary"
proof -
  note L = sqlite_registration_store [OF assms(2)]
  from assms(3) have quiet: "leaves (\<lambda>db. fst (sto_load_registration (sqlite_state_store C) db) = r) E" for r
    by blast
  obtain r :: "_ + ('c, 's) registered" and db'
    where run: "link_secondary_device E servers device_name url_taken db = (r, db')" by fastforce
  note out = registration_store.link_outcome [OF L assms(1) quiet sqlite_clear_registration run]
  show ?thesis
  proof (cases r)
    case (Inl e)
    with out run show ?thesis by (simp add: not_registered_iff)
  next
    case (Inr g)
    with out have "loads_as C g db'" "rd_device_name (rg_data g) = Some device_name"
      by (auto intro: loads_asI)
    with run Inr show ?thesis by (simp add: registration_type_of_def)
  qed
qed

section \<open>The keys of a linked device\<close>

lemma thenE_content:
  "fst (m (pr_content db)) = Inr () \<Longrightarrow>
   thenE (on_content m) k db = k (db\<lparr>pr_content := snd (m (pr_content db))\<rparr>)"
  by (simp add: thenE_def bindE_def on_content_def case_prod_unfold)

lemma kv_save_get: "kv_encode C v = Inr bs \<Longrightarrow> kv_get k (snd (kv_save C k v db)) = Some bs"
  by (simp add: kv_save_def io_simps execute_sql_def kv_get_put)

lemma kv_fetch_as: "kv_get k db' = kv_get k (snd (kv_store C k v db)) \<Longrightarrow> kv_codec_ok C \<Longrightarrow> fst (kv_fetch C k db') = Inr v"
  using kv_fetch_cong [of k db' "snd (kv_store C k v db)" C] kv_store_fetch [of C k v db] by simp

definition linked_content :: "('k, 'c) state_codecs \<Rightarrow> 'k \<Rightarrow> 'k \<Rightarrow> key32 option \<Rightarrow> bytes option \<Rightarrow> string option \<Rightarrow> registration_data \<Rightarrow> sqlite_db \<Rightarrow> sqlite_db" where
  "linked_content C aci pni backup master pool d c =
     snd (kv_save (sc_registration C) ''registration'' d
    (snd (kv_store (sc_pool C) ''account_entropy_pool'' pool
    (snd (kv_store (sc_master_key C) ''master_key'' master
    (snd (kv_save (sc_identity C) ''identity_keypair_pni'' pni
    (snd (kv_save (sc_identity C) ''identity_keypair_aci'' aci
      (if backup = None then c else snd (kv_store backup_key_codec ''backup_key'' backup c)))))))))))"

lemma backup_key_codec_ok: "kv_codec_ok backup_key_codec"
  by (simp add: kv_codec_ok_def backup_key_codec_def ok_or_def)

lemma store_linked_device_run:
  assumes "on_store E = sqlite_state_store C" "kv_codec_ok (sc_registration C)" "kv_codec_ok (sc_identity C)"
    "kv_codec_ok (sc_master_key C)" "kv_codec_ok (sc_pool C)"
  shows "store_linked_device E d n db = (Inr (), db\<lparr>pr_content := linked_content C
      (on_identity_key_pair E (nd_aci_public_key n) (nd_aci_private_key n))
      (on_identity_key_pair E (nd_pni_public_key n) (nd_pni_private_key n))
      (nd_ephemeral_backup_key n)
      (Option.bind (nd_account_entropy_pool n) (\<lambda>aep. on_master_key E (on_svr_key E aep)))
      (nd_account_entropy_pool n) d (pr_content db)\<rparr>)"
proof -
  note ok = kv_save_fetch [OF assms(2), THEN conjunct1] kv_save_fetch [OF assms(3), THEN conjunct1]
    kv_store_fetch [OF assms(4), THEN conjunct1] kv_store_fetch [OF assms(5), THEN conjunct1]
    kv_store_fetch [OF backup_key_codec_ok, THEN conjunct1]
  show ?thesis
    by (cases "nd_ephemeral_backup_key n")
      (simp_all add: store_linked_device_def Let_def assms(1) sqlite_state_fields thenE_content ok
        linked_content_def, simp_all add: thenE_def bindE_def ok_def thenE_content ok on_content_def case_prod_unfold)
qed

lemma linked_content_fetch:
  assumes "kv_codec_ok (sc_master_key C)" "kv_codec_ok (sc_pool C)"
  shows "fst (kv_fetch (sc_pool C) ''account_entropy_pool'' (linked_content C aci pni backup master pool d c)) = Inr pool"
    "fst (kv_fetch (sc_master_key C) ''master_key'' (linked_content C aci pni backup master pool d c)) = Inr master"
    "fst (kv_fetch backup_key_codec ''backup_key'' (linked_content C aci pni backup master pool d c)) =
       (if backup = None then fst (kv_fetch backup_key_codec ''backup_key'' c) else Inr backup)"
  by (rule kv_fetch_as [OF _ assms(2)] kv_fetch_as [OF _ assms(1)],
      simp add: linked_content_def kv_save_other kv_store_other)+
    (cases backup, auto intro!: kv_fetch_cong kv_fetch_as [OF _ backup_key_codec_ok]
      simp: linked_content_def kv_save_other kv_store_other)

lemma linked_content_identity:
  assumes "kv_encode (sc_identity C) aci = Inr a" "kv_encode (sc_identity C) pni = Inr p"
  shows "kv_get ''identity_keypair_aci'' (linked_content C aci pni backup master pool d c) = Some a"
    "kv_get ''identity_keypair_pni'' (linked_content C aci pni backup master pool d c) = Some p"
  by (simp_all add: linked_content_def kv_save_other kv_store_other kv_save_get [OF assms(1)] kv_save_get [OF assms(2)])

text \<open>\<open>keys_agree\<close>: the protocol store reads the key pairs the state store writes.\<close>

definition keys_agree :: "('k, 'c) state_codecs \<Rightarrow> 'k rec_codec \<Rightarrow> bool" where
  "keys_agree C R \<longleftrightarrow> (\<forall>k. \<exists>bs. kv_encode (sc_identity C) k = Inr bs \<and> rec_deserialize R bs = Inr k)"

text \<open>C30. What the primary device sends is what the linked device works with. Storing it does not fail, and
  afterwards the protocol stores of both identities have its key pairs, the account entropy pool
  is the one sent or none, the master key is derived from that pool, the key of the transfer
  archive is the one sent, an older one staying if none was, and the registration is the linked one;
  asking for the keys changes nothing.\<close>

theorem linked_keys_are_found:
  assumes "on_store E = sqlite_state_store C" "kv_codec_ok (sc_registration C)" "kv_codec_ok (sc_identity C)"
    "kv_codec_ok (sc_master_key C)" "kv_codec_ok (sc_pool C)" "keys_agree C R"
    "\<forall>aep. on_master_key E (on_svr_key E aep) = Some (derive aep)"
    "registration_type_of d = Secondary"
  shows "\<exists>db'. store_linked_device E d n db = (Inr (), db') \<and>
    get_identity_key_pair R AciIdentity db' =
      (Inr (on_identity_key_pair E (nd_aci_public_key n) (nd_aci_private_key n)), db') \<and>
    get_identity_key_pair R PniIdentity db' =
      (Inr (on_identity_key_pair E (nd_pni_public_key n) (nd_pni_private_key n)), db') \<and>
    account_entropy_pool (on_store E) generate d db' = (Inr (nd_account_entropy_pool n), db') \<and>
    master_key (on_store E) generate derive d db' = (Inr (map_option derive (nd_account_entropy_pool n)), db') \<and>
    fst (fetch_backup_key (pr_content db')) =
      (if nd_ephemeral_backup_key n = None then fst (fetch_backup_key (pr_content db))
       else Inr (nd_ephemeral_backup_key n)) \<and>
    fst (sto_load_registration (on_store E) db') = Inr (Some d)"
proof -
  let ?aci = "on_identity_key_pair E (nd_aci_public_key n) (nd_aci_private_key n)"
  let ?pni = "on_identity_key_pair E (nd_pni_public_key n) (nd_pni_private_key n)"
  let ?pool = "nd_account_entropy_pool n"
  let ?master = "map_option derive ?pool"
  let ?db' = "db\<lparr>pr_content := linked_content C ?aci ?pni (nd_ephemeral_backup_key n) ?master ?pool d (pr_content db)\<rparr>"
  have "Option.bind ?pool (\<lambda>aep. on_master_key E (on_svr_key E aep)) = ?master"
    using assms(7) by (cases ?pool) auto
  with store_linked_device_run [OF assms(1-5), of d n db]
  have run: "store_linked_device E d n db = (Inr (), ?db')" by simp
  from assms(6) obtain a p where a: "kv_encode (sc_identity C) ?aci = Inr a" "rec_deserialize R a = Inr ?aci"
    and p: "kv_encode (sc_identity C) ?pni = Inr p" "rec_deserialize R p = Inr ?pni"
    unfolding keys_agree_def by metis
  note fetched = linked_content_fetch [OF assms(4,5)] linked_content_identity [OF a(1) p(1)]
  have ids: "get_identity_key_pair R AciIdentity ?db' = (Inr ?aci, ?db')"
    "get_identity_key_pair R PniIdentity ?db' = (Inr ?pni, ?db')"
    by (simp_all add: get_identity_key_pair_def pr_query_def fetch_one_def ok_or_def fetched a(2) p(2) res_bind_def)
  have pool: "account_entropy_pool (on_store E) generate d ?db' = (Inr ?pool, ?db')"
    using assms(8) by (simp add: account_entropy_pool_def assms(1) sqlite_state_fields on_content_fetch fetched
        io_simps split: option.splits)
  then have master: "master_key (on_store E) generate derive d ?db' = (Inr ?master, ?db')"
    by (cases ?pool) (simp_all add: master_key_def assms(1) sqlite_state_fields on_content_fetch fetched io_simps)
  have reg: "fst (sto_load_registration (on_store E) ?db') = Inr (Some d)"
    by (simp add: assms(1) sqlite_registration_reads linked_content_def kv_save_fetch [OF assms(2)])
  show ?thesis
    by (intro exI [of _ ?db'] conjI run ids pool master reg) (simp add: fetch_backup_key_def fetched)
qed

section \<open>What outlives a registration\<close>

text \<open>
  The entries registering does not write: the sender certificate, the master key, the account entropy
  pool. A client registered anew, under another number for that matter, still has those of before.
\<close>

definition entry_is :: "string \<Rightarrow> bytes option \<Rightarrow> protocol_db \<Rightarrow> bool" where
  "entry_is k v db \<longleftrightarrow> kv_get k (pr_content db) = v"

lemma on_content_entry:
  "(\<And>c. kv_get k (snd (m c)) = kv_get k c) \<Longrightarrow> keeps (entry_is k v) (on_content m)"
  by (simp add: keeps_def entry_is_def)

lemma registering_keeps_entries:
  assumes "on_store E = sqlite_state_store C" "leaves (entry_is k v) E"
    "k \<notin> {''registration'', ''identity_keypair_aci'', ''identity_keypair_pni''}"
  shows "keeps (entry_is k v) (register E options)" "keeps (entry_is k v) (confirm_verification_code E c code)"
proof -
  have clear: "keeps (entry_is k v) (sto_clear_registration (sqlite_state_store C))"
    using assms(3) by (simp add: keeps_def entry_is_def sqlite_clear_registration sqlite_cleared_registration kv_get_remove)
  have writes: "keeps (entry_is k v) (sto_set_aci_identity_key_pair (sqlite_state_store C) x)"
    "keeps (entry_is k v) (sto_set_pni_identity_key_pair (sqlite_state_store C) x)"
    "keeps (entry_is k v) (sto_save_registration (sqlite_state_store C) d)" for x d
    using assms(3) by (auto simp: sqlite_state_fields intro!: on_content_entry kv_save_other)
  have "keeps (entry_is k v) (thenE (map_err StoreError (sto_clear_registration (on_store E))) (start_session E options))"
    unfolding assms(1) by (intro keeps_rules clear start_session_keeps [OF assms(2)])
  then show "keeps (entry_is k v) (register E options)"
    by (simp add: keeps_def register_def err_def)
  show "keeps (entry_is k v) (confirm_verification_code E c code)"
    unfolding confirm_verification_code_def Let_def assms(1)
    by (intro keeps_rules leavesD [OF assms(2)] writes allI)
qed

lemma reregistered_keeps_old_master_key:
  assumes "on_store E = sqlite_state_store C" "leaves (entry_is ''master_key'' (Some old)) E"
    "kv_decode (sc_master_key C) old = Inr key" "entry_is ''master_key'' (Some old) db"
    "register E options db = (Inr c, db1)"
    "confirm_verification_code E c code db1 = (Inr (g :: (_, 's) registered), db2)"
  shows "master_key (on_store E) generate derive (rg_data g) db2 = (Inr (Some key), db2)"
proof -
  have "keeps (entry_is ''master_key'' (Some old)) (register E options)"
    "keeps (entry_is ''master_key'' (Some old)) (confirm_verification_code E c code :: (_, _, (_, 's) registered) io)"
    by (rule registering_keeps_entries [OF assms(1,2)]; simp)+
  with assms(4-6) have "entry_is ''master_key'' (Some old) db2"
    by (metis keepsD snd_conv)
  then have "fst (kv_fetch (sc_master_key C) ''master_key'' (pr_content db2)) = Inr (Some key)"
    by (simp add: assms(3) kv_fetch_def query_sql_def entry_is_def res_map_def)
  then show ?thesis
    by (simp add: master_key_def assms(1) sqlite_state_fields on_content_fetch io_simps)
qed

lemma reregistered_loads_old_certificate:
  assumes "on_store E = sqlite_state_store C" "kv_codec_ok (sc_registration C)"
    "\<forall>r. leaves (\<lambda>db. fst (sto_load_registration (sqlite_state_store C) db) = r) E"
    "leaves (entry_is ''sender_certificate'' (Some old)) E"
    "kv_decode (sc_certificate C) old = Inr cert" "entry_is ''sender_certificate'' (Some old) db"
    "not_registered C db" "confirm_verification_code E c code db = (Inr (g :: (_, 's) registered), db')"
  shows "load_registered (on_store E) db' = (Inr (g\<lparr>rg_sender_certificate := Some cert\<rparr>), db')"
proof -
  from assms(3) have quiet: "leaves (\<lambda>db. fst (sto_load_registration (sqlite_state_store C) db) = r) E" for r
    by blast
  have "keeps (entry_is ''sender_certificate'' (Some old)) (confirm_verification_code E c code :: (_, _, (_, 's) registered) io)"
    by (rule registering_keeps_entries [OF assms(1,4)]) simp
  with assms(6,8) have "entry_is ''sender_certificate'' (Some old) db'"
    by (metis keepsD snd_conv)
  then have "fst (sto_sender_certificate (sqlite_state_store C) db') = Inr (Some cert)"
    by (simp add: sqlite_state_fields kv_fetch_def query_sql_def entry_is_def assms(5) res_map_def)
  moreover have "loads_as C g db'"
    using triple_Inr [OF registration_store.confirm_triple [OF sqlite_registration_store [OF assms(2)] assms(1) quiet]
        assms(7) [unfolded not_registered_iff] assms(8)]
    by (blast intro: loads_asI)
  ultimately show ?thesis by (simp add: loads_as_def assms(1))
qed

section \<open>A sample\<close>

definition sample_state_codecs :: "(bytes, bytes) state_codecs" where
  "sample_state_codecs =
     \<lparr>sc_registration = sample_registration_codec, sc_identity = byte_kv_codec,
      sc_certificate = byte_kv_codec, sc_master_key = byte_kv_codec, sc_pool = text_kv_codec\<rparr>"

interpretation sample_state: sqlite_registration sample_state_codecs
  by unfold_locales (simp add: sample_state_codecs_def sample_registration_codec_ok)

definition open_session :: verification_session where
  "open_session = \<lparr>vs_id = ''session'', vs_allowed_to_request_code = True, vs_captcha_required = False,
     vs_push_challenge_required = False, vs_verified = True\<rparr>"

definition sample_new_device :: new_device_registration where
  "sample_new_device =
     \<lparr>nd_phone_number = ''+16137827274'', nd_device_id = 2, nd_registration_id = 5, nd_pni_registration_id = 6,
      nd_aci = sample_uuid 1, nd_pni = sample_uuid 2, nd_aci_public_key = [1], nd_aci_private_key = [2],
      nd_pni_public_key = [3], nd_pni_private_key = [4], nd_profile_key = sample_key32 7,
      nd_account_entropy_pool = Some ''pool'', nd_ephemeral_backup_key = None\<rparr>"

text \<open>A server that accepts everything, after a captcha for a session that is locked at first.\<close>

definition sample_onboarding :: "(protocol_db, sqlite_error, bytes, bytes) onboarding_env" where
  "sample_onboarding =
     \<lparr>on_store = sqlite_state_store sample_state_codecs,
      on_random_password = (\<lambda>w. (''password'', w)), on_random32 = (\<lambda>w. (replicate 32 9, w)),
      on_random_id = (\<lambda>w. (4, w)), on_random_identity = (\<lambda>w. ([7, 8], w)),
      on_profile_key = (\<lambda>_. sample_key32 9), on_access_key = key32_bytes,
      on_identity_key_pair = (\<lambda>pub priv. pub @ priv), on_svr_key = text_bytes, on_master_key = Some,
      on_connect = (\<lambda>_. ok ()),
      on_create_session = (\<lambda>_. ok (open_session\<lparr>vs_allowed_to_request_code := False, vs_captcha_required := True\<rparr>)),
      on_patch_session = (\<lambda>_ _. ok open_session), on_request_code = (\<lambda>_ _. ok open_session),
      on_submit_code = (\<lambda>_ _. ok open_session),
      on_register_account = (\<lambda>_ _ _ _ _. ok (sample_uuid 1, sample_uuid 2)),
      on_link_device = (\<lambda>_ _ _ _ w.
        (([ProvisioningUrl ''sgnl://linkdevice'', NewDeviceRegistration sample_new_device], Inr ()), w))\<rparr>"

lemma sample_onboarding_leaves: "leaves P sample_onboarding"
  by (simp add: leaves_def sample_onboarding_def)

definition sample_registration_options :: registration_options where
  "sample_registration_options =
     \<lparr>ro_signal_servers = Staging, ro_phone_number = ''+16137827274'', ro_use_voice_call = False,
      ro_captcha = Some ''signalcaptcha://token/'', ro_force = False\<rparr>"

lemma strip_captcha_sample: "strip_captcha ''signalcaptcha://token/'' = ''token''"
  by (simp add: strip_captcha_def strip_prefix_def strip_suffix_def opt_or_def)

lemma sample_on_store: "on_store sample_onboarding = sqlite_state_store sample_state_codecs"
  by (simp add: sample_onboarding_def)

lemma sample_codecs_ok: "kv_codec_ok (sc_registration sample_state_codecs)"
  by (simp add: sample_state_codecs_def sample_registration_codec_ok)

definition sample_confirmation :: confirmation where
  "sample_confirmation = \<lparr>cf_signal_servers = Staging, cf_phone_number = ''+16137827274'',
     cf_password = ''password'', cf_session_id = ''session''\<rparr>"

lemma registered_or_nothing_witness:
  "not_registered sample_state_codecs (snd (register sample_onboarding sample_registration_options protocol_empty)) \<and>
   (case confirm_verification_code sample_onboarding sample_confirmation ''123456''
      (snd (register sample_onboarding sample_registration_options protocol_empty)) :: (_ + (_, unit) registered) \<times> _ of
      (Inl e, db') \<Rightarrow> not_registered sample_state_codecs db'
    | (Inr g, db') \<Rightarrow> loads_as sample_state_codecs g db' \<and> registration_type_of (rg_data g) = Primary \<and>
        device_id (\<lambda>_. None) (rg_data g) = DEFAULT_DEVICE_ID \<and> rd_phone_number (rg_data g) = cf_phone_number sample_confirmation \<and>
        rd_password (rg_data g) = cf_password sample_confirmation)"
proof -
  have leaves: "\<forall>r. leaves (\<lambda>db. fst (sto_load_registration (sqlite_state_store sample_state_codecs) db) = r) sample_onboarding"
    by (simp add: sample_onboarding_leaves)
  have empty: "\<not> is_registered (sc_registration sample_state_codecs) (pr_content protocol_empty)"
    by (simp add: is_registered_def load_registration_data_def kv_fetch_def query_sql_def protocol_empty_def
        kv_get_def sqlite_empty_def select_one_def)
  note T = registered_or_nothing [OF sample_on_store sample_codecs_ok leaves, where options = sample_registration_options
      and db = protocol_empty and c = sample_confirmation and code = "''123456''"
      and ?db1.0 = "snd (register sample_onboarding sample_registration_options protocol_empty)"
      and ?try_from_u32.0 = "\<lambda>_. None"]
  from T [THEN conjunct1] empty have "not_registered sample_state_codecs
      (snd (register sample_onboarding sample_registration_options protocol_empty))"
    by (simp add: case_prod_unfold)
  from this T [THEN conjunct2, THEN mp, OF this] show ?thesis by simp
qed

lemma linked_or_nothing_witness:
  "case link_secondary_device sample_onboarding Production ''desktop'' True protocol_empty :: (_ + (_, unit) registered) \<times> _ of
      (Inl e, db') \<Rightarrow> not_registered sample_state_codecs db'
    | (Inr g, db') \<Rightarrow> loads_as sample_state_codecs g db' \<and> rd_device_name (rg_data g) = Some ''desktop'' \<and>
        registration_type_of (rg_data g) = Secondary"
  by (rule linked_or_nothing [OF sample_on_store sample_codecs_ok]) (simp add: sample_onboarding_leaves)

lemma linked_keys_are_found_witness:
  "\<exists>db'. store_linked_device sample_onboarding (linked_data Staging ''desktop'' ''password'' sample_new_device)
      sample_new_device protocol_empty = (Inr (), db') \<and>
    get_identity_key_pair raw_codec AciIdentity db' = (Inr [1, 2], db') \<and>
    get_identity_key_pair raw_codec PniIdentity db' = (Inr [3, 4], db') \<and>
    master_key (on_store sample_onboarding) (\<lambda>w. (''none'', w)) text_bytes
      (linked_data Staging ''desktop'' ''password'' sample_new_device) db' = (Inr (Some (text_bytes ''pool'')), db')"
proof -
  have c: "kv_codec_ok (sc_identity sample_state_codecs)" "kv_codec_ok (sc_master_key sample_state_codecs)"
    "kv_codec_ok (sc_pool sample_state_codecs)"
    by (simp_all add: sample_state_codecs_def byte_kv_codec_ok text_kv_codec_ok)
  have agree: "keys_agree sample_state_codecs raw_codec"
    by (simp add: keys_agree_def sample_state_codecs_def byte_kv_codec_def raw_codec_def)
  have derive: "\<forall>aep. on_master_key sample_onboarding (on_svr_key sample_onboarding aep) = Some (text_bytes aep)"
    by (simp add: sample_onboarding_def)
  have second: "registration_type_of (linked_data Staging ''desktop'' ''password'' sample_new_device) = Secondary"
    by (simp add: registration_type_of_def linked_data_def)
  from linked_keys_are_found [OF sample_on_store sample_codecs_ok c agree derive second,
      of sample_new_device protocol_empty "\<lambda>w. (''none'', w)"]
  show ?thesis by (auto simp: sample_onboarding_def sample_new_device_def)
qed

end
