(* ===== verification/Desk.thy ===== *)
theory Desk
  imports Chat_Edits Sample_Account
begin

text \<open>
  The reference store of the chat rows: one contact per \<open>Uuid\<close>, one group per master key, one account
  state, a flag beside each, and the messages by thread and time. A store refines it when a view
  of its world makes every operation do what the reference store's does (\<open>simulates\<close>); what is shown of a
  manager operation on the reference store then holds on the store.
\<close>

section \<open>Simulation\<close>

named_theorems simulates_rules \<open>one rule per combinator\<close>

definition simulates :: "('w \<Rightarrow> 'v) \<Rightarrow> ('w, 'e, 'a) io \<Rightarrow> ('v, 'e, 'a) io \<Rightarrow> bool" where
  "simulates view m f \<longleftrightarrow> (\<forall>w. apsnd view (m w) = f (view w))"

lemma simulatesD: "simulates view m f \<Longrightarrow> m w = (r, w') \<Longrightarrow> f (view w) = (r, view w')"
  unfolding simulates_def by (metis apsnd_conv)

lemma simulates_ok [simulates_rules]: "simulates view (ok x) (ok x)"
  by (simp add: simulates_def ok_def)

lemma simulates_err [simulates_rules]: "simulates view (err e) (err e)"
  by (simp add: simulates_def err_def)

lemma simulates_lift_res [simulates_rules]: "simulates view (lift_res r) (lift_res r)"
  by (simp add: simulates_def lift_res_def)

lemma simulates_bindE [simulates_rules]:
  assumes "simulates view m f" "\<And>x. simulates view (k x) (g x)"
  shows "simulates view (bindE m k) (bindE f g)"
  unfolding simulates_def
proof
  fix w
  obtain r w' where m: "m w = (r, w')" by fastforce
  show "apsnd view (bindE m k w) = bindE f g (view w)"
    using simulatesD [OF assms(1) m] assms(2) m
    by (cases r) (simp_all add: bindE_def simulates_def)
qed

lemma simulates_thenE [simulates_rules]:
  "simulates view m f \<Longrightarrow> simulates view k g \<Longrightarrow> simulates view (thenE m k) (thenE f g)"
  unfolding thenE_def by (rule simulates_bindE)

lemma simulates_attempt [simulates_rules]:
  assumes "simulates view m f" "\<And>r. simulates view (k r) (g r)"
  shows "simulates view (attempt m k) (attempt f g)"
  unfolding simulates_def
proof
  fix w
  obtain r w' where m: "m w = (r, w')" by fastforce
  show "apsnd view (attempt m k w) = attempt f g (view w)"
    using simulatesD [OF assms(1) m] assms(2) m by (simp add: attempt_def simulates_def)
qed

lemma simulates_st [simulates_rules]:
  assumes "simulates view m f" shows "simulates view (st m) (st f)"
  unfolding simulates_def
proof
  fix w
  obtain r w' where m: "m w = (r, w')" by fastforce
  show "apsnd view (st m w) = st f (view w)"
    using simulatesD [OF assms m] m by (cases r) (simp_all add: st_def map_err_def)
qed

lemma simulates_if [simulates_rules]:
  "simulates view m f \<Longrightarrow> simulates view k g \<Longrightarrow> simulates view (if b then m else k) (if b then f else g)"
  by simp

lemma simulates_case_option [simulates_rules]:
  "(\<And>x. simulates view (m x) (f x)) \<Longrightarrow> simulates view k g \<Longrightarrow>
   simulates view (case z of None \<Rightarrow> k | Some x \<Rightarrow> m x) (case z of None \<Rightarrow> g | Some x \<Rightarrow> f x)"
  by (cases z) auto

lemma simulates_case_thread [simulates_rules]:
  "(\<And>x. simulates view (m x) (f x)) \<Longrightarrow> (\<And>x. simulates view (k x) (g x)) \<Longrightarrow>
   simulates view (case t of ContactThread x \<Rightarrow> m x | GroupThread x \<Rightarrow> k x)
     (case t of ContactThread x \<Rightarrow> f x | GroupThread x \<Rightarrow> g x)"
  by (cases t) auto

section \<open>The reference store\<close>

record desk =
  dk_contacts :: "uuid \<Rightarrow> contact option"
  dk_contact_flags :: "uuid \<Rightarrow> bool"
  dk_groups :: "key32 \<Rightarrow> group option"
  dk_group_flags :: "key32 \<Rightarrow> bool"
  dk_account :: account_chat_state
  dk_account_flag :: bool
  dk_messages :: "thread \<Rightarrow> u64 \<Rightarrow> content option"

text \<open>A row is stored under its own id.\<close>

definition desk_contact :: "uuid \<Rightarrow> desk \<Rightarrow> contact option" where
  "desk_contact u d =
     (case dk_contacts d u of Some c \<Rightarrow> if c_uuid c = u then Some c else None | None \<Rightarrow> None)"

definition desk_store :: "(desk, 'e) store_ops" where
  "desk_store =
     \<lparr>fetch_storage_manifest_version = ok 0, store_storage_manifest_version = (\<lambda>_. ok ()),
      fetch_storage_sync_cursor = ok None, store_storage_sync_cursor = (\<lambda>_. ok ()),
      clear_storage_sync_cursor = ok (),
      contact_by_id = (\<lambda>sid d. (Inr (desk_contact (raw_uuid sid) d), d)),
      stored_contacts = ok [],
      save_contact = (\<lambda>c d. (Inr (), d\<lparr>dk_contacts := (dk_contacts d)(c_uuid c \<mapsto> c)\<rparr>)),
      contact_storage_identity = (\<lambda>_. ok None), save_contact_storage_identity = (\<lambda>_ _. ok ()),
      set_contact_needs_storage_sync = (\<lambda>sid b d.
        (Inr (), d\<lparr>dk_contact_flags := (dk_contact_flags d)(raw_uuid sid := b)\<rparr>)),
      contacts_needing_storage_sync = ok [],
      load_group = (\<lambda>mk d. (Inr (dk_groups d mk), d)),
      save_group = (\<lambda>mk g d. (Inr (), d\<lparr>dk_groups := (dk_groups d)(mk \<mapsto> g)\<rparr>)),
      stored_groups = ok [], group_storage_identity = (\<lambda>_. ok None),
      save_group_storage_identity = (\<lambda>_ _. ok ()),
      set_group_needs_storage_sync = (\<lambda>mk b d.
        (Inr (), d\<lparr>dk_group_flags := (dk_group_flags d)(mk := b)\<rparr>)),
      groups_needing_storage_sync = ok [],
      stored_chat_folders = ok [], load_chat_folder = (\<lambda>_. ok None), store_chat_folder = (\<lambda>_. ok ()),
      drop_chat_folder = (\<lambda>_. ok ()), chat_folder_storage_identity = (\<lambda>_. ok None),
      save_chat_folder_storage_identity = (\<lambda>_ _. ok ()),
      clear_chat_folder_storage_identity = (\<lambda>_. ok ()),
      set_chat_folder_needs_storage_sync = (\<lambda>_ _. ok ()), chat_folders_needing_storage_sync = ok [],
      account_chat_state_op = (\<lambda>d. (Inr (dk_account d), d)),
      save_account_chat_state = (\<lambda>s d. (Inr (), d\<lparr>dk_account := s\<rparr>)),
      account_storage_identity = ok None, save_account_storage_identity = (\<lambda>_. ok ()),
      set_account_needs_storage_sync = (\<lambda>b d. (Inr (), d\<lparr>dk_account_flag := b\<rparr>)),
      account_needs_storage_sync = (\<lambda>d. (Inr (dk_account_flag d), d)),
      sticker_pack_record_state_op = (\<lambda>_. ok None), sticker_pack_storage_identity = (\<lambda>_. ok None),
      save_sticker_pack_storage_identity = (\<lambda>_ _. ok ()),
      set_sticker_pack_needs_storage_sync = (\<lambda>_ _. ok ()), sticker_packs_needing_storage_sync = ok [],
      stored_sticker_pack = (\<lambda>_. ok None), store_sticker_pack = (\<lambda>_. ok ()),
      pending_sticker_packs = ok [], note_installed_sticker_pack = (\<lambda>_ _ _. ok ()),
      remove_sticker_pack = (\<lambda>_. ok False), stored_sticker_packs = ok [],
      store_message = (\<lambda>t c d. (Inr (), d\<lparr>dk_messages := (dk_messages d)
        (t := (dk_messages d t)(md_client_timestamp (ct_metadata c) \<mapsto> c))\<rparr>)),
      load_message = (\<lambda>t ts d. (Inr (dk_messages d t ts), d)),
      drop_message = (\<lambda>_ _. ok False), thread_of_message = (\<lambda>_ _. ok None),
      get_call_history = (\<lambda>_. ok None), save_call_history = (\<lambda>_. ok ()),
      stored_profile_key = (\<lambda>_. ok None), upsert_profile_key = (\<lambda>_ _. ok False)\<rparr>"

text \<open>The manager on the reference store; only the account's id and the codec matter to what is shown here.\<close>

definition desk_account :: "codec \<Rightarrow> (desk, 'e) account_env" where
  "desk_account C =
     \<lparr>ae_store = desk_store, ae_master_key = ok None, ae_open = ok (), ae_manifest = err UnknownGroup,
      ae_manifest_if_changed = (\<lambda>v. ok None), ae_read_items = (\<lambda>_ _. ok []),
      ae_write_items = (\<lambda>_ _ _. ok ()), ae_random16 = (\<lambda>w. ([], w)), ae_now_ms = (\<lambda>w. (0, w)),
      ae_sleep = (\<lambda>_ w. w), ae_new_sender = ok (), ae_send_fetch_latest = ok (), ae_sync = ok (),
      ae_device = 1, ae_codec = C, ae_contact_codec = sample_contact_codec,
      ae_encode_contact = (\<lambda>_. []), ae_encode_group = (\<lambda>_. []), ae_encode_sticker = (\<lambda>_. []),
      ae_encode_folder = (\<lambda>_. []), ae_decode_sticker = (\<lambda>_. None)\<rparr>"

definition desk_env :: "uuid \<Rightarrow> codec \<Rightarrow> call_codec \<Rightarrow> (desk, 'e) message_env" where
  "desk_env self C K =
     \<lparr>mv_account = desk_account C, mv_self = self, mv_device = 1, mv_profile_key = sample_key32 0,
      mv_call_codec = K, mv_group_by_group_id = (\<lambda>_. ok None), mv_parse_dest = (\<lambda>_. None),
      mv_spawn = (\<lambda>_ d. d), mv_retrieve_name = (\<lambda>_ _. ok None), mv_upsert_group = (\<lambda>_ _. ok None),
      mv_groups_manager = ok (), mv_websocket = ok (), mv_unidentified_websocket = ok (),
      mv_cached_certificate = (\<lambda>d. (None, d)), mv_cache_certificate = (\<lambda>_ d. d),
      mv_fetch_certificate = ok [], mv_save_certificate = (\<lambda>_. ok ()), mv_expiration = (\<lambda>_. None),
      mv_access_key = key32_bytes, mv_send = (\<lambda>_ _ _ _. ok ()),
      mv_send_group = (\<lambda>rs _ _ d. (map (\<lambda>_. Inr ()) rs, d)), mv_send_sync = (\<lambda>_. ok ()),
      mv_sticker_manifest = (\<lambda>_ _. err UnknownGroup), mv_sub_device_sessions = ok []\<rparr>"

definition desk_call_codec :: call_codec where
  "desk_call_codec =
     \<lparr>type_try_from = (\<lambda>_. None), direction_try_from = (\<lambda>_. None), event_try_from = (\<lambda>_. None),
      sha256 = id, uuid_to_string = map byte_char \<circ> uuid_bytes, hex_encode = map byte_char\<rparr>"

definition desk_empty :: desk where
  "desk_empty =
     \<lparr>dk_contacts = (\<lambda>_. None), dk_contact_flags = (\<lambda>_. False), dk_groups = (\<lambda>_. None),
      dk_group_flags = (\<lambda>_. False), dk_account = account_chat_state_default, dk_account_flag = False,
      dk_messages = (\<lambda>_ _. None)\<rparr>"

lemma desk_env_sel [simp]:
  "mv_account (desk_env self C K) = desk_account C" "mv_self (desk_env self C K) = self"
  "ae_store (desk_account C) = desk_store" "ae_codec (desk_account C) = C"
  "mv_spawn (desk_env self C K) = (\<lambda>_ d. d)"
  by (simp_all add: desk_env_def desk_account_def)

lemma desk_store_sel [simp]:
  "contact_by_id desk_store sid = (\<lambda>d. (Inr (desk_contact (raw_uuid sid) d), d))"
  "save_contact desk_store c = (\<lambda>d. (Inr (), d\<lparr>dk_contacts := (dk_contacts d)(c_uuid c \<mapsto> c)\<rparr>))"
  "set_contact_needs_storage_sync desk_store sid b =
    (\<lambda>d. (Inr (), d\<lparr>dk_contact_flags := (dk_contact_flags d)(raw_uuid sid := b)\<rparr>))"
  "load_group desk_store mk = (\<lambda>d. (Inr (dk_groups d mk), d))"
  "save_group desk_store mk g = (\<lambda>d. (Inr (), d\<lparr>dk_groups := (dk_groups d)(mk \<mapsto> g)\<rparr>))"
  "set_group_needs_storage_sync desk_store mk b =
    (\<lambda>d. (Inr (), d\<lparr>dk_group_flags := (dk_group_flags d)(mk := b)\<rparr>))"
  "account_chat_state_op desk_store = (\<lambda>d. (Inr (dk_account d), d))"
  "save_account_chat_state desk_store s = (\<lambda>d. (Inr (), d\<lparr>dk_account := s\<rparr>))"
  "set_account_needs_storage_sync desk_store b = (\<lambda>d. (Inr (), d\<lparr>dk_account_flag := b\<rparr>))"
  "store_message desk_store t m = (\<lambda>d. (Inr (), d\<lparr>dk_messages := (dk_messages d)
     (t := (dk_messages d t)(md_client_timestamp (ct_metadata m) \<mapsto> m))\<rparr>))"
  "load_message desk_store t ts = (\<lambda>d. (Inr (dk_messages d t ts), d))"
  by (simp_all add: desk_store_def)

section \<open>Refining the reference store\<close>

definition refines_desk :: "('w, 'e) message_env \<Rightarrow> ('w \<Rightarrow> desk) \<Rightarrow> bool" where
  "refines_desk M view \<longleftrightarrow>
     (\<forall>sid. simulates view (contact_by_id (mv_store M) sid) (contact_by_id desk_store sid)) \<and>
     (\<forall>c. simulates view (save_contact (mv_store M) c) (save_contact desk_store c)) \<and>
     (\<forall>sid b. simulates view (set_contact_needs_storage_sync (mv_store M) sid b)
        (set_contact_needs_storage_sync desk_store sid b)) \<and>
     (\<forall>mk. simulates view (load_group (mv_store M) mk) (load_group desk_store mk)) \<and>
     (\<forall>mk g. simulates view (save_group (mv_store M) mk g) (save_group desk_store mk g)) \<and>
     (\<forall>mk b. simulates view (set_group_needs_storage_sync (mv_store M) mk b)
        (set_group_needs_storage_sync desk_store mk b)) \<and>
     simulates view (account_chat_state_op (mv_store M)) (account_chat_state_op desk_store) \<and>
     (\<forall>s. simulates view (save_account_chat_state (mv_store M) s) (save_account_chat_state desk_store s)) \<and>
     (\<forall>b. simulates view (set_account_needs_storage_sync (mv_store M) b)
        (set_account_needs_storage_sync desk_store b)) \<and>
     (\<forall>t c. simulates view (store_message (mv_store M) t c) (store_message desk_store t c)) \<and>
     (\<forall>t ts. simulates view (load_message (mv_store M) t ts) (load_message desk_store t ts)) \<and>
     (\<forall>task w. view (mv_spawn M task w) = view w)"

lemma refines_deskD:
  assumes "refines_desk M view"
  shows "simulates view (contact_by_id (mv_store M) sid) (contact_by_id desk_store sid)"
    "simulates view (save_contact (mv_store M) c) (save_contact desk_store c)"
    "simulates view (set_contact_needs_storage_sync (mv_store M) sid b)
       (set_contact_needs_storage_sync desk_store sid b)"
    "simulates view (load_group (mv_store M) mk) (load_group desk_store mk)"
    "simulates view (save_group (mv_store M) mk g) (save_group desk_store mk g)"
    "simulates view (set_group_needs_storage_sync (mv_store M) mk b)
       (set_group_needs_storage_sync desk_store mk b)"
    "simulates view (account_chat_state_op (mv_store M)) (account_chat_state_op desk_store)"
    "simulates view (save_account_chat_state (mv_store M) s) (save_account_chat_state desk_store s)"
    "simulates view (set_account_needs_storage_sync (mv_store M) b)
       (set_account_needs_storage_sync desk_store b)"
    "simulates view (store_message (mv_store M) t m) (store_message desk_store t m)"
    "simulates view (load_message (mv_store M) t ts) (load_message desk_store t ts)"
  using assms unfolding refines_desk_def by blast+

lemma simulates_spawn: "refines_desk M view \<Longrightarrow> simulates view (spawn M task) (ok ())"
  unfolding refines_desk_def simulates_def by (simp add: spawn_def call_def ok_def)

lemma desk_refines_itself: "refines_desk (desk_env self C K) id"
  unfolding refines_desk_def by (simp add: simulates_def apsnd_def map_prod_def split: prod.split)

text \<open>The edits of theory Chat_Edits are simulated by the same edits of the reference store.\<close>

abbreviation desk_of :: "('w, 'e) message_env \<Rightarrow> (desk, 'e) message_env" where
  "desk_of M \<equiv> desk_env (mv_self M) (ae_codec (mv_account M)) (mv_call_codec M)"

lemma is_note_to_self_desk [simp]: "is_note_to_self (desk_env self C K) sid \<longleftrightarrow> sid = Aci self"
  by (simp add: is_note_to_self_def)

lemma simulates_edits:
  assumes "refines_desk M view"
  shows "simulates view (edit_account_for_publish M edit) (edit_account_for_publish (desk_of M) edit)"
    "simulates view (edit_group_for_publish M mk edit_g) (edit_group_for_publish (desk_of M) mk edit_g)"
    "simulates view (edit_contact_for_publish M sid edit_c) (edit_contact_for_publish (desk_of M) sid edit_c)"
  unfolding edit_account_for_publish_def edit_group_for_publish_def edit_contact_for_publish_def
    stored_group_def Let_def is_note_to_self_def desk_env_sel
  by (intro simulates_rules refines_deskD [OF assms])+

lemma simulates_chat_edits:
  assumes "refines_desk M view"
  shows "simulates view (set_muted_until M t ms) (set_muted_until (desk_of M) t ms)"
    "simulates view (set_archived M t b) (set_archived (desk_of M) t b)"
    "simulates view (is_archived M t) (is_archived (desk_of M) t)"
    "simulates view (set_pinned M t b) (set_pinned (desk_of M) t b)"
proof -
  show m: "simulates view (set_muted_until M t ms) (set_muted_until (desk_of M) t ms)"
    unfolding set_muted_until_def by (intro simulates_rules simulates_edits [OF assms])
  show a: "simulates view (set_archived M t b) (set_archived (desk_of M) t b)" for b
    unfolding set_archived_def is_note_to_self_def desk_env_sel
    by (intro simulates_rules simulates_edits [OF assms])
  show i: "simulates view (is_archived M t) (is_archived (desk_of M) t)"
    unfolding is_archived_def is_note_to_self_def desk_env_sel
    by (intro simulates_rules refines_deskD [OF assms])
  show "simulates view (set_pinned M t b) (set_pinned (desk_of M) t b)"
    unfolding set_pinned_def Let_def desk_env_sel
    by (intro simulates_rules simulates_edits [OF assms] a i)
qed

end
