(* ===== verification/Stream_Keys.thy ===== *)
theory Stream_Keys
  imports Receive_Laws Devices_Laws Sqlite_Onboarding Desk
begin

text \<open>
  The keys of the account while messages are received: what a manager starts with on the SQLite store, and
  what the stream makes of the keys the primary device sends.
\<close>

section \<open>The keys of the stream\<close>

text \<open>The master key belongs to the pool.\<close>

definition keys_match :: "(string \<Rightarrow> bytes) \<Rightarrow> receive_state \<Rightarrow> bool" where
  "keys_match derive rs \<longleftrightarrow>
     (\<forall>aep. rs_account_entropy_pool rs = Some aep \<longrightarrow> rs_master_key rs = Some (derive aep))"

text \<open>What every content of a stream may do to its keys.\<close>

definition keys_step :: "('w, 'e) receive_env \<Rightarrow> receive_state \<Rightarrow> receive_state \<Rightarrow> bool" where
  "keys_step R rs rs' \<longleftrightarrow>
     (keys_match (re_derive_master R) rs \<longrightarrow> keys_match (re_derive_master R) rs') \<and>
     (re_registration_type R = Primary \<longrightarrow> rs' = rs) \<and>
     (rs_account_entropy_pool rs \<noteq> None \<longrightarrow> rs_account_entropy_pool rs' \<noteq> None)"

lemma keys_step_refl [simp]: "keys_step R rs rs"
  by (simp add: keys_step_def)

lemma keys_step_trans: "keys_step R a b \<Longrightarrow> keys_step R b c \<Longrightarrow> keys_step R a c"
  by (simp add: keys_step_def)

lemma receive_keys_step: "keys_step R (fst s) (fst (receive_keys R pool s))"
  by (cases s) (auto simp: receive_keys_def keys_step_def keys_match_def Let_def split: option.splits prod.splits)

lemma answer_request_keys [simp]: "fst (answer_request R c req s) = fst s"
  by (cases s) (auto simp: answer_request_def Let_def split: request_type.split prod.split)

lemma deliver_keys [simp]: "fst (snd (deliver R c s)) = fst s"
  by (simp add: deliver_def Let_def split: prod.split)

lemma handle_content_keys: "keys_step R (fst s) (fst (snd (handle_content R c s)))"
proof (cases "ct_body c")
  case (SynchronizeMessage m operations)
  show ?thesis
  proof (cases m)
    case None
    then show ?thesis by (simp add: handle_content_def SynchronizeMessage Let_def)
  next
    case (Some x)
    then show ?thesis
      using receive_keys_step [of R "(fst s, fold (apply_sticker_operation R) operations (snd s))"]
      by (cases x) (simp_all add: handle_content_def SynchronizeMessage Let_def)
  qed
qed (simp_all add: handle_content_def)

lemma effect_keys: "keys_step R (fst s) (fst (effect_of R ev s))"
proof (cases ev)
  case (IncomingEnvelope env)
  show ?thesis
  proof (cases "envelope_cipher R env")
    case None
    then show ?thesis by (simp add: effect_of_def IncomingEnvelope handle_envelope_def)
  next
    case (Some cipher)
    obtain opened w1 where o: "re_open R cipher env (snd s) = (opened, w1)" by fastforce
    show ?thesis
    proof (cases "\<exists>c. opened = Inr (Some c)")
      case True
      then obtain c where c: "opened = Inr (Some c)" by blast
      show ?thesis
        using handle_content_keys [of R "(fst s, w1)" c]
        by (simp add: effect_of_def IncomingEnvelope handle_envelope_def Some o c Let_def case_prod_unfold)
    next
      case False
      then show ?thesis
        by (auto simp: effect_of_def IncomingEnvelope handle_envelope_def Some o Let_def split: sum.split option.split)
    qed
  qed
qed (cases s; simp add: effect_of_def handle_queue_empty_def)+

lemma stream_keys_step: "keys_step R (fst s) (fst (snd (reference_stream R evs s)))"
proof (induction evs arbitrary: s)
  case (Cons ev evs)
  show ?case
    using keys_step_trans [OF effect_keys [of R s ev] Cons.IH [of "effect_of R ev s"]]
    by (simp add: case_prod_unfold Let_def)
qed simp

text \<open>C32. The keys a stream hands out stay in step. If the master key it starts with belongs to the account
  entropy pool it starts with, that holds after any sequence of events: a linked device that is sent
  a new pool derives the master key from it, one that is sent an unreadable pool or none keeps what
  it has, and a pool once held is never given up. A primary device keeps its keys whatever it is sent.\<close>

theorem stream_keys_agree:
  "case receive_all R evs (rs, w) of (received, rs', w') \<Rightarrow>
     (keys_match (re_derive_master R) rs \<longrightarrow> keys_match (re_derive_master R) rs') \<and>
     (re_registration_type R = Primary \<longrightarrow> rs' = rs) \<and>
     (rs_account_entropy_pool rs \<noteq> None \<longrightarrow> rs_account_entropy_pool rs' \<noteq> None)"
  using stream_keys_step [of R "(rs, w)" evs] by (simp add: receive_all_reference keys_step_def case_prod_unfold)

section \<open>The keys a manager starts with\<close>

text \<open>
  A store that has no master key, or the one of its pool, hands out keys that match: what linking stores
  (\<open>linked_keys_are_found\<close>) and what a primary device generates are such keys.
\<close>

lemma pool_twice:
  assumes "kv_codec_ok (sc_pool C)"
    and run: "account_entropy_pool (sqlite_state_store C) generate d db = (Inr p, db1)"
  shows "account_entropy_pool (sqlite_state_store C) generate d db1 = (Inr p, db1)"
proof (cases "fst (kv_fetch (sc_pool C) ''account_entropy_pool'' (pr_content db)) = Inr None \<and> registration_type_of d = Primary")
  case True
  obtain k w where g: "generate db = (k, w)" by fastforce
  let ?db1 = "w\<lparr>pr_content := snd (kv_store (sc_pool C) ''account_entropy_pool'' (Some k) (pr_content w))\<rparr>"
  have "account_entropy_pool (sqlite_state_store C) generate d db = (Inr (Some k), ?db1)"
    using True kv_store_fetch [OF assms(1), of "''account_entropy_pool''" "Some k" "pr_content w"]
    by (simp add: account_entropy_pool_def sqlite_state_fields on_content_fetch io_simps g)
      (simp add: on_content_def case_prod_unfold ok_def)
  with run have "p = Some k" "db1 = ?db1" by auto
  then show ?thesis
    using kv_store_fetch [OF assms(1), of "''account_entropy_pool''" "Some k" "pr_content w"]
    by (simp add: account_entropy_pool_def sqlite_state_fields on_content_fetch io_simps)
next
  case False
  with run show ?thesis
    by (auto simp: account_entropy_pool_def sqlite_state_fields on_content_fetch io_simps
        split: sum.splits option.splits if_splits)
qed

lemma started_keys_match:
  assumes "kv_codec_ok (sc_pool C)"
    and stored: "fst (kv_fetch (sc_master_key C) ''master_key'' (pr_content db)) = Inr None \<or>
      (\<exists>p. fst (kv_fetch (sc_pool C) ''account_entropy_pool'' (pr_content db)) = Inr (Some p) \<and>
           fst (kv_fetch (sc_master_key C) ''master_key'' (pr_content db)) = Inr (Some (derive p)))"
    and run: "master_key (sqlite_state_store C) generate derive d db = (Inr m, db1)"
      "account_entropy_pool (sqlite_state_store C) generate d db1 = (Inr p, db2)"
  shows "keys_match derive \<lparr>rs_master_key = m, rs_account_entropy_pool = p\<rparr>"
  using stored
proof
  assume "fst (kv_fetch (sc_master_key C) ''master_key'' (pr_content db)) = Inr None"
  with run(1) obtain q where q: "account_entropy_pool (sqlite_state_store C) generate d db = (Inr q, db1)" "m = map_option derive q"
    by (auto simp: master_key_def sqlite_state_fields on_content_fetch io_simps split: prod.splits sum.splits)
  from pool_twice [OF assms(1) q(1)] run(2) q(2) show ?thesis by (simp add: keys_match_def)
next
  assume "\<exists>p. fst (kv_fetch (sc_pool C) ''account_entropy_pool'' (pr_content db)) = Inr (Some p) \<and>
      fst (kv_fetch (sc_master_key C) ''master_key'' (pr_content db)) = Inr (Some (derive p))"
  with run show ?thesis
    by (auto simp: master_key_def account_entropy_pool_def sqlite_state_fields on_content_fetch io_simps keys_match_def)
qed

section \<open>A sample\<close>

text \<open>A linked device that is sent a pool by its primary.\<close>

definition keys_content :: content where
  "keys_content =
     \<lparr>ct_metadata = \<lparr>md_sender = Aci (sample_uuid 1), md_destination = Aci (sample_uuid 1), md_sender_device = 1,
        md_client_timestamp = 5, md_server_timestamp = 5, md_needs_receipt = False, md_unidentified_sender = False,
        md_server_guid = None, md_was_plaintext = False, md_report_spam_token = None, md_pni_verified = None\<rparr>,
      ct_body = SynchronizeMessage (Some (SyncKeys (Some ''pool''))) []\<rparr>"

definition keyless_env :: "(desk, unit) receive_env" where
  "keyless_env =
     \<lparr>re_messages = desk_env (sample_uuid 1) sample_codec desk_call_codec, re_pni = sample_uuid 2,
      re_registration_type = Secondary, re_open = (\<lambda>_ _. ok (Some keys_content)), re_parse_pool = Some,
      re_derive_master = text_bytes, re_store_pool = (\<lambda>_. ok ()), re_store_master_key = (\<lambda>_. ok ()),
      re_device_id = (\<lambda>_. None)\<rparr>"

definition keys_envelope :: envelope where
  "keys_envelope =
     \<lparr>env_type = Envelope_DoubleRatchet, env_client_timestamp = 5, env_destination = Some (Aci (sample_uuid 1)),
      env_source = Some (Aci (sample_uuid 1)), env_source_device = 1, env_content = None\<rparr>"

lemma stream_keys_agree_witness:
  "case receive_all keyless_env [IncomingEnvelope keys_envelope, IncomingQueueEmpty :: unit incoming]
     (\<lparr>rs_master_key = None, rs_account_entropy_pool = None\<rparr>, desk_empty) of
     (received, rs', w') \<Rightarrow> keys_match text_bytes rs'"
proof -
  have derive: "re_derive_master keyless_env = text_bytes" by (simp add: keyless_env_def)
  have "keys_match text_bytes \<lparr>rs_master_key = None, rs_account_entropy_pool = None\<rparr>"
    by (simp add: keys_match_def)
  with stream_keys_agree [of keyless_env "\<lparr>rs_master_key = None, rs_account_entropy_pool = None\<rparr>"
      "[IncomingEnvelope keys_envelope, IncomingQueueEmpty :: unit incoming]" desk_empty]
  show ?thesis by (simp add: derive case_prod_unfold)
qed

end
