(* ===== verification/Download_Laws.thy ===== *)
theory Download_Laws
  imports Downloads Sample_Codec
begin

text \<open>
  Laws of theory Downloads: what a download reports while it runs, and what its caller can rely on when it
  returns.
\<close>

section \<open>Reads\<close>

text \<open>The reference reading: the buffers up to the first empty one, or the first error before it.\<close>

fun body_of :: "(string + bytes) list \<Rightarrow> string + bytes" where
  "body_of [] = Inr []"
| "body_of (Inl e # reads) = Inl e"
| "body_of (Inr buffer # reads) = (if buffer = [] then Inr [] else res_map ((@) buffer) (body_of reads))"

fun received_lengths :: "nat \<Rightarrow> (string + bytes) list \<Rightarrow> nat list" where
  "received_lengths n [] = []"
| "received_lengths n (Inl e # reads) = []"
| "received_lengths n (Inr buffer # reads) =
     (if buffer = [] then [] else (n + length buffer) # received_lengths (n + length buffer) reads)"

fun progress_downloaded :: "attachment_progress \<Rightarrow> u64" where
  "progress_downloaded (AttachmentDownloading d t) = d"
| "progress_downloaded (AttachmentProcessing d t) = d"

fun progress_total :: "attachment_progress \<Rightarrow> u64 option" where
  "progress_total (AttachmentDownloading d t) = t"
| "progress_total (AttachmentProcessing d t) = t"

definition is_processing :: "attachment_progress \<Rightarrow> bool" where
  "is_processing p \<longleftrightarrow> (case p of AttachmentProcessing _ _ \<Rightarrow> True | _ \<Rightarrow> False)"

lemma is_processing_simps [simp]:
  "is_processing (AttachmentProcessing d t)" "\<not> is_processing (AttachmentDownloading d t)"
  by (simp_all add: is_processing_def)

lemma read_loop_body: "fst (read_loop reads ciphertext n t) = res_map ((@) ciphertext) (body_of reads)"
  by (induction reads ciphertext n t rule: read_loop.induct)
    (auto simp: Let_def res_map_def case_prod_unfold split: sum.splits)

lemma received_lengths_shift: "received_lengths n reads = map ((+) n) (received_lengths 0 reads)"
proof (induction reads arbitrary: n)
  case (Cons r reads)
  show ?case
  proof (cases r)
    case (Inr b)
    have "received_lengths (n + length b) reads = map ((+) (n + length b)) (received_lengths 0 reads)"
      "received_lengths (length b) reads = map ((+) (length b)) (received_lengths 0 reads)"
      by (rule Cons.IH)+
    with Inr show ?thesis by (simp add: comp_def add.assoc)
  qed simp
qed simp

lemma sorted_received_lengths: "sorted_wrt (<) (n # received_lengths n reads)"
proof (induction reads arbitrary: n)
  case (Cons r reads)
  then show ?case
    by (cases r) (fastforce dest: spec)+
qed simp

fun reads_length :: "(string + bytes) list \<Rightarrow> nat" where
  "reads_length [] = 0"
| "reads_length (Inl e # reads) = reads_length reads"
| "reads_length (Inr buffer # reads) = length buffer + reads_length reads"

text \<open>The total as it is shown beside a count: the announced one until the count exceeds it.\<close>

definition shown_total :: "u64 option \<Rightarrow> u64 \<Rightarrow> u64 option" where
  "shown_total t d = Option.bind t (\<lambda>x. if d \<le> x then Some x else None)"

lemma unat_u64: "n < 2 ^ 64 \<Longrightarrow> unat (of_nat n :: u64) = n"
  by (simp add: unat_of_nat take_bit_nat_eq_self)

lemma unat_u64_add: "n + k < 2 ^ 64 \<Longrightarrow> unat (of_nat n + of_nat k :: u64) = n + k"
  using unat_u64 [of "n + k"] by simp

lemma read_loop_counts:
  assumes "n + reads_length reads < 2 ^ 64"
  shows "map (unat \<circ> progress_downloaded) (snd (read_loop reads ciphertext (of_nat n) t)) =
      received_lengths n reads @ (case body_of reads of Inl _ \<Rightarrow> [] | Inr body \<Rightarrow> [n + length body])"
    "map is_processing (snd (read_loop reads ciphertext (of_nat n) t)) =
      map (\<lambda>_. False) (received_lengths n reads) @ (case body_of reads of Inl _ \<Rightarrow> [] | Inr body \<Rightarrow> [True])"
  using assms
proof (induction reads arbitrary: ciphertext n t)
  case Nil
  {
    case 1
    then show ?case by (simp add: unat_u64)
  next
    case 2
    then show ?case by simp
  }
next
  case (Cons r reads)
  {
    case 1
    then show ?case
      using Cons.IH(1) [of "n + length (projr r)"]
      by (cases r) (auto simp: Let_def case_prod_unfold unat_u64 unat_u64_add res_map_def add.assoc split: sum.splits)
  next
    case 2
    then show ?case
      using Cons.IH(2) [of "n + length (projr r)"]
      by (cases r) (auto simp: Let_def case_prod_unfold res_map_def split: sum.splits)
  }
qed

lemma shown_total_step:
  assumes "n + k < 2 ^ 64"
  shows "(case shown_total t (of_nat n) of
      Some x \<Rightarrow> if of_nat n + of_nat k > x then None else Some x | None \<Rightarrow> None) =
    shown_total t (of_nat n + of_nat k)"
proof -
  have "unat (of_nat n + of_nat k :: u64) = n + k" "unat (of_nat n :: u64) = n"
    using assms unat_u64 [of "n + k"] unat_u64 [of n] by simp_all
  then show ?thesis
    by (cases t) (auto simp: shown_total_def word_le_nat_alt word_less_nat_alt)
qed

lemma read_loop_totals:
  assumes "n + reads_length reads < 2 ^ 64" "p \<in> set (snd (read_loop reads ciphertext (of_nat n) (shown_total t (of_nat n))))"
  shows "progress_total p = shown_total t (progress_downloaded p)"
  using assms
proof (induction reads arbitrary: ciphertext n)
  case (Cons r reads)
  show ?case
  proof (cases r)
    case (Inr buffer)
    have small: "n + length buffer < 2 ^ 64" using Cons.prems(1) Inr by simp
    have len: "(n + length buffer) + reads_length reads < 2 ^ 64" using Cons.prems(1) Inr by simp
    from Cons.prems(2) consider
        "buffer = []" "p = AttachmentProcessing (of_nat n) (shown_total t (of_nat n))"
      | "p = AttachmentDownloading (of_nat n + of_nat (length buffer)) (shown_total t (of_nat n + of_nat (length buffer)))"
      | "p \<in> set (snd (read_loop reads (ciphertext @ buffer) (of_nat (n + length buffer))
          (shown_total t (of_nat (n + length buffer)))))"
      by (auto simp: Inr Let_def case_prod_unfold shown_total_step [OF small] split: if_splits)
    then show ?thesis using Cons.IH [OF len] by cases auto
  qed (use Cons.prems in simp)
qed simp

text \<open>C34. A download is what was read and its progress is true. The bytes returned are the buffers up to
  the end of the stream, and a read that fails fails the download. Progress starts at zero, grows
  with every read by exactly its bytes, strictly, and only a complete body is announced as being
  processed, last and with its length; the total shown is the announced one, for as long as no
  more than that was received.\<close>

theorem download_progress:
  assumes "reads_length reads < 2 ^ 64"
  shows "case read_attachment_with_progress reads announced of (r, ps) \<Rightarrow>
    r = body_of reads \<and>
    map (unat \<circ> progress_downloaded) ps =
      0 # received_lengths 0 reads @ (case body_of reads of Inl _ \<Rightarrow> [] | Inr body \<Rightarrow> [length body]) \<and>
    sorted_wrt (<) (0 # received_lengths 0 reads) \<and>
    map is_processing ps = map (\<lambda>_. False) (0 # received_lengths 0 reads) @
      (case body_of reads of Inl _ \<Rightarrow> [] | Inr _ \<Rightarrow> [True]) \<and>
    (\<forall>p\<in>set ps. progress_total p = shown_total announced (progress_downloaded p))"
proof -
  have start: "shown_total announced 0 = announced" by (cases announced) (simp_all add: shown_total_def)
  have body: "res_map ((@) []) (body_of reads) = body_of reads" by (simp add: res_map_def split: sum.split)
  show ?thesis
    using read_loop_body [of reads "[]" 0 announced] read_loop_counts [of 0 reads "[]" announced]
      read_loop_totals [of 0 reads _ "[]" announced] sorted_received_lengths [of 0 reads] assms
    by (cases "body_of reads") (simp_all add: read_attachment_with_progress_def case_prod_unfold start body)
qed

section \<open>What an attachment has passed\<close>

text \<open>C33. An attachment that is returned was checked. Its ciphertext was read to the end, has the digest of the
  pointer if that names one, opened under the pointer's key of 64 bytes, and what is returned is the
  plaintext, cut to the size the pointer gives, never more; a wrong digest is reported before the
  key is looked at, and a failed read before either.\<close>

theorem attachment_is_checked:
  assumes "dl_get_attachment E p w = (Inr (reads, announced), w1)"
  shows "fst (get_attachment_with_progress E p w) =
    (case body_of reads of
       Inl e \<Rightarrow> Inl (IoError e)
     | Inr ciphertext \<Rightarrow>
         if \<exists>d. ap_digest p = Some d \<and> dl_sha256 E ciphertext \<noteq> d then Inl UnexpectedAttachmentChecksum
         else if length (opt_or [] (ap_key p)) \<noteq> 64 then Inl TryFromSliceError
         else case dl_decrypt E (opt_or [] (ap_key p)) ciphertext of
           Inl e \<Rightarrow> Inl (AttachmentCipherError e)
         | Inr plain \<Rightarrow> Inr (case ap_size p of None \<Rightarrow> plain | Some len \<Rightarrow> take (unat len) plain)) \<and>
    fst (get_attachment E p w) = fst (get_attachment_with_progress E p w)"
proof -
  have body: "fst (read_attachment_with_progress reads announced) = body_of reads"
    by (simp add: read_attachment_with_progress_def case_prod_unfold read_loop_body res_map_def split: sum.split)
  have run: "fst (get_attachment_with_progress F p w) =
      (case body_of reads of Inl e \<Rightarrow> Inl (IoError e) | Inr ciphertext \<Rightarrow> open_attachment F p ciphertext)"
    if "dl_get_attachment F p w = (Inr (reads, announced), w1)" for F
    using that body
    by (auto simp: get_attachment_with_progress_def io_simps report_progress_def Let_def case_prod_unfold
        split: sum.split)
  have opened: "open_attachment E p ciphertext =
      (if \<exists>d. ap_digest p = Some d \<and> dl_sha256 E ciphertext \<noteq> d then Inl UnexpectedAttachmentChecksum
       else if length (opt_or [] (ap_key p)) \<noteq> 64 then Inl TryFromSliceError
       else case dl_decrypt E (opt_or [] (ap_key p)) ciphertext of
         Inl e \<Rightarrow> Inl (AttachmentCipherError e)
       | Inr plain \<Rightarrow> Inr (case ap_size p of None \<Rightarrow> plain | Some len \<Rightarrow> take (unat len) plain))" for ciphertext
    by (auto simp: open_attachment_def Let_def split: option.split sum.split)
  have quiet: "open_attachment (E\<lparr>dl_progress := f\<rparr>) p ciphertext = open_attachment E p ciphertext" for f ciphertext
    by (simp add: open_attachment_def Let_def split: option.split sum.split)
  show ?thesis
    by (simp add: get_attachment_def run assms opened quiet split: sum.split)
qed

section \<open>A sample\<close>

text \<open>Three reads and the end, one byte more than announced; a cipher that strips the first byte.\<close>

definition sample_reads :: "(string + bytes) list" where
  "sample_reads = [Inr [1, 2], Inr [3], Inr []]"

lemma download_progress_witness:
  "read_attachment_with_progress sample_reads (Some 2) =
     (Inr [1, 2, 3], [AttachmentDownloading 0 (Some 2), AttachmentDownloading 2 (Some 2),
        AttachmentDownloading 3 None, AttachmentProcessing 3 None]) \<and>
   (case read_attachment_with_progress sample_reads (Some 2) of (r, ps) \<Rightarrow>
      r = body_of sample_reads \<and> (\<forall>p\<in>set ps. progress_total p = shown_total (Some 2) (progress_downloaded p)))"
proof -
  have len: "reads_length sample_reads < 2 ^ 64" by (simp add: sample_reads_def)
  have "read_attachment_with_progress sample_reads (Some 2) =
     (Inr [1, 2, 3], [AttachmentDownloading 0 (Some 2), AttachmentDownloading 2 (Some 2),
        AttachmentDownloading 3 None, AttachmentProcessing 3 None])"
    by (simp add: sample_reads_def read_attachment_with_progress_def Let_def)
  with download_progress [OF len, of "Some 2"] show ?thesis by (auto simp: case_prod_unfold)
qed

definition sample_pointer :: attachment_pointer where
  "sample_pointer =
     \<lparr>ap_attachment_identifier = None, ap_cdn_number = None, ap_content_type = None, ap_key = Some (replicate 64 7),
      ap_size = Some 1, ap_digest = Some [6], ap_file_name = None, ap_flags = None, ap_width = None, ap_height = None,
      ap_caption = None, ap_blur_hash = None, ap_upload_timestamp = None, ap_incremental_mac = None, ap_chunk_size = None\<rparr>"

definition sample_downloads :: "(attachment_progress list, unit) download_env" where
  "sample_downloads =
     \<lparr>dl_get_attachment = (\<lambda>_. ok (sample_reads, Some 2)), dl_progress = (\<lambda>p ps. ps @ [p]),
      dl_sha256 = (\<lambda>bs. [sum_list bs]), dl_decrypt = (\<lambda>_ bs. if bs = [] then Inl [] else Inr (tl bs)),
      dl_derive_key = Inr, dl_hex = map byte_char, dl_unidentified_websocket = ok (),
      dl_get_sticker = (\<lambda>_ _. ok (Inr [])), dl_get_sticker_manifest = (\<lambda>_. ok (Inr [])), dl_decode_pack = (\<lambda>_. Inl []),
      dl_new_sender = ok (), dl_upload = (\<lambda>_ _. ok sample_pointer)\<rparr>"

lemma attachment_is_checked_witness:
  "fst (get_attachment_with_progress sample_downloads sample_pointer []) = Inr [2]"
  using attachment_is_checked [of sample_downloads sample_pointer "[]" sample_reads "Some 2" "[]"]
  by (simp add: sample_downloads_def sample_pointer_def sample_reads_def ok_def opt_or_def res_map_def)

end
