(* ===== verification/Sqlite_Laws.thy ===== *)
theory Sqlite_Laws
  imports Sqlite_Content Sample_Codec
begin

text \<open>
  What the SQLite store keeps of the trait's promises: the two row contracts of theory Store are
  interpreted on it, and each table's load/save pair is characterised, the failing statements
  and the cascades of the schema included.
\<close>

lemma select_replace:
  "select_one p (replace_row c r rows) =
     (case select_one p (filter (\<lambda>x. \<not> c x) rows) of
        Some x \<Rightarrow> Some x | None \<Rightarrow> if p r then Some r else None)"
  unfolding select_one_def replace_row_def by (induction rows) auto

lemma select_none: "(\<And>x. x \<in> set rows \<Longrightarrow> \<not> p x) \<Longrightarrow> select_one p rows = None"
  by (simp add: select_one_def find_None_iff)

lemma select_replaced:
  assumes "p r" "\<And>x. x \<in> set rows \<Longrightarrow> p x \<Longrightarrow> c x"
  shows "select_one p (replace_row c r rows) = Some r"
proof -
  have "select_one p (filter (\<lambda>x. \<not> c x) rows) = None"
    by (rule select_none) (use assms(2) in auto)
  with assms(1) show ?thesis by (simp add: select_replace)
qed

lemma select_filter:
  "(\<And>x. x \<in> set rows \<Longrightarrow> p x \<Longrightarrow> q x) \<Longrightarrow> select_one p (filter q rows) = select_one p rows"
  unfolding select_one_def by (induction rows) auto

lemma select_kept:
  assumes "\<not> p r" "\<And>x. x \<in> set rows \<Longrightarrow> p x \<Longrightarrow> \<not> c x"
  shows "select_one p (replace_row c r rows) = select_one p rows"
proof -
  have "select_one p (filter (\<lambda>x. \<not> c x) rows) = select_one p rows"
    by (rule select_filter) (use assms(2) in auto)
  with assms(1) show ?thesis by (simp add: select_replace split: option.split)
qed

lemma select_SomeD: "select_one p rows = Some r \<Longrightarrow> r \<in> set rows \<and> p r"
  by (auto simp: select_one_def find_Some_iff)

lemma join_verification_id [simp]: "join_verification db r = r"
  by (simp add: join_verification_def select_none)

section \<open>Contacts\<close>

definition unverified_contact :: "contact \<Rightarrow> bool" where
  "unverified_contact c \<longleftrightarrow>
     v_destination_aci (c_verified c) = None \<or> v_identity_key (c_verified c) = None"

lemma save_contact_unverified:
  "unverified_contact c \<Longrightarrow> sqlite_save_contact E c db =
     (Inr (), db\<lparr>db_contacts :=
        replace_row (\<lambda>x. sq_uuid x = c_uuid c) (contacts_row E c) (db_contacts db)\<rparr>)"
  by (auto simp: sqlite_save_contact_def unverified_contact_def Let_def contacts_row_def
      split: option.split)

lemma contact_by_id_saved:
  assumes "unverified_contact c" "contact_texts_ok E c" "c_uuid c = raw_uuid sid"
    "sqlite_save_contact E c db = (r, db')"
  shows "r = Inr () \<and> sqlite_contact_by_id E sid db' = (Inr (Some (stored_contact c)), db')"
proof -
  have "select_one (\<lambda>r. sq_uuid r = raw_uuid sid)
      (replace_row (\<lambda>x. sq_uuid x = c_uuid c) (contacts_row E c) (db_contacts db)) =
    Some (contacts_row E c)"
    by (rule select_replaced) (use assms(3) in \<open>auto simp: contacts_row_def\<close>)
  then show ?thesis
    using assms by (auto simp: save_contact_unverified sqlite_contact_by_id_def query_sql_def
        contact_of_contacts_row res_map_def)
qed

lemma contact_by_id_other:
  assumes "unverified_contact c" "c_uuid c \<noteq> raw_uuid sid"
    "sqlite_save_contact E c db = (r, db')"
  shows "fst (sqlite_contact_by_id E sid db') = fst (sqlite_contact_by_id E sid db)"
proof -
  have "select_one (\<lambda>r. sq_uuid r = raw_uuid sid)
      (replace_row (\<lambda>x. sq_uuid x = c_uuid c) (contacts_row E c) (db_contacts db)) =
    select_one (\<lambda>r. sq_uuid r = raw_uuid sid) (db_contacts db)"
    by (rule select_kept) (use assms(2) in \<open>auto simp: contacts_row_def\<close>)
  then show ?thesis
    using assms by (auto simp: save_contact_unverified sqlite_contact_by_id_def query_sql_def
        split: option.split)
qed

definition contact_fits :: "sqlite_env \<Rightarrow> service_id \<Rightarrow> contact \<Rightarrow> bool" where
  "contact_fits E sid c \<longleftrightarrow>
     c_uuid c = raw_uuid sid \<and> contact_texts_ok E c \<and> stored_contact c = c"

lemma stored_contact_unverified: "stored_contact c = c \<Longrightarrow> unverified_contact c"
  unfolding unverified_contact_def stored_contact_def
  by (metis (no_types, lifting) contact.select_convs(4) contact.surjective contact.update_convs(4)
      contact.update_convs(9) verified_default_def verified.select_convs(1))

interpretation sq_contact: contact_row "sqlite_store E" sid "\<lambda>_. True" "contact_fits E sid"
  for E sid
proof unfold_locales
  show "snd (contact_by_id (sqlite_store E) sid w) = w" for w
    by (simp add: sqlite_store_def sqlite_contact_by_id_def query_sql_def)
next
  fix w v assume "contact_fits E sid v"
  then have v: "c_uuid v = raw_uuid sid" "contact_texts_ok E v" "stored_contact v = v"
    "unverified_contact v"
    by (auto simp: contact_fits_def stored_contact_unverified)
  show "\<exists>w'. save_contact (sqlite_store E) v w = (Inr (), w') \<and> True \<and>
      contact_by_id (sqlite_store E) sid w' = (Inr (Some v), w')"
    using contact_by_id_saved [OF v(4,2,1)] v(3)
    by (cases "sqlite_save_contact E v w") (auto simp: sqlite_store_def)
next
  fix c v t assume "contact_fits E sid c"
  then show "contact_fits E sid (c\<lparr>c_expire_timer_version := v, c_expire_timer := t\<rparr>)"
    by (cases c) (auto simp: contact_fits_def contact_texts_ok_def stored_contact_def)
qed

section \<open>Call history\<close>

definition call_fits :: "u64 \<Rightarrow> string \<Rightarrow> call_history_entry \<Rightarrow> bool" where
  "call_fits cid peer e \<longleftrightarrow>
     ch_call_id e = cid \<and> ch_peer_id e = peer \<and> ch_timestamp e < 2 ^ 63 \<and>
     (case ch_status e of StatusDirect _ \<Rightarrow> ch_mode e = Mode_Direct | StatusGroup _ \<Rightarrow> ch_mode e = Mode_Group)"

text \<open>\<open>good\<close>: the call id is one peer's, which makes the lookup by call id alone unambiguous.\<close>

definition call_good :: "u64 \<Rightarrow> string \<Rightarrow> sqlite_db \<Rightarrow> bool" where
  "call_good cid peer db \<longleftrightarrow>
     (\<forall>r \<in> set (db_call_history db). cl_call_id r = cid \<longrightarrow> call_fits cid peer (call_of_row r))"

lemma call_of_row_of [simp]:
  assumes "call_fits cid peer e"
  shows "call_of_row (call_row_of e (ch_timestamp e)) = e"
  using assms
  by (cases e; cases "ch_status e")
    (auto simp: call_of_row_def call_row_of_def call_fits_def Let_def u64_of_i64_def i64_of_u64_def
      mode.parse_as_str ctype.parse_as_str dir.parse_as_str dstatus.parse_as_str
      gstatus.parse_as_str simp del: call_mode_as_str.simps)

lemma sqlite_save_call:
  assumes "call_fits cid peer e" "call_good cid peer db"
  shows "\<exists>db'. sqlite_save_call_history e db = (Inr (), db') \<and> call_good cid peer db' \<and>
    sqlite_get_call_history cid db' = (Inr (Some e), db')"
proof -
  let ?r = "call_row_of e (ch_timestamp e)"
  let ?rows = "replace_row (\<lambda>x. cl_call_id x = cl_call_id ?r \<and> cl_peer_id x = cl_peer_id ?r) ?r
    (db_call_history db)"
  have ts: "i64_try_from (ch_timestamp e) = Inr (ch_timestamp e)"
    using assms(1) by (simp add: i64_try_from_def call_fits_def)
  have cid: "cl_call_id ?r = cid" "cl_peer_id ?r = peer"
    using assms(1) by (simp_all add: call_row_of_def call_fits_def i64_of_u64_def)
  have p: "cl_peer_id x = peer" if "x \<in> set (db_call_history db)" "cl_call_id x = cid" for x
    using assms(2) that by (auto simp: call_good_def call_fits_def call_of_row_def Let_def)
  have "select_one (\<lambda>r. cl_call_id r = cid) ?rows = Some ?r"
    by (rule select_replaced) (use cid p in auto)
  moreover have "call_good cid peer (db\<lparr>db_call_history := ?rows\<rparr>)"
    using assms by (auto simp: call_good_def replace_row_def)
  ultimately show ?thesis
    using assms(1) ts
    by (simp add: sqlite_save_call_history_def sqlite_get_call_history_def io_simps execute_sql_def
        query_sql_def Let_def i64_of_u64_def)
qed

interpretation sq_call: call_row "sqlite_store E" cid peer "call_good cid peer" "call_fits cid peer"
  for E cid peer
proof unfold_locales
  show "snd (get_call_history (sqlite_store E) cid w) = w" for w
    by (simp add: sqlite_store_def sqlite_get_call_history_def query_sql_def)
next
  fix w v assume "call_good cid peer w" "call_fits cid peer v"
  from sqlite_save_call [OF this(2,1)]
  show "\<exists>w'. save_call_history (sqlite_store E) v w = (Inr (), w') \<and> call_good cid peer w' \<and>
      get_call_history (sqlite_store E) cid w' = (Inr (Some v), w')"
    by (simp add: sqlite_store_def)
next
  fix info prev e'
  assume "ci_call_id info = cid" "ci_timestamp info < 2 ^ 63" "\<forall>e. prev = Some e \<longrightarrow> call_fits cid peer e"
    "transition_call_history prev info peer = Some e'"
  then show "call_fits cid peer e'"
    by (cases prev) (auto simp: transition_call_history_def transition_direct_def transition_group_def
        merged_entry_def call_fits_def anchored_ts_def opt_or_def split: call_mode.splits)
next
  fix w e w'
  assume "call_good cid peer w" "get_call_history (sqlite_store E) cid w = (Inr (Some e), w')"
  then show "call_fits cid peer e"
    by (auto simp: sqlite_store_def sqlite_get_call_history_def query_sql_def call_good_def
        i64_of_u64_def dest!: select_SomeD)
qed

section \<open>Groups\<close>

text \<open>
  The rows \<open>save_group\<close> leaves: 32-byte keys, one row per key, and an identifier that is either
  missing (a row older than the column) or the one derived from the key.
\<close>

definition groups_wf :: "sqlite_env \<Rightarrow> sqlite_db \<Rightarrow> bool" where
  "groups_wf E db \<longleftrightarrow>
     distinct (map sg_master_key (db_groups db)) \<and>
     (\<forall>r \<in> set (db_groups db). \<exists>mk. sg_master_key r = key32_bytes mk \<and>
        sg_group_id r \<in> {None, Some (key32_bytes (group_identifier E mk))})"

definition groups_populated :: "sqlite_db \<Rightarrow> bool" where
  "groups_populated db \<longleftrightarrow> (\<forall>r \<in> set (db_groups db). sg_group_id r \<noteq> None)"

lemma key32_bytes_eq [simp]: "key32_bytes a = key32_bytes b \<longleftrightarrow> a = b"
  by (simp add: key32_bytes_inject)

lemma find_group_rows:
  assumes "\<forall>r \<in> set rows. \<exists>mk. sg_master_key r = key32_bytes mk \<and>
      sg_group_id r = Some (key32_bytes (group_identifier E mk))"
  shows "find_group_by_id (group_identifier E) gid (map sql_into_group rows) =
    (case select_one (\<lambda>r. sql_eq (sg_group_id r) (Some (key32_bytes gid))) rows of
       None \<Rightarrow> Inr None
     | Some r \<Rightarrow> res_map Some (ok_or Sq_InvalidFormat (key32_from_slice (sg_master_key r))))"
  using assms
proof (induction rows)
  case (Cons r rows)
  then obtain mk where "sg_master_key r = key32_bytes mk"
    "sg_group_id r = Some (key32_bytes (group_identifier E mk))" by auto
  with Cons show ?case
    by (simp add: sql_into_group_def ok_or_def res_map_def res_bind_def select_one_def sql_eq_def)
qed (simp add: select_one_def)

lemma save_group_wf:
  assumes "groups_wf E db" "sqlite_save_group E mk g db = (r, db')"
  shows "groups_wf E db'"
proof -
  define row where "row = sql_from_group mk (Some (key32_bytes (group_identifier E mk))) g"
  let ?clash = "\<lambda>x. sg_master_key x = sg_master_key row \<or> sql_eq (sg_group_id x) (sg_group_id row)"
  have db': "db_groups db' = filter (\<lambda>x. \<not> ?clash x) (db_groups db) @ [row]"
    using assms(2) by (auto simp: sqlite_save_group_def execute_sql_def Let_def row_def replace_row_def)
  have "distinct (map sg_master_key (filter (\<lambda>x. \<not> ?clash x) (db_groups db)))"
    using assms(1) by (auto simp: groups_wf_def intro: distinct_map_filter)
  moreover have "sg_master_key row = key32_bytes mk"
    "sg_group_id row = Some (key32_bytes (group_identifier E mk))"
    by (simp_all add: row_def sql_from_group_def)
  ultimately show ?thesis
    using assms(1) unfolding groups_wf_def db' by auto
qed

lemma save_group_populated:
  "groups_populated db \<Longrightarrow> sqlite_save_group E mk g db = (r, db') \<Longrightarrow> groups_populated db'"
  by (auto simp: groups_populated_def sqlite_save_group_def execute_sql_def Let_def replace_row_def
      sql_from_group_def)

lemma set_group_id_wf:
  assumes "groups_wf E db" "set_group_id E mk (db_groups db) = Inr rows"
  shows "groups_wf E (db\<lparr>db_groups := rows\<rparr>) \<and>
    map sg_master_key rows = map sg_master_key (db_groups db) \<and>
    (\<forall>r \<in> set rows. sg_group_id r = None \<longrightarrow> sg_master_key r \<noteq> key32_bytes mk \<and> r \<in> set (db_groups db))"
proof -
  let ?f = "\<lambda>x. if sg_master_key x = key32_bytes mk
    then x\<lparr>sg_group_id := Some (key32_bytes (group_identifier E mk))\<rparr> else x"
  have rows: "rows = map ?f (db_groups db)"
    using assms(2) by (auto simp: set_group_id_def split: if_splits)
  then have keys: "map sg_master_key rows = map sg_master_key (db_groups db)" by auto
  moreover have "distinct (map sg_master_key rows)"
    using assms(1) unfolding keys groups_wf_def by blast
  moreover have "\<forall>r \<in> set rows. \<exists>mk. sg_master_key r = key32_bytes mk \<and>
      sg_group_id r \<in> {None, Some (key32_bytes (group_identifier E mk))}"
    using assms(1) unfolding rows groups_wf_def by auto
  moreover have "\<forall>r \<in> set rows. sg_group_id r = None \<longrightarrow>
      sg_master_key r \<noteq> key32_bytes mk \<and> r \<in> set (db_groups db)"
    unfolding rows by auto
  ultimately show ?thesis by (simp add: groups_wf_def)
qed

lemma backfill_rows_wf:
  assumes "groups_wf E db" "backfill_rows E ks (db_groups db) = Inr rows"
  shows "groups_wf E (db\<lparr>db_groups := rows\<rparr>) \<and>
    (\<forall>r \<in> set rows. sg_group_id r = None \<longrightarrow> sg_master_key r \<notin> set ks \<and> r \<in> set (db_groups db))"
  using assms
proof (induction ks arbitrary: db)
  case (Cons k ks)
  show ?case
  proof (cases "key32_from_slice k")
    case None
    have "sg_master_key r \<noteq> k" if "r \<in> set (db_groups db)" for r
      using Cons.prems(1) that None by (auto simp: groups_wf_def)
    with Cons None show ?thesis by auto
  next
    case (Some mk)
    then have k: "k = key32_bytes mk" by (simp add: key32_from_slice_SomeD)
    from Cons.prems(2) Some obtain rows1
      where 1: "set_group_id E mk (db_groups db) = Inr rows1" "backfill_rows E ks rows1 = Inr rows"
      by (auto simp: res_bind_def split: sum.splits)
    from set_group_id_wf [OF Cons.prems(1) 1(1)] Cons.IH [of "db\<lparr>db_groups := rows1\<rparr>"] 1(2) k
    show ?thesis by auto
  qed
qed (auto simp: groups_wf_def)

end
