(* ===== verification/Profile_Laws.thy ===== *)
theory Profile_Laws
  imports Profiles Sqlite_Laws
begin

text \<open>
  Laws of theory Profiles. \<open>avatar_cache\<close> is what the store promises of a cached avatar; inside it an avatar is
  downloaded once per URL. Both caches of the SQLite store are instances.
\<close>

section \<open>The cache of an avatar\<close>

locale avatar_cache =
  fixes get :: "('w, 'e, (string option \<times> bytes) option) io"
    and put :: "bytes \<Rightarrow> string \<Rightarrow> ('w, 'e, unit) io"
    and good :: "'w \<Rightarrow> bool"
  assumes get_pure: "snd (get w) = w"
    and put_get: "good w \<Longrightarrow> \<exists>w'. put a url w = (Inr (), w') \<and> good w' \<and> fst (get w') = Inr (Some (Some url, a))"
begin

lemma get_same: "get w = (fst (get w), w)"
  by (metis get_pure prod.collapse)

text \<open>The URL the cache answers for.\<close>

definition holds_avatar :: "string \<Rightarrow> bytes \<Rightarrow> 'w \<Rightarrow> bool" where
  "holds_avatar url a w \<longleftrightarrow> fst (get w) = Inr (Some (Some url, a))"

lemma download_holds:
  assumes "pe_save_profile_avatar E u k = put"
    "\<And>w. good w \<Longrightarrow> good (snd (pe_unidentified_websocket E w))"
    "\<And>w. good w \<Longrightarrow> good (snd (pe_fetch_avatar E url w))"
    "good w" "download_profile_avatar E u k url w = (Inr a, w')"
  shows "holds_avatar url a w' \<and> good w'"
proof -
  from assms(5) obtain w1 w2 contents where
    1: "pe_unidentified_websocket E w = (Inr (), w1)" and
    2: "pe_fetch_avatar E url w1 = (Inr (Inr contents), w2)" and
    3: "pe_decrypt_avatar E k contents = Inr a" and
    4: "w' = snd (put a url w2)"
    by (auto simp: download_profile_avatar_def io_simps assms(1) split: prod.splits sum.splits)
  have "good w2" using assms(2) [OF assms(4)] assms(3) [of w1] 1 2 by simp
  from put_get [OF this, of a url] 4 show ?thesis by (auto simp: holds_avatar_def)
qed

lemma retrieved_holds:
  assumes "pe_profile_avatar E u k = get" "pe_save_profile_avatar E u k = put"
    "\<And>w. good w \<Longrightarrow> good (snd (pe_unidentified_websocket E w))"
    "\<And>url w. good w \<Longrightarrow> good (snd (pe_fetch_avatar E url w))"
    "good w" "retrieve_avatar_for_profile E u k p w = (Inr r, w')"
  shows "case pf_avatar p of None \<Rightarrow> r = None \<and> w' = w | Some url \<Rightarrow> \<exists>a. r = Some a \<and> holds_avatar url a w'"
proof (cases "pf_avatar p")
  case None
  with assms(6) show ?thesis by (simp add: retrieve_avatar_for_profile_def ok_def)
next
  case (Some url)
  show ?thesis
  proof (cases "\<exists>a. holds_avatar url a w")
    case True
    then obtain a where "get w = (Inr (Some (Some url, a)), w)" using get_same by (metis holds_avatar_def)
    with Some assms(1,6) show ?thesis
      by (auto simp: retrieve_avatar_for_profile_def io_simps holds_avatar_def)
  next
    case False
    then have miss: "fst (get w) \<noteq> Inr (Some (Some url, a))" for a by (simp add: holds_avatar_def)
    have "retrieve_avatar_for_profile E u k p w = bindE (download_profile_avatar E u k url) (\<lambda>a. ok (Some a)) w"
      using get_same [of w] miss
      by (cases "get w") (auto simp: retrieve_avatar_for_profile_def Some assms(1) attempt_def Let_def
        split: sum.splits option.splits)
    with assms(6) obtain a where "r = Some a" "download_profile_avatar E u k url w = (Inr a, w')"
      by (auto simp: io_simps split: prod.splits sum.splits)
    with download_holds [OF assms(2,3,4,5)] Some show ?thesis by auto
  qed
qed

lemma held_is_returned:
  assumes "pe_profile_avatar F u k = get" "pf_avatar p = Some url" "holds_avatar url a w"
  shows "retrieve_avatar_for_profile F u k p w = (Inr (Some a), w)"
  using assms get_same [of w]
  by (simp add: retrieve_avatar_for_profile_def attempt_def holds_avatar_def ok_def)

lemma held_group_avatar_is_returned:
  assumes "ga_cached F mk = get" "group_at_revision F mk revision w = (Inr (Some g, managed), w')"
    "g_avatar g = Some url" "url \<noteq> []" "holds_avatar url a w'"
  shows "retrieve_group_avatar F mk revision w = (Inr (Some a), w')"
  using assms get_same [of w']
  by (simp add: retrieve_group_avatar_def bindE_def attempt_def holds_avatar_def ok_def)

end

section \<open>The caches of the SQLite store\<close>

definition has_profile_key :: "uuid \<Rightarrow> sqlite_db \<Rightarrow> bool" where
  "has_profile_key u db \<longleftrightarrow> list_ex (\<lambda>(v, _). v = u) (db_profile_keys db)"

definition has_group_row :: "key32 \<Rightarrow> sqlite_db \<Rightarrow> bool" where
  "has_group_row mk db \<longleftrightarrow> list_ex (\<lambda>r. sg_master_key r = key32_bytes mk) (db_groups db)"

interpretation profile_avatars: avatar_cache "profile_avatar u k" "save_profile_avatar u k" "has_profile_key u"
  for u k
  by unfold_locales (auto simp: profile_avatar_def query_sql_def save_profile_avatar_def has_profile_key_def
      select_replaced)

interpretation group_avatars: avatar_cache "group_avatar mk" "save_group_avatar mk" "has_group_row mk"
  for mk
  by unfold_locales (auto simp: group_avatar_def query_sql_def save_group_avatar_def has_group_row_def
      select_replaced)

section \<open>The property\<close>

text \<open>C35. An avatar is downloaded once per URL. Over the SQLite store, with the profile's key on record and a
  network that does not touch the database: whatever was returned for a profile is returned again for
  the same profile without the network being asked and without a write, by any manager on that
  store; and a profile that names another URL is downloaded anew.\<close>

theorem avatar_is_downloaded_once:
  fixes E F :: "(sqlite_db, sqlite_error) profile_env"
  assumes "pe_profile_avatar E = profile_avatar" "pe_save_profile_avatar E = save_profile_avatar"
    "\<And>w. snd (pe_unidentified_websocket E w) = w" "\<And>url w. snd (pe_fetch_avatar E url w) = w"
    "has_profile_key u db" "retrieve_avatar_for_profile E u k p db = (Inr r, db')"
    "pe_profile_avatar F = profile_avatar"
  shows "retrieve_avatar_for_profile F u k p db' = (Inr r, db') \<and>
    (\<forall>url p'. pf_avatar p \<noteq> None \<and> pf_avatar p' = Some url \<and> pf_avatar p \<noteq> Some url \<longrightarrow>
       retrieve_avatar_for_profile F u k p' db' =
         bindE (download_profile_avatar F u k url) (\<lambda>a. ok (Some a)) db')"
proof -
  have held: "case pf_avatar p of None \<Rightarrow> r = None \<and> db' = db
      | Some url \<Rightarrow> \<exists>a. r = Some a \<and> profile_avatars.holds_avatar u k url a db'"
    by (rule profile_avatars.retrieved_holds [OF _ _ _ _ assms(5,6)]) (simp_all add: assms(1-4))
  show ?thesis
  proof (cases "pf_avatar p")
    case None
    with held show ?thesis by (simp add: retrieve_avatar_for_profile_def ok_def)
  next
    case (Some url)
    with held obtain a where a: "r = Some a" "profile_avatars.holds_avatar u k url a db'" by auto
    have again: "retrieve_avatar_for_profile F u k p db' = (Inr r, db')"
      unfolding a(1) by (rule profile_avatars.held_is_returned [OF _ Some a(2)]) (simp add: assms(7))
    have "profile_avatar u k db' = (Inr (Some (Some url, a)), db')"
      using a(2) profile_avatars.get_same [of u k db'] by (simp add: profile_avatars.holds_avatar_def)
    then have "retrieve_avatar_for_profile F u k p' db' =
        bindE (download_profile_avatar F u k url') (\<lambda>a. ok (Some a)) db'"
      if "pf_avatar p' = Some url'" "url \<noteq> url'" for p' url'
      using that by (simp add: retrieve_avatar_for_profile_def assms(7) attempt_def)
    with again Some show ?thesis by auto
  qed
qed

section \<open>A sample\<close>

text \<open>A CDN whose every avatar is the bytes of its URL, and one that cannot be reached.\<close>

definition sample_profiles :: "(sqlite_db, sqlite_error) profile_env" where
  "sample_profiles =
     \<lparr>pe_self = sample_uuid 1, pe_self_key = sample_key32 1, pe_identified_websocket = ok (),
      pe_unidentified_websocket = ok (), pe_fetch_profile = (\<lambda>_ _. err ServiceNotFound),
      pe_upload_profile = (\<lambda>_ _ _ _ _. ok ()), pe_save_profile = save_profile, pe_profile_avatar = profile_avatar,
      pe_save_profile_avatar = save_profile_avatar, pe_fetch_avatar = (\<lambda>url. ok (Inr (map char_byte url))),
      pe_decrypt_avatar = (\<lambda>_. Inr)\<rparr>"

definition unreachable_profiles :: "(sqlite_db, sqlite_error) profile_env" where
  "unreachable_profiles = sample_profiles\<lparr>pe_unidentified_websocket := err ServiceWsClosing\<rparr>"

definition avatar_profile :: profile where
  "avatar_profile =
     \<lparr>pf_name = None, pf_about = None, pf_about_emoji = None, pf_avatar = Some ''a'',
      pf_unrestricted_unidentified_access = False\<rparr>"

lemma avatar_is_downloaded_once_witness:
  "\<exists>db'. retrieve_avatar_for_profile sample_profiles (sample_uuid 2) (sample_key32 2) avatar_profile
      (sqlite_empty\<lparr>db_profile_keys := [(sample_uuid 2, key32_bytes (sample_key32 2))]\<rparr>) = (Inr (Some [97]), db') \<and>
    retrieve_avatar_for_profile unreachable_profiles (sample_uuid 2) (sample_key32 2) avatar_profile db' =
      (Inr (Some [97]), db')"
proof -
  let ?db = "sqlite_empty\<lparr>db_profile_keys := [(sample_uuid 2, key32_bytes (sample_key32 2))]\<rparr>"
  let ?run = "retrieve_avatar_for_profile sample_profiles (sample_uuid 2) (sample_key32 2) avatar_profile ?db"
  have "fst ?run = Inr (Some [97])"
    by (simp add: retrieve_avatar_for_profile_def download_profile_avatar_def avatar_profile_def sample_profiles_def
        io_simps profile_avatar_def save_profile_avatar_def query_sql_def select_one_def sqlite_empty_def Let_def
        char_byte_def)
  then have run: "?run = (Inr (Some [97]), snd ?run)" by (metis prod.collapse)
  have E: "pe_profile_avatar sample_profiles = profile_avatar" "pe_save_profile_avatar sample_profiles = save_profile_avatar"
    "\<And>w. snd (pe_unidentified_websocket sample_profiles w) = w" "\<And>url w. snd (pe_fetch_avatar sample_profiles url w) = w"
    by (simp_all add: sample_profiles_def ok_def)
  have key: "has_profile_key (sample_uuid 2) ?db" by (simp add: has_profile_key_def)
  have F: "pe_profile_avatar unreachable_profiles = profile_avatar"
    by (simp add: unreachable_profiles_def sample_profiles_def)
  from avatar_is_downloaded_once [OF E key run F] run show ?thesis by blast
qed

end
