(* ===== verification/Sessions.thy ===== *)
theory Sessions
  imports Sending Sqlite_State
begin

text \<open>
  Sessions with a recipient (\<open>presage/src/manager/registered.rs\<close>): clearing them, and resetting them with a
  null message. The store of the sessions is \<open>session_store\<close>; what libsignal does to a session to
  archive it is its \<open>se_archive\<close>.
\<close>

record ('w, 'r) session_store =
  se_sub_devices :: "string \<Rightarrow> ('w, protocol_error, u8 list) io"
  se_load :: "address \<Rightarrow> ('w, protocol_error, 'r option) io"
  se_store :: "address \<Rightarrow> 'r \<Rightarrow> ('w, protocol_error, unit) io"
  se_delete_all :: "identity_type \<Rightarrow> string \<Rightarrow> ('w, protocol_error, nat) io"
  se_archive :: "'r \<Rightarrow> protocol_error + 'r"

fun of_protocol_error :: "protocol_error \<Rightarrow> 'e error" where
  "of_protocol_error InvalidState = ProtocolError ''InvalidState''"
| "of_protocol_error (InvalidMessage s) = ProtocolError s"
| "of_protocol_error (BadRecord s) = ProtocolError s"
| "of_protocol_error Unimplemented = ProtocolError ''Unimplemented''"

text \<open>\<open>recipient\<close> is the service id as libsignal writes it.\<close>

definition clear_sessions :: "('w, 'r) session_store \<Rightarrow> string \<Rightarrow> ('w, 'e error, unit) io" where
  "clear_sessions S recipient =
     map_err of_protocol_error
       (bindE (se_delete_all S AciIdentity recipient) (\<lambda>_.
        bindE (se_delete_all S PniIdentity recipient) (\<lambda>_. ok ())))"

definition archive_session :: "('w, 'r) session_store \<Rightarrow> address \<Rightarrow> ('w, protocol_error, unit) io" where
  "archive_session S address =
     bindE (se_load S address) (\<lambda>session.
       case session of
         None \<Rightarrow> ok ()
       | Some s \<Rightarrow> bindE (lift_res (se_archive S s)) (se_store S address))"

text \<open>Every device of the recipient with a session, and its main device.\<close>

definition archive_sessions :: "('w, 'r) session_store \<Rightarrow> string \<Rightarrow> ('w, protocol_error, unit) io" where
  "archive_sessions S recipient =
     bindE (se_sub_devices S recipient) (\<lambda>devices.
       for_each (devices @ [DEFAULT_DEVICE_ID]) (\<lambda>device. archive_session S (recipient, device)))"

text \<open>The code expects the recipient to be an account identity.\<close>

definition send_session_reset ::
  "('w, 'r) session_store \<Rightarrow> ('w, 'e) message_env \<Rightarrow> uuid \<Rightarrow> u64 \<Rightarrow> ('w, 'e error, unit) io" where
  "send_session_reset S M aci timestamp =
     thenE (map_err of_protocol_error
         (archive_sessions S (service_id_string (ae_codec (mv_account M)) (Aci aci))))
       (send_message M (Aci aci) NullMessage timestamp)"

section \<open>A new identity\<close>

text \<open>
  The note a store may leave in a chat when an identity key changed. \<open>verified\<close> is the encoding of a
  \<open>Verified\<close> message with that key and state alone; the two times are read one after the other.
\<close>

definition save_trusted_identity_message ::
  "('w, 'e) store_ops \<Rightarrow> (string \<Rightarrow> service_id option) \<Rightarrow> ('w \<Rightarrow> u64 \<times> 'w) \<Rightarrow>
   ('k \<Rightarrow> 'v \<Rightarrow> bytes) \<Rightarrow> address \<Rightarrow> 'k \<Rightarrow> 'v \<Rightarrow> ('w, 'e, unit) io" where
  "save_trusted_identity_message S parse now_ms verified protocol_address right_identity_key verified_state =
     (case parse (fst protocol_address) of
        None \<Rightarrow> ok ()
      | Some sender \<Rightarrow>
          bindE (call now_ms) (\<lambda>client_timestamp.
          bindE (call now_ms) (\<lambda>server_timestamp.
            store_message S (ContactThread sender)
              \<lparr>ct_metadata =
                 \<lparr>md_sender = sender, md_destination = sender, md_sender_device = DEFAULT_DEVICE_ID,
                  md_client_timestamp = client_timestamp, md_server_timestamp = server_timestamp,
                  md_needs_receipt = False, md_unidentified_sender = False, md_server_guid = None,
                  md_was_plaintext = False, md_report_spam_token = None, md_pni_verified = None\<rparr>,
               ct_body = SynchronizeMessage (Some (SyncVerified (verified right_identity_key verified_state))) []\<rparr>)))"

section \<open>The SQLite store\<close>

definition sqlite_sessions :: "'r rec_codec \<Rightarrow> ('r \<Rightarrow> protocol_error + 'r) \<Rightarrow> (protocol_db, 'r) session_store" where
  "sqlite_sessions C A =
     \<lparr>se_sub_devices = get_sub_device_sessions AciIdentity, se_load = load_session C AciIdentity,
      se_store = store_session C AciIdentity, se_delete_all = delete_all_sessions, se_archive = A\<rparr>"

end
