(* ===== verification/Session_Laws.thy ===== *)
theory Session_Laws
  imports Sessions Protocol_Props
begin

text \<open>
  Laws of theory Sessions on the SQLite store: a reset archives every session with the recipient and forgets
  no device, a clearing leaves none of either identity; both touch nothing else.
\<close>

section \<open>Archiving\<close>

text \<open>A stored session and the one it is archived to.\<close>

definition archived :: "'r rec_codec \<Rightarrow> ('r \<Rightarrow> protocol_error + 'r) \<Rightarrow> bytes \<Rightarrow> bytes \<Rightarrow> bool" where
  "archived C A bs bs' \<longleftrightarrow>
     (\<exists>r r'. rec_deserialize C bs = Inr r \<and> A r = Inr r' \<and> rec_serialize C r' = Inr bs')"

text \<open>The session table after the addresses \<open>as\<close> were archived.\<close>

definition archived_at ::
  "'r rec_codec \<Rightarrow> ('r \<Rightarrow> protocol_error + 'r) \<Rightarrow> address set \<Rightarrow> protocol_db \<Rightarrow> protocol_db \<Rightarrow> bool" where
  "archived_at C A as db db' \<longleftrightarrow>
     (\<exists>s. db' = db\<lparr>pr_sessions := s\<rparr> \<and> map fst s = map fst (pr_sessions db) \<and>
        (\<forall>a i. if a \<in> as \<and> i = AciIdentity
           then rel_option (archived C A) (map_of (pr_sessions db) (a, i)) (map_of s (a, i))
           else map_of s (a, i) = map_of (pr_sessions db) (a, i)))"

lemma archived_at_empty: "archived_at C A {} db db"
  by (auto simp: archived_at_def intro: exI [of _ "pr_sessions db"])

lemma archived_at_insert:
  assumes "archived_at C A {a} db db1" "archived_at C A as db1 db2" "a \<notin> as"
  shows "archived_at C A (insert a as) db db2"
proof -
  from assms(1) obtain s1 where 1: "db1 = db\<lparr>pr_sessions := s1\<rparr>" "map fst s1 = map fst (pr_sessions db)"
    "\<And>b i. if b \<in> {a} \<and> i = AciIdentity
       then rel_option (archived C A) (map_of (pr_sessions db) (b, i)) (map_of s1 (b, i))
       else map_of s1 (b, i) = map_of (pr_sessions db) (b, i)"
    unfolding archived_at_def by blast
  from assms(2) obtain s2 where 2: "db2 = db1\<lparr>pr_sessions := s2\<rparr>" "map fst s2 = map fst (pr_sessions db1)"
    "\<And>b i. if b \<in> as \<and> i = AciIdentity
       then rel_option (archived C A) (map_of (pr_sessions db1) (b, i)) (map_of s2 (b, i))
       else map_of s2 (b, i) = map_of (pr_sessions db1) (b, i)"
    unfolding archived_at_def by blast
  have "if b \<in> insert a as \<and> i = AciIdentity
       then rel_option (archived C A) (map_of (pr_sessions db) (b, i)) (map_of s2 (b, i))
       else map_of s2 (b, i) = map_of (pr_sessions db) (b, i)" for b i
    using 1(3) [of b i] 2(3) [of b i] assms(3) by (cases "b = a") (auto simp: 1(1) split: if_splits)
  with 1 2 show ?thesis by (auto simp: archived_at_def intro: exI [of _ s2])
qed

lemma archive_session_archives:
  assumes "archive_session (sqlite_sessions C A) a db = (Inr (), db')"
  shows "archived_at C A {a} db db'"
proof (cases "map_of (pr_sessions db) (a, AciIdentity)")
  case None
  with assms have "db' = db"
    by (simp add: archive_session_def sqlite_sessions_def load_session_def pr_query_def fetch_optional_def io_simps)
  with None show ?thesis by (auto simp: archived_at_def intro: exI [of _ "pr_sessions db"])
next
  case (Some bs)
  with assms obtain r r' bs' where b: "rec_deserialize C bs = Inr r" "A r = Inr r'" "rec_serialize C r' = Inr bs'"
    "db' = db\<lparr>pr_sessions := AList.update (a, AciIdentity) bs' (pr_sessions db)\<rparr>"
    by (auto simp: archive_session_def sqlite_sessions_def load_session_def pr_query_def fetch_optional_def
        store_session_def pr_execute_def io_simps res_map_def split: sum.splits)
  have keys: "map fst (AList.update (a, AciIdentity) bs' (pr_sessions db)) = map fst (pr_sessions db)"
    using Some by (metis (no_types, lifting) domI dom_map_of_conv_image_fst update_keys list.set_map)
  have "archived C A bs bs'" using b(1-3) by (auto simp: archived_def)
  with Some b(4) keys show ?thesis
    by (auto simp: archived_at_def update_conv' intro!: exI [of _ "AList.update (a, AciIdentity) bs' (pr_sessions db)"])
qed

lemma archive_each:
  assumes "distinct ds" "for_each ds (\<lambda>d. archive_session (sqlite_sessions C A) (n, d)) db = (Inr (), db')"
  shows "archived_at C A ((\<lambda>d. (n, d)) ` set ds) db db'"
  using assms
proof (induction ds arbitrary: db)
  case Nil
  then show ?case by (simp add: ok_def archived_at_empty)
next
  case (Cons d ds)
  from Cons.prems(2) obtain db1 where
    1: "archive_session (sqlite_sessions C A) (n, d) db = (Inr (), db1)" and
    2: "for_each ds (\<lambda>d. archive_session (sqlite_sessions C A) (n, d)) db1 = (Inr (), db')"
    by (auto elim!: thenE_InrE)
  have "archived_at C A (insert (n, d) ((\<lambda>d. (n, d)) ` set ds)) db db'"
    by (rule archived_at_insert [OF archive_session_archives [OF 1] Cons.IH [OF _ 2]]) (use Cons.prems(1) in auto)
  then show ?case by simp
qed

section \<open>The devices of a recipient\<close>

definition sub_devices :: "identity_type \<Rightarrow> string \<Rightarrow> protocol_db \<Rightarrow> u8 list" where
  "sub_devices i n db = filter device_id_in_range (map (\<lambda>((_, d), _). d)
     (filter (\<lambda>((m, d), j). m = n \<and> d \<noteq> DEFAULT_DEVICE_ID \<and> j = i) (map fst (pr_sessions db))))"

lemma get_sub_device_sessions_keys: "get_sub_device_sessions i n db = (Inr (sub_devices i n db), db)"
  by (simp add: get_sub_device_sessions_def pr_query_def sub_devices_def filter_map comp_def case_prod_unfold)

lemma set_sub_devices:
  "set (sub_devices i n db) = {d. device_id_in_range d \<and> d \<noteq> DEFAULT_DEVICE_ID \<and> ((n, d), i) \<in> fst ` set (pr_sessions db)}"
  by (force simp: sub_devices_def)

lemma distinct_sub_devices: "distinct (map fst (pr_sessions db)) \<Longrightarrow> distinct (sub_devices i n db)"
  unfolding sub_devices_def
  by (rule distinct_filter) (auto simp: distinct_map inj_on_def intro!: distinct_filter)

lemma clear_sessions_run:
  "clear_sessions (sqlite_sessions C A) n db =
     (Inr (), db\<lparr>pr_sessions := filter (\<lambda>(k, _). fst (fst k) \<noteq> n) (pr_sessions db)\<rparr>)"
proof -
  have "filter (\<lambda>(k, _). \<not> (fst (fst k) = n \<and> snd k = PniIdentity))
      (filter (\<lambda>(k, _). \<not> (fst (fst k) = n \<and> snd k = AciIdentity)) xs) =
      filter (\<lambda>(k, _). fst (fst k) \<noteq> n) xs" for xs :: "((address \<times> identity_type) \<times> bytes) list"
    unfolding filter_filter by (rule filter_cong) (auto, (metis identity_type.exhaust)+)
  then show ?thesis
    by (simp add: clear_sessions_def sqlite_sessions_def delete_all_sessions_alt io_simps del: filter_filter)
qed

text \<open>C36. A session reset archives, it does not forget. When it succeeds in archiving, every session this account
  has with the recipient on a valid device is replaced by what libsignal archives it to, none is
  added or dropped, so the recipient's devices stay known; sessions with others, and those of the
  phone-number identity, are as they were. Clearing, by contrast, removes the recipient's sessions of both
  identities and no one else's.\<close>

theorem reset_archives_every_session:
  assumes "protocol_wf db" "archive_sessions (sqlite_sessions C A) name db = (Inr (), db')"
  shows "(\<forall>n d i. if i = AciIdentity \<and> n = name \<and> device_id_in_range d
      then rel_option (archived C A) (map_of (pr_sessions db) ((n, d), i)) (map_of (pr_sessions db') ((n, d), i))
      else map_of (pr_sessions db') ((n, d), i) = map_of (pr_sessions db) ((n, d), i)) \<and>
    (\<forall>n i. get_sub_device_sessions i n db' = (fst (get_sub_device_sessions i n db), db')) \<and>
    (\<exists>s. db' = db\<lparr>pr_sessions := s\<rparr>) \<and>
    (\<exists>db''. clear_sessions (sqlite_sessions C A) name db = (Inr () :: 'e error + unit, db'') \<and>
       (\<forall>n d i. map_of (pr_sessions db'') ((n, d), i) =
          (if n = name then None else map_of (pr_sessions db) ((n, d), i))) \<and>
       (\<exists>s. db'' = db\<lparr>pr_sessions := s\<rparr>))"
proof -
  have dist: "distinct (map fst (pr_sessions db))" using assms(1) by (simp add: protocol_wf_def)
  let ?ds = "sub_devices AciIdentity name db @ [DEFAULT_DEVICE_ID]"
  have ds: "distinct ?ds" using distinct_sub_devices [OF dist] by (auto simp: set_sub_devices)
  have each: "for_each ?ds (\<lambda>d. archive_session (sqlite_sessions C A) (name, d)) db = (Inr (), db')"
    using assms(2) by (simp add: archive_sessions_def sqlite_sessions_def get_sub_device_sessions_keys bindE_def)
  from archive_each [OF ds each] obtain s where
    s: "db' = db\<lparr>pr_sessions := s\<rparr>" "map fst s = map fst (pr_sessions db)" and
    rows: "\<And>a i. if a \<in> (\<lambda>d. (name, d)) ` set ?ds \<and> i = AciIdentity
       then rel_option (archived C A) (map_of (pr_sessions db) (a, i)) (map_of s (a, i))
       else map_of s (a, i) = map_of (pr_sessions db) (a, i)"
    unfolding archived_at_def by blast
  have one: "device_id_in_range DEFAULT_DEVICE_ID" by (simp add: device_id_in_range_def DEFAULT_DEVICE_ID_def)
  have "if i = AciIdentity \<and> n = name \<and> device_id_in_range d
      then rel_option (archived C A) (map_of (pr_sessions db) ((n, d), i)) (map_of s ((n, d), i))
      else map_of s ((n, d), i) = map_of (pr_sessions db) ((n, d), i)" for n d i
  proof (cases "i = AciIdentity \<and> n = name \<and> device_id_in_range d \<and> d \<notin> set ?ds")
    case True
    then have "map_of (pr_sessions db) ((n, d), i) = None"
      by (auto simp: set_sub_devices map_of_eq_None_iff)
    moreover have "(n, d) \<notin> (\<lambda>d. (name, d)) ` set ?ds" using True by auto
    ultimately show ?thesis using rows [of "(n, d)" i] by auto
  next
    case False
    with rows [of "(n, d)" i] one show ?thesis
      by (auto simp: set_sub_devices split: if_splits)
  qed
  moreover have "get_sub_device_sessions i n db' = (fst (get_sub_device_sessions i n db), db')" for i n
    using s by (simp add: get_sub_device_sessions_keys sub_devices_def)
  moreover have "\<exists>db''. clear_sessions (sqlite_sessions C A) name db = (Inr () :: 'e error + unit, db'') \<and>
       (\<forall>n d i. map_of (pr_sessions db'') ((n, d), i) =
          (if n = name then None else map_of (pr_sessions db) ((n, d), i))) \<and>
       (\<exists>s. db'' = db\<lparr>pr_sessions := s\<rparr>)"
    by (intro exI [of _ "db\<lparr>pr_sessions := filter (\<lambda>(k, _). fst (fst k) \<noteq> name) (pr_sessions db)\<rparr>"])
      (auto simp: clear_sessions_run map_of_filter_key)
  ultimately show ?thesis using s(1) by auto
qed

section \<open>A sample\<close>

text \<open>Archiving adds a mark to a session.\<close>

definition session_sample :: protocol_db where
  "session_sample = protocol_empty\<lparr>pr_sessions := [(((''bob'', 2), AciIdentity), [3]), (((''bob'', 1), AciIdentity), [4]),
     (((''eve'', 1), AciIdentity), [5]), (((''bob'', 1), PniIdentity), [6])]\<rparr>"

lemma reset_archives_every_session_witness:
  "\<exists>db'. archive_sessions (sqlite_sessions raw_codec (\<lambda>r. Inr (0 # r))) ''bob'' session_sample = (Inr (), db') \<and>
     rel_option (archived raw_codec (\<lambda>r. Inr (0 # r))) (Some [3]) (map_of (pr_sessions db') ((''bob'', 2), AciIdentity)) \<and>
     map_of (pr_sessions db') ((''eve'', 1), AciIdentity) = Some [5] \<and>
     map_of (pr_sessions db') ((''bob'', 1), PniIdentity) = Some [6]"
proof -
  let ?S = "sqlite_sessions raw_codec (\<lambda>r. Inr (0 # r))"
  have wf: "protocol_wf session_sample"
    by (simp add: protocol_wf_def session_sample_def protocol_empty_def)
  have "fst (archive_sessions ?S ''bob'' session_sample) = Inr ()"
    by (simp add: archive_sessions_def sqlite_sessions_def get_sub_device_sessions_def pr_query_def session_sample_def
        io_simps archive_session_def load_session_def store_session_def pr_execute_def fetch_optional_def raw_codec_def
        DEFAULT_DEVICE_ID_def device_id_in_range_def protocol_empty_def res_map_def)
  then have run: "archive_sessions ?S ''bob'' session_sample = (Inr (), snd (archive_sessions ?S ''bob'' session_sample))"
    by (metis prod.collapse)
  note T = reset_archives_every_session [OF wf run, THEN conjunct1, rule_format]
  have two: "device_id_in_range 2" by (simp add: device_id_in_range_def)
  show ?thesis
    using run T [of AciIdentity "''bob''" 2] T [of AciIdentity "''eve''" 1] T [of PniIdentity "''bob''" 1] two
    by (intro exI [of _ "snd (archive_sessions ?S ''bob'' session_sample)"]) (simp add: session_sample_def)
qed

end
