(* ===== verification/Backup_Laws.thy ===== *)
theory Backup_Laws
  imports Backup_Groups Sample_Codec "HOL-Library.Sublist"
begin

text \<open>
  Laws of theory Backup_Groups: what a batch of backup updates becomes, and the coalescing of a
  stream of items as the merging of its runs.
\<close>

section \<open>A batch of updates\<close>

text \<open>The fields of a change, repeated and singular.\<close>

definition repeated_fields :: "'a full_actions \<Rightarrow> 'a list list" where
  "repeated_fields a =
     [add_members a, delete_members a, modify_member_roles a, modify_member_profile_keys a,
      add_members_pending_profile_key a, delete_members_pending_profile_key a,
      promote_members_pending_profile_key a, add_members_pending_admin_approval a,
      delete_members_pending_admin_approval a, promote_members_pending_admin_approval a,
      add_members_banned a, delete_members_banned a,
      promote_members_pending_pni_aci_profile_key a, modify_member_labels a]"

definition single_fields :: "'a full_actions \<Rightarrow> 'a option list" where
  "single_fields a =
     [modify_title a, modify_avatar a, modify_disappearing_message_timer a, modify_attributes_access a,
      modify_member_access a, modify_add_from_invite_link_access a, modify_invite_link_password a,
      modify_description a, modify_announcements_only a, modify_member_label_access a, terminate_group a]"

lemma repeated_merge:
  "repeated_fields (merge_actions i f) = map2 (@) (repeated_fields i) (repeated_fields f)"
  by (simp add: repeated_fields_def merge_actions_def)

lemma single_merge:
  "single_fields (merge_actions i f) = map2 later_or (single_fields i) (single_fields f)"
  by (simp add: single_fields_def merge_actions_def)

lemma length_fields [simp]: "length (repeated_fields a) = 14" "length (single_fields a) = 11"
  by (simp_all add: repeated_fields_def single_fields_def)

lemma act_version_merge [simp]: "act_version (merge_actions i f) = act_version i"
  by (simp add: merge_actions_def)

lemma fields_default:
  "repeated_fields full_actions_default = replicate 14 []"
  "single_fields full_actions_default = replicate 11 None"
  by (simp_all add: repeated_fields_def single_fields_def full_actions_default_def actions_default_def
      actions.defs numeral_nat)

text \<open>The last \<open>Some\<close> of a list.\<close>

definition last_some :: "'a option list \<Rightarrow> 'a option" where
  "last_some xs = fold (\<lambda>x e. later_or e x) xs None"

lemma last_some_snoc: "last_some (xs @ [x]) = (case x of Some y \<Rightarrow> Some y | None \<Rightarrow> last_some xs)"
  by (cases x) (simp_all add: last_some_def later_or_def)

lemma last_some_find: "last_some xs = Option.bind (find (\<lambda>x. x \<noteq> None) (rev xs)) id"
  by (induction xs rule: rev_induct) (auto simp: last_some_def later_or_def split: option.split)

definition plans ::
  "('a, 'k, 'e) backup_ops \<Rightarrow> (bytes \<Rightarrow> service_id option) \<Rightarrow> uuid \<Rightarrow> ('k \<times> backup_update option) list \<Rightarrow>
   (uuid option \<times> 'a full_actions option) list" where
  "plans ops parse our_aci updates = map (\<lambda>(k, u). plan ops parse our_aci k u) (keyed_updates updates)"

lemma plan_updates_fold:
  "plan_updates ops parse our_aci editor merged us =
     (fold (\<lambda>x e. later_or e x) (map (\<lambda>(k, u). fst (plan ops parse our_aci k u)) us) editor,
      fold (\<lambda>a m. merge_actions m a)
        (List.map_filter (\<lambda>(k, u). snd (plan ops parse our_aci k u)) us) merged)"
  by (induction ops parse our_aci editor merged us rule: plan_updates.induct)
     (auto simp: Let_def map_filter_simps split: prod.split option.split)

lemma fold_merge_fields:
  "n < 14 \<Longrightarrow> repeated_fields (fold (\<lambda>a m. merge_actions m a) acts m) ! n =
     repeated_fields m ! n @ concat (map (\<lambda>a. repeated_fields a ! n) acts)"
  "n < 11 \<Longrightarrow> single_fields (fold (\<lambda>a m. merge_actions m a) acts m) ! n =
     fold (\<lambda>x e. later_or e x) (map (\<lambda>a. single_fields a ! n) acts) (single_fields m ! n)"
  by (induction acts arbitrary: m) (simp_all add: repeated_merge single_merge)

lemma creation_update_None:
  "creation_update us = None \<longleftrightarrow> (\<forall>updater. Some (GroupCreationUpdate updater) \<notin> set us)"
  by (induction us rule: creation_update.induct) auto

text \<open>A batch of updates becomes one change that loses nothing. Its editor is the last person an
  update names, or the author of the item; the change encrypts, for every repeated kind of
  action, the actions of all updates in their order, and for every singular kind the last one
  set; and a batch holding a creation becomes the creation.\<close>

theorem batch_keeps_every_action:
  fixes ops :: "('a, 'k, 'e) backup_ops" and parse :: "bytes \<Rightarrow> service_id option" and our_aci :: uuid
    and updates :: "('k \<times> backup_update option) list"
  defines "ps \<equiv> plans ops parse our_aci updates"
  assumes "\<And>updater. Some (GroupCreationUpdate updater) \<notin> set (map snd updates)"
    and "plan_group_update ops parse updates our_aci fallback = Some (editor, update)"
  shows "\<exists>merged change. update = Change change \<and>
    encrypt_group_change ops editor merged = Inr change \<and>
    editor = opt_or fallback (last_some (map fst ps)) \<and> act_version merged = 0 \<and>
    (\<forall>n < 14. repeated_fields merged ! n =
       concat (map (\<lambda>a. repeated_fields a ! n) (List.map_filter snd ps))) \<and>
    (\<forall>n < 11. single_fields merged ! n =
       last_some (map (\<lambda>a. single_fields a ! n) (List.map_filter snd ps)))"
proof -
  have c: "creation_update (map snd updates) = None"
    using assms(2) by (simp add: creation_update_None)
  let ?acts = "List.map_filter snd ps"
  let ?merged = "fold (\<lambda>a m. merge_actions m a) ?acts full_actions_default"
  have acts: "List.map_filter (\<lambda>(k, u). snd (plan ops parse our_aci k u)) (keyed_updates updates) = ?acts"
    by (simp add: ps_def plans_def List.map_filter_def filter_map comp_def case_prod_unfold)
  have named: "fold (\<lambda>x e. later_or e x)
      (map (\<lambda>(k, u). fst (plan ops parse our_aci k u)) (keyed_updates updates)) None = last_some (map fst ps)"
    by (simp add: ps_def plans_def last_some_def comp_def case_prod_unfold)
  have v: "act_version (fold (\<lambda>a m. merge_actions m a) acts m) = act_version m" for acts and m :: "'a full_actions"
    by (induction acts arbitrary: m) simp_all
  from assms(3) c acts named
  have e: "editor = opt_or fallback (last_some (map fst ps))"
    "res_ok (encrypt_group_change ops editor ?merged) \<noteq> None"
    "update = Change (the (res_ok (encrypt_group_change ops editor ?merged)))"
    by (auto simp: plan_group_update_def plan_updates_fold Let_def)
  then obtain change where ch: "encrypt_group_change ops editor ?merged = Inr change" "update = Change change"
    by (cases "encrypt_group_change ops editor ?merged") auto
  show ?thesis
    by (intro exI [of _ ?merged] exI [of _ change])
       (use e(1) ch fold_merge_fields [of _ ?acts full_actions_default] in
         \<open>simp add: v fields_default last_some_def full_actions_default_def [THEN arg_cong [where f = act_version]]
           actions.defs actions_default_def\<close>)
qed

text \<open>Operations whose actions are readable bytes, for the examples.\<close>

definition sample_ops :: "(bytes, unit, unit) backup_ops" where
  "sample_ops =
     \<lparr>build_modify_title = map char_byte, build_modify_description = map char_byte,
      build_modify_timer = (\<lambda>t. [ucast t]), build_modify_attributes_access = (\<lambda>_. []),
      build_modify_members_access = (\<lambda>_. []), build_modify_member_label_access = (\<lambda>_. []),
      build_modify_member_label = (\<lambda>u _ _. Inr (uuid_bytes u)), build_modify_announcements_only = (\<lambda>_. []),
      build_add_member_with_credential = (\<lambda>_ _. []),
      build_add_pending_member = (\<lambda>s inviter _. Inr (sample_binary s @ uuid_bytes inviter)),
      build_remove_member = (\<lambda>u. Inr (uuid_bytes u)),
      build_remove_pending_member = (\<lambda>s. Inr (sample_binary s)),
      build_modify_member_role = (\<lambda>u _. Inr (uuid_bytes u)),
      build_modify_avatar = map char_byte, build_add_member = (\<lambda>u _ _. Inr (uuid_bytes u)),
      with_join_from_invite_link = (\<lambda>_ a. a), build_promote_pending_member = (\<lambda>u _. Inr (uuid_bytes u)),
      build_add_requesting_member = (\<lambda>u _. Inr (uuid_bytes u)),
      build_promote_requesting_member = (\<lambda>u _. Inr (uuid_bytes u)),
      build_remove_requesting_member = (\<lambda>u. Inr (uuid_bytes u)),
      build_modify_invite_link_password = id, build_modify_invite_link_access = (\<lambda>_. []),
      encrypt_group_change = (\<lambda>e a. Inr (uuid_bytes e @ opt_or [] (modify_title a) @ concat (delete_members a)))\<rparr>"

definition sample_batch :: "(unit \<times> backup_update option) list" where
  "sample_batch =
     [((), Some (GroupNameUpdate (Some (replicate 16 1)) (Some ''t''))), ((), None),
      ((), Some (GroupMemberRemovedUpdate (Some (replicate 16 2)) (replicate 16 3))),
      ((), Some (GroupMemberRemovedUpdate None (replicate 16 4)))]"

lemma sample_batch_change:
  "plan_group_update sample_ops sample_parse_binary sample_batch (sample_uuid 9) (sample_uuid 8) =
     Some (sample_uuid 2, Change (replicate 16 2 @ [116] @ replicate 16 3 @ replicate 16 4))"
  by (simp add: plan_group_update_def sample_batch_def sample_ops_def opt_aci_def aci_bytes_def
      uuid_from_slice_def opt_or_def later_or_def remove_member_def merge_actions_def full_actions_default_def
      actions_default_def actions.defs map_option_case res_ok_def Abs_uuid_inverse sample_uuid_def
      char_byte_def)

lemma batch_keeps_every_action_witness:
  "\<exists>merged change. Change (replicate 16 2 @ [116] @ replicate 16 3 @ replicate 16 4) = Change change \<and>
     encrypt_group_change sample_ops (sample_uuid 2) merged = Inr change \<and>
     repeated_fields merged ! 1 = concat (map (\<lambda>a. repeated_fields a ! 1) (List.map_filter snd
       (plans sample_ops sample_parse_binary (sample_uuid 9) sample_batch)))"
proof -
  have "Some (GroupCreationUpdate updater) \<notin> set (map snd sample_batch)" for updater
    by (simp add: sample_batch_def)
  from batch_keeps_every_action [OF this sample_batch_change] show ?thesis by auto
qed

section \<open>Coalescing as merging runs\<close>

text \<open>
  The chat items of \<open>import_from_file\<close>: each one is fed to the coalescing and what is ready is
  imported at once; the item still held back is imported after the last frame.
\<close>

fun coalesced :: "('x, 'm) chat_item_scheme option \<Rightarrow> ('x, 'm) chat_item_scheme list \<Rightarrow> ('x, 'm) chat_item_scheme list" where
  "coalesced pending [] = (case pending of Some held \<Rightarrow> [held] | None \<Rightarrow> [])"
| "coalesced pending (item # items) =
     (let (ready, pending') = coalesce_group_changes pending item in ready @ coalesced pending' items)"

text \<open>The reference: cut the items into runs, and make every run one item.\<close>

function merge_runs :: "('x, 'm) chat_item_scheme list \<Rightarrow> ('x, 'm) chat_item_scheme list" where
  "merge_runs [] = []"
| "merge_runs (item # items) =
     (if group_change_updates item = None then item # merge_runs items
      else foldl absorb item (takeWhile (same_group_change_run item) items) #
           merge_runs (dropWhile (same_group_change_run item) items))"
  by pat_completeness auto
termination by (relation "measure length") (auto simp: le_imp_less_Suc length_dropWhile_le)

lemma absorb_keeps [simp]:
  "ci_chat_id (absorb h i) = ci_chat_id h" "ci_author_id (absorb h i) = ci_author_id h"
  "ci_date_sent (absorb h i) = ci_date_sent h"
  by (simp_all add: absorb_def split: option.split)

lemma absorb_run [simp]: "same_group_change_run (absorb h i) = same_group_change_run h"
  by (simp add: same_group_change_run_def fun_eq_iff)

lemma absorb_updates:
  assumes "group_change_updates h = Some a" "group_change_updates i = Some b"
  shows "group_change_updates (absorb h i) = Some (a @ b)"
  using assms by (simp add: absorb_def group_change_updates_def)

lemma absorb_None [simp]: "group_change_updates (absorb h i) = None \<longleftrightarrow> group_change_updates h = None"
  by (auto simp: absorb_def group_change_updates_def split: option.split chat_item_kind.split)

lemma run_updates: "same_group_change_run h i \<Longrightarrow> \<exists>b. group_change_updates i = Some b"
  by (auto simp: same_group_change_run_def)

lemma coalesced_held:
  "group_change_updates h \<noteq> None \<Longrightarrow>
   coalesced (Some h) items =
     foldl absorb h (takeWhile (same_group_change_run h) items) #
     coalesced None (dropWhile (same_group_change_run h) items)"
proof (induction items arbitrary: h)
  case (Cons i items)
  show ?case
  proof (cases "same_group_change_run h i")
    case True
    then obtain a b where "group_change_updates h = Some a" "group_change_updates i = Some b"
      using Cons.prems run_updates by blast
    then show ?thesis
      using True Cons.IH [of "absorb h i"] by (simp add: coalesce_group_changes_def absorb_updates)
  qed (auto simp: coalesce_group_changes_def Let_def)
qed simp

lemma coalesced_merges: "coalesced None items = merge_runs items"
proof (induction items rule: merge_runs.induct)
  case (2 i items)
  then show ?case by (simp add: coalesce_group_changes_def coalesced_held)
qed simp

text \<open>What an item says: its updates one by one, under the chat, author and time they are stored by.\<close>

definition item_stream :: "('x, 'm) chat_item_scheme \<Rightarrow> ((u64 \<times> u64 \<times> u64) \<times> (backup_update option + 'x chat_item_kind)) list" where
  "item_stream i = map (Pair (ci_chat_id i, ci_author_id i, ci_date_sent i))
     (case group_change_updates i of Some us \<Rightarrow> map Inl us | None \<Rightarrow> [Inr (ci_item i)])"

lemma absorb_stream:
  assumes "group_change_updates h \<noteq> None" "same_group_change_run h i"
  shows "item_stream (absorb h i) = item_stream h @ item_stream i"
proof -
  obtain a b where "group_change_updates h = Some a" "group_change_updates i = Some b"
    using assms run_updates by blast
  then show ?thesis
    using assms(2) by (simp add: item_stream_def absorb_updates same_group_change_run_def)
qed

lemma fold_absorb_stream:
  "group_change_updates h \<noteq> None \<Longrightarrow> \<forall>i \<in> set run. same_group_change_run h i \<Longrightarrow>
   item_stream (foldl absorb h run) = item_stream h @ concat (map item_stream run)"
proof (induction run arbitrary: h)
  case (Cons i run)
  then show ?case by (subst foldl_Cons) (simp add: Cons.IH absorb_stream)
qed simp

lemma fold_absorb_run [simp]:
  "same_group_change_run (foldl absorb h run) = same_group_change_run h"
  by (induction run arbitrary: h) simp_all

lemma merge_runs_stream: "concat (map item_stream (merge_runs items)) = concat (map item_stream items)"
proof (induction items rule: merge_runs.induct)
  case (2 i items)
  let ?run = "takeWhile (same_group_change_run i) items"
  show ?case
  proof (cases "group_change_updates i = None")
    case False
    then have "item_stream (foldl absorb i ?run) = item_stream i @ concat (map item_stream ?run)"
      by (rule fold_absorb_stream) (auto dest: set_takeWhileD)
    moreover have "concat (map item_stream items) = concat (map item_stream ?run) @
        concat (map item_stream (dropWhile (same_group_change_run i) items))"
      by (simp flip: concat_append map_append)
    ultimately show ?thesis using False 2 by simp
  qed (use 2 in simp)
qed simp

definition run_ended :: "('x, 'm) chat_item_scheme \<Rightarrow> ('x, 'm) chat_item_scheme \<Rightarrow> bool" where
  "run_ended i j \<longleftrightarrow> group_change_updates i = None \<or> \<not> same_group_change_run i j"

lemma run_absorb [simp]: "same_group_change_run h (absorb i j) = same_group_change_run h i"
  by (simp add: same_group_change_run_def)

lemma run_fold_absorb [simp]: "same_group_change_run h (foldl absorb i run) = same_group_change_run h i"
  by (induction run arbitrary: i) simp_all

lemma hd_merge_runs_run:
  "items \<noteq> [] \<Longrightarrow> merge_runs items \<noteq> [] \<and>
     same_group_change_run h (hd (merge_runs items)) = same_group_change_run h (hd items)"
  by (cases items) simp_all

lemma merge_runs_maximal: "successively run_ended (merge_runs items)"
proof (induction items rule: merge_runs.induct)
  case (2 i items)
  let ?rest = "dropWhile (same_group_change_run i) items"
  show ?case
  proof (cases "group_change_updates i = None")
    case True
    then show ?thesis using 2 by (auto simp: successively_Cons run_ended_def)
  next
    case False
    have rest: "?rest = [] \<or> \<not> same_group_change_run i (hd (merge_runs ?rest))"
      using hd_merge_runs_run [of ?rest i] hd_dropWhile [of "same_group_change_run i" items] by blast
    have "successively run_ended (merge_runs ?rest)" using False 2 by simp
    moreover obtain us where "group_change_updates i = Some us" using False by blast
    ultimately show ?thesis using rest
      by (auto simp: successively_Cons run_ended_def simp del: dropWhile_eq_Nil_conv)
  qed
qed simp

text \<open>C40. Holding group changes back one at a time makes every run of one change a single item. The
  import, whose coalescing sees one item after the other and keeps at most one of them, imports
  exactly the runs of the list, each merged into its first item; no update and no other item
  is lost, duplicated, moved or given another chat, author or time; and two neighbours of
  the result never belong to one change, so that the rows they become do not overwrite each
  other.\<close>

theorem coalescing_merges_runs:
  "coalesced None items = merge_runs items \<and>
   concat (map item_stream (coalesced None items)) = concat (map item_stream items) \<and>
   successively run_ended (coalesced None items)"
  by (simp add: coalesced_merges merge_runs_stream merge_runs_maximal)

end
