(* ===== verification/Backup_Import.thy ===== *)
theory Backup_Import
  imports Backup_Items Backup_Laws Sync
begin

text \<open>
  The import of a backup (\<open>presage/src/manager/registered.rs\<close>): the frames of \<open>import_from_file\<close>, the
  rows and restored state of one chat item (\<open>import_chat_item\<close>), our own profile and avatar.
  The frames are what libsignal's reader yields, each perhaps an error. The \<open>restore_backup_*\<close> hooks and
  \<open>save_message_received_at\<close> are methods a store may override and so operations of \<open>import_env\<close>.
\<close>

section \<open>Frames\<close>

datatype frame =
    FrameAccount account_data
  | FrameRecipient backup_recipient
  | FrameChat backup_chat
  | FrameChatItem backup_item
  | FrameStickerPack bytes bytes
  | FrameOther

record ('w, 'e, 'a, 'k, 'x) import_env =
  ie_account :: "('w, 'e) account_env"
  ie_codec :: "('a, 'k, 'x) import_codec"
  ie_call_codec :: call_codec
  ie_aci :: uuid
  ie_profile_key :: key32
  ie_name_is_empty :: "profile_name \<Rightarrow> bool"
  ie_save_received_at :: "thread \<Rightarrow> content \<Rightarrow> u64 \<Rightarrow> ('w, 'e, unit) io"
  ie_restore_state :: "thread \<Rightarrow> u64 \<Rightarrow> bool option \<Rightarrow> (string \<times> backup_send_status \<times> u64) list \<Rightarrow> ('w, 'e, unit) io"
  ie_restore_edit :: "thread \<Rightarrow> u64 \<Rightarrow> service_id \<Rightarrow> u64 \<Rightarrow> ('w, 'e, unit) io"
  ie_restore_pin :: "thread \<Rightarrow> u64 \<Rightarrow> service_id \<Rightarrow> u64 \<Rightarrow> u64 option \<Rightarrow> ('w, 'e, unit) io"
  ie_save_profile :: "uuid \<Rightarrow> key32 \<Rightarrow> profile \<Rightarrow> ('w, 'e, unit) io"
  ie_download_avatar :: "uuid \<Rightarrow> key32 \<Rightarrow> string \<Rightarrow> ('w, 'e error, unit) io"

abbreviation ie_store :: "('w, 'e, 'a, 'k, 'x) import_env \<Rightarrow> ('w, 'e) store_ops" where
  "ie_store E \<equiv> ae_store (ie_account E)"

section \<open>One chat item\<close>

definition import_row :: "('w, 'e, 'a, 'k, 'x) import_env \<Rightarrow> imported_content \<Rightarrow> ('w, 'e error, unit) io" where
  "import_row E row =
     (let call_info = extract_call_event (ie_call_codec E) (ct_body (imp_content row));
          call_peer = peer_from_thread (imp_thread row) in
      thenE (st (ie_save_received_at E (imp_thread row) (imp_content row) (imp_received_at_ms row)))
        (case (call_info, call_peer) of
           (Some info, Some peer) \<Rightarrow>
             bindE (st (ingest_call_event (ie_store E) (ie_call_codec E) info peer)) (\<lambda>_. ok ())
         | _ \<Rightarrow> ok ()))"

text \<open>The rows, then what is restored on them; the number of rows and the edit, if any, for the caller.\<close>

definition restore_item ::
  "('w, 'e, 'a, 'k, 'x) import_env \<Rightarrow> recipients \<Rightarrow> chats \<Rightarrow> backup_item \<Rightarrow> 'w \<Rightarrow> 'w" where
  "restore_item E recipients chats i w =
     (let w1 = for_each_ignore (chat_item_backup_states (ie_codec E) i recipients chats) (\<lambda>s.
                 ie_restore_state E (bms_thread s) (bms_ts s) (bms_read s) (bms_send_states s)) w;
          w2 = (case chat_item_edit i recipients chats (ie_aci E) of
                  None \<Rightarrow> w1
                | Some e \<Rightarrow> snd (ie_restore_edit E (be_thread e) (be_ts e) (be_author e) (be_edited_at_ms e) w1))
      in case chat_item_pin i recipients chats (ie_aci E) of
           None \<Rightarrow> w2
         | Some p \<Rightarrow> snd (ie_restore_pin E (bp_thread p) (bp_ts p) (bp_author p) (bp_pinned_at_ms p)
                           (bp_expires_at_ms p) w2))"

definition import_chat_item ::
  "('w, 'e, 'a, 'k, 'x) import_env \<Rightarrow> recipients \<Rightarrow> chats \<Rightarrow> backup_item \<Rightarrow>
   ('w, 'e error, nat \<times> backup_edit list) io" where
  "import_chat_item E recipients chats i =
     (let contents = chat_item_to_contents (ie_codec E) i recipients chats (ie_aci E) in
      thenE (for_each contents (import_row E))
     (thenE (call (\<lambda>w. ((), restore_item E recipients chats i w)))
       (ok (length contents,
            case chat_item_edit i recipients chats (ie_aci E) of None \<Rightarrow> [] | Some e \<Rightarrow> [e]))))"

section \<open>The frames of a file\<close>

record import_state =
  bi_recipients :: recipients
  bi_chats :: chats
  bi_pending :: "backup_item option"
  bi_rows :: nat
  bi_edits :: "backup_edit list"
  bi_own_avatar_url :: "string option"

definition import_start :: import_state where
  "import_start =
     \<lparr>bi_recipients = Map.empty, bi_chats = Map.empty, bi_pending = None, bi_rows = 0, bi_edits = [],
      bi_own_avatar_url = None\<rparr>"

fun import_items ::
  "('w, 'e, 'a, 'k, 'x) import_env \<Rightarrow> backup_item list \<Rightarrow> import_state \<Rightarrow> ('w, 'e error, import_state) io" where
  "import_items E [] s = ok s"
| "import_items E (i # items) s =
     bindE (import_chat_item E (bi_recipients s) (bi_chats s) i) (\<lambda>(rows, edits).
       import_items E items (s\<lparr>bi_rows := bi_rows s + rows, bi_edits := bi_edits s @ edits\<rparr>))"

definition import_own_profile ::
  "('w, 'e, 'a, 'k, 'x) import_env \<Rightarrow> account_data \<Rightarrow> ('w, 'e error, string option) io" where
  "import_own_profile E a =
     (let profile = account_profile (ie_name_is_empty E) a in
      attempt (ie_save_profile E (ie_aci E) (ie_profile_key E) profile) (\<lambda>r.
        case r of
          Inr _ \<Rightarrow> ok (pf_avatar profile)
        | Inl _ \<Rightarrow> ok None))"

definition import_own_avatar :: "('w, 'e, 'a, 'k, 'x) import_env \<Rightarrow> string \<Rightarrow> 'w \<Rightarrow> 'w" where
  "import_own_avatar E url w = snd (ie_download_avatar E (ie_aci E) (ie_profile_key E) url w)"

text \<open>A contact as the backup knows it, merged under what is stored like a storage record.\<close>

definition import_contact ::
  "('w, 'e, 'a, 'k, 'x) import_env \<Rightarrow> contact \<Rightarrow> ('w, 'e error, unit) io" where
  "import_contact E contact0 =
     (let S = ie_store E; sid = Aci (c_uuid contact0) in
      bindE (attempt (contact_by_id S sid) (\<lambda>r.
          case r of
            Inr (Some existing) \<Rightarrow>
              bindE (attempt (contacts_needing_storage_sync S) (\<lambda>pending.
                  ok (case pending of Inr ids \<Rightarrow> sid \<in> set ids | Inl _ \<Rightarrow> False))) (\<lambda>has_pending_publish.
              bindE (pending_publish_intent (ie_account E) sid existing has_pending_publish) (\<lambda>pending.
                ok (fst (merge_contact_from_snapshot contact0 existing pending))))
          | _ \<Rightarrow> ok contact0)) (\<lambda>contact.
      ignore (save_contact S contact)
        (case contact_profile_key contact of
           None \<Rightarrow> ok ()
         | Some k \<Rightarrow> ignore (upsert_profile_key S (c_uuid contact) k) (ok ()))))"

definition import_recipient ::
  "('w, 'e, 'a, 'k, 'x) import_env \<Rightarrow> backup_recipient \<Rightarrow> import_state \<Rightarrow> ('w, 'e error, import_state) io" where
  "import_recipient E r s =
     (let s' = (case recipient_info r (ie_aci E) of
            None \<Rightarrow> s
          | Some (i, info) \<Rightarrow> s\<lparr>bi_recipients := (bi_recipients s)(i \<mapsto> info)\<rparr>) in
      case recipient_to_contact (im_contact_codec (ie_codec E)) r of
        Some contact \<Rightarrow> thenE (import_contact E contact) (ok s')
      | None \<Rightarrow>
          (case recipient_to_group r of
             Some (mk, g) \<Rightarrow> ignore (save_group (ie_store E) mk g) (ok s')
           | None \<Rightarrow> ok s'))"

definition import_frame ::
  "('w, 'e, 'a, 'k, 'x) import_env \<Rightarrow> frame \<Rightarrow> import_state \<Rightarrow> ('w, 'e error, import_state) io" where
  "import_frame E f s =
     (case f of
        FrameAccount a \<Rightarrow> bindE (import_own_profile E a) (\<lambda>url. ok (s\<lparr>bi_own_avatar_url := url\<rparr>))
      | FrameRecipient r \<Rightarrow> import_recipient E r s
      | FrameChat c \<Rightarrow>
          ok (case chat_to_thread c (bi_recipients s) of
                None \<Rightarrow> s
              | Some (i, t) \<Rightarrow> s\<lparr>bi_chats := (bi_chats s)(i \<mapsto> t)\<rparr>)
      | FrameChatItem i \<Rightarrow>
          let (ready, pending) = coalesce_group_changes (bi_pending s) i in
          import_items E ready (s\<lparr>bi_pending := pending\<rparr>)
      | FrameStickerPack pack_id pack_key \<Rightarrow>
          if \<not> is_sticker_pack_pointer pack_id pack_key then ok s
          else ignore (note_installed_sticker_pack (ie_store E) pack_id pack_key None) (ok s)
      | FrameOther \<Rightarrow> ok s)"

fun import_frames ::
  "('w, 'e, 'a, 'k, 'x) import_env \<Rightarrow> (string + frame) list \<Rightarrow> import_state \<Rightarrow> ('w, 'e error, import_state) io" where
  "import_frames E [] s = ok s"
| "import_frames E (Inl e # fs) s = err (BackupImportFailed e)"
| "import_frames E (Inr f # fs) s = bindE (import_frame E f s) (import_frames E fs)"

text \<open>The item held back when the file ends, then our avatar.\<close>

definition import_finish ::
  "('w, 'e, 'a, 'k, 'x) import_env \<Rightarrow> import_state \<Rightarrow> ('w, 'e error, backup_edit list) io" where
  "import_finish E s =
     bindE (import_items E (case bi_pending s of None \<Rightarrow> [] | Some i \<Rightarrow> [i]) (s\<lparr>bi_pending := None\<rparr>)) (\<lambda>s.
     thenE (case bi_own_avatar_url s of
              None \<Rightarrow> ok ()
            | Some url \<Rightarrow> call (\<lambda>w. ((), import_own_avatar E url w)))
       (ok (bi_edits s)))"

definition import_from_file ::
  "('w, 'e, 'a, 'k, 'x) import_env \<Rightarrow> (string + (string + frame) list) \<Rightarrow> ('w, 'e error, backup_edit list) io" where
  "import_from_file E opened =
     (case opened of
        Inl e \<Rightarrow> err (BackupImportFailed e)
      | Inr frames \<Rightarrow> bindE (import_frames E frames import_start) (import_finish E))"

end
