(* ===== verification/Backup_Item_Laws.thy ===== *)
theory Backup_Item_Laws
  imports Backup_Items Backup_Laws Call_Machine
begin

text \<open>
  What a converted item is worth: everything restored on a row finds that row, an edited message becomes
  its chain of edits, and a call settles where the backup left it.
\<close>

section \<open>Rows\<close>

definition at_ms :: "('a, 'k, 'e) import_codec \<Rightarrow> u64 \<Rightarrow> u64" where "at_ms I ts = opt_or 0 (im_millis I ts)"

abbreviation row_ts :: "imported_content \<Rightarrow> u64" where
  "row_ts row \<equiv> md_client_timestamp (ct_metadata (imp_content row))"

abbreviation row_sender :: "imported_content \<Rightarrow> service_id" where
  "row_sender row \<equiv> md_sender (ct_metadata (imp_content row))"

text \<open>Some row of the list is addressed by chat, author and sent time.\<close>

definition holds_row ::
  "('a, 'k, 'e) import_codec \<Rightarrow> imported_content list \<Rightarrow> thread \<Rightarrow> service_id \<Rightarrow> u64 \<Rightarrow> bool" where
  "holds_row I rows t author ts \<longleftrightarrow>
     list_ex (\<lambda>row. imp_thread row = t \<and> row_sender row = author \<and> row_ts row = at_ms I ts) rows"

lemma imported_metadata_sel [simp]:
  "md_sender (imported_metadata I s d ts) = s"
  "md_client_timestamp (imported_metadata I s d ts) = at_ms I ts"
  by (simp_all add: imported_metadata_def at_ms_def Let_def)

lemma dm_content_metadata [simp]:
  "md_sender (ct_metadata (dm_content I dm s t our ts)) = s"
  "md_client_timestamp (ct_metadata (dm_content I dm s t our ts)) = at_ms I ts"
  by (simp_all add: dm_content_def)

lemma the_version_sel [simp]:
  "ci_date_sent (the_version i) = ci_date_sent i" "ci_item (the_version i) = ci_item i"
  "ci_directional_details (the_version i) = ci_directional_details i"
  by (simp_all add: the_version_def)

lemma is_standard_the_version [simp]: "is_standard (the_version i) \<longleftrightarrow> is_standard i"
  by (simp add: is_standard_def)

lemma is_standardE:
  assumes "is_standard i" obtains sm where "ci_item i = OtherItem (StandardMessage sm)"
  using assms by (auto simp: is_standard_def split: chat_item_kind.splits other_item.splits)

lemma holds_main:
  "message_sender i R our = Some a \<Longrightarrow>
   holds_row I (wrap_dm_with_reactions I dm rs i t R our ts @ rest) t a ts"
  by (simp add: holds_row_def wrap_dm_with_reactions_def)

lemma holds_append: "holds_row I (xs @ ys) t a ts \<longleftrightarrow> holds_row I xs t a ts \<or> holds_row I ys t a ts"
  by (simp add: holds_row_def)

lemma contents_standard:
  "chats (ci_chat_id i) = Some t \<Longrightarrow> ci_item i = OtherItem (StandardMessage sm) \<Longrightarrow>
   chat_item_to_contents I i R chats our = standard_message_to_contents I sm i t R our (chat_item_sent_ms i)"
  by (simp add: chat_item_to_contents_def Let_def)

lemma contents_sticker:
  "chats (ci_chat_id i) = Some t \<Longrightarrow> ci_item i = OtherItem (StickerMessage sm) \<Longrightarrow>
   chat_item_to_contents I i R chats our = sticker_message_to_contents I sm i t R our (chat_item_sent_ms i)"
  by (simp add: chat_item_to_contents_def Let_def)

lemma holds_item:
  assumes "chats (ci_chat_id i) = Some t" "message_sender i R our = Some a"
    "is_standard i \<or> (\<exists>sm. ci_item i = OtherItem (StickerMessage sm))"
  shows "holds_row I (chat_item_to_contents I i R chats our) t a (chat_item_sent_ms i)"
  using assms(3)
proof
  assume "is_standard i"
  then obtain sm where "ci_item i = OtherItem (StandardMessage sm)" by (rule is_standardE)
  then show ?thesis
    by (simp add: contents_standard assms(1) standard_message_to_contents_def holds_main assms(2))
next
  assume "\<exists>sm. ci_item i = OtherItem (StickerMessage sm)"
  then obtain sm where "ci_item i = OtherItem (StickerMessage sm)" by blast
  then show ?thesis
    using holds_main [where rest = "[]" and t = t, OF assms(2)]
    by (simp add: contents_sticker assms(1) sticker_message_to_contents_def)
qed

section \<open>Edits\<close>

lemma edit_row_standard:
  "is_standard v \<Longrightarrow> \<exists>sm. ci_item v = OtherItem (StandardMessage sm) \<and>
   edit_row I t R our a (p, v) = Some
     \<lparr>imp_content = \<lparr>ct_metadata = imported_metadata I a (Aci our) (ci_date_sent v),
        ct_body = EditMessage \<lparr>em_target_sent_timestamp = Some (ci_date_sent p),
          em_data_message = Some (standard_data_message I sm R (ci_date_sent v))\<rparr>\<rparr>,
      imp_thread = t, imp_received_at_ms = arrival_ms v\<rparr>"
  by (erule is_standardE) (simp add: edit_row_def)

lemma edits_snd: "map snd (edits i) = drop 1 (ci_revisions i @ [the_version i])"
  by (cases "ci_revisions i") (simp_all add: edits_def)

lemma edits_fst: "map fst (edits i) = ci_revisions i"
  by (cases "ci_revisions i") (simp_all add: edits_def)

lemma edits_standard:
  assumes "is_standard i" "\<forall>v\<in>set (ci_revisions i). is_standard v" "(p, v) \<in> set (edits i)"
  shows "is_standard v"
proof -
  have "v \<in> set (map snd (edits i))" using assms(3) by force
  then show ?thesis unfolding edits_snd using assms(1,2) by (auto dest: in_set_dropD)
qed

lemma edit_rows_holds:
  assumes "message_sender i R our = Some a" "is_standard v" "(p, v) \<in> set (edits i)"
  shows "holds_row I (edit_rows I i t R our) t a (ci_date_sent v)"
proof -
  obtain row where r: "edit_row I t R our a (p, v) = Some row" "imp_thread row = t" "row_sender row = a"
    "row_ts row = at_ms I (ci_date_sent v)"
    using edit_row_standard [OF assms(2), of I t R our a p] by auto
  have "row \<in> set (edit_rows I i t R our)"
    using assms(1,3) r(1) by (force simp: edit_rows_def List.map_filter_def)
  with r show ?thesis by (auto simp: holds_row_def list_ex_iff)
qed

lemma last_edit: "ci_revisions i \<noteq> [] \<Longrightarrow> \<exists>p. (p, the_version i) \<in> set (edits i)"
proof -
  assume "ci_revisions i \<noteq> []"
  then have "the_version i \<in> set (map snd (edits i))" unfolding edits_snd by (cases "ci_revisions i") simp_all
  then show ?thesis by force
qed

lemma edit_has_row:
  assumes "message_sender i R our = Some a" "chats (ci_chat_id i) = Some t" "is_standard i"
    "list_all is_standard (ci_revisions i)" "(p, v) \<in> set (edits i)"
  shows "holds_row I (chat_item_to_contents I i R chats our) t a (ci_date_sent v)"
proof -
  have "is_standard v" using edits_standard assms(3-5) by (metis list_all_iff)
  from edit_rows_holds [OF assms(1) this assms(5), of I t] assms(2,3) show ?thesis
    by (auto elim!: is_standardE simp: contents_standard standard_message_to_contents_def holds_append)
qed

lemma states_have_rows:
  assumes "message_sender i R our = Some a" "is_standard i" "list_all is_standard (ci_revisions i)"
  shows "list_all (\<lambda>s. holds_row I (chat_item_to_contents I i R chats our) (bms_thread s) a (bms_ts s))
    (chat_item_backup_states I i R chats)"
proof (cases "chats (ci_chat_id i)")
  case None
  then show ?thesis by (simp add: chat_item_backup_states_def)
next
  case (Some t)
  let ?rows = "chat_item_to_contents I i R chats our"
  have main: "holds_row I ?rows t a (chat_item_sent_ms i)"
    using holds_item [of chats i t R our a I] Some assms by simp
  note edit = edit_has_row [where I = I and chats = chats, OF assms(1) Some assms(2,3)]
  have last: "holds_row I ?rows t a (ci_date_sent i)"
  proof (cases "ci_revisions i = []")
    case True
    with main show ?thesis by (simp add: chat_item_sent_ms_def first_version_def)
  next
    case False
    with last_edit obtain p where "(p, the_version i) \<in> set (edits i)" by blast
    from edit [OF this] show ?thesis by simp
  qed
  show ?thesis
    using main edit last assms Some
    by (auto simp: chat_item_backup_states_def chat_item_backup_state_def list_all_iff
        split: option.splits directional_details.splits)
qed


text \<open>An incoming message whose author the backup cannot resolve has no row, but its read state is restored.\<close>

lemma state_without_row:
  assumes "chats (ci_chat_id i) = Some t" "is_standard i" "is_incoming i" "message_sender i R our = None"
  shows "chat_item_to_contents I i R chats our = [] \<and> chat_item_backup_states I i R chats \<noteq> []"
proof -
  obtain sm where sm: "ci_item i = OtherItem (StandardMessage sm)" using assms(2) by (rule is_standardE)
  obtain ms r where d: "ci_directional_details i = Some (DirectionIncoming ms r)"
    using assms(3) by (auto simp: is_incoming_def split: option.splits directional_details.splits)
  show ?thesis
    using assms(1,4) sm d
    by (simp add: contents_standard standard_message_to_contents_def wrap_dm_with_reactions_def edit_rows_def
        chat_item_backup_states_def chat_item_backup_state_def)
qed

definition row_text :: "imported_content \<Rightarrow> string option" where
  "row_text row =
     (case ct_body (imp_content row) of
        DataMessage d \<Rightarrow> dm_body d
      | SynchronizeMessage (Some (SyncSent s)) _ \<Rightarrow> Option.bind (sent_message s) dm_body
      | EditMessage e \<Rightarrow> Option.bind (em_data_message e) dm_body
      | _ \<Rightarrow> None)"

definition row_target :: "imported_content \<Rightarrow> u64 option" where
  "row_target row = (case ct_body (imp_content row) of EditMessage e \<Rightarrow> em_target_sent_timestamp e | _ \<Rightarrow> None)"

lemma map_filter_total:
  "(\<And>x. x \<in> set xs \<Longrightarrow> f x = Some (g x)) \<Longrightarrow> List.map_filter f xs = map g xs"
  by (induction xs) simp_all

lemma dm_body_standard [simp]: "dm_body (standard_data_message I sm R ts) = map_option bt_body (sm_text sm)"
  by (simp add: standard_data_message_def)

lemma row_text_dm [simp]: "row_text \<lparr>imp_content = dm_content I dm s t our ts, imp_thread = t', imp_received_at_ms = m\<rparr> = dm_body dm"
  by (simp add: row_text_def dm_content_def)

text \<open>What an edit row is, for a text version.\<close>

lemma edit_row_is:
  assumes "is_standard v"
  obtains row where "edit_row I t R our a (p, v) = Some row" "imp_thread row = t" "row_sender row = a"
    "row_ts row = at_ms I (ci_date_sent v)" "imp_received_at_ms row = arrival_ms v"
    "row_target row = Some (ci_date_sent p)" "row_text row = standard_text v"
  using edit_row_standard [OF assms, of I t R our a p]
  by (fastforce simp: row_target_def row_text_def standard_text_def)

lemma edit_rows_are:
  assumes "message_sender i R our = Some a" "is_standard i" "list_all is_standard (ci_revisions i)"
  obtains g where "edit_rows I i t R our = map g (edits i)"
    "\<And>p v. (p, v) \<in> set (edits i) \<Longrightarrow> imp_thread (g (p, v)) = t \<and> row_sender (g (p, v)) = a \<and>
       row_ts (g (p, v)) = at_ms I (ci_date_sent v) \<and> imp_received_at_ms (g (p, v)) = arrival_ms v \<and>
       row_target (g (p, v)) = Some (ci_date_sent p) \<and> row_text (g (p, v)) = standard_text v"
proof
  let ?g = "\<lambda>e. the (edit_row I t R our a e)"
  have e: "edit_row I t R our a (p, v) = Some (?g (p, v)) \<and> imp_thread (?g (p, v)) = t \<and> row_sender (?g (p, v)) = a \<and>
       row_ts (?g (p, v)) = at_ms I (ci_date_sent v) \<and> imp_received_at_ms (?g (p, v)) = arrival_ms v \<and>
       row_target (?g (p, v)) = Some (ci_date_sent p) \<and> row_text (?g (p, v)) = standard_text v"
    if "(p, v) \<in> set (edits i)" for p v
  proof -
    have "is_standard v" using edits_standard assms(2,3) that by (metis list_all_iff)
    then show ?thesis by (rule edit_row_is [where p = p and I = I and t = t and R = R and our = our and a = a]) simp
  qed
  then show "imp_thread (?g (p, v)) = t \<and> row_sender (?g (p, v)) = a \<and>
       row_ts (?g (p, v)) = at_ms I (ci_date_sent v) \<and> imp_received_at_ms (?g (p, v)) = arrival_ms v \<and>
       row_target (?g (p, v)) = Some (ci_date_sent p) \<and> row_text (?g (p, v)) = standard_text v"
    if "(p, v) \<in> set (edits i)" for p v
    using that by blast
  show "edit_rows I i t R our = map ?g (edits i)"
    using assms(1) e by (auto simp: edit_rows_def intro!: map_filter_total)
qed

lemma map_fst_edits: "map (\<lambda>e. f (fst e)) (edits i) = map f (ci_revisions i)"
  by (metis (no_types, lifting) edits_fst map_eq_conv map_map o_apply)

lemma map_snd_edits: "map (\<lambda>e. f (snd e)) (edits i) = map f (drop 1 (ci_revisions i @ [the_version i]))"
  by (metis (no_types, lifting) edits_snd map_eq_conv map_map o_apply)

lemma versions_Cons: "ci_revisions i @ [the_version i] = first_version i # drop 1 (ci_revisions i @ [the_version i])"
  by (cases "ci_revisions i") (simp_all add: first_version_def)


section \<open>Calls\<close>

text \<open>The numbers of the generated enums read back.\<close>

definition call_numbers_ok :: "('a, 'k, 'e) import_codec \<Rightarrow> call_codec \<Rightarrow> bool" where
  "call_numbers_ok I K \<longleftrightarrow>
     (\<forall>t. type_try_from K (im_type_number I t) = Some t) \<and>
     (\<forall>d. direction_try_from K (im_direction_number I d) = Some d) \<and>
     (\<forall>v. event_try_from K (im_event_number I v) = Some v)"

text \<open>What the backup says became of a call.\<close>

definition missed_states :: "individual_call_state option list" where
  "missed_states = [Some IndividualCall_Missed, Some IndividualCall_MissedNotificationProfile,
     Some IndividualCall_NotAccepted]"

definition group_missed_states :: "group_call_state option list" where
  "group_missed_states = [Some GroupCall_Missed, Some GroupCall_MissedNotificationProfile, Some GroupCall_Declined]"

definition group_joined_states :: "group_call_state option list" where
  "group_joined_states = [Some GroupCall_Joined, Some GroupCall_Accepted]"

text \<open>The call history after the row of a call: one entry, which importing the row again does not change.\<close>

definition settles_as ::
  "call_codec \<Rightarrow> imported_content list \<Rightarrow> thread \<Rightarrow> u64 \<Rightarrow> u64 \<Rightarrow> (call_history_entry \<Rightarrow> bool) \<Rightarrow> bool" where
  "settles_as K rows t cid ts P \<longleftrightarrow>
     (\<exists>row info peer e. rows = [row] \<and> imp_thread row = t \<and> imp_received_at_ms row = ts \<and>
        extract_call_event K (ct_body (imp_content row)) = Some info \<and> peer_from_thread t = Some peer \<and>
        transition_call_history None info (peer_id K peer) = Some e \<and>
        transition_call_history (Some e) info (peer_id K peer) = Some e \<and>
        ch_call_id e = cid \<and> ch_peer_id e = peer_id K peer \<and> ch_timestamp e = ts \<and> P e)"

definition call_row :: "('a, 'k, 'e) import_codec \<Rightarrow> proto_type \<Rightarrow> proto_direction \<Rightarrow> proto_event \<Rightarrow> u64 \<Rightarrow> bytes \<Rightarrow>
    uuid \<Rightarrow> thread \<Rightarrow> u64 \<Rightarrow> imported_content" where
  "call_row I ty d v cid conv our t ts =
     \<lparr>imp_content = call_content I
        \<lparr>ce_type = Some (im_type_number I ty), ce_direction = Some (im_direction_number I d),
         ce_event = Some (im_event_number I v), ce_call_id = Some cid, ce_conversation_id = Some conv,
         ce_timestamp = Some ts\<rparr> our ts,
      imp_thread = t, imp_received_at_ms = ts\<rparr>"

lemma extract_call_row:
  assumes "call_numbers_ok I K"
  shows "extract_call_event K (ct_body (imp_content (call_row I ty d v cid conv our t ts))) =
    Some \<lparr>ci_call_id = cid, ci_conversation_id = conv, ci_timestamp = ts,
      ci_mode = call_mode_of (case ty of P_AudioCall \<Rightarrow> Type_Audio | P_VideoCall \<Rightarrow> Type_Video
        | P_GroupCall \<Rightarrow> Type_Group | P_AdHocCall \<Rightarrow> Type_Adhoc | _ \<Rightarrow> Type_Unknown),
      ci_type = (case ty of P_AudioCall \<Rightarrow> Type_Audio | P_VideoCall \<Rightarrow> Type_Video
        | P_GroupCall \<Rightarrow> Type_Group | P_AdHocCall \<Rightarrow> Type_Adhoc | _ \<Rightarrow> Type_Unknown),
      ci_direction = (case d of P_Incoming \<Rightarrow> Incoming | P_Outgoing \<Rightarrow> Outgoing | _ \<Rightarrow> Direction_Unknown),
      ci_event = (case v of P_Accepted \<Rightarrow> Event_Accepted | P_NotAccepted \<Rightarrow> Event_NotAccepted
        | P_Delete \<Rightarrow> Event_Delete | P_Observed \<Rightarrow> Event_Observed | _ \<Rightarrow> Event_Unknown)\<rparr>"
  using assms
  by (simp add: call_numbers_ok_def call_row_def call_content_def extract_call_event_def call_type_of_def
      call_direction_of_def call_event_kind_of_def Let_def)

lemma call_row_sel [simp]:
  "imp_thread (call_row I ty d v cid conv our t ts) = t"
  "imp_received_at_ms (call_row I ty d v cid conv our t ts) = ts"
  by (simp_all add: call_row_def)

lemma direct_row_settles:
  assumes "call_numbers_ok I K" "d = P_Incoming \<or> d = P_Outgoing"
  shows "settles_as K [call_row I (if video then P_VideoCall else P_AudioCall) d
       (if missed then P_NotAccepted else P_Accepted) cid conv our (ContactThread peer) ts] (ContactThread peer) cid ts
     (\<lambda>e. ch_mode e = Mode_Direct \<and> ch_status e = StatusDirect (if missed then D_Missed else D_Accepted) \<and>
        ch_type e = (if video then Type_Video else Type_Audio) \<and>
        ch_direction e = (if d = P_Outgoing then Outgoing else Incoming))"
  using assms(2) unfolding settles_as_def extract_call_row [OF assms(1)] 
  by (cases missed; cases video)
     (auto simp: extract_call_row [OF assms(1)] transition_call_history_def transition_direct_def merged_entry_def anchored_ts_def direct_next_def
        prev_direct_status_def)

lemma group_row_settles:
  assumes "call_numbers_ok I K" "d = P_Incoming \<or> d = P_Outgoing" "v \<in> {P_Accepted, P_NotAccepted, P_Observed}"
  shows "settles_as K [call_row I P_GroupCall d v cid conv our (GroupThread mk) ts] (GroupThread mk) cid ts
     (\<lambda>e. ch_mode e = Mode_Group \<and> ch_type e = Type_Group \<and>
        ch_status e = StatusGroup (if v = P_Accepted then G_Joined
          else if v = P_NotAccepted \<and> ch_direction e = Incoming then G_Missed else G_Generic))"
  using assms(2,3) unfolding settles_as_def extract_call_row [OF assms(1)]
  by (auto simp: extract_call_row [OF assms(1)] transition_call_history_def transition_group_def merged_entry_def anchored_ts_def group_next_def
        prev_group_status_def)

lemma individual_call_row:
  assumes "ic_call_id c = Some cid"
  shows "individual_call_to_contents I c (ContactThread peer) our ts =
    [call_row I (if im_individual_type I (ic_type c) = Some IndividualCall_VideoCall then P_VideoCall else P_AudioCall)
       (if im_individual_direction I (ic_direction c) = Some IndividualCall_Outgoing then P_Outgoing else P_Incoming)
       (if im_individual_state I (ic_state c) \<in> set missed_states then P_NotAccepted else P_Accepted)
       cid (uuid_bytes (raw_uuid peer)) our (ContactThread peer)
       (if ic_started_call_timestamp c \<noteq> 0 then ic_started_call_timestamp c else ts)]"
  using assms
  by (auto simp: individual_call_to_contents_def call_row_def missed_states_def Let_def
      split: option.split individual_call_type.split individual_call_direction.split individual_call_state.split)

lemma group_call_row:
  assumes "gcl_call_id g = Some cid"
  obtains d where "d = P_Incoming \<or> d = P_Outgoing"
    "group_call_to_contents I g (GroupThread mk) R our ts =
      [call_row I P_GroupCall d
        (if im_group_state I (gcl_state g) \<in> set group_joined_states then P_Accepted
         else if im_group_state I (gcl_state g) \<in> set group_missed_states then P_NotAccepted else P_Observed)
        cid (im_group_identifier I mk) our (GroupThread mk)
        (if gcl_started_call_timestamp g \<noteq> 0 then gcl_started_call_timestamp g else ts)]"
proof
  let ?us = "case Option.bind (Option.bind (gcl_started_call_recipient_id g) (resolved R)) sid_aci of
      Some a \<Rightarrow> a = our | None \<Rightarrow> opt_or GroupCall_Generic (im_group_state I (gcl_state g)) = GroupCall_OutgoingRing"
  let ?d = "if ?us then P_Outgoing else P_Incoming"
  show "?d = P_Incoming \<or> ?d = P_Outgoing" by simp
  show "group_call_to_contents I g (GroupThread mk) R our ts =
      [call_row I P_GroupCall ?d
        (if im_group_state I (gcl_state g) \<in> set group_joined_states then P_Accepted
         else if im_group_state I (gcl_state g) \<in> set group_missed_states then P_NotAccepted else P_Observed)
        cid (im_group_identifier I mk) our (GroupThread mk)
        (if gcl_started_call_timestamp g \<noteq> 0 then gcl_started_call_timestamp g else ts)]"
    using assms unfolding group_call_to_contents_def call_row_def group_joined_states_def group_missed_states_def Let_def
    by (cases "im_group_state I (gcl_state g)") (simp_all split: group_call_state.split)
qed


section \<open>A sample\<close>

definition sample_import_codec :: "(bytes, unit, unit) import_codec" where
  "sample_import_codec =
     \<lparr>im_codec = sample_codec, im_contact_codec = sample_contact_codec, im_millis = Some, im_default_device = 1,
      im_flag_voice_message = 1, im_flag_borderless = 2, im_flag_gif = 8, im_flag_expiration_timer_update = 2,
      im_attachment_flag = (\<lambda>n. if n = 3 then Some AttachmentFlag_Gif else None),
      im_individual_type = (\<lambda>n. if n = 2 then Some IndividualCall_VideoCall else None),
      im_individual_direction = (\<lambda>n. if n = 2 then Some IndividualCall_Outgoing else None),
      im_individual_state = (\<lambda>n. if n = 3 then Some IndividualCall_Missed else None),
      im_group_state = (\<lambda>n. if n = 2 then Some GroupCall_Joined else None),
      im_type_number = (\<lambda>t. case t of P_UnknownType \<Rightarrow> 0 | P_AudioCall \<Rightarrow> 1 | P_VideoCall \<Rightarrow> 2
        | P_GroupCall \<Rightarrow> 3 | P_AdHocCall \<Rightarrow> 4),
      im_direction_number = (\<lambda>d. case d of P_UnknownDirection \<Rightarrow> 0 | P_Incoming \<Rightarrow> 1 | P_Outgoing \<Rightarrow> 2),
      im_event_number = (\<lambda>v. case v of P_UnknownEvent \<Rightarrow> 0 | P_Accepted \<Rightarrow> 1 | P_NotAccepted \<Rightarrow> 2 | P_Delete \<Rightarrow> 3
        | P_Observed \<Rightarrow> 4 | P_OtherEvent \<Rightarrow> 5),
      im_group_identifier = key32_bytes, im_group_operations = (\<lambda>_. sample_ops),
      im_parse_invitee = sample_parse_binary, im_draw = (\<lambda>_. ())\<rparr>"

definition numbered_call_codec :: call_codec where
  "numbered_call_codec =
     \<lparr>type_try_from = (\<lambda>n. if n = 0 then Some P_UnknownType else if n = 1 then Some P_AudioCall
        else if n = 2 then Some P_VideoCall else if n = 3 then Some P_GroupCall else Some P_AdHocCall),
      direction_try_from = (\<lambda>n. if n = 0 then Some P_UnknownDirection else if n = 1 then Some P_Incoming else Some P_Outgoing),
      event_try_from = (\<lambda>n. if n = 0 then Some P_UnknownEvent else if n = 1 then Some P_Accepted
        else if n = 2 then Some P_NotAccepted else if n = 3 then Some P_Delete else if n = 4 then Some P_Observed
        else Some P_OtherEvent),
      sha256 = (\<lambda>b. b), uuid_to_string = (\<lambda>u. map byte_char (uuid_bytes u)), hex_encode = map byte_char\<rparr>"

lemma sample_numbers_ok: "call_numbers_ok sample_import_codec numbered_call_codec"
  by (simp add: call_numbers_ok_def sample_import_codec_def numbered_call_codec_def
      split: proto_type.split proto_direction.split proto_event.split)

definition sample_missed_call :: individual_call where
  "sample_missed_call = \<lparr>ic_call_id = Some 77, ic_type = 2, ic_direction = 1, ic_state = 3, ic_started_call_timestamp = 500\<rparr>"

definition sample_group_call :: group_call where
  "sample_group_call = \<lparr>gcl_call_id = Some 78, gcl_state = 2, gcl_started_call_recipient_id = None, gcl_started_call_timestamp = 0\<rparr>"


text \<open>A text message received from one contact and edited twice.\<close>

definition sample_says :: "string \<Rightarrow> standard_message" where
  "sample_says s =
     \<lparr>sm_text = Some \<lparr>bt_body = s, bt_body_ranges = []\<rparr>, sm_attachments = [], sm_quote = None, sm_link_preview = [],
      sm_reactions = []\<rparr>"

definition sample_version :: "string \<Rightarrow> u64 \<Rightarrow> item_version" where
  "sample_version s ts =
     \<lparr>ci_chat_id = 3, ci_author_id = 7, ci_date_sent = ts, ci_item = OtherItem (StandardMessage (sample_says s)),
      ci_directional_details = Some (DirectionIncoming (ts + 1) True)\<rparr>"

definition sample_edited_item :: backup_item where
  "sample_edited_item =
     \<lparr>ci_chat_id = 3, ci_author_id = 7, ci_date_sent = 300, ci_item = OtherItem (StandardMessage (sample_says ''third'')),
      ci_directional_details = Some (DirectionIncoming 301 True),
      ci_revisions = [sample_version ''first'' 100, sample_version ''second'' 200], ci_pin_details = None\<rparr>"

definition sample_recipients :: recipients where
  "sample_recipients = [7 \<mapsto> \<lparr>ri_service_id = Some (Aci (sample_uuid 1)), ri_group_master_key = None\<rparr>]"

definition sample_chats :: chats where "sample_chats = [3 \<mapsto> ContactThread (Aci (sample_uuid 1))]"

lemma sample_item_sel [simp]:
  "ci_chat_id sample_edited_item = 3" "ci_item sample_edited_item = OtherItem (StandardMessage (sample_says ''third''))"
  "message_sender sample_edited_item sample_recipients our = Some (Aci (sample_uuid 1))"
  "sample_chats 3 = Some (ContactThread (Aci (sample_uuid 1)))"
  "is_standard sample_edited_item" "list_all is_standard (ci_revisions sample_edited_item)"
  by (simp_all add: sample_edited_item_def sample_chats_def message_sender_def resolved_def sample_recipients_def
      is_standard_def sample_version_def)



end
