(* ===== verification/Backup_Import_Laws.thy ===== *)
theory Backup_Import_Laws
  imports Backup_Import Backup_Item_Laws Sample_Account
begin

text \<open>
  The import as a whole: the chat items of a file, merged into runs, each become their rows, in order
  and once, whatever fails beside the saving of rows.
\<close>

section \<open>A store that keeps a log of what it is given\<close>

type_synonym row = "thread \<times> content \<times> u64"

definition the_row :: "imported_content \<Rightarrow> row" where
  "the_row r = (imp_thread r, imp_content r, imp_received_at_ms r)"

text \<open>Saving a row and the call history works; the other hooks may fail, but touch no row.\<close>

definition logs :: "('w, 'e, 'a, 'k, 'x) import_env \<Rightarrow> ('w \<Rightarrow> row list) \<Rightarrow> bool" where
  "logs E log \<longleftrightarrow>
     (\<forall>t c ms w. \<exists>w'. ie_save_received_at E t c ms w = (Inr (), w') \<and> log w' = log w @ [(t, c, ms)]) \<and>
     (\<forall>i w. \<exists>h w'. get_call_history (ie_store E) i w = (Inr h, w') \<and> log w' = log w) \<and>
     (\<forall>h w. \<exists>w'. save_call_history (ie_store E) h w = (Inr (), w') \<and> log w' = log w) \<and>
     (\<forall>t ts r ss w. log (snd (ie_restore_state E t ts r ss w)) = log w) \<and>
     (\<forall>t ts a ms w. log (snd (ie_restore_edit E t ts a ms w)) = log w) \<and>
     (\<forall>t ts a p x w. log (snd (ie_restore_pin E t ts a p x w)) = log w) \<and>
     (\<forall>u k url w. log (snd (ie_download_avatar E u k url w)) = log w)"

lemma logsD:
  assumes "logs E log"
  shows "\<exists>w'. ie_save_received_at E t c ms w = (Inr (), w') \<and> log w' = log w @ [(t, c, ms)]"
    "\<exists>h w'. get_call_history (ie_store E) i w = (Inr h, w') \<and> log w' = log w"
    "\<exists>w'. save_call_history (ie_store E) h w = (Inr (), w') \<and> log w' = log w"
    "log (snd (ie_restore_state E t ts r ss w)) = log w" "log (snd (ie_restore_edit E t ts a ms w)) = log w"
    "log (snd (ie_restore_pin E t ts a p x w)) = log w" "log (snd (ie_download_avatar E u k url w)) = log w"
  using assms by (simp_all add: logs_def)

lemma ingest_logs:
  assumes "logs E log"
  shows "\<exists>r w'. ingest_call_event (ie_store E) K info peer w = (Inr r, w') \<and> log w' = log w"
proof -
  obtain h w1 where h: "get_call_history (ie_store E) (ci_call_id info) w = (Inr h, w1)" "log w1 = log w"
    using logsD(2) [OF assms] by blast
  show ?thesis
  proof (cases "transition_call_history h info (peer_id K peer)")
    case None
    with h show ?thesis by (simp add: ingest_call_event_def io_simps)
  next
    case (Some e)
    obtain w2 where "save_call_history (ie_store E) e w1 = (Inr (), w2)" "log w2 = log w1"
      using logsD(3) [OF assms] by blast
    with Some h show ?thesis by (simp add: ingest_call_event_def io_simps)
  qed
qed

lemma import_row_logs:
  assumes "logs E log"
  shows "\<exists>w'. import_row E row w = (Inr (), w') \<and> log w' = log w @ [the_row row]"
proof -
  obtain w1 where w1: "ie_save_received_at E (imp_thread row) (imp_content row) (imp_received_at_ms row) w = (Inr (), w1)"
    "log w1 = log w @ [the_row row]"
    using logsD(1) [OF assms] by (metis the_row_def)
  show ?thesis
  proof (cases "extract_call_event (ie_call_codec E) (ct_body (imp_content row))")
    case None
    with w1 show ?thesis by (simp add: import_row_def Let_def st_def io_simps)
  next
    case (Some info)
    obtain peer where p: "peer_from_thread (imp_thread row) = Some peer" by (cases "imp_thread row") simp_all
    obtain r w2 where "ingest_call_event (ie_store E) (ie_call_codec E) info peer w1 = (Inr r, w2)" "log w2 = log w1"
      using ingest_logs [OF assms] by blast
    with w1 Some p show ?thesis by (simp add: import_row_def Let_def st_def io_simps)
  qed
qed

lemma import_rows_log:
  assumes "logs E log"
  shows "\<exists>w'. for_each rows (import_row E) w = (Inr (), w') \<and> log w' = log w @ map the_row rows"
proof (induction rows arbitrary: w)
  case (Cons row rows)
  obtain w1 where "import_row E row w = (Inr (), w1)" "log w1 = log w @ [the_row row]"
    using import_row_logs [OF assms] by blast
  with Cons.IH [of w1] show ?case by (auto simp: io_simps)
qed (simp add: io_simps)

lemma for_each_ignore_log:
  "(\<And>x w. log (snd (f x w)) = log w) \<Longrightarrow> log (for_each_ignore xs f w) = log w"
  by (induction xs arbitrary: w) simp_all

lemma restore_item_log: "logs E log \<Longrightarrow> log (restore_item E R C i w) = log w"
  by (simp add: restore_item_def Let_def logsD for_each_ignore_log split: option.split)

section \<open>Items\<close>

definition item_rows :: "('w, 'e, 'a, 'k, 'x) import_env \<Rightarrow> recipients \<Rightarrow> chats \<Rightarrow> backup_item \<Rightarrow> row list" where
  "item_rows E R C i = map the_row (chat_item_to_contents (ie_codec E) i R C (ie_aci E))"

definition item_edits :: "('w, 'e, 'a, 'k, 'x) import_env \<Rightarrow> recipients \<Rightarrow> chats \<Rightarrow> backup_item \<Rightarrow> backup_edit list" where
  "item_edits E R C i = (case chat_item_edit i R C (ie_aci E) of None \<Rightarrow> [] | Some e \<Rightarrow> [e])"

lemma import_chat_item_logs:
  assumes "logs E log"
  shows "\<exists>w'. import_chat_item E R C i w =
      (Inr (length (item_rows E R C i), item_edits E R C i), w') \<and> log w' = log w @ item_rows E R C i"
proof -
  obtain w1 where "for_each (chat_item_to_contents (ie_codec E) i R C (ie_aci E)) (import_row E) w = (Inr (), w1)"
    "log w1 = log w @ item_rows E R C i"
    using import_rows_log [OF assms] unfolding item_rows_def by blast
  then show ?thesis
    using restore_item_log [OF assms, of R C i w1]
    by (simp add: import_chat_item_def item_rows_def item_edits_def Let_def io_simps call_def)
qed

definition counted_in :: "('w, 'e, 'a, 'k, 'x) import_env \<Rightarrow> backup_item list \<Rightarrow> import_state \<Rightarrow> import_state" where
  "counted_in E items s =
     s\<lparr>bi_rows := bi_rows s + length (concat (map (item_rows E (bi_recipients s) (bi_chats s)) items)),
       bi_edits := bi_edits s @ concat (map (item_edits E (bi_recipients s) (bi_chats s)) items)\<rparr>"

lemma counted_in_sel [simp]:
  "bi_recipients (counted_in E items s) = bi_recipients s" "bi_chats (counted_in E items s) = bi_chats s"
  "bi_pending (counted_in E items s) = bi_pending s"
  "bi_edits (counted_in E items s) =
     bi_edits s @ concat (map (item_edits E (bi_recipients s) (bi_chats s)) items)"
  by (simp_all add: counted_in_def)

lemma import_items_log:
  assumes "logs E log"
  shows "\<exists>w'. import_items E items s w = (Inr (counted_in E items s), w') \<and>
    log w' = log w @ concat (map (item_rows E (bi_recipients s) (bi_chats s)) items)"
proof (induction items arbitrary: s w)
  case (Cons i items)
  obtain w1 where w1: "import_chat_item E (bi_recipients s) (bi_chats s) i w =
      (Inr (length (item_rows E (bi_recipients s) (bi_chats s) i), item_edits E (bi_recipients s) (bi_chats s) i), w1)"
    "log w1 = log w @ item_rows E (bi_recipients s) (bi_chats s) i"
    using import_chat_item_logs [OF assms] by blast
  let ?s = "s\<lparr>bi_rows := bi_rows s + length (item_rows E (bi_recipients s) (bi_chats s) i),
    bi_edits := bi_edits s @ item_edits E (bi_recipients s) (bi_chats s) i\<rparr>"
  from Cons.IH [of ?s w1] w1 show ?case
    by (auto simp: io_simps counted_in_def ac_simps)
qed (simp add: counted_in_def io_simps)

lemma import_finish_log:
  assumes "logs E log"
  shows "\<exists>w'. import_finish E s w =
      (Inr (bi_edits (counted_in E (case bi_pending s of None \<Rightarrow> [] | Some i \<Rightarrow> [i]) s)), w') \<and>
    log w' = log w @ concat (map (item_rows E (bi_recipients s) (bi_chats s)) (case bi_pending s of None \<Rightarrow> [] | Some i \<Rightarrow> [i]))"
proof -
  let ?items = "case bi_pending s of None \<Rightarrow> [] | Some i \<Rightarrow> [i]" and ?s = "s\<lparr>bi_pending := None\<rparr>"
  obtain w1 where w1: "import_items E ?items ?s w = (Inr (counted_in E ?items ?s), w1)"
    "log w1 = log w @ concat (map (item_rows E (bi_recipients s) (bi_chats s)) ?items)"
    using import_items_log [OF assms, of ?items ?s w] by auto
  then show ?thesis
    by (cases "bi_own_avatar_url (counted_in E ?items ?s)")
       (simp_all add: import_finish_def io_simps call_def import_own_avatar_def logsD(7) [OF assms])
qed

section \<open>Files\<close>

lemma import_chat_items_log:
  assumes "logs E log"
  shows "\<exists>w'. bindE (import_frames E (map (Inr \<circ> FrameChatItem) items) s) (import_finish E) w =
      (Inr (bi_edits s @ concat (map (item_edits E (bi_recipients s) (bi_chats s)) (coalesced (bi_pending s) items))), w') \<and>
    log w' = log w @ concat (map (item_rows E (bi_recipients s) (bi_chats s)) (coalesced (bi_pending s) items))"
proof (induction items arbitrary: s w)
  case Nil
  from import_finish_log [OF assms, of s w] show ?case by (simp add: io_simps split: option.splits)
next
  case (Cons i items)
  obtain ready pending where c: "coalesce_group_changes (bi_pending s) i = (ready, pending)" by fastforce
  let ?s = "s\<lparr>bi_pending := pending\<rparr>"
  obtain w1 where w1: "import_items E ready ?s w = (Inr (counted_in E ready ?s), w1)"
    "log w1 = log w @ concat (map (item_rows E (bi_recipients s) (bi_chats s)) ready)"
    using import_items_log [OF assms, of ready ?s w] by auto
  from Cons.IH [of "counted_in E ready ?s" w1] c w1 show ?case
    by (auto simp: bindE_def import_frame_def Let_def)
qed

text \<open>Every other frame is taken as it is: none of them can fail the import or hold an item back.\<close>

lemma import_recipient_total: "\<exists>s' w'. import_recipient E r s w = (Inr s', w') \<and> bi_pending s' = bi_pending s"
proof -
  have c: "\<exists>w'. import_contact E c w = (Inr (), w')" for c w
    by (auto simp: import_contact_def pending_publish_intent_def Let_def io_simps split: prod.splits sum.splits option.splits)
  show ?thesis
  proof (cases "recipient_to_contact (im_contact_codec (ie_codec E)) r")
    case None
    then show ?thesis
      by (cases "recipient_to_group r") (auto simp: import_recipient_def Let_def io_simps split: option.splits prod.splits)
  next
    case (Some contact)
    moreover obtain w1 where "import_contact E contact w = (Inr (), w1)" using c by blast
    ultimately show ?thesis
      by (auto simp: import_recipient_def Let_def io_simps split: option.splits prod.splits)
  qed
qed

lemma import_other_frame:
  assumes "\<forall>i. f \<noteq> FrameChatItem i"
  shows "\<exists>s' w'. import_frame E f s w = (Inr s', w') \<and> bi_pending s' = bi_pending s"
proof (cases f)
  case (FrameRecipient r)
  then show ?thesis using import_recipient_total by (simp add: import_frame_def)
next
  case (FrameAccount a)
  then show ?thesis
    by (auto simp: import_frame_def import_own_profile_def Let_def io_simps split: prod.splits sum.splits)
next
  case (FrameStickerPack p k)
  then show ?thesis by (auto simp: import_frame_def io_simps split: prod.splits)
qed (use assms in \<open>auto simp: import_frame_def io_simps split: option.splits prod.splits\<close>)

lemma import_other_frames:
  assumes "\<forall>f\<in>set pre. \<forall>i. f \<noteq> FrameChatItem i"
  shows "\<exists>s' w'. import_frames E (map Inr pre) s w = (Inr s', w') \<and> bi_pending s' = bi_pending s"
  using assms
proof (induction pre arbitrary: s w)
  case (Cons f pre)
  obtain s1 w1 where "import_frame E f s w = (Inr s1, w1)" "bi_pending s1 = bi_pending s"
    using import_other_frame Cons.prems by (metis list.set_intros(1))
  with Cons show ?case by (fastforce simp: bindE_def)
qed (simp add: io_simps)

lemma import_frames_append:
  "import_frames E (fs @ gs) s = bindE (import_frames E fs s) (import_frames E gs)"
  by (rule ext, induction E fs s rule: import_frames.induct)
     (auto simp: io_simps split: prod.splits sum.splits)


section \<open>A sample\<close>

text \<open>The world is the log; states, edits, pins and the avatar cannot be restored.\<close>

definition log_account :: "(row list, unit) account_env" where
  "log_account =
     \<lparr>ae_store = inert_store, ae_master_key = ok None, ae_open = ok (), ae_manifest = err UnknownGroup,
      ae_manifest_if_changed = (\<lambda>v. ok None), ae_read_items = (\<lambda>_ _. ok []),
      ae_write_items = (\<lambda>_ _ _. ok ()), ae_random16 = (\<lambda>w. ([], w)), ae_now_ms = (\<lambda>w. (0, w)),
      ae_sleep = (\<lambda>_ w. w), ae_new_sender = ok (), ae_send_fetch_latest = ok (), ae_sync = ok (),
      ae_device = 1, ae_codec = sample_codec, ae_contact_codec = sample_contact_codec,
      ae_encode_contact = (\<lambda>_. []), ae_encode_group = (\<lambda>_. []), ae_encode_sticker = (\<lambda>_. []),
      ae_encode_folder = (\<lambda>_. []), ae_decode_sticker = (\<lambda>_. None)\<rparr>"

definition log_env :: "(row list, unit, bytes, unit, unit) import_env" where
  "log_env =
     \<lparr>ie_account = log_account, ie_codec = sample_import_codec, ie_call_codec = numbered_call_codec,
      ie_aci = sample_uuid 9, ie_profile_key = sample_key32 0, ie_name_is_empty = (\<lambda>n. pn_given_name n = []),
      ie_save_received_at = (\<lambda>t c ms w. (Inr (), w @ [(t, c, ms)])), ie_restore_state = (\<lambda>_ _ _ _. err ()),
      ie_restore_edit = (\<lambda>_ _ _ _. err ()), ie_restore_pin = (\<lambda>_ _ _ _ _. err ()),
      ie_save_profile = (\<lambda>_ _ _. err ()), ie_download_avatar = (\<lambda>_ _ _. err UnknownGroup)\<rparr>"

lemma log_env_logs: "logs log_env (\<lambda>w. w)"
  by (simp add: logs_def log_env_def log_account_def inert_store_def io_simps)

text \<open>A chat with ourselves, and a message in it that was edited twice.\<close>

definition sample_frames :: "frame list" where
  "sample_frames =
     [FrameRecipient \<lparr>rp_id = 7, rp_destination = Some DestinationSelf\<rparr>,
      FrameChat \<lparr>bch_id = 3, bch_recipient_id = 7\<rparr>, FrameStickerPack [] []]"

lemma sample_frames_import:
  "import_frames log_env (map Inr sample_frames) import_start [] =
    (Inr (import_start\<lparr>bi_recipients := [7 \<mapsto> \<lparr>ri_service_id = Some (Aci (sample_uuid 9)), ri_group_master_key = None\<rparr>],
       bi_chats := [3 \<mapsto> ContactThread (Aci (sample_uuid 9))]\<rparr>), [])"
  by (simp add: sample_frames_def import_frame_def import_recipient_def recipient_info_def recipient_to_contact_def
      recipient_to_group_def chat_to_thread_def import_start_def log_env_def is_sticker_pack_pointer_def STICKER_PACK_ID_LEN_def io_simps)


end
