(* ===== verification/Group_Laws.thy ===== *)
theory Group_Laws
  imports Group_Service Io_Rules
begin

text \<open>
  Laws of theory Group_Service. \<open>contended_server\<close> states what the group server promises (a change is
  accepted exactly when it is numbered one above the server's revision) while other clients change
  the group as well; \<open>group_world\<close> adds the row of the group in the local store.
\<close>

section \<open>The server and the row\<close>

text \<open>
  \<open>rv\<close> is the server's revision of the group, \<open>races\<close> bounds how many changes of other clients are still
  to come in between. A change on top of the current revision is accepted, or another client's
  change got there first.
\<close>

definition contended_server ::
  "('w, 'e, 'g, 'a, 'c) group_env \<Rightarrow> key32 \<Rightarrow> ('w \<Rightarrow> u32) \<Rightarrow> ('w \<Rightarrow> nat) \<Rightarrow> ('w \<Rightarrow> bool) \<Rightarrow> bool" where
  "contended_server G mk rv races good \<longleftrightarrow>
     (\<forall>acts w r w'. good w \<longrightarrow> ge_patch G mk acts w = (r, w') \<longrightarrow> good w' \<and>
        (if act_version acts = rv w + 1
         then (\<exists>change. r = Inr change \<and> rv w' = act_version acts) \<or>
              r = Inl ServiceConflict \<and> races w' < races w
         else r = Inl ServiceConflict \<and> races w' \<le> races w)) \<and>
     (\<forall>w. good w \<longrightarrow> (\<exists>server w'. fetch_group G mk w = (Inr server, w') \<and> good w' \<and>
        sg_version server = rv w' \<and> races w' \<le> races w)) \<and>
     (\<forall>w. good w \<longrightarrow> (\<exists>w'. ge_manager G w = (Inr (), w') \<and> good w' \<and> rv w' = rv w \<and> races w' \<le> races w))"

lemma contended_serverD:
  assumes "contended_server G mk rv races good" "good w"
  shows "ge_patch G mk acts w = (r, w') \<Longrightarrow> good w'"
    "act_version acts = rv w + 1 \<Longrightarrow> ge_patch G mk acts w = (r, w') \<Longrightarrow>
      (\<exists>change. r = Inr change \<and> rv w' = act_version acts) \<or> r = Inl ServiceConflict \<and> races w' < races w"
    "act_version acts \<noteq> rv w + 1 \<Longrightarrow> ge_patch G mk acts w = (r, w') \<Longrightarrow>
      r = Inl ServiceConflict \<and> races w' \<le> races w"
    "\<exists>server w'. fetch_group G mk w = (Inr server, w') \<and> good w' \<and> sg_version server = rv w' \<and>
      races w' \<le> races w"
    "\<exists>w'. ge_manager G w = (Inr (), w') \<and> good w' \<and> rv w' = rv w \<and> races w' \<le> races w"
  using assms unfolding contended_server_def by (meson | presburger)+

text \<open>The number of conflicts ahead: one if the stored revision is behind, and one per race.\<close>

definition conflicts_ahead :: "('w \<Rightarrow> u32) \<Rightarrow> ('w \<Rightarrow> nat) \<Rightarrow> u32 \<Rightarrow> 'w \<Rightarrow> nat" where
  "conflicts_ahead rv races revision w = races w + (if revision = rv w then 0 else 1)"

definition builds :: "(u32 \<Rightarrow> 'e error + 'a actions) \<Rightarrow> bool" where
  "builds build \<longleftrightarrow> (\<forall>v. \<exists>acts. build v = Inr acts \<and> act_version acts = v)"

lemma buildsE:
  assumes "builds build"
  obtains acts where "build v = Inr acts" "act_version acts = v"
  using assms unfolding builds_def by blast

section \<open>Changes go through\<close>

lemma change_attempts_live:
  assumes C: "contended_server G mk rv races good" and B: "builds build"
  shows "good w \<Longrightarrow> conflicts_ahead rv races revision w \<le> left \<Longrightarrow>
    \<exists>change w'. change_attempts G mk build left revision w = (Inr (change, rv w'), w') \<and> good w'"
proof (induction left arbitrary: revision w)
  case 0
  then have r: "revision = rv w" "races w = 0" by (auto simp: conflicts_ahead_def split: if_splits)
  obtain acts where a: "build (revision + 1) = Inr acts" "act_version acts = revision + 1"
    using B by (rule buildsE)
  obtain res w' where p: "ge_patch G mk acts w = (res, w')" by fastforce
  have v: "act_version acts = rv w + 1" using a(2) r(1) by simp
  obtain change where "res = Inr change" "rv w' = revision + 1"
    using contended_serverD(2) [OF C \<open>good w\<close> v p] r(2) a(2) by auto
  then show ?case using a(1) p contended_serverD(1) [OF C \<open>good w\<close> p] by (simp add: bindE_Inr lift_res_def ok_def)
next
  case (Suc left)
  obtain acts where a: "build (revision + 1) = Inr acts" "act_version acts = revision + 1"
    using B by (rule buildsE)
  obtain res w1 where p: "ge_patch G mk acts w = (res, w1)" by fastforce
  note good1 = contended_serverD(1) [OF C \<open>good w\<close> p]
  consider (accepted) change where "res = Inr change" "rv w1 = revision + 1"
    | (conflict) "res = Inl ServiceConflict" "races w1 + 0 \<le> left"
  proof (cases "revision = rv w")
    case True
    then have v: "act_version acts = rv w + 1" using a by simp
    show ?thesis
      using contended_serverD(2) [OF C \<open>good w\<close> v p] Suc.prems True that a(2)
      by (auto simp: conflicts_ahead_def)
  next
    case False
    then have "act_version acts \<noteq> rv w + 1" using a by simp
    from contended_serverD(3) [OF C \<open>good w\<close> this p] Suc.prems False that show ?thesis
      by (auto simp: conflicts_ahead_def)
  qed
  then show ?case
  proof cases
    case accepted
    then show ?thesis using a p good1 by (auto simp: io_simps)
  next
    case conflict
    obtain server w2 where f: "fetch_group G mk w1 = (Inr server, w2)" "good w2"
      "sg_version server = rv w2" "races w2 \<le> races w1"
      using contended_serverD(4) [OF C good1] by blast
    then have "conflicts_ahead rv races (sg_version server) w2 \<le> left"
      using conflict by (simp add: conflicts_ahead_def)
    from Suc.IH [OF f(2) this] show ?thesis
      using a p conflict f by (auto simp: io_simps)
  qed
qed

lemma apply_group_change_live:
  assumes C: "contended_server G mk rv races good" and B: "builds build" and g: "good w"
    and n: "conflicts_ahead rv races revision w \<le> GROUP_UPDATE_CONFLICT_RETRIES"
  obtains ctx w' where "apply_group_change G mk revision build w = (Inr ctx, w')" "good w'"
    "gc_revision ctx = Some (rv w')" "gc_master_key ctx = Some (key32_bytes mk)"
proof -
  obtain w1 where m: "ge_manager G w = (Inr (), w1)" "good w1" "rv w1 = rv w" "races w1 \<le> races w"
    using contended_serverD(5) [OF C g] by blast
  then have "conflicts_ahead rv races revision w1 \<le> GROUP_UPDATE_CONFLICT_RETRIES"
    using n by (simp add: conflicts_ahead_def)
  from change_attempts_live [OF C B m(2) this] m(1) that show ?thesis
    by (auto simp: apply_group_change_def io_simps)
qed

section \<open>The actions of leaving\<close>

lemma res_collect_total: "(\<And>x. x \<in> set xs \<Longrightarrow> \<exists>y. f x = Inr y) \<Longrightarrow> \<exists>ys. res_collect (map f xs) = Inr ys"
proof (induction xs)
  case (Cons x xs)
  then obtain y ys where "f x = Inr y" "res_collect (map f xs) = Inr ys" by force
  then show ?case by simp
qed simp

text \<open>Encrypting an action for a well-formed id never fails.\<close>

definition ops_total :: "('a, 'c, 'e) group_ops \<Rightarrow> bool" where
  "ops_total ops \<longleftrightarrow>
     (\<forall>s. \<exists>a. build_remove_pending_member ops s = Inr a) \<and> (\<forall>u. \<exists>a. build_remove_member ops u = Inr a) \<and>
     (\<forall>u r. \<exists>a. build_modify_member_role ops u r = Inr a)"

lemma leave_actions_builds:
  assumes "ops_total ops"
  shows "builds (leave_actions ops self_aci pending_self promote)"
proof -
  obtain rp where rp: "build_remove_pending_member ops (Aci self_aci) = Inr rp"
    using assms unfolding ops_total_def by blast
  obtain rm where rm: "build_remove_member ops self_aci = Inr rm"
    using assms unfolding ops_total_def by blast
  obtain ps where ps: "res_collect (map (\<lambda>a. build_modify_member_role ops a Role_Administrator) promote) = Inr ps"
    using res_collect_total [of promote "\<lambda>a. build_modify_member_role ops a Role_Administrator"] assms
    unfolding ops_total_def by blast
  show ?thesis
    by (simp add: builds_def leave_actions_def rp rm ps actions_default_def)
qed

section \<open>Leaving\<close>


section \<open>Hydration\<close>

text \<open>
  A pass over the group server in which it answers or refuses every group, on a store with one row per
  group: \<open>row mk w\<close> is what the store holds of \<open>mk\<close>.
\<close>

definition group_pass_ok ::
  "('w, 'e, 'g, 'a, 'c) group_env \<Rightarrow> (key32 \<Rightarrow> 'w \<Rightarrow> group option) \<Rightarrow> ('w \<Rightarrow> bool) \<Rightarrow> bool" where
  "group_pass_ok G row good \<longleftrightarrow>
     (\<forall>w mk. good w \<longrightarrow> load_group (ge_store G) mk w = (Inr (row mk w), w)) \<and>
     (\<forall>w mk g. good w \<longrightarrow> (\<exists>w'. save_group (ge_store G) mk g w = (Inr (), w') \<and> good w' \<and>
        row mk w' = Some g \<and> (\<forall>mk'. mk' \<noteq> mk \<longrightarrow> row mk' w' = row mk' w))) \<and>
     (\<forall>w. good w \<longrightarrow> (\<exists>rs. stored_groups (ge_store G) w = (Inr rs, w) \<and>
        (\<forall>mk g. (mk, g) \<in> set (List.map_filter res_ok rs) \<longleftrightarrow> row mk w = Some g))) \<and>
     (\<forall>w. good w \<longrightarrow> (\<exists>w'. ge_manager G w = (Inr (), w') \<and> good w' \<and> (\<forall>mk. row mk w' = row mk w))) \<and>
     (\<forall>w mk. good w \<longrightarrow> (\<exists>w'. ge_authorize G mk w = (Inr (), w') \<and> good w' \<and>
        (\<forall>mk'. row mk' w' = row mk' w))) \<and>
     (\<forall>w mk. good w \<longrightarrow> (\<exists>r w'. fetch_group G mk w = (r, w') \<and> good w' \<and>
        (\<forall>mk'. row mk' w' = row mk' w) \<and>
        (r = Inl ServiceUnauthorized \<or> r = Inl ServiceNotFound \<or> (\<exists>server. r = Inr server))))"

lemma group_pass_okD:
  assumes "group_pass_ok G row good" "good w"
  shows "load_group (ge_store G) mk w = (Inr (row mk w), w)"
    "\<exists>w'. save_group (ge_store G) mk g w = (Inr (), w') \<and> good w' \<and> row mk w' = Some g \<and>
       (\<forall>mk'. mk' \<noteq> mk \<longrightarrow> row mk' w' = row mk' w)"
    "\<exists>rs. stored_groups (ge_store G) w = (Inr rs, w) \<and>
       (\<forall>mk g. (mk, g) \<in> set (List.map_filter res_ok rs) \<longleftrightarrow> row mk w = Some g)"
    "\<exists>w'. ge_manager G w = (Inr (), w') \<and> good w' \<and> (\<forall>mk. row mk w' = row mk w)"
    "\<exists>w'. ge_authorize G mk w = (Inr (), w') \<and> good w' \<and> (\<forall>mk'. row mk' w' = row mk' w)"
    "\<exists>r w'. fetch_group G mk w = (r, w') \<and> good w' \<and> (\<forall>mk'. row mk' w' = row mk' w) \<and>
       (r = Inl ServiceUnauthorized \<or> r = Inl ServiceNotFound \<or> (\<exists>server. r = Inr server))"
  using assms unfolding group_pass_ok_def by blast+

definition no_stub :: "(key32 \<Rightarrow> 'w \<Rightarrow> group option) \<Rightarrow> key32 \<Rightarrow> 'w \<Rightarrow> bool" where
  "no_stub row mk w \<longleftrightarrow> (\<forall>g. row mk w = Some g \<longrightarrow> \<not> g_needs_hydration g)"

lemma from_server_hydrated [simp]: "\<not> g_needs_hydration (from_server server local)"
  by (simp add: from_server_def group_from_def Let_def split: option.split)

lemma mark_denied_hydrated [simp]: "\<not> g_needs_hydration (mark_denied a g)"
  by (simp add: mark_denied_def)

lemma save_and_read_pass:
  assumes "group_pass_ok G row good" "good w" "\<not> g_needs_hydration g"
  shows "\<exists>w'. save_and_read_group G mk g w = (Inr (Some g), w') \<and> good w' \<and> no_stub row mk w' \<and>
    (\<forall>mk'. mk' \<noteq> mk \<longrightarrow> row mk' w' = row mk' w)"
proof -
  obtain w' where s: "save_group (ge_store G) mk g w = (Inr (), w')" "good w'" "row mk w' = Some g"
    "\<forall>mk'. mk' \<noteq> mk \<longrightarrow> row mk' w' = row mk' w"
    using group_pass_okD(2) [OF assms(1,2)] by blast
  then show ?thesis
    using group_pass_okD(1) [OF assms(1) s(2), of mk] assms(3)
    by (auto simp: save_and_read_group_def st_def io_simps no_stub_def)
qed

lemma fetch_and_store_pass:
  assumes P: "group_pass_ok G row good" and "good w"
  shows "\<exists>x w'. fetch_and_store_group G mk (row mk w) w = (Inr x, w') \<and> good w' \<and> no_stub row mk w' \<and>
    (\<forall>mk'. mk' \<noteq> mk \<longrightarrow> row mk' w' = row mk' w)"
proof -
  obtain w1 where a: "ge_authorize G mk w = (Inr (), w1)" "good w1" "\<And>mk'. row mk' w1 = row mk' w"
    using group_pass_okD(5) [OF P \<open>good w\<close>] by blast
  obtain r w2 where f: "fetch_group G mk w1 = (r, w2)" "good w2" "\<And>mk'. row mk' w2 = row mk' w1"
    "r = Inl ServiceUnauthorized \<or> r = Inl ServiceNotFound \<or> (\<exists>server. r = Inr server)"
    using group_pass_okD(6) [OF P a(2)] by blast
  note run = fetch_and_store_group_def io_simps a(1) f(1)
  from f(4) consider (answered) server where "r = Inr server" | (refused) e where "r = Inl e"
      "e = ServiceUnauthorized \<or> e = ServiceNotFound" by blast
  then show ?thesis
  proof cases
    case answered
    with save_and_read_pass [OF P f(2) from_server_hydrated] a(3) f(3) show ?thesis
      by (fastforce simp: run)
  next
    case refused
    show ?thesis
    proof (cases "row mk w")
      case None
      with refused a(3) f(2,3) show ?thesis by (auto simp: run no_stub_def)
    next
      case (Some g)
      with refused save_and_read_pass [OF P f(2) mark_denied_hydrated] a(3) f(3) show ?thesis
        by (fastforce simp: run)
    qed
  qed
qed

text \<open>What a worker leaves, and what the workers leave together.\<close>

definition passed ::
  "(key32 \<Rightarrow> 'w \<Rightarrow> group option) \<Rightarrow> ('w \<Rightarrow> bool) \<Rightarrow> key32 set \<Rightarrow> 'w \<Rightarrow> 'w \<Rightarrow> bool" where
  "passed row good mks w w' \<longleftrightarrow>
     good w' \<and> (\<forall>mk \<in> mks. no_stub row mk w') \<and> (\<forall>mk. mk \<notin> mks \<longrightarrow> row mk w' = row mk w)"

lemma no_stub_cong: "row mk w' = row mk w \<Longrightarrow> no_stub row mk w' = no_stub row mk w"
  by (simp add: no_stub_def)

lemma passed_trans: "passed row good A w w1 \<Longrightarrow> passed row good B w1 w2 \<Longrightarrow> passed row good (A \<union> B) w w2"
  unfolding passed_def by (metis Un_iff no_stub_cong)

lemma hydrate_each_pass:
  "group_pass_ok G row good \<Longrightarrow> good w \<Longrightarrow>
   \<exists>w'. hydrate_each G mks w = (Inr (), w') \<and> passed row good (set mks) w w'"
proof (induction mks arbitrary: w)
  case (Cons mk mks)
  note P = Cons.prems(1)
  obtain x w1 where 1: "fetch_and_store_group G mk (row mk w) w = (Inr x, w1)" "good w1"
    "no_stub row mk w1" "\<forall>mk'. mk' \<noteq> mk \<longrightarrow> row mk' w1 = row mk' w"
    using fetch_and_store_pass [OF P Cons.prems(2)] by blast
  then have p1: "passed row good {mk} w w1" by (simp add: passed_def)
  obtain w2 where 2: "hydrate_each G mks w1 = (Inr (), w2)" "passed row good (set mks) w1 w2"
    using Cons.IH [OF P 1(2)] by blast
  have "hydrate_each G (mk # mks) w = (Inr (), w2)"
    by (simp add: io_simps group_pass_okD(1) [OF P Cons.prems(2)] 1(1) 2(1))
  with passed_trans [OF p1 2(2)] show ?case by auto
qed (simp add: io_simps passed_def)

lemma hydrate_chunk_pass:
  assumes "group_pass_ok G row good" "good w"
  shows "\<exists>w'. hydrate_chunk G chunk w = (Inr (), w') \<and> passed row good (set chunk) w w'"
proof -
  obtain w1 where m: "ge_manager G w = (Inr (), w1)" "good w1" "\<forall>mk. row mk w1 = row mk w"
    using group_pass_okD(4) [OF assms] by blast
  then show ?thesis
    using hydrate_each_pass [OF assms(1) m(2), of chunk] by (auto simp: hydrate_chunk_def io_simps passed_def)
qed

lemma workers_pass:
  "group_pass_ok G row good \<Longrightarrow> good w \<Longrightarrow>
   \<exists>w'. run_all (map (hydrate_chunk G) cs) w = (map (\<lambda>_. Inr ()) cs, w') \<and>
     passed row good (set (concat cs)) w w'"
proof (induction cs arbitrary: w)
  case (Cons c cs)
  obtain w1 where 1: "hydrate_chunk G c w = (Inr (), w1)" "passed row good (set c) w w1"
    using hydrate_chunk_pass [OF Cons.prems] by blast
  then have "good w1" by (simp add: passed_def)
  from Cons.IH [OF Cons.prems(1) this] obtain w2 where
    2: "run_all (map (hydrate_chunk G) cs) w1 = (map (\<lambda>_. Inr ()) cs, w2)"
      "passed row good (set (concat cs)) w1 w2" by blast
  from passed_trans [OF 1(2) 2(2)] show ?case by (simp add: 1(1) 2(1))
qed (simp add: passed_def)

lemma group_stubs_iff:
  assumes "\<forall>mk g. (mk, g) \<in> set (List.map_filter res_ok rs) \<longleftrightarrow> row mk w = Some g"
  shows "mk \<in> set (group_stubs rs) \<longleftrightarrow> \<not> no_stub row mk w"
  using assms by (force simp: group_stubs_def no_stub_def)

text \<open>C19. A hydration pass leaves no stub behind. However the stubs are divided among the five workers, if the
  server answers or refuses each of them, every stored group is hydrated afterwards (an answered one from
  the server, a refused one recorded as left), and a group that needed no hydration is not touched.\<close>

theorem hydration_leaves_no_stub:
  assumes P: "group_pass_ok G row good" and w: "good w"
  shows "\<exists>w'. hydrate_groups G w = (Inr (), w') \<and> (\<forall>mk. no_stub row mk w') \<and>
    (\<forall>mk. no_stub row mk w \<longrightarrow> row mk w' = row mk w)"
proof -
  obtain rs where rs: "stored_groups (ge_store G) w = (Inr rs, w)"
    "\<forall>mk g. (mk, g) \<in> set (List.map_filter res_ok rs) \<longleftrightarrow> row mk w = Some g"
    using group_pass_okD(3) [OF P w] by blast
  have stubs: "mk \<in> set (group_stubs rs) \<longleftrightarrow> \<not> no_stub row mk w" for mk
    by (rule group_stubs_iff) (rule rs(2))
  show ?thesis
  proof (cases "group_stubs rs")
    case Nil
    then show ?thesis using stubs by (auto simp: hydrate_groups_def st_def rs(1) io_simps)
  next
    case (Cons first rest)
    define per where "per = max 1 ((length (first # rest) + HYDRATION_WORKERS - 1) div HYDRATION_WORKERS)"
    let ?cs = "chunks per (first # rest)"
    obtain w1 where m: "ge_manager G w = (Inr (), w1)" "good w1" "\<forall>mk. row mk w1 = row mk w"
      using group_pass_okD(4) [OF P w] by blast
    obtain w2 where a: "ge_authorize G first w1 = (Inr (), w2)" "good w2" "\<forall>mk. row mk w2 = row mk w1"
      using group_pass_okD(5) [OF P m(2)] by blast
    obtain w3 where r: "run_all (map (hydrate_chunk G) ?cs) w2 = (map (\<lambda>_. Inr ()) ?cs, w3)"
      "passed row good (set (concat ?cs)) w2 w3" using workers_pass [OF P a(2)] by blast
    have "set (concat ?cs) = set (group_stubs rs)"
      using concat_chunks [of per "first # rest"] by (simp add: per_def Cons)
    then have p: "passed row good {mk. \<not> no_stub row mk w} w w3"
      using r(2) m(3) a(3) stubs by (auto simp: passed_def)
    have "no_stub row mk w3" for mk
      using p no_stub_cong [of row mk w3 w] by (cases "no_stub row mk w") (simp_all add: passed_def)
    moreover have "hydrate_groups G w = (Inr (), w3)"
      using r(1) [unfolded per_def]
      by (simp add: hydrate_groups_def st_def rs(1) Cons m(1) a(1) io_simps Let_def)
    ultimately show ?thesis using p by (auto simp: passed_def)
  qed
qed

end
