(* ===== verification/Group_Props.thy ===== *)
theory Group_Props
  imports Group_Laws Sample_Account "HOL-Library.AList"
begin

text \<open>
  A concrete group server for the witnesses of theory Group_Laws (it numbers changes, and lets another
  client win as often as \<open>gw_races\<close> says), and what the other group operations refuse and store.
\<close>

section \<open>A sample server\<close>

lemma sample_key32_inject [simp]: "sample_key32 a = sample_key32 b \<longleftrightarrow> a = b"
  by (metis sample_key32_bytes replicate_eq_replicate zero_neq_numeral)

record gworld =
  gw_rows :: "(key32 \<times> group) list"
  gw_rev :: u32
  gw_races :: nat

definition gw_store :: "(gworld, unit) store_ops" where
  "gw_store = inert_store
     \<lparr>load_group := \<lambda>mk w. (Inr (map_of (gw_rows w) mk), w),
      save_group := \<lambda>mk g w. (Inr (), w\<lparr>gw_rows := AList.update mk g (gw_rows w)\<rparr>),
      stored_groups := \<lambda>w. (Inr (map Inr (gw_rows w)), w)\<rparr>"

definition gw_account :: "(gworld, unit) account_env" where
  "gw_account =
     \<lparr>ae_store = gw_store, ae_master_key = ok None, ae_open = ok (), ae_manifest = err UnknownGroup,
      ae_manifest_if_changed = (\<lambda>v. ok None), ae_read_items = (\<lambda>_ _. ok []),
      ae_write_items = (\<lambda>_ _ _. ok ()), ae_random16 = (\<lambda>w. ([], w)), ae_now_ms = (\<lambda>w. (0, w)),
      ae_sleep = (\<lambda>_ w. w), ae_new_sender = ok (), ae_send_fetch_latest = ok (), ae_sync = ok (),
      ae_device = 1, ae_codec = plain_codec, ae_contact_codec = sample_contact_codec,
      ae_encode_contact = (\<lambda>_. []), ae_encode_group = (\<lambda>_. []), ae_encode_sticker = (\<lambda>_. []),
      ae_encode_folder = (\<lambda>_. []), ae_decode_sticker = (\<lambda>_. None)\<rparr>"

definition gw_server :: "gworld \<Rightarrow> server_group" where
  "gw_server w =
     \<lparr>sg_title = ''g'', sg_avatar = [], sg_timer = None, sg_access_control = None, sg_version = gw_rev w,
      sg_members = [], sg_pending = [], sg_requesting = [], sg_invite_link_password = [],
      sg_description = None, sg_announcements_only = False\<rparr>"

text \<open>The key of thirty-two ones is one the server refuses.\<close>

definition gw_fetch :: "key32 \<Rightarrow> (gworld, unit error, server_group) io" where
  "gw_fetch mk w = ((if mk = sample_key32 1 then Inl ServiceUnauthorized else Inr (gw_server w)), w)"

definition gw_patch :: "key32 \<Rightarrow> unit actions \<Rightarrow> (gworld, unit error, bytes) io" where
  "gw_patch mk acts w =
     (if act_version acts \<noteq> gw_rev w + 1 then (Inl ServiceConflict, w)
      else if gw_races w > 0
        then (Inl ServiceConflict, w\<lparr>gw_rev := gw_rev w + 1, gw_races := gw_races w - 1\<rparr>)
      else (Inr [], w\<lparr>gw_rev := act_version acts\<rparr>))"

definition gw_ops :: "(unit, unit, unit error) group_ops" where
  "gw_ops =
     \<lparr>build_modify_title = (\<lambda>_. ()), build_modify_description = (\<lambda>_. ()), build_modify_timer = (\<lambda>_. ()),
      build_modify_attributes_access = (\<lambda>_. ()), build_modify_members_access = (\<lambda>_. ()),
      build_modify_member_label_access = (\<lambda>_. ()), build_modify_member_label = (\<lambda>_ _ _. Inr ()),
      build_modify_announcements_only = (\<lambda>_. ()), build_add_member_with_credential = (\<lambda>_ _. ()),
      build_add_pending_member = (\<lambda>_ _ _. Inr ()), build_remove_member = (\<lambda>_. Inr ()),
      build_remove_pending_member = (\<lambda>_. Inr ()), build_modify_member_role = (\<lambda>_ _. Inr ())\<rparr>"

definition gw_env :: "(gworld, unit, server_group, unit, unit) group_env" where
  "gw_env =
     \<lparr>ge_account = gw_account, ge_self = sample_uuid 1, ge_manager = ok (), ge_authorize = (\<lambda>_. ok ()),
      ge_fetch_encrypted = gw_fetch, ge_decrypt = (\<lambda>_. Inr), ge_patch = gw_patch, ge_ops = (\<lambda>_. gw_ops),
      ge_websocket = ok (), ge_credential = (\<lambda>_ _. ok ()), ge_own_credential = ok (),
      ge_random32 = (\<lambda>w. (sample_key32 7, w)), ge_encrypt = (\<lambda>_ _ _ _ _ _ _. Inl UnknownGroup),
      ge_create = (\<lambda>_ _. ok ())\<rparr>"

definition gw_good :: "gworld \<Rightarrow> bool" where
  "gw_good w \<longleftrightarrow> distinct (map fst (gw_rows w))"

definition gw_row :: "key32 \<Rightarrow> gworld \<Rightarrow> group option" where
  "gw_row mk w = map_of (gw_rows w) mk"

lemma gw_sel [simp]:
  "ge_account gw_env = gw_account" "ae_store gw_account = gw_store" "ge_self gw_env = sample_uuid 1"
  "ge_manager gw_env = ok ()" "ge_authorize gw_env mk = ok ()" "ge_patch gw_env = gw_patch"
  "ge_ops gw_env mk = gw_ops" "ge_fetch_encrypted gw_env = gw_fetch" "ge_decrypt gw_env mk = Inr"
  by (simp_all add: gw_env_def gw_account_def)

lemma gw_store_sel [simp]:
  "load_group gw_store mk w = (Inr (gw_row mk w), w)"
  "save_group gw_store mk g w = (Inr (), w\<lparr>gw_rows := AList.update mk g (gw_rows w)\<rparr>)"
  "stored_groups gw_store w = (Inr (map Inr (gw_rows w)), w)"
  by (simp_all add: gw_store_def gw_row_def)

lemma gw_row_update [simp]:
  "gw_row mk' (w\<lparr>gw_rows := AList.update mk g (gw_rows w)\<rparr>) = (if mk' = mk then Some g else gw_row mk' w)"
  by (simp add: gw_row_def update_conv')

lemma gw_good_update [simp]: "gw_good w \<Longrightarrow> gw_good (w\<lparr>gw_rows := AList.update mk g (gw_rows w)\<rparr>)"
  by (simp add: gw_good_def distinct_update)

lemma gw_fetch_group: "fetch_group gw_env mk w =
    ((if mk = sample_key32 1 then Inl ServiceUnauthorized else Inr (gw_server w)), w)"
  by (simp add: fetch_group_def gw_fetch_def io_simps)

lemma gw_contended: "mk \<noteq> sample_key32 1 \<Longrightarrow> contended_server gw_env mk gw_rev gw_races gw_good"
  unfolding contended_server_def gw_sel
  by (auto simp: gw_patch_def gw_good_def gw_fetch_group gw_server_def ok_def split: if_splits)

lemma gw_stored_row: "stored_row (load_group gw_store mk) (save_group gw_store mk) gw_good (\<lambda>_. True)"
  by unfold_locales auto

lemma gw_ops_total: "ops_total gw_ops" by (simp add: ops_total_def gw_ops_def)

lemma gw_pass_ok: "group_pass_ok gw_env gw_row gw_good"
proof -
  have "(mk, g) \<in> set (List.map_filter res_ok (map Inr (gw_rows w))) \<longleftrightarrow> gw_row mk w = Some g"
    if "gw_good w" for w mk g
    using that by (simp add: gw_good_def gw_row_def List.map_filter_def comp_def)
  then show ?thesis unfolding group_pass_ok_def gw_sel by (auto simp: ok_def gw_fetch_group)
qed

section \<open>Witnesses\<close>

definition gw_local :: group where
  "gw_local = (from_server (gw_server \<lparr>gw_rows = [], gw_rev = 4, gw_races = 0\<rparr>) None)
     \<lparr>g_members := [sample_admin 1 Role_Default, sample_admin 2 Role_Administrator]\<rparr>"

text \<open>The stored revision is behind, and two more changes will get in between: three conflicts.\<close>

definition gw_busy :: gworld where
  "gw_busy = \<lparr>gw_rows = [(sample_key32 2, gw_local)], gw_rev = 7, gw_races = 2\<rparr>"


definition gw_stubs :: gworld where
  "gw_stubs = \<lparr>gw_rows = map (\<lambda>b. (sample_key32 b, gw_local\<lparr>g_needs_hydration := True\<rparr>)) [1, 2, 3],
     gw_rev = 7, gw_races = 0\<rparr>"

lemma hydration_leaves_no_stub_witness:
  "\<not> no_stub gw_row (sample_key32 1) gw_stubs \<and>
   (\<exists>w'. hydrate_groups gw_env gw_stubs = (Inr (), w') \<and> (\<forall>mk. no_stub gw_row mk w'))"
proof -
  have "gw_good gw_stubs" by (simp add: gw_good_def gw_stubs_def)
  from hydration_leaves_no_stub [OF gw_pass_ok this] show ?thesis
    by (auto simp: no_stub_def gw_row_def gw_stubs_def)
qed

section \<open>Refusals\<close>

text \<open>C22. What is refused before the server is asked. With a store that reads without writing, an empty
  update, an unknown group, a group this account is not in, an update that would add only people who are
  there already, and the last administrator leaving members behind are each refused with their own
  error, and the world is left exactly as it was.\<close>

theorem group_changes_refused:
  assumes "load_group (ge_store G) mk w = (Inr row, w)"
  shows "update_group G mk group_update_default w = (Inl EmptyGroupUpdate, w) \<and>
    (row = None \<longrightarrow>
       (\<not> group_update_is_empty update \<longrightarrow> update_group G mk update w = (Inl UnknownGroup, w)) \<and>
       update_group_members G mk changes w = (Inl UnknownGroup, w) \<and>
       leave_group G mk promoted w = (Inl UnknownGroup, w)) \<and>
    (\<forall>local. row = Some local \<longrightarrow>
       (\<not> is_member local (ge_self G) \<longrightarrow>
          update_group_members G mk changes w = (Inl NotAGroupMember, w)) \<and>
       (\<not> is_active local (ge_self G) \<longrightarrow> leave_group G mk promoted w = (Inl NotAGroupMember, w)) \<and>
       (is_member local (ge_self G) \<and>
          (\<forall>sid \<in> set newcomers. is_pending local sid \<or> (\<exists>u. sid = Aci u \<and> is_member local u)) \<longrightarrow>
          update_group_members G mk (group_members_update_default\<lparr>gm_add := newcomers\<rparr>) w =
            (Inl EmptyGroupMembersUpdate, w)) \<and>
       (\<not> is_pending local (Aci (ge_self G)) \<and> is_member local (ge_self G) \<and>
          leave_orphans_the_group local (ge_self G) promoted \<longrightarrow>
          leave_group G mk promoted w = (Inl LastAdminMustPromote, w)))"
proof (intro conjI impI allI)
  show "update_group G mk group_update_default w = (Inl EmptyGroupUpdate, w)"
    by (simp add: update_group_def group_update_is_empty_def io_simps)
  show "update_group G mk update w = (Inl UnknownGroup, w)" if "row = None" "\<not> group_update_is_empty update"
    using assms that by (simp add: update_group_def stored_group_def st_def io_simps)
  show "update_group_members G mk changes w = (Inl UnknownGroup, w)" if "row = None"
    using assms that by (simp add: update_group_members_def stored_group_def st_def io_simps)
  show "leave_group G mk promoted w = (Inl UnknownGroup, w)" if "row = None"
    using assms that by (simp add: leave_group_def stored_group_def st_def io_simps)
next
  fix local assume "row = Some local"
  with assms have l: "stored_group (ge_account G) mk w = (Inr local, w)" by (simp add: stored_group_def st_def io_simps)
  show "update_group_members G mk changes w = (Inl NotAGroupMember, w)" if "\<not> is_member local (ge_self G)"
    using that by (simp add: update_group_members_def bindE_def l err_def)
  show "leave_group G mk promoted w = (Inl NotAGroupMember, w)" if "\<not> is_active local (ge_self G)"
    using that by (simp add: leave_group_def bindE_def l is_active_def err_def)
  show "leave_group G mk promoted w = (Inl LastAdminMustPromote, w)"
    if "\<not> is_pending local (Aci (ge_self G)) \<and> is_member local (ge_self G) \<and>
          leave_orphans_the_group local (ge_self G) promoted"
    using that by (simp add: leave_group_def bindE_def l err_def)
  show "update_group_members G mk (group_members_update_default\<lparr>gm_add := newcomers\<rparr>) w =
      (Inl EmptyGroupMembersUpdate, w)"
    if there: "is_member local (ge_self G) \<and>
      (\<forall>sid \<in> set newcomers. is_pending local sid \<or> (\<exists>u. sid = Aci u \<and> is_member local u))"
  proof -
    have "filter (can_be_added local (ge_self G)) newcomers = []"
      using there by (auto simp: filter_empty_conv can_be_added_def)
    then show ?thesis using there
      by (simp add: update_group_members_def bindE_def l err_def group_members_update_is_empty_def
          group_members_update_default_def)
  qed
qed

lemma group_changes_refused_witness:
  "leave_group gw_env (sample_key32 2) []
     (gw_busy\<lparr>gw_rows := [(sample_key32 2, gw_local\<lparr>g_members :=
        [sample_admin 1 Role_Administrator, sample_admin 2 Role_Default]\<rparr>)]\<rparr>) =
   (Inl LastAdminMustPromote, gw_busy\<lparr>gw_rows := [(sample_key32 2, gw_local\<lparr>g_members :=
        [sample_admin 1 Role_Administrator, sample_admin 2 Role_Default]\<rparr>)]\<rparr>)"
proof -
  let ?g = "gw_local\<lparr>g_members := [sample_admin 1 Role_Administrator, sample_admin 2 Role_Default]\<rparr>"
  let ?w = "gw_busy\<lparr>gw_rows := [(sample_key32 2, ?g)]\<rparr>"
  have "load_group (ge_store gw_env) (sample_key32 2) ?w = (Inr (Some ?g), ?w)" by (simp add: gw_row_def)
  moreover have "\<not> is_pending ?g (Aci (sample_uuid 1))"
    by (simp add: is_pending_def gw_local_def from_server_def group_from_def gw_server_def Let_def)
  moreover have "is_member ?g (sample_uuid 1)" "leave_orphans_the_group ?g (sample_uuid 1) []"
    by (simp_all add: is_member_def leave_orphans_the_group_def sample_admin_def sample_uuid_def [symmetric])
  ultimately show ?thesis
    using group_changes_refused [of gw_env "sample_key32 2" ?w "Some ?g" group_update_default
        group_members_update_default "[]" "[]"] by simp
qed

end
