(* ===== verification/Message_Laws.thy ===== *)
theory Message_Laws
  imports Chat_Laws
begin

text \<open>
  Laws of theories Save_Message and Sending over a store that refines the reference store: which message
  is filed where, and what a send leaves behind.
\<close>

section \<open>What is filed\<close>

text \<open>The data message or the edit a content carries, received or sent by another device of ours.\<close>

definition body_data :: "content_body \<Rightarrow> data_message option" where
  "body_data b =
     (case b of
        DataMessage d \<Rightarrow> Some d
      | SynchronizeMessage (Some (SyncSent s)) _ \<Rightarrow> sent_message s
      | _ \<Rightarrow> None)"

definition body_edit :: "content_body \<Rightarrow> edit_message option" where
  "body_edit b =
     (case b of
        EditMessage e \<Rightarrow> Some e
      | SynchronizeMessage (Some (SyncSent s)) _ \<Rightarrow>
          (case sent_message s of None \<Rightarrow> sent_edit_message s | Some _ \<Rightarrow> None)
      | _ \<Rightarrow> None)"

definition filed_as_is :: "content_body \<Rightarrow> bool" where
  "filed_as_is b \<longleftrightarrow>
     (case b of
        NullMessage \<Rightarrow> True
      | ReceiptMessage _ _ \<Rightarrow> True
      | SynchronizeMessage (Some (SyncCallEvent _)) _ \<Rightarrow> True
      | _ \<Rightarrow> False)"

definition filed_edit :: "(u64 \<Rightarrow> content option) \<Rightarrow> content \<Rightarrow> edit_message \<Rightarrow> content option" where
  "filed_edit chat c e =
     (case (em_target_sent_timestamp e, em_data_message e) of
        (Some ts, Some d) \<Rightarrow>
          if chat ts = None then None
          else Some \<lparr>ct_metadata = ct_metadata c,
            ct_body = EditMessage \<lparr>em_target_sent_timestamp = Some ts, em_data_message = Some d\<rparr>\<rparr>
      | _ \<Rightarrow> None)"

text \<open>What of a content the chat \<open>chat\<close> is given: the thing itself, the edit of a message it has, or nothing.\<close>

definition filed :: "(u64 \<Rightarrow> content option) \<Rightarrow> content \<Rightarrow> content option" where
  "filed chat c =
     (if filed_as_is (ct_body c) then Some c
      else case body_data (ct_body c) of
        Some d \<Rightarrow> (case dm_delete d of Some (Some _) \<Rightarrow> None | _ \<Rightarrow> Some c)
      | None \<Rightarrow> Option.bind (body_edit (ct_body c)) (filed_edit chat c))"

definition put_filed :: "thread \<Rightarrow> content \<Rightarrow> desk \<Rightarrow> desk" where
  "put_filed t c d =
     (case filed (dk_messages d t) c of
        None \<Rightarrow> d
      | Some m \<Rightarrow> d\<lparr>dk_messages := (dk_messages d)(t := (dk_messages d t)(md_client_timestamp (ct_metadata c) \<mapsto> m))\<rparr>)"

text \<open>The timer of a contact's chat moves when a data message names a newer version.\<close>

definition timer_moved :: "thread \<Rightarrow> data_message option \<Rightarrow> desk \<Rightarrow> desk" where
  "timer_moved t m d =
     (case (t, m) of
        (ContactThread sid, Some dm) \<Rightarrow>
          (case desk_contact (raw_uuid sid) d of
             None \<Rightarrow> d
           | Some c \<Rightarrow>
               let v = opt_or 1 (dm_expire_timer_version dm) in
               if v \<le> c_expire_timer_version c then d
               else d\<lparr>dk_contacts := (dk_contacts d)(c_uuid c \<mapsto>
                 c\<lparr>c_expire_timer_version := v, c_expire_timer := opt_or 0 (dm_expire_timer dm)\<rparr>)\<rparr>)
      | _ \<Rightarrow> d)"

lemma put_filed_sel [simp]:
  "dk_contacts (put_filed t c d) = dk_contacts d" "dk_groups (put_filed t c d) = dk_groups d"
  "dk_account (put_filed t c d) = dk_account d"
  by (simp_all add: put_filed_def split: option.split)

lemma desk_contact_put_filed [simp]: "desk_contact u (put_filed t c d) = desk_contact u d"
  by (simp add: desk_contact_def)

lemma timer_moved_contact:
  "desk_contact u (timer_moved t m d) = desk_contact u d \<or>
   (\<exists>sid row row'. t = ContactThread sid \<and> u = raw_uuid sid \<and> desk_contact u d = Some row \<and>
      desk_contact u (timer_moved t m d) = Some row' \<and> c_expire_timer_version row < c_expire_timer_version row' \<and>
      row' = row\<lparr>c_expire_timer := c_expire_timer row',
                 c_expire_timer_version := c_expire_timer_version row'\<rparr>)"
proof (cases "\<exists>sid dm c. t = ContactThread sid \<and> m = Some dm \<and> desk_contact (raw_uuid sid) d = Some c \<and>
    u = raw_uuid sid \<and> c_expire_timer_version c < opt_or 1 (dm_expire_timer_version dm)")
  case True
  then obtain sid dm c where *: "t = ContactThread sid" "m = Some dm" "desk_contact (raw_uuid sid) d = Some c"
    "u = raw_uuid sid" "c_expire_timer_version c < opt_or 1 (dm_expire_timer_version dm)" by blast
  moreover from *(3) have "c_uuid c = raw_uuid sid" by (auto simp: desk_contact_def split: option.splits if_splits)
  ultimately show ?thesis
    by (auto simp: timer_moved_def Let_def desk_contact_def [of _ "d\<lparr>dk_contacts := _\<rparr>"])
next
  case False
  have "desk_contact u (timer_moved t m d) = desk_contact u d"
  proof (cases t)
    case (ContactThread sid)
    show ?thesis
    proof (cases "desk_contact (raw_uuid sid) d")
      case (Some c)
      moreover from Some have "c_uuid c = raw_uuid sid"
        by (auto simp: desk_contact_def split: option.splits if_splits)
      ultimately show ?thesis using False ContactThread
        by (auto simp: timer_moved_def Let_def desk_contact_def [of _ "d\<lparr>dk_contacts := _\<rparr>"]
            desk_contact_def [of _ d, symmetric] split: option.split)
    qed (simp add: timer_moved_def ContactThread split: option.split)
  qed (simp add: timer_moved_def)
  then show ?thesis by blast
qed

lemma timer_moved_messages [simp]: "dk_messages (timer_moved t m d) = dk_messages d"
  by (simp add: timer_moved_def Let_def split: thread.split option.split)

lemma timer_moved_None [simp]: "timer_moved t None d = d"
  by (simp add: timer_moved_def split: thread.split)

lemma timer_moved_Group [simp]: "timer_moved (GroupThread mk) m d = d"
  by (simp add: timer_moved_def)

lemma simulates_timer:
  assumes "refines_desk M view"
  shows "simulates view (update_expire_timer (mv_store M) t timer v) (update_expire_timer desk_store t timer v)"
    "simulates view (expire_timer (mv_store M) t) (expire_timer desk_store t)"
  unfolding update_expire_timer_def expire_timer_def
  by (intro simulates_rules refines_deskD [OF assms])+

lemma simulates_save_message:
  assumes "refines_desk M view"
  shows "simulates view (save_message M c (Some t)) (save_message (desk_of M) c (Some t))"
proof -
  have spawn: "spawn (desk_of M) task = ok ()" for task
    by (rule ext) (simp add: spawn_def call_def ok_def)
  note rules = simulates_rules refines_deskD [OF assms] simulates_timer [OF assms] simulates_spawn [OF assms]
  have d: "simulates view (data_message_to_save M t c dm) (data_message_to_save (desk_of M) t c dm)" for t dm
    unfolding data_message_to_save_def spawn desk_env_sel by (intro rules)
  have e: "simulates view (edit_to_save M t c em) (edit_to_save (desk_of M) t c em)" for t em
    unfolding edit_to_save_def desk_env_sel
    by (cases "edit_target em"; cases "Option.bind em em_data_message")
       (auto simp del: desk_store_sel intro!: rules)
  have m: "simulates view (message_to_save M t c) (message_to_save (desk_of M) t c)" for t
    unfolding message_to_save_def
    by (auto intro: d e rules split: content_body.split option.split sync_content.split)
  show ?thesis
    unfolding save_message_def message_thread_def option.case desk_env_sel by (intro rules m)
qed

lemma desk_update_timer:
  "update_expire_timer desk_store (ContactThread sid) (opt_or 0 (dm_expire_timer dm))
     (opt_or 1 (dm_expire_timer_version dm)) d = (Inr (), timer_moved (ContactThread sid) (Some dm) d)"
  by (simp add: update_expire_timer_def timer_moved_def io_simps Let_def split: option.split)

lemma desk_data_message_to_save:
  "data_message_to_save (desk_env self C K) t c dm d =
     (Inr (case dm_delete dm of Some (Some _) \<Rightarrow> None | _ \<Rightarrow> Some c), timer_moved t (Some dm) d)"
  by (cases t)
     (auto simp: data_message_to_save_def spawn_def st_def io_simps desk_update_timer split: option.split)

lemma desk_edit_to_save:
  "edit_to_save (desk_env self C K) t c e d = (Inr (Option.bind e (filed_edit (dk_messages d t) c)), d)"
  by (cases e)
     (auto simp: edit_to_save_def edit_target_def filed_edit_def st_def io_simps split: option.split)

lemma desk_message_to_save:
  "message_to_save (desk_env self C K) t c d =
     (Inr (filed (dk_messages d t) c), timer_moved t (body_data (ct_body c)) d)"
  unfolding message_to_save_def filed_def filed_as_is_def body_data_def body_edit_def
  by (auto simp: desk_data_message_to_save desk_edit_to_save ok_def
      split: content_body.split option.split sync_content.split)

lemma desk_save_message:
  "save_message (desk_env self C K) c (Some t) d =
     (Inr (), put_filed t c (timer_moved t (body_data (ct_body c)) d))"
proof -
  have "md_client_timestamp (ct_metadata m) = md_client_timestamp (ct_metadata c)"
    if "filed chat c = Some m" for chat m
    using that by (auto simp: filed_def filed_edit_def split: if_splits option.splits bind_splits)
  then show ?thesis
    by (auto simp: save_message_def message_thread_def bindE_def desk_message_to_save put_filed_def
        ok_def st_def map_err_def split: option.split)
qed


definition sample_text :: content where
  "sample_text = sent_content (desk_env (sample_uuid 9) sample_codec desk_call_codec :: (desk, unit) message_env)
     (Aci (sample_uuid 1)) 5
     (DataMessage (data_message_default\<lparr>dm_body := Some ''hi'', dm_timestamp := Some 5,
        dm_expire_timer := Some 60, dm_expire_timer_version := Some 3\<rparr>))"


section \<open>What a send leaves behind\<close>

text \<open>Nothing but the store's own operations touches the rows of the reference store.\<close>

definition transport_quiet :: "('w, 'e) message_env \<Rightarrow> ('w \<Rightarrow> desk) \<Rightarrow> bool" where
  "transport_quiet M view \<longleftrightarrow>
     (\<forall>v. let P = (\<lambda>w. view w = v) in
        keeps P (ae_new_sender (mv_account M)) \<and> keeps P (mv_websocket M) \<and>
        keeps P (mv_fetch_certificate M) \<and> (\<forall>sid. keeps P (stored_profile_key (mv_store M) sid)) \<and>
        (\<forall>cert. keeps P (mv_save_certificate M cert)) \<and>
        (\<forall>sid access body ts. keeps P (mv_send M sid access body ts)) \<and>
        (\<forall>w. P w \<longrightarrow> P (snd (mv_cached_certificate M w)) \<and> P (snd (ae_now_ms (mv_account M) w)) \<and>
           (\<forall>cert. P (mv_cache_certificate M cert w))))"

lemma keeps_call_iff: "keeps P (call f) \<longleftrightarrow> (\<forall>w. P w \<longrightarrow> P (snd (f w)))"
  by (simp add: keeps_def call_def case_prod_beta)

lemma transport_quietD:
  fixes view :: "'w \<Rightarrow> desk" and v :: desk
  defines "P \<equiv> \<lambda>w. view w = v"
  assumes "transport_quiet M view"
  shows "keeps P (ae_new_sender (mv_account M))" "keeps P (mv_websocket M)" "keeps P (mv_fetch_certificate M)"
    "keeps P (stored_profile_key (mv_store M) sid)" "keeps P (mv_save_certificate M cert)"
    "keeps P (mv_send M sid access body ts)" "keeps P (call (mv_cached_certificate M))"
    "keeps P (call (ae_now_ms (mv_account M)))" "keeps P (call (\<lambda>w. ((), mv_cache_certificate M cert w)))"
  using assms(2) unfolding transport_quiet_def P_def by (simp_all add: Let_def keeps_call_iff)

lemma keeps_certificate:
  assumes "transport_quiet M view"
  shows "keeps (\<lambda>w. view w = v) (sender_certificate_for M)"
  unfolding sender_certificate_for_def Let_def
  by (intro keeps_rules keeps_st transport_quietD [OF assms])

lemma keeps_access:
  "transport_quiet M view \<Longrightarrow> keeps (\<lambda>w. view w = v) (unidentified_access M cert sid)"
  unfolding unidentified_access_def by (intro keeps_rules keeps_st transport_quietD)

definition desk_timer :: "desk \<Rightarrow> thread \<Rightarrow> (u32 \<times> u32) option" where
  "desk_timer d t =
     (case t of
        ContactThread sid \<Rightarrow>
          map_option (\<lambda>c. (c_expire_timer c, c_expire_timer_version c)) (desk_contact (raw_uuid sid) d)
      | GroupThread mk \<Rightarrow> Option.bind (dk_groups d mk) (\<lambda>g. map_option (\<lambda>s. (s, 1)) (g_timer g)))"

lemma desk_expire_timer: "expire_timer desk_store t d = (Inr (desk_timer d t), d)"
  by (cases t) (auto simp: expire_timer_def desk_timer_def io_simps split: option.split)

lemma restore_timer:
  assumes "refines_desk M view"
  obtains w' where "restore_thread_timer M t body w = (Inr (with_thread_timer (desk_timer (view w) t) body), w')"
    "view w' = view w"
  using lift_desk [OF simulates_timer(2) [OF assms] desk_expire_timer, of t w]
  by (auto simp: restore_thread_timer_def attempt_def ok_def)

lemma save_message_desk:
  assumes "refines_desk M view"
  obtains w' where "save_message M c (Some t) w = (Inr (), w')"
    "view w' = put_filed t c (timer_moved t (body_data (ct_body c)) (view w))"
  using lift_desk [OF simulates_save_message [OF assms] desk_save_message] by blast

text \<open>The body of a message as it goes out and is stored.\<close>

definition outgoing_body :: "('w, 'e) message_env \<Rightarrow> desk \<Rightarrow> thread \<Rightarrow> u64 \<Rightarrow> content_body \<Rightarrow> content_body" where
  "outgoing_body M d t ts body =
     ensure_data_message_timestamp ts (with_profile_key (mv_profile_key M) (with_thread_timer (desk_timer d t) body))"

lemma send_message_view:
  assumes R: "refines_desk M view" and Q: "transport_quiet M view"
  shows "triple (\<lambda>w. view w = v) (send_message M to body ts)
    (\<lambda>_ w. let c = sent_content M to ts (outgoing_body M v (ContactThread to) ts body) in
       view w = put_filed (ContactThread to) c (timer_moved (ContactThread to) (body_data (ct_body c)) v))
    (\<lambda>_ w. view w = v)"
proof -
  note keep = transport_quietD [OF Q] keeps_certificate [OF Q] keeps_access [OF Q]
  have restored: "triple (\<lambda>w. view w = v) (restore_thread_timer M (ContactThread to) body)
      (\<lambda>b w. b = with_thread_timer (desk_timer v (ContactThread to)) body \<and> view w = v) (\<lambda>_ w. view w = v)"
    by (rule tripleI) (metis restore_timer [OF R] Pair_inject Inr_inject Inl_Inr_False)+
  have saved: "triple (\<lambda>w. view w = v) (save_message M c (Some (ContactThread to)))
      (\<lambda>_ w. view w = put_filed (ContactThread to) c (timer_moved (ContactThread to) (body_data (ct_body c)) v))
      (\<lambda>_ w. view w = v)" for c
    by (rule tripleI) (metis save_message_desk [OF R] Pair_inject Inl_Inr_False)+
  show ?thesis
    unfolding send_message_def outgoing_body_def Let_def
    apply (rule triple_thenE [OF triple_keeps [OF keep(1)]])
    apply (rule triple_bindE [OF restored])
    apply (rule triple_assume, simp only:)
    apply (rule triple_bindE [OF triple_keeps [OF keep(10)]])
    apply (rule triple_bindE [OF triple_keeps [OF keep(11)]])
    apply (rule triple_thenE [OF triple_map_err [OF triple_keeps [OF keep(6)]]])
    apply (rule triple_thenE [OF triple_keeps [OF keep(2)]])
    by (rule saved)
qed

text \<open>The data message inside an outgoing one.\<close>

definition outgoing_data :: "('w, 'e) message_env \<Rightarrow> desk \<Rightarrow> thread \<Rightarrow> u64 \<Rightarrow> data_message \<Rightarrow> data_message" where
  "outgoing_data M d t ts m =
     (case with_thread_timer (desk_timer d t) (DataMessage m) of
        DataMessage m' \<Rightarrow> m'\<lparr>dm_profile_key := Some (opt_or (key32_bytes (mv_profile_key M)) (dm_profile_key m)),
          dm_required_protocol_version := Some 0, dm_timestamp := Some ts\<rparr>
      | _ \<Rightarrow> m)"

lemma outgoing_body_data:
  "outgoing_body M d t ts (DataMessage m) = DataMessage (outgoing_data M d t ts m)"
  by (simp add: outgoing_body_def outgoing_data_def with_thread_timer_def with_profile_key_def
      ensure_data_message_timestamp_def split: option.split)

lemma outgoing_data_sel:
  "dm_delete (outgoing_data M d t ts m) = dm_delete m"
  "dm_expire_timer m = None \<Longrightarrow>
     opt_or 1 (dm_expire_timer_version (outgoing_data M d t ts m)) = opt_or 0 (map_option snd (desk_timer d t))"
  "dm_expire_timer m = Some s \<Longrightarrow> dm_expire_timer (outgoing_data M d t ts m) = Some s \<and>
     opt_or 1 (dm_expire_timer_version (outgoing_data M d t ts m)) = opt_or 0 (map_option snd (desk_timer d t)) + 1"
  by (auto simp: outgoing_data_def with_thread_timer_def split: option.split)

lemma timer_moved_outgoing:
  "dm_expire_timer m = None \<Longrightarrow> timer_moved t (Some (outgoing_data M d t ts m)) d = d"
  by (auto simp: timer_moved_def outgoing_data_sel desk_timer_def Let_def split: thread.split option.split)

lemma timer_set_outgoing:
  assumes "dm_expire_timer m = Some s" "desk_timer d (ContactThread sid) = Some (s0, v0)" "v0 < v0 + 1"
  shows "desk_timer (timer_moved (ContactThread sid) (Some (outgoing_data M d (ContactThread sid) ts m)) d)
     (ContactThread sid) = Some (s, v0 + 1)"
proof -
  obtain c where c: "desk_contact (raw_uuid sid) d = Some c" "c_expire_timer_version c = v0"
    using assms(2) by (auto simp: desk_timer_def)
  then have "c_uuid c = raw_uuid sid" by (simp add: desk_contact_uuid)
  moreover note outgoing_data_sel(3) [OF assms(1), of M d "ContactThread sid" ts]
  ultimately show ?thesis using c assms
    by (simp add: desk_timer_def timer_moved_def Let_def not_le [symmetric] desk_contact_def [of _ "d\<lparr>dk_contacts := _\<rparr>"])
qed


lemma desk_transport_quiet: "transport_quiet (desk_env self C K) id"
  by (simp add: transport_quiet_def desk_env_def desk_account_def desk_store_def keeps_def ok_def Let_def)

lemma desk_send_steps:
  "ae_new_sender (desk_account C) = ok ()"
  "ae_now_ms (desk_account C) = (\<lambda>w. (0, w))"
  "mv_websocket (desk_env self C K) = ok ()"
  "mv_send (desk_env self C K) = (\<lambda>_ _ _ _. ok ())"
  "mv_cached_certificate (desk_env self C K) = (\<lambda>w. (None, w))"
  "mv_cache_certificate (desk_env self C K) = (\<lambda>_ w. w)"
  "mv_fetch_certificate (desk_env self C K) = ok []"
  "mv_save_certificate (desk_env self C K) = (\<lambda>_. ok ())"
  "stored_profile_key desk_store = (\<lambda>_. ok None)"
  by (simp_all add: desk_env_def desk_account_def desk_store_def)

lemma desk_send_message:
  "fst (send_message (desk_env self C K) to (DataMessage m) ts d) = Inr ()"
  by (simp add: desk_send_steps send_message_def restore_thread_timer_def sender_certificate_for_def
      unidentified_access_def desk_expire_timer desk_save_message io_simps st_def Let_def)


section \<open>A late message with a profile key\<close>

text \<open>
  The task that stores a profile keeps the version of the timer monotone and not the timer: a message
  older than what is stored puts its timer under the newer version.
\<close>

theorem late_timer_is_kept:
  assumes "dm_expire_timer_version d = Some v" "v < c_expire_timer_version c"
  shows "c_expire_timer (contact_with_profile c name key d) = opt_or 0 (dm_expire_timer d)"
    "c_expire_timer_version (contact_with_profile c name key d) = c_expire_timer_version c"
  using assms by (auto simp: contact_with_profile_def merged_expire_timer_version_def Let_def max_def)

end
