(* ===== verification/Retries.thy ===== *)
theory Retries
  imports Sample_Account
begin

text \<open>
  How often a publish may try. \<open>reads\<close>, \<open>writes\<close> and \<open>slept\<close> count the manifests read, the
  writes sent and the seconds slept by the caller; \<open>counted\<close> says which calls advance them.
\<close>

definition counted ::
  "('w, 'e) account_env \<Rightarrow> storage_record_key \<Rightarrow> ('w \<Rightarrow> nat) \<Rightarrow> ('w \<Rightarrow> nat) \<Rightarrow> ('w \<Rightarrow> nat) \<Rightarrow>
   bool" where
  "counted V key reads writes slept \<longleftrightarrow>
     (\<forall>r b s. let P = (\<lambda>r b s w. reads w \<le> r \<and> writes w \<le> b \<and> slept w \<le> s) in
        keeps (P r b s) (ae_master_key V) \<and> keeps (P r b s) (ae_open V) \<and> keeps (P r b s) (ae_sync V) \<and>
        keeps (P r b s) (ae_new_sender V) \<and> keeps (P r b s) (ae_send_fetch_latest V) \<and>
        (\<forall>w. P r b s w \<longrightarrow> P r b s (snd (ae_random16 V w))) \<and>
        keeps (P r b s) (fetch_storage_manifest_version (ae_store V)) \<and>
        (\<forall>v. keeps (P r b s) (store_storage_manifest_version (ae_store V) v)) \<and>
        keeps (P r b s) (storage_identity V key) \<and>
        (\<forall>i. keeps (P r b s) (save_storage_identity V key i)) \<and>
        (\<forall>f. keeps (P r b s) (set_needs_storage_sync V key f)) \<and>
        (\<forall>w. P r b s w \<longrightarrow> P (r + 1) b s (snd (ae_manifest V w))) \<and>
        (\<forall>m recs dels w. P r b s w \<longrightarrow> P r (b + 1) s (snd (ae_write_items V m recs dels w))) \<and>
        (\<forall>d w. P r b s w \<longrightarrow> P r b (s + d) (ae_sleep V d w)))"

abbreviation within ::
  "('w \<Rightarrow> nat) \<Rightarrow> ('w \<Rightarrow> nat) \<Rightarrow> ('w \<Rightarrow> nat) \<Rightarrow> nat \<Rightarrow> nat \<Rightarrow> nat \<Rightarrow> 'w \<Rightarrow> bool" where
  "within reads writes slept r b s \<equiv> \<lambda>w. reads w \<le> r \<and> writes w \<le> b \<and> slept w \<le> s"

lemma triple_of_snd:
  "(\<And>w. P w \<Longrightarrow> Q (snd (m w))) \<Longrightarrow> triple P m (\<lambda>_. Q) (\<lambda>_. Q)"
  unfolding triple_def by (auto split: prod.splits sum.splits) (metis snd_conv)+

lemma countedD:
  assumes "counted V key reads writes slept"
  shows "keeps (within reads writes slept r b s) (ae_master_key V)"
    "keeps (within reads writes slept r b s) (ae_open V)"
    "keeps (within reads writes slept r b s) (ae_sync V)"
    "keeps (within reads writes slept r b s) (notify_storage_manifest_written V)"
    "keeps (within reads writes slept r b s) (call (ae_random16 V))"
    "keeps (within reads writes slept r b s) (fetch_storage_manifest_version (ae_store V))"
    "keeps (within reads writes slept r b s) (store_storage_manifest_version (ae_store V) v)"
    "keeps (within reads writes slept r b s) (storage_identity V key)"
    "keeps (within reads writes slept r b s) (save_storage_identity V key i)"
    "keeps (within reads writes slept r b s) (set_needs_storage_sync V key f)"
  using assms [unfolded counted_def Let_def, rule_format, of r b s]
  by (simp_all add: keeps_notify keeps_call)

lemma counted_read:
  "counted V key reads writes slept \<Longrightarrow> triple (within reads writes slept r b s) (ae_manifest V)
    (\<lambda>_. within reads writes slept (r + 1) b s) (\<lambda>_. within reads writes slept (r + 1) b s)"
  unfolding counted_def Let_def by (rule triple_of_snd) blast

lemma counted_send:
  "counted V key reads writes slept \<Longrightarrow> triple (within reads writes slept r b s) (ae_write_items V m recs dels)
    (\<lambda>_. within reads writes slept r (b + 1) s) (\<lambda>_. within reads writes slept r (b + 1) s)"
  unfolding counted_def Let_def by (rule triple_of_snd) blast

lemma counted_sleep:
  assumes "counted V key reads writes slept"
  shows "triple (within reads writes slept r b s) (sleep V d) (\<lambda>_. within reads writes slept r b (s + d)) E"
  using assms [unfolded counted_def Let_def, rule_format, of r b s]
  by (simp add: triple_def sleep_def call_def)

lemma triple_keeps_weaken:
  "keeps P m \<Longrightarrow> (\<And>x w. P w \<Longrightarrow> Q x w) \<Longrightarrow> (\<And>e w. P w \<Longrightarrow> E e w) \<Longrightarrow> triple P m Q E"
  by (rule triple_weaken [OF triple_keeps [of P]])

lemma counted_plan:
  assumes c: "counted V key reads writes slept"
  shows "keeps (within reads writes slept r b s) (plan_manifest_edit V current inserts dels)"
proof -
  have "keeps (within reads writes slept r b s) (add_identifiers V inserts ids)" for ids
    by (induction inserts arbitrary: ids)
       (auto intro!: keeps_rules countedD(5) [OF c] simp del: split_paired_All)
  then show ?thesis unfolding plan_manifest_edit_def by (intro keeps_rules)
qed

lemma counted_write:
  assumes c: "counted V key reads writes slept"
  shows "triple (within reads writes slept r b s) (write_replacing_storage_record V current ty old new_record)
    (\<lambda>_. within reads writes slept r (b + 1) s) (\<lambda>_. within reads writes slept r (b + 1) s)"
    (is "triple ?P _ (\<lambda>_. ?Q) _")
proof -
  have "triple ?P (write_manifest_edit V current inserts dels) (\<lambda>_. ?Q) (\<lambda>_. ?Q)" for inserts dels
    unfolding write_manifest_edit_def
  proof (rule triple_bindE)
    show "triple ?P (plan_manifest_edit V current inserts dels) (\<lambda>_. ?P) (\<lambda>_. ?Q)"
      by (rule triple_keeps_weaken [OF counted_plan [OF c]]) auto
    fix x :: "manifest \<times> (bytes \<times> bytes) list"
    obtain m recs where x: "x = (m, recs)" by fastforce
    have "keeps ?Q (case r of Inr () \<Rightarrow> ok (map fst recs)
         | Inl SS_Conflict \<Rightarrow> err StorageManifestConflict
         | Inl e \<Rightarrow> err (StorageServiceError e))" for r
      by (intro keeps_rules)
    then show "triple ?P (case x of (m, recs) \<Rightarrow> attempt (ae_write_items V m recs dels) (\<lambda>r.
         case r of
           Inr () \<Rightarrow> ok (map fst recs)
         | Inl SS_Conflict \<Rightarrow> err StorageManifestConflict
         | Inl e \<Rightarrow> err (StorageServiceError e))) (\<lambda>_. ?Q) (\<lambda>_. ?Q)"
      unfolding x prod.case
      by (intro triple_attempt [OF counted_send [OF c]] triple_keeps)
  qed
  then show ?thesis
    unfolding write_replacing_storage_record_def
    by (rule triple_bindE) (simp add: triple_def ok_def)
qed

text \<open>One pass: a sync costs a read, a refused write costs a read, a write and its back-off.\<close>

definition pass_cost ::
  "('w \<Rightarrow> nat) \<Rightarrow> ('w \<Rightarrow> nat) \<Rightarrow> ('w \<Rightarrow> nat) \<Rightarrow> nat \<Rightarrow> nat \<Rightarrow> nat \<Rightarrow> nat \<Rightarrow> pass \<Rightarrow> 'w \<Rightarrow> bool" where
  "pass_cost reads writes slept r b s k p w \<longleftrightarrow>
     (case p of
        Again k' \<Rightarrow>
          k' = k \<and> within reads writes slept (r + 1) b s w \<or>
          (\<exists>d. k' = k + 1 \<and> backoff_get k = Some d \<and> within reads writes slept (r + 1) (b + 1) (s + d) w)
      | _ \<Rightarrow> within reads writes slept (r + 1) (b + 1) s w)"

lemma within_pass_cost [simp]:
  "pass_cost reads writes slept r b s k Done w = within reads writes slept (r + 1) (b + 1) s w"
  "pass_cost reads writes slept r b s k Stop w = within reads writes slept (r + 1) (b + 1) s w"
  by (simp_all add: pass_cost_def)

lemma counted_written:
  assumes c: "counted V key reads writes slept"
  shows "triple (within reads writes slept r b s) (record_written V key version raw rec)
    (\<lambda>p w. p = Done \<and> within reads writes slept r b s w) (\<lambda>_. within reads writes slept r b s)"
proof -
  let ?m = "thenE (st (store_storage_manifest_version (ae_store V) version))
    (thenE (save_storage_identity V key
         \<lparr>si_storage_id = raw, si_storage_version = version, si_record = rec\<rparr>)
    (thenE (set_needs_storage_sync V key False) (notify_storage_manifest_written V)))"
  have "keeps (within reads writes slept r b s) ?m" by (intro keeps_rules countedD [OF c])
  from triple_thenE [OF triple_keeps [OF this], of "ok Done"
      "\<lambda>p w. p = Done \<and> within reads writes slept r b s w"]
  show ?thesis by (simp add: record_written_def thenE_assoc triple_def ok_def)
qed

lemma counted_retry:
  assumes c: "counted V key reads writes slept"
  shows "triple (within reads writes slept (r + 1) (b + 1) s) (retry_or_stop V k e)
    (pass_cost reads writes slept r b s k) (\<lambda>_. within reads writes slept (r + 1) (b + 1) s)"
  unfolding retry_or_stop_def
proof (rule triple_if)
  show "triple (within reads writes slept (r + 1) (b + 1) s)
     (case backoff_get k of None \<Rightarrow> ok Stop | Some d \<Rightarrow> thenE (sleep V d) (ok (Again (k + 1))))
     (pass_cost reads writes slept r b s k) (\<lambda>_. within reads writes slept (r + 1) (b + 1) s)"
  proof (cases "backoff_get k")
    case (Some d)
    have "triple (within reads writes slept (r + 1) (b + 1) (s + d)) (ok (Again (k + 1)))
        (pass_cost reads writes slept r b s k) (\<lambda>_. within reads writes slept (r + 1) (b + 1) s)"
      by (simp add: triple_def ok_def pass_cost_def Some)
    from triple_thenE [OF counted_sleep [OF c] this] show ?thesis using Some by simp
  qed (simp add: triple_def ok_def)
qed (simp add: triple_def err_def)

lemma counted_write_edited:
  assumes c: "counted V key reads writes slept"
  shows "triple (within reads writes slept (r + 1) b s) (write_edited V key current k sid new_record)
    (pass_cost reads writes slept r b s k) (\<lambda>_. within reads writes slept (r + 1) (b + 1) s)"
  unfolding write_edited_def
proof (rule triple_attempt [OF counted_write [OF c]], rule triple_case_sum)
  show "triple (within reads writes slept (r + 1) (b + 1) s) (retry_or_stop V k e)
    (pass_cost reads writes slept r b s k) (\<lambda>_. within reads writes slept (r + 1) (b + 1) s)" for e
    by (rule counted_retry [OF c])
  show "triple (within reads writes slept (r + 1) (b + 1) s) (record_written V key v raw new_record)
    (pass_cost reads writes slept r b s k) (\<lambda>_. within reads writes slept (r + 1) (b + 1) s)" for v raw
    by (rule triple_weaken [OF counted_written [OF c]]) auto
qed

lemma counted_pass:
  assumes c: "counted V key reads writes slept"
  shows "triple (within reads writes slept r b s) (update_pass V key edit k)
    (pass_cost reads writes slept r b s k) (\<lambda>_. within reads writes slept (r + 1) (b + 1) s)"
    (is "triple ?P _ ?Q ?E")
proof -
  let ?R = "within reads writes slept (r + 1) b s"
  have lower: "triple ?R (thenE (set_needs_storage_sync V key False) (ok Done)) ?Q ?E"
    by (rule triple_thenE, rule triple_keeps_weaken [OF countedD(10) [OF c], where Q = "\<lambda>_. ?R"])
       (auto simp: triple_def ok_def)
  have edited: "triple ?R (bindE (map_err StorageRecordEditError (lift_res x)) (\<lambda>edited.
       case edited of
         None \<Rightarrow> thenE (set_needs_storage_sync V key False) (ok Done)
       | Some new_record \<Rightarrow> write_edited V key current k sid new_record)) ?Q ?E" for x current sid
  proof (cases x)
    case (Inr y)
    have f: "bindE (map_err h (lift_res x)) g = g y" for h g
      using Inr by (auto simp: io_simps)
    show ?thesis unfolding f
      by (cases y) (simp_all only: option.case lower counted_write_edited [OF c])
  qed (simp add: triple_def io_simps)
  show ?thesis
    unfolding update_pass_def
  proof (rule triple_bindE [OF triple_keeps_weaken [OF keeps_st [OF countedD(6) [OF c]], where Q = "\<lambda>_. ?P"]])
    fix local_version
    show "triple ?P (bindE (ae_manifest V) (\<lambda>current.
       if mf_version current \<noteq> local_version then thenE (ae_sync V) (ok (Again k))
       else bindE (storage_identity V key) (\<lambda>identity.
         case identity of
           None \<Rightarrow> err StorageRecordUnknown
         | Some i \<Rightarrow>
             bindE (map_err StorageRecordEditError (lift_res (edit (si_record i)))) (\<lambda>edited.
               case edited of
                 None \<Rightarrow> thenE (set_needs_storage_sync V key False) (ok Done)
               | Some new_record \<Rightarrow>
                   write_edited V key current k (si_storage_id i) new_record)))) ?Q ?E"
    proof (rule triple_bindE [where R = "\<lambda>_. ?R"], rule triple_weaken [OF counted_read [OF c]],
        assumption, assumption, simp, rule triple_if)
      show "triple ?R (thenE (ae_sync V) (ok (Again k))) ?Q ?E"
        by (rule triple_thenE, rule triple_keeps_weaken [OF countedD(3) [OF c], where Q = "\<lambda>_. ?R"])
           (auto simp: triple_def ok_def pass_cost_def)
    qed (rule triple_bindE, rule triple_keeps_weaken [OF countedD(8) [OF c], where Q = "\<lambda>_. ?R"],
        use edited in \<open>auto simp: triple_def err_def split: option.split\<close>)
  qed auto
qed

text \<open>The back-offs that are left once \<open>k\<close> writes were refused.\<close>

definition backoff_left :: "nat \<Rightarrow> nat" where
  "backoff_left k = sum_list (drop k MANIFEST_WRITE_BACKOFF)"

lemma counted_passes:
  assumes c: "counted V key reads writes slept"
  shows "k \<le> 2 \<Longrightarrow> triple (within reads writes slept r b s) (update_passes V key edit n k)
    (\<lambda>_. within reads writes slept (r + n) (b + (3 - k)) (s + backoff_left k))
    (\<lambda>_. within reads writes slept (r + n) (b + (3 - k)) (s + backoff_left k))"
proof (induction n arbitrary: r b s k)
  case 0
  show ?case by (auto simp: triple_def err_def)
next
  case (Suc n)
  let ?L = "within reads writes slept (r + Suc n) (b + (3 - k)) (s + backoff_left k)"
  show ?case
    unfolding update_passes.simps
  proof (rule triple_bindE [where R = "pass_cost reads writes slept r b s k"])
    show "triple (within reads writes slept r b s) (update_pass V key edit k)
        (pass_cost reads writes slept r b s k) (\<lambda>_. ?L)"
      by (rule triple_weaken [OF counted_pass [OF c]]) (use Suc.prems in auto)
    fix p
    show "triple (pass_cost reads writes slept r b s k p) (case p of
         Done \<Rightarrow> ok ()
       | Again attempts' \<Rightarrow> update_passes V key edit n attempts'
       | Stop \<Rightarrow> err StorageManifestConflict) (\<lambda>_. ?L) (\<lambda>_. ?L)"
    proof (cases p)
      case (Again k')
      have same: "triple (\<lambda>w. k' = k \<and> within reads writes slept (r + 1) b s w)
          (update_passes V key edit n k') (\<lambda>_. ?L) (\<lambda>_. ?L)"
        by (rule triple_assume, rule triple_weaken [OF Suc.IH]) (use Suc.prems in auto)
      have again: "triple (\<lambda>w. (k' = k + 1 \<and> backoff_get k = Some d) \<and>
            within reads writes slept (r + 1) (b + 1) (s + d) w)
          (update_passes V key edit n k') (\<lambda>_. ?L) (\<lambda>_. ?L)" for d
      proof (rule triple_assume)
        assume k': "k' = k + 1 \<and> backoff_get k = Some d"
        have k: "k < 2" "backoff_left k = d + backoff_left (k + 1)"
          using k' by (auto simp: backoff_left_def backoff_get_def MANIFEST_WRITE_BACKOFF_def
              less_Suc_eq numeral_2_eq_2 split: if_splits)
        show "triple (within reads writes slept (r + 1) (b + 1) (s + d))
            (update_passes V key edit n k') (\<lambda>_. ?L) (\<lambda>_. ?L)"
          by (rule triple_weaken [OF Suc.IH]) (use k k' in auto)
      qed
      have "triple (\<lambda>w. \<exists>d. (k' = k + 1 \<and> backoff_get k = Some d) \<and>
            within reads writes slept (r + 1) (b + 1) (s + d) w)
          (update_passes V key edit n k') (\<lambda>_. ?L) (\<lambda>_. ?L)"
        by (rule triple_ex) (rule again)
      from triple_disj [OF same this] show ?thesis
        unfolding Again pass.case pass_cost_def by (rule triple_weaken) auto
    qed (use Suc.prems in \<open>auto simp: triple_def ok_def err_def\<close>)
  qed
qed

section \<open>Property\<close>


lemma cloud_counted: "counted cloud_env (KeyContact sid) cl_reads cl_writes cl_slept"
  unfolding counted_def
  by (simp add: keeps_def ok_def cloud_read_def cloud_write_def set_needs_storage_sync_def
      storage_identity_def save_storage_identity_def st_def map_err_def Let_def)


end
