(* ===== verification/Sqlite_Props.thy ===== *)
theory Sqlite_Props
  imports Sqlite_Laws Merge_Laws
begin

text \<open>
  The properties of the SQLite store. \<open>sample_env\<close> is the concrete environment of the witnesses:
  identity codecs, the service ids of theory Sample_Codec and every timestamp in range.
\<close>

definition sample_env :: sqlite_env where
  "sample_env =
     \<lparr>phone_parse = (\<lambda>s. Some (Phone s)), phone_to_string = (\<lambda>p. case p of Phone s \<Rightarrow> s),
      uuid_parse = (\<lambda>s. uuid_from_slice (map char_byte s)),
      uuid_print = (\<lambda>u. map byte_char (uuid_bytes u)),
      sid_print = service_id_string sample_codec, sid_parse = parse_from_service_id_string sample_codec,
      sid_binary = sample_binary, body_encode = (\<lambda>_. []), body_decode = (\<lambda>_. Some NullMessage),
      group_identifier = (\<lambda>k. k), millis_in_range = (\<lambda>_. True), device_id_ok = (\<lambda>d. 0 < d)\<rparr>"

lemma sample_env_texts [simp]: "contact_texts_ok sample_env c"
  by (auto simp: contact_texts_ok_def sample_env_def simp del: map_map split: phone_number.splits)

section \<open>Timers and calls\<close>

text \<open>A disappearing-messages timer only moves forward: of two updates newer than what the
  contact has seen, delivered in either order, the one with the higher version is the timer
  the store reads back.\<close>

theorem expire_timer_converges:
  assumes "contact_by_id (sqlite_store E) sid db = (Inr (Some c), db)" "contact_fits E sid c"
    and "c_expire_timer_version c < v1" "c_expire_timer_version c < v2" "v1 \<noteq> v2"
  shows "\<exists>db1 db2.
    update_expire_timer (sqlite_store E) (ContactThread sid) t1 v1 db = (Inr (), db1) \<and>
    update_expire_timer (sqlite_store E) (ContactThread sid) t2 v2 db1 = (Inr (), db2) \<and>
    expire_timer (sqlite_store E) (ContactThread sid) db2 =
      (Inr (Some (if v1 < v2 then (t2, v2) else (t1, v1))), db2)"
  by (rule sq_contact.timer_converges [OF TrueI assms(2,1,3-5)])

definition sample_contact_db :: sqlite_db where
  "sample_contact_db =
     sqlite_empty\<lparr>db_contacts := [contacts_row sample_env (contact_minimal (sample_uuid 1))]\<rparr>"

lemma sample_contact_stored:
  "contact_by_id (sqlite_store sample_env) (Aci (sample_uuid 1)) sample_contact_db =
     (Inr (Some (contact_minimal (sample_uuid 1))), sample_contact_db) \<and>
   contact_fits sample_env (Aci (sample_uuid 1)) (contact_minimal (sample_uuid 1))"
proof -
  have s: "stored_contact (contact_minimal u) = contact_minimal u" for u
    by (simp add: stored_contact_def contact_minimal_def contact_from_synced_def)
  have u: "c_uuid (contact_minimal u) = u" for u
    by (simp add: contact_minimal_def contact_from_synced_def)
  have r: "sq_uuid (contacts_row sample_env (contact_minimal (sample_uuid 1))) = sample_uuid 1"
    by (simp add: contacts_row_def u)
  show ?thesis
    by (simp add: sqlite_store_def sqlite_contact_by_id_def query_sql_def sample_contact_db_def
        sqlite_empty_def select_one_def r contact_of_contacts_row res_map_def s contact_fits_def u)
qed

lemma expire_timer_converges_witness:
  "\<exists>db1 db2.
    update_expire_timer (sqlite_store sample_env) (ContactThread (Aci (sample_uuid 1))) 60 4
      sample_contact_db = (Inr (), db1) \<and>
    update_expire_timer (sqlite_store sample_env) (ContactThread (Aci (sample_uuid 1))) 30 3 db1 =
      (Inr (), db2) \<and>
    expire_timer (sqlite_store sample_env) (ContactThread (Aci (sample_uuid 1))) db2 =
      (Inr (Some (60, 4)), db2)"
proof -
  have v: "c_expire_timer_version (contact_minimal (sample_uuid 1)) = 2"
    by (simp add: contact_minimal_def contact_from_synced_def default_expire_timer_version_def)
  have c: "c_expire_timer_version (contact_minimal (sample_uuid 1)) < 4"
    "c_expire_timer_version (contact_minimal (sample_uuid 1)) < 3" "(4::u32) \<noteq> 3"
    unfolding v by simp_all
  from expire_timer_converges [OF conjunct1 [OF sample_contact_stored]
      conjunct2 [OF sample_contact_stored] c, of 60 30]
  show ?thesis by simp
qed

text \<open>Ingesting a call event keeps the canonical entry: while a call id belongs to one peer,
  a direct or group event is merged into the stored entry, written, and the merged entry is
  what the store returns for the call from then on; an event of any other mode writes
  nothing.\<close>

theorem ingest_call_event_spec:
  assumes "call_good (ci_call_id info) (peer_id K peer) db" "ci_timestamp info < 2 ^ 63"
  shows "\<exists>prev. get_call_history (sqlite_store E) (ci_call_id info) db = (Inr prev, db) \<and>
    (case transition_call_history prev info (peer_id K peer) of
       None \<Rightarrow> ci_mode info \<in> {Mode_Adhoc, Mode_Unknown} \<and>
         ingest_call_event (sqlite_store E) K info peer db = (Inr None, db)
     | Some e \<Rightarrow> \<exists>db'.
         ingest_call_event (sqlite_store E) K info peer db = (Inr (Some e), db') \<and>
         call_good (ci_call_id info) (peer_id K peer) db' \<and>
         get_call_history (sqlite_store E) (ci_call_id info) db' = (Inr (Some e), db'))"
proof -
  obtain prev where prev: "get_call_history (sqlite_store E) (ci_call_id info) db = (Inr prev, db)"
    by (simp add: sqlite_store_def sqlite_get_call_history_def query_sql_def)
  show ?thesis
  proof (cases "transition_call_history prev info (peer_id K peer)")
    case None
    then have "ci_mode info \<in> {Mode_Adhoc, Mode_Unknown}"
      by (auto simp: transition_call_history_def transition_direct_def transition_group_def
          split: call_mode.splits)
    with None prev sq_call.ingest_none [OF prev refl refl None] show ?thesis by auto
  next
    case (Some e)
    with prev sq_call.ingest [OF assms(1) prev refl assms(2) refl Some] show ?thesis by auto
  qed
qed

definition sample_call_codec :: call_codec where
  "sample_call_codec =
     \<lparr>type_try_from = (\<lambda>_. None), direction_try_from = (\<lambda>_. None), event_try_from = (\<lambda>_. None),
      sha256 = (\<lambda>b. b), uuid_to_string = (\<lambda>u. map byte_char (uuid_bytes u)),
      hex_encode = map byte_char\<rparr>"

lemma ingest_call_event_spec_witness:
  "\<exists>db'. ingest_call_event (sqlite_store sample_env) sample_call_codec
      (sample_call_event Mode_Direct Event_Accepted 5) (PeerDirect (sample_uuid 1)) sqlite_empty =
    (Inr (Some (merged_entry None (sample_call_event Mode_Direct Event_Accepted 5)
       (peer_id sample_call_codec (PeerDirect (sample_uuid 1))) (StatusDirect D_Accepted))), db')"
proof -
  let ?i = "sample_call_event Mode_Direct Event_Accepted 5"
  have g: "call_good (ci_call_id ?i) (peer_id sample_call_codec (PeerDirect (sample_uuid 1))) sqlite_empty"
    by (simp add: call_good_def sqlite_empty_def)
  have t: "ci_timestamp ?i < 2 ^ 63" by (simp add: sample_call_event_def)
  have n: "get_call_history (sqlite_store sample_env) (ci_call_id ?i) sqlite_empty = (Inr None, sqlite_empty)"
    by (simp add: sqlite_store_def sqlite_get_call_history_def query_sql_def sqlite_empty_def select_one_def)
  from ingest_call_event_spec [OF g t, of sample_env] n show ?thesis
    by (auto simp: transition_call_history_def transition_direct_def sample_call_event_def
        direct_next_def)
qed

section \<open>Contacts\<close>

text \<open>C39. Saving a contact and reading it back: every field of an unverified contact comes back
  (timestamps over their full 64 bits, the avatar's content type replaced by the generic one)
  and no other contact changes; a contact that carries a verification with an identity key is
  refused by the foreign key of the verification table and nothing is written.\<close>

theorem sqlite_contact_roundtrip:
  assumes "contact_texts_ok E c"
  shows "if unverified_contact c
    then \<exists>db'. sqlite_save_contact E c db = (Inr (), db') \<and>
      (\<forall>sid. fst (sqlite_contact_by_id E sid db') =
         (if raw_uuid sid = c_uuid c then Inr (Some (stored_contact c))
          else fst (sqlite_contact_by_id E sid db)))
    else sqlite_save_contact E c db = (Inl Sq_Db, db)"
proof (cases "unverified_contact c")
  case True
  then obtain db' where s: "sqlite_save_contact E c db = (Inr (), db')"
    by (simp add: save_contact_unverified)
  have "fst (sqlite_contact_by_id E sid db') =
      (if raw_uuid sid = c_uuid c then Inr (Some (stored_contact c))
       else fst (sqlite_contact_by_id E sid db))" for sid
    using contact_by_id_saved [OF True assms _ s, of sid] contact_by_id_other [OF True _ s, of sid]
    by auto
  with True s show ?thesis by auto
next
  case False
  then show ?thesis
    by (auto simp: sqlite_save_contact_def unverified_contact_def Let_def list_ex_iff)
qed

lemma sqlite_contact_roundtrip_witness:
  "\<exists>db'. sqlite_save_contact sample_env ((contact_minimal (sample_uuid 1))\<lparr>c_muted_until := - 1\<rparr>)
      sqlite_empty = (Inr (), db') \<and>
    fst (sqlite_contact_by_id sample_env (Aci (sample_uuid 1)) db') =
      Inr (Some ((contact_minimal (sample_uuid 1))\<lparr>c_muted_until := - 1\<rparr>))"
proof -
  let ?c = "(contact_minimal (sample_uuid 1))\<lparr>c_muted_until := - 1\<rparr>"
  have c: "unverified_contact ?c" "c_uuid ?c = sample_uuid 1" "stored_contact ?c = ?c"
    by (simp_all add: unverified_contact_def contact_minimal_def contact_from_synced_def
        verified_default_def stored_contact_def)
  from sqlite_contact_roundtrip [OF sample_env_texts [of ?c], of sqlite_empty] c(1)
  obtain db' where d: "sqlite_save_contact sample_env ?c sqlite_empty = (Inr (), db')"
    "\<And>sid. fst (sqlite_contact_by_id sample_env sid db') =
       (if raw_uuid sid = c_uuid ?c then Inr (Some (stored_contact ?c))
        else fst (sqlite_contact_by_id sample_env sid sqlite_empty))"
    by (auto simp only: if_True)
  from d(1) d(2) [of "Aci (sample_uuid 1)"] c(2,3) show ?thesis by auto
qed

section \<open>Groups\<close>

text \<open>C13. The indexed lookup of a group by its public identifier answers exactly what the trait's
  scan of all groups answers, once every row carries an identifier; \<open>save_group\<close> keeps it so,
  and one successful backfill makes it so.\<close>

theorem group_lookup_equivalence:
  assumes "groups_wf E db"
  shows "(groups_populated db \<longrightarrow>
      sqlite_group_by_group_id gid db = group_by_group_id (sqlite_store E) (group_identifier E) gid db \<and>
      (\<forall>mk g. groups_wf E (snd (sqlite_save_group E mk g db)) \<and>
         groups_populated (snd (sqlite_save_group E mk g db)))) \<and>
    (\<forall>n db'. backfill_group_ids E db = (Inr n, db') \<longrightarrow>
       groups_wf E db' \<and> groups_populated db' \<and>
       sqlite_group_by_group_id gid db' = group_by_group_id (sqlite_store E) (group_identifier E) gid db')"
proof -
  have eq: "sqlite_group_by_group_id gid d = group_by_group_id (sqlite_store E) (group_identifier E) gid d"
    if "groups_wf E d" "groups_populated d" for d
  proof -
    have "\<forall>r \<in> set (db_groups d). \<exists>mk. sg_master_key r = key32_bytes mk \<and>
        sg_group_id r = Some (key32_bytes (group_identifier E mk))"
      using that by (fastforce simp: groups_wf_def groups_populated_def)
    from find_group_rows [OF this, of gid] show ?thesis
      by (simp add: sqlite_group_by_group_id_def group_by_group_id_def sqlite_store_def
          sqlite_groups_def query_sql_def io_simps split: option.split)
  qed
  have save: "groups_wf E (snd (sqlite_save_group E mk g db)) \<and>
      groups_populated (snd (sqlite_save_group E mk g db))" if "groups_populated db" for mk g
    using save_group_wf [OF assms, of mk g] save_group_populated [OF that, of E mk g]
    by (cases "sqlite_save_group E mk g db") auto
  have bf: "groups_wf E db' \<and> groups_populated db'" if "backfill_group_ids E db = (Inr n, db')" for n db'
  proof (cases "filter (\<lambda>r. sg_group_id r = None) (db_groups db) = []")
    case True
    with that assms show ?thesis
      by (auto simp: backfill_group_ids_def groups_populated_def filter_empty_conv)
  next
    case False
    with that obtain rows where
      r: "backfill_rows E (map sg_master_key (filter (\<lambda>r. sg_group_id r = None) (db_groups db)))
          (db_groups db) = Inr rows" "db' = db\<lparr>db_groups := rows\<rparr>"
      by (auto simp: backfill_group_ids_def Let_def split: sum.splits)
    from backfill_rows_wf [OF assms r(1)] r(2) show ?thesis
      by (force simp: groups_populated_def)
  qed
  from eq [OF assms] save bf eq show ?thesis by blast
qed

definition sample_group_db :: sqlite_db where
  "sample_group_db =
     sqlite_empty\<lparr>db_groups := [sql_from_group (sample_key32 7) None sample_group]\<rparr>"

lemma group_lookup_equivalence_witness:
  "\<exists>db'. backfill_group_ids sample_env sample_group_db = (Inr 1, db') \<and> groups_populated db' \<and>
    sqlite_group_by_group_id (sample_key32 7) db' =
    group_by_group_id (sqlite_store sample_env) (group_identifier sample_env) (sample_key32 7) db'"
proof -
  have wf: "groups_wf sample_env sample_group_db"
    by (auto simp: groups_wf_def sample_group_db_def sqlite_empty_def sql_from_group_def
        simp del: sample_key32_bytes)
  obtain db' where "backfill_group_ids sample_env sample_group_db = (Inr 1, db')"
    by (simp add: backfill_group_ids_def sample_group_db_def sqlite_empty_def sql_from_group_def
        set_group_id_def Let_def res_bind_def key32_from_slice_bytes del: sample_key32_bytes)
  with group_lookup_equivalence [OF wf, of "sample_key32 7"] show ?thesis by blast
qed

text \<open>Before the backfill the lookup by identifier misses a group the scan finds.\<close>

lemma group_lookup_before_backfill:
  "sqlite_group_by_group_id (sample_key32 7) sample_group_db = (Inr None, sample_group_db) \<and>
   group_by_group_id (sqlite_store sample_env) (group_identifier sample_env) (sample_key32 7)
     sample_group_db = (Inr (Some (sample_key32 7)), sample_group_db)"
  by (simp add: sqlite_group_by_group_id_def group_by_group_id_def sqlite_store_def sqlite_groups_def
      query_sql_def io_simps sample_group_db_def sqlite_empty_def select_one_def
      sql_eq_def sample_env_def res_bind_def)
    (simp add: sql_from_group_def)

text \<open>Saving a group and reading it back: the group comes back exactly, the avatar cached for a
  group that was already stored is lost with the row it belonged to, and a group whose public
  identifier differs is not touched.\<close>

theorem sqlite_group_roundtrip:
  "\<exists>db'. sqlite_save_group E mk g db = (Inr (), db') \<and>
    sqlite_group mk db' = (Inr (Some g), db') \<and>
    (list_ex (\<lambda>r. sg_master_key r = key32_bytes mk) (db_groups db) \<longrightarrow>
       group_avatar mk db' = (Inr None, db')) \<and>
    (\<forall>mk'. mk' \<noteq> mk \<longrightarrow>
       (\<forall>r \<in> set (db_groups db). sg_master_key r = key32_bytes mk' \<longrightarrow>
          \<not> sql_eq (sg_group_id r) (Some (key32_bytes (group_identifier E mk)))) \<longrightarrow>
       fst (sqlite_group mk' db') = fst (sqlite_group mk' db))"
proof -
  define row where "row = sql_from_group mk (Some (key32_bytes (group_identifier E mk))) g"
  let ?clash = "\<lambda>x. sg_master_key x = sg_master_key row \<or> sql_eq (sg_group_id x) (sg_group_id row)"
  let ?gone = "map sg_master_key (filter ?clash (db_groups db))"
  let ?db = "db\<lparr>db_groups := replace_row ?clash row (db_groups db),
    db_group_avatars := filter (\<lambda>a. av_key a \<notin> set ?gone) (db_group_avatars db)\<rparr>"
  have row: "sg_master_key row = key32_bytes mk"
    "sg_group_id row = Some (key32_bytes (group_identifier E mk))"
    by (simp_all add: row_def sql_from_group_def)
  have save: "sqlite_save_group E mk g db = (Inr (), ?db)"
    by (simp add: sqlite_save_group_def execute_sql_def Let_def row_def)
  have "select_one (\<lambda>r. sg_master_key r = key32_bytes mk) (replace_row ?clash row (db_groups db)) = Some row"
    by (rule select_replaced) (simp_all add: row)
  then have get: "sqlite_group mk ?db = (Inr (Some g), ?db)"
    by (simp add: sqlite_group_def query_sql_def row_def res_map_def)
  have av: "group_avatar mk ?db = (Inr None, ?db)"
    if "list_ex (\<lambda>r. sg_master_key r = key32_bytes mk) (db_groups db)"
  proof -
    have mem: "key32_bytes mk \<in> set ?gone" using that row by (force simp: list_ex_iff)
    have "select_one (\<lambda>a. av_key a = key32_bytes mk)
        (filter (\<lambda>a. av_key a \<notin> set ?gone) (db_group_avatars db)) = None"
    proof (rule select_none)
      fix x assume "x \<in> set (filter (\<lambda>a. av_key a \<notin> set ?gone) (db_group_avatars db))"
      then have "av_key x \<notin> set ?gone" unfolding set_filter by blast
      show "av_key x \<noteq> key32_bytes mk"
      proof
        assume "av_key x = key32_bytes mk"
        with mem \<open>av_key x \<notin> set ?gone\<close> show False by simp
      qed
    qed
    then show ?thesis by (simp add: group_avatar_def query_sql_def)
  qed
  have other: "fst (sqlite_group mk' ?db) = fst (sqlite_group mk' db)"
    if "mk' \<noteq> mk" "\<forall>r \<in> set (db_groups db). sg_master_key r = key32_bytes mk' \<longrightarrow>
          \<not> sql_eq (sg_group_id r) (Some (key32_bytes (group_identifier E mk)))" for mk'
  proof -
    have "select_one (\<lambda>r. sg_master_key r = key32_bytes mk') (replace_row ?clash row (db_groups db)) =
        select_one (\<lambda>r. sg_master_key r = key32_bytes mk') (db_groups db)"
      by (rule select_kept) (use that row in auto)
    then show ?thesis by (simp add: sqlite_group_def query_sql_def)
  qed
  from save get av other show ?thesis by blast
qed

lemma sqlite_group_roundtrip_witness:
  "\<exists>db'. sqlite_save_group sample_env (sample_key32 7) sample_group_row sample_group_db = (Inr (), db') \<and>
    sqlite_group (sample_key32 7) db' = (Inr (Some sample_group_row), db') \<and>
    group_avatar (sample_key32 7) db' = (Inr None, db')"
proof -
  have "list_ex (\<lambda>r. sg_master_key r = key32_bytes (sample_key32 7)) (db_groups sample_group_db)"
    by (simp add: sample_group_db_def sql_from_group_def)
  with sqlite_group_roundtrip [of sample_env "sample_key32 7" sample_group_row sample_group_db]
  show ?thesis by blast
qed

end
