(* ===== verification/Sqlite_Messages.thy ===== *)
theory Sqlite_Messages
  imports Sqlite_Props
begin

text \<open>
  The message, thread and profile tables: what a save leaves for every later lookup, which
  messages a range lists, and the foreign keys of the profile tables.
\<close>

section \<open>Messages\<close>

text \<open>
  What the schema and \<open>save_message\<close> keep of threads and messages: ids are handed out once, no
  message belongs to a thread yet to be created, and a thread is one contact's or one group's.
\<close>

definition threads_wf :: "sqlite_db \<Rightarrow> bool" where
  "threads_wf db \<longleftrightarrow>
     distinct (map th_id (db_threads db)) \<and>
     (\<forall>r \<in> set (db_threads db). th_id r \<le> db_thread_seq db \<and>
        (th_group_master_key r = None \<or> th_recipient_id r = None)) \<and>
     (\<forall>m \<in> set (db_messages db). sm_thread_id m \<le> db_thread_seq db)"

definition thread_key :: "thread \<Rightarrow> bytes option \<times> uuid option" where
  "thread_key t = (thread_group_master_key t, thread_recipient_id t)"

lemma thread_matches_new:
  "thread_matches t' \<lparr>th_id = i, th_group_master_key = thread_group_master_key t,
      th_recipient_id = thread_recipient_id t\<rparr> \<longleftrightarrow> thread_key t' = thread_key t"
  by (cases t; cases t') (auto simp: thread_matches_def sql_eq_def thread_key_def)

lemma thread_matches_key:
  assumes "thread_matches t r" "thread_matches t' r"
    "th_group_master_key r = None \<or> th_recipient_id r = None"
  shows "thread_key t = thread_key t'"
  using assms by (cases t; cases t') (auto simp: thread_matches_def sql_eq_def thread_key_def)

lemma find_thread_id_key:
  assumes "threads_wf db" "find_thread_id t db = Some i" "find_thread_id t' db = Some i"
  shows "thread_key t = thread_key t'"
proof -
  from assms(2,3) obtain r r' where r: "r \<in> set (db_threads db)" "thread_matches t r" "th_id r = i"
    "r' \<in> set (db_threads db)" "thread_matches t' r'" "th_id r' = i"
    by (auto simp: find_thread_id_def dest!: select_SomeD)
  then have "r = r'"
    using assms(1) by (auto simp: threads_wf_def distinct_map dest: inj_onD)
  with r assms(1) thread_matches_key [of t r t'] show ?thesis by (auto simp: threads_wf_def)
qed

lemma find_thread_id_seq:
  "threads_wf db \<Longrightarrow> find_thread_id t db = Some i \<Longrightarrow> i \<le> db_thread_seq db"
  by (auto simp: find_thread_id_def threads_wf_def dest!: select_SomeD)

lemma select_append: "select_one p (xs @ [y]) =
   (case select_one p xs of Some x \<Rightarrow> Some x | None \<Rightarrow> if p y then Some y else None)"
  unfolding select_one_def by (induction xs) auto

lemma upsert_thread_spec:
  assumes "threads_wf db" "upsert_thread t db = (tid, db')"
  shows "threads_wf db' \<and> find_thread_id t db' = Some tid \<and> tid \<le> db_thread_seq db' \<and>
    db_messages db' = db_messages db \<and>
    (\<forall>t'. thread_key t' \<noteq> thread_key t \<longrightarrow> find_thread_id t' db' = find_thread_id t' db)"
proof (cases "find_thread_id t db")
  case None
  then have none: "select_one (thread_matches t) (db_threads db) = None"
    by (simp add: find_thread_id_def)
  let ?row = "\<lparr>th_id = db_thread_seq db + 1, th_group_master_key = thread_group_master_key t,
      th_recipient_id = thread_recipient_id t\<rparr>"
  have db': "tid = db_thread_seq db + 1"
    "db' = db\<lparr>db_threads := db_threads db @ [?row], db_thread_seq := db_thread_seq db + 1\<rparr>"
    using assms(2) None by (auto simp: upsert_thread_def Let_def)
  have "threads_wf db'"
    using assms(1) unfolding db' threads_wf_def by (cases t) force+
  moreover have "find_thread_id t db' = Some tid"
    by (simp add: db' find_thread_id_def select_append none thread_matches_new)
  moreover have "find_thread_id t' db' = find_thread_id t' db" if "thread_key t' \<noteq> thread_key t" for t'
    using that by (simp add: db' find_thread_id_def select_append thread_matches_new split: option.split)
  ultimately show ?thesis by (simp add: db')
next
  case (Some i)
  with assms find_thread_id_seq [OF assms(1) Some] show ?thesis by (auto simp: upsert_thread_def)
qed

lemma in_thread_cong:
  "find_thread_id t db' = find_thread_id t db \<Longrightarrow> in_thread t db' = in_thread t db"
  by (auto simp: in_thread_def)

lemma find_thread_id_messages [simp]:
  "find_thread_id t (db\<lparr>db_messages := ms\<rparr>) = find_thread_id t db"
  by (simp add: find_thread_id_def)

text \<open>The row a lookup selects, with the conversion left to the caller.\<close>

definition message_at :: "thread \<Rightarrow> u64 \<Rightarrow> sqlite_db \<Rightarrow> sql_message option" where
  "message_at t ts db = select_one (\<lambda>m. sm_ts m = ts \<and> in_thread t db m) (db_messages db)"

lemma sqlite_message_at:
  "ts < 2 ^ 63 \<Longrightarrow> sqlite_message E t ts db =
     ((case message_at t ts db of None \<Rightarrow> Inr None | Some m \<Rightarrow> res_map Some (content_of_sql E m)), db)"
  by (simp add: sqlite_message_def io_simps i64_try_from_def query_sql_def message_at_def)

lemma message_at_find: "message_at t ts db =
   select_one (\<lambda>m. sm_ts m = ts \<and> Some (sm_thread_id m) = find_thread_id t db) (db_messages db)"
  unfolding message_at_def in_thread_def sql_eq_def by (rule arg_cong2 [of _ _ _ _ select_one]) auto

definition put_message :: "sql_message \<Rightarrow> sqlite_db \<Rightarrow> sqlite_db" where
  "put_message r db = db\<lparr>db_messages :=
     replace_row (\<lambda>x. sm_ts x = sm_ts r \<and> sm_thread_id x = sm_thread_id r) r (db_messages db)\<rparr>"

lemma find_thread_id_put [simp]: "find_thread_id t (put_message r db) = find_thread_id t db"
  by (simp add: put_message_def)

lemma put_message_at:
  assumes "find_thread_id t db = Some (sm_thread_id r)"
  shows "message_at t (sm_ts r) (put_message r db) = Some r"
  unfolding message_at_find find_thread_id_put assms
  unfolding put_message_def by simp (rule select_replaced; simp)

lemma put_message_other:
  assumes wf: "threads_wf db" and t: "find_thread_id t db = Some (sm_thread_id r)"
    and ne: "(thread_key t', ts') \<noteq> (thread_key t, sm_ts r)"
  shows "message_at t' ts' (put_message r db) = message_at t' ts' db"
proof -
  have "\<not> (sm_ts r = ts' \<and> Some (sm_thread_id r) = find_thread_id t' db)"
    using find_thread_id_key [OF wf t, of t'] ne by auto
  then show ?thesis
    unfolding message_at_find find_thread_id_put
    unfolding put_message_def by simp (rule select_kept; auto)
qed

lemma upsert_message_at:
  assumes wf: "threads_wf db" and u: "upsert_thread t db = (tid, db1)"
  shows "message_at t' ts' db1 = message_at t' ts' db"
proof -
  note up = upsert_thread_spec [OF wf u]
  show ?thesis
  proof (cases "find_thread_id t' db1 = find_thread_id t' db")
    case True
    with up show ?thesis by (simp add: message_at_find)
  next
    case False
    then have k: "thread_key t' = thread_key t" using up by auto
    then have "thread_matches t' = thread_matches t"
      by (cases t; cases t') (auto simp: thread_matches_def thread_key_def fun_eq_iff)
    then have f: "find_thread_id t' d = find_thread_id t d" for d by (simp add: find_thread_id_def)
    have n: "find_thread_id t db = None"
      using u False by (auto simp: upsert_thread_def f split: option.splits)
    then have "tid = db_thread_seq db + 1"
      using u by (auto simp: upsert_thread_def Let_def)
    then have "sm_thread_id x \<noteq> tid" if "x \<in> set (db_messages db)" for x
      using wf that by (auto simp: threads_wf_def)
    then have "message_at t' ts' db1 = None"
      unfolding message_at_find using up by (intro select_none) (auto simp: f)
    moreover have "message_at t' ts' db = None"
      unfolding message_at_find f n by (rule select_none) simp
    ultimately show ?thesis by simp
  qed
qed

lemma save_message_at:
  assumes wf: "threads_wf db"
  shows "\<exists>db' tid. sqlite_save_message E t c db = (Inr (), db') \<and> threads_wf db' \<and>
    message_at t (md_client_timestamp (ct_metadata c)) db' = Some (message_row E tid c) \<and>
    (\<forall>t' ts'. (thread_key t', ts') \<noteq> (thread_key t, md_client_timestamp (ct_metadata c)) \<longrightarrow>
       message_at t' ts' db' = message_at t' ts' db)"
proof -
  obtain tid db1 where u: "upsert_thread t db = (tid, db1)" by (cases "upsert_thread t db")
  note up = upsert_thread_spec [OF wf u]
  let ?r = "message_row E tid c"
  have r: "sm_ts ?r = md_client_timestamp (ct_metadata c)" "sm_thread_id ?r = tid"
    by (simp_all add: message_row_def Let_def i64_of_u64_def)
  have save: "sqlite_save_message E t c db = (Inr (), put_message ?r db1)"
    by (simp add: sqlite_save_message_def execute_sql_def u Let_def put_message_def r)
  have wf1: "threads_wf db1" and f: "find_thread_id t db1 = Some (sm_thread_id ?r)"
    using up r by auto
  have "threads_wf (put_message ?r db1)"
    using up r by (auto simp: put_message_def threads_wf_def replace_row_def)
  moreover note put_message_at [OF f]
  moreover note put_message_other [OF wf1 f] upsert_message_at [OF wf u]
  ultimately show ?thesis using save r by auto
qed

definition ts_of :: "content \<Rightarrow> u64" where
  "ts_of c = md_client_timestamp (ct_metadata c)"

text \<open>C38. Saving a message and reading it back: the message is found under its thread and
  timestamp, with its server timestamp replaced by the client's (that column is not written)
  and without its server guid and spam token; a second save of the same key replaces it, no
  other thread's or time's message changes, and deleting it removes exactly it.\<close>

theorem sqlite_message_roundtrip:
  assumes wf: "threads_wf db" and c: "message_readable E c" "ts_of c < 2 ^ 63"
  shows "\<exists>db'. sqlite_save_message E t c db = (Inr (), db') \<and> threads_wf db' \<and>
    sqlite_message E t (ts_of c) db' = (Inr (Some (stored_message c)), db') \<and>
    (\<forall>t' ts'. ts' < 2 ^ 63 \<longrightarrow> (thread_key t', ts') \<noteq> (thread_key t, ts_of c) \<longrightarrow>
       fst (sqlite_message E t' ts' db') = fst (sqlite_message E t' ts' db)) \<and>
    (\<exists>db''. delete_message t (ts_of c) db' = (Inr True, db'') \<and>
       sqlite_message E t (ts_of c) db'' = (Inr None, db''))"
proof -
  from save_message_at [OF wf, of E t c]
  obtain db' tid where s: "sqlite_save_message E t c db = (Inr (), db')" "threads_wf db'"
    "message_at t (ts_of c) db' = Some (message_row E tid c)"
    "\<And>t' ts'. (thread_key t', ts') \<noteq> (thread_key t, ts_of c) \<Longrightarrow>
       message_at t' ts' db' = message_at t' ts' db"
    unfolding ts_of_def by blast
  have get: "sqlite_message E t (ts_of c) db' = (Inr (Some (stored_message c)), db')"
    using c(2) by (simp add: sqlite_message_at s(3) content_of_message_row [OF c(1)] res_map_def)
  let ?hit = "\<lambda>m. sm_ts m = ts_of c \<and> in_thread t db' m"
  let ?db = "db'\<lparr>db_messages := filter (\<lambda>m. \<not> ?hit m) (db_messages db')\<rparr>"
  have hit: "list_ex ?hit (db_messages db')"
    using s(3) unfolding message_at_def by (auto simp: list_ex_iff dest: select_SomeD)
  have del: "delete_message t (ts_of c) db' = (Inr True, ?db)"
    using hit c(2) by (simp add: delete_message_def io_simps i64_try_from_def Let_def)
  have "message_at t (ts_of c) ?db = None"
    unfolding message_at_def by (rule select_none) (auto simp: in_thread_def)
  then have "sqlite_message E t (ts_of c) ?db = (Inr None, ?db)"
    using c(2) by (simp add: sqlite_message_at)
  with del get s show ?thesis by (auto simp: sqlite_message_at)
qed

definition sample_content :: content where
  "sample_content =
     \<lparr>ct_metadata =
        \<lparr>md_sender = Aci (sample_uuid 1), md_destination = Aci (sample_uuid 2), md_sender_device = 1,
         md_client_timestamp = 10, md_server_timestamp = 11, md_needs_receipt = False,
         md_unidentified_sender = True, md_server_guid = None, md_was_plaintext = False,
         md_report_spam_token = None, md_pni_verified = None\<rparr>,
      ct_body = NullMessage\<rparr>"

lemma sample_content_readable: "message_readable sample_env sample_content"
  by (simp add: message_readable_def sample_env_def sample_content_def
      codec_okD(1) [OF sample_codec_ok])

lemma threads_wf_empty [simp]: "threads_wf sqlite_empty"
  by (simp add: threads_wf_def sqlite_empty_def)

lemma sqlite_message_roundtrip_witness:
  "\<exists>db'. sqlite_save_message sample_env (GroupThread (sample_key32 3)) sample_content sqlite_empty =
      (Inr (), db') \<and>
    sqlite_message sample_env (GroupThread (sample_key32 3)) 10 db' =
      (Inr (Some (stored_message sample_content)), db')"
proof -
  have ts: "ts_of sample_content = 10" by (simp add: ts_of_def sample_content_def)
  have lt: "ts_of sample_content < 2 ^ 63" unfolding ts by simp
  from sqlite_message_roundtrip [OF threads_wf_empty sample_content_readable lt,
      of "GroupThread (sample_key32 3)"]
  show ?thesis unfolding ts by blast
qed

section \<open>Ranges of messages\<close>

text \<open>\<open>RangeBounds::contains\<close> on the timestamps the trait speaks of.\<close>

fun above :: "bound \<Rightarrow> u64 \<Rightarrow> bool" where
  "above (Included x) ts = (x \<le> ts)"
| "above (Excluded x) ts = (x < ts)"
| "above Unbounded ts = True"

fun below :: "bound \<Rightarrow> u64 \<Rightarrow> bool" where
  "below (Included x) ts = (ts \<le> x)"
| "below (Excluded x) ts = (ts < x)"
| "below Unbounded ts = True"

fun bound_fits :: "bound \<Rightarrow> bool" where
  "bound_fits (Included x) = (x < 2 ^ 63)"
| "bound_fits (Excluded x) = (x < 2 ^ 63)"
| "bound_fits Unbounded = True"

lemma sint_u64: "(x :: u64) < 2 ^ 63 \<Longrightarrow> sint x = uint x"
proof -
  assume "x < 2 ^ 63"
  then have "uint x < 2 ^ 63" by (simp add: word_less_alt)
  then show ?thesis
    by (simp add: sint_uint signed_take_bit_eq_if_positive bit_iff_odd take_bit_eq_mod
        div_pos_pos_trivial)
qed

lemma insort_key_agree:
  "(\<And>y. y \<in> insert x (set ys) \<Longrightarrow> f y = g y) \<Longrightarrow> insort_key f x ys = insort_key g x ys"
  by (induction ys) auto

lemma sort_key_agree: "(\<And>x. x \<in> set xs \<Longrightarrow> f x = g x) \<Longrightarrow> sort_key f xs = sort_key g xs"
proof (induction xs)
  case (Cons x xs)
  then have "sort_key f xs = sort_key g xs" by simp
  moreover have "insort_key f x (sort_key g xs) = insort_key g x (sort_key g xs)"
    by (rule insort_key_agree) (use Cons.prems in auto)
  ultimately show ?case by simp
qed simp

lemma sql_in_range_iff:
  assumes "bound_fits lo" "bound_fits hi" "ts < 2 ^ 63"
  shows "sql_in_range lo hi ts \<longleftrightarrow> above lo ts \<and> below hi ts"
  using assms
  by (cases lo; cases hi)
    (simp_all add: sql_in_range_def coalesce3_def sql_cmp_def i64_of_u64_def sint_u64
      word_le_def word_less_def)

text \<open>Listing a thread: for bounds below \<open>2 ^ 63\<close> exactly the messages of the thread whose time lies in
  the range are listed, newest first; an inclusive upper bound of \<open>u64::MAX\<close> becomes \<open>-1\<close> in
  the query and lists nothing at all.\<close>

theorem sqlite_messages_range:
  assumes "\<forall>m \<in> set (db_messages db). sm_ts m < 2 ^ 63"
  shows "(bound_fits lo \<and> bound_fits hi \<longrightarrow>
      sqlite_messages E t lo hi db =
        (Inr (map (content_of_sql E) (rev (sort_key (\<lambda>m. uint (sm_ts m))
           (filter (\<lambda>m. in_thread t db m \<and> above lo (sm_ts m) \<and> below hi (sm_ts m))
              (db_messages db))))), db)) \<and>
    sqlite_messages E t lo (Included (- 1)) db = (Inr [], db)"
proof (intro conjI impI)
  assume b: "bound_fits lo \<and> bound_fits hi"
  have f: "filter (\<lambda>m. in_thread t db m \<and> sql_in_range lo hi (sm_ts m)) (db_messages db) =
      filter (\<lambda>m. in_thread t db m \<and> above lo (sm_ts m) \<and> below hi (sm_ts m)) (db_messages db)"
    by (rule filter_cong) (use assms b sql_in_range_iff in auto)
  have s: "sort_key (\<lambda>m. sint (sm_ts m)) ms = sort_key (\<lambda>m. uint (sm_ts m)) ms"
    if "set ms \<subseteq> set (db_messages db)" for ms
    by (rule sort_key_agree) (use assms that sint_u64 in auto)
  show "sqlite_messages E t lo hi db =
        (Inr (map (content_of_sql E) (rev (sort_key (\<lambda>m. uint (sm_ts m))
           (filter (\<lambda>m. in_thread t db m \<and> above lo (sm_ts m) \<and> below hi (sm_ts m))
              (db_messages db))))), db)"
    unfolding sqlite_messages_def query_sql_def f by (subst s) auto
next
  have "\<not> sql_in_range lo (Included (- 1)) (sm_ts m)" if "m \<in> set (db_messages db)" for m
  proof -
    have "\<not> uint (sm_ts m) \<le> - 1" using uint_ge_0 [of "sm_ts m"] by linarith
    then show ?thesis using assms that sint_u64 [of "sm_ts m"]
    by (auto simp: sql_in_range_def coalesce3_def sql_cmp_def i64_of_u64_def split: prod.split
        dest!: bspec)
  qed
  then have "filter (\<lambda>m. in_thread t db m \<and> sql_in_range lo (Included (- 1)) (sm_ts m)) (db_messages db) = []"
    by (simp add: filter_empty_conv)
  then show "sqlite_messages E t lo (Included (- 1)) db = (Inr [], db)"
    unfolding sqlite_messages_def query_sql_def by simp
qed

lemma sqlite_messages_range_witness:
  "sqlite_messages sample_env (GroupThread (sample_key32 3)) (Included 5) (Excluded 20) sqlite_empty =
     (Inr [], sqlite_empty)"
  using sqlite_messages_range [of sqlite_empty "Included 5" "Excluded 20" sample_env
      "GroupThread (sample_key32 3)"]
  by (simp add: sqlite_empty_def)

section \<open>Profiles\<close>

text \<open>A profile is cached under its key: a save is read back with that key only and touches no
  other profile; upserting a key afterwards, even the same one, drops the cached profile with
  the replaced row; and clearing all profiles fails as long as an avatar refers to a key.\<close>

theorem sqlite_profile_spec:
  "\<exists>db'. save_profile u k p db = (Inr (), db') \<and>
    load_profile u k db' = (Inr (Some p), db') \<and>
    (\<forall>k'. k' \<noteq> k \<longrightarrow> load_profile u k' db' = (Inr None, db')) \<and>
    (\<forall>u' k'. u' \<noteq> u \<longrightarrow> fst (load_profile u' k' db') = fst (load_profile u' k' db)) \<and>
    (\<forall>k' k''. \<exists>db''. sqlite_upsert_profile_key u k' db' = (Inr True, db'') \<and>
       load_profile u k'' db'' = (Inr None, db'')) \<and>
    (\<exists>db''. save_profile_avatar u k avatar url db' = (Inr (), db'') \<and>
       clear_profiles db'' = (Inl Sq_Db, db''))"
proof -
  let ?keys = "replace_row (\<lambda>(v, _). v = u) (u, key32_bytes k) (db_profile_keys db)"
  let ?profiles = "if list_ex (\<lambda>(v, _). v = u) (db_profile_keys db)
            then filter (\<lambda>p. sp_uuid p \<noteq> u) (db_profiles db) else db_profiles db"
  let ?db = "db\<lparr>db_profile_keys := ?keys,
    db_profiles := replace_row (\<lambda>x. sp_uuid x = u) (profiles_row u p) ?profiles\<rparr>"
  have save: "save_profile u k p db = (Inr (), ?db)"
    by (simp add: save_profile_def io_simps sqlite_upsert_profile_key_def execute_sql_def Let_def)
  have row: "sp_uuid (profiles_row u p) = u" by (simp add: profiles_row_def)
  have "select_one (\<lambda>x. sp_uuid x = u) (replace_row (\<lambda>x. sp_uuid x = u) (profiles_row u p) ?profiles) =
      Some (profiles_row u p)"
    by (rule select_replaced) (simp_all add: row)
  then have get: "load_profile u k' ?db = (Inr (if k' = k then Some p else None), ?db)" for k'
    by (auto simp: load_profile_def query_sql_def list_ex_iff replace_row_def)
  have other: "fst (load_profile u' k' ?db) = fst (load_profile u' k' db)" if "u' \<noteq> u" for u' k'
  proof -
    have "select_one (\<lambda>x. sp_uuid x = u') (replace_row (\<lambda>x. sp_uuid x = u) (profiles_row u p) ?profiles) =
        select_one (\<lambda>x. sp_uuid x = u') ?profiles"
      by (rule select_kept) (use that row in auto)
    also have "\<dots> = select_one (\<lambda>x. sp_uuid x = u') (db_profiles db)"
      using that by (auto intro: select_filter)
    finally have 1: "select_one (\<lambda>x. sp_uuid x = u') (db_profiles ?db) =
        select_one (\<lambda>x. sp_uuid x = u') (db_profiles db)" by simp
    have 2: "list_ex (\<lambda>(v, b). v = u' \<and> b = key32_bytes k') ?keys \<longleftrightarrow>
        list_ex (\<lambda>(v, b). v = u' \<and> b = key32_bytes k') (db_profile_keys db)"
      using that by (auto simp: list_ex_iff replace_row_def)
    show ?thesis using 1 2 by (simp add: load_profile_def query_sql_def)
  qed
  have upsert: "\<exists>db''. sqlite_upsert_profile_key u k' ?db = (Inr True, db'') \<and>
      load_profile u k'' db'' = (Inr None, db'')" for k' k''
  proof -
    have "list_ex (\<lambda>(v, _). v = u) ?keys" by (auto simp: list_ex_iff replace_row_def)
    moreover have "select_one (\<lambda>p. sp_uuid p = u) (filter (\<lambda>p. sp_uuid p \<noteq> u) ps) = None" for ps :: "sql_profile list"
      by (rule select_none) simp
    ultimately show ?thesis
      by (simp add: sqlite_upsert_profile_key_def load_profile_def query_sql_def)
  qed
  have clear: "\<exists>db''. save_profile_avatar u k avatar url ?db = (Inr (), db'') \<and>
      clear_profiles db'' = (Inl Sq_Db, db'')"
    by (auto simp: save_profile_avatar_def clear_profiles_def avatar_needs_key_def list_ex_iff
        replace_row_def)
  from save get other upsert clear show ?thesis by auto
qed

definition sample_profile :: profile where
  "sample_profile =
     \<lparr>pf_name = Some \<lparr>pn_given_name = ''Ada'', pn_family_name = None\<rparr>, pf_about = None,
      pf_about_emoji = None, pf_avatar = None, pf_unrestricted_unidentified_access = False\<rparr>"

lemma sqlite_profile_spec_witness:
  "\<exists>db'. save_profile (sample_uuid 1) (sample_key32 1) sample_profile sqlite_empty = (Inr (), db') \<and>
    load_profile (sample_uuid 1) (sample_key32 1) db' = (Inr (Some sample_profile), db') \<and>
    load_profile (sample_uuid 1) (sample_key32 2) db' = (Inr None, db')"
proof -
  have "key32_bytes (sample_key32 2) \<noteq> key32_bytes (sample_key32 1)" by simp
  then have "sample_key32 2 \<noteq> sample_key32 1" by metis
  with sqlite_profile_spec [of "sample_uuid 1" "sample_key32 1" sample_profile sqlite_empty]
  show ?thesis by blast
qed

end
