(* ===== verification/Spec2Isabelle.thy ===== *)
theory Spec2Isabelle
  imports Convergence Store_Defaults Sync_Laws Cli_Laws Stream_Keys Download_Laws Profile_Laws Session_Laws Backup_Import_Laws Backup_Transfer Group_Props Receive_Laws Message_Laws Backup_Laws Protocol_Props Publish_Props Retries Wire_Access Call_Machine Stickers Messages Contacts Sqlite_Messages
begin

text \<open>
  A verification development for presage, a Rust client library of the Signal messenger. Presage
  sits between libsignal (cryptography, the wire protocol, the services of the Signal server) and a
  messenger application: it registers or links a device, keeps its keys, receives, files and sends
  messages, changes groups, imports a backup, and keeps contacts, groups, chat folders, sticker packs
  and account settings in step with the account's other devices.

  \<^bold>\<open>The parts and how they interact.\<close> A \<open>Manager\<close> (\<open>presage/src/manager\<close>) carries out every
  operation against a store, which it knows as the traits \<open>Store\<close>, \<open>ContentsStore\<close> and \<open>StateStore\<close>
  (\<open>presage/src/store.rs\<close>). \<open>presage-store-sqlite\<close> implements them over a database. A change of a
  contact, group, folder, sticker pack or of the account writes the row together with a needs-sync
  flag and then publishes: the storage service's manifest is read, the record is edited byte by byte
  (\<open>storage_record.rs\<close>) so that fields unknown to this client survive, and the new manifest is written
  if no other device was faster. In the other direction a sync reads what changed and merges it,
  except where the flag or a bitmap of edited fields says the local value is newer. Messages arrive
  through a stream that decrypts, answers sync requests and saves; the history of calls is a state
  machine per call over those messages. A backup import converts frames into the rows a live client
  would have stored, so that it ends in the same store operations.

  \<^bold>\<open>How the code is modelled.\<close> Structs are records, enums are datatypes, integers are words of
  their width (\<open>u32\<close>, \<open>u64\<close>), \<open>usize\<close> positions are \<open>nat\<close>. A \<open>Result\<close> is a sum with the error on the left. An
  \<open>async\<close> method takes the world \<open>'w\<close> and returns a result with the new world; \<open>bindE\<close>, \<open>thenE\<close>, \<open>call\<close> and
  their like are \<open>?\<close>, sequencing and the logged-and-ignored call (theory Prelude). What is not in the
  repository is an operation of a dictionary the definitions take: \<open>store_ops\<close> (the trait),
  \<open>account_env\<close> (the storage service), \<open>group_env\<close>, \<open>message_env\<close>, \<open>device_env\<close>, \<open>download_env\<close>,
  \<open>profile_env\<close>, \<open>onboarding_env\<close>, \<open>import_env\<close>, \<open>transfer_env\<close>, and codecs such as \<open>contact_codec\<close>, \<open>sqlite_env\<close> and
  \<open>import_codec\<close>. Since every such operation may change the world as it likes, what other tasks and
  devices do between two calls is part of the model; the laws say what is relied on.

  \<^bold>\<open>Theories.\<close>

  Foundations.
  \<^item> Prelude: bytes, \<open>Uuid\<close>, 32-byte keys, the result and state combinators. Io_Rules: Hoare rules
    (\<open>triple\<close>, \<open>keeps\<close>) for them.
  \<^item> Store (\<open>store.rs\<close>, \<open>errors.rs\<close>): the trait as \<open>store_ops\<close>, the methods it implements itself, and the
    contracts of a row with a flag. Store_Defaults: the bodies the traits give, and what becomes of an edit on
    a store that keeps them, as the SQLite store does. Desk: the reference store the manager's laws are computed on, and
    \<open>simulates\<close>, which lifts them to every store that refines it.

  Models (\<open>presage/src/model\<close>, \<open>storage_record.rs\<close>).
  \<^item> Wire, Wire_Fields, Wire_Edit, Wire_Record, Wire_Access (\<open>storage_record.rs\<close>): the scanner and editor;
    its reading as a list of fields; varints and one edit; edits inside a record; the named getters and
    setters as interpretations of \<open>record_accessor\<close> and \<open>record_accessor_pair\<close>.
  \<^item> Account, Chat_Folders, Contacts, Group_Model, Messages, Stickers: the files of that name, and the
    sticker parts of \<open>store.rs\<close> and \<open>manager/storage.rs\<close>. Sample_Codec: a concrete codec for witnesses.
  \<^item> Calls, Call_Machine (\<open>model/calls.rs\<close>): the enumerations, the merge of events, and the convergence of
    the two status machines (\<open>call_machine\<close>).

  The SQLite store (\<open>presage-store-sqlite/src\<close>).
  \<^item> Sqlite_Data (\<open>data.rs\<close>), Sqlite_Content (\<open>content.rs\<close> and the schema), Sqlite_State (\<open>lib.rs\<close>),
    Sqlite_Protocol (\<open>protocol.rs\<close>): each statement as a function on tables.
  \<^item> Sqlite_Laws, Sqlite_Messages, Sqlite_Props: what a load finds after a save, with the foreign keys
    and cascades that make a statement fail or delete more. Protocol_Laws, Protocol_Props: the protocol
    tables as keyed tables, the invariants of every reachable store (\<open>proto_step\<close>), sessions as a map.

  The storage service (\<open>manager/storage.rs\<close>, \<open>manager/chat_folders.rs\<close>).
  \<^item> Merge, Merge_Laws: merging a remote record, the bitmaps of edited fields (\<open>pending_publish\<close>).
  \<^item> Manifest, Manifest_Laws, Retries: editing and writing the manifest, what a write may change
    (\<open>server_ok\<close>), how often it is tried. Drains, Publish, Publish_Props: the publishers, and that they
    lose no edit. Sample_Account: a concrete account.
  \<^item> Sync, Sync_Laws: reading the storage service: the resume point, the manifest, the changed records, and
    that a sync that succeeds has read every record the account names. Convergence: several devices that edit,
    sync and publish one contact.

  The manager (\<open>manager/registered.rs\<close> unless named).
  \<^item> Onboarding, Onboarding_Laws, Sqlite_Onboarding, Sample_Registration (\<open>registration.rs\<close>, \<open>confirmation.rs\<close>,
    \<open>linking.rs\<close>): becoming registered or linked is all or nothing (\<open>registration_store\<close>), and so it is on SQLite.
  \<^item> Devices, Devices_Laws: sockets, uploads of keys and attributes, linking and unlinking devices.
    Server_Calls: the methods that put one question to the server or prepare one small message.
  \<^item> Group_Service, Group_Laws, Group_Props: fetching, hydrating and changing groups; \<open>contended_server\<close>
    and \<open>group_world\<close> are the group server and the row under competing clients.
  \<^item> Chat_Edits, Chat_Laws: block, mute, archive, pin. Save_Message, Sending, Message_Laws: filing and
    sending messages. Receive, Receive_Laws, Stream_Keys: the stream, what it yields and which keys it keeps.
  \<^item> Downloads, Download_Laws, Profiles, Profile_Laws, Sessions, Session_Laws: attachments and stickers,
    profiles and avatars, clearing and resetting sessions.

  Backups (\<open>presage/src/backup\<close> and the import in \<open>registered.rs\<close>).
  \<^item> Backup_Groups, Backup_Laws (\<open>group_change.rs\<close>): a backup's group history as encrypted changes, and
    the coalescing of a stream as the merging of its runs.
  \<^item> Backup_Rows, Backup_Items, Backup_Item_Laws (\<open>convert.rs\<close>): frames as rows, contacts and groups.
  \<^item> Backup_Import, Backup_Import_Laws, Backup_Transfer: the import of a file and the download of the
    archive, which resumes where an attempt stopped.

  The command-line client (\<open>presage-cli/src/main.rs\<close>).
  \<^item> Cli_Print, Cli_Commands, Cli_Laws: the text of a message, every command as calls of the manager with
    what it prints, the loop that receives; and which contents end that loop with a panic.

  \<^bold>\<open>What the laws show.\<close> No local edit is lost: not in the bytes of a record (an edit is local), not
  in a manifest (an accepted write changes exactly what it names), not in a sync followed by a publish,
  not when another task edits during the publish, and not between devices, which agree once they stop editing. Whatever arrives in any order settles: calls,
  expire timers, base keys, folder deletions, pins and archives. What is stored is what is read: every load
  after every save of the SQLite store, contacts, messages, sessions, keys of a linked device, rows of a
  backup. What may fail fails as a value: refusals before the server is asked, failed sends that
  leave rows alone, interrupted transfers and registrations. And the operations against a contended
  server come through: leaving a group, hydrating stubs, unlinking this device.

  \<^bold>\<open>Bounds and fuel.\<close> Every definition is total. Bounded retries recurse on the code's own
  constant: \<open>MANIFEST_WRITE_ATTEMPTS\<close> (3), \<open>MAX_PASSES\<close> (6), three retries of a group conflict, \<open>SELF_UNLINK_ATTEMPTS\<close>
  (3). The scanner's loop recurses on the bytes left, its varints on at most ten bytes; batches of
  2500 records and the shares of the hydration workers on the list they cut. What the code reads until
  it ends (a download, the stream of events, the frames of a backup, what the client's loop receives) is the list of what the reads return,
  so the recursion ends with it; a stream that never ends yields what its prefixes yield. No fuel is
  chosen anywhere else.

  \<^bold>\<open>Order.\<close> Futures joined with \<open>join_all\<close> (the hydration workers, the uploads of attachments) run one after
  another (\<open>run_all\<close>): their interleavings are not modelled, only that other clients may act between
  any two calls. Tasks handed to \<open>tokio::spawn\<close> are values a dictionary operation runs. Locks are not modelled: a
  socket cache is read and filled in one step.

  \<^bold>\<open>What is not modelled.\<close> The cryptography, protobuf codecs, sockets and services of libsignal and
  the SQL engine's syntax: they are the dictionaries above. Opening, encrypting and migrating the
  database. The spam report, and the caches of group credentials and of push-service clients. Of the
  command-line client its argument parser, the set-up of logging and of a temporary directory, the rendering of
  a QR code. Log output, \<open>Debug\<close> texts and the serde helper of \<open>serde.rs\<close>. Two methods of the protocol
  store are \<open>unimplemented!\<close> in the source and have no model.
\<close>

end
